(* ===== verification/Prelude.thy ===== *)
theory Prelude
imports Main "HOL-Library.Sublist" "HOL-Library.Char_ord"
begin

text \<open>
  Shared vocabulary of the development.  Text is a HOL string, the code points
  0..255 of a Python \<open>str\<close>; tables that leave that range (NFKC, case folding) and
  cryptographic functions are parameters of the definitions that use them.
  An instant is a number of microseconds in UTC, so that \<open>timedelta\<close> arithmetic is
  integer arithmetic; a fallible routine returns a sum with the error on the left.
\<close>

named_theorems guard_simps \<open>unfolding of the guards of a handler\<close>
named_theorems status_rules \<open>facts about the recording status machine\<close>
named_theorems text_simps \<open>equations of the text functions\<close>

type_synonym instant = int
type_synonym ('e, 'a) result = "'e + 'a"

abbreviation seconds :: "int \<Rightarrow> int" where "seconds n \<equiv> n * 1000000"
abbreviation minutes :: "int \<Rightarrow> int" where "minutes n \<equiv> n * 60000000"
abbreviation hours :: "int \<Rightarrow> int" where "hours n \<equiv> n * 3600000000"
abbreviation days :: "int \<Rightarrow> int" where "days n \<equiv> n * 86400000000"

section \<open>Results\<close>

definition res_bind :: "'e + 'a \<Rightarrow> ('a \<Rightarrow> 'e + 'b) \<Rightarrow> 'e + 'b" where
  "res_bind m f = (case m of Inl e \<Rightarrow> Inl e | Inr x \<Rightarrow> f x)"

lemma res_bind_simps [simp]:
  "res_bind (Inl e) f = Inl e"
  "res_bind (Inr x) f = f x"
  by (simp_all add: res_bind_def)

lemma res_bind_Inr_iff: "res_bind m f = Inr y \<longleftrightarrow> (\<exists>x. m = Inr x \<and> f x = Inr y)"
  by (cases m) auto

lemma res_bind_Inl_iff:
  "res_bind m f = Inl e \<longleftrightarrow> m = Inl e \<or> (\<exists>x. m = Inr x \<and> f x = Inl e)"
  by (cases m) auto

fun res_map :: "('a \<Rightarrow> 'e + 'b) \<Rightarrow> 'a list \<Rightarrow> 'e + 'b list" where
  "res_map f [] = Inr []"
| "res_map f (x # xs) = res_bind (f x) (\<lambda>y. res_bind (res_map f xs) (\<lambda>ys. Inr (y # ys)))"

lemma res_map_Inr_iff:
  "res_map f xs = Inr ys \<longleftrightarrow> list_all2 (\<lambda>x y. f x = Inr y) xs ys"
proof (induction xs arbitrary: ys)
  case Nil
  then show ?case by auto
next
  case (Cons x xs)
  then show ?case by (cases ys) (auto simp: res_bind_Inr_iff)
qed

lemma res_map_member: "res_map f xs = Inr ys \<Longrightarrow> y \<in> set ys \<Longrightarrow> \<exists>x\<in>set xs. f x = Inr y"
  by (induction xs arbitrary: ys) (auto simp: res_bind_Inr_iff)

lemma res_map_image: "res_map f xs = Inr ys \<Longrightarrow> x \<in> set xs \<Longrightarrow> \<exists>y\<in>set ys. f x = Inr y"
  by (induction xs arbitrary: ys) (auto simp: res_bind_Inr_iff)

definition check_that :: "bool \<Rightarrow> 'e \<Rightarrow> 'e + 'a \<Rightarrow> 'e + 'a" where
  "check_that b e k = (if b then k else Inl e)"

lemma check_that_simps [simp]:
  "check_that True e k = k"
  "check_that False e k = Inl e"
  by (simp_all add: check_that_def)

lemma check_that_Inr_iff [guard_simps]: "check_that b e k = Inr x \<longleftrightarrow> b \<and> k = Inr x"
  by (simp add: check_that_def)

lemma check_that_Inl_iff: "check_that b e k = Inl d \<longleftrightarrow> (\<not> b \<and> d = e) \<or> (b \<and> k = Inl d)"
  by (auto simp: check_that_def)

section \<open>Text\<close>

text \<open>\<open>str.isspace\<close> and the regular expression \<open>\s\<close> on the code points 0..255.\<close>

definition py_space :: "char \<Rightarrow> bool" where
  "py_space c = (let n = (of_char c :: nat) in
     (9 \<le> n \<and> n \<le> 13) \<or> (28 \<le> n \<and> n \<le> 32) \<or> n = 133 \<or> n = 160)"

definition lstrip_by :: "(char \<Rightarrow> bool) \<Rightarrow> string \<Rightarrow> string" where
  "lstrip_by p s = dropWhile p s"

definition rstrip_by :: "(char \<Rightarrow> bool) \<Rightarrow> string \<Rightarrow> string" where
  "rstrip_by p s = rev (dropWhile p (rev s))"

definition strip_by :: "(char \<Rightarrow> bool) \<Rightarrow> string \<Rightarrow> string" where
  "strip_by p s = rstrip_by p (lstrip_by p s)"

abbreviation py_strip :: "string \<Rightarrow> string" where "py_strip \<equiv> strip_by py_space"

lemma rstrip_by_prefix: "prefix (rstrip_by p s) s"
proof -
  have "suffix (dropWhile p (rev s)) (rev s)"
    by (rule suffix_dropWhile)
  then show ?thesis
    by (simp add: rstrip_by_def suffix_to_prefix)
qed

lemma rstrip_by_last: "rstrip_by p s \<noteq> [] \<Longrightarrow> \<not> p (last (rstrip_by p s))"
  unfolding rstrip_by_def by (simp add: last_rev hd_dropWhile)

lemma set_rstrip_by: "set (rstrip_by p s) \<subseteq> set s"
  using rstrip_by_prefix[of p s] by (auto dest: set_mono_prefix)

lemma set_lstrip_by: "set (lstrip_by p s) \<subseteq> set s"
  unfolding lstrip_by_def by (meson set_dropWhileD subsetI)

lemma set_strip_by: "set (strip_by p s) \<subseteq> set s"
  unfolding strip_by_def using set_rstrip_by set_lstrip_by by blast

lemma length_rstrip_by: "length (rstrip_by p s) \<le> length s"
  using rstrip_by_prefix[of p s] by (rule prefix_length_le)

lemma rstrip_by_id: "s = [] \<or> \<not> p (last s) \<Longrightarrow> rstrip_by p s = s"
  unfolding rstrip_by_def by (cases s rule: rev_cases) auto

lemma rstrip_by_idem [simp]: "rstrip_by p (rstrip_by p s) = rstrip_by p s"
  using rstrip_by_id rstrip_by_last by blast

lemma rstrip_by_hd: "rstrip_by p s \<noteq> [] \<Longrightarrow> hd (rstrip_by p s) = hd s"
proof -
  assume ne: "rstrip_by p s \<noteq> []"
  obtain zs where "s = rstrip_by p s @ zs"
    using rstrip_by_prefix[of p s] by (auto simp: prefix_def)
  then show ?thesis using ne by (metis hd_append2)
qed

lemma strip_by_ends:
  assumes "strip_by p s \<noteq> []"
  shows "\<not> p (hd (strip_by p s))" "\<not> p (last (strip_by p s))"
proof -
  have ne: "lstrip_by p s \<noteq> []"
    using assms by (auto simp: strip_by_def rstrip_by_def)
  show "\<not> p (hd (strip_by p s))"
    using assms ne rstrip_by_hd[of p "lstrip_by p s"]
    by (simp add: strip_by_def lstrip_by_def hd_dropWhile)
  show "\<not> p (last (strip_by p s))"
    using assms rstrip_by_last[of p "lstrip_by p s"] by (simp add: strip_by_def)
qed

lemma rstrip_by_empty_iff: "rstrip_by p s = [] \<longleftrightarrow> (\<forall>c\<in>set s. p c)"
  by (simp add: rstrip_by_def dropWhile_eq_Nil_conv)

lemma strip_by_empty_iff: "strip_by p s = [] \<longleftrightarrow> (\<forall>c\<in>set s. p c)"
proof
  assume e: "strip_by p s = []"
  then have "\<forall>c\<in>set (dropWhile p s). p c"
    by (simp add: strip_by_def lstrip_by_def rstrip_by_empty_iff)
  then have "dropWhile p s = []"
    by (metis hd_dropWhile hd_in_set)
  then show "\<forall>c\<in>set s. p c" by (simp add: dropWhile_eq_Nil_conv)
next
  assume "\<forall>c\<in>set s. p c"
  then show "strip_by p s = []"
    by (simp add: strip_by_def lstrip_by_def rstrip_by_empty_iff set_dropWhileD)
qed

text \<open>\<open>str.split(sep)\<close> for a one-character separator and \<open>sep.join(parts)\<close>.\<close>

fun split_on :: "char \<Rightarrow> string \<Rightarrow> string list" where
  "split_on c [] = [[]]"
| "split_on c (x # xs) =
     (if x = c then [] # split_on c xs
      else (case split_on c xs of [] \<Rightarrow> [[x]] | y # ys \<Rightarrow> (x # y) # ys))"

fun join_with :: "string \<Rightarrow> string list \<Rightarrow> string" where
  "join_with sep [] = []"
| "join_with sep [x] = x"
| "join_with sep (x # y # ys) = x @ sep @ join_with sep (y # ys)"

lemma split_on_ne [simp]: "split_on c s \<noteq> []"
  by (induction s) (auto split: list.splits)

lemma split_on_parts: "p \<in> set (split_on c s) \<Longrightarrow> c \<notin> set p"
proof (induction s arbitrary: p)
  case Nil
  then show ?case by simp
next
  case (Cons x xs)
  then show ?case by (cases "split_on c xs") (auto split: if_splits)
qed

lemma join_split [simp]: "join_with [c] (split_on c s) = s"
proof (induction s)
  case Nil
  then show ?case by simp
next
  case (Cons x xs)
  obtain y ys where sp: "split_on c xs = y # ys"
    by (cases "split_on c xs") auto
  then show ?case using Cons by (cases ys) auto
qed

lemma split_on_append_sep:
  "c \<notin> set p \<Longrightarrow> split_on c (p @ c # s) = p # split_on c s"
  by (induction p) auto

lemma split_on_none: "c \<notin> set p \<Longrightarrow> split_on c p = [p]"
  by (induction p) auto

lemma split_join:
  "ps \<noteq> [] \<Longrightarrow> (\<forall>p\<in>set ps. c \<notin> set p) \<Longrightarrow> split_on c (join_with [c] ps) = ps"
proof (induction "[c]" ps rule: join_with.induct)
  case 1
  then show ?case by simp
next
  case (2 x)
  then show ?case by (simp add: split_on_none)
next
  case (3 x y ys)
  then show ?case by (simp add: split_on_append_sep)
qed

lemma split_on_append: "split_on c (s @ c # t) = split_on c s @ split_on c t"
proof (induction s)
  case Nil
  then show ?case by simp
next
  case (Cons x xs)
  then show ?case by (cases "split_on c xs") auto
qed

fun replace_char :: "char \<Rightarrow> string \<Rightarrow> string \<Rightarrow> string" where
  "replace_char c r [] = []"
| "replace_char c r (x # xs) = (if x = c then r else [x]) @ replace_char c r xs"

text \<open>\<open>str.lower\<close> on the code points 0..255, which it maps into themselves.\<close>

definition lower_char :: "char \<Rightarrow> char" where
  "lower_char c = (let n = (of_char c :: nat) in
     if (65 \<le> n \<and> n \<le> 90) \<or> (192 \<le> n \<and> n \<le> 222 \<and> n \<noteq> 215) then char_of (n + 32) else c)"

abbreviation lower_text :: "string \<Rightarrow> string" where "lower_text \<equiv> map lower_char"

definition utf8_size :: "string \<Rightarrow> nat" where
  "utf8_size s = sum_list (map (\<lambda>c. if (of_char c :: nat) < 128 then 1 else 2) s)"

lemma utf8_size_simps [simp]:
  "utf8_size [] = 0"
  "utf8_size (s @ t) = utf8_size s + utf8_size t"
  by (simp_all add: utf8_size_def)

lemma length_le_utf8_size: "length s \<le> utf8_size s"
  by (induction s) (auto simp: utf8_size_def)

text \<open>\<open>str.split()\<close>: the words between white space; the first argument is the current word backwards.\<close>

fun py_words :: "string \<Rightarrow> string \<Rightarrow> string list" where
  "py_words cur [] = (if cur = '''' then [] else [rev cur])"
| "py_words cur (c # cs) =
     (if py_space c then (if cur = '''' then py_words '''' cs else rev cur # py_words '''' cs)
      else py_words (c # cur) cs)"

text \<open>Decimal text of a natural number, as \<open>str(n)\<close>.\<close>

definition digit_char :: "nat \<Rightarrow> char" where
  "digit_char n = char_of (48 + n mod 10)"

fun nat_text :: "nat \<Rightarrow> string" where
  "nat_text n = (if n < 10 then [digit_char n] else nat_text (n div 10) @ [digit_char n])"

declare nat_text.simps [simp del]

definition int_text :: "int \<Rightarrow> string" where
  "int_text n = (if n < 0 then CHR ''-'' # nat_text (nat (- n)) else nat_text (nat n))"

section \<open>Lists and options\<close>

definition opt_or :: "'a option \<Rightarrow> 'a \<Rightarrow> 'a" where
  "opt_or m d = (case m of None \<Rightarrow> d | Some x \<Rightarrow> x)"

lemma opt_or_simps [simp]: "opt_or None d = d" "opt_or (Some x) d = x"
  by (simp_all add: opt_or_def)

text \<open>Truthiness of an optional text: neither \<open>None\<close> nor empty.\<close>

definition truthy :: "string option \<Rightarrow> bool" where
  "truthy m = (case m of None \<Rightarrow> False | Some s \<Rightarrow> s \<noteq> [])"

lemma truthy_simps [simp]:
  "\<not> truthy None"
  "truthy (Some s) \<longleftrightarrow> s \<noteq> []"
  by (simp_all add: truthy_def)

lemma truthy_iff: "truthy m \<longleftrightarrow> (\<exists>s. m = Some s \<and> s \<noteq> [])"
  by (cases m) auto

text \<open>Replacing the rows of a table that satisfy a predicate, as an \<open>UPDATE ... WHERE\<close>.\<close>

definition update_where :: "('a \<Rightarrow> bool) \<Rightarrow> ('a \<Rightarrow> 'a) \<Rightarrow> 'a list \<Rightarrow> 'a list" where
  "update_where p f rows = map (\<lambda>r. if p r then f r else r) rows"

lemma update_where_simps [simp]:
  "update_where p f [] = []"
  "update_where p f (r # rs) = (if p r then f r else r) # update_where p f rs"
  by (simp_all add: update_where_def)

lemma length_update_where [simp]: "length (update_where p f rows) = length rows"
  by (simp add: update_where_def)

lemma map_update_where:
  "(\<And>r. p r \<Longrightarrow> g (f r) = g r) \<Longrightarrow> map g (update_where p f rows) = map g rows"
  by (simp add: update_where_def)

lemma in_update_where:
  "x \<in> set (update_where p f rows) \<longleftrightarrow>
     (\<exists>r\<in>set rows. (p r \<and> x = f r) \<or> (\<not> p r \<and> x = r))"
  by (auto simp: update_where_def)

lemma in_update_other: "r \<in> set rows \<Longrightarrow> \<not> p r \<Longrightarrow> r \<in> set (update_where p f rows)"
  by (auto simp: in_update_where)

lemma same_key: "distinct (map f xs) \<Longrightarrow> x \<in> set xs \<Longrightarrow> y \<in> set xs \<Longrightarrow> f x = f y \<Longrightarrow> x = y"
  by (meson distinct_map inj_onD)

lemma update_by_key:
  "distinct (map k rows) \<Longrightarrow> r \<in> set rows \<Longrightarrow>
     update_where (\<lambda>x. k x = k r) (\<lambda>_. f r) rows = update_where (\<lambda>x. x = r) f rows"
  unfolding update_where_def by (rule map_cong[OF refl]) (auto dest: same_key)

lemma find_SomeD: "find p xs = Some x \<Longrightarrow> x \<in> set xs \<and> p x"
  by (auto simp: find_Some_iff)

lemma find_append: "find p (xs @ ys) = (case find p xs of None \<Rightarrow> find p ys | Some x \<Rightarrow> Some x)"
  by (induction xs) auto

lemma find_replaced:
  "find p xs = Some x \<Longrightarrow> p y \<Longrightarrow> find p (update_where p (\<lambda>_. y) xs) = Some y"
  by (induction xs) (auto split: if_splits)

lemma find_by_key:
  "distinct (map k rows) \<Longrightarrow> r \<in> set rows \<Longrightarrow> find (\<lambda>x. k x = k r) rows = Some r"
  by (induction rows) force+

section \<open>Decoded JSON\<close>

text \<open>A decoded JSON document; an object keeps its members in order, the first one counts.\<close>

datatype json =
    JNull
  | JBool bool
  | JInt int
  | JStr string
  | JList "json list"
  | JObj "(string \<times> json) list"

text \<open>\<open>x.get(k) if isinstance(x, dict) else None\<close>; a missing member reads as \<open>null\<close>.\<close>

fun jget :: "string \<Rightarrow> json \<Rightarrow> json" where
  "jget k (JObj ms) = (case map_of ms k of None \<Rightarrow> JNull | Some v \<Rightarrow> v)"
| "jget k _ = JNull"

fun json_get :: "string \<Rightarrow> json \<Rightarrow> json option" where
  "json_get k (JObj ms) = map_of ms k"
| "json_get k _ = None"

fun is_obj :: "json \<Rightarrow> bool" where
  "is_obj (JObj _) = True"
| "is_obj _ = False"

fun is_list :: "json \<Rightarrow> bool" where
  "is_list (JList _) = True"
| "is_list _ = False"

fun jtext :: "json \<Rightarrow> string option" where
  "jtext (JStr s) = Some s"
| "jtext _ = None"

fun jitems :: "json \<Rightarrow> json list" where
  "jitems (JList xs) = xs"
| "jitems _ = []"

text \<open>\<open>isinstance(x, int)\<close>: a boolean is an integer of Python.\<close>

fun jint :: "json \<Rightarrow> int option" where
  "jint (JInt n) = Some n"
| "jint (JBool b) = Some (if b then 1 else 0)"
| "jint _ = None"

fun jtruthy :: "json \<Rightarrow> bool" where
  "jtruthy JNull = False"
| "jtruthy (JBool b) = b"
| "jtruthy (JInt n) = (n \<noteq> 0)"
| "jtruthy (JStr s) = (s \<noteq> '''')"
| "jtruthy (JList xs) = (xs \<noteq> [])"
| "jtruthy (JObj ms) = (ms \<noteq> [])"

text \<open>Members of a set literal must be hashable.\<close>

definition hashable :: "json \<Rightarrow> bool" where
  "hashable j \<longleftrightarrow> \<not> is_obj j \<and> \<not> is_list j"

section \<open>Effects\<close>

text \<open>
  A routine that talks to an outside world of type \<open>'w\<close> and may raise: the world after it is
  returned in both cases.
\<close>

type_synonym ('w, 'e, 'a) io = "'w \<Rightarrow> ('e + 'a) \<times> 'w"

definition io_return :: "'a \<Rightarrow> ('w, 'e, 'a) io" where
  "io_return x = (\<lambda>w. (Inr x, w))"

definition io_raise :: "'e \<Rightarrow> ('w, 'e, 'a) io" where
  "io_raise e = (\<lambda>w. (Inl e, w))"

definition io_bind :: "('w, 'e, 'a) io \<Rightarrow> ('a \<Rightarrow> ('w, 'e, 'b) io) \<Rightarrow> ('w, 'e, 'b) io" where
  "io_bind m f = (\<lambda>w. case m w of (Inl e, w1) \<Rightarrow> (Inl e, w1) | (Inr x, w1) \<Rightarrow> f x w1)"

definition io_catch :: "('w, 'e, 'a) io \<Rightarrow> ('e \<Rightarrow> ('w, 'e, 'a) io) \<Rightarrow> ('w, 'e, 'a) io" where
  "io_catch m h = (\<lambda>w. case m w of (Inl e, w1) \<Rightarrow> h e w1 | (Inr x, w1) \<Rightarrow> (Inr x, w1))"

definition io_lift :: "'e + 'a \<Rightarrow> ('w, 'e, 'a) io" where
  "io_lift v = (\<lambda>w. (v, w))"

definition io_guard :: "bool \<Rightarrow> 'e \<Rightarrow> ('w, 'e, 'a) io \<Rightarrow> ('w, 'e, 'a) io" where
  "io_guard b e m = (if b then m else io_raise e)"

lemma io_run [simp]:
  "io_return x w = (Inr x, w)"
  "io_raise e w = (Inl e, w)"
  "io_lift v w = (v, w)"
  by (simp_all add: io_return_def io_raise_def io_lift_def)

lemma io_guard_run [simp]:
  "io_guard True e m = m"
  "io_guard False e m = io_raise e"
  by (simp_all add: io_guard_def)

lemma io_bind_run [simp]:
  "m w = (Inl e, w1) \<Longrightarrow> io_bind m f w = (Inl e, w1)"
  "m w = (Inr x, w1) \<Longrightarrow> io_bind m f w = f x w1"
  by (simp_all add: io_bind_def)

lemma io_bind_app:
  "io_bind m f w = (case m w of (Inl e, w1) \<Rightarrow> (Inl e, w1) | (Inr x, w1) \<Rightarrow> f x w1)"
  by (simp add: io_bind_def)

lemma io_catch_app:
  "io_catch m h w = (case m w of (Inl e, w1) \<Rightarrow> h e w1 | (Inr x, w1) \<Rightarrow> (Inr x, w1))"
  by (simp add: io_catch_def)

lemma io_guard_app: "io_guard b e m w = (if b then m w else (Inl e, w))"
  by (simp add: io_guard_def)

lemmas io_apps = io_bind_app io_catch_app io_guard_app

lemma io_bind_Inr_iff:
  "io_bind m f w = (Inr y, w2) \<longleftrightarrow> (\<exists>x w1. m w = (Inr x, w1) \<and> f x w1 = (Inr y, w2))"
  by (auto simp: io_bind_def split: prod.splits sum.splits)

lemma io_bind_cases:
  assumes "io_bind m f w = (v, w2)"
  obtains (raised) e where "m w = (Inl e, w2)" "v = Inl e"
    | (passed) x w1 where "m w = (Inr x, w1)" "f x w1 = (v, w2)"
  using assms by (auto simp: io_bind_def split: prod.splits sum.splits)

lemma io_lift_bindE:
  assumes "io_bind (io_lift v) f w = (x, s)"
  obtains (raised) e where "v = Inl e" "x = Inl e" "s = w"
    | (passed) y where "v = Inr y" "f y w = (x, s)"
  using assms by (cases v) (auto simp: io_bind_def)

lemma io_guard_Inr_iff: "io_guard b e m w = (Inr y, w2) \<longleftrightarrow> b \<and> m w = (Inr y, w2)"
  by (cases b) auto

lemmas io_defs = io_return_def io_raise_def io_bind_def io_catch_def io_lift_def io_guard_def

text \<open>
  An invariant of the world that a routine keeps whether it returns or raises; the rules follow
  the structure of the routine.
\<close>

definition keeps :: "('w \<Rightarrow> bool) \<Rightarrow> ('w, 'e, 'a) io \<Rightarrow> bool" where
  "keeps I m \<longleftrightarrow> (\<forall>w. I w \<longrightarrow> I (snd (m w)))"

lemma keepsI: "(\<And>w v w1. I w \<Longrightarrow> m w = (v, w1) \<Longrightarrow> I w1) \<Longrightarrow> keeps I m"
  unfolding keeps_def by (metis prod.collapse)

lemma keepsD: "keeps I m \<Longrightarrow> I w \<Longrightarrow> m w = (v, w1) \<Longrightarrow> I w1"
  unfolding keeps_def by (metis snd_conv)

named_theorems keeps_rules \<open>structural rules for invariants of the world\<close>

lemma keeps_return [keeps_rules]: "keeps I (io_return x)"
  by (simp add: keeps_def)

lemma keeps_raise [keeps_rules]: "keeps I (io_raise e)"
  by (simp add: keeps_def)

lemma keeps_lift [keeps_rules]: "keeps I (io_lift v)"
  by (simp add: keeps_def)

lemma keeps_pair [keeps_rules]: "keeps I (Pair v)"
  by (simp add: keeps_def)

lemma keeps_guard [keeps_rules]: "(b \<Longrightarrow> keeps I m) \<Longrightarrow> keeps I (io_guard b e m)"
  by (cases b) (auto simp: keeps_raise)

lemma keeps_bind [keeps_rules]:
  assumes "keeps I m" and "\<And>x. keeps I (f x)"
  shows "keeps I (io_bind m f)"
proof (rule keepsI)
  fix w v w2
  assume "I w" and "io_bind m f w = (v, w2)"
  then show "I w2"
    using assms by (auto elim!: io_bind_cases dest: keepsD)
qed

lemma keeps_catch [keeps_rules]:
  assumes "keeps I m" and "\<And>e. keeps I (h e)"
  shows "keeps I (io_catch m h)"
proof (rule keepsI)
  fix w v w2
  assume w: "I w" and run: "io_catch m h w = (v, w2)"
  obtain r w1 where m: "m w = (r, w1)" by (cases "m w")
  then have "I w1" using assms(1) w by (blast dest: keepsD)
  then show "I w2"
    using run m assms(2) by (cases r) (auto simp: io_catch_def dest: keepsD)
qed

lemma keeps_if [keeps_rules]: "(b \<Longrightarrow> keeps I m) \<Longrightarrow> (\<not> b \<Longrightarrow> keeps I n) \<Longrightarrow> keeps I (if b then m else n)"
  by simp

lemma keeps_option [keeps_rules]:
  "keeps I m \<Longrightarrow> (\<And>x. keeps I (f x)) \<Longrightarrow> keeps I (case v of None \<Rightarrow> m | Some x \<Rightarrow> f x)"
  by (cases v) auto

lemma keeps_sum [keeps_rules]:
  "(\<And>e. keeps I (g e)) \<Longrightarrow> (\<And>x. keeps I (f x)) \<Longrightarrow> keeps I (case v of Inl e \<Rightarrow> g e | Inr x \<Rightarrow> f x)"
  by (cases v) auto

lemma keeps_bind_lift:
  assumes "\<And>x. v = Inr x \<Longrightarrow> keeps I (f x)"
  shows "keeps I (io_bind (io_lift v) f)"
  using assms by (cases v) (auto simp: keeps_def io_bind_def)

lemma keeps_let [keeps_rules]: "keeps I (f v) \<Longrightarrow> keeps I (let x = v in f x)"
  by simp

lemma keeps_prod [keeps_rules]: "(\<And>a b. keeps I (f a b)) \<Longrightarrow> keeps I (case v of (a, b) \<Rightarrow> f a b)"
  by (cases v) auto

text \<open>The same for the runs that raise.\<close>

definition keeps_raising :: "('w \<Rightarrow> bool) \<Rightarrow> ('w, 'e, 'a) io \<Rightarrow> bool" where
  "keeps_raising I m \<longleftrightarrow> (\<forall>w e w1. I w \<longrightarrow> m w = (Inl e, w1) \<longrightarrow> I w1)"

lemma keeps_raisingI: "(\<And>w e w1. I w \<Longrightarrow> m w = (Inl e, w1) \<Longrightarrow> I w1) \<Longrightarrow> keeps_raising I m"
  by (simp add: keeps_raising_def)

lemma keeps_raisingD: "keeps_raising I m \<Longrightarrow> I w \<Longrightarrow> m w = (Inl e, w1) \<Longrightarrow> I w1"
  by (simp add: keeps_raising_def)

lemma keeps_raising_guard: "keeps_raising I m \<Longrightarrow> keeps_raising I (io_guard b e m)"
  by (cases b) (auto simp: keeps_raising_def)

lemma keeps_raising_bind:
  assumes "keeps I m" and "\<And>x. keeps_raising I (f x)"
  shows "keeps_raising I (io_bind m f)"
proof (rule keeps_raisingI)
  fix w e w1
  assume w: "I w" and "io_bind m f w = (Inl e, w1)"
  from this(2) show "I w1"
  proof (cases rule: io_bind_cases)
    case (raised e1)
    then show ?thesis using keepsD[OF assms(1) w] by blast
  next
    case (passed x w2)
    then show ?thesis using keepsD[OF assms(1) w] keeps_raisingD[OF assms(2)] by blast
  qed
qed

section \<open>HTTP responses\<close>

text \<open>The status and the decoded body of a response; \<open>None\<close> is a body that is not JSON.\<close>

record http_response =
  resp_status :: int
  resp_json :: "json option"

definition payload_of :: "http_response \<Rightarrow> json" where
  "payload_of r = (case resp_json r of None \<Rightarrow> JObj [] | Some j \<Rightarrow> j)"

definition is_error_status :: "int \<Rightarrow> bool" where
  "is_error_status s \<longleftrightarrow> 400 \<le> s \<and> s \<le> 599"

end
