(* ===== verification/Filename.thy ===== *)
theory Filename
imports Prelude
begin

text \<open>
  \<open>app/services/filename.py\<close>: sanitised name components, and the file name and storage key of a
  recording built from them.  The normal form NFKC is the parameter \<open>nfkc\<close>.
\<close>

section \<open>Components\<close>

datatype filename_error =
    Component_empty
  | Extension_not_allowed
  | Key_prefix_empty
  | Key_too_long

definition reserved :: "char \<Rightarrow> bool" where
  "reserved c \<longleftrightarrow> c \<in> {CHR 0x5C, CHR ''/'', CHR '':'', CHR ''*'', CHR ''?'', CHR 0x22, CHR ''<'',
     CHR ''>'', CHR ''|''} \<or> (of_char c :: nat) < 32"

definition ALLOWED_EXTENSIONS :: "string list" where
  "ALLOWED_EXTENSIONS = [''webm'', ''mp4'', ''mov'', ''mkv'', ''mp3'', ''m4a'', ''wav'']"

definition MAX_COMPONENT :: nat where "MAX_COMPONENT = 100"
definition MAX_KEY :: nat where "MAX_KEY = 512"

text \<open>\<open>re.sub(r"[...]+", r, s)\<close> for a character class: each maximal run becomes \<open>r\<close>.\<close>

function sub_runs :: "(char \<Rightarrow> bool) \<Rightarrow> string \<Rightarrow> string \<Rightarrow> string" where
  "sub_runs p r [] = []"
| "sub_runs p r (x # xs) = (if p x then r @ sub_runs p r (dropWhile p xs) else x # sub_runs p r xs)"
  by pat_completeness auto
termination
  by (relation "measure (\<lambda>(p, r, s). length s)") (auto simp: less_Suc_eq_le length_dropWhile_le)

definition sub_reserved :: "string \<Rightarrow> string" where
  "sub_reserved s = map (\<lambda>c. if reserved c then CHR ''_'' else c) s"

definition space_dot :: "char \<Rightarrow> bool" where
  "space_dot c \<longleftrightarrow> c = CHR '' '' \<or> c = CHR ''.''"

definition space_dot_under :: "char \<Rightarrow> bool" where
  "space_dot_under c \<longleftrightarrow> c = CHR '' '' \<or> c = CHR ''.'' \<or> c = CHR ''_''"

definition sanitize_component :: "(string \<Rightarrow> string) \<Rightarrow> string \<Rightarrow> (filename_error, string) result" where
  "sanitize_component nfkc value =
     (let n0 = nfkc value;
          n1 = strip_by space_dot (sub_runs py_space '' '' n0);
          n2 = sub_reserved n1;
          n3 = strip_by space_dot_under (sub_runs py_space ''_'' n2)
      in if n3 = [] then Inl Component_empty
         else Inr (rstrip_by space_dot_under (take MAX_COMPONENT n3)))"

section \<open>File names and keys\<close>

text \<open>\<open>date.isoformat\<close>: four, two and two digits.\<close>

type_synonym date = "nat \<times> nat \<times> nat"

definition date_iso :: "date \<Rightarrow> string" where
  "date_iso d = (case d of (y, m, dd) \<Rightarrow>
     [digit_char (y div 1000), digit_char (y div 100), digit_char (y div 10), digit_char y,
      CHR ''-'', digit_char (m div 10), digit_char m,
      CHR ''-'', digit_char (dd div 10), digit_char dd])"

text \<open>\<open>PurePath(name).suffix.lstrip(".").lower()\<close>.\<close>

definition pure_parts :: "string \<Rightarrow> string list" where
  "pure_parts s = filter (\<lambda>p. p \<noteq> '''' \<and> p \<noteq> ''.'') (split_on CHR ''/'' s)"

definition pure_name :: "string \<Rightarrow> string" where
  "pure_name s = (if pure_parts s = [] then '''' else last (pure_parts s))"

definition after_last_dot :: "string \<Rightarrow> string" where
  "after_last_dot s = rev (takeWhile (\<lambda>c. c \<noteq> CHR ''.'') (rev s))"

definition pure_suffix :: "string \<Rightarrow> string" where
  "pure_suffix s =
     (let name = pure_name s; ext = after_last_dot name
      in if CHR ''.'' \<in> set name \<and> 0 < length ext \<and> length ext + 1 < length name
         then CHR ''.'' # ext else '''')"

definition file_extension :: "string \<Rightarrow> string" where
  "file_extension s = lower_text (lstrip_by (\<lambda>c. c = CHR ''.'') (pure_suffix s))"

record storage_identity =
  si_filename :: string
  si_key :: string

definition project_value :: "string option \<Rightarrow> string" where
  "project_value p =
     (case p of None \<Rightarrow> ''unspecified''
      | Some s \<Rightarrow> if py_strip s = '''' then ''unspecified'' else s)"

definition build_storage_identity ::
  "(string \<Rightarrow> string) \<Rightarrow> date \<Rightarrow> string \<Rightarrow> string option \<Rightarrow> string \<Rightarrow> string \<Rightarrow> string \<Rightarrow> string option \<Rightarrow>
   (filename_error, storage_identity) result" where
  "build_storage_identity nfkc event_date candidate_name project_or_spot interview_type
     original_filename recruiter_prefix key_prefix =
     (let extension = file_extension original_filename in
      check_that (extension \<in> set ALLOWED_EXTENSIONS) Extension_not_allowed
       (res_bind (sanitize_component nfkc candidate_name) (\<lambda>candidate.
        res_bind (sanitize_component nfkc (project_value project_or_spot)) (\<lambda>project.
        res_bind (sanitize_component nfkc interview_type) (\<lambda>kind.
        res_bind (sanitize_component nfkc recruiter_prefix) (\<lambda>recruiter.
          (let stamp = date_iso event_date;
               filename = stamp @ ''_'' @ candidate @ ''_'' @ project @ ''_'' @ kind @ ''.'' @ extension;
               logical_key = recruiter @ ''/'' @ stamp @ ''/'' @ candidate @ ''/'' @ filename
           in res_bind
                (if truthy key_prefix
                 then res_bind (res_map (sanitize_component nfkc)
                                 (filter (\<lambda>part. part \<noteq> '''') (split_on CHR ''/'' (the key_prefix))))
                        (\<lambda>parts. if join_with ''/'' parts = '''' then Inl Key_prefix_empty
                                 else Inr (join_with ''/'' parts @ ''/'' @ logical_key))
                 else Inr logical_key)
                (\<lambda>key. if MAX_KEY < utf8_size key then Inl Key_too_long
                       else Inr \<lparr>si_filename = filename, si_key = key\<rparr>))))))))"

section \<open>What a component is\<close>

lemma set_sub_runs: "set (sub_runs p r s) \<subseteq> {c \<in> set s. \<not> p c} \<union> set r"
proof (induction p r s rule: sub_runs.induct)
  case (1 p r)
  then show ?case by simp
next
  case (2 p r x xs)
  show ?case
  proof (cases "p x")
    case True
    then have "set (sub_runs p r (dropWhile p xs)) \<subseteq> {c \<in> set (dropWhile p xs). \<not> p c} \<union> set r"
      by (rule 2(1))
    then show ?thesis using True by (auto dest: set_dropWhileD)
  next
    case False
    then show ?thesis using 2(2) by auto
  qed
qed

lemma sub_runs_id: "\<forall>c\<in>set s. \<not> p c \<Longrightarrow> sub_runs p r s = s"
  by (induction s) auto

lemma strip_by_id: "s \<noteq> [] \<Longrightarrow> \<not> p (hd s) \<Longrightarrow> \<not> p (last s) \<Longrightarrow> strip_by p s = s"
  by (cases s) (auto simp: strip_by_def lstrip_by_def rstrip_by_id)

lemma sub_reserved_id: "\<forall>c\<in>set s. \<not> reserved c \<Longrightarrow> sub_reserved s = s"
  unfolding sub_reserved_def by (rule map_idI) auto

lemma space_dot_under_imp: "\<not> space_dot_under c \<Longrightarrow> \<not> space_dot c"
  by (simp add: space_dot_def space_dot_under_def)

text \<open>A safe component: bounded, not empty, free of separators and of spaces, trimmed.\<close>

definition safe_component :: "string \<Rightarrow> bool" where
  "safe_component v \<longleftrightarrow> v \<noteq> '''' \<and> length v \<le> MAX_COMPONENT \<and>
     (\<forall>c\<in>set v. \<not> reserved c \<and> \<not> py_space c) \<and>
     \<not> space_dot_under (hd v) \<and> \<not> space_dot_under (last v)"

lemma underscore_plain: "\<not> reserved CHR ''_''" "\<not> py_space CHR ''_''"
  by (simp_all add: reserved_def py_space_def)

lemma sanitize_safe:
  assumes "sanitize_component nfkc value = Inr v"
  shows "safe_component v"
proof -
  define n2 where "n2 = sub_reserved (strip_by space_dot (sub_runs py_space '' '' (nfkc value)))"
  define n3 where "n3 = strip_by space_dot_under (sub_runs py_space ''_'' n2)"
  have ne: "n3 \<noteq> []" and v: "v = rstrip_by space_dot_under (take MAX_COMPONENT n3)"
    using assms by (auto simp: sanitize_component_def Let_def n3_def n2_def split: if_splits)
  have chars2: "\<forall>c\<in>set n2. \<not> reserved c"
    by (auto simp: n2_def sub_reserved_def underscore_plain)
  have "set n3 \<subseteq> {c \<in> set n2. \<not> py_space c} \<union> {CHR ''_''}"
    using set_strip_by[of space_dot_under "sub_runs py_space ''_'' n2"]
      set_sub_runs[of py_space "''_''" n2] unfolding n3_def by fastforce
  then have chars3: "\<forall>c\<in>set n3. \<not> reserved c \<and> \<not> py_space c"
    using chars2 underscore_plain by auto
  have hd3: "\<not> space_dot_under (hd n3)"
    using ne strip_by_ends(1) unfolding n3_def by blast
  have tne: "take MAX_COMPONENT n3 \<noteq> []" and thd: "hd (take MAX_COMPONENT n3) = hd n3"
    using ne by (auto simp: MAX_COMPONENT_def hd_take)
  have vne: "v \<noteq> []"
    unfolding v rstrip_by_empty_iff using tne thd hd3 by (metis hd_in_set)
  have "hd v = hd n3" using vne v rstrip_by_hd thd by metis
  moreover have "\<not> space_dot_under (last v)" using vne v rstrip_by_last by metis
  moreover have "length v \<le> MAX_COMPONENT"
    unfolding v using length_rstrip_by[of space_dot_under "take MAX_COMPONENT n3"] by simp
  moreover have "set v \<subseteq> set n3"
    unfolding v using set_rstrip_by[of space_dot_under "take MAX_COMPONENT n3"]
      set_take_subset[of MAX_COMPONENT n3] by blast
  ultimately show ?thesis
    using vne hd3 chars3 by (auto simp: safe_component_def)
qed

lemma sanitize_of_safe:
  assumes "safe_component v" and "nfkc v = v"
  shows "sanitize_component nfkc v = Inr v"
proof -
  have "strip_by space_dot v = v" "strip_by space_dot_under v = v"
    using assms(1) by (auto simp: safe_component_def intro!: strip_by_id dest: space_dot_under_imp)
  moreover have "sub_reserved v = v" "sub_runs py_space r v = v" for r
    using assms(1) by (auto simp: safe_component_def intro!: sub_reserved_id sub_runs_id)
  moreover have "rstrip_by space_dot_under v = v" "take MAX_COMPONENT v = v"
    using assms(1) by (auto simp: safe_component_def intro!: rstrip_by_id)
  ultimately show ?thesis
    using assms by (simp add: sanitize_component_def safe_component_def)
qed

lemma slash_reserved: "reserved CHR ''/''"
  by (simp add: reserved_def)

lemma safe_component_no_slash: "safe_component v \<Longrightarrow> CHR ''/'' \<notin> set v"
  using slash_reserved by (auto simp: safe_component_def)

lemma safe_component_not_dots: "safe_component v \<Longrightarrow> v \<notin> {'''', ''.'', ''..''}"
  by (auto simp: safe_component_def space_dot_under_def)

section \<open>What a key is\<close>

lemma digit_char_code: "(of_char (digit_char n) :: nat) = 48 + n mod 10"
proof -
  have "n mod 10 < 10" by simp
  then show ?thesis by (simp add: digit_char_def)
qed

lemma digit_char_neq:
  "(of_char c :: nat) < 48 \<Longrightarrow> digit_char n \<noteq> c"
proof
  assume "(of_char c :: nat) < 48" "digit_char n = c"
  then show False using digit_char_code[of n] by simp
qed

lemma digit_char_not_sep [simp]:
  "digit_char n \<noteq> CHR ''/''" "CHR ''/'' \<noteq> digit_char n" "digit_char n \<noteq> CHR ''.''"
  using digit_char_neq[of "CHR ''/''" n] digit_char_neq[of "CHR ''.''" n] by auto

lemma date_iso_chars:
  "CHR ''/'' \<notin> set (date_iso d)" "date_iso d \<noteq> ''''" "hd (date_iso d) \<noteq> CHR ''.''"
  by (auto simp: date_iso_def split: prod.splits)

lemma allowed_no_slash: "e \<in> set ALLOWED_EXTENSIONS \<Longrightarrow> CHR ''/'' \<notin> set e"
  by (auto simp: ALLOWED_EXTENSIONS_def)

text \<open>A path component that names an entry of a directory: no separator, neither dot entry.\<close>

definition plain_entry :: "string \<Rightarrow> bool" where
  "plain_entry p \<longleftrightarrow> p \<notin> {'''', ''.'', ''..''} \<and> CHR ''/'' \<notin> set p"

lemma safe_plain: "safe_component v \<Longrightarrow> plain_entry v"
  using safe_component_no_slash safe_component_not_dots by (simp add: plain_entry_def)

lemma date_iso_plain: "plain_entry (date_iso d @ rest)" if "CHR ''/'' \<notin> set rest"
proof -
  obtain x xs where d: "date_iso d = x # xs"
    using date_iso_chars(2) by (cases "date_iso d") auto
  then show ?thesis
    using that date_iso_chars(1,3)[of d] by (auto simp: plain_entry_def)
qed

lemma join_append:
  "ps \<noteq> [] \<Longrightarrow> qs \<noteq> [] \<Longrightarrow> join_with sep (ps @ qs) = join_with sep ps @ sep @ join_with sep qs"
proof (induction sep ps rule: join_with.induct)
  case (2 sep x)
  then show ?case by (cases qs) auto
qed auto

text \<open>The shape of every identity the builder returns.\<close>

lemma build_shape:
  assumes "build_storage_identity nfkc d cand proj kind orig rec kp = Inr si"
  obtains prefix r c where "list_all safe_component prefix" "safe_component r" "safe_component c"
    "(prefix = []) = (\<not> truthy kp)"
    "sanitize_component nfkc rec = Inr r" "sanitize_component nfkc cand = Inr c"
    "si_key si = join_with ''/'' (prefix @ [r, date_iso d, c, si_filename si])"
    "plain_entry (si_filename si)" "utf8_size (si_key si) \<le> MAX_KEY"
    "file_extension orig \<in> set ALLOWED_EXTENSIONS"
    "truthy kp \<Longrightarrow> res_map (sanitize_component nfkc)
       (filter (\<lambda>part. part \<noteq> '''') (split_on CHR ''/'' (the kp))) = Inr prefix"
    "\<exists>p k. sanitize_component nfkc (project_value proj) = Inr p \<and>
       sanitize_component nfkc kind = Inr k \<and>
       si_filename si = date_iso d @ ''_'' @ c @ ''_'' @ p @ ''_'' @ k @ ''.'' @ file_extension orig"
proof -
  let ?ext = "file_extension orig"
  obtain c p k r where
    ext: "?ext \<in> set ALLOWED_EXTENSIONS" and
    c: "sanitize_component nfkc cand = Inr c" and
    p: "sanitize_component nfkc (project_value proj) = Inr p" and
    k: "sanitize_component nfkc kind = Inr k" and
    r: "sanitize_component nfkc rec = Inr r"
    using assms unfolding build_storage_identity_def Let_def check_that_Inr_iff res_bind_Inr_iff
    by blast
  define fn where "fn = date_iso d @ ''_'' @ c @ ''_'' @ p @ ''_'' @ k @ ''.'' @ ?ext"
  define tail where "tail = [r, date_iso d, c, fn]"
  have tail: "join_with ''/'' tail = r @ ''/'' @ date_iso d @ ''/'' @ c @ ''/'' @ fn"
    by (simp add: tail_def)
  obtain prefix where pre: "list_all safe_component prefix" "(prefix = []) = (\<not> truthy kp)"
    and key: "si_key si = join_with ''/'' (prefix @ tail)" and fname: "si_filename si = fn"
    and size: "utf8_size (si_key si) \<le> MAX_KEY"
    and given: "truthy kp \<Longrightarrow> res_map (sanitize_component nfkc)
       (filter (\<lambda>part. part \<noteq> '''') (split_on CHR ''/'' (the kp))) = Inr prefix"
  proof (cases "truthy kp")
    case False
    then show ?thesis
      using that[of "[]"] assms ext c p k r tail
      by (auto simp: build_storage_identity_def Let_def fn_def split: if_splits)
  next
    case True
    then obtain parts where parts: "res_map (sanitize_component nfkc)
        (filter (\<lambda>part. part \<noteq> '''') (split_on CHR ''/'' (the kp))) = Inr parts"
      and ne: "join_with ''/'' parts \<noteq> ''''"
      and si: "si_key si = join_with ''/'' parts @ ''/'' @ join_with ''/'' tail" "si_filename si = fn"
        "utf8_size (si_key si) \<le> MAX_KEY"
      using assms ext c p k r unfolding tail
      by (auto simp: build_storage_identity_def Let_def fn_def res_bind_Inr_iff split: if_splits)
    have "list_all safe_component parts"
      using parts by (auto simp: res_map_Inr_iff list_all2_conv_all_nth list_all_length
        intro: sanitize_safe)
    moreover have "parts \<noteq> []" using ne by auto
    moreover have "join_with ''/'' (parts @ tail) = si_key si"
      using \<open>parts \<noteq> []\<close> si by (simp add: join_append tail_def)
    ultimately show ?thesis using that[of parts] True si parts by simp
  qed
  have "plain_entry fn"
    unfolding fn_def using c p k ext
    by (auto intro!: date_iso_plain dest!: sanitize_safe safe_component_no_slash allowed_no_slash)
  then show thesis
    using that[of prefix r c] pre key fname size given ext sanitize_safe[OF r] sanitize_safe[OF c]
      c r p k
    by (auto simp: tail_def fn_def)
qed

section \<open>Sanitising twice\<close>

text \<open>
  What Unicode documents of NFKC and the second pass relies on: normalising is idempotent, a part
  of a normalised text is normalised, and a space or an underscore, which composes with nothing,
  may stand between two normalised texts.
\<close>

definition normal_form :: "(string \<Rightarrow> string) \<Rightarrow> bool" where
  "normal_form nfkc \<longleftrightarrow> (\<forall>s. nfkc (nfkc s) = nfkc s) \<and>
     (\<forall>a b. nfkc (a @ b) = a @ b \<longrightarrow> nfkc a = a \<and> nfkc b = b) \<and>
     (\<forall>a b c. c \<in> {CHR '' '', CHR ''_''} \<longrightarrow> nfkc a = a \<longrightarrow> nfkc b = b \<longrightarrow>
        nfkc (a @ c # b) = a @ c # b)"

lemma normal_form_part: "normal_form nfkc \<Longrightarrow> nfkc (a @ b @ c) = a @ b @ c \<Longrightarrow> nfkc b = b"
  unfolding normal_form_def by metis

lemma normal_form_between:
  "normal_form nfkc \<Longrightarrow> c \<in> {CHR '' '', CHR ''_''} \<Longrightarrow> nfkc a = a \<Longrightarrow> nfkc b = b \<Longrightarrow>
     nfkc (a @ c # b) = a @ c # b"
  unfolding normal_form_def by blast

lemma sub_runs_skip: "\<forall>c\<in>set a. \<not> p c \<Longrightarrow> sub_runs p r (a @ b) = a @ sub_runs p r b"
  by (induction a) auto

lemma normal_sub_runs:
  assumes "normal_form nfkc" and "c \<in> {CHR '' '', CHR ''_''}" and "nfkc s = s"
  shows "nfkc (sub_runs p [c] s) = sub_runs p [c] s"
  using assms(3)
proof (induction s rule: length_induct)
  case (1 s)
  show ?case
  proof (cases "dropWhile (Not \<circ> p) s")
    case Nil
    then have "sub_runs p [c] s = s" by (intro sub_runs_id) (auto simp: dropWhile_eq_Nil_conv)
    then show ?thesis using 1(2) by simp
  next
    case (Cons x xs)
    define a where "a = takeWhile (Not \<circ> p) s"
    define b where "b = dropWhile p xs"
    have s: "s = a @ x # xs" using Cons takeWhile_dropWhile_id[of "Not \<circ> p" s] by (simp add: a_def)
    have px: "p x" using Cons hd_dropWhile[of "Not \<circ> p" s] by simp
    have a: "\<forall>c\<in>set a. \<not> p c" by (auto simp: a_def dest: set_takeWhileD)
    have xs: "xs = takeWhile p xs @ b" by (simp add: b_def)
    have na: "nfkc a = a" using normal_form_part[OF assms(1), of "[]" a "x # xs"] 1(2) s by simp
    have nb: "nfkc b = b"
      using normal_form_part[OF assms(1), of "a @ x # takeWhile p xs" b "[]"] 1(2) s xs by simp
    have "length b < length s"
      using s length_dropWhile_le[of p xs] by (simp add: b_def)
    then have "nfkc (sub_runs p [c] b) = sub_runs p [c] b" using 1(1) nb by blast
    moreover have "sub_runs p [c] s = a @ c # sub_runs p [c] b"
      using sub_runs_skip[OF a] px by (simp add: s b_def)
    ultimately show ?thesis using normal_form_between[OF assms(1,2) na] by simp
  qed
qed

lemma normal_sub_reserved:
  assumes "normal_form nfkc" and "nfkc s = s"
  shows "nfkc (sub_reserved s) = sub_reserved s"
  using assms(2)
proof (induction s rule: length_induct)
  case (1 s)
  show ?case
  proof (cases "\<exists>x\<in>set s. reserved x")
    case False
    then show ?thesis using 1(2) sub_reserved_id by simp
  next
    case True
    then obtain a x b where s: "s = a @ x # b" "reserved x" "\<forall>c\<in>set a. \<not> reserved c"
      using split_list_first_prop[of s reserved] by blast
    have na: "nfkc a = a" and nb: "nfkc b = b"
      using normal_form_part[OF assms(1), of "[]" a "x # b"]
        normal_form_part[OF assms(1), of "a @ [x]" b "[]"] 1(2) s(1) by simp_all
    have "nfkc (sub_reserved b) = sub_reserved b" using 1(1) nb s(1) by simp
    moreover have "sub_reserved s = a @ CHR ''_'' # sub_reserved b"
      using s sub_reserved_id[OF s(3)] by (simp add: sub_reserved_def)
    ultimately show ?thesis using normal_form_between[OF assms(1) _ na] by simp
  qed
qed

lemma lstrip_by_part: "\<exists>a. s = a @ lstrip_by p s"
  unfolding lstrip_by_def by (metis takeWhile_dropWhile_id)

lemma rstrip_by_part: "\<exists>b. s = rstrip_by p s @ b"
  unfolding rstrip_by_def by (metis rev_append rev_rev_ident takeWhile_dropWhile_id)

lemma normal_rstrip: "normal_form nfkc \<Longrightarrow> nfkc s = s \<Longrightarrow> nfkc (rstrip_by p s) = rstrip_by p s"
  using rstrip_by_part[of s p] normal_form_part[of nfkc "[]"] by (metis append_Nil)

lemma normal_lstrip: "normal_form nfkc \<Longrightarrow> nfkc s = s \<Longrightarrow> nfkc (lstrip_by p s) = lstrip_by p s"
  using lstrip_by_part[of s p] normal_form_part[of nfkc _ _ "[]"] by (metis append_Nil2)

lemma normal_strip: "normal_form nfkc \<Longrightarrow> nfkc s = s \<Longrightarrow> nfkc (strip_by p s) = strip_by p s"
  unfolding strip_by_def by (simp add: normal_lstrip normal_rstrip)

lemma normal_take: "normal_form nfkc \<Longrightarrow> nfkc s = s \<Longrightarrow> nfkc (take n s) = take n s"
  using normal_form_part[of nfkc "[]" "take n s" "drop n s"] by simp

lemma sanitize_normal:
  assumes "normal_form nfkc" and "sanitize_component nfkc value = Inr v"
  shows "nfkc v = v"
proof -
  have "nfkc (nfkc value) = nfkc value" using assms(1) unfolding normal_form_def by blast
  then show ?thesis
    using assms(2)
    by (auto simp: sanitize_component_def Let_def split: if_splits
        intro!: normal_rstrip normal_take normal_strip normal_sub_runs normal_sub_reserved assms(1))
qed

section \<open>Properties\<close>

text \<open>
  Property C38.  A sanitised component is not empty, has at most 100 characters, none of them a
  path separator, a reserved or control character or a space, and does not begin or end with a dot
  or an underscore; this holds whatever the normal form does.  When the normal form has the laws of
  \<open>normal_form\<close>, sanitising a sanitised component again leaves it as it is.
\<close>

theorem sanitized_component_is_safe:
  assumes "sanitize_component nfkc value = Inr v"
  shows "safe_component v \<and> (normal_form nfkc \<longrightarrow> sanitize_component nfkc v = Inr v)"
  using assms by (blast intro: sanitize_safe sanitize_of_safe sanitize_normal)

lemmas filename_code =
  build_storage_identity_def sanitize_component_def sub_reserved_def reserved_def py_space_def
  space_dot_def space_dot_under_def strip_by_def lstrip_by_def rstrip_by_def MAX_COMPONENT_def
  Let_def file_extension_def pure_suffix_def pure_name_def pure_parts_def after_last_dot_def
  ALLOWED_EXTENSIONS_def project_value_def date_iso_def digit_char_def lower_char_def MAX_KEY_def
  utf8_size_def char_of_def bit_0

text \<open>A normal form that rewrites the no-break space, as NFKC does.\<close>

definition nfkc_nbsp :: "string \<Rightarrow> string" where
  "nfkc_nbsp s = map (\<lambda>c. if c = CHR 0xA0 then CHR '' '' else c) s"

lemma nfkc_nbsp_fixed: "nfkc_nbsp s = s \<longleftrightarrow> CHR 0xA0 \<notin> set s"
  by (induction s) (auto simp: nfkc_nbsp_def)

lemma nfkc_nbsp_normal: "normal_form nfkc_nbsp"
  unfolding normal_form_def nfkc_nbsp_fixed by (auto simp: nfkc_nbsp_def)

definition sample_component :: string where
  "sample_component = '' .. A/B'' @ [CHR 0xA0] @ '' C. ''"

theorem sanitized_component_witness:
  "safe_component ''A_B_C'' \<and> sanitize_component nfkc_nbsp ''A_B_C'' = Inr ''A_B_C''"
proof -
  have "sanitize_component nfkc_nbsp sample_component = Inr ''A_B_C''"
    by (simp add: sample_component_def filename_code nfkc_nbsp_def)
  from sanitized_component_is_safe[OF this] nfkc_nbsp_normal show ?thesis by simp
qed

text \<open>
  Property C36.  A storage key has at most 512 bytes and is a path of plain directory entries (no
  empty component, no dot entry).  In this order they are: the non-empty parts of the given prefix,
  each sanitised (none if no prefix is given), the sanitised recruiter, the date, the sanitised
  candidate and the file name, which is made of the date, the sanitised candidate, project and
  interview type and ends in a dot and the extension of the original file, an allowed one.
\<close>

theorem storage_key_is_confined:
  assumes "build_storage_identity nfkc d cand proj kind orig rec kp = Inr si"
  shows "utf8_size (si_key si) \<le> MAX_KEY \<and>
    (\<forall>part\<in>set (split_on CHR ''/'' (si_key si)). plain_entry part) \<and>
    (\<exists>prefix r c p k. split_on CHR ''/'' (si_key si) = prefix @ [r, date_iso d, c, si_filename si] \<and>
       sanitize_component nfkc rec = Inr r \<and> sanitize_component nfkc cand = Inr c \<and>
       sanitize_component nfkc (project_value proj) = Inr p \<and> sanitize_component nfkc kind = Inr k \<and>
       list_all safe_component (prefix @ [r, c, p, k]) \<and>
       (if truthy kp
        then prefix \<noteq> [] \<and> res_map (sanitize_component nfkc)
               (filter (\<lambda>part. part \<noteq> '''') (split_on CHR ''/'' (the kp))) = Inr prefix
        else prefix = []) \<and>
       si_filename si =
         date_iso d @ ''_'' @ c @ ''_'' @ p @ ''_'' @ k @ ''.'' @ file_extension orig) \<and>
    file_extension orig \<in> set ALLOWED_EXTENSIONS"
proof -
  obtain prefix r c where sh: "list_all safe_component prefix" "safe_component r"
    "safe_component c" "(prefix = []) = (\<not> truthy kp)"
    "sanitize_component nfkc rec = Inr r" "sanitize_component nfkc cand = Inr c"
    "si_key si = join_with ''/'' (prefix @ [r, date_iso d, c, si_filename si])"
    "plain_entry (si_filename si)" "utf8_size (si_key si) \<le> MAX_KEY"
    "file_extension orig \<in> set ALLOWED_EXTENSIONS"
    "truthy kp \<Longrightarrow> res_map (sanitize_component nfkc)
       (filter (\<lambda>part. part \<noteq> '''') (split_on CHR ''/'' (the kp))) = Inr prefix"
    "\<exists>p k. sanitize_component nfkc (project_value proj) = Inr p \<and>
       sanitize_component nfkc kind = Inr k \<and>
       si_filename si = date_iso d @ ''_'' @ c @ ''_'' @ p @ ''_'' @ k @ ''.'' @ file_extension orig"
    using build_shape[OF assms] by metis
  obtain p k where pk: "sanitize_component nfkc (project_value proj) = Inr p"
    "sanitize_component nfkc kind = Inr k"
    "si_filename si = date_iso d @ ''_'' @ c @ ''_'' @ p @ ''_'' @ k @ ''.'' @ file_extension orig"
    using sh(12) by blast
  have "plain_entry (date_iso d)" using date_iso_plain[of "[]" d] by simp
  then have plain: "\<forall>q\<in>set (prefix @ [r, date_iso d, c, si_filename si]). plain_entry q"
    using sh(1-3,8) by (auto simp: list_all_iff intro: safe_plain)
  have parts: "split_on CHR ''/'' (si_key si) = prefix @ [r, date_iso d, c, si_filename si]"
    unfolding sh(7) using plain by (intro split_join) (auto simp: plain_entry_def)
  have "if truthy kp
    then prefix \<noteq> [] \<and> res_map (sanitize_component nfkc)
           (filter (\<lambda>part. part \<noteq> '''') (split_on CHR ''/'' (the kp))) = Inr prefix
    else prefix = []"
    using sh(4,11) by auto
  moreover have "list_all safe_component (prefix @ [r, c, p, k])"
    using sh(1-3) sanitize_safe[OF pk(1)] sanitize_safe[OF pk(2)] by simp
  ultimately show ?thesis using plain parts sh(5,6,9,10) pk by auto
qed

theorem storage_key_witness:
  "utf8_size ''P/R/2024-05-06/Ann/2024-05-06_Ann_unspecified_HR.mp4'' \<le> MAX_KEY"
proof -
  have "build_storage_identity (\<lambda>s. s) (2024, 5, 6) ''Ann'' None ''HR'' ''a.MP4'' ''R'' (Some ''P/'') =
    Inr \<lparr>si_filename = ''2024-05-06_Ann_unspecified_HR.mp4'',
        si_key = ''P/R/2024-05-06/Ann/2024-05-06_Ann_unspecified_HR.mp4''\<rparr>"
    by (simp add: filename_code)
  from storage_key_is_confined[OF this] show ?thesis by simp
qed

end
