(* ===== verification/Recording.thy ===== *)
theory Recording
imports Prelude "HOL-Library.Transitive_Closure_Table"
begin

text \<open>
  \<open>app/db/models/recording.py\<close> and \<open>app/services/status.py\<close>: the status enumeration with its
  stored text, the transition table, the row of the recordings table, \<open>reset_for_retry\<close>,
  \<open>transition_to\<close> and \<open>StatusService.advance\<close>.  The status machine is also given as a step
  relation whose runs every operation of the other theories follows.
\<close>

section \<open>Statuses\<close>

datatype recording_status =
    FOUND
  | CALENDAR_EVENT_FOUND
  | CANDIDATE_MATCHED
  | MANUAL_REVIEW_REQUIRED
  | TRANSFER_STARTED
  | UPLOADED_TO_SYNOLOGY
  | SYNOLOGY_LINK_CREATED
  | NOTION_UPDATED
  | AWAITING_SUMMARY_EMAIL
  | SOURCE_MARKED_PROCESSED
  | SOURCE_DELETED
  | COMPLETED
  | IGNORED
  | FAILED

text \<open>The statuses are a finite enumeration, so statements over all of them evaluate.\<close>

definition all_statuses :: "recording_status list" where
  "all_statuses = [FOUND, CALENDAR_EVENT_FOUND, CANDIDATE_MATCHED, MANUAL_REVIEW_REQUIRED,
     TRANSFER_STARTED, UPLOADED_TO_SYNOLOGY, SYNOLOGY_LINK_CREATED, NOTION_UPDATED,
     AWAITING_SUMMARY_EMAIL, SOURCE_MARKED_PROCESSED, SOURCE_DELETED, COMPLETED, IGNORED, FAILED]"

lemma in_all_statuses [simp]: "s \<in> set all_statuses"
  by (cases s) (simp_all add: all_statuses_def)

lemma UNIV_recording_status: "UNIV = set all_statuses"
  using in_all_statuses by blast

instantiation recording_status :: enum
begin

definition enum_recording_status :: "recording_status list" where
  "enum_recording_status = all_statuses"

definition enum_all_recording_status :: "(recording_status \<Rightarrow> bool) \<Rightarrow> bool" where
  "enum_all_recording_status P = list_all P all_statuses"

definition enum_ex_recording_status :: "(recording_status \<Rightarrow> bool) \<Rightarrow> bool" where
  "enum_ex_recording_status P = list_ex P all_statuses"

instance
proof
  show "(UNIV :: recording_status set) = set enum_class.enum"
    by (simp add: enum_recording_status_def UNIV_recording_status)
  show "distinct (enum_class.enum :: recording_status list)"
    by (simp add: enum_recording_status_def all_statuses_def)
  show "enum_class.enum_all P = Ball UNIV P" for P :: "recording_status \<Rightarrow> bool"
    by (auto simp: enum_all_recording_status_def list_all_iff)
  show "enum_class.enum_ex P = Bex UNIV P" for P :: "recording_status \<Rightarrow> bool"
    by (auto simp: enum_ex_recording_status_def list_ex_iff)
qed

end

fun status_value :: "recording_status \<Rightarrow> string" where
  "status_value FOUND = ''found''"
| "status_value CALENDAR_EVENT_FOUND = ''calendar_event_found''"
| "status_value CANDIDATE_MATCHED = ''candidate_matched''"
| "status_value MANUAL_REVIEW_REQUIRED = ''manual_review_required''"
| "status_value TRANSFER_STARTED = ''transfer_started''"
| "status_value UPLOADED_TO_SYNOLOGY = ''uploaded_to_synology''"
| "status_value SYNOLOGY_LINK_CREATED = ''synology_link_created''"
| "status_value NOTION_UPDATED = ''notion_updated''"
| "status_value AWAITING_SUMMARY_EMAIL = ''awaiting_summary_email''"
| "status_value SOURCE_MARKED_PROCESSED = ''source_marked_processed''"
| "status_value SOURCE_DELETED = ''source_deleted''"
| "status_value COMPLETED = ''completed''"
| "status_value IGNORED = ''ignored''"
| "status_value FAILED = ''failed''"

definition STATUS_VALUES :: "string list" where
  "STATUS_VALUES = map status_value all_statuses"

text \<open>\<open>RecordingStatus(text)\<close>: the member with that value, or the \<open>ValueError\<close>.\<close>

definition parse_status :: "string \<Rightarrow> recording_status option" where
  "parse_status v = find (\<lambda>s. status_value s = v) all_statuses"

fun TRANSITIONS :: "recording_status \<Rightarrow> recording_status set" where
  "TRANSITIONS FOUND = {CALENDAR_EVENT_FOUND, MANUAL_REVIEW_REQUIRED, IGNORED, FAILED}"
| "TRANSITIONS CALENDAR_EVENT_FOUND = {CANDIDATE_MATCHED, MANUAL_REVIEW_REQUIRED, FAILED}"
| "TRANSITIONS CANDIDATE_MATCHED = {TRANSFER_STARTED, MANUAL_REVIEW_REQUIRED, FAILED}"
| "TRANSITIONS MANUAL_REVIEW_REQUIRED =
     {CALENDAR_EVENT_FOUND, CANDIDATE_MATCHED, TRANSFER_STARTED, IGNORED, FAILED}"
| "TRANSITIONS TRANSFER_STARTED = {UPLOADED_TO_SYNOLOGY, MANUAL_REVIEW_REQUIRED, FAILED}"
| "TRANSITIONS UPLOADED_TO_SYNOLOGY = {SYNOLOGY_LINK_CREATED, FAILED}"
| "TRANSITIONS SYNOLOGY_LINK_CREATED = {NOTION_UPDATED, COMPLETED, FAILED}"
| "TRANSITIONS NOTION_UPDATED =
     {AWAITING_SUMMARY_EMAIL, SOURCE_MARKED_PROCESSED, COMPLETED, FAILED}"
| "TRANSITIONS AWAITING_SUMMARY_EMAIL =
     {AWAITING_SUMMARY_EMAIL, SOURCE_MARKED_PROCESSED, COMPLETED, FAILED}"
| "TRANSITIONS SOURCE_MARKED_PROCESSED = {SOURCE_DELETED, COMPLETED}"
| "TRANSITIONS SOURCE_DELETED = {COMPLETED}"
| "TRANSITIONS COMPLETED = {}"
| "TRANSITIONS IGNORED = {}"
| "TRANSITIONS FAILED = {TRANSFER_STARTED}"

lemma parse_status_value [simp]: "parse_status (status_value s) = Some s"
  by (cases s) (simp_all add: parse_status_def all_statuses_def)

lemma parse_status_Some_iff: "parse_status v = Some s \<longleftrightarrow> v = status_value s"
proof
  assume "parse_status v = Some s"
  then show "v = status_value s"
    by (auto simp: parse_status_def find_Some_iff)
qed simp

lemma parse_status_None_iff: "parse_status v = None \<longleftrightarrow> v \<notin> set STATUS_VALUES"
  by (auto simp: parse_status_def STATUS_VALUES_def find_None_iff)

lemma status_value_inj: "status_value s = status_value t \<Longrightarrow> s = t"
  using parse_status_value by (metis option.inject)

section \<open>The row\<close>

record recording =
  r_id :: string
  r_disk_file_id :: string
  r_disk_path :: string
  r_disk_filename :: string
  r_disk_owner_email :: string
  r_disk_created_at :: "instant option"
  r_disk_modified_at :: "instant option"
  r_disk_size_bytes :: "int option"
  r_disk_mime_type :: "string option"
  r_disk_md5 :: "string option"
  r_calendar_event_uid :: "string option"
  r_calendar_event_recurrence_id :: "string option"
  r_calendar_event_summary :: "string option"
  r_calendar_dtstart :: "instant option"
  r_calendar_dtend :: "instant option"
  r_calendar_organizer :: "string option"
  r_calendar_telemost_url :: "string option"
  r_calendar_raw_ics :: "string option"
  r_matched_calendar_id :: "string option"
  r_matched_calendar_url :: "string option"
  r_matched_calendar_display_name :: "string option"
  r_manual_review_reason :: "string option"
  r_manual_review_candidates :: "json list option"
  r_candidate_name :: "string option"
  r_candidate_email :: "string option"
  r_project_or_spot :: "string option"
  r_notion_spot_id :: "string option"
  r_notion_spot_url :: "string option"
  r_notion_database_id :: "string option"
  r_notion_page_id :: "string option"
  r_notion_page_url :: "string option"
  r_synology_folder_path :: "string option"
  r_synology_file_path :: "string option"
  r_synology_share_url :: "string option"
  r_generated_filename :: "string option"
  r_storage_key :: "string option"
  r_content_identity :: "string option"
  r_terminal_notified_at :: "instant option"
  r_terminal_notification_claim :: "string option"
  r_terminal_notification_claimed_at :: "instant option"
  r_review_notification_claim :: "string option"
  r_review_notification_claimed_at :: "instant option"
  r_processing_lease_token :: "string option"
  r_processing_lease_expires_at :: "instant option"
  r_version :: int
  r_status :: recording_status
  r_error_message :: "string option"
  r_error_step :: "string option"
  r_mattermost_channel_id :: "string option"
  r_mattermost_post_id :: "string option"
  r_found_at :: instant
  r_last_attempted_at :: "instant option"
  r_completed_at :: "instant option"
  r_deleted_from_disk_at :: "instant option"
  r_disk_deletable_after :: "instant option"
  r_source_processed :: bool
  r_route_type :: string
  r_storage_destination_id :: "string option"
  r_storage_is_durable :: bool
  r_summary_email_search_attempts :: int
  r_summary_email_search_deadline_at :: "instant option"
  r_summary_email_message_id :: "string option"
  r_summary_email_subject :: "string option"
  r_summary_email_received_at :: "instant option"
  r_summary_toggle_written_at :: "instant option"

text \<open>A row as the database creates it: the columns with no default are arguments.\<close>

definition new_recording :: "string \<Rightarrow> string \<Rightarrow> string \<Rightarrow> string \<Rightarrow> string \<Rightarrow> instant \<Rightarrow> recording" where
  "new_recording rid file_id path filename owner found_at =
     \<lparr>r_id = rid, r_disk_file_id = file_id, r_disk_path = path, r_disk_filename = filename,
      r_disk_owner_email = owner, r_disk_created_at = None, r_disk_modified_at = None,
      r_disk_size_bytes = None, r_disk_mime_type = None, r_disk_md5 = None,
      r_calendar_event_uid = None, r_calendar_event_recurrence_id = None,
      r_calendar_event_summary = None, r_calendar_dtstart = None, r_calendar_dtend = None,
      r_calendar_organizer = None, r_calendar_telemost_url = None, r_calendar_raw_ics = None,
      r_matched_calendar_id = None, r_matched_calendar_url = None,
      r_matched_calendar_display_name = None, r_manual_review_reason = None,
      r_manual_review_candidates = None, r_candidate_name = None, r_candidate_email = None,
      r_project_or_spot = None, r_notion_spot_id = None, r_notion_spot_url = None,
      r_notion_database_id = None, r_notion_page_id = None, r_notion_page_url = None,
      r_synology_folder_path = None, r_synology_file_path = None, r_synology_share_url = None,
      r_generated_filename = None, r_storage_key = None, r_content_identity = None,
      r_terminal_notified_at = None, r_terminal_notification_claim = None,
      r_terminal_notification_claimed_at = None, r_review_notification_claim = None,
      r_review_notification_claimed_at = None, r_processing_lease_token = None,
      r_processing_lease_expires_at = None, r_version = 0, r_status = FOUND,
      r_error_message = None, r_error_step = None, r_mattermost_channel_id = None,
      r_mattermost_post_id = None, r_found_at = found_at, r_last_attempted_at = None,
      r_completed_at = None, r_deleted_from_disk_at = None, r_disk_deletable_after = None,
      r_source_processed = False, r_route_type = ''interview'', r_storage_destination_id = None,
      r_storage_is_durable = False, r_summary_email_search_attempts = 0,
      r_summary_email_search_deadline_at = None, r_summary_email_message_id = None,
      r_summary_email_subject = None, r_summary_email_received_at = None,
      r_summary_toggle_written_at = None\<rparr>"

definition reset_for_retry :: "recording \<Rightarrow> recording" where
  "reset_for_retry r = r\<lparr>r_error_step := None, r_error_message := None,
     r_synology_folder_path := None, r_synology_file_path := None, r_synology_share_url := None,
     r_storage_is_durable := False, r_completed_at := None, r_terminal_notified_at := None,
     r_terminal_notification_claim := None, r_terminal_notification_claimed_at := None\<rparr>"

section \<open>Moving the status\<close>

text \<open>The two \<open>ValueError\<close>s of \<open>transition_to\<close> with the texts they report.\<close>

datatype transition_error =
    Invalid_current "string"
  | Invalid_transition string string

text \<open>
  \<open>transition_to\<close> as the source has it, on the stored text of the column (an empty or missing
  value counts as \<open>found\<close>) and on the requested text.
\<close>

definition transition_text :: "string option \<Rightarrow> string \<Rightarrow> (transition_error, recording_status) result" where
  "transition_text stored requested =
     (case parse_status (if truthy stored then the stored else status_value FOUND) of
        None \<Rightarrow> Inl (Invalid_current (the stored))
      | Some current \<Rightarrow>
          (case parse_status requested of
             None \<Rightarrow> Inl (Invalid_transition (status_value current) requested)
           | Some target \<Rightarrow>
               if target \<notin> TRANSITIONS current
               then Inl (Invalid_transition (status_value current) (status_value target))
               else Inr target))"

text \<open>The same on a row, whose column holds one of the statuses (its check constraint).\<close>

definition transition_to :: "recording_status \<Rightarrow> recording \<Rightarrow> (transition_error, recording) result" where
  "transition_to target r =
     res_bind (transition_text (Some (status_value (r_status r))) (status_value target))
       (\<lambda>s. Inr (r\<lparr>r_status := s\<rparr>))"

text \<open>
  The keyword arguments of \<open>StatusService.advance\<close> that its callers pass; \<open>Set_unknown\<close> is a keyword
  that names no attribute of the row.
\<close>

datatype field_update =
    Set_candidate_name "string option"
  | Set_notion_page_id "string option"
  | Set_notion_page_url "string option"
  | Set_synology_folder_path "string option"
  | Set_synology_file_path "string option"
  | Set_synology_share_url "string option"
  | Set_manual_review_reason "string option"
  | Set_manual_review_candidates "json list option"
  | Set_storage_is_durable bool
  | Set_source_processed bool
  | Set_completed_at "instant option"
  | Set_disk_deletable_after "instant option"
  | Set_summary_search_attempts int
  | Set_summary_search_deadline "instant option"
  | Set_unknown string

fun set_field :: "field_update \<Rightarrow> recording \<Rightarrow> recording" where
  "set_field (Set_candidate_name v) r = r\<lparr>r_candidate_name := v\<rparr>"
| "set_field (Set_notion_page_id v) r = r\<lparr>r_notion_page_id := v\<rparr>"
| "set_field (Set_notion_page_url v) r = r\<lparr>r_notion_page_url := v\<rparr>"
| "set_field (Set_synology_folder_path v) r = r\<lparr>r_synology_folder_path := v\<rparr>"
| "set_field (Set_synology_file_path v) r = r\<lparr>r_synology_file_path := v\<rparr>"
| "set_field (Set_synology_share_url v) r = r\<lparr>r_synology_share_url := v\<rparr>"
| "set_field (Set_manual_review_reason v) r = r\<lparr>r_manual_review_reason := v\<rparr>"
| "set_field (Set_manual_review_candidates v) r = r\<lparr>r_manual_review_candidates := v\<rparr>"
| "set_field (Set_storage_is_durable v) r = r\<lparr>r_storage_is_durable := v\<rparr>"
| "set_field (Set_source_processed v) r = r\<lparr>r_source_processed := v\<rparr>"
| "set_field (Set_completed_at v) r = r\<lparr>r_completed_at := v\<rparr>"
| "set_field (Set_disk_deletable_after v) r = r\<lparr>r_disk_deletable_after := v\<rparr>"
| "set_field (Set_summary_search_attempts v) r = r\<lparr>r_summary_email_search_attempts := v\<rparr>"
| "set_field (Set_summary_search_deadline v) r = r\<lparr>r_summary_email_search_deadline_at := v\<rparr>"
| "set_field (Set_unknown n) r = r"

fun unknown_field :: "field_update \<Rightarrow> string option" where
  "unknown_field (Set_unknown n) = Some n"
| "unknown_field _ = None"

datatype advance_error =
    No_such_field string
  | Bad_transition transition_error

definition advance ::
  "instant \<Rightarrow> recording_status \<Rightarrow> string option \<Rightarrow> string option \<Rightarrow> field_update list \<Rightarrow>
   recording \<Rightarrow> (advance_error, recording) result" where
  "advance now target error_step error_message updates r =
     (case List.map_filter unknown_field updates of
        n # _ \<Rightarrow> Inl (No_such_field n)
      | [] \<Rightarrow>
          (case transition_to target r of
             Inl e \<Rightarrow> Inl (Bad_transition e)
           | Inr r1 \<Rightarrow>
               Inr (fold set_field updates
                 (r1\<lparr>r_last_attempted_at := Some now, r_error_step := error_step,
                     r_error_message := error_message\<rparr>))))"

section \<open>Facts about one move\<close>

lemma transition_text_stored [simp]:
  "transition_text (Some (status_value s)) (status_value t) =
     (if t \<in> TRANSITIONS s then Inr t
      else Inl (Invalid_transition (status_value s) (status_value t)))"
proof -
  have "status_value s \<noteq> []" by (cases s) simp_all
  then show ?thesis by (simp add: transition_text_def)
qed

lemma transition_to_eq [status_rules]:
  "transition_to t r =
     (if t \<in> TRANSITIONS (r_status r) then Inr (r\<lparr>r_status := t\<rparr>)
      else Inl (Invalid_transition (status_value (r_status r)) (status_value t)))"
  by (simp add: transition_to_def)

lemma transition_to_Inr_iff:
  "transition_to t r = Inr r' \<longleftrightarrow> t \<in> TRANSITIONS (r_status r) \<and> r' = r\<lparr>r_status := t\<rparr>"
  by (auto simp: transition_to_eq)

lemma set_field_frame [simp]:
  "r_id (set_field u r) = r_id r"
  "r_disk_file_id (set_field u r) = r_disk_file_id r"
  "r_status (set_field u r) = r_status r"
  "r_version (set_field u r) = r_version r"
  "r_error_step (set_field u r) = r_error_step r"
  "r_error_message (set_field u r) = r_error_message r"
  "r_last_attempted_at (set_field u r) = r_last_attempted_at r"
  "r_processing_lease_token (set_field u r) = r_processing_lease_token r"
  "r_processing_lease_expires_at (set_field u r) = r_processing_lease_expires_at r"
  by (cases u; simp)+

lemma fold_set_field_frame [simp]:
  "r_id (fold set_field us r) = r_id r"
  "r_disk_file_id (fold set_field us r) = r_disk_file_id r"
  "r_status (fold set_field us r) = r_status r"
  "r_version (fold set_field us r) = r_version r"
  "r_error_step (fold set_field us r) = r_error_step r"
  "r_error_message (fold set_field us r) = r_error_message r"
  "r_last_attempted_at (fold set_field us r) = r_last_attempted_at r"
  "r_processing_lease_token (fold set_field us r) = r_processing_lease_token r"
  "r_processing_lease_expires_at (fold set_field us r) = r_processing_lease_expires_at r"
  by (induction us arbitrary: r) simp_all

lemma advance_Inr_iff:
  "advance now t es em us r = Inr r' \<longleftrightarrow>
     List.map_filter unknown_field us = [] \<and> t \<in> TRANSITIONS (r_status r) \<and>
     r' = fold set_field us (r\<lparr>r_status := t, r_last_attempted_at := Some now,
            r_error_step := es, r_error_message := em\<rparr>)"
  by (cases "List.map_filter unknown_field us") (auto simp: advance_def transition_to_eq)

lemma advance_effect:
  assumes "advance now t es em us r = Inr r'"
  shows "r_status r' = t" "r_id r' = r_id r" "r_disk_file_id r' = r_disk_file_id r"
    "r_error_step r' = es" "r_error_message r' = em" "r_last_attempted_at r' = Some now"
    "t \<in> TRANSITIONS (r_status r)"
  using assms by (auto simp: advance_Inr_iff)

section \<open>The status machine as a step relation\<close>

inductive status_step :: "recording_status \<Rightarrow> recording_status \<Rightarrow> bool" where
  status_stepI: "t \<in> TRANSITIONS s \<Longrightarrow> status_step s t"

code_pred status_step .

inductive_simps status_step_iff: "status_step s t"
inductive_cases status_step_fromE: "status_step s t"

text \<open>A run records the statuses it has visited, the last one included.\<close>

inductive status_run :: "recording_status \<Rightarrow> recording_status list \<Rightarrow> recording_status \<Rightarrow> bool" where
  run_start: "status_run s [s] s"
| run_step: "status_run s ss t \<Longrightarrow> status_step t u \<Longrightarrow> status_run s (ss @ [u]) u"

lemma status_run_reach: "status_run s ss t \<Longrightarrow> status_step\<^sup>*\<^sup>* s t"
  by (induction rule: status_run.induct) (auto intro: rtranclp.rtrancl_into_rtrancl)

lemma reach_status_run: "status_step\<^sup>*\<^sup>* s t \<Longrightarrow> \<exists>ss. status_run s ss t"
  by (induction rule: rtranclp_induct) (blast intro: run_start run_step)+

lemma status_run_last: "status_run s ss t \<Longrightarrow> ss \<noteq> [] \<and> hd ss = s \<and> last ss = t"
  by (induction rule: status_run.induct) auto

lemma status_run_in: "status_run s ss t \<Longrightarrow> t \<in> set ss"
  using status_run_last by fastforce

lemma terminal_reach:
  assumes "status_step\<^sup>*\<^sup>* s t" and "s = COMPLETED \<or> s = IGNORED"
  shows "t = s"
  using assms
proof (induction rule: rtranclp_induct)
  case base
  then show ?case by simp
next
  case (step y z)
  then show ?case by (auto elim: status_step_fromE)
qed

text \<open>The statuses a recording has before anything of it is stored.\<close>

definition before_upload :: "recording_status set" where
  "before_upload = {FOUND, CALENDAR_EVENT_FOUND, CANDIDATE_MATCHED, MANUAL_REVIEW_REQUIRED,
     TRANSFER_STARTED, IGNORED, FAILED}"

lemma before_upload_step:
  "s \<in> before_upload \<Longrightarrow> status_step s t \<Longrightarrow> t \<in> before_upload \<or> t = UPLOADED_TO_SYNOLOGY"
  by (cases s) (auto simp: before_upload_def status_step_iff)

lemma run_before_link:
  assumes "status_run s ss t" and "s \<in> before_upload"
  shows "(t \<in> before_upload \<or> UPLOADED_TO_SYNOLOGY \<in> set ss) \<and>
    (t \<in> before_upload \<union> {UPLOADED_TO_SYNOLOGY} \<or> SYNOLOGY_LINK_CREATED \<in> set ss)"
  using assms
proof (induction rule: status_run.induct)
  case (run_start s)
  then show ?case by simp
next
  case (run_step s ss t u)
  then show ?case
    by (cases t) (auto simp: before_upload_def status_step_iff)
qed

lemma run_processed_after_notion:
  assumes "status_run s ss t" and "s \<in> before_upload"
    and "t \<in> {AWAITING_SUMMARY_EMAIL, SOURCE_MARKED_PROCESSED, SOURCE_DELETED}"
  shows "NOTION_UPDATED \<in> set ss"
  using assms
proof (induction rule: status_run.induct)
  case (run_start s)
  then show ?case by (auto simp: before_upload_def)
next
  case (run_step s ss t u)
  have visited: "t \<in> set ss" using run_step.hyps(1) by (rule status_run_in)
  show ?case
    using run_step.IH run_step.prems run_step.hyps(2) visited
    by - (cases t; auto simp: status_step_iff)
qed

text \<open>
  Progress.  Leaving a review and leaving \<open>FAILED\<close> are human decisions, waiting for the summary
  e-mail repeats itself; every other move increases the rank.
\<close>

fun status_rank :: "recording_status \<Rightarrow> nat" where
  "status_rank FOUND = 0"
| "status_rank CALENDAR_EVENT_FOUND = 1"
| "status_rank CANDIDATE_MATCHED = 2"
| "status_rank TRANSFER_STARTED = 3"
| "status_rank MANUAL_REVIEW_REQUIRED = 4"
| "status_rank UPLOADED_TO_SYNOLOGY = 5"
| "status_rank SYNOLOGY_LINK_CREATED = 6"
| "status_rank NOTION_UPDATED = 7"
| "status_rank AWAITING_SUMMARY_EMAIL = 8"
| "status_rank SOURCE_MARKED_PROCESSED = 9"
| "status_rank SOURCE_DELETED = 10"
| "status_rank COMPLETED = 11"
| "status_rank IGNORED = 11"
| "status_rank FAILED = 11"

definition human_or_waiting :: "recording_status \<Rightarrow> recording_status \<Rightarrow> bool" where
  "human_or_waiting s t \<longleftrightarrow> s = MANUAL_REVIEW_REQUIRED \<or> s = FAILED \<or>
     (s = AWAITING_SUMMARY_EMAIL \<and> t = AWAITING_SUMMARY_EMAIL)"

inductive automatic_run :: "nat \<Rightarrow> recording_status \<Rightarrow> recording_status \<Rightarrow> bool" where
  auto_start: "automatic_run 0 s s"
| auto_step: "automatic_run n s t \<Longrightarrow> status_step t u \<Longrightarrow> \<not> human_or_waiting t u \<Longrightarrow>
    automatic_run (Suc n) s u"

lemma automatic_step_rank:
  "status_step s t \<Longrightarrow> \<not> human_or_waiting s t \<Longrightarrow> status_rank s < status_rank t"
  by (cases s) (auto simp: status_step_iff human_or_waiting_def)

lemma automatic_run_rank: "automatic_run n s t \<Longrightarrow> status_rank s + n \<le> status_rank t"
  by (induction rule: automatic_run.induct) (auto dest: automatic_step_rank)

lemma status_rank_le: "status_rank s \<le> 11"
  by (cases s) simp_all

section \<open>Operations that follow the machine\<close>

text \<open>
  The contract every operation on a row keeps: its status moves along the table only, and the
  row stays the row of the same file.  The lemmas hold for any sequence of such operations.
\<close>

fun run_all :: "('i \<Rightarrow> recording \<Rightarrow> 'e + recording) \<Rightarrow> 'i list \<Rightarrow> recording \<Rightarrow> 'e + recording" where
  "run_all f [] r = Inr r"
| "run_all f (i # is) r = res_bind (f i r) (run_all f is)"

locale status_follower =
  fixes oper :: "'i \<Rightarrow> recording \<Rightarrow> 'e + recording"
  assumes follows: "oper i r = Inr r' \<Longrightarrow> status_step\<^sup>*\<^sup>* (r_status r) (r_status r')"
    and same_row: "oper i r = Inr r' \<Longrightarrow> r_id r' = r_id r \<and> r_disk_file_id r' = r_disk_file_id r"
begin

lemma all_follow:
  "run_all oper is r = Inr r' \<Longrightarrow> status_step\<^sup>*\<^sup>* (r_status r) (r_status r')"
proof (induction "is" arbitrary: r)
  case Nil
  then show ?case by simp
next
  case (Cons i "is")
  then obtain r1 where "oper i r = Inr r1" "run_all oper is r1 = Inr r'"
    by (auto simp: res_bind_Inr_iff)
  then show ?case
    using Cons.IH follows by (meson rtranclp_trans)
qed

lemma all_same_row:
  "run_all oper is r = Inr r' \<Longrightarrow> r_id r' = r_id r \<and> r_disk_file_id r' = r_disk_file_id r"
proof (induction "is" arbitrary: r)
  case Nil
  then show ?case by simp
next
  case (Cons i "is")
  then obtain r1 where "oper i r = Inr r1" "run_all oper is r1 = Inr r'"
    by (auto simp: res_bind_Inr_iff)
  then show ?case using Cons.IH same_row by metis
qed

lemma terminal_stays:
  "r_status r = COMPLETED \<or> r_status r = IGNORED \<Longrightarrow> run_all oper is r = Inr r' \<Longrightarrow>
     r_status r' = r_status r"
  using all_follow terminal_reach by metis

lemma completed_via_link:
  assumes "r_status r \<in> before_upload" and "run_all oper is r = Inr r'"
    and "r_status r' = COMPLETED"
  shows "\<exists>ss. status_run (r_status r) ss COMPLETED \<and>
    UPLOADED_TO_SYNOLOGY \<in> set ss \<and> SYNOLOGY_LINK_CREATED \<in> set ss"
proof -
  obtain ss where run: "status_run (r_status r) ss COMPLETED"
    using all_follow[OF assms(2)] assms(3) reach_status_run by metis
  then show ?thesis
    using run_before_link[OF run assms(1)] by (auto simp: before_upload_def)
qed

end

interpretation moves: status_follower transition_to
  by unfold_locales (auto simp: transition_to_Inr_iff intro: status_stepI)

type_synonym advance_call =
  "instant \<times> recording_status \<times> string option \<times> string option \<times> field_update list"

fun advance_with :: "advance_call \<Rightarrow> recording \<Rightarrow> (advance_error, recording) result" where
  "advance_with (now, t, es, em, us) r = advance now t es em us r"

interpretation advances: status_follower advance_with
proof
  fix i r r'
  assume "advance_with i r = Inr r'"
  then show "status_step\<^sup>*\<^sup>* (r_status r) (r_status r')"
    by (cases i) (auto dest: advance_effect(1,7) intro: status_stepI)
next
  fix i r r'
  assume "advance_with i r = Inr r'"
  then show "r_id r' = r_id r \<and> r_disk_file_id r' = r_disk_file_id r"
    by (cases i) (auto dest: advance_effect(2,3))
qed

section \<open>Properties\<close>

text \<open>
  How a run of calls on the status service ends: with nothing stored, with a stored file that is
  not linked yet, or past the link, which the call right after the upload has created; from there
  on no call has left the statuses past the link.
\<close>

definition after_link :: "recording_status set" where
  "after_link = {SYNOLOGY_LINK_CREATED, NOTION_UPDATED, AWAITING_SUMMARY_EMAIL,
     SOURCE_MARKED_PROCESSED, SOURCE_DELETED, COMPLETED}"

lemma run_all_append: "run_all f (xs @ ys) r = res_bind (run_all f xs r) (run_all f ys)"
proof (induction xs arbitrary: r)
  case Nil
  show ?case by (simp add: res_bind_def)
next
  case (Cons x xs)
  then show ?case by (simp add: res_bind_def split: sum.splits)
qed

lemma run_all_single [simp]: "run_all f [i] r = f i r"
  by (simp add: res_bind_def split: sum.splits)

lemma advance_with_step:
  "advance_with i r = Inr r' \<Longrightarrow> status_step (r_status r) (r_status r')"
  by (cases i) (auto dest: advance_effect(1,7) intro: status_stepI)

definition linked_in :: "advance_call list \<Rightarrow> recording \<Rightarrow> recording \<Rightarrow> bool" where
  "linked_in calls r0 r \<longleftrightarrow> (\<exists>xs u l zs ru rl. calls = xs @ u # l # zs \<and>
     run_all advance_with (xs @ [u]) r0 = Inr ru \<and> r_status ru = UPLOADED_TO_SYNOLOGY \<and>
     advance_with l ru = Inr rl \<and> r_status rl = SYNOLOGY_LINK_CREATED \<and>
     run_all advance_with zs rl = Inr r \<and>
     (\<forall>n. \<exists>ry. run_all advance_with (take n zs) rl = Inr ry \<and> r_status ry \<in> after_link))"

lemma linked_in_snoc:
  assumes "linked_in calls r0 r" and "advance_with i r = Inr r'" and "r_status r' \<in> after_link"
  shows "linked_in (calls @ [i]) r0 r'"
proof -
  obtain xs u l zs ru rl where c: "calls = xs @ u # l # zs"
    "run_all advance_with (xs @ [u]) r0 = Inr ru" "r_status ru = UPLOADED_TO_SYNOLOGY"
    "advance_with l ru = Inr rl" "r_status rl = SYNOLOGY_LINK_CREATED"
    "run_all advance_with zs rl = Inr r"
    "\<forall>n. \<exists>ry. run_all advance_with (take n zs) rl = Inr ry \<and> r_status ry \<in> after_link"
    using assms(1) by (auto simp: linked_in_def)
  have e: "run_all advance_with (zs @ [i]) rl = Inr r'"
    using c(6) assms(2) by (simp only: run_all_append run_all_single) (simp add: res_bind_def)
  have "\<exists>ry. run_all advance_with (take n (zs @ [i])) rl = Inr ry \<and> r_status ry \<in> after_link" for n
    using c(7) e assms(3) by (cases "n \<le> length zs") auto
  then show ?thesis
    unfolding linked_in_def using c(1-5) e by (metis append.assoc append_Cons)
qed

lemma run_shape:
  assumes "r_status r0 \<in> before_upload" and "run_all advance_with calls r0 = Inr r"
  shows "r_status r \<in> before_upload \<or>
    r_status r = UPLOADED_TO_SYNOLOGY \<and> calls \<noteq> [] \<or>
    r_status r \<in> after_link \<and> linked_in calls r0 r"
  using assms(2)
proof (induction calls arbitrary: r rule: rev_induct)
  case Nil
  then show ?case using assms(1) by simp
next
  case (snoc i calls)
  then obtain q where q: "run_all advance_with calls r0 = Inr q" and i: "advance_with i q = Inr r"
    by (auto simp: run_all_append res_bind_Inr_iff)
  have st: "status_step (r_status q) (r_status r)" using i by (rule advance_with_step)
  consider (early) "r_status q \<in> before_upload"
    | (stored) "r_status q = UPLOADED_TO_SYNOLOGY" "calls \<noteq> []"
    | (linked) "r_status q \<in> after_link" "linked_in calls r0 q"
    using snoc.IH[OF q] by blast
  then show ?case
  proof cases
    case early
    then show ?thesis using before_upload_step[OF early st] by auto
  next
    case stored
    then obtain xs u where xs: "calls = xs @ [u]" by (metis rev_exhaust)
    from stored(1) st have r: "r_status r = SYNOLOGY_LINK_CREATED \<or> r_status r = FAILED"
      by (auto simp: status_step_iff)
    have "linked_in (calls @ [i]) r0 r" if "r_status r = SYNOLOGY_LINK_CREATED"
      unfolding linked_in_def
      by (rule exI[of _ xs], rule exI[of _ u], rule exI[of _ i], rule exI[of _ "[]"],
          rule exI[of _ q], rule exI[of _ r])
        (use xs q i stored(1) that in \<open>auto simp: after_link_def\<close>)
    then show ?thesis using r by (auto simp: before_upload_def after_link_def)
  next
    case linked
    have "r_status r \<in> after_link \<or> r_status r = FAILED"
      using linked(1) st by (auto simp: after_link_def status_step_iff)
    then show ?thesis
      using linked_in_snoc[OF linked(2) i] by (auto simp: before_upload_def)
  qed
qed

text \<open>
  Property C1.  When a sequence of calls on the status service brings a new recording to
  \<open>COMPLETED\<close>, one of those calls left it \<open>UPLOADED_TO_SYNOLOGY\<close>, the very next call of the
  sequence left it \<open>SYNOLOGY_LINK_CREATED\<close>, and every call after that one found and left it past
  the link: it has not failed, gone back to a review or been transferred again since.
\<close>

theorem completed_recording_was_stored_and_linked:
  assumes "run_all advance_with calls (new_recording rid fid path name owner found) = Inr r"
    and "r_status r = COMPLETED"
  shows "\<exists>xs u l zs ru rl. calls = xs @ u # l # zs \<and>
    run_all advance_with (xs @ [u]) (new_recording rid fid path name owner found) = Inr ru \<and>
    r_status ru = UPLOADED_TO_SYNOLOGY \<and>
    advance_with l ru = Inr rl \<and> r_status rl = SYNOLOGY_LINK_CREATED \<and>
    run_all advance_with zs rl = Inr r \<and>
    (\<forall>n. \<exists>ry. run_all advance_with (take n zs) rl = Inr ry \<and>
       r_status ry \<in> {SYNOLOGY_LINK_CREATED, NOTION_UPDATED, AWAITING_SUMMARY_EMAIL,
         SOURCE_MARKED_PROCESSED, SOURCE_DELETED, COMPLETED})"
proof -
  have "r_status (new_recording rid fid path name owner found) \<in> before_upload"
    by (simp add: new_recording_def before_upload_def)
  from run_shape[OF this assms(1)] assms(2) show ?thesis
    by (simp add: before_upload_def linked_in_def after_link_def)
qed

text \<open>A manual choice that goes through the whole pipeline.\<close>

definition sample_calls :: "advance_call list" where
  "sample_calls = map (\<lambda>s. (7, s, None, None, []))
     [MANUAL_REVIEW_REQUIRED, TRANSFER_STARTED, UPLOADED_TO_SYNOLOGY, SYNOLOGY_LINK_CREATED,
      COMPLETED]"

theorem completed_recording_witness:
  "\<exists>xs u l zs ru. sample_calls = xs @ u # l # zs \<and>
    run_all advance_with (xs @ [u])
      (new_recording ''1'' ''f'' ''disk:/a'' ''a.mp4'' ''o@x'' 5) = Inr ru \<and>
    r_status ru = UPLOADED_TO_SYNOLOGY"
proof -
  obtain r where "run_all advance_with sample_calls
      (new_recording ''1'' ''f'' ''disk:/a'' ''a.mp4'' ''o@x'' 5) = Inr r" "r_status r = COMPLETED"
    by (simp add: sample_calls_def advance_def map_filter_simps status_rules new_recording_def)
  from completed_recording_was_stored_and_linked[OF this] show ?thesis by blast
qed

text \<open>
  Property C27.  Between two human decisions (leaving a review, retrying a failed recording) and not
  counting the repeated wait for the summary e-mail, a recording moves at most eleven times; every
  such move goes strictly forward.
\<close>

theorem automatic_moves_are_bounded:
  assumes "automatic_run n s t"
  shows "n \<le> 11 \<and> (n > 0 \<longrightarrow> status_rank s < status_rank t)"
  using automatic_run_rank[OF assms] status_rank_le[of t] by auto

theorem automatic_moves_witness:
  "(3::nat) \<le> 11 \<and> status_rank FOUND < status_rank TRANSFER_STARTED"
proof -
  have "automatic_run (Suc (Suc (Suc 0))) FOUND TRANSFER_STARTED"
    by (rule auto_step[where t = CANDIDATE_MATCHED], rule auto_step[where t = CALENDAR_EVENT_FOUND],
        rule auto_step[where t = FOUND], rule auto_start)
      (simp_all add: status_step_iff human_or_waiting_def)
  then show ?thesis
    using automatic_moves_are_bounded[of "Suc (Suc (Suc 0))" FOUND TRANSFER_STARTED] by simp
qed

end
