(* ===== verification/Lease.thy ===== *)
theory Lease
imports Recording
begin

text \<open>
  Leases: a row is taken by writing a worker's token and an expiry under a guard, as one
  \<open>UPDATE ... WHERE ... RETURNING\<close>, and given back by an update that names the token.  The contract
  is a locale; this theory interprets it for the two processing leases of \<open>app/scheduler/cron.py\<close>,
  later theories for intents, notifications and the outbox.
\<close>

section \<open>The contract\<close>

text \<open>
  A history of the row: attempts to acquire, releases, and other work on the row (which, in the
  lemmas, leaves the lease columns alone).
\<close>

datatype 'r lease_event =
    Acquire instant string
  | Release string
  | Work "'r \<Rightarrow> 'r"

text \<open>
  Running a history: the row after it, and the acquisitions that succeeded, oldest first.
\<close>

fun lease_run ::
  "(instant \<Rightarrow> string \<Rightarrow> 'r \<Rightarrow> 'r option) \<Rightarrow> (string \<Rightarrow> 'r \<Rightarrow> 'r) \<Rightarrow> 'r lease_event list \<Rightarrow> 'r \<Rightarrow>
   'r \<times> (instant \<times> string) list" where
  "lease_run acq rel [] r = (r, [])"
| "lease_run acq rel (Acquire now t # es) r =
     (case acq now t r of
        None \<Rightarrow> lease_run acq rel es r
      | Some r1 \<Rightarrow> (case lease_run acq rel es r1 of (r2, got) \<Rightarrow> (r2, (now, t) # got)))"
| "lease_run acq rel (Release t # es) r = lease_run acq rel es (rel t r)"
| "lease_run acq rel (Work f # es) r = lease_run acq rel es (f r)"

locale lease =
  fixes held_by :: "'r \<Rightarrow> string option"
    and held_until :: "'r \<Rightarrow> instant option"
    and acq :: "instant \<Rightarrow> string \<Rightarrow> 'r \<Rightarrow> 'r option"
    and rel :: "string \<Rightarrow> 'r \<Rightarrow> 'r"
    and ttl :: int
  assumes acquired: "acq now t r = Some r1 \<Longrightarrow> held_by r1 = Some t \<and> held_until r1 = Some (now + ttl)"
    and blocked: "held_by r = Some u \<Longrightarrow> held_until r = Some e \<Longrightarrow> now < e \<Longrightarrow> acq now t r = None"
    and foreign_release: "held_by r = Some u \<Longrightarrow> u \<noteq> t \<Longrightarrow> rel t r = r"
begin

definition lease_neutral :: "('r \<Rightarrow> 'r) \<Rightarrow> bool" where
  "lease_neutral f \<longleftrightarrow> (\<forall>r. held_by (f r) = held_by r \<and> held_until (f r) = held_until r)"

text \<open>While a lease runs and its holder does not release it, nobody else gets it.\<close>

lemma lease_excludes:
  assumes "held_by r = Some u" "held_until r = Some e"
    and "\<forall>ev\<in>set es. ev \<noteq> Release u \<and> (\<forall>now t. ev = Acquire now t \<longrightarrow> now < e) \<and>
      (\<forall>f. ev = Work f \<longrightarrow> lease_neutral f)"
  shows "\<exists>r2. lease_run acq rel es r = (r2, []) \<and> held_by r2 = Some u \<and> held_until r2 = Some e"
  using assms
proof (induction es arbitrary: r)
  case Nil
  then show ?case by simp
next
  case (Cons ev es)
  then show ?case
  proof (cases ev)
    case (Acquire now t)
    then have "acq now t r = None" using Cons.prems by (intro blocked[of r u e]) auto
    then show ?thesis using Acquire Cons by simp
  next
    case (Release t)
    then have "rel t r = r" using Cons.prems by (intro foreign_release[of r u]) auto
    then show ?thesis using Release Cons by simp
  next
    case (Work f)
    then have "lease_neutral f" using Cons.prems by simp
    then show ?thesis using Work Cons by (simp add: lease_neutral_def)
  qed
qed

text \<open>
  Two acquisitions that both succeeded, the first one not released in between, are at least the
  lease's duration apart.
\<close>

lemma lease_mutual_exclusion:
  assumes first: "acq n1 t1 r = Some r1" and later: "acq n2 t2 (fst (lease_run acq rel es r1)) = Some r3"
    and between: "\<forall>ev\<in>set es. ev \<noteq> Release t1 \<and> (\<forall>now t. ev = Acquire now t \<longrightarrow> now \<le> n2) \<and>
      (\<forall>f. ev = Work f \<longrightarrow> lease_neutral f)"
  shows "n1 + ttl \<le> n2"
proof (rule ccontr)
  assume "\<not> n1 + ttl \<le> n2"
  then have n2: "n2 < n1 + ttl" by simp
  have h: "held_by r1 = Some t1" "held_until r1 = Some (n1 + ttl)"
    using acquired[OF first] by auto
  obtain r2 where "lease_run acq rel es r1 = (r2, [])" "held_by r2 = Some t1"
    "held_until r2 = Some (n1 + ttl)"
    using lease_excludes[OF h, of es] between n2 by fastforce
  then show False using blocked[of r2 t1 "n1 + ttl" n2 t2] n2 later by simp
qed

end

section \<open>The processing lease of a recording\<close>

definition TRANSFER_RESUMABLE_STATUSES :: "recording_status list" where
  "TRANSFER_RESUMABLE_STATUSES = [CALENDAR_EVENT_FOUND, CANDIDATE_MATCHED, TRANSFER_STARTED,
     UPLOADED_TO_SYNOLOGY, SYNOLOGY_LINK_CREATED, NOTION_UPDATED, AWAITING_SUMMARY_EMAIL]"

definition lease_free :: "instant \<Rightarrow> recording \<Rightarrow> bool" where
  "lease_free now r \<longleftrightarrow> r_processing_lease_token r = None \<or>
     (case r_processing_lease_expires_at r of None \<Rightarrow> False | Some e \<Rightarrow> e \<le> now)"

definition take_processing_lease :: "instant \<Rightarrow> string \<Rightarrow> recording \<Rightarrow> recording" where
  "take_processing_lease now token r =
     r\<lparr>r_processing_lease_token := Some token,
       r_processing_lease_expires_at := Some (now + hours 6)\<rparr>"

definition claim_transfer_lease :: "instant \<Rightarrow> string \<Rightarrow> recording \<Rightarrow> recording option" where
  "claim_transfer_lease now token r =
     (if r_status r \<in> set TRANSFER_RESUMABLE_STATUSES \<and> lease_free now r
      then Some (take_processing_lease now token r) else None)"

definition claim_found_lease :: "instant \<Rightarrow> string \<Rightarrow> recording \<Rightarrow> recording option" where
  "claim_found_lease now token r =
     (if r_status r = FOUND \<and> lease_free now r
      then Some (take_processing_lease now token r) else None)"

definition release_processing_lease :: "string \<Rightarrow> recording \<Rightarrow> recording" where
  "release_processing_lease token r =
     (if r_processing_lease_token r = Some token
      then r\<lparr>r_processing_lease_token := None, r_processing_lease_expires_at := None\<rparr> else r)"

lemmas processing_lease_defs =
  claim_transfer_lease_def claim_found_lease_def take_processing_lease_def
  release_processing_lease_def lease_free_def

interpretation transfer_lease: lease r_processing_lease_token r_processing_lease_expires_at
  claim_transfer_lease release_processing_lease "hours 6"
  by unfold_locales (auto simp: processing_lease_defs split: if_splits)

interpretation found_lease: lease r_processing_lease_token r_processing_lease_expires_at
  claim_found_lease release_processing_lease "hours 6"
  by unfold_locales (auto simp: processing_lease_defs split: if_splits)

text \<open>
  A row is taken by whichever of the two resume routines its status is for, so histories of both
  interleave on the same lease.
\<close>

definition claim_processing_lease :: "instant \<Rightarrow> string \<Rightarrow> recording \<Rightarrow> recording option" where
  "claim_processing_lease now token r =
     (case claim_transfer_lease now token r of
        Some r1 \<Rightarrow> Some r1
      | None \<Rightarrow> claim_found_lease now token r)"

interpretation processing_lease: lease r_processing_lease_token r_processing_lease_expires_at
  claim_processing_lease release_processing_lease "hours 6"
proof
  fix now t r r1
  assume "claim_processing_lease now t r = Some r1"
  then show "r_processing_lease_token r1 = Some t \<and>
      r_processing_lease_expires_at r1 = Some (now + hours 6)"
    using transfer_lease.acquired found_lease.acquired
    by (auto simp: claim_processing_lease_def split: option.splits)
next
  fix r :: recording and u e now t
  assume "r_processing_lease_token r = Some u" "r_processing_lease_expires_at r = Some e" "now < e"
  then show "claim_processing_lease now t r = None"
    using transfer_lease.blocked found_lease.blocked by (simp add: claim_processing_lease_def)
qed (rule transfer_lease.foreign_release)

section \<open>Properties\<close>

text \<open>
  Property C22.  No two workers process a recording at the same time: once a worker took the
  processing lease at \<open>n1\<close>, and as long as it has not released it, a later successful claim comes
  at least six hours later, whatever claims, foreign releases and work on the row (leaving the
  lease columns alone) happened in between.
\<close>

theorem processing_lease_is_exclusive:
  assumes "claim_processing_lease n1 t1 r = Some r1"
    and "claim_processing_lease n2 t2
          (fst (lease_run claim_processing_lease release_processing_lease es r1)) = Some r3"
    and "\<forall>ev\<in>set es. ev \<noteq> Release t1 \<and> (\<forall>now t. ev = Acquire now t \<longrightarrow> now \<le> n2) \<and>
          (\<forall>f. ev = Work f \<longrightarrow> processing_lease.lease_neutral f)"
  shows "n1 + hours 6 \<le> n2"
  by (rule processing_lease.lease_mutual_exclusion[OF assms])

theorem processing_lease_witness: "(0::int) + hours 6 \<le> hours 7"
proof -
  define r where "r = (new_recording ''1'' ''f'' ''p'' ''n'' ''o'' 0)\<lparr>r_status := TRANSFER_STARTED\<rparr>"
  define r1 where "r1 = take_processing_lease 0 ''a'' r"
  define es :: "recording lease_event list" where "es = [Acquire 5 ''b'', Work (r_status_update (\<lambda>_. UPLOADED_TO_SYNOLOGY)), Release ''b'']"
  define r2 where "r2 = r1\<lparr>r_status := UPLOADED_TO_SYNOLOGY\<rparr>"
  have "claim_processing_lease 0 ''a'' r = Some r1"
    by (simp add: r_def r1_def new_recording_def processing_lease_defs claim_processing_lease_def
        TRANSFER_RESUMABLE_STATUSES_def)
  moreover have "lease_run claim_processing_lease release_processing_lease es r1 = (r2, [])"
    by (simp add: es_def r2_def r_def r1_def new_recording_def processing_lease_defs
        claim_processing_lease_def)
  moreover have "claim_processing_lease (hours 7) ''c'' r2 = Some (take_processing_lease (hours 7) ''c'' r2)"
    by (simp add: r_def r1_def r2_def new_recording_def processing_lease_defs claim_processing_lease_def
        TRANSFER_RESUMABLE_STATUSES_def)
  ultimately show ?thesis
    using processing_lease_is_exclusive[of 0 "''a''" r r1 "hours 7" "''c''" es]
    by (simp add: es_def processing_lease.lease_neutral_def)
qed

end
