(* ===== verification/Synology_Path.thy ===== *)
theory Synology_Path
imports Prelude
begin

text \<open>
  The path functions of \<open>app/tools/synology.py\<close>: canonical absolute paths, confinement under a
  configured root, and the reading of the metadata the file station returns for a folder.
\<close>

section \<open>Canonical paths\<close>

datatype path_error =
    Not_absolute
  | Traversal
  | Escapes_root
  | Bad_component

definition components :: "string \<Rightarrow> string list" where
  "components p = filter (\<lambda>part. part \<noteq> '''') (split_on CHR ''/'' p)"

definition from_components :: "string list \<Rightarrow> string" where
  "from_components ps = ''/'' @ join_with ''/'' ps"

definition canonical :: "string \<Rightarrow> (path_error, string) result" where
  "canonical path =
     (if \<not> prefix ''/'' path \<or> CHR 0x5C \<in> set path \<or> CHR 0x00 \<in> set path then Inl Not_absolute
      else if list_ex (\<lambda>part. part = ''.'' \<or> part = ''..'') (split_on CHR ''/'' path)
      then Inl Traversal
      else Inr (from_components (components path)))"

text \<open>
  The lexical comparison of \<open>PurePosixPath\<close>: on canonical paths the parts after the root slash are
  the components, and \<open>is_relative_to\<close> compares their beginning.
\<close>

definition canonical_under_root :: "string \<Rightarrow> string \<Rightarrow> (path_error, string) result" where
  "canonical_under_root root candidate =
     res_bind (canonical root) (\<lambda>r.
     res_bind (canonical candidate) (\<lambda>c.
       if components c \<noteq> components r \<and> \<not> prefix (components r) (components c)
       then Inl Escapes_root else Inr c))"

definition path_parent :: "string \<Rightarrow> string" where
  "path_parent p = from_components (butlast (components p))"

definition path_name :: "string \<Rightarrow> string" where
  "path_name p = (if components p = [] then '''' else last (components p))"

definition join_child :: "string \<Rightarrow> string \<Rightarrow> string" where
  "join_child folder name = rstrip_by (\<lambda>c. c = CHR ''/'') folder @ ''/'' @ name"

definition owner_marker_name :: "string \<Rightarrow> string" where
  "owner_marker_name filename = ''.'' @ filename @ ''.recording-agent-owner.json''"

section \<open>Folder metadata\<close>

definition is_writable :: "json \<Rightarrow> bool" where
  "is_writable additional =
     (let perm = jget ''perm'' additional; acl = jget ''acl'' perm in
      if \<not> is_obj perm then False
      else if is_obj acl then jget ''write'' acl = JBool True
      else jget ''write'' perm = JBool True)"

definition take_last :: "nat \<Rightarrow> 'a list \<Rightarrow> 'a list" where
  "take_last n xs = drop (length xs - n) xs"

definition is_symlink :: "string \<Rightarrow> json \<Rightarrow> (path_error, bool) result" where
  "is_symlink path real_path =
     (case jtext real_path of
        None \<Rightarrow> Inr False
      | Some rp \<Rightarrow>
          let relative = drop 1 (components path) in
          res_bind (canonical rp) (\<lambda>rc.
            if relative = [] then Inr False
            else Inr (take_last (length relative) (components rc) \<noteq> relative)))"

text \<open>The check of \<open>create_folder_under_root\<close> on the requested name.\<close>

definition safe_folder_name :: "string \<Rightarrow> bool" where
  "safe_folder_name name \<longleftrightarrow> name \<notin> {'''', ''.'', ''..''} \<and> CHR ''/'' \<notin> set name \<and>
     CHR 0x5C \<notin> set name \<and> (\<forall>c\<in>set name. \<not> (of_char c :: nat) < 32)"

section \<open>Facts about canonical paths\<close>

definition good_parts :: "string list \<Rightarrow> bool" where
  "good_parts ps \<longleftrightarrow> (\<forall>p\<in>set ps. p \<notin> {'''', ''.'', ''..''} \<and> CHR ''/'' \<notin> set p \<and>
     CHR 0x5C \<notin> set p \<and> CHR 0x00 \<notin> set p)"

lemma set_parts_chars: "p \<in> set (split_on c s) \<Longrightarrow> set p \<subseteq> set s"
proof (induction s arbitrary: p)
  case Nil
  then show ?case by simp
next
  case (Cons x xs)
  obtain y ys where "split_on c xs = y # ys"
    by (cases "split_on c xs") auto
  then show ?case using Cons by (fastforce split: if_splits)
qed

lemma components_from [simp]: "good_parts ps \<Longrightarrow> components (from_components ps) = ps"
proof (cases "ps = []")
  case True
  then show ?thesis by (simp add: components_def from_components_def)
next
  case False
  assume "good_parts ps"
  then have "split_on CHR ''/'' (join_with ''/'' ps) = ps" "filter (\<lambda>p. p \<noteq> '''') ps = ps"
    using False by (auto simp: good_parts_def intro!: split_join filter_True)
  then show ?thesis by (simp add: components_def from_components_def)
qed

lemma canonical_Inr:
  assumes "canonical path = Inr c"
  shows "good_parts (components path)" "c = from_components (components path)"
    "components c = components path"
proof -
  show c: "c = from_components (components path)"
    using assms by (auto simp: canonical_def split: if_splits)
  show g: "good_parts (components path)"
    using assms split_on_parts[of _ "CHR ''/''" path] set_parts_chars[of _ "CHR ''/''" path]
    by (force simp: canonical_def good_parts_def components_def list_ex_iff split: if_splits)
  show "components c = components path" by (simp add: c g)
qed

lemma set_join_with: "set (join_with sep ps) \<subseteq> set sep \<union> (\<Union>p\<in>set ps. set p)"
  by (induction sep ps rule: join_with.induct) auto

lemma canonical_from [simp]: "good_parts ps \<Longrightarrow> canonical (from_components ps) = Inr (from_components ps)"
proof -
  assume g: "good_parts ps"
  have "x \<notin> set (join_with ''/'' ps)" if "x = CHR 0x5C \<or> x = CHR 0x00" for x
    using g set_join_with[of "''/''" ps] that by (auto simp: good_parts_def)
  moreover have "\<not> list_ex (\<lambda>part. part = ''.'' \<or> part = ''..'') (split_on CHR ''/'' (from_components ps))"
  proof (cases "ps = []")
    case True
    then show ?thesis by (simp add: from_components_def)
  next
    case False
    then show ?thesis
      using g by (auto simp: from_components_def split_join good_parts_def list_ex_iff)
  qed
  moreover have "set (from_components ps) = insert CHR ''/'' (set (join_with ''/'' ps))"
    and "prefix ''/'' (from_components ps)"
    by (simp_all add: from_components_def)
  ultimately have "canonical (from_components ps) = Inr (from_components (components (from_components ps)))"
    by (simp add: canonical_def)
  then show ?thesis using components_from[OF g] by metis
qed

lemma canonical_idem: "canonical p = Inr c \<Longrightarrow> canonical c = Inr c"
  using canonical_Inr[of p c] by simp

lemma canonical_inj_components:
  "canonical p = Inr c \<Longrightarrow> canonical q = Inr d \<Longrightarrow> components c = components d \<Longrightarrow> c = d"
  using canonical_Inr by metis

text \<open>The set of paths below a root, the root included.\<close>

definition below :: "string \<Rightarrow> string \<Rightarrow> bool" where
  "below root p \<longleftrightarrow> canonical p = Inr p \<and> prefix (components root) (components p)"

lemma under_root_Inr:
  assumes "canonical_under_root root candidate = Inr c"
  shows "canonical candidate = Inr c" "below root c"
  using assms canonical_Inr(3) canonical_idem
  by (auto simp: canonical_under_root_def res_bind_Inr_iff below_def split: if_splits)

lemma under_root_below: "canonical root = Inr r \<Longrightarrow> below root c \<Longrightarrow> canonical_under_root root c = Inr c"
  using canonical_Inr(3)[of root r] by (auto simp: canonical_under_root_def below_def)

lemma below_trans: "below a b \<Longrightarrow> below b c \<Longrightarrow> below a c"
  unfolding below_def by (meson prefix_order.trans)

lemma below_components: "below root p \<Longrightarrow> good_parts (components p)"
  unfolding below_def using canonical_Inr(1) by blast

section \<open>The confinement contract\<close>

text \<open>
  What every function that admits a caller's path promises: the admitted path is canonical and
  below the root it was admitted for, and admitting it again changes nothing.
\<close>

locale path_confinement =
  fixes confine :: "string \<Rightarrow> string \<Rightarrow> 'e + string"
  assumes confined: "confine root p = Inr c \<Longrightarrow> below root c"
    and stable: "confine root p = Inr c \<Longrightarrow> confine root c = Inr c"
begin

lemma nested: "confine root p = Inr c \<Longrightarrow> confine c q = Inr d \<Longrightarrow> below root d"
  using confined below_trans by blast

lemma no_dot_entry:
  "confine root p = Inr c \<Longrightarrow> part \<in> set (components c) \<Longrightarrow> part \<noteq> ''.'' \<and> part \<noteq> ''..''"
  using confined below_components by (fastforce simp: good_parts_def)

lemma all_confined: "res_map (confine root) ps = Inr cs \<Longrightarrow> c \<in> set cs \<Longrightarrow> below root c"
proof -
  assume "res_map (confine root) ps = Inr cs" "c \<in> set cs"
  then obtain p where "confine root p = Inr c"
    by (auto simp: res_map_Inr_iff list_all2_conv_all_nth in_set_conv_nth)
  then show ?thesis by (rule confined)
qed

end

interpretation synology_root: path_confinement canonical_under_root
proof
  fix root p c
  assume a: "canonical_under_root root p = Inr c"
  show "below root c" using under_root_Inr(2)[OF a] .
  obtain r where "canonical root = Inr r"
    using a by (auto simp: canonical_under_root_def res_bind_Inr_iff)
  then show "canonical_under_root root c = Inr c"
    using under_root_Inr(2)[OF a] by (rule under_root_below)
qed

end
