(* ===== verification/Synology_Client.thy ===== *)
theory Synology_Client
imports Synology_Path
begin

text \<open>
  The file-station client \<open>SynologyBackend\<close> of \<open>app/tools/synology.py\<close> above its HTTP transport.
  A request is a value; the server behind it is the parameter \<open>'w dsm\<close>, a function from a
  request and its own state to a response (\<open>None\<close> is a transport failure) and a new state.  The
  client's world pairs that state with the list of requests sent so far.  Log-in, session
  parameters and the pauses between polls are transport and are left out.  The last argument of
  \<open>Upload_file\<close> is its \<open>overwrite\<close> field, those of \<open>Copy_move\<close> are \<open>remove_src\<close> and \<open>overwrite\<close>.
\<close>

section \<open>Requests and responses\<close>

datatype nas_request =
    Query_api
  | Info_get
  | Get_info string
  | Get_size string
  | List_dirs string nat nat
  | Create_folder string string bool
  | Upload_file string string string bool
  | Download string
  | Share_create string
  | Share_list nat
  | Copy_move string string bool bool
  | Task_status string

datatype collision =
    Overwrite_forbidden
  | Size_unverified string
  | Marker_malformed
  | Different_owner string
  | Not_complete string
  | Reroute_target_exists
  | Source_missing
  | Source_without_marker
  | Target_absent
  | Marker_target_exists
  | Marker_not_preserved
  | Source_not_removed
  | Source_marker_not_removed
  | Moved_target_absent
  | Moved_target_without_marker

datatype nas_error =
    Api_error int json
  | Path_error path_error
  | Not_writable
  | Collision collision
  | Bad_bounds
  | Type_error
  | Transport_error

record 'w dsm =
  answer :: "nas_request \<Rightarrow> 'w \<Rightarrow> http_response option \<times> 'w"
  show_json :: "json \<Rightarrow> string"

type_synonym ('w, 'a) nas_io = "('w \<times> nas_request list, nas_error, 'a) io"

definition send :: "'w dsm \<Rightarrow> nas_request \<Rightarrow> ('w, http_response) nas_io" where
  "send d q = (\<lambda>(w, log). case answer d q w of
      (None, w1) \<Rightarrow> (Inl Transport_error, (w1, log @ [q]))
    | (Some r, w1) \<Rightarrow> (Inr r, (w1, log @ [q])))"

definition with_path :: "(path_error, 'a) result \<Rightarrow> (nas_error, 'a) result" where
  "with_path v = (case v of Inl e \<Rightarrow> Inl (Path_error e) | Inr x \<Rightarrow> Inr x)"

text \<open>\<open>_validate\<close>: status and error codes of the caller's list pass, other failures raise.\<close>

definition validate :: "int list \<Rightarrow> http_response \<Rightarrow> (nas_error, json) result" where
  "validate allowed r =
     (let payload = payload_of r; code = jget ''code'' (jget ''error'' payload) in
      if resp_status r \<in> set allowed then Inr (if is_obj payload then payload else JObj [])
      else if \<not> hashable code then Inl Type_error
      else if (\<exists>n\<in>set allowed. jint code = Some n)
      then Inr (if is_obj payload then payload else JObj [])
      else if is_error_status (resp_status r) \<or> \<not> is_obj payload \<or>
              jget ''success'' payload = JBool False
      then Inl (Api_error (resp_status r) payload)
      else Inr payload)"

definition copy_move_task_id :: "json \<Rightarrow> string option" where
  "copy_move_task_id payload =
     (let data = jget ''data'' payload;
          pick = (\<lambda>k. case jtext (jget k data) of Some s \<Rightarrow> if s \<noteq> '''' then Some s else None | None \<Rightarrow> None)
      in if \<not> is_obj data then None
         else (case pick ''taskid'' of Some t \<Rightarrow> Some t | None \<Rightarrow> pick ''task_id''))"

section \<open>Sizes and ownership markers\<close>

definition size_of_response :: "string \<Rightarrow> http_response \<Rightarrow> (nas_error, int option) result" where
  "size_of_response path r =
     (if resp_status r = 404 \<or> jint (jget ''code'' (jget ''error'' (payload_of r))) = Some 408
      then Inr None
      else res_bind (validate [] r) (\<lambda>validated.
        (case jitems (jget ''files'' (jget ''data'' validated)) of
           [] \<Rightarrow> Inr None
         | item # _ \<Rightarrow>
             if jint (jget ''code'' item) = Some 408 then Inr None
             else (let s0 = jget ''size'' (jget ''additional'' item);
                       s1 = (if s0 = JNull then jget ''size'' item else s0)
                   in case jint s1 of
                        None \<Rightarrow> Inl (Collision (Size_unverified path))
                      | Some n \<Rightarrow> Inr (Some n)))))"

definition file_size :: "'w dsm \<Rightarrow> string \<Rightarrow> ('w, int option) nas_io" where
  "file_size d path = io_bind (send d (Get_size path)) (\<lambda>r. io_lift (size_of_response path r))"

definition marker_of_response :: "http_response \<Rightarrow> (nas_error, (string \<times> json) list option) result" where
  "marker_of_response r =
     (if resp_status r = 404 then Inr None
      else case resp_json r of
        None \<Rightarrow> Inl (Collision Marker_malformed)
      | Some (JObj ms) \<Rightarrow>
          if jget ''success'' (JObj ms) = JBool False
          then if jint (jget ''code'' (jget ''error'' (JObj ms))) = Some 408 then Inr None
               else res_bind (validate [] r) (\<lambda>_. Inr (Some ms))
          else Inr (Some ms)
      | Some _ \<Rightarrow> Inl (Collision Marker_malformed))"

definition read_owner_marker ::
  "'w dsm \<Rightarrow> string \<Rightarrow> string \<Rightarrow> ('w, (string \<times> json) list option) nas_io" where
  "read_owner_marker d folder filename =
     (let marker_path = join_child folder (owner_marker_name filename) in
      io_bind (file_size d marker_path) (\<lambda>fsize.
        case fsize of
          None \<Rightarrow> io_return None
        | Some _ \<Rightarrow> io_bind (send d (Download marker_path)) (\<lambda>r. io_lift (marker_of_response r))))"

text \<open>Equality of two dictionaries of scalars; \<open>True == 1\<close> in Python.\<close>

definition scalar_norm :: "json \<Rightarrow> json" where
  "scalar_norm j = (case jint j of Some n \<Rightarrow> JInt n | None \<Rightarrow> j)"

definition dict_eq :: "(string \<times> json) list \<Rightarrow> (string \<times> json) list \<Rightarrow> bool" where
  "dict_eq a b \<longleftrightarrow> (\<forall>k\<in>set (map fst a) \<union> set (map fst b).
     map_option scalar_norm (map_of a k) = map_option scalar_norm (map_of b k))"

definition require_same_owner ::
  "string \<Rightarrow> (string \<times> json) list \<Rightarrow> (string \<times> json) list \<Rightarrow> (nas_error, unit) result" where
  "require_same_owner target actual expected =
     (if dict_eq actual expected then Inr () else Inl (Collision (Different_owner target)))"

definition require_complete_size :: "string \<Rightarrow> int \<Rightarrow> int option \<Rightarrow> (nas_error, unit) result" where
  "require_complete_size target actual expected =
     (if expected = Some actual then Inr () else Inl (Collision (Not_complete target)))"

section \<open>Uploading\<close>

text \<open>\<open>json.dumps(owner, sort_keys=True, separators=(",", ":"))\<close> of the marker.\<close>

definition hex_digit :: "nat \<Rightarrow> char" where
  "hex_digit n = (if n < 10 then char_of (48 + n) else char_of (87 + n))"

definition json_escape_char :: "char \<Rightarrow> string" where
  "json_escape_char c = (let n = (of_char c :: nat) in
     if n = 34 then [CHR 0x5C, CHR 0x22]
     else if n = 92 then [CHR 0x5C, CHR 0x5C]
     else if n = 10 then [CHR 0x5C, CHR ''n'']
     else if n = 13 then [CHR 0x5C, CHR ''r'']
     else if n = 9 then [CHR 0x5C, CHR ''t'']
     else if n = 8 then [CHR 0x5C, CHR ''b'']
     else if n = 12 then [CHR 0x5C, CHR ''f'']
     else if n < 32 \<or> 126 < n
     then [CHR 0x5C, CHR ''u'', CHR ''0'', CHR ''0'', hex_digit (n div 16), hex_digit (n mod 16)]
     else [c])"

definition json_string :: "string \<Rightarrow> string" where
  "json_string s = CHR 0x22 # concat (map json_escape_char s) @ [CHR 0x22]"

fun json_scalar :: "json \<Rightarrow> string" where
  "json_scalar JNull = ''null''"
| "json_scalar (JBool b) = (if b then ''true'' else ''false'')"
| "json_scalar (JInt n) = int_text n"
| "json_scalar (JStr s) = json_string s"
| "json_scalar _ = ''''"

definition flat_json :: "(string \<times> json) list \<Rightarrow> string" where
  "flat_json ms = ''{'' @ join_with '','' (map (\<lambda>(k, v). json_string k @ '':'' @ json_scalar v) ms) @ ''}''"

definition expected_owner :: "string \<Rightarrow> string \<Rightarrow> int option \<Rightarrow> (string \<times> json) list" where
  "expected_owner recording_id content_identity fsize =
     [(''content_identity'', JStr content_identity), (''recording_id'', JStr recording_id),
      (''size'', case fsize of None \<Rightarrow> JNull | Some n \<Rightarrow> JInt n), (''v'', JInt 1)]"

definition upload_file :: "'w dsm \<Rightarrow> string \<Rightarrow> string \<Rightarrow> string \<Rightarrow> ('w, unit) nas_io" where
  "upload_file d folder filename content =
     io_guard (set filename \<inter> {CHR 0x0D, CHR 0x0A, CHR 0x00} = {}) (Path_error Bad_component)
       (io_bind (send d (Upload_file folder filename content False)) (\<lambda>r.
        io_bind (io_lift (validate [] r)) (\<lambda>_. io_return ())))"

definition claim_owner ::
  "'w dsm \<Rightarrow> string \<Rightarrow> string \<Rightarrow> (string \<times> json) list \<Rightarrow> ('w, unit) nas_io" where
  "claim_owner d folder filename expected =
     io_catch (upload_file d folder (owner_marker_name filename) (flat_json expected))
       (\<lambda>e. io_bind (read_owner_marker d folder filename) (\<lambda>owner.
          case owner of
            None \<Rightarrow> io_raise e
          | Some o1 \<Rightarrow> io_lift (require_same_owner (join_child folder filename) o1 expected)))"

definition upload_with_recovery ::
  "'w dsm \<Rightarrow> string \<Rightarrow> string \<Rightarrow> string \<Rightarrow> int option \<Rightarrow> (string \<times> json) list \<Rightarrow> ('w, string) nas_io" where
  "upload_with_recovery d folder filename content fsize expected =
     (let target = join_child folder filename in
      io_catch (io_bind (upload_file d folder filename content) (\<lambda>_. io_return target))
        (\<lambda>e. io_bind (read_owner_marker d folder filename) (\<lambda>recovered_owner.
             io_bind (file_size d target) (\<lambda>recovered_size.
               case (recovered_owner, recovered_size) of
                 (Some ro, Some rs) \<Rightarrow>
                   io_bind (io_lift (require_same_owner target ro expected)) (\<lambda>_.
                   io_bind (io_lift (require_complete_size target rs fsize)) (\<lambda>_. io_return target))
               | _ \<Rightarrow> io_raise e))))"

definition upload ::
  "'w dsm \<Rightarrow> string \<Rightarrow> string \<Rightarrow> string \<Rightarrow> int option \<Rightarrow> string \<Rightarrow> string \<Rightarrow> ('w, string) nas_io" where
  "upload d folder filename content fsize recording_id content_identity =
     (let target = join_child folder filename;
          expected = expected_owner recording_id content_identity fsize;
          put = upload_with_recovery d folder filename content fsize expected
      in io_bind (read_owner_marker d folder filename) (\<lambda>owner.
         io_bind (file_size d target) (\<lambda>existing_size.
           case owner of
             Some actual \<Rightarrow>
               io_bind (io_lift (require_same_owner target actual expected)) (\<lambda>_.
                 case existing_size of
                   Some n \<Rightarrow>
                     io_bind (io_lift (require_complete_size target n fsize)) (\<lambda>_. io_return target)
                 | None \<Rightarrow> put)
           | None \<Rightarrow>
               (case existing_size of
                  Some n \<Rightarrow> io_raise (Collision Overwrite_forbidden)
                | None \<Rightarrow>
                    io_bind (claim_owner d folder filename expected) (\<lambda>_.
                    io_bind (file_size d target) (\<lambda>claimed_size.
                      case claimed_size of
                        Some n \<Rightarrow>
                          io_bind (io_lift (require_complete_size target n fsize)) (\<lambda>_. io_return target)
                      | None \<Rightarrow> put))))))"

section \<open>Folders\<close>

record synology_folder =
  sf_path :: string
  sf_name :: string
  sf_writable :: bool
  sf_symlink :: bool
  sf_directory :: bool

record synology_preflight =
  pf_api_available :: bool
  pf_root_exists :: bool
  pf_root_writable :: bool
  pf_share_links_available :: bool

definition info_of_item :: "'w dsm \<Rightarrow> int \<Rightarrow> json \<Rightarrow> (nas_error, synology_folder) result" where
  "info_of_item d status item =
     (case jtext (jget ''path'' item) of
        None \<Rightarrow> Inl (Api_error status (JObj []))
      | Some raw_path \<Rightarrow>
          res_bind (with_path (canonical raw_path)) (\<lambda>c.
            let extra = jget ''additional'' item;
                nm = jget ''name'' item
            in res_bind (with_path (is_symlink c (jget ''real_path'' extra))) (\<lambda>symlink.
                 Inr \<lparr>sf_path = c,
                      sf_name = take 200 (if \<not> jtruthy nm then path_name c
                                          else case jtext nm of Some s \<Rightarrow> s | None \<Rightarrow> show_json d nm),
                      sf_writable = is_writable extra,
                      sf_symlink = symlink,
                      sf_directory = (jget ''isdir'' item = JBool True)\<rparr>)))"

definition get_info :: "'w dsm \<Rightarrow> string \<Rightarrow> ('w, synology_folder) nas_io" where
  "get_info d path =
     io_bind (send d (Get_info path)) (\<lambda>r.
     io_bind (io_lift (validate [] r)) (\<lambda>payload.
       case jitems (jget ''files'' (jget ''data'' payload)) of
         [] \<Rightarrow> io_raise (Api_error (resp_status r) (JObj []))
       | item # _ \<Rightarrow>
           if is_obj item then io_lift (info_of_item d (resp_status r) item)
           else io_raise (Api_error (resp_status r) (JObj []))))"

definition object_keys :: "json \<Rightarrow> string list" where
  "object_keys j = (case j of JObj ms \<Rightarrow> map fst ms | _ \<Rightarrow> [])"

definition preflight :: "'w dsm \<Rightarrow> string \<Rightarrow> ('w, synology_preflight) nas_io" where
  "preflight d root =
     io_bind (io_lift (with_path (canonical_under_root root root))) (\<lambda>canonical_root.
     io_bind (send d Query_api) (\<lambda>info.
     io_bind (io_lift (validate [] info)) (\<lambda>info_payload.
     let api_names = object_keys (jget ''data'' info_payload) in
     io_bind (get_info d canonical_root) (\<lambda>root_info.
       io_return
         \<lparr>pf_api_available = (''SYNO.FileStation.Info'' \<in> set api_names \<and>
                              ''SYNO.FileStation.List'' \<in> set api_names),
          pf_root_exists = True,
          pf_root_writable = (sf_directory root_info \<and> sf_writable root_info \<and> \<not> sf_symlink root_info),
          pf_share_links_available = (''SYNO.FileStation.Sharing'' \<in> set api_names)\<rparr>))))"

text \<open>
  \<open>discover_folders\<close>.  The inner loop over the items of a page returns the folders found and the
  queue; the two outer loops test the same bounds, so they are one recursion on the pages left,
  whose current folder (with depth and offset) is \<open>None\<close> between two folders.
\<close>

fun scan_page ::
  "'w dsm \<Rightarrow> string \<Rightarrow> nat \<Rightarrow> nat \<Rightarrow> nat \<Rightarrow> json list \<Rightarrow>
   synology_folder list \<Rightarrow> (string \<times> nat) list \<Rightarrow>
   (nas_error, synology_folder list \<times> (string \<times> nat) list) result" where
  "scan_page d root max_depth max_results depth [] results queue = Inr (results, queue)"
| "scan_page d root max_depth max_results depth (item # items) results queue =
     (case (jtext (jget ''path'' item), jtext (jget ''name'' item)) of
        (Some raw_path, Some nm) \<Rightarrow>
          res_bind (with_path (canonical_under_root root raw_path)) (\<lambda>path.
          let extra = (if is_obj (jget ''additional'' item) then jget ''additional'' item else JObj [])
          in res_bind (with_path (is_symlink path (jget ''real_path'' extra))) (\<lambda>symlink.
             let folder = \<lparr>sf_path = path, sf_name = take 200 nm, sf_writable = is_writable extra,
                           sf_symlink = symlink, sf_directory = True\<rparr>;
                 results1 = (if symlink then results else results @ [folder]);
                 queue1 = (if \<not> symlink \<and> depth < max_depth then queue @ [(path, depth + 1)] else queue)
             in if max_results \<le> length results1 then Inr (results1, queue1)
                else scan_page d root max_depth max_results depth items results1 queue1))
      | _ \<Rightarrow> scan_page d root max_depth max_results depth items results queue)"

text \<open>\<open>[item for item in files if isinstance(item, dict)]\<close> over whatever \<open>files\<close> is.\<close>

definition page_items :: "json \<Rightarrow> (nas_error, json list) result" where
  "page_items data =
     (case json_get ''files'' data of
        None \<Rightarrow> Inr []
      | Some (JList xs) \<Rightarrow> Inr (filter is_obj xs)
      | Some (JStr _) \<Rightarrow> Inr []
      | Some (JObj _) \<Rightarrow> Inr []
      | Some _ \<Rightarrow> Inl Type_error)"

fun discover_loop ::
  "'w dsm \<Rightarrow> string \<Rightarrow> nat \<Rightarrow> nat \<Rightarrow> nat \<Rightarrow> nat \<Rightarrow> (string \<times> nat \<times> nat) option \<Rightarrow>
   synology_folder list \<Rightarrow> (string \<times> nat) list \<Rightarrow> ('w, synology_folder list) nas_io" where
  "discover_loop d root max_depth max_results page_size 0 current results queue = io_return results"
| "discover_loop d root max_depth max_results page_size (Suc pages_left) current results queue =
     (if max_results \<le> length results then io_return results
      else case (case current of
                   Some c \<Rightarrow> Some (c, queue)
                 | None \<Rightarrow> (case queue of [] \<Rightarrow> None | (p, dp) # q \<Rightarrow> Some ((p, dp, 0), q))) of
        None \<Rightarrow> io_return results
      | Some ((parent, depth, offset), queue0) \<Rightarrow>
          io_bind (send d (List_dirs parent offset page_size)) (\<lambda>r.
          io_bind (io_lift (validate [] r)) (\<lambda>payload.
          let data = jget ''data'' payload in
          io_bind (io_lift (page_items data)) (\<lambda>page.
          io_bind (io_lift (scan_page d root max_depth max_results depth page results queue0))
            (\<lambda>(results1, queue1).
              let offset1 = offset + length page;
                  stop = (page = [] \<or> length page < page_size \<or>
                          (case jint (jget ''total'' data) of None \<Rightarrow> False | Some t \<Rightarrow> t \<le> int offset1))
              in discover_loop d root max_depth max_results page_size pages_left
                   (if stop then None else Some (parent, depth, offset1)) results1 queue1)))))"

definition discover_folders ::
  "'w dsm \<Rightarrow> string \<Rightarrow> int \<Rightarrow> int \<Rightarrow> int \<Rightarrow> int \<Rightarrow> ('w, synology_folder list) nas_io" where
  "discover_folders d root max_depth max_pages max_results page_size =
     io_guard (0 \<le> max_depth \<and> max_depth \<le> 8) Bad_bounds
      (io_guard (1 \<le> max_pages \<and> max_pages \<le> 50 \<and> 1 \<le> max_results \<and> max_results \<le> 500) Bad_bounds
       (io_guard (1 \<le> page_size \<and> page_size \<le> 100) Bad_bounds
        (io_bind (io_lift (with_path (canonical_under_root root root))) (\<lambda>canonical_root.
           discover_loop d canonical_root (nat max_depth) (nat max_results) (nat page_size)
             (nat max_pages) None [] [(canonical_root, 0)]))))"

definition create_folder_under_root ::
  "'w dsm \<Rightarrow> string \<Rightarrow> string \<Rightarrow> string \<Rightarrow> ('w, synology_folder) nas_io" where
  "create_folder_under_root d root parent name =
     io_guard (safe_folder_name name) (Path_error Bad_component)
      (io_bind (io_lift (with_path (canonical_under_root root root))) (\<lambda>canonical_root.
       io_bind (io_lift (with_path (canonical_under_root canonical_root parent))) (\<lambda>canonical_parent.
       io_bind (get_info d canonical_parent) (\<lambda>parent_info.
       io_guard (\<not> sf_symlink parent_info \<and> sf_writable parent_info) Not_writable
        (io_bind (io_lift (with_path (canonical_under_root canonical_root (canonical_parent @ ''/'' @ name)))) (\<lambda>target.
         io_bind (send d (Create_folder canonical_parent name False)) (\<lambda>r.
         io_bind
           (case validate [] r of
              Inr _ \<Rightarrow> io_return ()
            | Inl e \<Rightarrow>
                (case e of
                   Api_error _ _ \<Rightarrow>
                     io_bind (get_info d target) (\<lambda>existing.
                       io_guard (sf_path existing = target \<and> sf_directory existing) e (io_return ()))
                 | _ \<Rightarrow> io_raise e))
           (\<lambda>_. io_bind (get_info d target) (\<lambda>created.
              io_guard (sf_directory created \<and> \<not> sf_symlink created \<and> sf_writable created)
                Not_writable (io_return created))))))))))"

definition validate_existing_directory_under_root ::
  "'w dsm \<Rightarrow> string \<Rightarrow> string \<Rightarrow> ('w, synology_folder) nas_io" where
  "validate_existing_directory_under_root d root path =
     io_bind (io_lift (with_path (canonical_under_root root root))) (\<lambda>canonical_root.
     io_bind (io_lift (with_path (canonical_under_root canonical_root path))) (\<lambda>canonical_path.
     io_bind (preflight d canonical_root) (\<lambda>pf.
     io_guard (pf_api_available pf \<and> pf_root_exists pf \<and> pf_root_writable pf \<and>
               pf_share_links_available pf) Not_writable
      (io_bind (get_info d canonical_path) (\<lambda>directory.
       io_guard (sf_path directory = canonical_path) (Path_error Escapes_root)
        (io_guard (sf_directory directory \<and> \<not> sf_symlink directory \<and> sf_writable directory)
          Not_writable (io_return directory)))))))"

fun ensure_components :: "'w dsm \<Rightarrow> string \<Rightarrow> string list \<Rightarrow> ('w, unit) nas_io" where
  "ensure_components d parent [] = io_return ()"
| "ensure_components d parent (c # cs) =
     io_bind (send d (Create_folder parent c True)) (\<lambda>r.
     io_bind (io_lift (validate [409, 1101] r)) (\<lambda>_.
       ensure_components d (join_child parent c) cs))"

definition ensure_folder :: "'w dsm \<Rightarrow> string \<Rightarrow> ('w, unit) nas_io" where
  "ensure_folder d path =
     io_bind (send d Info_get) (\<lambda>r.
     io_bind (io_lift (validate [] r)) (\<lambda>_. ensure_components d ''/'' (components path)))"

section \<open>Share links\<close>

definition link_url :: "'w dsm \<Rightarrow> json \<Rightarrow> string option" where
  "link_url d payload =
     (case jget ''links'' (jget ''data'' payload) of
        JList (JObj ms # _) \<Rightarrow>
          (case map_of ms ''url'' of
             None \<Rightarrow> None
           | Some (JStr s) \<Rightarrow> Some s
           | Some v \<Rightarrow> Some (show_json d v))
      | _ \<Rightarrow> None)"

definition create_share_link :: "'w dsm \<Rightarrow> string \<Rightarrow> ('w, string) nas_io" where
  "create_share_link d path =
     io_bind (send d (Share_create path)) (\<lambda>r.
     io_bind (io_lift (validate [] r)) (\<lambda>payload.
       case link_url d payload of
         None \<Rightarrow> io_raise (Api_error (resp_status r) payload)
       | Some url \<Rightarrow> io_return url))"

fun first_link :: "string \<Rightarrow> json list \<Rightarrow> string option" where
  "first_link path [] = None"
| "first_link path (item # items) =
     (case jtext (jget ''url'' item) of
        Some url \<Rightarrow>
          if jget ''path'' item = JStr path \<and> url \<noteq> '''' then Some url else first_link path items
      | None \<Rightarrow> first_link path items)"

fun scan_links :: "'w dsm \<Rightarrow> string \<Rightarrow> nat list \<Rightarrow> ('w, string option) nas_io" where
  "scan_links d path [] = io_raise (Api_error 0 (JObj [(''error'',
     JStr ''Synology share-link scan exceeded safe bound'')]))"
| "scan_links d path (offset # offsets) =
     io_bind (send d (Share_list offset)) (\<lambda>r.
     io_bind (io_lift (validate [] r)) (\<lambda>payload.
     let data = jget ''data'' payload; links = jget ''links'' data in
       if \<not> is_list links then io_raise (Api_error (resp_status r) payload)
       else case first_link path (jitems links) of
         Some url \<Rightarrow> io_return (Some url)
       | None \<Rightarrow>
           if length (jitems links) < 100 \<or>
              (case jint (jget ''total'' data) of None \<Rightarrow> False | Some t \<Rightarrow> t \<le> int offset + 100)
           then io_return None
           else scan_links d path offsets))"

definition find_public_share_link :: "'w dsm \<Rightarrow> string \<Rightarrow> ('w, string option) nas_io" where
  "find_public_share_link d path = scan_links d path [0, 100, 200, 300, 400, 500, 600, 700, 800, 900]"

section \<open>Moving a proven file\<close>

text \<open>The verdict of one status poll: the task is done, still running, or failed.\<close>

definition poll_verdict :: "http_response \<Rightarrow> (nas_error, bool) result" where
  "poll_verdict r =
     (case validate [] r of
        Inl (Api_error status payload) \<Rightarrow>
          (if \<not> is_obj payload then Inl (Api_error status payload)
           else case json_get ''error'' payload of
             None \<Rightarrow> Inl (Api_error status payload)
           | Some err \<Rightarrow>
               if \<not> is_obj err then Inl Type_error
               else if jint (jget ''code'' err) = Some 599 then Inr True
               else Inl (Api_error status payload))
      | Inl e \<Rightarrow> Inl e
      | Inr payload \<Rightarrow>
          (let data = jget ''data'' payload; status = jget ''status'' data in
           if \<not> is_obj data then Inl (Api_error (resp_status r) payload)
           else if \<not> hashable status then Inl Type_error
           else if status = JStr ''finished'' \<or> jint status = Some 1 then Inr True
           else if jget ''has_fail'' data = JBool True \<or>
                   status \<in> {JStr ''failed'', JStr ''error'', JStr ''cancelled''}
           then Inl (Api_error (resp_status r) payload)
           else Inr False))"

fun poll_task :: "'w dsm \<Rightarrow> string \<Rightarrow> nat \<Rightarrow> ('w, unit) nas_io" where
  "poll_task d task 0 = io_raise (Api_error 0 (JObj [(''error'',
     JStr ''Synology CopyMove task did not complete'')]))"
| "poll_task d task (Suc n) =
     io_bind (send d (Task_status task)) (\<lambda>r.
     io_bind (io_lift (poll_verdict r)) (\<lambda>done_now.
       if done_now then io_return () else poll_task d task n))"

definition wait_background_task :: "'w dsm \<Rightarrow> string \<Rightarrow> ('w, unit) nas_io" where
  "wait_background_task d task = poll_task d task 30"

definition start_copy_move :: "'w dsm \<Rightarrow> string \<Rightarrow> string \<Rightarrow> ('w, string option) nas_io" where
  "start_copy_move d source target_folder =
     io_bind (send d (Copy_move source target_folder True False)) (\<lambda>r.
     io_bind (io_lift (validate [] r)) (\<lambda>payload.
       case copy_move_task_id payload of
         None \<Rightarrow> io_return None
       | Some t \<Rightarrow> io_bind (wait_background_task d t) (\<lambda>_. io_return (Some t))))"

text \<open>The value of an optional answer, or the collision the caller raises without it.\<close>

definition need :: "collision \<Rightarrow> ('w, 'a option) nas_io \<Rightarrow> ('w, 'a) nas_io" where
  "need c m = io_bind m (\<lambda>v. case v of None \<Rightarrow> io_raise (Collision c) | Some x \<Rightarrow> io_return x)"

definition need_absent :: "collision \<Rightarrow> ('w, 'a option) nas_io \<Rightarrow> ('w, unit) nas_io" where
  "need_absent c m = io_bind m (\<lambda>v. case v of None \<Rightarrow> io_return () | Some _ \<Rightarrow> io_raise (Collision c))"

definition copy_move_verified ::
  "'w dsm \<Rightarrow> string \<Rightarrow> string \<Rightarrow> string \<Rightarrow> string \<Rightarrow> int option \<Rightarrow> (string \<times> json) list \<Rightarrow>
   string option \<Rightarrow> ('w, string option \<times> string) nas_io" where
  "copy_move_verified d source_path target_folder filename root expected_size owner target_root =
     (let destination_root = (if truthy target_root then the target_root else root);
          marker_name = owner_marker_name filename in
      io_bind (io_lift (with_path (canonical_under_root root source_path))) (\<lambda>source.
      io_bind (io_lift (with_path (canonical_under_root destination_root target_folder))) (\<lambda>folder.
      io_bind (io_lift (with_path (canonical_under_root destination_root (join_child folder filename)))) (\<lambda>target.
      io_bind (need_absent Reroute_target_exists (file_size d target)) (\<lambda>_.
      io_bind (need Source_missing (file_size d source)) (\<lambda>source_size.
      io_bind (io_lift (require_complete_size source source_size expected_size)) (\<lambda>_.
      io_bind (need Source_without_marker
        (read_owner_marker d (path_parent source) (path_name source))) (\<lambda>source_owner.
      io_bind (io_lift (require_same_owner source source_owner owner)) (\<lambda>_.
      io_bind (start_copy_move d source folder) (\<lambda>task_id.
      io_bind (need Target_absent (file_size d target)) (\<lambda>target_size.
      io_bind (io_lift (require_complete_size target target_size expected_size)) (\<lambda>_.
      io_bind (io_lift (with_path (canonical_under_root root (path_parent source @ ''/'' @ marker_name)))) (\<lambda>source_marker.
      io_bind (io_lift (with_path (canonical_under_root destination_root (join_child folder marker_name)))) (\<lambda>target_marker.
      io_bind (need_absent Marker_target_exists (file_size d target_marker)) (\<lambda>_.
      io_bind (start_copy_move d source_marker folder) (\<lambda>_.
      io_bind (need Marker_not_preserved (read_owner_marker d folder filename)) (\<lambda>target_owner.
      io_bind (io_lift (require_same_owner target target_owner owner)) (\<lambda>_.
      io_bind (need_absent Source_not_removed (file_size d source)) (\<lambda>_.
      io_bind (need_absent Source_marker_not_removed (file_size d source_marker)) (\<lambda>_.
        io_return (task_id, target)))))))))))))))))))))"

definition verify_moved_target ::
  "'w dsm \<Rightarrow> string \<Rightarrow> string \<Rightarrow> string \<Rightarrow> int option \<Rightarrow> (string \<times> json) list \<Rightarrow> ('w, unit) nas_io" where
  "verify_moved_target d target_path filename root expected_size owner =
     io_bind (io_lift (with_path (canonical_under_root root target_path))) (\<lambda>target.
     io_bind (need Moved_target_absent (file_size d target)) (\<lambda>n.
     io_bind (io_lift (require_complete_size target n expected_size)) (\<lambda>_.
     io_bind (need Moved_target_without_marker (read_owner_marker d (path_parent target) filename)) (\<lambda>o1.
       io_lift (require_same_owner target o1 owner)))))"

end
