(* ===== verification/Synology_Safety.thy ===== *)
theory Synology_Safety
imports Synology_Client
begin

text \<open>
  What the file-station client guarantees: bounds and confinement of the requests it sends to any
  server, and, for a server whose size queries and downloads report its files, what has become of
  the files when an upload or a verified move returns.
\<close>

section \<open>The requests sent\<close>

definition sent_ok :: "(nas_request \<Rightarrow> bool) \<Rightarrow> 'w \<times> nas_request list \<Rightarrow> bool" where
  "sent_ok P s \<longleftrightarrow> (\<forall>q\<in>set (snd s). P q)"

lemma sent_ok_pair [simp]: "sent_ok P (w, log) \<longleftrightarrow> (\<forall>q\<in>set log. P q)"
  by (simp add: sent_ok_def)

lemma keeps_send [keeps_rules]: "P q \<Longrightarrow> keeps (sent_ok P) (send d q)"
  by (auto simp: keeps_def send_def split: prod.splits option.splits)

lemma send_cases:
  assumes "send d q (w, log) = (v, s)"
  obtains (failed) w1 where "v = Inl Transport_error" "s = (w1, log @ [q])"
    | (got) r w1 where "v = Inr r" "s = (w1, log @ [q])" "answer d q w = (Some r, w1)"
  using assms by (auto simp: send_def split: prod.splits option.splits)

text \<open>Requests that only read.\<close>

fun reading :: "nas_request \<Rightarrow> bool" where
  "reading (Create_folder _ _ _) = False"
| "reading (Upload_file _ _ _ _) = False"
| "reading (Share_create _) = False"
| "reading (Copy_move _ _ _ _) = False"
| "reading _ = True"

lemma keeps_file_size [keeps_rules]:
  "P (Get_size p) \<Longrightarrow> keeps (sent_ok P) (file_size d p)"
  unfolding file_size_def by (intro keeps_rules)

lemma keeps_read_marker [keeps_rules]:
  "P (Get_size (join_child folder (owner_marker_name filename))) \<Longrightarrow>
   P (Download (join_child folder (owner_marker_name filename))) \<Longrightarrow>
   keeps (sent_ok P) (read_owner_marker d folder filename)"
  unfolding read_owner_marker_def by (intro keeps_rules)

lemma keeps_poll [keeps_rules]:
  "P (Task_status t) \<Longrightarrow> keeps (sent_ok P) (poll_task d t n)"
  by (induction n) (auto intro!: keeps_rules)

lemma keeps_start [keeps_rules]:
  "P (Copy_move source folder True False) \<Longrightarrow> (\<And>t. P (Task_status t)) \<Longrightarrow>
   keeps (sent_ok P) (start_copy_move d source folder)"
  unfolding start_copy_move_def wait_background_task_def by (intro keeps_rules) auto

lemma keeps_need [keeps_rules]:
  "keeps I m \<Longrightarrow> keeps I (need c m)" "keeps I m \<Longrightarrow> keeps I (need_absent c m)"
  unfolding need_def need_absent_def by (intro keeps_rules; assumption)+

lemma with_path_Inr [simp]: "with_path v = Inr x \<longleftrightarrow> v = Inr x"
  by (cases v) (auto simp: with_path_def)

text \<open>A request of a move between two roots: every path it names lies below one of them.\<close>

fun move_request_ok :: "string \<Rightarrow> string \<Rightarrow> nas_request \<Rightarrow> bool" where
  "move_request_ok src_root dst_root (Copy_move s f rm ow) =
     (below src_root s \<and> below dst_root f \<and> rm \<and> \<not> ow)"
| "move_request_ok src_root dst_root q = reading q"

lemma copy_move_requests:
  fixes d :: "'w dsm"
  assumes "destination = (if truthy target_root then the target_root else root)"
  shows "keeps (sent_ok (move_request_ok root destination))
    (copy_move_verified d source_path folder0 filename root n owner target_root)"
proof -
  let ?I = "sent_ok (move_request_ok root destination) :: 'w \<times> nas_request list \<Rightarrow> bool"
  show ?thesis
    unfolding copy_move_verified_def Let_def assms[symmetric]
    apply (intro keeps_bind_lift)
    subgoal for source folder target
      using synology_root.confined[of root source_path source]
        synology_root.confined[of destination folder0 folder]
      by (intro keeps_bind keeps_rules keeps_bind_lift)
        (auto dest: synology_root.confined)
    done
qed

section \<open>Folder discovery\<close>

definition folder_ok :: "string \<Rightarrow> synology_folder \<Rightarrow> bool" where
  "folder_ok root f \<longleftrightarrow> below root (sf_path f) \<and> \<not> sf_symlink f \<and> length (sf_name f) \<le> 200"

lemma scan_page_ok:
  assumes "scan_page d root md mr dp items results queue = Inr (results1, queue1)"
    and "\<forall>f\<in>set results. folder_ok root f" and "\<forall>(p, k)\<in>set queue. below root p \<and> k \<le> md"
    and "length results < mr" and "dp \<le> md"
  shows "(\<forall>f\<in>set results1. folder_ok root f) \<and> (\<forall>(p, k)\<in>set queue1. below root p \<and> k \<le> md) \<and>
    length results1 \<le> mr"
  using assms
proof (induction items arbitrary: results queue)
  case Nil
  then show ?case by auto
next
  case (Cons item items)
  show ?case
  proof (cases "\<exists>raw_path nm. jtext (jget ''path'' item) = Some raw_path \<and>
      jtext (jget ''name'' item) = Some nm")
    case False
    then have "scan_page d root md mr dp items results queue = Inr (results1, queue1)"
      using Cons.prems(1) by (auto split: option.splits)
    then show ?thesis using Cons.prems by (intro Cons.IH)
  next
    case True
    then obtain raw_path nm where raw: "jtext (jget ''path'' item) = Some raw_path"
      "jtext (jget ''name'' item) = Some nm" by blast
    define extra where "extra = (if is_obj (jget ''additional'' item)
      then jget ''additional'' item else JObj [])"
    obtain path symlink where path: "canonical_under_root root raw_path = Inr path"
      and sym: "is_symlink path (jget ''real_path'' extra) = Inr symlink"
      using Cons.prems(1) raw by (auto simp: res_bind_Inr_iff Let_def extra_def)
    define r1 where "r1 = (if symlink then results else results @ [\<lparr>sf_path = path,
      sf_name = take 200 nm, sf_writable = is_writable extra, sf_symlink = symlink,
      sf_directory = True\<rparr>])"
    define q1 where "q1 = (if \<not> symlink \<and> dp < md then queue @ [(path, dp + 1)] else queue)"
    have step: "(if mr \<le> length r1 then Inr (r1, q1) else scan_page d root md mr dp items r1 q1)
        = Inr (results1, queue1)"
      unfolding r1_def q1_def using Cons.prems(1) raw path sym
      by (simp add: with_path_def Let_def extra_def[symmetric] split del: if_split)
    have inv: "\<forall>f\<in>set r1. folder_ok root f" "\<forall>(p, k)\<in>set q1. below root p \<and> k \<le> md"
      "length r1 \<le> mr"
      using Cons.prems(2-5) synology_root.confined[OF path]
      by (auto simp: r1_def q1_def folder_ok_def)
    show ?thesis
    proof (cases "mr \<le> length r1")
      case True
      then show ?thesis using step inv by simp
    next
      case False
      then show ?thesis using step inv Cons.prems(5) by (intro Cons.IH[of r1 q1]) auto
    qed
  qed
qed

fun listing_below :: "string \<Rightarrow> nas_request \<Rightarrow> bool" where
  "listing_below root (List_dirs p _ _) = below root p"
| "listing_below root _ = False"

lemma discover_loop_ok:
  assumes "discover_loop d root md mr ps n current results queue (w, log) = (v, (w1, log1))"
    and "\<forall>f\<in>set results. folder_ok root f" and "length results \<le> mr"
    and "\<forall>(p, k)\<in>set queue. below root p \<and> k \<le> md"
    and "\<forall>p k off. current = Some (p, k, off) \<longrightarrow> below root p \<and> k \<le> md"
  shows "(\<exists>new. log1 = log @ new \<and> length new \<le> n \<and> (\<forall>q\<in>set new. listing_below root q)) \<and>
    (\<forall>fs. v = Inr fs \<longrightarrow> (\<forall>f\<in>set fs. folder_ok root f) \<and> length fs \<le> mr)"
  using assms
proof (induction n arbitrary: current results queue w log)
  case 0
  then show ?case by auto
next
  case (Suc n)
  define pick where "pick = (case current of Some c \<Rightarrow> Some (c, queue)
    | None \<Rightarrow> (case queue of [] \<Rightarrow> None | (p, dp) # q \<Rightarrow> Some ((p, dp, 0), q)))"
  show ?case
  proof (cases "mr \<le> length results \<or> pick = None")
    case True
    then have "discover_loop d root md mr ps (Suc n) current results queue (w, log) = (Inr results, (w, log))"
      by (auto simp: pick_def[symmetric])
    then have "(v, (w1, log1)) = (Inr results, (w, log))" using Suc.prems(1) by metis
    then show ?thesis using Suc.prems(2,3) by auto
  next
    case False
    then obtain parent depth offset queue0 where pick: "pick = Some ((parent, depth, offset), queue0)"
      by (cases pick) auto
    have bel: "below root parent" "depth \<le> md"
      and q0: "\<forall>(p, k)\<in>set queue0. below root p \<and> k \<le> md"
      using pick Suc.prems(4,5) by (auto simp: pick_def split: option.splits list.splits)
    define again where "again = (\<lambda>(offset1, data, page :: json list, results1, queue1).
      discover_loop d root md mr ps n
        (if page = [] \<or> length page < ps \<or>
            (case jint (jget ''total'' data) of None \<Rightarrow> False | Some t \<Rightarrow> t \<le> int offset1)
         then None else Some (parent, depth, offset1)) results1 queue1)"
    have run: "io_bind (send d (List_dirs parent offset ps)) (\<lambda>r.
        io_bind (io_lift (validate [] r)) (\<lambda>payload.
        io_bind (io_lift (page_items (jget ''data'' payload))) (\<lambda>page.
        io_bind (io_lift (scan_page d root md mr depth page results queue0)) (\<lambda>(results1, queue1).
          again (offset + length page, jget ''data'' payload, page, results1, queue1)))))
      (w, log) = (v, (w1, log1))"
      using Suc.prems(1) False pick by (simp add: pick_def[symmetric] again_def Let_def)
    consider (stopped) e where "v = Inl e" "log1 = log @ [List_dirs parent offset ps]"
      | (continued) offset1 data page results1 queue1 w2 where
        "scan_page d root md mr depth page results queue0 = Inr (results1, queue1)"
        "again (offset1, data, page, results1, queue1) (w2, log @ [List_dirs parent offset ps])
           = (v, (w1, log1))"
      using run by (elim io_bind_cases io_lift_bindE send_cases) auto
    then show ?thesis
    proof cases
      case stopped
      then show ?thesis using bel by auto
    next
      case continued
      note ok = scan_page_ok[OF continued(1) Suc.prems(2) q0 _ bel(2)]
      have "(\<exists>new. log1 = (log @ [List_dirs parent offset ps]) @ new \<and> length new \<le> n \<and>
          (\<forall>q\<in>set new. listing_below root q)) \<and>
        (\<forall>fs. v = Inr fs \<longrightarrow> (\<forall>f\<in>set fs. folder_ok root f) \<and> length fs \<le> mr)"
        using continued(2) unfolding again_def prod.case
        by (rule Suc.IH) (use ok False bel in \<open>auto split: if_splits\<close>)
      then show ?thesis using bel by fastforce
    qed
  qed
qed

lemma discover_folders_ok:
  assumes "discover_folders d root depth pages results ps (w, log) = (v, (w1, log1))"
  shows "\<exists>new. log1 = log @ new \<and> int (length new) \<le> max 0 pages \<and> length new \<le> 50 \<and>
      (\<forall>q\<in>set new. listing_below root q)"
    and "v = Inr fs \<Longrightarrow> int (length fs) \<le> results \<and> length fs \<le> 500 \<and>
      (\<forall>f\<in>set fs. below root (sf_path f) \<and> \<not> sf_symlink f)"
proof -
  have "(\<exists>new. log1 = log @ new \<and> int (length new) \<le> max 0 pages \<and> length new \<le> 50 \<and>
      (\<forall>q\<in>set new. listing_below root q)) \<and>
    (\<forall>fs. v = Inr fs \<longrightarrow> int (length fs) \<le> results \<and> length fs \<le> 500 \<and>
      (\<forall>f\<in>set fs. below root (sf_path f) \<and> \<not> sf_symlink f))"
  proof (cases "0 \<le> depth \<and> depth \<le> 8 \<and> 1 \<le> pages \<and> pages \<le> 50 \<and> 1 \<le> results \<and> results \<le> 500 \<and>
      1 \<le> ps \<and> ps \<le> 100 \<and> (\<exists>c. canonical_under_root root root = Inr c)")
    case False
    then show ?thesis
      using assms by (auto simp: discover_folders_def io_defs with_path_def split: if_splits sum.splits)
  next
    case True
    then obtain c where c: "canonical_under_root root root = Inr c" by blast
    have comps: "components c = components root"
      using canonical_Inr(3)[OF under_root_Inr(1)[OF c]] .
    have same: "below c p = below root p" for p by (simp add: below_def comps)
    have lb: "listing_below c q = listing_below root q" for q by (cases q) (simp_all add: same)
    have cc: "below c c" using under_root_Inr(2)[OF c] by (simp add: same)
    have run: "discover_loop d c (nat depth) (nat results) (nat ps) (nat pages) None [] [(c, 0)] (w, log)
        = (v, (w1, log1))"
      using assms True c by (simp add: discover_folders_def with_path_def io_bind_def)
    show ?thesis
      using discover_loop_ok[OF run] cc True
      by (force simp: folder_ok_def same lb)
  qed
  then show "\<exists>new. log1 = log @ new \<and> int (length new) \<le> max 0 pages \<and> length new \<le> 50 \<and>
      (\<forall>q\<in>set new. listing_below root q)"
    and "v = Inr fs \<Longrightarrow> int (length fs) \<le> results \<and> length fs \<le> 500 \<and>
      (\<forall>f\<in>set fs. below root (sf_path f) \<and> \<not> sf_symlink f)"
    by blast+
qed

section \<open>Share links\<close>

lemma first_link_Some:
  "first_link path items = Some url \<Longrightarrow>
     url \<noteq> '''' \<and> (\<exists>item\<in>set items. jget ''path'' item = JStr path \<and> jget ''url'' item = JStr url)"
proof (induction path items rule: first_link.induct)
  case (1 path)
  then show ?case by simp
next
  case (2 path item items)
  then show ?case
    by (cases "jget ''url'' item") (auto split: if_splits)
qed

lemma scan_links_sound:
  assumes "scan_links d path offs (w, log) = (v, (w1, log1))"
  shows "(\<exists>new. log1 = log @ new \<and> length new \<le> length offs \<and> (\<forall>q\<in>set new. reading q)) \<and>
    (\<forall>url. v = Inr (Some url) \<longrightarrow> url \<noteq> '''' \<and>
      (\<exists>off wa wb r. off \<in> set offs \<and> answer d (Share_list off) wa = (Some r, wb) \<and>
        (\<exists>item\<in>set (jitems (jget ''links'' (jget ''data'' (payload_of r)))).
          jget ''path'' item = JStr path \<and> jget ''url'' item = JStr url)))"
  using assms
proof (induction offs arbitrary: w log)
  case Nil
  then show ?case by auto
next
  case (Cons off offs)
  let ?L = "log @ [Share_list off]"
  consider (stopped) e where "v = Inl e" "log1 = ?L"
    | (absent) "v = Inr None" "log1 = ?L"
    | (found) r payload w2 url where "answer d (Share_list off) w = (Some r, w2)"
        "validate [] r = Inr payload" "log1 = ?L" "v = Inr (Some url)"
        "first_link path (jitems (jget ''links'' (jget ''data'' payload))) = Some url"
    | (next_page) w2 where "scan_links d path offs (w2, ?L) = (v, (w1, log1))"
    using Cons.prems
    by (auto elim!: io_bind_cases io_lift_bindE send_cases simp: Let_def split: if_splits option.splits)
  then show ?case
  proof cases
    case found
    have "payload = payload_of r"
      using found(2) by (auto simp: validate_def Let_def split: if_splits)
    then show ?thesis
      using found first_link_Some[OF found(5)] by fastforce
  next
    case next_page
    from Cons.IH[OF this] show ?thesis by fastforce
  qed auto
qed

section \<open>A server that tells the truth about its files\<close>

text \<open>
  What the development assumes of the file station in the two results below: a size query and a
  download change no file, the query of an absent path is answered as absent and of a file with
  its size, and the download of an ownership marker returns the marker's members.
\<close>

record nas_file =
  nf_size :: int
  nf_body :: "json option"

definition marker_members :: "nas_file \<Rightarrow> (string \<times> json) list option" where
  "marker_members f =
     (case nf_body f of
        Some (JObj ms) \<Rightarrow> if jget ''success'' (JObj ms) = JBool False then None else Some ms
      | _ \<Rightarrow> None)"

definition truthful :: "'w dsm \<Rightarrow> ('w \<Rightarrow> string \<Rightarrow> nas_file option) \<Rightarrow> bool" where
  "truthful d files \<longleftrightarrow>
     (\<forall>w p. \<exists>r w1. answer d (Get_size p) w = (Some r, w1) \<and> files w1 = files w \<and>
        size_of_response p r = Inr (map_option nf_size (files w p))) \<and>
     (\<forall>w p. files (snd (answer d (Download p) w)) = files w \<and>
        (\<forall>f ms. files w p = Some f \<longrightarrow> marker_members f = Some ms \<longrightarrow>
           (\<exists>r. fst (answer d (Download p) w) = Some r \<and> marker_of_response r = Inr (Some ms))) \<and>
        (\<forall>f r ms. files w p = Some f \<longrightarrow> fst (answer d (Download p) w) = Some r \<longrightarrow>
           marker_of_response r = Inr (Some ms) \<longrightarrow> marker_members f = Some ms))"

lemma file_size_truthful:
  assumes "truthful d files" and "file_size d p (w, log) = (v, (w1, log1))"
  shows "v = Inr (map_option nf_size (files w p))" "files w1 = files w" "log1 = log @ [Get_size p]"
proof -
  obtain r w2 where "answer d (Get_size p) w = (Some r, w2)" "files w2 = files w"
    "size_of_response p r = Inr (map_option nf_size (files w p))"
    using assms(1) unfolding truthful_def by blast
  then show "v = Inr (map_option nf_size (files w p))" "files w1 = files w" "log1 = log @ [Get_size p]"
    using assms(2) by (auto simp: file_size_def io_bind_def send_def)
qed

lemma read_marker_truthful:
  assumes "truthful d files" and "read_owner_marker d folder name (w, log) = (Inr m, (w1, log1))"
  shows "files w1 = files w" "m = Some ms \<Longrightarrow>
     \<exists>f. files w (join_child folder (owner_marker_name name)) = Some f \<and> marker_members f = Some ms"
    "files w (join_child folder (owner_marker_name name)) = None \<Longrightarrow> m = None"
    "files w (join_child folder (owner_marker_name name)) = Some f \<Longrightarrow>
      marker_members f = Some ms' \<Longrightarrow> m = Some ms'"
proof -
  let ?p = "join_child folder (owner_marker_name name)"
  obtain n s where n: "file_size d ?p (w, log) = (Inr n, s)"
    and rest: "(case n of None \<Rightarrow> io_return None
        | Some _ \<Rightarrow> io_bind (send d (Download ?p)) (\<lambda>r. io_lift (marker_of_response r))) s
      = (Inr m, (w1, log1))"
    using assms(2) by (auto simp: read_owner_marker_def Let_def elim!: io_bind_cases)
  obtain w2 log2 where s: "s = (w2, log2)" by (cases s)
  have nn: "n = map_option nf_size (files w ?p)" and same: "files w2 = files w"
    using file_size_truthful[OF assms(1) n[unfolded s]] by auto
  have dl: "files (snd (answer d (Download ?p) w2)) = files w2"
    "\<And>f ms. files w2 ?p = Some f \<Longrightarrow> marker_members f = Some ms \<Longrightarrow>
        \<exists>r. fst (answer d (Download ?p) w2) = Some r \<and> marker_of_response r = Inr (Some ms)"
    "\<And>f r ms. files w2 ?p = Some f \<Longrightarrow> fst (answer d (Download ?p) w2) = Some r \<Longrightarrow>
        marker_of_response r = Inr (Some ms) \<Longrightarrow> marker_members f = Some ms"
    using assms(1) unfolding truthful_def by blast+
  have "files w1 = files w \<and>
    (\<forall>ms. m = Some ms \<longrightarrow> (\<exists>f. files w ?p = Some f \<and> marker_members f = Some ms)) \<and>
    (files w ?p = None \<longrightarrow> m = None) \<and>
    (\<forall>f ms'. files w ?p = Some f \<longrightarrow> marker_members f = Some ms' \<longrightarrow> m = Some ms')"
  proof (cases "files w ?p")
    case None
    then show ?thesis using rest s nn same by simp
  next
    case (Some f)
    obtain r where a: "answer d (Download ?p) w2 = (Some r, w1)" and mr: "marker_of_response r = Inr m"
      using rest s nn Some by (auto elim!: io_bind_cases send_cases)
    have "files w1 = files w" using a dl(1) same by simp
    moreover have "m = Some ms \<longleftrightarrow> marker_members f = Some ms" for ms
      using dl(2)[of f ms] dl(3)[of f r ms] a mr Some same by auto
    ultimately show ?thesis using Some by simp
  qed
  then have c1: "files w1 = files w"
    and c2: "\<forall>ms. m = Some ms \<longrightarrow> (\<exists>f. files w ?p = Some f \<and> marker_members f = Some ms)"
    and c3: "files w ?p = None \<longrightarrow> m = None"
    and c4: "\<forall>f ms'. files w ?p = Some f \<longrightarrow> marker_members f = Some ms' \<longrightarrow> m = Some ms'"
    by simp_all
  show "files w1 = files w" by (rule c1)
  show "m = Some ms \<Longrightarrow> \<exists>f. files w ?p = Some f \<and> marker_members f = Some ms"
    using c2 by simp
  show "files w ?p = None \<Longrightarrow> m = None" using c3 by simp
  show "files w ?p = Some f \<Longrightarrow> marker_members f = Some ms' \<Longrightarrow> m = Some ms'"
    using c4 by simp
qed

lemma need_InrE:
  assumes "need c m s = (Inr x, s1)"
  shows "m s = (Inr (Some x), s1)"
  using assms unfolding need_def by (auto elim!: io_bind_cases split: option.splits)

lemma need_absent_InrE:
  assumes "need_absent c m s = (Inr x, s1)"
  shows "m s = (Inr None, s1)"
  using assms unfolding need_absent_def by (auto elim!: io_bind_cases split: option.splits)

lemma require_same_owner_Inr [simp]: "require_same_owner t a e = Inr u \<longleftrightarrow> dict_eq a e"
  by (simp add: require_same_owner_def)

lemma require_complete_size_Inr [simp]: "require_complete_size t a e = Inr u \<longleftrightarrow> e = Some a"
  by (simp add: require_complete_size_def)

text \<open>The steps of a verified move that has returned.\<close>

lemma copy_move_steps:
  assumes "copy_move_verified d sp tf name root n owner tr s0 = (Inr res, s9)"
  obtains dest source folder target source_marker target_marker src_size src_owner task tgt_size
    tgt_owner s1 s2 s3 s4 s5 s6 s7 s8 where
    "dest = (if truthy tr then the tr else root)"
    "canonical_under_root root sp = Inr source" "canonical_under_root dest tf = Inr folder"
    "canonical_under_root dest (join_child folder name) = Inr target"
    "file_size d target s0 = (Inr None, s1)" "file_size d source s1 = (Inr (Some src_size), s2)"
    "n = Some src_size"
    "read_owner_marker d (path_parent source) (path_name source) s2 = (Inr (Some src_owner), s3)"
    "dict_eq src_owner owner" "start_copy_move d source folder s3 = (Inr task, s4)"
    "file_size d target s4 = (Inr (Some tgt_size), s5)" "n = Some tgt_size"
    "canonical_under_root root (path_parent source @ ''/'' @ owner_marker_name name) = Inr source_marker"
    "canonical_under_root dest (join_child folder (owner_marker_name name)) = Inr target_marker"
    "file_size d target_marker s5 = (Inr None, s6)"
    "\<exists>t. start_copy_move d source_marker folder s6 = (Inr t, s7)"
    "read_owner_marker d folder name s7 = (Inr (Some tgt_owner), s8)" "dict_eq tgt_owner owner"
    "\<exists>sa. file_size d source s8 = (Inr None, sa) \<and> file_size d source_marker sa = (Inr None, s9)"
    "res = (task, target)"
  using assms unfolding copy_move_verified_def Let_def io_bind_Inr_iff
  by (elim exE conjE) (auto dest!: need_InrE need_absent_InrE)

text \<open>
  What a verified move that has returned did: \<open>w1\<close> and \<open>w2\<close> are the states before and after the move of
  the file, \<open>w3\<close> and \<open>w4\<close> those before and after the move of its marker; nothing else changes files.
\<close>

definition moved_as_verified ::
  "'w dsm \<Rightarrow> ('w \<Rightarrow> string \<Rightarrow> nas_file option) \<Rightarrow> string \<Rightarrow> string \<Rightarrow> string \<Rightarrow> string \<Rightarrow> string \<Rightarrow> int option \<Rightarrow>
   (string \<times> json) list \<Rightarrow> string option \<Rightarrow> string \<Rightarrow> 'w \<Rightarrow> 'w \<Rightarrow> bool" where
  "moved_as_verified d files dest source folder target name n owner task source_marker w w' \<longleftrightarrow>
     (\<exists>target_marker m0 g h f owner_before owner_after w1 l1 w2 l2 w3 l3 w4 l4 t.
        canonical_under_root dest (join_child folder (owner_marker_name name)) = Inr target_marker \<and>
        files w target = None \<and> files w source = Some g \<and> n = Some (nf_size g) \<and>
        files w (join_child (path_parent source) (owner_marker_name (path_name source))) = Some m0 \<and>
        marker_members m0 = Some owner_before \<and> dict_eq owner_before owner \<and>
        files w1 = files w \<and> start_copy_move d source folder (w1, l1) = (Inr task, (w2, l2)) \<and>
        files w2 target = Some h \<and> nf_size h = nf_size g \<and> files w2 target_marker = None \<and>
        files w3 = files w2 \<and> start_copy_move d source_marker folder (w3, l3) = (Inr t, (w4, l4)) \<and>
        files w' = files w4 \<and> files w' source = None \<and> files w' source_marker = None \<and>
        files w' (join_child folder (owner_marker_name name)) = Some f \<and>
        marker_members f = Some owner_after \<and> dict_eq owner_after owner)"

lemma verified_move_files:
  assumes truth: "truthful d files"
    and run: "copy_move_verified d sp tf name root n owner tr (w, log) = (Inr (task, target), (w', log'))"
  obtains source folder source_marker where
    "canonical_under_root root sp = Inr source"
    "canonical_under_root (if truthy tr then the tr else root) tf = Inr folder"
    "canonical_under_root root (path_parent source @ ''/'' @ owner_marker_name name) = Inr source_marker"
    "below (if truthy tr then the tr else root) target"
    "moved_as_verified d files (if truthy tr then the tr else root) source folder target name n owner
       task source_marker w w'"
  using run
proof (rule copy_move_steps)
  fix dest source folder tgt source_marker target_marker src_size src_owner tk tgt_size tgt_owner
    s1 s2 s3 s4 s5 s6 s7 s8
  assume dest: "dest = (if truthy tr then the tr else root)"
    and src: "canonical_under_root root sp = Inr source" "canonical_under_root dest tf = Inr folder"
    and tgt: "canonical_under_root dest (join_child folder name) = Inr tgt"
    and q1: "file_size d tgt (w, log) = (Inr None, s1)" and q2: "file_size d source s1 = (Inr (Some src_size), s2)"
    and n: "n = Some src_size"
    and so: "read_owner_marker d (path_parent source) (path_name source) s2 = (Inr (Some src_owner), s3)"
    and sown: "dict_eq src_owner owner"
    and mv1: "start_copy_move d source folder s3 = (Inr tk, s4)"
    and q5: "file_size d tgt s4 = (Inr (Some tgt_size), s5)" and n2: "n = Some tgt_size"
    and sm: "canonical_under_root root (path_parent source @ ''/'' @ owner_marker_name name) = Inr source_marker"
    and tm: "canonical_under_root dest (join_child folder (owner_marker_name name)) = Inr target_marker"
    and q6: "file_size d target_marker s5 = (Inr None, s6)"
    and mv2: "\<exists>t. start_copy_move d source_marker folder s6 = (Inr t, s7)"
    and q3: "read_owner_marker d folder name s7 = (Inr (Some tgt_owner), s8)"
    and own: "dict_eq tgt_owner owner"
    and q4: "\<exists>sa. file_size d source s8 = (Inr None, sa) \<and> file_size d source_marker sa = (Inr None, (w', log'))"
    and res: "(task, target) = (tk, tgt)"
  obtain w1 l1 w2 l2 w3 l3 w4 l4 w5 l5 w6 l6 w7 l7 w8 l8 where
    s: "s1 = (w1, l1)" "s2 = (w2, l2)" "s3 = (w3, l3)" "s4 = (w4, l4)" "s5 = (w5, l5)"
      "s6 = (w6, l6)" "s7 = (w7, l7)" "s8 = (w8, l8)"
    by (metis surj_pair)
  obtain t where t: "start_copy_move d source_marker folder (w6, l6) = (Inr t, (w7, l7))"
    using mv2 s by auto
  obtain wa la where a: "file_size d source (w8, l8) = (Inr None, (wa, la))"
    "file_size d source_marker (wa, la) = (Inr None, (w', log'))"
    using q4 s by auto
  have f1: "files w tgt = None" "files w1 = files w"
    using file_size_truthful[OF truth q1[unfolded s]] by simp_all
  obtain g where g: "files w1 source = Some g" "src_size = nf_size g" and f2: "files w2 = files w1"
    using file_size_truthful[OF truth q2[unfolded s]] by (cases "files w1 source") auto
  obtain m0 where m0:
    "files w2 (join_child (path_parent source) (owner_marker_name (path_name source))) = Some m0"
    "marker_members m0 = Some src_owner" "files w3 = files w2"
    using read_marker_truthful(1,2)[OF truth so[unfolded s]] by blast
  obtain h where h: "files w4 tgt = Some h" "tgt_size = nf_size h" and f5: "files w5 = files w4"
    using file_size_truthful[OF truth q5[unfolded s]] by (cases "files w4 tgt") auto
  have f6: "files w5 target_marker = None" "files w6 = files w5"
    using file_size_truthful[OF truth q6[unfolded s]] by simp_all
  obtain f where f: "files w7 (join_child folder (owner_marker_name name)) = Some f"
    "marker_members f = Some tgt_owner" "files w8 = files w7"
    using read_marker_truthful(1,2)[OF truth q3[unfolded s]] by blast
  have fin: "files wa = files w8" "files w' = files wa"
    and gone: "files w8 source = None" "files wa source_marker = None"
    using file_size_truthful[OF truth a(1)] file_size_truthful[OF truth a(2)] by simp_all
  have "moved_as_verified d files dest source folder tgt name n owner tk source_marker w w'"
    unfolding moved_as_verified_def
    by (rule exI[of _ target_marker], rule exI[of _ m0], rule exI[of _ g], rule exI[of _ h],
        rule exI[of _ f], rule exI[of _ src_owner], rule exI[of _ tgt_owner], rule exI[of _ w3],
        rule exI[of _ l3], rule exI[of _ w4], rule exI[of _ l4], rule exI[of _ w6],
        rule exI[of _ l6], rule exI[of _ w7], rule exI[of _ l7], rule exI[of _ t])
      (use f1 g f2 m0 h f5 f6 f fin gone mv1[unfolded s] t tm n n2 sown own in simp)
  then show thesis
    using that[of source folder source_marker] src sm res dest synology_root.confined[OF tgt] by simp
qed

section \<open>Uploading to a truthful server\<close>

lemma file_size_total:
  assumes "truthful d files"
  obtains w1 where "file_size d p (w, log) = (Inr (map_option nf_size (files w p)), (w1, log @ [Get_size p]))"
    "files w1 = files w"
proof -
  obtain v s where run: "file_size d p (w, log) = (v, s)"
    by (cases "file_size d p (w, log)") auto
  obtain w1 l1 where s: "s = (w1, l1)" by (cases s)
  show thesis using that[of w1] run s file_size_truthful[OF assms run[unfolded s]] by simp
qed

lemma read_marker_total:
  assumes truth: "truthful d files" and p: "p = join_child folder (owner_marker_name name)"
    and "files w p = None \<or> (\<exists>g ms. files w p = Some g \<and> marker_members g = Some ms)"
  obtains w1 new where "read_owner_marker d folder name (w, log) =
      (Inr (Option.bind (files w p) marker_members), (w1, log @ new))"
    "files w1 = files w" "\<forall>q\<in>set new. reading q"
proof -
  obtain w2 where fs: "file_size d p (w, log) = (Inr (map_option nf_size (files w p)), (w2, log @ [Get_size p]))"
    and same: "files w2 = files w"
    by (rule file_size_total[OF truth])
  show thesis
  proof (cases "files w p")
    case None
    then show ?thesis
      using that[of w2 "[Get_size p]"] fs same by (simp add: read_owner_marker_def p[symmetric])
  next
    case (Some g)
    then obtain ms where ms: "marker_members g = Some ms" using assms(3) by auto
    have "files (snd (answer d (Download p) w2)) = files w2 \<and>
        (\<exists>r. fst (answer d (Download p) w2) = Some r \<and> marker_of_response r = Inr (Some ms))"
      using truth Some ms same unfolding truthful_def by metis
    then obtain r w3 where "answer d (Download p) w2 = (Some r, w3)" "files w3 = files w2"
      "marker_of_response r = Inr (Some ms)"
      by (metis prod.collapse)
    then show ?thesis
      using that[of w3 "[Get_size p, Download p]"] fs same Some ms
      by (simp add: read_owner_marker_def p[symmetric] io_bind_def send_def)
  qed
qed

text \<open>What an upload onto an existing file answers, from its size and its marker.\<close>

definition upload_verdict ::
  "string \<Rightarrow> nas_file \<Rightarrow> (string \<times> json) list option \<Rightarrow> (string \<times> json) list \<Rightarrow> int option \<Rightarrow>
   (nas_error, string) result" where
  "upload_verdict target f marker owner n =
     (case marker of
        None \<Rightarrow> Inl (Collision Overwrite_forbidden)
      | Some ms \<Rightarrow>
          if \<not> dict_eq ms owner then Inl (Collision (Different_owner target))
          else if n \<noteq> Some (nf_size f) then Inl (Collision (Not_complete target))
          else Inr target)"

lemma upload_existing:
  assumes truth: "truthful d files" and target: "target = join_child folder name"
    and marker: "p = join_child folder (owner_marker_name name)"
    and present: "files w target = Some f"
    and readable: "files w p = None \<or> (\<exists>g ms. files w p = Some g \<and> marker_members g = Some ms)"
  shows "\<exists>w1 new. upload d folder name content n rid ci (w, log) =
      (upload_verdict target f (Option.bind (files w p) marker_members) (expected_owner rid ci n) n,
       (w1, log @ new)) \<and> files w1 = files w \<and> (\<forall>q\<in>set new. reading q)"
proof -
  obtain w1 new where rm: "read_owner_marker d folder name (w, log) =
      (Inr (Option.bind (files w p) marker_members), (w1, log @ new))" "files w1 = files w"
      "\<forall>q\<in>set new. reading q"
    using read_marker_total[OF truth marker readable] by metis
  obtain w2 where fs: "file_size d target (w1, log @ new) =
      (Inr (map_option nf_size (files w1 target)), (w2, (log @ new) @ [Get_size target]))"
    "files w2 = files w1"
    by (rule file_size_total[OF truth])
  have "upload d folder name content n rid ci (w, log) =
      (upload_verdict target f (Option.bind (files w p) marker_members) (expected_owner rid ci n) n,
       (w2, log @ new @ [Get_size target]))"
    using rm fs present target
    by (cases "Option.bind (files w p) marker_members")
      (auto simp: upload_def Let_def upload_verdict_def io_bind_def require_same_owner_def
        require_complete_size_def)
  then show ?thesis using rm fs by (intro exI[of _ w2] exI[of _ "new @ [Get_size target]"]) simp
qed

text \<open>
  A server that need not answer, and may answer with errors, but whose successful answers are true:
  the sizes it reports are those of the files and the markers it returns are theirs.
\<close>

definition honest :: "'w dsm \<Rightarrow> ('w \<Rightarrow> string \<Rightarrow> nas_file option) \<Rightarrow> bool" where
  "honest d files \<longleftrightarrow>
     (\<forall>w p. files (snd (answer d (Get_size p) w)) = files w \<and>
        (\<forall>r x. fst (answer d (Get_size p) w) = Some r \<longrightarrow> size_of_response p r = Inr x \<longrightarrow>
           x = map_option nf_size (files w p))) \<and>
     (\<forall>w p. files (snd (answer d (Download p) w)) = files w \<and>
        (\<forall>f r ms. files w p = Some f \<longrightarrow> fst (answer d (Download p) w) = Some r \<longrightarrow>
           marker_of_response r = Inr (Some ms) \<longrightarrow> marker_members f = Some ms))"

lemma truthful_honest: "truthful d files \<Longrightarrow> honest d files"
proof -
  assume t: "truthful d files"
  have "files (snd (answer d (Get_size p) w)) = files w \<and>
      (\<forall>r x. fst (answer d (Get_size p) w) = Some r \<longrightarrow> size_of_response p r = Inr x \<longrightarrow>
         x = map_option nf_size (files w p))" for w p
  proof -
    obtain r w1 where "answer d (Get_size p) w = (Some r, w1)" "files w1 = files w"
      "size_of_response p r = Inr (map_option nf_size (files w p))"
      using t unfolding truthful_def by blast
    then show ?thesis by simp
  qed
  then show ?thesis using t unfolding truthful_def honest_def by blast
qed

lemma file_size_honest:
  assumes "honest d files"
  obtains v w1 where "file_size d p (w, log) = (v, (w1, log @ [Get_size p]))" "files w1 = files w"
    "\<And>x. v = Inr x \<Longrightarrow> x = map_option nf_size (files w p)"
proof -
  obtain r w1 where a: "answer d (Get_size p) w = (r, w1)" by (cases "answer d (Get_size p) w")
  have h: "files w1 = files w" "\<And>q x. r = Some q \<Longrightarrow> size_of_response p q = Inr x \<Longrightarrow>
      x = map_option nf_size (files w p)"
    using assms a unfolding honest_def by (metis snd_conv, metis fst_conv)
  show thesis
    using that a h by (cases r) (auto simp: file_size_def io_bind_def send_def)
qed

lemma read_marker_honest:
  assumes honest: "honest d files" and p: "p = join_child folder (owner_marker_name name)"
  obtains v w1 new where "read_owner_marker d folder name (w, log) = (v, (w1, log @ new))"
    "files w1 = files w" "\<forall>q\<in>set new. reading q"
    "\<And>ms. v = Inr (Some ms) \<Longrightarrow> \<exists>g. files w p = Some g \<and> marker_members g = Some ms"
proof -
  obtain v w1 where fs: "file_size d p (w, log) = (v, (w1, log @ [Get_size p]))"
    and same: "files w1 = files w" and val: "\<And>x. v = Inr x \<Longrightarrow> x = map_option nf_size (files w p)"
    by (rule file_size_honest[OF honest, of p w log]) blast
  show thesis
  proof (cases "\<exists>k. v = Inr (Some k)")
    case False
    then consider e where "v = Inl e" | "v = Inr None" by (metis not_None_eq sum.exhaust)
    then show ?thesis
      using that[of _ w1 "[Get_size p]"] fs same
      by cases (simp_all add: read_owner_marker_def p[symmetric] io_bind_def)
  next
    case True
    then obtain k g where k: "v = Inr (Some k)" and g: "files w p = Some g" using val by fastforce
    obtain r w2 where a: "answer d (Download p) w1 = (r, w2)" by (cases "answer d (Download p) w1")
    have h: "files w2 = files w1" "\<And>q ms. r = Some q \<Longrightarrow> marker_of_response q = Inr (Some ms) \<Longrightarrow>
        marker_members g = Some ms"
      using honest a g same unfolding honest_def by (metis snd_conv, metis fst_conv)
    show ?thesis
    proof (cases r)
      case None
      then show ?thesis
        using that[of "Inl Transport_error" w2 "[Get_size p, Download p]"] fs same k a h
        by (simp add: read_owner_marker_def p[symmetric] io_bind_def send_def)
    next
      case (Some q)
      then show ?thesis
        using that[of "marker_of_response q" w2 "[Get_size p, Download p]"] fs same k a h g
        by (simp add: read_owner_marker_def p[symmetric] io_bind_def send_def)
    qed
  qed
qed

lemma upload_onto_file:
  assumes honest: "honest d files" and target: "target = join_child folder name"
    and marker: "p = join_child folder (owner_marker_name name)"
    and present: "files w target = Some f"
  shows "\<exists>v w1 new. upload d folder name content n rid ci (w, log) = (v, (w1, log @ new)) \<and>
    files w1 = files w \<and> (\<forall>q\<in>set new. reading q) \<and>
    (\<forall>path. v = Inr path \<longrightarrow> path = target \<and> n = Some (nf_size f) \<and>
       (\<exists>g ms. files w p = Some g \<and> marker_members g = Some ms \<and> dict_eq ms (expected_owner rid ci n)))"
proof -
  obtain v w1 new where rm: "read_owner_marker d folder name (w, log) = (v, (w1, log @ new))"
      "files w1 = files w" "\<forall>q\<in>set new. reading q"
      "\<And>ms. v = Inr (Some ms) \<Longrightarrow> \<exists>g. files w p = Some g \<and> marker_members g = Some ms"
    by (rule read_marker_honest[OF honest marker, of w log]) blast
  obtain u w2 where fs: "file_size d target (w1, log @ new) =
      (u, (w2, (log @ new) @ [Get_size target]))" "files w2 = files w1"
      "\<And>x. u = Inr x \<Longrightarrow> x = map_option nf_size (files w1 target)"
    by (rule file_size_honest[OF honest, of target w1 "log @ new"]) blast
  note defs = upload_def Let_def io_bind_def require_same_owner_def require_complete_size_def
  consider e where "v = Inl e" | m e where "v = Inr m" "u = Inl e"
    | "v = Inr None" "u = Inr (Some (nf_size f))"
    | ms where "v = Inr (Some ms)" "u = Inr (Some (nf_size f))"
  proof (cases v)
    case (Inr m)
    show ?thesis
    proof (cases u)
      case (Inl e)
      then show ?thesis using Inr that(2) by blast
    next
      case (Inr k)
      then have "u = Inr (Some (nf_size f))" using fs(3) present rm(2) by simp
      then show ?thesis using \<open>v = Inr m\<close> that(3,4) by (cases m) auto
    qed
  qed (use that(1) in blast)
  then show ?thesis
  proof cases
    case 1
    then show ?thesis using rm by (intro exI[of _ "Inl e"] exI[of _ w1] exI[of _ new]) (simp add: defs)
  next
    case 2
    then show ?thesis using rm fs target
      by (intro exI[of _ "Inl e"] exI[of _ w2] exI[of _ "new @ [Get_size target]"]) (simp add: defs)
  next
    case 3
    have "upload d folder name content n rid ci (w, log) =
        (Inl (Collision Overwrite_forbidden), (w2, log @ new @ [Get_size target]))"
      using rm(1) fs(1) 3 by (simp add: upload_def Let_def io_bind_def target[symmetric])
    then show ?thesis using rm(2,3) fs(2) by auto
  next
    case 4
    have "upload d folder name content n rid ci (w, log) =
        (if \<not> dict_eq ms (expected_owner rid ci n) then Inl (Collision (Different_owner target))
         else if n \<noteq> Some (nf_size f) then Inl (Collision (Not_complete target)) else Inr target,
         (w2, log @ new @ [Get_size target]))"
      using rm(1) fs(1) 4 by (simp add: defs target[symmetric])
    then show ?thesis using rm(2,3) fs(2) rm(4)[OF 4(1)] by auto
  qed
qed

section \<open>A file station in memory\<close>

text \<open>A server that keeps its files in a map; the witnesses below run the client against it.\<close>

type_synonym nas_files = "string \<Rightarrow> nas_file option"

definition ok_response :: http_response where
  "ok_response = \<lparr>resp_status = 200, resp_json = Some (JObj [])\<rparr>"

definition size_response :: "nas_file option \<Rightarrow> http_response" where
  "size_response f = \<lparr>resp_status = 200, resp_json = Some (JObj [(''data'', JObj [(''files'',
     JList [case f of None \<Rightarrow> JObj [(''code'', JInt 408)]
            | Some g \<Rightarrow> JObj [(''additional'', JObj [(''size'', JInt (nf_size g))])]])])])\<rparr>"

fun memory_answer :: "nas_request \<Rightarrow> nas_files \<Rightarrow> http_response option \<times> nas_files" where
  "memory_answer (Get_size p) fs = (Some (size_response (fs p)), fs)"
| "memory_answer (Download p) fs =
     (Some (case fs p of None \<Rightarrow> \<lparr>resp_status = 404, resp_json = None\<rparr>
            | Some g \<Rightarrow> \<lparr>resp_status = 200, resp_json = nf_body g\<rparr>), fs)"
| "memory_answer (Copy_move s f rm ow) fs = (Some ok_response, fs(s := None, join_child f (path_name s) := fs s))"
| "memory_answer q fs = (Some ok_response, fs)"

definition memory_nas :: "nas_files dsm" where
  "memory_nas = \<lparr>answer = memory_answer, show_json = (\<lambda>j. '''')\<rparr>"

lemma answer_memory [simp]: "answer memory_nas = memory_answer"
  by (simp add: memory_nas_def)

lemma memory_nas_truthful: "truthful memory_nas (\<lambda>fs. fs)"
  unfolding truthful_def
  by (auto simp: size_response_def size_of_response_def payload_of_def validate_def
      hashable_def is_error_status_def marker_members_def marker_of_response_def Let_def
      split: option.splits json.splits if_splits)

definition sample_marker :: nas_file where
  "sample_marker = \<lparr>nf_size = 9, nf_body = Some (JObj (expected_owner ''7'' ''ci'' (Some 5)))\<rparr>"

definition sample_files :: nas_files where
  "sample_files = (\<lambda>p. None)(''/r/a/v'' := Some \<lparr>nf_size = 5, nf_body = None\<rparr>,
     ''/r/a/.v.recording-agent-owner.json'' := Some sample_marker)"

section \<open>Properties\<close>

text \<open>
  Property C40.  Whatever the server answers, folder discovery sends at most 50 requests and never
  more than the page bound, all of them listings of folders below the root, and returns at most
  the requested number of folders, all below the root and none a redirection.
\<close>

theorem folder_discovery_is_bounded:
  "case discover_folders d root depth pages results ps (w, []) of (v, (w1, sent)) \<Rightarrow>
     length sent \<le> 50 \<and> int (length sent) \<le> max 0 pages \<and> list_all (listing_below root) sent \<and>
     (case v of Inl e \<Rightarrow> True
      | Inr fs \<Rightarrow> length fs \<le> 500 \<and> int (length fs) \<le> results \<and>
          list_all (\<lambda>f. below root (sf_path f) \<and> \<not> sf_symlink f) fs)"
proof -
  obtain v w1 sent where run: "discover_folders d root depth pages results ps (w, []) = (v, (w1, sent))"
    by (metis surj_pair)
  show ?thesis
    using discover_folders_ok[OF run] run by (auto simp: list_all_iff split: sum.split)
qed

text \<open>
  Property C32.  Whatever the server answers, a verified move asks to move files only from below the
  configured source root into folders below the destination root, always with \<open>remove_src\<close> and never
  with \<open>overwrite\<close>, and otherwise only reads.
\<close>

theorem verified_move_is_confined:
  "list_all (move_request_ok root (if truthy target_root then the target_root else root))
     (snd (snd (copy_move_verified d source_path folder name root n owner target_root (w, []))))"
proof -
  obtain v w1 sent where
    run: "copy_move_verified d source_path folder name root n owner target_root (w, []) = (v, (w1, sent))"
    by (metis surj_pair)
  then show ?thesis
    using keepsD[OF copy_move_requests[OF refl] _ run] by (simp add: list_all_iff)
qed

text \<open>
  Property C30.  When a verified move returns on a server that tells the truth about its files, then
  no file was at the target before; the source had the expected size and a marker naming the
  expected owner; after the move of the file the target was there with that size and no marker was
  beside it; only then was the marker moved; and at the end the source and its marker are gone and
  the marker beside the target names the expected owner.
\<close>

theorem verified_move_effect:
  assumes "truthful d files"
    and "copy_move_verified d sp tf name root n owner tr (w, log) = (Inr (task, target), (w', log'))"
  shows "\<exists>source folder source_marker target_marker m0 g h f owner_before owner_after
      w1 l1 w2 l2 w3 l3 w4 l4 t.
    canonical_under_root root sp = Inr source \<and>
    canonical_under_root (if truthy tr then the tr else root) tf = Inr folder \<and>
    canonical_under_root root (path_parent source @ ''/'' @ owner_marker_name name) = Inr source_marker \<and>
    canonical_under_root (if truthy tr then the tr else root) (join_child folder (owner_marker_name name)) =
      Inr target_marker \<and>
    below (if truthy tr then the tr else root) target \<and>
    files w target = None \<and> files w source = Some g \<and> n = Some (nf_size g) \<and>
    files w (join_child (path_parent source) (owner_marker_name (path_name source))) = Some m0 \<and>
    marker_members m0 = Some owner_before \<and> dict_eq owner_before owner \<and>
    files w1 = files w \<and> start_copy_move d source folder (w1, l1) = (Inr task, (w2, l2)) \<and>
    files w2 target = Some h \<and> nf_size h = nf_size g \<and> files w2 target_marker = None \<and>
    files w3 = files w2 \<and> start_copy_move d source_marker folder (w3, l3) = (Inr t, (w4, l4)) \<and>
    files w' = files w4 \<and> files w' source = None \<and> files w' source_marker = None \<and>
    files w' (join_child folder (owner_marker_name name)) = Some f \<and>
    marker_members f = Some owner_after \<and> dict_eq owner_after owner"
proof (rule verified_move_files[OF assms])
  fix source folder source_marker
  let ?dest = "if truthy tr then the tr else root"
  assume c: "canonical_under_root root sp = Inr source"
    "canonical_under_root ?dest tf = Inr folder"
    "canonical_under_root root (path_parent source @ ''/'' @ owner_marker_name name) = Inr source_marker"
    "below ?dest target"
    "moved_as_verified d files ?dest source folder target name n owner task source_marker w w'"
  show ?thesis
    using c(5) unfolding moved_as_verified_def
    by (elim exE) (rule exI[of _ source], rule exI[of _ folder], rule exI[of _ source_marker],
      (rule exI)+, intro conjI c(1-4); (elim conjE, assumption))
qed

lemmas client_code =
  io_apps Let_def need_def need_absent_def size_response_def ok_response_def size_of_response_def payload_of_def
  validate_def hashable_def is_error_status_def marker_of_response_def copy_move_task_id_def
  require_same_owner_def require_complete_size_def dict_eq_def expected_owner_def scalar_norm_def
  canonical_under_root_def canonical_def components_def from_components_def with_path_def
  path_parent_def path_name_def join_child_def owner_marker_name_def rstrip_by_def
  sample_files_def sample_marker_def marker_members_def

lemma memory_file_size:
  "file_size memory_nas p (fs, log) = (Inr (map_option nf_size (fs p)), (fs, log @ [Get_size p]))"
  by (cases "fs p") (simp_all add: file_size_def send_def client_code)

lemma memory_start_move:
  "start_copy_move memory_nas s f (fs, log) =
     (Inr None, (fs(s := None, join_child f (path_name s) := fs s), log @ [Copy_move s f True False]))"
  by (simp add: start_copy_move_def send_def io_apps ok_response_def validate_def
      payload_of_def hashable_def is_error_status_def copy_move_task_id_def)

lemma memory_read_marker:
  "fs (join_child folder (owner_marker_name name)) = Some \<lparr>nf_size = n, nf_body = Some (JObj ms)\<rparr> \<Longrightarrow>
   jget ''success'' (JObj ms) = JNull \<Longrightarrow>
   read_owner_marker memory_nas folder name (fs, log) = (Inr (Some ms),
     (fs, log @ [Get_size (join_child folder (owner_marker_name name)),
                 Download (join_child folder (owner_marker_name name))]))"
  by (simp add: read_owner_marker_def memory_file_size io_apps send_def marker_of_response_def
      Let_def)

theorem verified_move_witness:
  "\<exists>w' log' g. copy_move_verified memory_nas ''/r/a/v'' ''/r/b'' ''v'' ''/r'' (Some 5)
      (expected_owner ''7'' ''ci'' (Some 5)) None (sample_files, []) = (Inr (None, ''/r/b/v''), (w', log')) \<and>
    sample_files ''/r/a/v'' = Some g \<and> nf_size g = 5 \<and> w' ''/r/a/v'' = None"
proof -
  obtain w' log' where run: "copy_move_verified memory_nas ''/r/a/v'' ''/r/b'' ''v'' ''/r'' (Some 5)
      (expected_owner ''7'' ''ci'' (Some 5)) None (sample_files, []) = (Inr (None, ''/r/b/v''), (w', log'))"
    by (simp add: copy_move_verified_def memory_file_size memory_start_move memory_read_marker client_code)
  have "canonical_under_root ''/r'' ''/r/a/v'' = Inr ''/r/a/v''"
    by (simp add: client_code)
  then show ?thesis
    using verified_move_effect[OF memory_nas_truthful run] run by auto
qed

text \<open>
  Property C24.  On a server whose successful answers are true (\<open>honest\<close>; it may fail to answer or
  answer with errors), an upload onto an existing file sends reading requests only and changes no
  file, whatever the marker beside the file holds; it returns nothing but the path of that file, and
  only if the file is complete and its marker names this recording and content.  If moreover the
  server answers every size query and marker download (\<open>truthful\<close>), and there is no marker or it is
  a JSON object that is no error report, the answer is \<open>upload_verdict\<close>: a collision in every
  other case.  (For a marker that reads as an error report the code raises an API error.)
\<close>

theorem upload_never_overwrites:
  assumes "honest d files" and "target = join_child folder name"
    and "p = join_child folder (owner_marker_name name)"
    and "files w target = Some f"
  shows "\<exists>v w1 new. upload d folder name content n rid ci (w, log) = (v, (w1, log @ new)) \<and>
    files w1 = files w \<and> list_all reading new \<and>
    (\<forall>path. v = Inr path \<longrightarrow> path = target \<and> n = Some (nf_size f) \<and>
       (\<exists>g ms. files w p = Some g \<and> marker_members g = Some ms \<and>
          dict_eq ms (expected_owner rid ci n))) \<and>
    (truthful d files \<and> (files w p = None \<or> (\<exists>g ms. files w p = Some g \<and> marker_members g = Some ms)) \<longrightarrow>
       v = upload_verdict target f (Option.bind (files w p) marker_members) (expected_owner rid ci n) n)"
proof -
  obtain v w1 new where up: "upload d folder name content n rid ci (w, log) = (v, (w1, log @ new))"
    "files w1 = files w" "\<forall>q\<in>set new. reading q"
    "\<forall>path. v = Inr path \<longrightarrow> path = target \<and> n = Some (nf_size f) \<and>
       (\<exists>g ms. files w p = Some g \<and> marker_members g = Some ms \<and> dict_eq ms (expected_owner rid ci n))"
    using upload_onto_file[OF assms] by blast
  have "v = upload_verdict target f (Option.bind (files w p) marker_members)
      (expected_owner rid ci n) n"
    if "truthful d files" "files w p = None \<or> (\<exists>g ms. files w p = Some g \<and> marker_members g = Some ms)"
    using upload_existing[OF that(1) assms(2-4) that(2), of content n rid ci log] up(1) by auto
  then show ?thesis
    using up by (intro exI[of _ v] exI[of _ w1] exI[of _ new]) (simp only: list_all_iff, blast)
qed

theorem upload_witness:
  "\<exists>w1 new. upload memory_nas ''/r/a'' ''v'' ''data'' (Some 5) ''8'' ''ci'' (sample_files, []) =
      (Inl (Collision (Different_owner ''/r/a/v'')), (w1, new)) \<and> w1 = sample_files"
proof -
  let ?p = "''/r/a/.v.recording-agent-owner.json''"
  have f: "sample_files ''/r/a/v'' = Some \<lparr>nf_size = 5, nf_body = None\<rparr>"
    and g: "sample_files ?p = Some sample_marker"
    and ms: "marker_members sample_marker = Some (expected_owner ''7'' ''ci'' (Some 5))"
    by (simp_all add: client_code)
  have other: "\<not> dict_eq (expected_owner ''7'' ''ci'' (Some 5)) (expected_owner ''8'' ''ci'' (Some 5))"
    by (simp add: dict_eq_def expected_owner_def scalar_norm_def)
  have paths: "''/r/a/v'' = join_child ''/r/a'' ''v''" "?p = join_child ''/r/a'' (owner_marker_name ''v'')"
    by (simp_all add: join_child_def owner_marker_name_def rstrip_by_def)
  obtain v w1 new where run: "upload memory_nas ''/r/a'' ''v'' ''data'' (Some 5) ''8'' ''ci'' (sample_files, []) =
      (v, (w1, [] @ new))" and same: "w1 = sample_files"
    and verdict: "truthful memory_nas (\<lambda>fs. fs) \<and> (sample_files ?p = None \<or>
        (\<exists>g ms. sample_files ?p = Some g \<and> marker_members g = Some ms)) \<longrightarrow>
      v = upload_verdict ''/r/a/v'' \<lparr>nf_size = 5, nf_body = None\<rparr>
        (Option.bind (sample_files ?p) marker_members) (expected_owner ''8'' ''ci'' (Some 5)) (Some 5)"
    using upload_never_overwrites[of memory_nas "\<lambda>fs. fs" "''/r/a/v''" "''/r/a''" "''v''" ?p sample_files
        "\<lparr>nf_size = 5, nf_body = None\<rparr>" "''data''" "Some 5" "''8''" "''ci''" "[]",
        OF truthful_honest[OF memory_nas_truthful] paths f]
    by (elim exE conjE) (rule that, assumption+)
  have "v = upload_verdict ''/r/a/v'' \<lparr>nf_size = 5, nf_body = None\<rparr>
        (Some (expected_owner ''7'' ''ci'' (Some 5))) (expected_owner ''8'' ''ci'' (Some 5)) (Some 5)"
    using verdict memory_nas_truthful g ms by simp
  then show ?thesis
    using run same other by (simp add: upload_verdict_def)
qed

end
