(* ===== verification/Matching.thy ===== *)
theory Matching
imports Config
begin

text \<open>
  \<open>app/services/matching.py\<close>: reading a recording's start and title from its file name, choosing
  the one calendar event it belongs to, and the reasons for a manual review.  Confidences are
  hundredths.  Normal forms, case folding, time zones and the text of an instant are the fields of
  the parameter \<open>text_env\<close>; the three regular expressions a recruiter may override are predicates.
\<close>

section \<open>Events and file names\<close>

record vevent =
  ev_uid :: string
  ev_summary :: string
  ev_dtstart :: instant
  ev_dtend :: instant
  ev_description :: string
  ev_organizer_email :: string
  ev_attendees :: "string list"
  ev_raw_ics :: string
  ev_recurrence_id :: "string option"
  ev_calendar_id :: "string option"
  ev_calendar_url :: "string option"
  ev_calendar_display_name :: "string option"
  ev_eligible :: bool

type_synonym local_time = "nat \<times> nat \<times> nat \<times> nat \<times> nat \<times> nat"

record text_env =
  te_nfkc :: "string \<Rightarrow> string"
  te_casefold :: "string \<Rightarrow> string"
  te_iso :: "instant \<Rightarrow> string"
  te_to_utc :: "string \<Rightarrow> local_time \<Rightarrow> instant option"

record matching_signals =
  ms_name :: "string \<Rightarrow> bool"
  ms_interview :: "string \<Rightarrow> bool"
  ms_booking :: "string \<Rightarrow> bool"

datatype review_reason =
    FILENAME_INVALID
  | FILENAME_TIMESTAMP_INCONSISTENT
  | CALENDAR_CONFIGURATION_INCOMPLETE
  | NO_COMPATIBLE_EVENT
  | UNMONITORED_ONLY
  | MULTIPLE_ELIGIBLE
  | UNMONITORED_COLLISION
  | LOW_CONFIDENCE

fun reason_value :: "review_reason \<Rightarrow> string" where
  "reason_value FILENAME_INVALID = ''filename_invalid''"
| "reason_value FILENAME_TIMESTAMP_INCONSISTENT = ''filename_timestamp_inconsistent''"
| "reason_value CALENDAR_CONFIGURATION_INCOMPLETE = ''calendar_configuration_incomplete''"
| "reason_value NO_COMPATIBLE_EVENT = ''no_compatible_event''"
| "reason_value UNMONITORED_ONLY = ''unmonitored_only''"
| "reason_value MULTIPLE_ELIGIBLE = ''multiple_eligible_events''"
| "reason_value UNMONITORED_COLLISION = ''unmonitored_collision''"
| "reason_value LOW_CONFIDENCE = ''low_confidence''"

text \<open>\<open>" ".join(normalize("NFKC", value).casefold().split())\<close>.\<close>

definition normalize_title :: "text_env \<Rightarrow> string \<Rightarrow> string" where
  "normalize_title te value =
     join_with '' '' (py_words '''' (te_casefold te (te_nfkc te value)))"

record parsed_filename =
  pf_start_utc :: instant
  pf_title :: string
  pf_normalized_title :: string
  pf_audio_only :: bool

definition is_digit :: "char \<Rightarrow> bool" where
  "is_digit c \<longleftrightarrow> (let n = (of_char c :: nat) in 48 \<le> n \<and> n \<le> 57)"

definition digits_value :: "string \<Rightarrow> nat" where
  "digits_value s = foldl (\<lambda>acc c. acc * 10 + (of_char c - 48)) 0 s"

text \<open>The fixed head \<open>dddd-dd-dd_dddddd_\<close> and tail \<open>.webm\<close> of \<open>FILENAME_PATTERN\<close>.\<close>

definition head_ok :: "string \<Rightarrow> bool" where
  "head_ok h \<longleftrightarrow> length h = 18 \<and>
     list_all (\<lambda>i. is_digit (h ! i)) [0, 1, 2, 3, 5, 6, 8, 9, 11, 12, 13, 14, 15, 16] \<and>
     h ! 4 = CHR ''-'' \<and> h ! 7 = CHR ''-'' \<and> h ! 10 = CHR ''_'' \<and> h ! 17 = CHR ''_''"

definition days_in_month :: "nat \<Rightarrow> nat \<Rightarrow> nat" where
  "days_in_month y m =
     (if m = 2 then (if y mod 4 = 0 \<and> (y mod 100 \<noteq> 0 \<or> y mod 400 = 0) then 29 else 28)
      else if m \<in> {4, 6, 9, 11} then 30 else 31)"

definition valid_local_time :: "local_time \<Rightarrow> bool" where
  "valid_local_time t = (case t of (y, mo, d, h, mi, s) \<Rightarrow>
     1 \<le> y \<and> 1 \<le> mo \<and> mo \<le> 12 \<and> 1 \<le> d \<and> d \<le> days_in_month y mo \<and> h < 24 \<and> mi < 60 \<and> s < 60)"

definition head_time :: "string \<Rightarrow> local_time" where
  "head_time h =
     (digits_value (take 4 h), digits_value (take 2 (drop 5 h)), digits_value (take 2 (drop 8 h)),
      digits_value (take 2 (drop 11 h)), digits_value (take 2 (drop 13 h)),
      digits_value (take 2 (drop 15 h)))"

datatype filename_parse_error = Unsupported_filename | No_title | Bad_timestamp | Unknown_zone

definition parse_recording_filename ::
  "text_env \<Rightarrow> string \<Rightarrow> string \<Rightarrow> (filename_parse_error, parsed_filename) result" where
  "parse_recording_filename te filename zone =
     (let h = take 18 filename; rest = drop 18 filename;
          body = take (length rest - 5) rest in
      if \<not> head_ok h \<or> \<not> suffix ''.webm'' rest \<or> body = '''' \<or> CHR 0x0A \<in> set body
      then Inl Unsupported_filename
      else
        let audio_only = suffix ''_audio_only'' body;
            title = (if audio_only then take (length body - 11) body else body);
            normalized = normalize_title te title
        in if normalized = '''' then Inl No_title
           else if \<not> valid_local_time (head_time h) then Inl Bad_timestamp
           else (case te_to_utc te zone (head_time h) of
                   None \<Rightarrow> Inl Unknown_zone
                 | Some start \<Rightarrow> Inr \<lparr>pf_start_utc = start, pf_title = title,
                     pf_normalized_title = normalized, pf_audio_only = audio_only\<rparr>))"

section \<open>Diagnostic candidates\<close>

definition MAX_DIAGNOSTIC_CANDIDATES :: nat where "MAX_DIAGNOSTIC_CANDIDATES = 5"
definition MAX_DIAGNOSTIC_PAYLOAD_CHARS :: nat where "MAX_DIAGNOSTIC_PAYLOAD_CHARS = 4096"
definition MAX_DIAGNOSTIC_TEXT_CHARS :: nat where "MAX_DIAGNOSTIC_TEXT_CHARS = 160"
definition MAX_CALENDAR_DISPLAY_NAME_CHARS :: nat where "MAX_CALENDAR_DISPLAY_NAME_CHARS = 100"

record match_candidate =
  mc_calendar_id :: "string option"
  mc_calendar_display_name :: "string option"
  mc_event_uid :: string
  mc_event_summary :: string
  mc_event_start_utc :: string
  mc_eligible :: bool

definition candidate_of_event :: "text_env \<Rightarrow> vevent \<Rightarrow> match_candidate" where
  "candidate_of_event te e =
     (let display = take MAX_CALENDAR_DISPLAY_NAME_CHARS (opt_or (ev_calendar_display_name e) '''') in
      \<lparr>mc_calendar_id = ev_calendar_id e,
       mc_calendar_display_name = (if display = '''' then None else Some display),
       mc_event_uid = take MAX_DIAGNOSTIC_TEXT_CHARS (ev_uid e),
       mc_event_summary = take MAX_DIAGNOSTIC_TEXT_CHARS (ev_summary e),
       mc_event_start_utc = te_iso te (ev_dtstart e),
       mc_eligible = ev_eligible e\<rparr>)"

definition opt_json :: "string option \<Rightarrow> json" where
  "opt_json v = (case v of None \<Rightarrow> JNull | Some s \<Rightarrow> JStr s)"

definition candidate_dict :: "match_candidate \<Rightarrow> (string \<times> json) list" where
  "candidate_dict c =
     [(''calendar_id'', opt_json (mc_calendar_id c)),
      (''calendar_display_name'', opt_json (mc_calendar_display_name c)),
      (''event_uid'', JStr (mc_event_uid c)), (''event_summary'', JStr (mc_event_summary c)),
      (''event_start_utc'', JStr (mc_event_start_utc c)), (''eligible'', JBool (mc_eligible c))]"

text \<open>The number of characters \<open>json.dumps(..., ensure_ascii=False)\<close> writes.\<close>

definition dumped_char :: "char \<Rightarrow> nat" where
  "dumped_char c = (let n = (of_char c :: nat) in
     if n \<in> {34, 92, 8, 9, 10, 12, 13} then 2 else if n < 32 then 6 else 1)"

definition dumped_text :: "string \<Rightarrow> nat" where
  "dumped_text s = 2 + sum_list (map dumped_char s)"

fun dumped_scalar :: "json \<Rightarrow> nat" where
  "dumped_scalar JNull = 4"
| "dumped_scalar (JBool b) = (if b then 4 else 5)"
| "dumped_scalar (JInt n) = length (int_text n)"
| "dumped_scalar (JStr s) = dumped_text s"
| "dumped_scalar _ = 0"

definition dumped_dict :: "(string \<times> json) list \<Rightarrow> nat" where
  "dumped_dict ms = 2 + 2 * (length ms - 1) +
     sum_list (map (\<lambda>(k, v). dumped_text k + 2 + dumped_scalar v) ms)"

definition dumped_list :: "(string \<times> json) list list \<Rightarrow> nat" where
  "dumped_list ds = 2 + 2 * (length ds - 1) + sum_list (map dumped_dict ds)"

fun bounded_loop :: "text_env \<Rightarrow> match_candidate list \<Rightarrow> vevent list \<Rightarrow> match_candidate list" where
  "bounded_loop te acc [] = acc"
| "bounded_loop te acc (e # es) =
     (let trial = acc @ [candidate_of_event te e] in
      if MAX_DIAGNOSTIC_PAYLOAD_CHARS < dumped_list (map candidate_dict trial) then acc
      else bounded_loop te trial es)"

definition bounded_candidates :: "text_env \<Rightarrow> vevent list \<Rightarrow> match_candidate list" where
  "bounded_candidates te events = bounded_loop te [] (take MAX_DIAGNOSTIC_CANDIDATES events)"

section \<open>Choosing the event\<close>

text \<open>The built-in patterns that need no text beyond the code points 0..255.\<close>

definition telemost_url :: "string \<Rightarrow> bool" where
  "telemost_url d \<longleftrightarrow> sublist ''https://telemost.360.yandex.ru/'' d"

definition booking_default :: "string \<Rightarrow> bool" where
  "booking_default d \<longleftrightarrow>
     list_ex (\<lambda>u. sublist u (lower_text d))
       [''https://calink.ru/'', ''https://calendly.com/'', ''https://cal.com/'']"

text \<open>\<open>\(([^)]+)\)$\<close>: the parenthesised text at the end (the end may precede a final newline).\<close>

definition drop_final_newline :: "string \<Rightarrow> string" where
  "drop_final_newline s = (if suffix [CHR 0x0A] s then butlast s else s)"

definition name_in_parens :: "string \<Rightarrow> string option" where
  "name_in_parens s0 =
     (let s = drop_final_newline s0;
          inner = rev (takeWhile (\<lambda>c. c \<noteq> CHR '')'') (tl (rev s)))
      in if suffix '')'' s \<and> CHR ''('' \<in> set inner then
           (let name = tl (dropWhile (\<lambda>c. c \<noteq> CHR ''('') inner)
            in if name = '''' then None else Some name)
         else None)"

record match_result =
  mr_best_event :: "vevent option"
  mr_confidence :: int
  mr_signals :: "string list"
  mr_manual_review_required :: bool
  mr_reason :: "review_reason option"
  mr_candidates :: "match_candidate list"

definition manual :: "review_reason \<Rightarrow> int \<Rightarrow> string list \<Rightarrow> match_candidate list \<Rightarrow> match_result" where
  "manual reason confidence signals candidates =
     \<lparr>mr_best_event = None, mr_confidence = confidence, mr_signals = signals,
      mr_manual_review_required = True, mr_reason = Some reason, mr_candidates = candidates\<rparr>"

definition in_window :: "instant \<Rightarrow> vevent \<Rightarrow> bool" where
  "in_window start e \<longleftrightarrow> ev_dtstart e - minutes 15 \<le> start \<and> start \<le> ev_dtend e + minutes 15"

definition score_event :: "instant \<Rightarrow> vevent \<Rightarrow> matching_signals \<Rightarrow> int \<times> string list" where
  "score_event start e sig =
     (let hits = [(telemost_url (ev_description e), 5, ''has_telemost_url''),
                  (in_window start e, 35, ''time_overlap''),
                  (ms_name sig (ev_summary e), 25, ''name_in_summary''),
                  (ms_interview sig (ev_summary e), 5, ''interview_keywords''),
                  (ms_booking sig (ev_description e), 30, ''booking_source_marker'')];
          found = filter fst hits
      in (min (sum_list (map (\<lambda>(b, n, s). n) found)) 100, map (\<lambda>(b, n, s). s) found))"

definition MAX_EVENT_SPAN_FOR_POOL :: int where "MAX_EVENT_SPAN_FOR_POOL = hours 20"

definition compatible_event :: "text_env \<Rightarrow> matching_signals \<Rightarrow> parsed_filename \<Rightarrow> vevent \<Rightarrow> bool" where
  "compatible_event te sig p e \<longleftrightarrow>
     ev_dtend e - ev_dtstart e < MAX_EVENT_SPAN_FOR_POOL \<and> in_window (pf_start_utc p) e \<and>
     (normalize_title te (ev_summary e) = pf_normalized_title p \<or> ms_booking sig (ev_description e))"

definition event_key :: "vevent \<Rightarrow> string option \<times> string \<times> string option" where
  "event_key e = (ev_calendar_id e, ev_uid e, ev_recurrence_id e)"

text \<open>\<open>setdefault\<close> per key in the order of the events: the first event of each key.\<close>

fun first_per_key :: "vevent list \<Rightarrow> vevent list" where
  "first_per_key [] = []"
| "first_per_key (e # es) = e # filter (\<lambda>x. event_key x \<noteq> event_key e) (first_per_key es)"

definition score ::
  "text_env \<Rightarrow> settings \<Rightarrow> matching_signals \<Rightarrow> string \<Rightarrow> instant option \<Rightarrow> vevent list \<Rightarrow> match_result" where
  "score te st sig filename disk_created_at events =
     (case parse_recording_filename te filename (st_recording_filename_timezone st) of
        Inl e \<Rightarrow> manual FILENAME_INVALID 0 [] []
      | Inr parsed \<Rightarrow>
          if (case disk_created_at of None \<Rightarrow> False
              | Some created \<Rightarrow> hours 6 < \<bar>created - pf_start_utc parsed\<bar>)
          then manual FILENAME_TIMESTAMP_INCONSISTENT 0 [] []
          else
            let compatible = first_per_key (filter (compatible_event te sig parsed) events);
                candidates = bounded_candidates te compatible;
                eligible = filter ev_eligible compatible;
                unmonitored = filter (\<lambda>e. \<not> ev_eligible e) compatible
            in if compatible = [] then manual NO_COMPATIBLE_EVENT 0 [] []
               else if eligible = [] then manual UNMONITORED_ONLY 0 [] candidates
               else if 1 < length eligible then manual MULTIPLE_ELIGIBLE 0 [] candidates
               else if unmonitored \<noteq> [] then manual UNMONITORED_COLLISION 0 [] candidates
               else
                 let event = hd eligible; (confidence, matched) = score_event (pf_start_utc parsed) event sig
                 in if confidence < st_confidence_threshold st
                    then manual LOW_CONFIDENCE confidence matched candidates
                    else \<lparr>mr_best_event = Some event, mr_confidence = confidence, mr_signals = matched,
                          mr_manual_review_required = False, mr_reason = None, mr_candidates = []\<rparr>)"

section \<open>Facts\<close>

lemma manual_simps [simp]:
  "mr_best_event (manual r c s cs) = None"
  "mr_manual_review_required (manual r c s cs)"
  "mr_reason (manual r c s cs) = Some r"
  "mr_candidates (manual r c s cs) = cs"
  by (simp_all add: manual_def)

lemma set_first_per_key: "set (first_per_key es) \<subseteq> set es"
  by (induction es) auto

lemma image_except: "f ` {x \<in> S. f x \<noteq> k} = f ` S - {k}"
  by auto

lemma first_per_key_keys: "event_key ` set (first_per_key es) = event_key ` set es"
  by (induction es) (simp_all add: image_except)

lemma bounded_loop_ok:
  assumes "dumped_list (map candidate_dict acc) \<le> MAX_DIAGNOSTIC_PAYLOAD_CHARS"
  shows "length (bounded_loop te acc es) \<le> length acc + length es \<and>
    dumped_list (map candidate_dict (bounded_loop te acc es)) \<le> MAX_DIAGNOSTIC_PAYLOAD_CHARS"
  using assms
proof (induction te acc es rule: bounded_loop.induct)
  case (1 te acc)
  then show ?case by simp
next
  case (2 te acc e es)
  then show ?case by (auto simp: Let_def not_less)
qed

lemma bounded_candidates_ok:
  "length (bounded_candidates te es) \<le> MAX_DIAGNOSTIC_CANDIDATES"
  "dumped_list (map candidate_dict (bounded_candidates te es)) \<le> MAX_DIAGNOSTIC_PAYLOAD_CHARS"
  using bounded_loop_ok[of "[]" te "take MAX_DIAGNOSTIC_CANDIDATES es"]
  by (auto simp: bounded_candidates_def dumped_list_def MAX_DIAGNOSTIC_PAYLOAD_CHARS_def)

lemma score_event_range: "0 \<le> fst (score_event start e sig) \<and> fst (score_event start e sig) \<le> 100"
  by (auto simp: score_event_def Let_def)

lemma singleton_filter_key:
  assumes "filter p (first_per_key es) = [e]" "filter (\<lambda>x. \<not> p x) (first_per_key es) = []"
  shows "\<forall>x\<in>set es. event_key x = event_key e"
proof -
  have "x = e" if "x \<in> set (first_per_key es)" for x
  proof (cases "p x")
    case True
    then have "x \<in> set (filter p (first_per_key es))" using that by simp
    then show ?thesis using assms(1) by simp
  next
    case False
    then show ?thesis using assms(2) that by (auto simp: filter_empty_conv)
  qed
  then have "event_key ` set (first_per_key es) \<subseteq> {event_key e}" by auto
  then show ?thesis unfolding first_per_key_keys by auto
qed

lemma one_item: "xs \<noteq> [] \<Longrightarrow> length xs \<le> Suc 0 \<Longrightarrow> xs = [hd xs]"
  by (cases xs) auto

lemma score_selected:
  assumes "mr_best_event (score te st sig filename created events) = Some e"
  obtains parsed where
    "parse_recording_filename te filename (st_recording_filename_timezone st) = Inr parsed"
    "e \<in> set events" "compatible_event te sig parsed e" "ev_eligible e"
    "\<forall>x\<in>set events. compatible_event te sig parsed x \<longrightarrow> event_key x = event_key e"
    "st_confidence_threshold st \<le> mr_confidence (score te st sig filename created events)"
    "\<forall>t. created = Some t \<longrightarrow> \<bar>t - pf_start_utc parsed\<bar> \<le> hours 6"
proof (cases "parse_recording_filename te filename (st_recording_filename_timezone st)")
  case (Inl x)
  then show ?thesis using assms by (simp add: score_def)
next
  case (Inr parsed)
  define comp where "comp = first_per_key (filter (compatible_event te sig parsed) events)"
  have el0: "filter ev_eligible comp \<noteq> []" "length (filter ev_eligible comp) \<le> Suc 0"
      "e = hd (filter ev_eligible comp)" and un: "filter (\<lambda>x. \<not> ev_eligible x) comp = []"
    and th: "st_confidence_threshold st \<le> mr_confidence (score te st sig filename created events)"
    and cr: "\<forall>t. created = Some t \<longrightarrow> \<bar>t - pf_start_utc parsed\<bar> \<le> hours 6"
    using assms Inr
    by (auto simp: score_def comp_def[symmetric] Let_def not_less
        split: if_splits option.splits prod.splits)
  have el: "filter ev_eligible comp = [e]" using one_item[OF el0(1,2)] el0(3) by simp
  have "e \<in> set (filter ev_eligible comp)" using el by simp
  then have "e \<in> set comp" "ev_eligible e" by simp_all
  have "e \<in> set (filter (compatible_event te sig parsed) events)"
    using \<open>e \<in> set comp\<close> set_first_per_key unfolding comp_def by blast
  then have "e \<in> set events" "compatible_event te sig parsed e" by simp_all
  then show ?thesis
    using that[OF Inr] \<open>ev_eligible e\<close> singleton_filter_key[OF el[unfolded comp_def] un[unfolded comp_def]]
      th cr by (simp only: set_filter) blast
qed

section \<open>Properties\<close>

text \<open>
  Property C9.  When the matcher selects an event without review, the event is one of the given
  events, monitored, shorter than twenty hours, within fifteen minutes of the recording's start,
  and its title equals the recording's or its description carries a booking link; every other event
  that fits the recording, monitored or not, is the same calendar entry; the confidence reaches the
  threshold and the disk's creation time lies within six hours.
\<close>

theorem selected_event_is_unambiguous:
  assumes "mr_best_event (score te st sig filename created events) = Some e"
  shows "\<exists>parsed. parse_recording_filename te filename (st_recording_filename_timezone st) = Inr parsed \<and>
    e \<in> set events \<and> ev_eligible e \<and> in_window (pf_start_utc parsed) e \<and>
    ev_dtend e - ev_dtstart e < hours 20 \<and>
    (normalize_title te (ev_summary e) = pf_normalized_title parsed \<or> ms_booking sig (ev_description e)) \<and>
    (\<forall>x\<in>set events. compatible_event te sig parsed x \<longrightarrow> event_key x = event_key e) \<and>
    st_confidence_threshold st \<le> mr_confidence (score te st sig filename created events) \<and>
    (\<forall>t. created = Some t \<longrightarrow> \<bar>t - pf_start_utc parsed\<bar> \<le> hours 6)"
proof -
  obtain parsed where
    "parse_recording_filename te filename (st_recording_filename_timezone st) = Inr parsed"
    "e \<in> set events" "compatible_event te sig parsed e" "ev_eligible e"
    "\<forall>x\<in>set events. compatible_event te sig parsed x \<longrightarrow> event_key x = event_key e"
    "st_confidence_threshold st \<le> mr_confidence (score te st sig filename created events)"
    "\<forall>t. created = Some t \<longrightarrow> \<bar>t - pf_start_utc parsed\<bar> \<le> hours 6"
    by (rule score_selected[OF assms])
  moreover from this(3) have "in_window (pf_start_utc parsed) e" "ev_dtend e - ev_dtstart e < hours 20"
    "normalize_title te (ev_summary e) = pf_normalized_title parsed \<or> ms_booking sig (ev_description e)"
    by (simp_all add: compatible_event_def MAX_EVENT_SPAN_FOR_POOL_def)
  ultimately show ?thesis by blast
qed

definition sample_env :: text_env where
  "sample_env = \<lparr>te_nfkc = (\<lambda>s. s), te_casefold = (\<lambda>s. s), te_iso = int_text, te_to_utc = (\<lambda>z t. Some 0)\<rparr>"

definition sample_signals :: matching_signals where
  "sample_signals = \<lparr>ms_name = (\<lambda>s. name_in_parens s \<noteq> None), ms_interview = (\<lambda>s. False),
     ms_booking = (\<lambda>d. d = ''link'')\<rparr>"

definition sample_event :: vevent where
  "sample_event = \<lparr>ev_uid = ''u1'', ev_summary = ''Call (Ann)'', ev_dtstart = 0, ev_dtend = hours 1,
     ev_description = ''link'', ev_organizer_email = '''', ev_attendees = [], ev_raw_ics = '''',
     ev_recurrence_id = None, ev_calendar_id = Some ''c'', ev_calendar_url = None,
     ev_calendar_display_name = None, ev_eligible = True\<rparr>"

definition sample_parsed :: parsed_filename where
  "sample_parsed = \<lparr>pf_start_utc = 0, pf_title = ''Call'', pf_normalized_title = ''Call'',
     pf_audio_only = False\<rparr>"

theorem selected_event_witness:
  "mr_best_event (score sample_env (default_settings ''Spots'') sample_signals
      ''2024-05-06_101112_Call.webm'' None [sample_event]) = Some sample_event \<and>
   ev_dtend sample_event - ev_dtstart sample_event < hours 20"
proof -
  have p: "parse_recording_filename sample_env ''2024-05-06_101112_Call.webm'' ''Europe/Moscow'' =
      Inr sample_parsed"
    by code_simp
  have c: "compatible_event sample_env sample_signals sample_parsed sample_event"
    by code_simp
  have s: "score_event (pf_start_utc sample_parsed) sample_event sample_signals =
      (90, [''time_overlap'', ''name_in_summary'', ''booking_source_marker''])"
    by code_simp
  have e: "ev_eligible sample_event" by (simp add: sample_event_def)
  have st: "st_recording_filename_timezone (default_settings ''Spots'') = ''Europe/Moscow''"
    "st_confidence_threshold (default_settings ''Spots'') = 70"
    by (simp_all add: default_settings_def)
  have "mr_best_event (score sample_env (default_settings ''Spots'') sample_signals
      ''2024-05-06_101112_Call.webm'' None [sample_event]) = Some sample_event"
    unfolding score_def st p using c e s by (simp add: st)
  from selected_event_is_unambiguous[OF this] this show ?thesis by blast
qed
end
