(* ===== verification/Notion_Pages.thy ===== *)
theory Notion_Pages
imports Config
begin

text \<open>
  The parsing half of \<open>app/tools/notion.py\<close>: pages, properties, contact e-mails, page identities
  and data-source schemas, as pure functions of decoded JSON.
\<close>

section \<open>Errors\<close>

datatype notion_error =
    Auth_error
  | Forbidden_error
  | Database_not_found
  | Database_unavailable
  | Source_not_found
  | Source_unavailable
  | Schema_error
  | Ambiguous_source
  | Malformed_response
  | Query_error bool
  | Update_error bool
  | Page_archived
  | Comment_forbidden
  | Block_error bool
  | Comment_error bool
  | Http_failure
  | Type_failure

text \<open>The \<open>transient\<close> mark: the failure says nothing about the data.\<close>

fun transient_error :: "notion_error \<Rightarrow> bool" where
  "transient_error Database_unavailable = True"
| "transient_error Source_unavailable = True"
| "transient_error (Query_error t) = t"
| "transient_error (Update_error t) = t"
| "transient_error (Block_error t) = t"
| "transient_error (Comment_error t) = t"
| "transient_error _ = False"

definition transient_status :: "int \<Rightarrow> bool" where
  "transient_status status \<longleftrightarrow> status = 429 \<or> 500 \<le> status"

section \<open>Contact e-mails\<close>

definition ascii_alnum :: "char \<Rightarrow> bool" where
  "ascii_alnum c = (let n = (of_char c :: nat) in
     (48 \<le> n \<and> n \<le> 57) \<or> (65 \<le> n \<and> n \<le> 90) \<or> (97 \<le> n \<and> n \<le> 122))"

definition local_char :: "char \<Rightarrow> bool" where
  "local_char c \<longleftrightarrow> ascii_alnum c \<or>
     c \<in> set ''.!#$%&*+/=?^_{|}~-'' \<or> c = CHR 0x27 \<or> c = CHR 0x60"

definition domain_char :: "char \<Rightarrow> bool" where
  "domain_char c \<longleftrightarrow> ascii_alnum c \<or> c = CHR ''.'' \<or> c = CHR ''-''"

definition valid_label :: "string \<Rightarrow> bool" where
  "valid_label l \<longleftrightarrow> l \<noteq> '''' \<and> length l \<le> 63 \<and> ascii_alnum (hd l) \<and> ascii_alnum (last l) \<and>
     list_all (\<lambda>c. ascii_alnum c \<or> c = CHR ''-'') l"

definition valid_domain :: "string \<Rightarrow> bool" where
  "valid_domain d \<longleftrightarrow> 2 \<le> length (split_on CHR ''.'' d) \<and> list_all valid_label (split_on CHR ''.'' d)"

text \<open>
  \<open>_EMAIL_CANDIDATE.findall\<close>.  The look-arounds make a match consist of the maximal run of local
  characters before an at sign and the maximal run of domain characters after it; the first
  argument is that run read backwards.
\<close>

function find_emails :: "string \<Rightarrow> string \<Rightarrow> (string \<times> string) list" where
  "find_emails acc [] = []"
| "find_emails acc (c # cs) =
     (if c = CHR 0x40 then
        (let domain = takeWhile domain_char cs; rest = dropWhile domain_char cs in
         if acc \<noteq> [] \<and> valid_domain domain \<and> (rest = [] \<or> \<not> local_char (hd rest))
         then (rev acc, domain) # find_emails [] rest
         else find_emails [] cs)
      else if local_char c then find_emails (c # acc) cs
      else find_emails [] cs)"
  by pat_completeness auto
termination
  by (relation "measure (\<lambda>(acc, s). length s)") (auto simp: less_Suc_eq_le length_dropWhile_le)

declare find_emails.simps(2) [simp del]

definition acceptable_email :: "string \<times> string \<Rightarrow> bool" where
  "acceptable_email e = (case e of (local, domain) \<Rightarrow>
     length local + 1 + length domain \<le> 254 \<and> length local \<le> 64 \<and>
     \<not> prefix ''.'' local \<and> \<not> suffix ''.'' local \<and> \<not> sublist ''..'' local)"

definition extract_emails :: "string \<Rightarrow> string list" where
  "extract_emails rendered =
     keep_first (map (\<lambda>(local, domain). lower_text (local @ [CHR 0x40] @ domain))
       (filter acceptable_email (find_emails [] rendered)))"

section \<open>Property values\<close>

text \<open>\<open>show\<close> is \<open>str(...)\<close> of a decoded value that is not a text.\<close>

definition entry_text :: "(json \<Rightarrow> string) \<Rightarrow> json \<Rightarrow> string" where
  "entry_text show entry =
     (case json_get ''plain_text'' entry of
        None \<Rightarrow> ''''
      | Some (JStr s) \<Rightarrow> s
      | Some v \<Rightarrow> show v)"

definition entries_text :: "(json \<Rightarrow> string) \<Rightarrow> json list \<Rightarrow> string" where
  "entries_text show entries = concat (map (entry_text show) (filter is_obj entries))"

definition plain_text :: "(json \<Rightarrow> string) \<Rightarrow> json \<Rightarrow> string" where
  "plain_text show value =
     (if \<not> is_obj value then ''''
      else let entries = (if jtruthy (jget ''title'' value) then jget ''title'' value
                          else if jtruthy (jget ''rich_text'' value) then jget ''rich_text'' value
                          else JList [])
           in if is_list entries then entries_text show (jitems entries) else '''')"

definition date_value :: "(json \<Rightarrow> string) \<Rightarrow> json \<Rightarrow> string option" where
  "date_value show value =
     (if \<not> is_obj (jget ''date'' value) then None
      else case jget ''start'' (jget ''date'' value) of
             JNull \<Rightarrow> None | JStr s \<Rightarrow> Some s | v \<Rightarrow> Some (show v))"

definition files_present :: "json \<Rightarrow> (notion_error, bool) result" where
  "files_present value =
     (if jget ''type'' value \<noteq> JStr ''files'' \<or> \<not> is_list (jget ''files'' value)
      then Inl Malformed_response else Inr (jitems (jget ''files'' value) \<noteq> []))"

definition formula_emails :: "json \<Rightarrow> (notion_error, string list) result" where
  "formula_emails value =
     (let formula = jget ''formula'' value in
      if jget ''type'' value \<noteq> JStr ''formula'' \<or> jget ''type'' formula \<noteq> JStr ''string''
      then Inl Malformed_response
      else case jget ''string'' formula of
             JNull \<Rightarrow> Inr [] | JStr s \<Rightarrow> Inr (extract_emails s) | _ \<Rightarrow> Inl Malformed_response)"

definition rich_text_emails :: "(json \<Rightarrow> string) \<Rightarrow> json \<Rightarrow> string list" where
  "rich_text_emails show value =
     (if is_list (jget ''rich_text'' value) then extract_emails (plain_text show value) else [])"

section \<open>Pages\<close>

record notion_spot =
  sp_id :: string
  sp_title :: string
  sp_url :: string

record notion_page =
  np_id :: string
  np_url :: string
  np_title :: string
  np_date_str :: "string option"
  np_email :: "string option"
  np_project_or_spot :: "string option"
  np_emails :: "string list"
  np_spots :: "notion_spot list"
  np_recording_present :: bool

definition single_email :: "string list \<Rightarrow> string option" where
  "single_email es = (case es of [e] \<Rightarrow> Some e | _ \<Rightarrow> None)"

definition parse_page ::
  "(json \<Rightarrow> string) \<Rightarrow> notion_property_map \<Rightarrow> json \<Rightarrow> (notion_error, notion_page) result" where
  "parse_page show m item =
     (case (jtext (jget ''id'' item), jtext (jget ''url'' item)) of
        (Some page_id, Some page_url) \<Rightarrow>
          let properties = jget ''properties'' item in
          if \<not> is_obj properties then Inl Malformed_response
          else
            res_bind (if pm_contacts_mode m = Formula_contacts
                      then formula_emails (jget (pm_contacts_prop m) properties) else Inr [])
              (\<lambda>emails.
            res_bind (files_present (jget (pm_recording_prop m) properties)) (\<lambda>present.
              Inr \<lparr>np_id = page_id, np_url = page_url,
                   np_title = plain_text show (jget (pm_name_prop m) properties),
                   np_date_str = date_value show (jget (pm_date_prop m) properties),
                   np_email = single_email emails,
                   np_project_or_spot =
                     (if pm_project_prop m = '''' then None
                      else Some (plain_text show (jget (pm_project_prop m) properties))),
                   np_emails = emails, np_spots = [], np_recording_present = present\<rparr>))
      | _ \<Rightarrow> Inl Malformed_response)"

definition MAX_SPOT_CHOICES :: nat where "MAX_SPOT_CHOICES = 10"

definition relation_id :: "json \<Rightarrow> (notion_error, string) result" where
  "relation_id relation =
     (case jtext (jget ''id'' relation) of
        Some s \<Rightarrow> if s = '''' then Inl Malformed_response else Inr s
      | None \<Rightarrow> Inl Malformed_response)"

definition relation_ids :: "json \<Rightarrow> string \<Rightarrow> (notion_error, string list) result" where
  "relation_ids item prop_name =
     (let value = jget prop_name (jget ''properties'' item) in
      if prop_name = '''' \<or> json_get ''relation'' value = None then Inr []
      else if \<not> is_list (jget ''relation'' value) then Inl Malformed_response
      else if jget ''has_more'' value = JBool True then Inl Malformed_response
      else if MAX_SPOT_CHOICES < length (jitems (jget ''relation'' value)) then Inl Malformed_response
      else res_map relation_id (jitems (jget ''relation'' value)))"

section \<open>Schemas\<close>

record notion_schema =
  ns_id :: string
  ns_property_types :: "(string \<times> string) list"

definition is_compatible :: "notion_property_map \<Rightarrow> notion_schema \<Rightarrow> bool" where
  "is_compatible m s \<longleftrightarrow>
     (let type_of = map_of (ns_property_types s) in
      type_of (pm_name_prop m) = Some ''title'' \<and> type_of (pm_date_prop m) = Some ''date'' \<and>
      type_of (pm_recording_prop m) = Some ''files'' \<and>
      (case pm_contacts_mode m of
         No_contacts \<Rightarrow> True
       | Formula_contacts \<Rightarrow> type_of (pm_contacts_prop m) = Some ''formula''
       | Relation_contacts \<Rightarrow> type_of (pm_contacts_relation_prop m) = Some ''relation'') \<and>
      (pm_project_prop m = '''' \<or>
       (pm_project_prop_type m = Relation_prop \<and> type_of (pm_project_prop m) = Some ''relation'')))"

definition parse_sources :: "json \<Rightarrow> (notion_error, string list) result" where
  "parse_sources payload =
     (let raw = jget ''data_sources'' payload in
      if \<not> is_list raw then Inl Malformed_response else res_map relation_id (jitems raw))"

definition schema_properties :: "json \<Rightarrow> (notion_error, (string \<times> string) list) result" where
  "schema_properties properties =
     (case properties of
        JObj ms \<Rightarrow>
          if list_all (\<lambda>(n, d). is_obj d) ms
          then Inr (List.map_filter (\<lambda>(n, d). map_option (Pair n) (jtext (jget ''type'' d))) ms)
          else Inl Malformed_response
      | _ \<Rightarrow> Inl Malformed_response)"

definition parse_schema :: "string \<Rightarrow> json \<Rightarrow> (notion_error, notion_schema) result" where
  "parse_schema source_id payload =
     (case jtext (jget ''id'' payload) of
        None \<Rightarrow> Inl Malformed_response
      | Some payload_id \<Rightarrow>
          if payload_id = '''' \<or> \<not> is_obj (jget ''properties'' payload) \<or> payload_id \<noteq> source_id
          then Inl Malformed_response
          else res_bind (schema_properties (jget ''properties'' payload))
                 (\<lambda>types. Inr \<lparr>ns_id = payload_id, ns_property_types = types\<rparr>))"

definition choose_schema :: "notion_property_map \<Rightarrow> notion_schema list \<Rightarrow> (notion_error, notion_schema) result" where
  "choose_schema m schemas =
     (case filter (is_compatible m) schemas of
        [] \<Rightarrow> Inl Schema_error
      | [s] \<Rightarrow> Inr s
      | _ \<Rightarrow> Inl Ambiguous_source)"

definition database_title :: "(json \<Rightarrow> string) \<Rightarrow> json \<Rightarrow> (notion_error, string) result" where
  "database_title show payload =
     (let entries = jget ''title'' payload; title = py_strip (entries_text show (jitems entries)) in
      if \<not> is_list entries \<or> title = '''' then Inl Malformed_response else Inr title)"

section \<open>Page identities\<close>

definition is_hex :: "char \<Rightarrow> bool" where
  "is_hex c \<longleftrightarrow> (let n = (of_char c :: nat) in (48 \<le> n \<and> n \<le> 57) \<or> (97 \<le> n \<and> n \<le> 102))"

definition take_hex :: "nat \<Rightarrow> string \<Rightarrow> (string \<times> string) option" where
  "take_hex n s = (if length (take n s) = n \<and> list_all is_hex (take n s)
                   then Some (take n s, drop n s) else None)"

definition skip_dash :: "string \<Rightarrow> string" where
  "skip_dash s = (case s of c # cs \<Rightarrow> if c = CHR ''-'' then cs else s | [] \<Rightarrow> [])"

fun match_groups :: "nat list \<Rightarrow> string \<Rightarrow> (string list \<times> string) option" where
  "match_groups [] s = Some ([], s)"
| "match_groups [n] s = (case take_hex n s of None \<Rightarrow> None | Some (g, r) \<Rightarrow> Some ([g], r))"
| "match_groups (n # m # ns) s =
     (case take_hex n s of
        None \<Rightarrow> None
      | Some (g, r) \<Rightarrow>
          (case match_groups (m # ns) (skip_dash r) of
             None \<Rightarrow> None | Some (gs, r2) \<Rightarrow> Some (g # gs, r2)))"

definition match_page_id :: "string \<Rightarrow> (string list \<times> string) option" where
  "match_page_id s =
     (case match_groups [8, 4, 4, 4, 12] s of
        None \<Rightarrow> None
      | Some (gs, r) \<Rightarrow> (case r of c # _ \<Rightarrow> if is_hex c then None else Some (gs, r)
                               | [] \<Rightarrow> Some (gs, r)))"

lemma take_hex_shorter: "take_hex n s = Some (g, r) \<Longrightarrow> length r + n = length s"
  by (auto simp: take_hex_def split: if_splits)

lemma match_groups_shorter: "match_groups ns s = Some (gs, r) \<Longrightarrow> length r + sum_list ns \<le> length s"
proof (induction ns s arbitrary: gs r rule: match_groups.induct)
  case (1 s)
  then show ?case by simp
next
  case (2 n s)
  then show ?case by (auto dest: take_hex_shorter split: option.splits)
next
  case (3 n m ns s)
  then obtain g r1 gs1 where g: "take_hex n s = Some (g, r1)"
    "match_groups (m # ns) (skip_dash r1) = Some (gs1, r)"
    by (auto split: option.splits)
  have "length r + sum_list (m # ns) \<le> length (skip_dash r1)"
    using 3(1)[OF g(1) refl g(2)] .
  moreover have "length (skip_dash r1) \<le> length r1"
    by (cases r1) (auto simp: skip_dash_def)
  ultimately show ?case using take_hex_shorter[OF g(1)] by simp
qed

lemma match_page_id_shorter: "match_page_id s = Some (gs, r) \<Longrightarrow> length r < length s"
proof -
  assume "match_page_id s = Some (gs, r)"
  then have "match_groups [8, 4, 4, 4, 12] s = Some (gs, r)"
    by (auto simp: match_page_id_def simp del: match_groups.simps
        split: option.splits list.splits if_splits)
  from match_groups_shorter[OF this] show ?thesis by simp
qed

text \<open>\<open>_PAGE_ID.findall\<close>; the flag tells whether the preceding character is a hexadecimal digit.\<close>

function find_page_ids :: "bool \<Rightarrow> string \<Rightarrow> string list list" where
  "find_page_ids after_hex [] = []"
| "find_page_ids after_hex (c # cs) =
     (case (if after_hex then None else match_page_id (c # cs)) of
        Some (gs, r) \<Rightarrow> gs # find_page_ids True r
      | None \<Rightarrow> find_page_ids (is_hex c) cs)"
  by pat_completeness auto
termination
  by (relation "measure (\<lambda>(b, s). length s)")
    (auto dest!: match_page_id_shorter split: if_splits)

fun after_scheme :: "string \<Rightarrow> string option" where
  "after_scheme [] = None"
| "after_scheme (c # cs) =
     (if prefix ''://'' (c # cs) then Some (drop 3 (c # cs)) else after_scheme cs)"

definition canonical_notion_page_id :: "(string \<Rightarrow> string) \<Rightarrow> string \<Rightarrow> string option" where
  "canonical_notion_page_id casefold value =
     (let text0 = casefold (py_strip value);
          text1 = (case after_scheme text0 of
                     None \<Rightarrow> text0
                   | Some s \<Rightarrow> takeWhile (\<lambda>c. c \<noteq> CHR ''#'') (takeWhile (\<lambda>c. c \<noteq> CHR ''?'') s));
          ids = find_page_ids False text1
      in if ids = [] then None else Some (join_with ''-'' (last ids)))"

text \<open>\<open>" ".join(value.casefold().split())\<close>.\<close>

definition squash_words :: "string \<Rightarrow> string" where
  "squash_words s = join_with '' '' (py_words '''' s)"

definition hint_matches_page :: "(string \<Rightarrow> string) \<Rightarrow> string \<Rightarrow> notion_page \<Rightarrow> bool" where
  "hint_matches_page casefold hint page \<longleftrightarrow>
     squash_words (casefold hint) = squash_words (casefold (np_title page)) \<or>
     (let compact = filter is_hex (casefold hint) in
      length compact = 32 \<and>
      compact \<in> {filter is_hex (casefold (np_id page)), filter is_hex (casefold (np_url page))})"

section \<open>Facts\<close>

lemma find_emails_ok:
  "list_all local_char acc \<Longrightarrow>
     list_all (\<lambda>(l, d). l \<noteq> '''' \<and> list_all local_char l \<and> valid_domain d) (find_emails acc s)"
proof (induction acc s rule: find_emails.induct)
  case (1 acc)
  then show ?case by simp
next
  case (2 acc c cs)
  show ?case
  proof (cases "c = CHR 0x40")
    case at: True
    show ?thesis
    proof (cases "acc \<noteq> [] \<and> valid_domain (takeWhile domain_char cs) \<and>
        (dropWhile domain_char cs = [] \<or> \<not> local_char (hd (dropWhile domain_char cs)))")
      case True
      then show ?thesis
        using 2(1)[OF at refl refl True] 2(5) at
        by (subst find_emails.simps(2)) simp
    next
      case False
      then show ?thesis
        using 2(2)[OF at refl refl False] at
        by (subst find_emails.simps(2)) (simp only: Let_def if_True if_False simp_thms list.pred_inject)
    qed
  next
    case False
    then show ?thesis
      using 2(3)[OF False] 2(4)[OF False] 2(5)
      by (subst find_emails.simps(2)) (cases "local_char c"; simp)
  qed
qed

lemma extract_emails_ok:
  "distinct (extract_emails s)"
  "e \<in> set (extract_emails s) \<Longrightarrow> length e \<le> 254 \<and> (\<exists>l d. e = lower_text (l @ [CHR 0x40] @ d) \<and>
     l \<noteq> '''' \<and> length l \<le> 64 \<and> list_all local_char l \<and> valid_domain d)"
proof -
  show "distinct (extract_emails s)" by (simp add: extract_emails_def)
next
  assume "e \<in> set (extract_emails s)"
  then obtain l d where e: "e = lower_text (l @ [CHR 0x40] @ d)" "acceptable_email (l, d)"
    "(l, d) \<in> set (find_emails [] s)"
    by (auto simp: extract_emails_def)
  then have "l \<noteq> '''' \<and> list_all local_char l \<and> valid_domain d"
    using find_emails_ok[of "[]" s] by (auto simp: list_all_iff)
  moreover have "length e \<le> 254" "length l \<le> 64"
    using e by (auto simp: acceptable_email_def)
  ultimately show "length e \<le> 254 \<and> (\<exists>l d. e = lower_text (l @ [CHR 0x40] @ d) \<and>
     l \<noteq> '''' \<and> length l \<le> 64 \<and> list_all local_char l \<and> valid_domain d)"
    using e(1) by blast
qed

lemma relation_ids_bound:
  "relation_ids item p = Inr ids \<Longrightarrow> length ids \<le> MAX_SPOT_CHOICES \<and> list_all (\<lambda>i. i \<noteq> '''') ids"
proof -
  assume "relation_ids item p = Inr ids"
  then have "ids = [] \<or> (\<exists>rs. length rs \<le> MAX_SPOT_CHOICES \<and> res_map relation_id rs = Inr ids)"
    by (auto simp: relation_ids_def Let_def not_less split: if_splits)
  moreover have "length ids = length rs \<and> list_all (\<lambda>i. i \<noteq> '''') ids"
    if "res_map relation_id rs = Inr ids" for rs
  proof -
    have "list_all2 (\<lambda>x y. relation_id x = Inr y) rs ids" using that by (simp add: res_map_Inr_iff)
    then show ?thesis
      by (induction rule: list_all2_induct) (auto simp: relation_id_def split: option.splits if_splits)
  qed
  ultimately show ?thesis by auto
qed

lemma choose_schema_Inr_iff:
  "choose_schema m schemas = Inr s \<longleftrightarrow> filter (is_compatible m) schemas = [s]"
  by (auto simp: choose_schema_def split: list.splits)

end
