(* ===== verification/Notion_Client.thy ===== *)
theory Notion_Client
imports Notion_Pages
begin

text \<open>
  The client \<open>NotionClient\<close> of \<open>app/tools/notion.py\<close>.  A request is a value and the server is the
  parameter \<open>'w notion_api\<close>, a function from a request and its own state to a response (\<open>None\<close>
  is a transport failure) and a new state.  The client's world holds that state, the requests sent
  so far and the cache of resolved data sources.  Tasks that resolve the same source at the
  same time share one discovery in the code; here calls follow one another.
\<close>

section \<open>Requests\<close>

datatype notion_request =
    Get_page string
  | Get_database string
  | Get_source string
  | Query_unrecorded string string string string
  | Query_title string string string
  | Query_rows string
  | Patch_interview string string string int string string
  | Patch_files string string "(string \<times> string) list"
  | Append_toggle string string "string list"
  | Post_comment string string

fun writes_notion :: "notion_request \<Rightarrow> bool" where
  "writes_notion (Patch_interview _ _ _ _ _ _) = True"
| "writes_notion (Patch_files _ _ _) = True"
| "writes_notion (Append_toggle _ _ _) = True"
| "writes_notion (Post_comment _ _) = True"
| "writes_notion _ = False"

type_synonym source_key =
  "string \<times> string \<times> string \<times> string \<times> string \<times> string \<times> project_prop_type \<times> contacts_mode \<times> string"

definition source_key_of :: "string \<Rightarrow> notion_property_map \<Rightarrow> source_key" where
  "source_key_of db m =
     (db, pm_name_prop m, pm_date_prop m, pm_recording_prop m, pm_contacts_prop m,
      pm_project_prop m, pm_project_prop_type m, pm_contacts_mode m, pm_contacts_relation_prop m)"

record 'w notion_state =
  nt_server :: 'w
  nt_sent :: "notion_request list"
  nt_cache :: "(source_key \<times> string) list"

record 'w notion_api =
  reply :: "notion_request \<Rightarrow> 'w \<Rightarrow> http_response option \<times> 'w"
  render :: "json \<Rightarrow> string"
  fold_case :: "string \<Rightarrow> string"
  cache_size :: nat

type_synonym ('w, 'a) notion_io = "('w notion_state, notion_error, 'a) io"

definition call :: "'w notion_api \<Rightarrow> notion_error \<Rightarrow> notion_request \<Rightarrow> ('w, http_response) notion_io" where
  "call a unreachable q = (\<lambda>s. case reply a q (nt_server s) of
      (None, w) \<Rightarrow> (Inl unreachable, s\<lparr>nt_server := w, nt_sent := nt_sent s @ [q]\<rparr>)
    | (Some r, w) \<Rightarrow> (Inr r, s\<lparr>nt_server := w, nt_sent := nt_sent s @ [q]\<rparr>))"

section \<open>Classification of responses\<close>

definition json_object :: "http_response \<Rightarrow> (notion_error, json) result" where
  "json_object r = (case resp_json r of
      Some (JObj ms) \<Rightarrow> Inr (JObj ms)
    | _ \<Rightarrow> Inl Malformed_response)"

definition raise_common :: "http_response \<Rightarrow> (notion_error, unit) result" where
  "raise_common r =
     (if resp_status r = 401 then Inl Auth_error
      else if resp_status r = 403 then Inl Forbidden_error else Inr ())"

definition raise_query_error :: "http_response \<Rightarrow> (notion_error, unit) result" where
  "raise_query_error r = res_bind (raise_common r) (\<lambda>_.
     if resp_status r = 404 then Inl Source_not_found
     else if is_error_status (resp_status r) then Inl (Query_error (transient_status (resp_status r)))
     else Inr ())"

definition raise_other :: "notion_error \<Rightarrow> http_response \<Rightarrow> (notion_error, unit) result" where
  "raise_other e r = res_bind (raise_common r) (\<lambda>_.
     if is_error_status (resp_status r) then Inl e else Inr ())"

definition or_blank :: "(json \<Rightarrow> string) \<Rightarrow> json \<Rightarrow> string" where
  "or_blank show j = (if jtruthy j then (case j of JStr s \<Rightarrow> s | _ \<Rightarrow> show j) else '''')"

definition error_detail :: "'w notion_api \<Rightarrow> http_response \<Rightarrow> string" where
  "error_detail a r = (case resp_json r of
      Some (JObj ms) \<Rightarrow> fold_case a (or_blank (render a) (jget ''code'' (JObj ms)) @ '' '' @
        or_blank (render a) (jget ''message'' (JObj ms)))
    | _ \<Rightarrow> '''')"

definition looks_archived :: "http_response \<Rightarrow> string \<Rightarrow> bool" where
  "looks_archived r detail \<longleftrightarrow> resp_status r \<in> {400, 404} \<and> sublist ''archiv'' detail"

definition raise_write_error ::
  "'w notion_api \<Rightarrow> (bool \<Rightarrow> notion_error) \<Rightarrow> notion_error \<Rightarrow> http_response \<Rightarrow> (notion_error, unit) result" where
  "raise_write_error a other forbidden r =
     (if resp_status r = 401 then Inl Auth_error
      else if \<not> is_error_status (resp_status r) then Inr ()
      else if looks_archived r (error_detail a r) then Inl Page_archived
      else if resp_status r = 403 then Inl forbidden
      else Inl (other (transient_status (resp_status r))))"

section \<open>Databases and data sources\<close>

definition retrieve_database :: "'w notion_api \<Rightarrow> string \<Rightarrow> ('w, json) notion_io" where
  "retrieve_database a db =
     io_bind (call a Database_unavailable (Get_database db)) (\<lambda>r.
       io_lift (res_bind (raise_common r) (\<lambda>_.
         if resp_status r = 404 then Inl Database_not_found
         else if is_error_status (resp_status r) then Inl Http_failure
         else json_object r)))"

definition retrieve_schema :: "'w notion_api \<Rightarrow> string \<Rightarrow> ('w, notion_schema) notion_io" where
  "retrieve_schema a source_id =
     io_bind (call a Source_unavailable (Get_source source_id)) (\<lambda>r.
       io_lift (res_bind (raise_common r) (\<lambda>_.
         if resp_status r = 404 then Inl Source_not_found
         else if is_error_status (resp_status r) then Inl Http_failure
         else res_bind (json_object r) (parse_schema source_id))))"

fun retrieve_schemas :: "'w notion_api \<Rightarrow> string list \<Rightarrow> ('w, notion_schema list) notion_io" where
  "retrieve_schemas a [] = io_return []"
| "retrieve_schemas a (i # is) =
     io_bind (retrieve_schema a i) (\<lambda>x.
     io_bind (retrieve_schemas a is) (\<lambda>xs. io_return (x # xs)))"

definition select_compatible_schema ::
  "'w notion_api \<Rightarrow> notion_property_map \<Rightarrow> json \<Rightarrow> ('w, notion_schema) notion_io" where
  "select_compatible_schema a m database =
     io_bind (io_lift (parse_sources database)) (\<lambda>sources.
     io_bind (retrieve_schemas a sources) (\<lambda>schemas. io_lift (choose_schema m schemas)))"

definition discover_source :: "'w notion_api \<Rightarrow> notion_property_map \<Rightarrow> string \<Rightarrow> ('w, string) notion_io" where
  "discover_source a m db =
     io_bind (retrieve_database a db) (\<lambda>database.
     io_bind (select_compatible_schema a m database) (\<lambda>s. io_return (ns_id s)))"

definition inspect_database ::
  "'w notion_api \<Rightarrow> notion_property_map \<Rightarrow> string \<Rightarrow> ('w, string \<times> notion_schema) notion_io" where
  "inspect_database a m db =
     io_bind (retrieve_database a db) (\<lambda>database.
     io_bind (select_compatible_schema a m database) (\<lambda>s.
     io_bind (io_lift (database_title (render a) database)) (\<lambda>title. io_return (title, s))))"

definition result_items :: "http_response \<Rightarrow> (notion_error, json list) result" where
  "result_items r = res_bind (json_object r) (\<lambda>payload.
     case jget ''results'' payload of JList xs \<Rightarrow> Inr xs | _ \<Rightarrow> Inl Malformed_response)"

definition page_key :: "'w notion_api \<Rightarrow> string \<Rightarrow> string" where
  "page_key a s = fold_case a (replace_char CHR ''-'' '''' s)"

definition preflight_database ::
  "'w notion_api \<Rightarrow> notion_property_map \<Rightarrow> string \<Rightarrow> string \<Rightarrow> ('w, string \<times> notion_schema) notion_io" where
  "preflight_database a m db synthetic_page_id =
     io_bind (inspect_database a m db) (\<lambda>inspection.
     io_bind (call a (Query_error True) (Query_rows (ns_id (snd inspection)))) (\<lambda>r.
     io_bind (io_lift (raise_query_error r)) (\<lambda>_.
     io_bind (io_lift (result_items r)) (\<lambda>items.
       case find (\<lambda>item. \<exists>i\<in>set_option (jtext (jget ''id'' item)).
                    page_key a i = page_key a synthetic_page_id) items of
         None \<Rightarrow> io_raise (Query_error False)
       | Some item \<Rightarrow>
           if \<not> is_obj (jget ''properties'' item) then io_raise Malformed_response
           else if pm_contacts_mode m = Formula_contacts
           then io_bind (io_lift (formula_emails (jget (pm_contacts_prop m) (jget ''properties'' item))))
                  (\<lambda>_. io_return inspection)
           else io_return inspection))))"

section \<open>The cache of resolved sources\<close>

text \<open>The least recently used key comes first, as in the ordered dictionary.\<close>

definition cache_touch :: "source_key \<Rightarrow> string \<Rightarrow> (source_key \<times> string) list \<Rightarrow> (source_key \<times> string) list" where
  "cache_touch k v c = filter (\<lambda>(k1, _). k1 \<noteq> k) c @ [(k, v)]"

definition cache_get :: "source_key \<Rightarrow> ('w, string option) notion_io" where
  "cache_get k = (\<lambda>s. case map_of (nt_cache s) k of
      None \<Rightarrow> (Inr None, s)
    | Some v \<Rightarrow> (Inr (Some v), s\<lparr>nt_cache := cache_touch k v (nt_cache s)\<rparr>))"

definition cache_put :: "'w notion_api \<Rightarrow> source_key \<Rightarrow> string \<Rightarrow> ('w, unit) notion_io" where
  "cache_put a k v = (\<lambda>s. let c = cache_touch k v (nt_cache s) in
     (Inr (), s\<lparr>nt_cache := drop (length c - cache_size a) c\<rparr>))"

definition invalidate :: "source_key \<Rightarrow> string \<Rightarrow> ('w, unit) notion_io" where
  "invalidate k v = (\<lambda>s. (Inr (),
     if map_of (nt_cache s) k = Some v
     then s\<lparr>nt_cache := filter (\<lambda>(k1, _). k1 \<noteq> k) (nt_cache s)\<rparr> else s))"

definition resolve_source ::
  "'w notion_api \<Rightarrow> notion_property_map \<Rightarrow> string \<Rightarrow> ('w, string \<times> bool) notion_io" where
  "resolve_source a m db =
     io_bind (cache_get (source_key_of db m)) (\<lambda>cached.
       case cached of
         Some v \<Rightarrow> io_return (v, True)
       | None \<Rightarrow>
           io_bind (discover_source a m db) (\<lambda>v.
           io_bind (cache_put a (source_key_of db m) v) (\<lambda>_. io_return (v, False))))"

section \<open>Related pages\<close>

definition raise_related :: "http_response \<Rightarrow> (notion_error, unit) result" where
  "raise_related r = raise_other (Query_error False) r"

fun first_title :: "(json \<Rightarrow> string) \<Rightarrow> json \<Rightarrow> string" where
  "first_title show (JObj ms) =
     (case find (\<lambda>(n, v). is_list (jget ''title'' v)) ms of
        None \<Rightarrow> '''' | Some (n, v) \<Rightarrow> py_strip (plain_text show v))"
| "first_title show _ = ''''"

definition spot_of_page :: "'w notion_api \<Rightarrow> string \<Rightarrow> json \<Rightarrow> (notion_error, notion_spot) result" where
  "spot_of_page a page_id payload =
     (let properties = jget ''properties'' payload; title = first_title (render a) properties in
      if \<not> is_obj properties \<or> title = '''' then Inl Malformed_response
      else (case jtext (jget ''url'' payload) of
        None \<Rightarrow> Inl Malformed_response
      | Some url \<Rightarrow> if url = '''' then Inl Malformed_response
                    else Inr \<lparr>sp_id = page_id, sp_title = title, sp_url = url\<rparr>))"

definition retrieve_related_page :: "'w notion_api \<Rightarrow> string \<Rightarrow> ('w, notion_spot) notion_io" where
  "retrieve_related_page a page_id =
     io_bind (call a (Query_error True) (Get_page page_id)) (\<lambda>r.
       io_lift (res_bind (raise_related r) (\<lambda>_.
         res_bind (json_object r) (spot_of_page a page_id))))"

definition retrieve_related_property ::
  "'w notion_api \<Rightarrow> string \<Rightarrow> string \<Rightarrow> ('w, json) notion_io" where
  "retrieve_related_property a page_id target =
     io_bind (call a (Query_error True) (Get_page page_id)) (\<lambda>r.
       io_lift (res_bind (raise_other (Query_error (transient_status (resp_status r))) r) (\<lambda>_.
         res_bind (json_object r) (\<lambda>payload.
           if is_obj (jget ''properties'' payload) then Inr (jget target (jget ''properties'' payload))
           else Inl Malformed_response))))"

type_synonym email_cache = "(string \<times> string list) list"

definition with_emails :: "string list \<Rightarrow> notion_page \<Rightarrow> notion_page" where
  "with_emails emails page = page\<lparr>np_email := single_email emails, np_emails := emails\<rparr>"

text \<open>A forbidden or deleted card yields no e-mails; other failures propagate.\<close>

definition related_value :: "'w notion_api \<Rightarrow> string \<Rightarrow> string \<Rightarrow> ('w, json) notion_io" where
  "related_value a page_id target =
     io_catch (retrieve_related_property a page_id target)
       (\<lambda>e. if e = Forbidden_error \<or> e = Query_error False then io_return JNull else io_raise e)"

definition with_relation_contacts ::
  "'w notion_api \<Rightarrow> notion_property_map \<Rightarrow> json \<Rightarrow> notion_page \<Rightarrow> email_cache \<Rightarrow>
   ('w, notion_page \<times> email_cache) notion_io" where
  "with_relation_contacts a m item page cache =
     (case relation_ids item (pm_contacts_relation_prop m) of
        Inr [i] \<Rightarrow>
          (case map_of cache i of
             Some emails \<Rightarrow> io_return (with_emails emails page, cache)
           | None \<Rightarrow>
               io_bind (related_value a i (pm_contacts_target_prop m)) (\<lambda>v.
                 let emails = rich_text_emails (render a) v in
                 io_return (with_emails emails page, (i, emails) # cache)))
      | _ \<Rightarrow> io_return (with_emails [] page, cache))"

definition contacts_step ::
  "'w notion_api \<Rightarrow> notion_property_map \<Rightarrow> json \<Rightarrow> notion_page \<Rightarrow> email_cache \<Rightarrow>
   ('w, notion_page \<times> email_cache) notion_io" where
  "contacts_step a m item page cache =
     (if pm_contacts_mode m = Relation_contacts then with_relation_contacts a m item page cache
      else io_return (page, cache))"

type_synonym spot_cache = "(string \<times> notion_spot) list"

fun resolve_spots ::
  "'w notion_api \<Rightarrow> string list \<Rightarrow> spot_cache \<Rightarrow> ('w, notion_spot list \<times> spot_cache) notion_io" where
  "resolve_spots a [] cache = io_return ([], cache)"
| "resolve_spots a (i # is) cache =
     (case map_of cache i of
        Some spot \<Rightarrow>
          io_bind (resolve_spots a is cache) (\<lambda>(spots, c). io_return (spot # spots, c))
      | None \<Rightarrow>
          io_bind (retrieve_related_page a i) (\<lambda>spot.
          io_bind (resolve_spots a is ((i, spot) # cache)) (\<lambda>(spots, c).
            io_return (spot # spots, c))))"

definition with_spots :: "notion_spot list \<Rightarrow> notion_page \<Rightarrow> notion_page" where
  "with_spots spots page =
     (case spots of
        [] \<Rightarrow> page
      | [s] \<Rightarrow> page\<lparr>np_project_or_spot := Some (sp_title s), np_spots := [s]\<rparr>
      | _ \<Rightarrow> page\<lparr>np_project_or_spot := None, np_spots := spots\<rparr>)"

section \<open>Searching for the page of an interview\<close>

fun read_pages ::
  "'w notion_api \<Rightarrow> notion_property_map \<Rightarrow> json list \<Rightarrow> spot_cache \<Rightarrow> email_cache \<Rightarrow>
   ('w, notion_page list) notion_io" where
  "read_pages a m [] spots emails = io_return []"
| "read_pages a m (item # items) spots emails =
     io_bind (io_lift (parse_page (render a) m item)) (\<lambda>page.
       if np_recording_present page then read_pages a m items spots emails
       else
         io_bind (contacts_step a m item page emails) (\<lambda>(page1, emails1).
         io_bind (io_lift (relation_ids item (pm_project_prop m))) (\<lambda>ids.
         io_bind (resolve_spots a ids spots) (\<lambda>(found, spots1).
         io_bind (read_pages a m items spots1 emails1) (\<lambda>pages.
           io_return (with_spots found page1 # pages))))))"

definition query_unrecorded ::
  "'w notion_api \<Rightarrow> notion_property_map \<Rightarrow> string \<Rightarrow> string \<Rightarrow> ('w, http_response) notion_io" where
  "query_unrecorded a m source_id candidate =
     call a (Query_error True)
       (Query_unrecorded source_id candidate (pm_name_prop m) (pm_recording_prop m))"

text \<open>A 404 for a cached source drops it from the cache and resolves the source once more.\<close>

definition search_pages ::
  "'w notion_api \<Rightarrow> notion_property_map \<Rightarrow> string \<Rightarrow> string \<Rightarrow> ('w, notion_page list) notion_io" where
  "search_pages a m db candidate =
     io_bind (resolve_source a m db) (\<lambda>(source_id, was_cached).
     io_bind (query_unrecorded a m source_id candidate) (\<lambda>r0.
     io_bind (if resp_status r0 = 404 \<and> was_cached
              then io_bind (invalidate (source_key_of db m) source_id) (\<lambda>_.
                   io_bind (resolve_source a m db) (\<lambda>(source_id1, _).
                     query_unrecorded a m source_id1 candidate))
              else io_return r0) (\<lambda>r.
     io_bind (io_lift (raise_query_error r)) (\<lambda>_.
     io_bind (io_lift (result_items r)) (\<lambda>items.
       read_pages a m (take 10 items) [] [])))))"

section \<open>Resolving the page a reassignment names\<close>

definition parent_id :: "json \<Rightarrow> json" where
  "parent_id payload = (let parent = jget ''parent'' payload in
     if jtruthy (jget ''data_source_id'' parent) then jget ''data_source_id'' parent
     else jget ''database_id'' parent)"

definition retrieve_reassignment_page ::
  "'w notion_api \<Rightarrow> notion_property_map \<Rightarrow> string \<Rightarrow> string \<Rightarrow> string \<Rightarrow> ('w, notion_page) notion_io" where
  "retrieve_reassignment_page a m page_id source_id db =
     io_bind (call a (Query_error True) (Get_page page_id)) (\<lambda>r.
     io_bind (io_lift (raise_query_error r)) (\<lambda>_.
     io_bind (io_lift (json_object r)) (\<lambda>payload.
       if \<not> hashable (parent_id payload) then io_raise Type_failure
       else if parent_id payload \<noteq> JStr source_id \<and> parent_id payload \<noteq> JStr db
       then io_raise Forbidden_error
       else
         io_bind (io_lift (parse_page (render a) m payload)) (\<lambda>page.
         io_bind (contacts_step a m payload page []) (\<lambda>(page1, _). io_return page1)))))"

fun match_pages ::
  "'w notion_api \<Rightarrow> notion_property_map \<Rightarrow> string \<Rightarrow> json list \<Rightarrow> email_cache \<Rightarrow>
   ('w, notion_page list) notion_io" where
  "match_pages a m hint [] emails = io_return []"
| "match_pages a m hint (item # items) emails =
     io_bind (io_lift (parse_page (render a) m item)) (\<lambda>page.
       if \<not> hint_matches_page (fold_case a) hint page then match_pages a m hint items emails
       else
         io_bind (contacts_step a m item page emails) (\<lambda>(page1, emails1).
         io_bind (match_pages a m hint items emails1) (\<lambda>pages. io_return (page1 # pages))))"

definition resolve_reassignment_targets ::
  "'w notion_api \<Rightarrow> notion_property_map \<Rightarrow> string \<Rightarrow> string \<Rightarrow> ('w, notion_page list) notion_io" where
  "resolve_reassignment_targets a m db hint =
     io_bind (resolve_source a m db) (\<lambda>(source_id, _).
       case canonical_notion_page_id (fold_case a) hint of
         Some page_id \<Rightarrow>
           io_bind (retrieve_reassignment_page a m page_id source_id db) (\<lambda>page. io_return [page])
       | None \<Rightarrow>
           io_bind (call a (Query_error True) (Query_title source_id hint (pm_name_prop m))) (\<lambda>r.
           io_bind (io_lift (raise_query_error r)) (\<lambda>_.
           io_bind (io_lift (result_items r)) (\<lambda>items.
             match_pages a m hint (take 10 items) []))))"

section \<open>Writing\<close>

definition update_page_interview ::
  "'w notion_api \<Rightarrow> notion_property_map \<Rightarrow> string \<Rightarrow> int \<Rightarrow> string \<Rightarrow> string \<Rightarrow> ('w, unit) notion_io" where
  "update_page_interview a m page_id event_day url filename =
     io_bind (call a (Update_error True)
        (Patch_interview page_id (pm_date_prop m) (pm_recording_prop m) event_day url filename)) (\<lambda>r.
       io_lift (raise_other (Update_error (transient_status (resp_status r))) r))"

definition append_toggle_block ::
  "'w notion_api \<Rightarrow> string \<Rightarrow> string \<Rightarrow> string list \<Rightarrow> ('w, unit) notion_io" where
  "append_toggle_block a page_id title paragraphs =
     io_bind (call a (Block_error True)
        (Append_toggle page_id (take 2000 title) (map (take 2000) paragraphs))) (\<lambda>r.
       io_lift (raise_write_error a Block_error Forbidden_error r))"

definition create_comment :: "'w notion_api \<Rightarrow> string \<Rightarrow> string \<Rightarrow> ('w, unit) notion_io" where
  "create_comment a page_id body =
     io_bind (call a (Comment_error True) (Post_comment page_id (take 2000 body))) (\<lambda>r.
       io_lift (raise_write_error a Comment_error Comment_forbidden r))"

definition recording_files :: "string \<Rightarrow> json \<Rightarrow> (notion_error, json list) result" where
  "recording_files prop payload =
     (let field = jget prop (jget ''properties'' payload) in
      if \<not> is_obj (jget ''properties'' payload) then Inl Malformed_response
      else if jget ''type'' field \<noteq> JStr ''files'' \<or> \<not> is_list (jget ''files'' field)
      then Inl Malformed_response
      else Inr (jitems (jget ''files'' field)))"

definition get_recording_field :: "'w notion_api \<Rightarrow> string \<Rightarrow> string \<Rightarrow> ('w, json list) notion_io" where
  "get_recording_field a page_id prop =
     io_bind (call a (Query_error True) (Get_page page_id)) (\<lambda>r.
       io_lift (res_bind (raise_other (Query_error False) r) (\<lambda>_.
         res_bind (json_object r) (recording_files prop))))"

definition write_recording_files ::
  "'w notion_api \<Rightarrow> string \<Rightarrow> string \<Rightarrow> (string \<times> string) list \<Rightarrow> ('w, unit) notion_io" where
  "write_recording_files a page_id prop files =
     io_bind (call a (Update_error True) (Patch_files page_id prop files)) (\<lambda>r.
       io_lift (raise_other (Update_error (transient_status (resp_status r))) r))"

definition replace_recording_link ::
  "'w notion_api \<Rightarrow> string \<Rightarrow> string \<Rightarrow> string \<Rightarrow> string \<Rightarrow> ('w, unit) notion_io" where
  "replace_recording_link a page_id prop filename url =
     write_recording_files a page_id prop [(filename, url)]"

definition clear_recording_link :: "'w notion_api \<Rightarrow> string \<Rightarrow> string \<Rightarrow> ('w, unit) notion_io" where
  "clear_recording_link a page_id prop = write_recording_files a page_id prop []"

section \<open>Readings leave the workspace alone and keep the cache in its bound\<close>

definition readonly_state :: "'w notion_api \<Rightarrow> notion_request list \<Rightarrow> 'w notion_state \<Rightarrow> bool" where
  "readonly_state a ws s \<longleftrightarrow> filter writes_notion (nt_sent s) = ws \<and>
     distinct (map fst (nt_cache s)) \<and> length (nt_cache s) \<le> cache_size a"

lemma cache_touch_keys: "distinct (map fst c) \<Longrightarrow> distinct (map fst (cache_touch k v c))"
  by (auto simp: cache_touch_def distinct_map_filter)

lemma filter_key_length:
  fixes c :: "('k \<times> 'v) list"
  shows "distinct (map fst c) \<Longrightarrow> map_of c k = Some v \<Longrightarrow>
    Suc (length (filter (\<lambda>(k1, _). k1 \<noteq> k) c)) = length c"
proof (induction c)
  case Nil
  then show ?case by simp
next
  case (Cons x c)
  obtain k1 v1 where x: "x = (k1, v1)" by (cases x)
  show ?case
  proof (cases "k1 = k")
    case True
    then have "filter (\<lambda>(k1, _). k1 \<noteq> k) c = c"
      using Cons.prems(1) x by (force intro!: filter_True)
    then show ?thesis using True x by simp
  next
    case False
    then show ?thesis using Cons x by simp
  qed
qed

lemma cache_touch_same_length:
  "distinct (map fst c) \<Longrightarrow> map_of c k = Some v \<Longrightarrow> length (cache_touch k v c) = length c"
  by (simp add: cache_touch_def filter_key_length)

text \<open>
  What a reading keeps: any invariant that the reading requests and the operations of the cache keep.
\<close>

locale notion_readings =
  fixes a :: "'w notion_api" and I :: "'w notion_state \<Rightarrow> bool"
  assumes reads [keeps_rules]: "\<not> writes_notion q \<Longrightarrow> keeps I (call a e q)"
    and gets [keeps_rules]: "keeps I (cache_get k)"
    and puts [keeps_rules]: "keeps I (cache_put a k v)"
    and drops [keeps_rules]: "keeps I (invalidate k w)"
begin

lemma retrieve_schemas_kept [keeps_rules]: "keeps I (retrieve_schemas a is)"
  by (induction "is") (auto simp: retrieve_schema_def intro!: keeps_rules)

lemma resolve_source_kept [keeps_rules]: "keeps I (resolve_source a m db)"
  unfolding resolve_source_def discover_source_def retrieve_database_def select_compatible_schema_def
  by (intro keeps_rules) simp_all

lemma contacts_step_kept [keeps_rules]: "keeps I (contacts_step a m item page c)"
proof -
  have "keeps I (related_value a i t)" for i t
    unfolding related_value_def retrieve_related_property_def by (intro keeps_rules) simp_all
  then show ?thesis
    unfolding contacts_step_def with_relation_contacts_def
    by (auto intro!: keeps_rules split: sum.split list.split)
qed

lemma resolve_spots_kept [keeps_rules]: "keeps I (resolve_spots a is c)"
proof (induction "is" arbitrary: c)
  case Nil
  then show ?case by (simp add: keeps_rules)
next
  case (Cons i "is")
  then show ?case
    by (auto simp: retrieve_related_page_def intro!: keeps_rules split: option.split)
qed

lemma read_pages_kept [keeps_rules]: "keeps I (read_pages a m items sc ec)"
proof (induction items arbitrary: sc ec)
  case Nil
  then show ?case by (simp add: keeps_rules)
next
  case (Cons item items)
  then show ?case
    unfolding read_pages.simps by (intro keeps_rules) simp_all
qed

lemma match_pages_kept [keeps_rules]: "keeps I (match_pages a m hint items ec)"
proof (induction items arbitrary: ec)
  case Nil
  then show ?case by (simp add: keeps_rules)
next
  case (Cons item items)
  then show ?case
    unfolding match_pages.simps by (intro keeps_rules) simp_all
qed

lemma search_pages_kept: "keeps I (search_pages a m db candidate)"
  unfolding search_pages_def query_unrecorded_def by (intro keeps_rules) simp_all

lemma resolve_targets_kept: "keeps I (resolve_reassignment_targets a m db hint)"
  unfolding resolve_reassignment_targets_def retrieve_reassignment_page_def
  by (intro keeps_rules) simp_all

end

interpretation quiet: notion_readings a "readonly_state a ws" for a :: "'w notion_api" and ws
proof
  show "\<not> writes_notion q \<Longrightarrow> keeps (readonly_state a ws) (call a e q)" for q and e
    by (auto simp: keeps_def call_def readonly_state_def split: prod.splits option.splits)
  show "keeps (readonly_state a ws) (cache_get k)" for k
    by (auto simp: keeps_def cache_get_def readonly_state_def cache_touch_keys
        cache_touch_same_length split: option.splits)
  show "keeps (readonly_state a ws) (cache_put a k v)" for k v
    by (auto simp: keeps_def cache_put_def readonly_state_def Let_def drop_map[symmetric]
        intro!: distinct_drop cache_touch_keys)
  show "keeps (readonly_state a ws) (invalidate k w)" for k w
    by (auto simp: keeps_def invalidate_def readonly_state_def distinct_map_filter
        intro: order.trans[OF length_filter_le])
qed

text \<open>
  What the workspace answered to a sequence of requests, from its state before the first of them.  The
  client's log tells which requests were sent; the state of the workspace is the one they led to.
\<close>

fun answered :: "'w notion_api \<Rightarrow> 'w \<Rightarrow> notion_request list \<Rightarrow> (notion_request \<times> http_response option) list" where
  "answered a w [] = []"
| "answered a w (q # qs) = (q, fst (reply a q w)) # answered a (snd (reply a q w)) qs"

definition server_after :: "'w notion_api \<Rightarrow> 'w \<Rightarrow> notion_request list \<Rightarrow> 'w" where
  "server_after a w qs = fold (\<lambda>q w. snd (reply a q w)) qs w"

lemma answered_append: "answered a w (qs @ qs1) = answered a w qs @ answered a (server_after a w qs) qs1"
  by (induction qs arbitrary: w) (simp_all add: server_after_def)

definition talks :: "'w notion_api \<Rightarrow> 'w notion_state \<Rightarrow> 'w notion_state \<Rightarrow> bool" where
  "talks a n s \<longleftrightarrow> (\<exists>qs. nt_sent s = nt_sent n @ qs \<and> nt_server s = server_after a (nt_server n) qs)"

definition exchange :: "'w notion_api \<Rightarrow> 'w notion_state \<Rightarrow> 'w notion_state \<Rightarrow> (notion_request \<times> http_response option) list" where
  "exchange a n s = answered a (nt_server n) (drop (length (nt_sent n)) (nt_sent s))"

lemma talks_refl [simp]: "talks a n n"
  by (simp add: talks_def server_after_def)

lemma talks_trans:
  assumes "talks a n s" "talks a s x"
  shows "talks a n x" "set (exchange a n s) \<subseteq> set (exchange a n x)" "set (exchange a s x) \<subseteq> set (exchange a n x)"
proof -
  obtain qs qs1 where "nt_sent s = nt_sent n @ qs" "nt_server s = server_after a (nt_server n) qs"
    "nt_sent x = nt_sent s @ qs1" "nt_server x = server_after a (nt_server s) qs1"
    using assms unfolding talks_def by blast
  then show "talks a n x" "set (exchange a n s) \<subseteq> set (exchange a n x)" "set (exchange a s x) \<subseteq> set (exchange a n x)"
    by (auto simp: talks_def exchange_def server_after_def answered_append)
qed

lemma talks_call:
  "call a e q n = (v, s) \<Longrightarrow> talks a n s \<and> exchange a n s = [(q, fst (reply a q (nt_server n)))]"
  by (auto simp: call_def talks_def exchange_def server_after_def split: prod.splits option.splits
      intro!: exI[of _ "[q]"])

lemma keeps_talks_call [keeps_rules]: "keeps (talks a n) (call a e q)"
  by (rule keepsI) (metis talks_call talks_trans(1))

interpretation talking: notion_readings a "talks a n" for a :: "'w notion_api" and n
proof
  show "keeps (talks a n) (call a e q)" for q and e by (rule keeps_talks_call)
  show "keeps (talks a n) (cache_get k)" for k
    by (auto simp: keeps_def cache_get_def talks_def split: option.splits)
  show "keeps (talks a n) (cache_put a k v)" for k v
    by (auto simp: keeps_def cache_put_def talks_def Let_def)
  show "keeps (talks a n) (invalidate k w)" for k w
    by (auto simp: keeps_def invalidate_def talks_def)
qed

section \<open>What a search returns\<close>

lemma io_lift_bind_Inr:
  "io_bind (io_lift v) f s = (Inr y, s2) \<longleftrightarrow> (\<exists>x. v = Inr x \<and> f x s = (Inr y, s2))"
  by (auto simp: io_bind_Inr_iff)

lemma relation_contacts_page:
  "contacts_step a m item page c s = (Inr (page1, c1), s1) \<Longrightarrow>
     \<exists>es. page1 = page \<or> page1 = with_emails es page"
  by (auto simp: contacts_step_def with_relation_contacts_def io_bind_Inr_iff Let_def
      split: if_splits sum.splits list.splits option.splits)

lemma with_emails_simps [simp]:
  "np_recording_present (with_emails es p) = np_recording_present p"
  "np_id (with_emails es p) = np_id p"
  "np_spots (with_emails es p) = np_spots p"
  by (simp_all add: with_emails_def)

lemma with_spots_simps [simp]:
  "np_recording_present (with_spots ss p) = np_recording_present p"
  "np_id (with_spots ss p) = np_id p"
  "np_spots (with_spots ss p) = (if ss = [] then np_spots p else ss)"
  by (auto simp: with_spots_def split: list.splits)

lemma parse_page_Inr:
  assumes "parse_page show m item = Inr page"
  shows "jget ''id'' item = JStr (np_id page)" "np_spots page = []"
    "np_recording_present page = (jitems (jget ''files'' (jget (pm_recording_prop m)
       (jget ''properties'' item))) \<noteq> [])"
proof -
  have "jtext j = Some s \<Longrightarrow> j = JStr s" for j s by (cases j) auto
  then show "jget ''id'' item = JStr (np_id page)" "np_spots page = []"
    "np_recording_present page = (jitems (jget ''files'' (jget (pm_recording_prop m)
       (jget ''properties'' item))) \<noteq> [])"
    using assms
    by (auto simp: parse_page_def Let_def res_bind_Inr_iff files_present_def
        split: option.splits if_splits)
qed

lemma resolve_spots_ids:
  "resolve_spots a is c s = (Inr (ss, c1), s1) \<Longrightarrow> \<forall>(i, x)\<in>set c. sp_id x = i \<Longrightarrow>
     map sp_id ss = is \<and> (\<forall>(i, x)\<in>set c1. sp_id x = i)"
proof (induction "is" arbitrary: c s ss)
  case Nil
  then show ?case by simp
next
  case (Cons i "is")
  show ?case
  proof (cases "map_of c i")
    case (Some spot)
    have "sp_id spot = i" using Cons.prems(2) map_of_SomeD[OF Some] by auto
    then show ?thesis
      using Cons.prems Some Cons.IH by (fastforce simp: io_bind_Inr_iff)
  next
    case None
    obtain spot s2 ss1 where r: "retrieve_related_page a i s = (Inr spot, s2)"
      "resolve_spots a is ((i, spot) # c) s2 = (Inr (ss1, c1), s1)" "ss = spot # ss1"
      using Cons.prems(1) None by (auto simp: io_bind_Inr_iff)
    have "sp_id spot = i"
      using r(1) by (auto simp: retrieve_related_page_def io_bind_Inr_iff res_bind_Inr_iff
          spot_of_page_def Let_def split: if_splits option.splits)
    then show ?thesis using Cons.IH[OF r(2)] Cons.prems(2) r(3) by auto
  qed
qed

definition offered_page :: "notion_property_map \<Rightarrow> json list \<Rightarrow> notion_page \<Rightarrow> bool" where
  "offered_page m items page \<longleftrightarrow>
     \<not> np_recording_present page \<and> length (np_spots page) \<le> MAX_SPOT_CHOICES \<and>
     (\<exists>item\<in>set items. jget ''id'' item = JStr (np_id page) \<and>
        jitems (jget ''files'' (jget (pm_recording_prop m) (jget ''properties'' item))) = [] \<and>
        relation_ids item (pm_project_prop m) = Inr (map sp_id (np_spots page)))"

lemma read_pages_ok:
  "read_pages a m items sc ec s = (Inr pages, s1) \<Longrightarrow> \<forall>(i, x)\<in>set sc. sp_id x = i \<Longrightarrow>
     length pages \<le> length items \<and> (\<forall>p\<in>set pages. offered_page m items p)"
proof (induction items arbitrary: sc ec s pages)
  case Nil
  then show ?case by simp
next
  case (Cons item items)
  have weaken: "offered_page m items p \<Longrightarrow> offered_page m (item # items) p" for p
    by (auto simp: offered_page_def)
  obtain page where page: "parse_page (render a) m item = Inr page"
    using Cons.prems(1) by (auto simp: io_lift_bind_Inr)
  show ?case
  proof (cases "np_recording_present page")
    case True
    then show ?thesis
      using Cons.prems page Cons.IH weaken by (fastforce simp: io_lift_bind_Inr)
  next
    case False
    obtain page1 ec1 s2 ids found sc1 s3 rest where run:
      "contacts_step a m item page ec s = (Inr (page1, ec1), s2)"
      "relation_ids item (pm_project_prop m) = Inr ids"
      "resolve_spots a ids sc s2 = (Inr (found, sc1), s3)"
      "read_pages a m items sc1 ec1 s3 = (Inr rest, s1)"
      "pages = with_spots found page1 # rest"
      using Cons.prems(1) page False by (auto simp: io_bind_Inr_iff)
    note spots = resolve_spots_ids[OF run(3) Cons.prems(2)]
    have "length found \<le> MAX_SPOT_CHOICES"
      using relation_ids_bound[OF run(2)] spots by (metis length_map)
    then have "offered_page m (item # items) (with_spots found page1)"
      using relation_contacts_page[OF run(1)] parse_page_Inr[OF page] False run(2) spots
      by (auto simp: offered_page_def)
    then show ?thesis using Cons.IH[OF run(4)] spots run(5) weaken by auto
  qed
qed

lemma call_Inr: "call a e q s = (Inr r, s1) \<Longrightarrow> \<exists>w1. reply a q (nt_server s) = (Some r, w1)"
  by (auto simp: call_def split: prod.splits option.splits)

lemma query_unrecorded_Inr:
  "query_unrecorded a m i candidate s = (Inr r, s1) \<Longrightarrow>
     \<exists>w w1. reply a (Query_unrecorded i candidate (pm_name_prop m) (pm_recording_prop m)) w = (Some r, w1)"
  unfolding query_unrecorded_def by (blast dest: call_Inr)

lemma search_pages_run:
  assumes "search_pages a m db candidate s = (Inr pages, s1)"
  shows "\<exists>items. \<forall>p\<in>set pages. offered_page m (take 10 items) p"
    and "length pages \<le> 10 \<and> (\<exists>i w w1 r items.
        reply a (Query_unrecorded i candidate (pm_name_prop m) (pm_recording_prop m)) w = (Some r, w1) \<and>
        result_items r = Inr items \<and> (\<forall>p\<in>set pages. offered_page m (take 10 items) p))"
proof -
  obtain i s2 s3 r s4 items where run:
    "query_unrecorded a m i candidate s2 = (Inr r, s3)" "result_items r = Inr items"
    "read_pages a m (take 10 items) [] [] s4 = (Inr pages, s1)"
    using assms unfolding search_pages_def
    by (auto simp: io_bind_Inr_iff io_lift_bind_Inr split: if_splits; blast)
  note ok = read_pages_ok[OF run(3), simplified]
  then show "\<exists>items. \<forall>p\<in>set pages. offered_page m (take 10 items) p" by blast
  have "\<exists>i w w1. reply a (Query_unrecorded i candidate (pm_name_prop m) (pm_recording_prop m)) w
      = (Some r, w1)"
    using query_unrecorded_Inr[OF run(1)] by blast
  then show "length pages \<le> 10 \<and> (\<exists>i w w1 r items.
        reply a (Query_unrecorded i candidate (pm_name_prop m) (pm_recording_prop m)) w = (Some r, w1) \<and>
        result_items r = Inr items \<and> (\<forall>p\<in>set pages. offered_page m (take 10 items) p))"
    using run(2) ok by blast
qed

text \<open>
  A search, against any Notion server and whatever it answers, writes nothing and
  keeps the cache of resolved sources duplicate-free and within its size; when it returns, it
  returns at most ten pages, each of them a page of the server's reply whose recording field is
  empty, with the spots of exactly its project relation, at most ten.
\<close>

theorem search_offers_unrecorded_pages:
  assumes "readonly_state a ws s" and "search_pages a m db candidate s = (v, s1)"
  shows "readonly_state a ws s1 \<and>
    (\<forall>pages. v = Inr pages \<longrightarrow> length pages \<le> 10 \<and>
      (\<exists>i w w1 r items.
        reply a (Query_unrecorded i candidate (pm_name_prop m) (pm_recording_prop m)) w = (Some r, w1) \<and>
        result_items r = Inr items \<and> (\<forall>p\<in>set pages. offered_page m (take 10 items) p)))"
  using keepsD[OF quiet.search_pages_kept assms] search_pages_run(2) assms(2) by metis

section \<open>What a reassignment may target\<close>

lemma select_compatible_unique:
  "select_compatible_schema a m database s = (Inr x, s1) \<Longrightarrow>
     \<exists>schemas. filter (is_compatible m) schemas = [x]"
  by (auto simp: select_compatible_schema_def io_bind_Inr_iff choose_schema_Inr_iff)

text \<open>
  Property C37.  A reassignment hint that carries a page id is resolved only to a page which the
  server places in the data source the configured database resolved to, or in that database
  itself, whatever the server answers; and resolving writes nothing.
\<close>

theorem reassignment_target_is_in_database:
  assumes "readonly_state a ws s"
    and "resolve_reassignment_targets a m db hint s = (v, s1)"
    and "canonical_notion_page_id (fold_case a) hint = Some page_id"
  shows "readonly_state a ws s1 \<and>
    (\<forall>pages. v = Inr pages \<longrightarrow>
      (\<exists>p source cached s2 w w1 r payload. pages = [p] \<and>
        resolve_source a m db s = (Inr (source, cached), s2) \<and>
        reply a (Get_page page_id) w = (Some r, w1) \<and> json_object r = Inr payload \<and>
        jget ''id'' payload = JStr (np_id p) \<and>
        (parent_id payload = JStr source \<or> parent_id payload = JStr db)))"
proof (intro conjI allI impI)
  show "readonly_state a ws s1"
    using keepsD[OF quiet.resolve_targets_kept assms(1,2)] .
next
  fix pages assume v: "v = Inr pages"
  obtain source cached s2 p where run:
    "resolve_source a m db s = (Inr (source, cached), s2)"
    "retrieve_reassignment_page a m page_id source db s2 = (Inr p, s1)" "pages = [p]"
    using assms(2,3) unfolding v resolve_reassignment_targets_def
    by (auto simp: io_bind_Inr_iff)
  obtain r s3 payload page c where got:
    "call a (Query_error True) (Get_page page_id) s2 = (Inr r, s3)" "json_object r = Inr payload"
    "parent_id payload = JStr source \<or> parent_id payload = JStr db"
    "parse_page (render a) m payload = Inr page" "contacts_step a m payload page [] s3 = (Inr (p, c), s1)"
    using run(2) unfolding retrieve_reassignment_page_def
    by (auto simp: io_bind_Inr_iff io_lift_bind_Inr split: if_splits)
  have "jget ''id'' payload = JStr (np_id p)"
    using parse_page_Inr(1)[OF got(4)] relation_contacts_page[OF got(5)] by auto
  then show "\<exists>p source cached s2 w w1 r payload. pages = [p] \<and>
        resolve_source a m db s = (Inr (source, cached), s2) \<and>
        reply a (Get_page page_id) w = (Some r, w1) \<and> json_object r = Inr payload \<and>
        jget ''id'' payload = JStr (np_id p) \<and>
        (parent_id payload = JStr source \<or> parent_id payload = JStr db)"
    using run(1,3) got(2,3) call_Inr[OF got(1)] by blast
qed

section \<open>A concrete workspace\<close>

definition demo_map :: notion_property_map where
  "demo_map = \<lparr>pm_name_prop = ''Name'', pm_date_prop = ''Date'', pm_recording_prop = ''Rec'',
     pm_project_prop = '''', pm_project_prop_type = Relation_prop, pm_contacts_mode = No_contacts,
     pm_contacts_prop = '''', pm_contacts_relation_prop = '''', pm_contacts_target_prop = ''''\<rparr>"

definition demo_page_id :: string where "demo_page_id = ''00000000-0000-0000-0000-0000000000aa''"

definition demo_page :: "string \<Rightarrow> json list \<Rightarrow> json" where
  "demo_page i files = JObj [(''id'', JStr i), (''url'', JStr ''u''),
     (''parent'', JObj [(''database_id'', JStr ''db'')]),
     (''properties'', JObj [(''Name'', JObj []),
        (''Rec'', JObj [(''type'', JStr ''files''), (''files'', JList files)])])]"

fun demo_reply :: "notion_request \<Rightarrow> nat \<Rightarrow> http_response option \<times> nat" where
  "demo_reply (Get_database db) n = (Some \<lparr>resp_status = 200, resp_json = Some (JObj
     [(''data_sources'', JList [JObj [(''id'', JStr ''src'')]])])\<rparr>, n)"
| "demo_reply (Get_source i) n = (Some \<lparr>resp_status = 200, resp_json = Some (JObj
     [(''id'', JStr i), (''properties'', JObj [(''Name'', JObj [(''type'', JStr ''title'')]),
        (''Date'', JObj [(''type'', JStr ''date'')]), (''Rec'', JObj [(''type'', JStr ''files'')])])])\<rparr>, n)"
| "demo_reply (Query_unrecorded i c np rp) n = (Some \<lparr>resp_status = 200, resp_json = Some (JObj
     [(''results'', JList [demo_page ''p1'' [JNull], demo_page ''p2'' []])])\<rparr>, n)"
| "demo_reply (Get_page i) n = (Some \<lparr>resp_status = 200, resp_json = Some (demo_page i [])\<rparr>, n)"
| "demo_reply _ n = (None, n)"

definition demo_api :: "nat notion_api" where
  "demo_api = \<lparr>reply = demo_reply, render = (\<lambda>_. ''''), fold_case = map lower_char, cache_size = 1\<rparr>"

definition demo_state :: "nat notion_state" where
  "demo_state = \<lparr>nt_server = 0, nt_sent = [], nt_cache = []\<rparr>"

lemma demo_state_readonly: "readonly_state demo_api [] demo_state"
  by (simp add: readonly_state_def demo_state_def)

lemma demo_search:
  "map_sum id (map np_id) (fst (search_pages demo_api demo_map ''db'' ''Ann'' demo_state)) = Inr [''p2'']"
  by code_simp

lemma demo_resolve:
  "map_sum id (map np_id) (fst (resolve_reassignment_targets demo_api demo_map ''db'' demo_page_id demo_state))
     = Inr [demo_page_id]"
  by code_simp

lemma demo_hint: "canonical_notion_page_id (fold_case demo_api) demo_page_id = Some demo_page_id"
  by code_simp

theorem search_witness:
  "\<exists>pages s1. search_pages demo_api demo_map ''db'' ''Ann'' demo_state = (Inr pages, s1) \<and>
     map np_id pages = [''p2''] \<and> readonly_state demo_api [] s1"
proof -
  obtain v s1 where run: "search_pages demo_api demo_map ''db'' ''Ann'' demo_state = (v, s1)"
    by (cases "search_pages demo_api demo_map ''db'' ''Ann'' demo_state")
  then show ?thesis
    using search_offers_unrecorded_pages[OF demo_state_readonly run] demo_search by (cases v) auto
qed

theorem reassignment_target_witness:
  "\<exists>pages s1. resolve_reassignment_targets demo_api demo_map ''db'' demo_page_id demo_state
       = (Inr pages, s1) \<and> map np_id pages = [demo_page_id] \<and> readonly_state demo_api [] s1"
proof -
  obtain v s1 where run:
    "resolve_reassignment_targets demo_api demo_map ''db'' demo_page_id demo_state = (v, s1)"
    by (cases "resolve_reassignment_targets demo_api demo_map ''db'' demo_page_id demo_state")
  then show ?thesis
    using reassignment_target_is_in_database[OF demo_state_readonly run demo_hint] demo_resolve
    by (cases v) auto
qed

end
