(* ===== verification/Candidate.thy ===== *)
theory Candidate
imports Notion_Client Matching Recording
begin

text \<open>
  \<open>app/services/candidate.py\<close>: finding the one Notion page and project spot of a recording's
  candidate, or the choices a reviewer is asked to pick from.
\<close>

definition MAX_CANDIDATE_CHOICES :: nat where "MAX_CANDIDATE_CHOICES = 10"

record candidate_match =
  cm_page :: "notion_page option"
  cm_reason :: "string option"
  cm_candidates :: "json list"
  cm_confidence :: int
  cm_choices :: "json list"

definition non_empty_or :: "string option \<Rightarrow> string \<Rightarrow> string" where
  "non_empty_or v d = (if truthy v then the v else d)"

definition candidate_summary :: "notion_page \<Rightarrow> json" where
  "candidate_summary p = JObj
     [(''name'', JStr (np_title p)), (''url'', JStr (np_url p)),
      (''general_interview_date'', JStr (non_empty_or (np_date_str p) '''')),
      (''project_or_spot'', JStr (non_empty_or (np_project_or_spot p) ''multiple'')),
      (''candidate_email'', JStr (non_empty_or (np_email p) '''')),
      (''candidate_emails'', JList (map JStr (np_emails p)))]"

definition choice_of :: "notion_page \<Rightarrow> notion_spot option \<Rightarrow> json" where
  "choice_of p spot = JObj
     [(''id'', JStr (np_id p)), (''name'', JStr (np_title p)), (''url'', JStr (np_url p)),
      (''project_or_spot'', JStr (case spot of
         Some s \<Rightarrow> sp_title s | None \<Rightarrow> non_empty_or (np_project_or_spot p) ''unspecified'')),
      (''spot_id'', JStr (case spot of Some s \<Rightarrow> sp_id s | None \<Rightarrow> '''')),
      (''spot_url'', JStr (case spot of Some s \<Rightarrow> sp_url s | None \<Rightarrow> '''')),
      (''general_interview_date'', JStr (non_empty_or (np_date_str p) '''')),
      (''candidate_email'', JStr (non_empty_or (np_email p) '''')),
      (''candidate_emails'', JList (map JStr (np_emails p)))]"

definition choices_for_page :: "notion_page \<Rightarrow> json list" where
  "choices_for_page p =
     (if 1 < length (np_spots p) then map (choice_of p \<circ> Some) (np_spots p)
      else [choice_of p (case np_spots p of s # _ \<Rightarrow> Some s | [] \<Rightarrow> None)])"

definition no_match :: "string \<Rightarrow> json list \<Rightarrow> json list \<Rightarrow> candidate_match" where
  "no_match reason candidates choices =
     \<lparr>cm_page = None, cm_reason = Some reason, cm_candidates = candidates, cm_confidence = 0,
      cm_choices = choices\<rparr>"

definition matched :: "notion_page \<Rightarrow> candidate_match" where
  "matched p = \<lparr>cm_page = Some p, cm_reason = None, cm_candidates = [], cm_confidence = 100,
     cm_choices = []\<rparr>"

definition single_spot :: "notion_page list \<Rightarrow> bool" where
  "single_spot pages \<longleftrightarrow> (case pages of [p] \<Rightarrow> length (np_spots p) \<le> 1 | _ \<Rightarrow> False)"

text \<open>The decision on the pages found; \<open>email\<close> is the address stored with the recording.\<close>

definition decide_candidate :: "(string \<Rightarrow> string) \<Rightarrow> string option \<Rightarrow> notion_page list \<Rightarrow> candidate_match" where
  "decide_candidate casefold email pages0 =
     (if pages0 = [] then no_match ''no_candidate_found'' [] []
      else if single_spot pages0 then matched (hd pages0)
      else
        let supporting = casefold (py_strip (opt_or email ''''));
            by_email = filter (\<lambda>p. supporting \<noteq> '''' \<and> supporting \<in> set (map casefold (np_emails p))) pages0;
            pages = (if length by_email = 1 then by_email else pages0);
            choices = concat (map choices_for_page pages)
        in if length by_email = 1 \<and> single_spot by_email then matched (hd by_email)
           else if MAX_CANDIDATE_CHOICES < length choices
           then no_match ''candidate_choices_exceed_limit''
                  (map candidate_summary (take MAX_CANDIDATE_CHOICES pages)) []
           else no_match (if length pages = 1 then ''multiple_spots'' else ''multiple_candidates'')
                  (map candidate_summary pages) choices)"

datatype candidate_error = Candidate_scope schema_error | Candidate_notion notion_error

definition find_and_match ::
  "'w notion_api \<Rightarrow> settings \<Rightarrow> recruiter_config \<Rightarrow> recording \<Rightarrow>
   ('w notion_state, candidate_error, candidate_match) io" where
  "find_and_match a st rc r =
     (case name_in_parens (opt_or (r_calendar_event_summary r) '''') of
        None \<Rightarrow> io_return (no_match ''no_candidate_name_in_event'' [] [])
      | Some name \<Rightarrow>
          if py_strip name = '''' then io_return (no_match ''no_candidate_name_in_event'' [] [])
          else if r_calendar_dtstart r = None then io_return (no_match ''no_candidate_found'' [] [])
          else (case resolve_notion_property_map st (Some rc) of
                  Inl e \<Rightarrow> io_raise (Candidate_scope e)
                | Inr m \<Rightarrow> (\<lambda>s. case search_pages a m (rc_notion_database_id rc) (py_strip name) s of
                    (Inl e, s1) \<Rightarrow> (Inl (Candidate_notion e), s1)
                  | (Inr pages, s1) \<Rightarrow>
                      (Inr (decide_candidate (fold_case a) (r_candidate_email r) pages), s1))))"

section \<open>Facts\<close>

lemma single_spot_iff: "single_spot ps \<longleftrightarrow> (\<exists>p. ps = [p] \<and> length (np_spots p) \<le> 1)"
  by (auto simp: single_spot_def split: list.splits)

lemma match_fields [simp]:
  "cm_page (no_match r c ch) = None" "cm_choices (no_match r c ch) = ch"
  "cm_reason (no_match r c ch) = Some r" "cm_candidates (no_match r c ch) = c"
  "cm_page (matched p) = Some p" "cm_choices (matched p) = []" "cm_reason (matched p) = None"
  by (simp_all add: no_match_def matched_def)

lemma choices_of_page:
  "c \<in> set (choices_for_page p) \<Longrightarrow> \<exists>spot. c = choice_of p spot \<and> (\<forall>s. spot = Some s \<longrightarrow> s \<in> set (np_spots p))"
  by (auto simp: choices_for_page_def split: if_splits list.splits)

lemma length_concat_ge:
  "(\<And>x. x \<in> set xs \<Longrightarrow> f x \<noteq> []) \<Longrightarrow> length xs \<le> length (concat (map f xs))"
proof (induction xs)
  case Nil
  then show ?case by simp
next
  case (Cons x xs)
  then have "f x \<noteq> []" "length xs \<le> length (concat (map f xs))" by auto
  then show ?case by (cases "f x") auto
qed

lemma choices_for_page_nonempty: "choices_for_page p \<noteq> []"
  by (auto simp: choices_for_page_def)

text \<open>A decision names a page only if it alone fits; otherwise it says why and offers bounded choices.\<close>

lemma decide_candidate_page:
  assumes "cm_page (decide_candidate casefold email pages) = Some p"
  shows "p \<in> set pages \<and> length (np_spots p) \<le> 1 \<and>
    (pages = [p] \<or>
     (\<exists>e. e \<noteq> '''' \<and> e = casefold (py_strip (opt_or email '''')) \<and>
        filter (\<lambda>q. e \<in> set (map casefold (np_emails q))) pages = [p]))"
proof (cases "single_spot pages")
  case True
  then show ?thesis using assms by (auto simp: decide_candidate_def single_spot_iff)
next
  case False
  define e where "e = casefold (py_strip (opt_or email ''''))"
  define f where "f = filter (\<lambda>q. e \<noteq> '''' \<and> e \<in> set (map casefold (np_emails q))) pages"
  have "single_spot f \<and> p = hd f"
    using assms False by (auto simp: decide_candidate_def Let_def e_def f_def split: if_splits)
  then obtain q where q: "f = [q]" "p = q" "length (np_spots q) \<le> 1"
    by (auto simp: single_spot_iff)
  have ne: "e \<noteq> ''''" using q(1) by (auto simp: f_def)
  then have "filter (\<lambda>q. e \<in> set (map casefold (np_emails q))) pages = [p]"
    using q by (simp add: f_def)
  moreover have "q \<in> set f" by (simp add: q(1))
  then have "p \<in> set pages" by (auto simp: f_def q(2))
  ultimately show ?thesis using q ne e_def by blast
qed

lemma decide_candidate_choices:
  "length (cm_choices (decide_candidate casefold email pages)) \<le> MAX_CANDIDATE_CHOICES \<and>
   length (cm_candidates (decide_candidate casefold email pages)) \<le> MAX_CANDIDATE_CHOICES"
proof -
  have "length (concat (map choices_for_page ps)) \<le> MAX_CANDIDATE_CHOICES \<Longrightarrow>
      length ps \<le> MAX_CANDIDATE_CHOICES" for ps
    using length_concat_ge[of ps choices_for_page] choices_for_page_nonempty by force
  then show ?thesis
    by (auto simp: decide_candidate_def Let_def matched_def not_less)
qed

lemma decide_candidate_choice_source:
  assumes "c \<in> set (cm_choices (decide_candidate casefold email pages))"
  shows "\<exists>p\<in>set pages. \<exists>spot. c = choice_of p spot \<and> (\<forall>s. spot = Some s \<longrightarrow> s \<in> set (np_spots p))"
  using assms choices_of_page
  by (fastforce simp: decide_candidate_def Let_def split: if_splits)

text \<open>
  Property C39.  When a recording's candidate is settled without asking, the page is one the Notion
  search returned, has no recording yet and at most one project spot, and either is the only page
  found or the only one that carries the e-mail address stored with the recording.
\<close>

theorem settled_candidate_is_unique:
  assumes "find_and_match a st rc r s = (Inr m, s1)" and "cm_page m = Some p"
  shows "\<exists>pm name pages. resolve_notion_property_map st (Some rc) = Inr pm \<and>
    name_in_parens (opt_or (r_calendar_event_summary r) '''') = Some name \<and>
    search_pages a pm (rc_notion_database_id rc) (py_strip name) s = (Inr pages, s1) \<and>
    p \<in> set pages \<and> \<not> np_recording_present p \<and> length (np_spots p) \<le> 1 \<and>
    (pages = [p] \<or>
     (\<exists>e. e \<noteq> '''' \<and> e = fold_case a (py_strip (opt_or (r_candidate_email r) '''')) \<and>
        filter (\<lambda>q. e \<in> set (map (fold_case a) (np_emails q))) pages = [p]))"
proof -
  obtain pm name pages where run: "resolve_notion_property_map st (Some rc) = Inr pm"
    "name_in_parens (opt_or (r_calendar_event_summary r) '''') = Some name"
    "search_pages a pm (rc_notion_database_id rc) (py_strip name) s = (Inr pages, s1)"
    "m = decide_candidate (fold_case a) (r_candidate_email r) pages"
    using assms by (auto simp: find_and_match_def split: option.splits if_splits sum.splits prod.splits)
  have d: "p \<in> set pages \<and> length (np_spots p) \<le> 1 \<and> (pages = [p] \<or>
     (\<exists>e. e \<noteq> '''' \<and> e = fold_case a (py_strip (opt_or (r_candidate_email r) '''')) \<and>
        filter (\<lambda>q. e \<in> set (map (fold_case a) (np_emails q))) pages = [p]))"
    using decide_candidate_page assms(2) run(4) by metis
  moreover have "\<not> np_recording_present p"
    using search_pages_run(1)[OF run(3)] d by (auto simp: offered_page_def)
  ultimately show ?thesis using run(1-3) by metis
qed

definition demo_recruiter :: recruiter_config where
  "demo_recruiter = sample_recruiter\<lparr>rc_notion_property_map := Value
     \<lparr>ov_name_prop = Some ''Name'', ov_date_prop = Some ''Date'', ov_recording_prop = Some ''Rec'',
      ov_project_prop = Some '''', ov_project_prop_type = None, ov_contacts_mode = Some No_contacts,
      ov_contacts_prop = Some '''', ov_contacts_relation_prop = None, ov_contacts_target_prop = None\<rparr>\<rparr>"

definition demo_recording :: recording where
  "demo_recording = (new_recording ''1'' ''f'' ''p'' ''n'' ''o'' 0)
     \<lparr>r_calendar_event_summary := Some ''Call (Ann)'', r_calendar_dtstart := Some 0\<rparr>"

lemma demo_settled:
  "map_sum id (\<lambda>m. map_option np_id (cm_page m))
     (fst (find_and_match demo_api (default_settings ''Spots'') demo_recruiter demo_recording demo_state))
   = Inr (Some ''p2'')"
  by code_simp

theorem settled_candidate_witness:
  "\<exists>m p s1. find_and_match demo_api (default_settings ''Spots'') demo_recruiter demo_recording demo_state
       = (Inr m, s1) \<and> cm_page m = Some p \<and> np_id p = ''p2'' \<and> \<not> np_recording_present p"
proof -
  obtain v s1 where run: "find_and_match demo_api (default_settings ''Spots'') demo_recruiter
      demo_recording demo_state = (v, s1)"
    by (cases "find_and_match demo_api (default_settings ''Spots'') demo_recruiter demo_recording demo_state")
  then obtain m p where m: "v = Inr m" "cm_page m = Some p" "np_id p = ''p2''"
    using demo_settled by (cases v) (auto simp: map_option_case split: option.splits)
  then show ?thesis
    using settled_candidate_is_unique[of demo_api "default_settings ''Spots''" demo_recruiter
        demo_recording demo_state m s1 p] run by blast
qed

end
