(* ===== verification/Intents.thy ===== *)
theory Intents
imports Lease
begin

text \<open>
  \<open>app/services/intents.py\<close> on the table of \<open>app/db/models/intent_replay.py\<close>: a request of an actor
  is claimed under its idempotency key, executed by the holder of the claim, and completed with its
  response; a repeated request gets that response.  Digests and fresh identifiers are arguments.
\<close>

section \<open>The table\<close>

datatype intent_state = Intent_pending | Intent_completed

record intent_replay =
  ir_id :: string
  ir_actor :: string
  ir_operation :: string
  ir_idempotency_key :: string
  ir_request_fingerprint :: string
  ir_state :: intent_state
  ir_claim_owner :: "string option"
  ir_claim_expires_at :: "instant option"
  ir_response :: "json option"
  ir_created_at :: instant

type_synonym intent_key = "string \<times> string \<times> string"

definition intent_key :: "intent_replay \<Rightarrow> intent_key" where
  "intent_key r = (ir_actor r, ir_operation r, ir_idempotency_key r)"

datatype intent_error =
    Claim_disappeared
  | Key_reused
  | Still_in_progress
  | Ownership_lost

record intent_claim =
  ic_replay :: intent_replay
  ic_owner :: "string option"

definition completed_response :: "intent_claim \<Rightarrow> json option" where
  "completed_response c =
     (if ir_state (ic_replay c) = Intent_completed then ir_response (ic_replay c) else None)"

record intent_request =
  iq_key :: intent_key
  iq_fingerprint :: string
  iq_ttl :: int

section \<open>Operations\<close>

definition pending_intent :: "intent_request \<Rightarrow> instant \<Rightarrow> string \<Rightarrow> string \<Rightarrow> intent_replay" where
  "pending_intent q now new_id owner =
     (case iq_key q of (actor, operation, key) \<Rightarrow>
       \<lparr>ir_id = new_id, ir_actor = actor, ir_operation = operation, ir_idempotency_key = key,
        ir_request_fingerprint = iq_fingerprint q, ir_state = Intent_pending,
        ir_claim_owner = Some owner, ir_claim_expires_at = Some (now + seconds (iq_ttl q)),
        ir_response = None, ir_created_at = now\<rparr>)"

text \<open>Inserting fails on a duplicate identifier or on a duplicate key.\<close>

definition insert_intent :: "intent_replay \<Rightarrow> intent_replay list \<Rightarrow> intent_replay list option" where
  "insert_intent r rows =
     (if ir_id r \<in> set (map ir_id rows) \<or> intent_key r \<in> set (map intent_key rows) then None
      else Some (rows @ [r]))"

definition intent_expired :: "instant \<Rightarrow> intent_replay \<Rightarrow> bool" where
  "intent_expired now r \<longleftrightarrow> (case ir_claim_expires_at r of None \<Rightarrow> True | Some e \<Rightarrow> e \<le> now)"

definition own_intent :: "int \<Rightarrow> instant \<Rightarrow> string \<Rightarrow> intent_replay \<Rightarrow> intent_replay" where
  "own_intent ttl now owner r =
     r\<lparr>ir_claim_owner := Some owner, ir_claim_expires_at := Some (now + seconds ttl)\<rparr>"

text \<open>The second transaction of \<open>claim_intent\<close>: the row of the key exists already.\<close>

definition reclaim_intent ::
  "intent_request \<Rightarrow> instant \<Rightarrow> string \<Rightarrow> intent_replay list \<Rightarrow>
   (intent_error, intent_claim) result \<times> intent_replay list" where
  "reclaim_intent q now owner rows =
     (case find (\<lambda>r. intent_key r = iq_key q) rows of
        None \<Rightarrow> (Inl Claim_disappeared, rows)
      | Some r \<Rightarrow>
          if ir_request_fingerprint r \<noteq> iq_fingerprint q then (Inl Key_reused, rows)
          else if ir_state r = Intent_completed
          then (Inr \<lparr>ic_replay = r, ic_owner = None\<rparr>, rows)
          else if \<not> intent_expired now r then (Inl Still_in_progress, rows)
          else (let r1 = own_intent (iq_ttl q) now owner r in
            (Inr \<lparr>ic_replay = r1, ic_owner = Some owner\<rparr>,
             update_where (\<lambda>x. ir_id x = ir_id r) (\<lambda>_. r1) rows)))"

definition claim_intent ::
  "intent_request \<Rightarrow> instant \<Rightarrow> string \<Rightarrow> string \<Rightarrow> intent_replay list \<Rightarrow>
   (intent_error, intent_claim) result \<times> intent_replay list" where
  "claim_intent q now new_id owner rows =
     (let r = pending_intent q now new_id owner in
      case insert_intent r rows of
        Some rows1 \<Rightarrow> (Inr \<lparr>ic_replay = r, ic_owner = Some owner\<rparr>, rows1)
      | None \<Rightarrow> reclaim_intent q now owner rows)"

definition finish_intent :: "json \<Rightarrow> intent_replay \<Rightarrow> intent_replay" where
  "finish_intent response r =
     r\<lparr>ir_response := Some response, ir_state := Intent_completed, ir_claim_owner := None,
       ir_claim_expires_at := None\<rparr>"

definition completable :: "string \<Rightarrow> string \<Rightarrow> intent_replay \<Rightarrow> bool" where
  "completable claim_id owner r \<longleftrightarrow>
     ir_id r = claim_id \<and> ir_state r = Intent_pending \<and> ir_claim_owner r = Some owner"

definition complete_intent ::
  "intent_claim \<Rightarrow> json \<Rightarrow> intent_replay list \<Rightarrow> (intent_error, unit) result \<times> intent_replay list" where
  "complete_intent c response rows =
     (case ic_owner c of
        None \<Rightarrow> (Inl Ownership_lost, rows)
      | Some owner \<Rightarrow>
          let p = completable (ir_id (ic_replay c)) owner in
          if length (filter p rows) \<noteq> 1 then (Inl Ownership_lost, rows)
          else (Inr (), update_where p (finish_intent response) rows))"

text \<open>A holder that gives up deletes its pending row (\<open>_release_scan_intent\<close> of the routers).\<close>

definition release_intent :: "intent_claim \<Rightarrow> intent_replay list \<Rightarrow> intent_replay list" where
  "release_intent c rows =
     (case ic_owner c of
        None \<Rightarrow> rows
      | Some owner \<Rightarrow> filter (\<lambda>r. \<not> completable (ir_id (ic_replay c)) owner r) rows)"

section \<open>Histories of the table\<close>

text \<open>What workers do to the table, in any interleaving of the transactions.\<close>

datatype intent_event =
    Insert_intent intent_request instant string string
  | Reclaim_intent intent_request instant string
  | Complete_intent intent_claim json
  | Release_intent intent_claim

fun intent_step :: "intent_event \<Rightarrow> intent_replay list \<Rightarrow> intent_replay list" where
  "intent_step (Insert_intent q now new_id owner) rows =
     opt_or (insert_intent (pending_intent q now new_id owner) rows) rows"
| "intent_step (Reclaim_intent q now owner) rows = snd (reclaim_intent q now owner rows)"
| "intent_step (Complete_intent c response) rows = snd (complete_intent c response rows)"
| "intent_step (Release_intent c) rows = release_intent c rows"

definition intent_history :: "intent_event list \<Rightarrow> intent_replay list \<Rightarrow> intent_replay list" where
  "intent_history es rows = fold intent_step es rows"

lemma intent_history_simps [simp]:
  "intent_history [] rows = rows"
  "intent_history (e # es) rows = intent_history es (intent_step e rows)"
  by (simp_all add: intent_history_def)

definition intents_ok :: "intent_replay list \<Rightarrow> bool" where
  "intents_ok rows \<longleftrightarrow> distinct (map ir_id rows) \<and> distinct (map intent_key rows) \<and>
     (\<forall>r\<in>set rows. ir_state r = Intent_completed \<longrightarrow> ir_claim_owner r = None)"

lemma intent_frame [simp]:
  "ir_id (own_intent ttl now owner r) = ir_id r"
  "intent_key (own_intent ttl now owner r) = intent_key r"
  "ir_state (own_intent ttl now owner r) = ir_state r"
  "ir_id (finish_intent v r) = ir_id r"
  "intent_key (finish_intent v r) = intent_key r"
  by (simp_all add: own_intent_def finish_intent_def intent_key_def)

lemma finished_row [simp]:
  "ir_state (finish_intent v r) = Intent_completed"
  "ir_claim_owner (finish_intent v r) = None"
  "ir_response (finish_intent v r) = Some v"
  by (simp_all add: finish_intent_def)

lemma reclaim_cases:
  assumes "intents_ok rows"
  shows "snd (reclaim_intent q now owner rows) = rows \<or>
    (\<exists>r\<in>set rows. ir_state r = Intent_pending \<and>
       snd (reclaim_intent q now owner rows) =
         update_where (\<lambda>x. x = r) (own_intent (iq_ttl q) now owner) rows)"
proof (cases "find (\<lambda>r. intent_key r = iq_key q) rows")
  case None
  then show ?thesis by (simp add: reclaim_intent_def)
next
  case (Some r)
  then have "r \<in> set rows" by (auto simp: find_Some_iff)
  moreover have "ir_state r = Intent_pending" if "ir_state r \<noteq> Intent_completed"
    using that by (cases "ir_state r") auto
  ultimately show ?thesis
    using Some assms by (auto simp: reclaim_intent_def Let_def intents_ok_def
        update_by_key[of ir_id rows r "own_intent (iq_ttl q) now owner"])
qed

lemma intent_step_ok: "intents_ok rows \<Longrightarrow> intents_ok (intent_step e rows)"
proof (cases e)
  case (Insert_intent q now new_id owner)
  assume "intents_ok rows"
  then show ?thesis
    using Insert_intent
    by (auto simp: insert_intent_def intents_ok_def pending_intent_def intent_key_def split: prod.splits)
next
  case (Reclaim_intent q now owner)
  assume ok: "intents_ok rows"
  from reclaim_cases[OF ok, of q now owner] show ?thesis
    using Reclaim_intent ok
    by (auto simp: intents_ok_def map_update_where in_update_where)
next
  case (Complete_intent c v)
  assume ok: "intents_ok rows"
  then show ?thesis
    using Complete_intent
    by (auto simp: complete_intent_def Let_def intents_ok_def map_update_where in_update_where
        split: option.splits)
next
  case (Release_intent c)
  assume ok: "intents_ok rows"
  then show ?thesis
    using Release_intent
    by (auto simp: release_intent_def intents_ok_def distinct_map_filter split: option.splits)
qed

text \<open>A completed row stays as it is.\<close>

lemma completed_row_step:
  assumes "intents_ok rows" "r \<in> set rows" "ir_state r = Intent_completed"
  shows "r \<in> set (intent_step e rows)"
proof (cases e)
  case (Insert_intent q now new_id owner)
  then show ?thesis using assms(2) by (auto simp: insert_intent_def)
next
  case (Reclaim_intent q now owner)
  then have e: "intent_step e rows = snd (reclaim_intent q now owner rows)" by simp
  from reclaim_cases[OF assms(1), of q now owner] show ?thesis
  proof
    assume "snd (reclaim_intent q now owner rows) = rows"
    then show ?thesis using e assms(2) by simp
  next
    assume "\<exists>r\<in>set rows. ir_state r = Intent_pending \<and> snd (reclaim_intent q now owner rows) =
        update_where (\<lambda>x. x = r) (own_intent (iq_ttl q) now owner) rows"
    then show ?thesis using e assms(2,3) by (auto intro!: in_update_other)
  qed
next
  case (Complete_intent c v)
  then show ?thesis
    using assms by (force simp: complete_intent_def Let_def completable_def in_update_where
        split: option.splits)
next
  case (Release_intent c)
  then show ?thesis
    using assms(2,3) by (auto simp: release_intent_def completable_def split: option.splits)
qed

lemma completed_row_kept:
  "intents_ok rows \<Longrightarrow> r \<in> set rows \<Longrightarrow> ir_state r = Intent_completed \<Longrightarrow>
     intents_ok (intent_history es rows) \<and> r \<in> set (intent_history es rows)"
proof (induction es arbitrary: rows)
  case Nil
  then show ?case by simp
next
  case (Cons e es)
  then show ?case using intent_step_ok completed_row_step by simp
qed

lemma reclaim_completed:
  assumes "intents_ok rows" "r \<in> set rows" "ir_state r = Intent_completed" "intent_key r = iq_key q"
  shows "reclaim_intent q now owner rows =
    (if ir_request_fingerprint r = iq_fingerprint q then Inr \<lparr>ic_replay = r, ic_owner = None\<rparr>
     else Inl Key_reused, rows)"
  using assms find_by_key[of intent_key rows r] by (auto simp: reclaim_intent_def intents_ok_def)

lemma insert_existing:
  "r \<in> set rows \<Longrightarrow> intent_key r = intent_key r1 \<Longrightarrow> insert_intent r1 rows = None"
  unfolding insert_intent_def by (metis image_eqI list.set_map)

lemma pending_intent_key [simp]: "intent_key (pending_intent q now i owner) = iq_key q"
  by (cases "iq_key q") (simp add: pending_intent_def intent_key_def)

section \<open>The claim as a lease\<close>

text \<open>On one row: taking it over once it expired, and giving it up by completing it.\<close>

definition take_intent :: "int \<Rightarrow> instant \<Rightarrow> string \<Rightarrow> intent_replay \<Rightarrow> intent_replay option" where
  "take_intent ttl now owner r =
     (if ir_state r = Intent_pending \<and> intent_expired now r then Some (own_intent ttl now owner r) else None)"

definition give_intent :: "json \<Rightarrow> string \<Rightarrow> intent_replay \<Rightarrow> intent_replay" where
  "give_intent v owner r = (if completable (ir_id r) owner r then finish_intent v r else r)"

interpretation intent_lease: lease ir_claim_owner ir_claim_expires_at "take_intent ttl"
  "give_intent v" "seconds ttl"
  for ttl :: int and v
  by unfold_locales
    (auto simp: take_intent_def give_intent_def own_intent_def intent_expired_def completable_def
      split: if_splits)

section \<open>Properties\<close>

lemma completed_not_completable:
  assumes "intents_ok rows" and "r \<in> set rows" and "ir_state r = Intent_completed"
  shows "filter (completable (ir_id r) t) rows = []"
proof -
  have "\<not> completable (ir_id r) t x" if x: "x \<in> set rows" for x
  proof
    assume c: "completable (ir_id r) t x"
    then have "x = r"
      using assms x by (intro same_key[of ir_id rows]) (auto simp: completable_def intents_ok_def)
    then show False using c assms(3) by (simp add: completable_def)
  qed
  then show ?thesis by (simp add: filter_empty_conv)
qed

text \<open>
  Property C16.  An intent is executed to a result at most once.  Once its holder completed it, then
  after any further history of the table (claims, takeovers, completions and the deletion of abandoned
  claims, in any interleaving): a request with the same key and
  fingerprint gets exactly the recorded response and no ownership, a request with the same key and
  another fingerprint is rejected, and neither changes the table; and nobody can complete it again.
\<close>

theorem intent_is_completed_once:
  assumes "intents_ok rows" and "complete_intent c v rows = (Inr (), rows1)"
  shows "\<exists>r. r \<in> set rows1 \<and> ir_id r = ir_id (ic_replay c) \<and> ir_response r = Some v \<and>
    (\<forall>es. let rows2 = intent_history es rows1 in
       (\<forall>q now i owner. iq_key q = intent_key r \<longrightarrow>
          claim_intent q now i owner rows2 =
            (if iq_fingerprint q = ir_request_fingerprint r
             then Inr \<lparr>ic_replay = r, ic_owner = None\<rparr> else Inl Key_reused, rows2)) \<and>
       (\<forall>c1 v1. ir_id (ic_replay c1) = ir_id r \<longrightarrow> complete_intent c1 v1 rows2 = (Inl Ownership_lost, rows2)))"
proof -
  obtain owner r0 where o: "ic_owner c = Some owner"
    and one: "filter (completable (ir_id (ic_replay c)) owner) rows = [r0]"
    and rows1: "rows1 = update_where (completable (ir_id (ic_replay c)) owner) (finish_intent v) rows"
    using assms(2) by (auto simp: complete_intent_def Let_def length_Suc_conv split: option.splits if_splits)
  have "r0 \<in> set (filter (completable (ir_id (ic_replay c)) owner) rows)" by (simp add: one)
  then have r0: "r0 \<in> set rows" "completable (ir_id (ic_replay c)) owner r0" by auto
  define r where "r = finish_intent v r0"
  have r: "r \<in> set rows1" "ir_state r = Intent_completed" "ir_response r = Some v"
      "ir_id r = ir_id (ic_replay c)"
    using r0 by (auto simp: r_def rows1 in_update_where completable_def)
  have ok1: "intents_ok rows1"
    using intent_step_ok[OF assms(1), of "Complete_intent c v"] assms(2) by simp
  have later: "intents_ok (intent_history es rows1)" "r \<in> set (intent_history es rows1)" for es
    using completed_row_kept[OF ok1 r(1,2)] by blast+
  have claim: "claim_intent q now i owner (intent_history es rows1) =
            (if iq_fingerprint q = ir_request_fingerprint r
             then Inr \<lparr>ic_replay = r, ic_owner = None\<rparr> else Inl Key_reused, intent_history es rows1)"
    if "iq_key q = intent_key r" for q now i owner es
    using that insert_existing[OF later(2), of "pending_intent q now i owner"]
      reclaim_completed[OF later r(2), of q now owner]
    by (simp add: claim_intent_def Let_def)
  have done_: "complete_intent c1 v1 (intent_history es rows1) = (Inl Ownership_lost, intent_history es rows1)"
    if "ir_id (ic_replay c1) = ir_id r" for c1 v1 es
    using that completed_not_completable[OF later r(2)] by (auto simp: complete_intent_def Let_def split: option.splits)
  show ?thesis using r claim done_ by (auto simp: Let_def)
qed

definition demo_intent :: intent_request where
  "demo_intent = \<lparr>iq_key = (''hr'', ''reroute'', ''k''), iq_fingerprint = ''f'', iq_ttl = 900\<rparr>"

theorem intent_witness:
  "fst (claim_intent demo_intent 7 ''i2'' ''w2''
     (snd (complete_intent \<lparr>ic_replay = pending_intent demo_intent 0 ''i1'' ''w1'', ic_owner = Some ''w1''\<rparr>
        (JInt 1) [pending_intent demo_intent 0 ''i1'' ''w1'']))) =
   Inr \<lparr>ic_replay = finish_intent (JInt 1) (pending_intent demo_intent 0 ''i1'' ''w1''), ic_owner = None\<rparr>"
proof -
  define r0 where "r0 = pending_intent demo_intent 0 ''i1'' ''w1''"
  define c where "c = \<lparr>ic_replay = r0, ic_owner = Some ''w1''\<rparr>"
  have ok: "intents_ok [r0]" by (simp add: intents_ok_def r0_def pending_intent_def demo_intent_def)
  have run: "complete_intent c (JInt 1) [r0] = (Inr (), [finish_intent (JInt 1) r0])"
    by (simp add: complete_intent_def c_def completable_def r0_def pending_intent_def demo_intent_def)
  have f: "iq_fingerprint demo_intent = ir_request_fingerprint (finish_intent (JInt 1) r0)"
    by (simp add: finish_intent_def r0_def pending_intent_def demo_intent_def)
  have key: "iq_key demo_intent = intent_key (finish_intent (JInt 1) r0)"
    by (simp add: r0_def)
  have "claim_intent demo_intent 7 ''i2'' ''w2'' [finish_intent (JInt 1) r0] =
      (Inr \<lparr>ic_replay = finish_intent (JInt 1) r0, ic_owner = None\<rparr>, [finish_intent (JInt 1) r0])"
    using intent_is_completed_once[OF ok run] key f by (auto simp: Let_def dest!: spec[of _ "[]"])
  then show ?thesis using run by (simp add: c_def r0_def)
qed

end
