(* ===== verification/Destinations.thy ===== *)
theory Destinations
imports Config Synology_Safety
begin

text \<open>
  \<open>app/services/destinations.py\<close> on the table of \<open>app/db/models/storage_destination.py\<close>: the
  folders a recruiter's recordings may be stored in.  The world pairs the file station's with the
  table; an exception discards what a session had flushed, so rows change only on return.
\<close>

section \<open>Rows\<close>

record storage_destination =
  sd_id :: string
  sd_recruiter_id :: string
  sd_canonical_path :: string
  sd_display_name :: string
  sd_writable :: bool
  sd_symlink_safe :: bool
  sd_created_at :: instant
  sd_validated_at :: instant

datatype rejected =
    Roots_malformed
  | Roots_not_configured
  | Preflight_unsatisfied
  | Duplicate_paths
  | Not_an_allowed_root
  | Destination_unavailable
  | Outside_roots
  | Failed_live_validation
  | Limit_not_positive

datatype dest_error = Rejected rejected | Nas nas_error

record 'w dest_world =
  dw_nas :: "'w \<times> nas_request list"
  dw_rows :: "storage_destination list"

type_synonym ('w, 'a) dest_io = "('w dest_world, dest_error, 'a) io"

definition on_nas :: "('w, 'a) nas_io \<Rightarrow> ('w, 'a) dest_io" where
  "on_nas m = (\<lambda>s. case m (dw_nas s) of
      (Inl e, n) \<Rightarrow> (Inl (Nas e), s\<lparr>dw_nas := n\<rparr>)
    | (Inr x, n) \<Rightarrow> (Inr x, s\<lparr>dw_nas := n\<rparr>))"

section \<open>Allowed roots\<close>

definition roots_of :: "settings \<Rightarrow> recruiter_config \<Rightarrow> (dest_error, string list) result" where
  "roots_of st rc = (case resolve_synology_roots (Some st) (Some rc) of
      Inl e \<Rightarrow> Inl (Rejected Roots_malformed) | Inr roots \<Rightarrow> Inr roots)"

fun require_allowed_interview_path :: "string list \<Rightarrow> string \<Rightarrow> string option" where
  "require_allowed_interview_path [] path = None"
| "require_allowed_interview_path (root # roots) path =
     (case canonical_under_root root path of
        Inr _ \<Rightarrow> Some root
      | Inl _ \<Rightarrow> require_allowed_interview_path roots path)"

definition is_allowed_interview_path :: "string list \<Rightarrow> string \<Rightarrow> bool" where
  "is_allowed_interview_path roots path \<longleftrightarrow> require_allowed_interview_path roots path \<noteq> None"

text \<open>\<open>text LIKE pattern\<close> of the database, with its default escape character.\<close>

fun sql_like :: "string \<Rightarrow> string \<Rightarrow> bool" where
  "sql_like [] s = (s = [])"
| "sql_like (p # ps) [] = (p = CHR ''%'' \<and> sql_like ps [])"
| "sql_like (p # ps) (c # cs) =
     (if p = CHR ''%'' then sql_like ps (c # cs) \<or> sql_like (p # ps) cs
      else if p = CHR ''_'' then sql_like ps cs
      else if p = CHR 0x5C then (case ps of e # qs \<Rightarrow> e = c \<and> sql_like qs cs | [] \<Rightarrow> False)
      else p = c \<and> sql_like ps cs)"

definition allowed_destination_clause :: "string list \<Rightarrow> string \<Rightarrow> bool" where
  "allowed_destination_clause roots path \<longleftrightarrow>
     list_ex (\<lambda>root. path = root \<or> sql_like (root @ ''/%'') path) roots"

section \<open>Operations\<close>

fun all_preflights :: "'w dsm \<Rightarrow> string list \<Rightarrow> ('w, synology_preflight list) nas_io" where
  "all_preflights d [] = io_return []"
| "all_preflights d (root # roots) =
     io_bind (preflight d root) (\<lambda>x.
     io_bind (all_preflights d roots) (\<lambda>xs. io_return (x # xs)))"

definition dest_preflight :: "'w dsm \<Rightarrow> settings \<Rightarrow> recruiter_config \<Rightarrow> ('w, unit) dest_io" where
  "dest_preflight d st rc =
     io_bind (io_lift (roots_of st rc)) (\<lambda>roots.
     io_guard (roots \<noteq> []) (Rejected Roots_not_configured)
      (io_bind (on_nas (all_preflights d roots)) (\<lambda>checks.
       io_guard (list_all pf_api_available checks \<and> list_all pf_root_exists checks \<and>
                 list_all pf_root_writable checks \<and> list_all pf_share_links_available checks)
         (Rejected Preflight_unsatisfied) (io_return ()))))"

fun discover_roots :: "'w dsm \<Rightarrow> settings \<Rightarrow> int \<Rightarrow> string list \<Rightarrow> ('w, synology_folder list) nas_io" where
  "discover_roots d st per_root [] = io_return []"
| "discover_roots d st per_root (root # roots) =
     io_bind (discover_folders d root (st_synology_discovery_max_depth st)
        (st_synology_discovery_max_pages st) per_root 50) (\<lambda>found.
     io_bind (discover_roots d st per_root roots) (\<lambda>rest.
       io_return (\<lparr>sf_path = root, sf_name = last (split_on CHR ''/'' root), sf_writable = True, sf_symlink = False,
                   sf_directory = True\<rparr> # found @ rest)))"

text \<open>\<open>_persist\<close>: the row of the recruiter and path is updated or added; the identifier is fresh.\<close>

definition persist ::
  "instant \<Rightarrow> recruiter_config \<Rightarrow> string \<times> synology_folder \<Rightarrow> storage_destination list \<Rightarrow>
   storage_destination \<times> storage_destination list" where
  "persist now rc x rows = (case x of (new_id, f) \<Rightarrow>
     let same = (\<lambda>r. sd_recruiter_id r = rc_id rc \<and> sd_canonical_path r = sf_path f);
         refresh = (\<lambda>r. r\<lparr>sd_display_name := sf_name f, sd_writable := sf_writable f,
                          sd_symlink_safe := \<not> sf_symlink f, sd_validated_at := now\<rparr>)
     in case find same rows of
          Some r \<Rightarrow> (refresh r, update_where (\<lambda>x. sd_id x = sd_id r) refresh rows)
        | None \<Rightarrow>
            (let r = \<lparr>sd_id = new_id, sd_recruiter_id = rc_id rc, sd_canonical_path = sf_path f,
                      sd_display_name = sf_name f, sd_writable = sf_writable f,
                      sd_symlink_safe = \<not> sf_symlink f, sd_created_at = now, sd_validated_at = now\<rparr>
             in (r, rows @ [r])))"

fun persist_all ::
  "instant \<Rightarrow> recruiter_config \<Rightarrow> (string \<times> synology_folder) list \<Rightarrow> storage_destination list \<Rightarrow>
   storage_destination list \<times> storage_destination list" where
  "persist_all now rc [] rows = ([], rows)"
| "persist_all now rc (x # xs) rows =
     (case persist now rc x rows of (r, rows1) \<Rightarrow>
        (case persist_all now rc xs rows1 of (rs, rows2) \<Rightarrow> (r # rs, rows2)))"

definition admissible :: "string list \<Rightarrow> synology_folder \<Rightarrow> bool" where
  "admissible roots f \<longleftrightarrow> \<not> sf_symlink f \<and> sf_writable f \<and> is_allowed_interview_path roots (sf_path f)"

text \<open>The admissible folders, each with a fresh identifier.\<close>

definition candidates_of :: "(nat \<Rightarrow> string) \<Rightarrow> string list \<Rightarrow> synology_folder list \<Rightarrow> (string \<times> synology_folder) list" where
  "candidates_of fresh roots folders =
     map (\<lambda>(i, f). (fresh i, f)) (filter (\<lambda>(i, f). admissible roots f) (enumerate 0 folders))"

definition discover ::
  "'w dsm \<Rightarrow> settings \<Rightarrow> instant \<Rightarrow> (nat \<Rightarrow> string) \<Rightarrow> recruiter_config \<Rightarrow> ('w, storage_destination list) dest_io" where
  "discover d st now fresh rc =
     io_bind (dest_preflight d st rc) (\<lambda>_.
     io_bind (io_lift (roots_of st rc)) (\<lambda>roots.
     io_bind (on_nas (discover_roots d st
        (max 1 (st_synology_discovery_max_results st div int (length roots))) roots)) (\<lambda>folders.
     io_guard (distinct (map sf_path folders)) (Rejected Duplicate_paths)
      (\<lambda>s. case persist_all now rc (candidates_of fresh roots folders) (dw_rows s) of
            (found, rows1) \<Rightarrow> (Inr found, s\<lparr>dw_rows := rows1\<rparr>)))))"

definition resolve_row :: "recruiter_config \<Rightarrow> string \<Rightarrow> storage_destination list \<Rightarrow> storage_destination option" where
  "resolve_row rc i rows =
     find (\<lambda>r. sd_id r = i \<and> sd_recruiter_id r = rc_id rc \<and> sd_writable r \<and> sd_symlink_safe r) rows"

text \<open>The live check turns the file station's refusals into a rejection; a lost connection raises.\<close>

fun refusal :: "nas_error \<Rightarrow> bool" where
  "refusal (Api_error _ _) = True"
| "refusal (Path_error _) = True"
| "refusal Not_writable = True"
| "refusal Bad_bounds = True"
| "refusal _ = False"

definition live_validation :: "'w dsm \<Rightarrow> string \<Rightarrow> string \<Rightarrow> ('w, synology_folder) dest_io" where
  "live_validation d root path =
     io_catch (on_nas (validate_existing_directory_under_root d root path))
       (\<lambda>e. case e of Nas n \<Rightarrow> if refusal n then io_raise (Rejected Failed_live_validation) else io_raise e
                    | _ \<Rightarrow> io_raise e)"

definition resolve_destination ::
  "'w dsm \<Rightarrow> settings \<Rightarrow> recruiter_config \<Rightarrow> string \<Rightarrow> ('w, storage_destination) dest_io" where
  "resolve_destination d st rc i = (\<lambda>s.
     case resolve_row rc i (dw_rows s) of
       None \<Rightarrow> (Inl (Rejected Destination_unavailable), s)
     | Some r \<Rightarrow>
         (case roots_of st rc of
            Inl e \<Rightarrow> (Inl (Rejected Outside_roots), s)
          | Inr roots \<Rightarrow>
              (case require_allowed_interview_path roots (sd_canonical_path r) of
                 None \<Rightarrow> (Inl (Rejected Outside_roots), s)
               | Some root \<Rightarrow>
                   io_bind (live_validation d root (sd_canonical_path r)) (\<lambda>_. io_return r) s)))"

definition create_destination ::
  "'w dsm \<Rightarrow> settings \<Rightarrow> instant \<Rightarrow> string \<Rightarrow> recruiter_config \<Rightarrow> string \<Rightarrow> string \<Rightarrow> ('w, storage_destination) dest_io" where
  "create_destination d st now new_id rc parent_id name =
     io_bind (resolve_destination d st rc parent_id) (\<lambda>parent.
     io_bind (io_lift (roots_of st rc)) (\<lambda>roots.
     io_guard (sd_canonical_path parent \<in> set roots) (Rejected Not_an_allowed_root)
      (io_bind (on_nas (create_folder_under_root d (sd_canonical_path parent) (sd_canonical_path parent) name))
        (\<lambda>folder s. case persist now rc (new_id, folder) (dw_rows s) of
            (r, rows1) \<Rightarrow> (Inr r, s\<lparr>dw_rows := rows1\<rparr>)))))"

text \<open>\<open>rank\<close> is the collation of the database.\<close>

definition list_allowed_candidates ::
  "settings \<Rightarrow> (string \<Rightarrow> nat) \<Rightarrow> recruiter_config \<Rightarrow> int option \<Rightarrow> storage_destination list \<Rightarrow>
   (dest_error, storage_destination list) result" where
  "list_allowed_candidates st rank rc limit rows =
     (let max_results = (case limit of Some n \<Rightarrow> if n = 0 then st_synology_discovery_max_results st else n
                         | None \<Rightarrow> st_synology_discovery_max_results st) in
      if max_results < 1 then Inl (Rejected Limit_not_positive)
      else res_bind (roots_of st rc) (\<lambda>roots.
        Inr (take (nat max_results) (sort_key (rank \<circ> sd_canonical_path)
          (filter (\<lambda>r. sd_recruiter_id r = rc_id rc \<and> sd_writable r \<and> sd_symlink_safe r \<and>
                       allowed_destination_clause roots (sd_canonical_path r)) rows)))))"

section \<open>Facts\<close>

lemma require_allowed_Some:
  "require_allowed_interview_path roots path = Some root \<Longrightarrow>
     root \<in> set roots \<and> (\<exists>c. canonical_under_root root path = Inr c)"
  by (induction roots) (auto split: sum.splits)

lemma allowed_iff:
  "is_allowed_interview_path roots path \<longleftrightarrow> (\<exists>root\<in>set roots. \<exists>c. canonical_under_root root path = Inr c)"
  unfolding is_allowed_interview_path_def by (induction roots) (auto split: sum.splits)

text \<open>The key of a row is its recruiter and path; persisting keeps it unique.\<close>

definition dest_key :: "storage_destination \<Rightarrow> string \<times> string" where
  "dest_key r = (sd_recruiter_id r, sd_canonical_path r)"

definition owned_by :: "recruiter_config \<Rightarrow> string list \<Rightarrow> storage_destination \<Rightarrow> bool" where
  "owned_by rc roots r \<longleftrightarrow> sd_recruiter_id r = rc_id rc \<and> sd_writable r \<and> sd_symlink_safe r \<and>
     is_allowed_interview_path roots (sd_canonical_path r)"

lemma persist_ok:
  assumes "persist now rc (i, f) rows = (r, rows1)" and "admissible roots f"
    and "distinct (map dest_key rows)" and "distinct (map sd_id rows)" and "i \<notin> set (map sd_id rows)"
  shows "owned_by rc roots r" "r \<in> set rows1" "sd_canonical_path r = sf_path f"
    "distinct (map dest_key rows1)" "distinct (map sd_id rows1)"
    "set (map sd_id rows1) \<subseteq> insert i (set (map sd_id rows))"
    "\<And>x. x \<in> set rows \<Longrightarrow> dest_key x \<noteq> (rc_id rc, sf_path f) \<Longrightarrow> x \<in> set rows1"
proof -
  have "owned_by rc roots r \<and> r \<in> set rows1 \<and> sd_canonical_path r = sf_path f \<and>
    distinct (map dest_key rows1) \<and> distinct (map sd_id rows1) \<and>
    set (map sd_id rows1) \<subseteq> insert i (set (map sd_id rows)) \<and>
    (\<forall>x\<in>set rows. dest_key x \<noteq> (rc_id rc, sf_path f) \<longrightarrow> x \<in> set rows1)"
  proof (cases "find (\<lambda>r. sd_recruiter_id r = rc_id rc \<and> sd_canonical_path r = sf_path f) rows")
    case None
    then have "(rc_id rc, sf_path f) \<notin> dest_key ` set rows"
      by (auto simp: find_None_iff dest_key_def)
    then show ?thesis
      using assms None
      by (auto simp: persist_def Let_def owned_by_def admissible_def dest_key_def)
  next
    case (Some x)
    then have x: "x \<in> set rows" "sd_recruiter_id x = rc_id rc" "sd_canonical_path x = sf_path f"
      by (auto simp: find_Some_iff)
    define refresh where "refresh = (\<lambda>r :: storage_destination. r\<lparr>sd_display_name := sf_name f, sd_writable := sf_writable f,
        sd_symlink_safe := \<not> sf_symlink f, sd_validated_at := now\<rparr>)"
    have run: "r = refresh x" "rows1 = update_where (\<lambda>y. sd_id y = sd_id x) refresh rows"
      using assms(1) Some by (auto simp: persist_def Let_def refresh_def)
    have keys: "map dest_key rows1 = map dest_key rows" "map sd_id rows1 = map sd_id rows"
      unfolding run by (auto intro!: map_update_where simp: refresh_def dest_key_def)
    have other: "y \<in> set rows1" if "y \<in> set rows" "dest_key y \<noteq> (rc_id rc, sf_path f)" for y
    proof -
      have "sd_id y \<noteq> sd_id x"
        using same_key[OF assms(4) that(1) x(1)] that(2) x by (auto simp: dest_key_def)
      then show ?thesis unfolding run using that(1) by (intro in_update_other) auto
    qed
    have "r \<in> set rows1" unfolding run using x(1) by (auto simp: in_update_where)
    then show ?thesis
      using assms(2-4) keys other x
      by (auto simp: run(1) refresh_def owned_by_def admissible_def simp del: set_map)
  qed
  then show "owned_by rc roots r" "r \<in> set rows1" "sd_canonical_path r = sf_path f"
    "distinct (map dest_key rows1)" "distinct (map sd_id rows1)"
    "set (map sd_id rows1) \<subseteq> insert i (set (map sd_id rows))"
    "\<And>x. x \<in> set rows \<Longrightarrow> dest_key x \<noteq> (rc_id rc, sf_path f) \<Longrightarrow> x \<in> set rows1"
    by blast+
qed

lemma persist_all_ok:
  assumes "persist_all now rc xs rows = (found, rows1)" and "\<forall>x\<in>set xs. admissible roots (snd x)"
    and "distinct (map dest_key rows)" and "distinct (map sd_id rows)"
    and "distinct (map fst xs)" and "set (map fst xs) \<inter> set (map sd_id rows) = {}"
    and "distinct (map (sf_path \<circ> snd) xs)"
  shows "(\<forall>r\<in>set found. owned_by rc roots r \<and> r \<in> set rows1) \<and>
    map sd_canonical_path found = map (sf_path \<circ> snd) xs \<and>
    distinct (map dest_key rows1) \<and> distinct (map sd_id rows1) \<and>
    (\<forall>x\<in>set rows. sd_recruiter_id x \<noteq> rc_id rc \<or> sd_canonical_path x \<notin> sf_path ` snd ` set xs \<longrightarrow>
       x \<in> set rows1)"
  using assms
proof (induction xs arbitrary: rows found)
  case Nil
  then show ?case by auto
next
  case (Cons x xs)
  obtain i f where x: "x = (i, f)" by (cases x)
  obtain r rows2 rs where run: "persist now rc (i, f) rows = (r, rows2)"
    "persist_all now rc xs rows2 = (rs, rows1)" "found = r # rs"
    using Cons.prems(1) x by (auto split: prod.splits)
  note p = persist_ok[OF run(1), of roots]
  have r: "owned_by rc roots r" "r \<in> set rows2" "sd_canonical_path r = sf_path f"
    "distinct (map dest_key rows2)" "distinct (map sd_id rows2)"
    "set (map sd_id rows2) \<subseteq> insert i (set (map sd_id rows))"
    "\<And>y. y \<in> set rows \<Longrightarrow> dest_key y \<noteq> (rc_id rc, sf_path f) \<Longrightarrow> y \<in> set rows2"
    using p Cons.prems x by auto
  have disj: "set (map fst xs) \<inter> set (map sd_id rows2) = {}"
    using r(6) Cons.prems(5,6) unfolding x by (simp del: set_map) blast
  have IH: "(\<forall>r\<in>set rs. owned_by rc roots r \<and> r \<in> set rows1) \<and>
    map sd_canonical_path rs = map (sf_path \<circ> snd) xs \<and>
    distinct (map dest_key rows1) \<and> distinct (map sd_id rows1) \<and>
    (\<forall>x\<in>set rows2. sd_recruiter_id x \<noteq> rc_id rc \<or> sd_canonical_path x \<notin> sf_path ` snd ` set xs \<longrightarrow>
       x \<in> set rows1)"
    using Cons.IH[OF run(2) _ r(4,5) _ disj] Cons.prems(2,5,7) by simp
  have "sf_path f \<notin> sf_path ` snd ` set xs" using Cons.prems(7) x by auto
  then have "r \<in> set rows1" using IH r(2,3) by auto
  moreover have "y \<in> set rows1" if "y \<in> set rows"
      "sd_recruiter_id y \<noteq> rc_id rc \<or> sd_canonical_path y \<notin> sf_path ` snd ` set (x # xs)" for y
  proof -
    have "y \<in> set rows2" using r(7)[OF that(1)] that(2) x by (auto simp: dest_key_def)
    then show ?thesis using IH that(2) by auto
  qed
  ultimately show ?case using IH r(1,3) run(3) x by auto
qed

section \<open>Properties\<close>

lemma validated_existing:
  assumes "validate_existing_directory_under_root d root p n = (Inr x, n1)"
  shows "\<exists>root1 c w. canonical_under_root root1 p = Inr c \<and> get_info d c w = (Inr x, n1) \<and>
    sf_path x = c \<and> sf_directory x \<and> sf_writable x \<and> \<not> sf_symlink x"
  using assms unfolding validate_existing_directory_under_root_def
  by (elim io_bind_cases io_lift_bindE)
    (auto simp: io_guard_app split: if_splits elim!: io_bind_cases, metis prod.collapse)

lemma resolve_destination_sound:
  assumes "resolve_destination d st rc i s = (Inr r, s1)"
  shows "r \<in> set (dw_rows s) \<and> sd_id r = i \<and> dw_rows s1 = dw_rows s \<and>
    (\<exists>roots. roots_of st rc = Inr roots \<and> owned_by rc roots r) \<and>
    (\<exists>root c f w w1. below root c \<and> canonical (sd_canonical_path r) = Inr c \<and>
       get_info d c w = (Inr f, w1) \<and> sf_path f = c \<and> sf_directory f \<and> sf_writable f \<and> \<not> sf_symlink f)"
proof -
  obtain roots root where run: "resolve_row rc i (dw_rows s) = Some r" "roots_of st rc = Inr roots"
    "require_allowed_interview_path roots (sd_canonical_path r) = Some root"
    "\<exists>x. live_validation d root (sd_canonical_path r) s = (Inr x, s1)"
    using assms by (auto simp: resolve_destination_def io_bind_Inr_iff split: option.splits sum.splits)
  have row: "r \<in> set (dw_rows s)" "sd_id r = i" "sd_recruiter_id r = rc_id rc" "sd_writable r" "sd_symlink_safe r"
    using run(1) by (auto simp: resolve_row_def find_Some_iff)
  have owned: "owned_by rc roots r"
    using row run(3) by (simp add: owned_by_def is_allowed_interview_path_def)
  obtain x where "live_validation d root (sd_canonical_path r) s = (Inr x, s1)" using run(4) by blast
  then have live: "validate_existing_directory_under_root d root (sd_canonical_path r) (dw_nas s)
      = (Inr x, dw_nas s1)" "dw_rows s1 = dw_rows s"
    by (auto simp: live_validation_def io_catch_def on_nas_def split: prod.splits sum.splits dest_error.splits if_splits)
  obtain root1 c w w1 where v: "canonical_under_root root1 (sd_canonical_path r) = Inr c"
    "get_info d c w = (Inr x, w1)" "sf_path x = c" "sf_directory x" "sf_writable x" "\<not> sf_symlink x"
    using validated_existing[OF live(1)] by blast
  have c: "below root1 c" "canonical (sd_canonical_path r) = Inr c"
    using under_root_Inr[OF v(1)] by auto
  show ?thesis using row owned run(2) live(2) c v(2-6) by blast
qed

text \<open>
  Property C33.  A destination that resolves is the stored row of that identifier, belongs to the
  recruiter, is marked writable and free of redirection, lies below one of the recruiter's roots,
  and the file station has just described it as a writable directory that is no redirection.
\<close>

theorem resolved_destination_is_allowed:
  assumes "resolve_destination d st rc i s = (Inr r, s1)"
  shows "r \<in> set (dw_rows s) \<and> sd_id r = i \<and> dw_rows s1 = dw_rows s \<and>
    (\<exists>roots. roots_of st rc = Inr roots \<and> owned_by rc roots r) \<and>
    (\<exists>root c f w w1. below root c \<and> canonical (sd_canonical_path r) = Inr c \<and>
       get_info d c w = (Inr f, w1) \<and> sf_path f = c \<and> sf_directory f \<and> sf_writable f \<and> \<not> sf_symlink f)"
  by (rule resolve_destination_sound[OF assms])

definition rows_are :: "storage_destination list \<Rightarrow> 'w dest_world \<Rightarrow> bool" where
  "rows_are rows s \<longleftrightarrow> dw_rows s = rows"

lemma keeps_on_nas [keeps_rules]: "keeps (rows_are rows) (on_nas m)"
  by (auto simp: keeps_def rows_are_def on_nas_def split: prod.splits sum.splits)

lemma keeps_dest_preflight [keeps_rules]: "keeps (rows_are rows) (dest_preflight d st rc)"
  unfolding dest_preflight_def by (intro keeps_rules)

lemma keeps_rows: "keeps (rows_are (dw_rows s)) m \<Longrightarrow> m s = (u, s1) \<Longrightarrow> dw_rows s1 = dw_rows s"
  by (auto simp: keeps_def rows_are_def)

lemma enumerate_filter:
  "distinct (map fst (filter P (enumerate n xs)))"
  "distinct (map f xs) \<Longrightarrow> distinct (map (f \<circ> snd) (filter P (enumerate n xs)))"
proof -
  show "distinct (map fst (filter P (enumerate n xs)))"
    by (simp add: distinct_map_filter)
  assume "distinct (map f xs)"
  then have "distinct (map (f \<circ> snd) (enumerate n xs))"
    by (metis list.map_comp map_snd_enumerate)
  then show "distinct (map (f \<circ> snd) (filter P (enumerate n xs)))"
    by (rule distinct_map_filter)
qed

lemma discover_returned:
  assumes "discover d st now fresh rc s = (Inr found, s1)"
  shows "\<exists>roots folders. roots_of st rc = Inr roots \<and> distinct (map sf_path folders) \<and>
    persist_all now rc (candidates_of fresh roots folders) (dw_rows s) = (found, dw_rows s1)"
proof -
  obtain u roots s0 folders s2 where pre: "dest_preflight d st rc s = (Inr u, s0)" and roots: "roots_of st rc = Inr roots"
    and nas: "on_nas (discover_roots d st (max 1 (st_synology_discovery_max_results st div int (length roots))) roots) s0 = (Inr folders, s2)"
    and ok: "distinct (map sf_path folders)"
    and p: "persist_all now rc (candidates_of fresh roots folders) (dw_rows s2) = (found, dw_rows s1)"
    using assms by (auto simp: discover_def io_bind_Inr_iff io_guard_Inr_iff io_lift_def case_prod_unfold)
  have "dw_rows s2 = dw_rows s" using keeps_rows[OF keeps_dest_preflight pre] keeps_rows[OF keeps_on_nas nas] by simp
  then show ?thesis using roots ok p by auto
qed

lemma discover_raised:
  "discover d st now fresh rc s = (Inl e, s1) \<Longrightarrow> dw_rows s1 = dw_rows s"
  by (auto simp: discover_def io_bind_def io_guard_def io_lift_def io_raise_def split: prod.splits sum.splits if_splits
      dest!: keeps_rows[OF keeps_dest_preflight] keeps_rows[OF keeps_on_nas])

lemma candidates_distinct:
  assumes "distinct (map sf_path folders)" and "inj fresh"
  shows "distinct (map fst (candidates_of fresh roots folders))" "distinct (map (sf_path \<circ> snd) (candidates_of fresh roots folders))"
proof -
  let ?xs = "filter (\<lambda>(i, f). admissible roots f) (enumerate 0 folders)"
  have "map fst (candidates_of fresh roots folders) = map fresh (map fst ?xs)"
    and "map (sf_path \<circ> snd) (candidates_of fresh roots folders) = map (sf_path \<circ> snd) ?xs"
    by (auto simp: candidates_of_def)
  moreover have "distinct (map fresh ys)" if "distinct ys" for ys
    using that inj_on_subset[OF assms(2), of "set ys"] by (simp add: distinct_map)
  ultimately show "distinct (map fst (candidates_of fresh roots folders))" "distinct (map (sf_path \<circ> snd) (candidates_of fresh roots folders))"
    using enumerate_filter(1) enumerate_filter(2)[OF assms(1)] by metis+
qed

text \<open>
  Property C34.  An inventory that returns has left the table with one row per recruiter and path; its
  result are exactly stored rows of this recruiter, writable, free of redirection and below an
  allowed root, one for each admissible folder found; rows of other recruiters are untouched, and
  an inventory that raises changes no row.
\<close>

theorem inventory_is_confined:
  assumes "discover d st now fresh rc s = (v, s1)"
    and "distinct (map dest_key (dw_rows s))" and "distinct (map sd_id (dw_rows s))"
    and "inj fresh" and "range fresh \<inter> set (map sd_id (dw_rows s)) = {}"
  shows "distinct (map dest_key (dw_rows s1)) \<and>
    (\<forall>e. v = Inl e \<longrightarrow> dw_rows s1 = dw_rows s) \<and>
    (\<forall>found. v = Inr found \<longrightarrow>
       (\<exists>roots. roots_of st rc = Inr roots \<and> (\<forall>r\<in>set found. owned_by rc roots r \<and> r \<in> set (dw_rows s1)) \<and>
         distinct (map sd_canonical_path found)) \<and>
       (\<forall>x\<in>set (dw_rows s). sd_recruiter_id x \<noteq> rc_id rc \<longrightarrow> x \<in> set (dw_rows s1)))"
proof (cases v)
  case (Inl e)
  then show ?thesis using discover_raised[OF assms(1)[unfolded Inl]] assms(2) by simp
next
  case (Inr found)
  then obtain roots folders where roots: "roots_of st rc = Inr roots" and folders: "distinct (map sf_path folders)"
    and p: "persist_all now rc (candidates_of fresh roots folders) (dw_rows s) = (found, dw_rows s1)"
    using discover_returned assms(1) by blast
  note d = candidates_distinct[OF folders assms(4), of roots]
  have "set (map fst (candidates_of fresh roots folders)) \<inter> set (map sd_id (dw_rows s)) = {}"
    proof -
    have "set (map fst (candidates_of fresh roots folders)) \<subseteq> range fresh" by (auto simp: candidates_of_def)
    then show ?thesis using assms(5) by auto
  qed
  moreover have "\<forall>x\<in>set (candidates_of fresh roots folders). admissible roots (snd x)" by (auto simp: candidates_of_def)
  ultimately show ?thesis using persist_all_ok[OF p _ assms(2,3) d(1) _ d(2)] d(2) roots Inr by auto
qed

section \<open>A concrete file station\<close>

fun demo_nas_answer :: "nas_request \<Rightarrow> nat \<Rightarrow> http_response option \<times> nat" where
  "demo_nas_answer Query_api n = (Some \<lparr>resp_status = 200, resp_json = Some (JObj [(''data'', JObj
     [(''SYNO.FileStation.Info'', JNull), (''SYNO.FileStation.List'', JNull),
      (''SYNO.FileStation.Sharing'', JNull)])])\<rparr>, n)"
| "demo_nas_answer (Get_info p) n = (Some \<lparr>resp_status = 200, resp_json = Some (JObj [(''data'', JObj
     [(''files'', JList [JObj [(''path'', JStr p), (''isdir'', JBool True),
        (''additional'', JObj [(''perm'', JObj [(''write'', JBool True)])])]])])])\<rparr>, n)"
| "demo_nas_answer (List_dirs p off len) n = (Some \<lparr>resp_status = 200, resp_json = Some (JObj [(''data'',
     JObj [(''files'', JList []), (''total'', JInt 0)])])\<rparr>, n)"
| "demo_nas_answer _ n = (None, n)"

definition demo_nas :: "nat dsm" where
  "demo_nas = \<lparr>answer = demo_nas_answer, show_json = (\<lambda>_. '''')\<rparr>"

definition demo_roots :: recruiter_config where
  "demo_roots = sample_recruiter\<lparr>rc_synology_interview_roots := Value [''/home/a'']\<rparr>"

definition demo_world :: "nat dest_world" where
  "demo_world = \<lparr>dw_nas = (0, []), dw_rows = []\<rparr>"

definition demo_fresh :: "nat \<Rightarrow> string" where "demo_fresh n = replicate n CHR ''i''"

lemma demo_inventory:
  "map_sum id (map sd_canonical_path)
     (fst (discover demo_nas (default_settings ''S'') 7 demo_fresh demo_roots demo_world)) = Inr [''/home/a'']"
  by code_simp

theorem inventory_witness:
  "\<exists>found s1. discover demo_nas (default_settings ''S'') 7 demo_fresh demo_roots demo_world = (Inr found, s1) \<and>
     map sd_canonical_path found = [''/home/a''] \<and> set found \<subseteq> set (dw_rows s1)"
proof -
  obtain v s1 where run:
    "discover demo_nas (default_settings ''S'') 7 demo_fresh demo_roots demo_world = (v, s1)"
    by (cases "discover demo_nas (default_settings ''S'') 7 demo_fresh demo_roots demo_world")
  have "inj demo_fresh"
    by (rule inj_on_inverseI[of _ length]) (simp add: demo_fresh_def)
  then show ?thesis
    using inventory_is_confined[OF run] demo_inventory run
    by (cases v) (auto simp: demo_world_def)
qed

definition demo_row :: storage_destination where
  "demo_row = \<lparr>sd_id = ''d1'', sd_recruiter_id = ''1'', sd_canonical_path = ''/home/a/x'',
     sd_display_name = ''x'', sd_writable = True, sd_symlink_safe = True, sd_created_at = 0,
     sd_validated_at = 0\<rparr>"

lemma demo_resolved:
  "map_sum id sd_id (fst (resolve_destination demo_nas (default_settings ''S'') demo_roots ''d1''
     (demo_world\<lparr>dw_rows := [demo_row]\<rparr>))) = Inr ''d1''"
  by code_simp

theorem resolved_destination_witness:
  "\<exists>r s1. resolve_destination demo_nas (default_settings ''S'') demo_roots ''d1''
       (demo_world\<lparr>dw_rows := [demo_row]\<rparr>) = (Inr r, s1) \<and> r = demo_row"
proof -
  obtain v s1 where run: "resolve_destination demo_nas (default_settings ''S'') demo_roots ''d1''
       (demo_world\<lparr>dw_rows := [demo_row]\<rparr>) = (v, s1)"
    by (cases "resolve_destination demo_nas (default_settings ''S'') demo_roots ''d1''
       (demo_world\<lparr>dw_rows := [demo_row]\<rparr>)")
  then obtain r where r: "v = Inr r" using demo_resolved by (cases v) auto
  then have "r \<in> set (dw_rows (demo_world\<lparr>dw_rows := [demo_row]\<rparr>))"
    using resolved_destination_is_allowed run by blast
  then show ?thesis using run r by (simp add: demo_world_def)
qed

text \<open>
  The filter of \<open>list_allowed_candidates\<close> compares paths with an unescaped pattern, so an underscore
  in a root stands for any character: it admits a folder outside every allowed root.
\<close>

lemma like_admits_a_foreign_folder:
  "allowed_destination_clause [''/home/hr_a''] ''/home/hrXa/b'' \<and>
   \<not> is_allowed_interview_path [''/home/hr_a''] ''/home/hrXa/b''"
  by code_simp

end
