(* ===== verification/Mattermost.thy ===== *)
theory Mattermost
imports Prelude
begin

text \<open>
  The chat client \<open>MattermostClient\<close> of \<open>app/tools/mattermost.py\<close>, for an arbitrary server.  The type
  of the message bodies is a parameter: its callers build them.
\<close>

section \<open>Requests\<close>

datatype 'm mm_request =
    Mm_user string
  | Mm_direct string string
  | Mm_channel string
  | Mm_members string
  | Mm_posts string
  | Mm_post string 'm string string

fun mm_post_request :: "'m mm_request \<Rightarrow> bool" where
  "mm_post_request (Mm_post _ _ _ _) = True"
| "mm_post_request _ = False"

datatype mm_error =
    Mm_incomplete
  | Mm_malformed
  | Mm_wrong_name
  | Mm_not_direct
  | Mm_membership
  | Mm_binding_changed
  | Mm_transport
  | Mm_status int
  | Mm_type_error

record ('w, 'm) mattermost =
  mm_base_url :: string
  mm_bot_user_id :: string
  mm_answer :: "'m mm_request \<Rightarrow> 'w \<Rightarrow> http_response option \<times> 'w"

type_synonym ('w, 'm) mm_state = "'w \<times> 'm mm_request list"
type_synonym ('w, 'm, 'a) mm_io = "(('w, 'm) mm_state, mm_error, 'a) io"

record mm_posted =
  mp_channel_id :: string
  mp_post_id :: string
  mp_thread_id :: string

definition mm_call :: "('w, 'm) mattermost \<Rightarrow> 'm mm_request \<Rightarrow> ('w, 'm, json) mm_io" where
  "mm_call c q = (\<lambda>(w, log). case mm_answer c q w of
      (None, w1) \<Rightarrow> (Inl Mm_transport, (w1, log @ [q]))
    | (Some r, w1) \<Rightarrow>
        (if is_error_status (resp_status r) then Inl (Mm_status (resp_status r))
         else (case resp_json r of None \<Rightarrow> Inl Mm_malformed | Some j \<Rightarrow> Inr j), (w1, log @ [q])))"

definition json_request :: "('w, 'm) mattermost \<Rightarrow> 'm mm_request \<Rightarrow> ('w, 'm, json) mm_io" where
  "json_request c q = io_bind (mm_call c q) (\<lambda>j. io_guard (is_obj j) Mm_malformed (io_return j))"

definition list_request :: "('w, 'm) mattermost \<Rightarrow> 'm mm_request \<Rightarrow> ('w, 'm, json list) mm_io" where
  "list_request c q =
     io_bind (mm_call c q) (\<lambda>j. io_guard (is_list j) Mm_malformed (io_return (jitems j)))"

section \<open>Names\<close>

text \<open>The order of texts by code points.\<close>

fun str_le :: "string \<Rightarrow> string \<Rightarrow> bool" where
  "str_le [] t = True"
| "str_le (a # s) [] = False"
| "str_le (a # s) (b # t) = ((of_char a :: nat) < of_char b \<or> (a = b \<and> str_le s t))"

definition direct_channel_name :: "string \<Rightarrow> string \<Rightarrow> string" where
  "direct_channel_name bot_id recruiter =
     (if str_le bot_id recruiter then bot_id @ ''__'' @ recruiter else recruiter @ ''__'' @ bot_id)"

definition matches_binding :: "json \<Rightarrow> string \<Rightarrow> (mm_error, bool) result" where
  "matches_binding channel binding =
     check_that (hashable (jget ''id'' channel) \<and> hashable (jget ''name'' channel)) Mm_type_error
       (Inr (JStr binding \<in> {jget ''id'' channel, jget ''name'' channel}))"

definition opt_blank :: "json \<Rightarrow> (json \<Rightarrow> string) \<Rightarrow> string" where
  "opt_blank j show = (if jtruthy j then (case j of JStr s \<Rightarrow> s | _ \<Rightarrow> show j) else '''')"

section \<open>Operations\<close>

definition probe_user :: "('w, 'm) mattermost \<Rightarrow> string \<Rightarrow> ('w, 'm, unit) mm_io" where
  "probe_user c user =
     io_guard (mm_base_url c \<noteq> '''' \<and> mm_bot_user_id c \<noteq> '''' \<and> user \<noteq> '''') Mm_incomplete
      (io_bind (json_request c (Mm_user user)) (\<lambda>j.
       io_guard (jget ''id'' j = JStr user) Mm_malformed (io_return ())))"

definition member_ids :: "json list \<Rightarrow> json set" where
  "member_ids members = jget ''user_id'' ` {m \<in> set members. is_obj m}"

definition validate_direct_channel ::
  "('w, 'm) mattermost \<Rightarrow> (json \<Rightarrow> string) \<Rightarrow> string \<Rightarrow> string \<Rightarrow> ('w, 'm, unit) mm_io" where
  "validate_direct_channel c show user channel_id =
     io_guard (mm_base_url c \<noteq> '''' \<and> mm_bot_user_id c \<noteq> '''' \<and> user \<noteq> '''' \<and> channel_id \<noteq> '''')
       Mm_incomplete
      (io_guard (sublist ''__'' channel_id \<longrightarrow>
                 channel_id = direct_channel_name (mm_bot_user_id c) user) Mm_wrong_name
       (io_bind (json_request c (if sublist ''__'' channel_id then Mm_direct (mm_bot_user_id c) user
                                 else Mm_channel channel_id)) (\<lambda>channel.
        io_bind (io_lift (matches_binding channel channel_id)) (\<lambda>bound.
        io_guard (bound \<and> jget ''type'' channel = JStr ''D'') Mm_not_direct
         (io_bind (list_request c (Mm_members (opt_blank (jget ''id'' channel) show))) (\<lambda>members.
          io_guard (\<forall>m\<in>set members. is_obj m \<longrightarrow> hashable (jget ''user_id'' m)) Mm_type_error
           (io_guard (member_ids members = {JStr (mm_bot_user_id c), JStr user} \<and> length members = 2)
             Mm_membership (io_return ()))))))))"

definition post_of :: "string \<Rightarrow> json \<Rightarrow> (mm_error, mm_posted) result" where
  "post_of channel_id payload =
     (case jtext (jget ''id'' payload) of
        None \<Rightarrow> Inl Mm_malformed
      | Some post_id \<Rightarrow>
          if post_id = '''' then Inl Mm_malformed
          else Inr \<lparr>mp_channel_id = channel_id, mp_post_id = post_id,
                    mp_thread_id = (case jtext (jget ''root_id'' payload) of
                       Some s \<Rightarrow> if s \<noteq> '''' then s else post_id | None \<Rightarrow> post_id)\<rparr>)"

fun json_values :: "json \<Rightarrow> json list" where
  "json_values (JObj ms) = map snd ms"
| "json_values _ = []"

definition find_pending_post ::
  "('w, 'm) mattermost \<Rightarrow> string \<Rightarrow> string \<Rightarrow> ('w, 'm, mm_posted option) mm_io" where
  "find_pending_post c channel_id pending =
     io_bind (json_request c (Mm_posts channel_id)) (\<lambda>payload.
       if \<not> is_obj (jget ''posts'' payload) then io_raise Mm_malformed
       else (case find (\<lambda>v. is_obj v \<and> jget ''pending_post_id'' v = JStr pending)
                    (json_values (jget ''posts'' payload)) of
               None \<Rightarrow> io_return None
             | Some v \<Rightarrow> io_bind (io_lift (post_of channel_id v)) (\<lambda>p. io_return (Some p))))"

definition create_post ::
  "('w, 'm) mattermost \<Rightarrow> string \<Rightarrow> 'm \<Rightarrow> string \<Rightarrow> string \<Rightarrow> ('w, 'm, mm_posted) mm_io" where
  "create_post c channel_id message root pending =
     io_bind (json_request c (Mm_post channel_id message root pending)) (\<lambda>j.
       io_lift (post_of channel_id j))"

text \<open>Delivery into a known channel: a post that carries the pending identifier already is reused.\<close>

definition deliver_post ::
  "('w, 'm) mattermost \<Rightarrow> string \<Rightarrow> 'm \<Rightarrow> string \<Rightarrow> string \<Rightarrow> ('w, 'm, mm_posted) mm_io" where
  "deliver_post c channel_id message root pending =
     (if pending = '''' then create_post c channel_id message root pending
      else io_bind (find_pending_post c channel_id pending) (\<lambda>existing.
        case existing of
          Some p \<Rightarrow> io_return p
        | None \<Rightarrow> create_post c channel_id message root pending))"

definition send_dm ::
  "('w, 'm) mattermost \<Rightarrow> string \<Rightarrow> 'm \<Rightarrow> string \<Rightarrow> string \<Rightarrow> string \<Rightarrow> ('w, 'm, mm_posted) mm_io" where
  "send_dm c user message root pending expected =
     io_guard (mm_base_url c \<noteq> '''' \<and> mm_bot_user_id c \<noteq> '''' \<and> user \<noteq> '''') Mm_incomplete
      (io_bind (json_request c (Mm_direct (mm_bot_user_id c) user)) (\<lambda>channel.
       case jtext (jget ''id'' channel) of
         None \<Rightarrow> io_raise Mm_malformed
       | Some channel_id \<Rightarrow>
           if channel_id = '''' then io_raise Mm_malformed
           else
             io_bind (if expected = '''' then io_return True
                      else io_lift (matches_binding channel expected)) (\<lambda>bound.
             io_guard bound Mm_binding_changed (deliver_post c channel_id message root pending))))"

section \<open>Facts\<close>

lemma str_le_total: "str_le s t \<or> str_le t s"
proof (induction s t rule: str_le.induct)
  case (3 a s b t)
  then show ?case by (metis less_linear of_char_eq_iff str_le.simps(3))
qed simp_all

lemma str_le_antisym: "str_le s t \<Longrightarrow> str_le t s \<Longrightarrow> s = t"
proof (induction s t rule: str_le.induct)
  case (1 t)
  then show ?case by (cases t) simp_all
qed auto

lemma direct_channel_name_sym: "direct_channel_name a b = direct_channel_name b a"
  using str_le_total[of a b] str_le_antisym[of a b] by (auto simp: direct_channel_name_def)

text \<open>At most one message is posted, to the channel the server gave for exactly this pair of users.\<close>

lemma mm_call_log: "mm_call c q (w, log) = (v, (w1, log1)) \<Longrightarrow> log1 = log @ [q]"
  by (auto simp: mm_call_def split: prod.splits option.splits)

lemma json_request_log: "json_request c q (w, log) = (v, (w1, log1)) \<Longrightarrow> log1 = log @ [q]"
  unfolding json_request_def
  by (elim io_bind_cases) (auto simp: io_guard_app split: if_splits dest: mm_call_log)

lemma json_request_Inr:
  "json_request c q (w, log) = (Inr j, s1) \<Longrightarrow>
     \<exists>r w1. mm_answer c q w = (Some r, w1) \<and> resp_json r = Some j \<and> s1 = (w1, log @ [q])"
  unfolding json_request_def mm_call_def
  by (auto simp: io_bind_Inr_iff io_guard_app split: if_splits prod.splits option.splits)

lemma create_post_log:
  "create_post c ch m root pending (w, log) = (v, (w1, log1)) \<Longrightarrow> log1 = log @ [Mm_post ch m root pending]"
  unfolding create_post_def by (elim io_bind_cases) (auto dest: json_request_log)

lemma find_pending_log:
  "find_pending_post c ch p (w, log) = (v, (w1, log1)) \<Longrightarrow> log1 = log @ [Mm_posts ch]"
  unfolding find_pending_post_def
  by (elim io_bind_cases)
    (auto split: if_splits option.splits elim!: io_bind_cases dest: json_request_log)

lemma deliver_post_log:
  assumes "deliver_post c ch m root pending (w, log) = (v, (w1, log1))"
  shows "\<exists>new. log1 = log @ new \<and>
    (filter mm_post_request new = [] \<or> filter mm_post_request new = [Mm_post ch m root pending])"
proof (cases "pending = ''''")
  case True
  then show ?thesis using assms by (auto simp: deliver_post_def dest: create_post_log)
next
  case False
  then have "io_bind (find_pending_post c ch pending) (\<lambda>existing. case existing of Some p \<Rightarrow> io_return p
        | None \<Rightarrow> create_post c ch m root pending) (w, log) = (v, (w1, log1))"
    using assms by (simp add: deliver_post_def)
  then show ?thesis
  proof (cases rule: io_bind_cases)
    case (raised e)
    then show ?thesis by (auto dest: find_pending_log)
  next
    case (passed x s)
    obtain w2 log2 where s: "s = (w2, log2)" by (cases s)
    have "log2 = log @ [Mm_posts ch]" using passed(1) by (auto simp: s dest: find_pending_log)
    then show ?thesis
      using passed(2) by (cases x) (auto simp: s dest: create_post_log)
  qed
qed

lemma send_dm_cases:
  assumes "send_dm c user message root pending expected (w, log) = (v, (w1, log1))"
  shows "(\<exists>e. v = Inl e \<and> (log1 = log \<or> log1 = log @ [Mm_direct (mm_bot_user_id c) user])) \<or>
    (\<exists>r channel ch w2. mm_answer c (Mm_direct (mm_bot_user_id c) user) w = (Some r, w2) \<and>
       resp_json r = Some channel \<and> jget ''id'' channel = JStr ch \<and> ch \<noteq> '''' \<and>
       (expected = '''' \<or> JStr expected \<in> {jget ''id'' channel, jget ''name'' channel}) \<and>
       deliver_post c ch message root pending (w2, log @ [Mm_direct (mm_bot_user_id c) user]) = (v, (w1, log1)))"
proof (cases "mm_base_url c \<noteq> '''' \<and> mm_bot_user_id c \<noteq> '''' \<and> user \<noteq> ''''")
  case False
  then show ?thesis using assms by (auto simp: send_dm_def io_guard_app)
next
  case True
  obtain u s where j: "json_request c (Mm_direct (mm_bot_user_id c) user) (w, log) = (u, s)"
    by (cases "json_request c (Mm_direct (mm_bot_user_id c) user) (w, log)")
  obtain w2 log2 where s: "s = (w2, log2)" by (cases s)
  have log2: "log2 = log @ [Mm_direct (mm_bot_user_id c) user]"
    using j by (auto simp: s dest: json_request_log)
  show ?thesis
  proof (cases u)
    case (Inl e)
    then show ?thesis using assms True j s log2 by (auto simp: send_dm_def io_bind_def)
  next
    case (Inr channel)
    obtain r where r: "mm_answer c (Mm_direct (mm_bot_user_id c) user) w = (Some r, w2)"
      "resp_json r = Some channel"
      using json_request_Inr[of c _ w log channel s] j Inr s by auto
    have run: "(case jtext (jget ''id'' channel) of
         None \<Rightarrow> io_raise Mm_malformed
       | Some channel_id \<Rightarrow>
           if channel_id = '''' then io_raise Mm_malformed
           else
             io_bind (if expected = '''' then io_return True
                      else io_lift (matches_binding channel expected)) (\<lambda>bound.
             io_guard bound Mm_binding_changed (deliver_post c channel_id message root pending)))
        (w2, log2) = (v, (w1, log1))"
      using assms True j Inr s by (simp add: send_dm_def io_bind_def)
    show ?thesis
    proof (cases "\<exists>ch. jget ''id'' channel = JStr ch \<and> ch \<noteq> ''''")
      case False
      then show ?thesis
        using run log2 by (cases "jget ''id'' channel") (auto split: if_splits)
    next
      case True
      then obtain ch where ch: "jget ''id'' channel = JStr ch" "ch \<noteq> ''''" by blast
      show ?thesis
      proof (cases "expected = '''' \<or> matches_binding channel expected = Inr True")
        case ok: True
        then have "expected = '''' \<or> JStr expected \<in> {jget ''id'' channel, jget ''name'' channel}"
          by (auto simp: matches_binding_def check_that_def split: if_splits)
        then show ?thesis
          using r run ch ok log2 by (auto simp: io_bind_def split: if_splits)
      next
        case False
        then show ?thesis
          using run ch log2
          by (auto simp: io_bind_def io_guard_app split: if_splits sum.splits)
      qed
    qed
  qed
qed

section \<open>Properties\<close>

lemma deliver_post_checks:
  assumes "deliver_post c ch message root pending (w2, log) = (v, (w1, log @ new))"
    and "filter mm_post_request new \<noteq> []" and "pending \<noteq> ''''"
  shows "\<exists>r2 posts w3. mm_answer c (Mm_posts ch) w2 = (Some r2, w3) \<and> resp_json r2 = Some posts \<and>
    find (\<lambda>p. is_obj p \<and> jget ''pending_post_id'' p = JStr pending) (json_values (jget ''posts'' posts)) = None"
proof (rule ccontr)
  assume no: "\<not> ?thesis"
  obtain u s where f: "find_pending_post c ch pending (w2, log) = (u, s)"
    by (cases "find_pending_post c ch pending (w2, log)")
  have "u \<noteq> Inr None"
    using f no unfolding find_pending_post_def
    by (auto simp: io_bind_Inr_iff split: if_splits option.splits dest!: json_request_Inr)
  then have "log @ new = log @ [Mm_posts ch]"
    using assms(1) f assms(3) find_pending_log[of c ch pending w2 log u]
    by (cases s) (auto simp: deliver_post_def io_bind_def split: sum.splits option.splits)
  then show False using assms(2) by simp
qed

text \<open>
  Property C31.  For any server, sending a direct message posts at most one message: this one, into
  the channel the server gave for the bot and the user, which is the expected channel if one is
  named; and if that channel already shows a post with the given pending identifier, nothing is
  posted.
\<close>

theorem dm_is_posted_at_most_once:
  assumes "send_dm c user message root pending expected (w, log) = (v, (w1, log1))"
  shows "\<exists>new. log1 = log @ new \<and>
    (filter mm_post_request new = [] \<or>
     (\<exists>r channel ch w2. filter mm_post_request new = [Mm_post ch message root pending] \<and>
        mm_answer c (Mm_direct (mm_bot_user_id c) user) w = (Some r, w2) \<and> resp_json r = Some channel \<and>
        jget ''id'' channel = JStr ch \<and> ch \<noteq> '''' \<and>
        (expected = '''' \<or> JStr expected \<in> {jget ''id'' channel, jget ''name'' channel}) \<and>
        (pending = '''' \<or> (\<exists>r2 posts w3. mm_answer c (Mm_posts ch) w2 = (Some r2, w3) \<and>
           resp_json r2 = Some posts \<and>
           find (\<lambda>p. is_obj p \<and> jget ''pending_post_id'' p = JStr pending)
             (json_values (jget ''posts'' posts)) = None))))"
proof -
  let ?L = "log @ [Mm_direct (mm_bot_user_id c) user]"
  consider (nothing) e where "v = Inl e" "log1 = log \<or> log1 = ?L"
    | (delivered) r channel ch w2 where
      "mm_answer c (Mm_direct (mm_bot_user_id c) user) w = (Some r, w2)" "resp_json r = Some channel"
      "jget ''id'' channel = JStr ch" "ch \<noteq> ''''"
      "expected = '''' \<or> JStr expected \<in> {jget ''id'' channel, jget ''name'' channel}"
      "deliver_post c ch message root pending (w2, ?L) = (v, (w1, log1))"
    using send_dm_cases[OF assms] by blast
  then show ?thesis
  proof cases
    case nothing
    then show ?thesis by auto
  next
    case delivered
    obtain new where new: "log1 = ?L @ new"
      "filter mm_post_request new = [] \<or> filter mm_post_request new = [Mm_post ch message root pending]"
      using deliver_post_log[OF delivered(6)] by blast
    then show ?thesis
      using delivered deliver_post_checks[OF delivered(6)[unfolded new(1)]]
      by (intro exI[of _ "Mm_direct (mm_bot_user_id c) user # new"]) auto
  qed
qed

fun demo_chat :: "string mm_request \<Rightarrow> nat \<Rightarrow> http_response option \<times> nat" where
  "demo_chat (Mm_direct a b) n = (Some \<lparr>resp_status = 200, resp_json = Some (JObj
     [(''id'', JStr ''c''), (''name'', JStr (direct_channel_name a b))])\<rparr>, n)"
| "demo_chat (Mm_posts ch) n = (Some \<lparr>resp_status = 200, resp_json = Some (JObj [(''posts'', JObj [])])\<rparr>, n)"
| "demo_chat (Mm_post ch m root pending) n = (Some \<lparr>resp_status = 201, resp_json = Some (JObj
     [(''id'', JStr ''p'')])\<rparr>, Suc n)"
| "demo_chat _ n = (None, n)"

definition demo_mattermost :: "(nat, string) mattermost" where
  "demo_mattermost = \<lparr>mm_base_url = ''https://m'', mm_bot_user_id = ''b'', mm_answer = demo_chat\<rparr>"

lemma demo_dm:
  "send_dm demo_mattermost ''u'' ''hello'' '''' ''k'' ''c'' (0, []) =
     (Inr \<lparr>mp_channel_id = ''c'', mp_post_id = ''p'', mp_thread_id = ''p''\<rparr>,
      (1, [Mm_direct ''b'' ''u'', Mm_posts ''c'', Mm_post ''c'' ''hello'' '''' ''k'']))"
  by code_simp

theorem dm_witness:
  "\<exists>r channel w2. mm_answer demo_mattermost (Mm_direct ''b'' ''u'') 0 = (Some r, w2) \<and>
     resp_json r = Some channel \<and> jget ''id'' channel = JStr ''c''"
  using dm_is_posted_at_most_once[OF demo_dm] by (auto simp: demo_mattermost_def)

end
