(* ===== verification/Urls.thy ===== *)
theory Urls
imports Prelude
begin

text \<open>
  \<open>urllib.parse.urlsplit\<close> of the standard library on texts of the code points 0..255: the parts the
  program reads (scheme, network location with its user information, path, query, fragment).  The
  check of a bracketed address is an argument.
\<close>

record url_parts =
  u_scheme :: string
  u_netloc :: string
  u_path :: string
  u_query :: string
  u_fragment :: string

definition ascii_alpha :: "char \<Rightarrow> bool" where
  "ascii_alpha c = (let n = (of_char c :: nat) in (65 \<le> n \<and> n \<le> 90) \<or> (97 \<le> n \<and> n \<le> 122))"

definition scheme_char :: "char \<Rightarrow> bool" where
  "scheme_char c \<longleftrightarrow> ascii_alpha c \<or> c \<in> set ''0123456789+-.''"

definition control_or_space :: "char \<Rightarrow> bool" where
  "control_or_space c \<longleftrightarrow> (of_char c :: nat) \<le> 32"

definition url_clean :: "string \<Rightarrow> string" where
  "url_clean s = filter (\<lambda>c. (of_char c :: nat) \<notin> {9, 10, 13}) (lstrip_by control_or_space s)"

text \<open>\<open>s.partition(c)\<close> as the text before and, where the separator occurs, the text after.\<close>

fun cut_at :: "char \<Rightarrow> string \<Rightarrow> string \<times> string option" where
  "cut_at c [] = ([], None)"
| "cut_at c (x # xs) = (if x = c then ([], Some xs) else (case cut_at c xs of (a, b) \<Rightarrow> (x # a, b)))"

definition split_scheme :: "string \<Rightarrow> string \<times> string" where
  "split_scheme s =
     (case cut_at CHR '':'' s of
        (a, Some rest) \<Rightarrow>
          if a \<noteq> '''' \<and> ascii_alpha (hd a) \<and> list_all scheme_char a then (lower_text a, rest) else ('''', s)
      | (a, None) \<Rightarrow> ('''', s))"

definition netloc_end :: "char \<Rightarrow> bool" where
  "netloc_end c \<longleftrightarrow> c \<in> set ''/?#''"

definition split_netloc :: "string \<Rightarrow> string \<times> string" where
  "split_netloc s =
     (if prefix ''//'' s
      then (takeWhile (\<lambda>c. \<not> netloc_end c) (drop 2 s), dropWhile (\<lambda>c. \<not> netloc_end c) (drop 2 s))
      else ('''', s))"

text \<open>\<open>None\<close> is the \<open>ValueError\<close> about brackets.\<close>

definition url_split :: "(string \<Rightarrow> bool) \<Rightarrow> string \<Rightarrow> url_parts option" where
  "url_split brackets_ok s =
     (case split_scheme (url_clean s) of (scheme, s1) \<Rightarrow>
      case split_netloc s1 of (netloc, s2) \<Rightarrow>
        if (CHR ''['' \<in> set netloc) \<noteq> (CHR '']'' \<in> set netloc) then None
        else if CHR ''['' \<in> set netloc \<and> \<not> brackets_ok netloc then None
        else (case cut_at CHR ''#'' s2 of (s3, fragment) \<Rightarrow>
              case cut_at CHR ''?'' s3 of (path, query) \<Rightarrow>
                Some \<lparr>u_scheme = scheme, u_netloc = netloc, u_path = path,
                      u_query = opt_or query '''', u_fragment = opt_or fragment ''''\<rparr>))"

text \<open>\<open>netloc.rpartition("@")\<close>: the user information and the host part.\<close>

definition url_userinfo :: "url_parts \<Rightarrow> string option" where
  "url_userinfo u =
     (case cut_at CHR ''@'' (rev (u_netloc u)) of
        (_, None) \<Rightarrow> None | (_, Some before) \<Rightarrow> Some (rev before))"

definition url_hostinfo :: "url_parts \<Rightarrow> string" where
  "url_hostinfo u = rev (fst (cut_at CHR ''@'' (rev (u_netloc u))))"

definition url_username :: "url_parts \<Rightarrow> string option" where
  "url_username u = map_option (\<lambda>i. fst (cut_at CHR '':'' i)) (url_userinfo u)"

definition url_password :: "url_parts \<Rightarrow> string option" where
  "url_password u = (case url_userinfo u of None \<Rightarrow> None | Some i \<Rightarrow> snd (cut_at CHR '':'' i))"

lemma cut_at_fst: "c \<notin> set (fst (cut_at c s))"
  by (induction s) (auto split: prod.splits)

lemma cut_at_join: "cut_at c s = (a, b) \<Longrightarrow> s = a @ (case b of None \<Rightarrow> [] | Some t \<Rightarrow> c # t)"
  by (induction s arbitrary: a b) (auto split: prod.splits if_splits)

lemma cut_at_none: "c \<notin> set s \<Longrightarrow> cut_at c s = (s, None)"
  by (induction s) auto

lemma url_userinfo_none: "CHR ''@'' \<notin> set (u_netloc u) \<Longrightarrow> url_userinfo u = None"
  by (simp add: url_userinfo_def cut_at_none)

end
