(* ===== verification/Tables.thy ===== *)
theory Tables
imports Candidate Intents Destinations Mattermost Urls Filename
begin

text \<open>
  The tables the services share, the chat messages they send, and the world they run in: a database
  session with its last committed state, and the three outside services.  Texts outside the code
  points 0..255 are constructors: a message is the list of its lines, and \<open>Clip n m\<close> is \<open>m[:n]\<close>.
\<close>

section \<open>Dates\<close>

text \<open>
  The calendar date of an instant in UTC: the days since 0000-03-01, split into eras of 400 years,
  years of the era and days of a year that begins in March.
\<close>

definition civil_date :: "int \<Rightarrow> date" where
  "civil_date day =
     (let z = day + 719468; era = z div 146097; doe = z mod 146097;
          yoe = (doe - doe div 1460 + doe div 36524 - doe div 146096) div 365;
          doy = doe - (365 * yoe + yoe div 4 - yoe div 100);
          mp = (5 * doy + 2) div 153;
          d = doy - (153 * mp + 2) div 5 + 1;
          m = (if mp < 10 then mp + 3 else mp - 9)
      in (nat (yoe + era * 400 + (if m \<le> 2 then 1 else 0)), nat m, nat d))"

definition utc_date :: "instant \<Rightarrow> date" where
  "utc_date t = civil_date (t div days 1)"

lemma civil_date_examples:
  "civil_date 0 = (1970, 1, 1)" "civil_date 19782 = (2024, 2, 29)" "civil_date (-1) = (1969, 12, 31)"
  by code_simp+

section \<open>Messages\<close>

datatype choice_detail =
    Detail_label string
  | Detail_untitled
  | Detail_spots string
  | Detail_spot_url string
  | Detail_date string
  | Detail_contacts "string list"
  | Detail_url string

datatype chat_line =
    Plain string
  | Choice_line nat "choice_detail list"
  | Digest_head nat
  | Question_line nat string string
  | Folder_hint nat
  | Completed_interview "string option"
  | Completed_meeting string
  | Notion_card string
  | Recording_link string
  | Folder_line string
  | Failed_head string
  | Failed_stage string
  | Retry_hint string
  | Defer_several string "string option" "string option"
  | Defer_option nat string
  | Defer_answer_hint
  | Defer_none string "string option" "string option"
  | Defer_create_hint
  | Skipped_by_answer string
  | Another_question string

datatype chat_message =
    Message "chat_line list"
  | Clip nat chat_message
  | Labelled string chat_message

section \<open>Manual reviews\<close>

datatype review_status =
    Review_pending | Review_answered | Review_processing | Review_completed | Review_failed
  | Review_suppressed

text \<open>The \<open>result\<close> column: a JSON object, or the closing message of \<open>mark_terminal\<close>.\<close>

datatype review_result =
    Result_json json
  | Result_closing bool chat_message

record manual_review =
  v_id :: string
  v_recording_id :: string
  v_created_at :: instant
  v_resolved_at :: "instant option"
  v_question_type :: string
  v_question_context :: json
  v_raw_reply :: "string option"
  v_parsed_action :: "string option"
  v_resolved_notion_page_id :: "string option"
  v_mattermost_post_id :: "string option"
  v_mattermost_reply_id :: "string option"
  v_mattermost_channel_id :: "string option"
  v_mattermost_thread_id :: "string option"
  v_recruiter_user_id :: "string option"
  v_question_set_id :: string
  v_digest_id :: "string option"
  v_automatic_delivery_count :: int
  v_answered_at :: "instant option"
  v_processing_at :: "instant option"
  v_completed_at :: "instant option"
  v_failed_at :: "instant option"
  v_suppressed_at :: "instant option"
  v_result :: "review_result option"
  v_token_hash :: "string option"
  v_token_expires_at :: "instant option"
  v_token_consumed_at :: "instant option"
  v_delivery_nonce :: "string option"
  v_delivery_claim :: "string option"
  v_delivery_claimed_at :: "instant option"
  v_delivery_sent_at :: "instant option"
  v_recording_version :: int
  v_status :: review_status

text \<open>A row with the columns' defaults.\<close>

definition new_review :: "string \<Rightarrow> string \<Rightarrow> string \<Rightarrow> json \<Rightarrow> string \<Rightarrow> int \<Rightarrow> instant \<Rightarrow> manual_review" where
  "new_review rid recording_id qtype ctx set_id version now =
     \<lparr>v_id = rid, v_recording_id = recording_id, v_created_at = now, v_resolved_at = None,
      v_question_type = qtype, v_question_context = ctx, v_raw_reply = None, v_parsed_action = None,
      v_resolved_notion_page_id = None, v_mattermost_post_id = None, v_mattermost_reply_id = None,
      v_mattermost_channel_id = None, v_mattermost_thread_id = None, v_recruiter_user_id = None,
      v_question_set_id = set_id, v_digest_id = None, v_automatic_delivery_count = 0,
      v_answered_at = None, v_processing_at = None, v_completed_at = None, v_failed_at = None,
      v_suppressed_at = None, v_result = None, v_token_hash = None, v_token_expires_at = None,
      v_token_consumed_at = None, v_delivery_nonce = None, v_delivery_claim = None,
      v_delivery_claimed_at = None, v_delivery_sent_at = None, v_recording_version = version,
      v_status = Review_pending\<rparr>"

section \<open>Notifications and digests\<close>

datatype outbox_status = Outbox_pending | Outbox_sending | Outbox_sent | Outbox_failed

record notification =
  o_id :: string
  o_dedupe_key :: string
  o_kind :: string
  o_recruiter_user_id :: string
  o_mattermost_channel_id :: string
  o_message :: "chat_message option"
  o_entity_id :: "string option"
  o_status :: outbox_status
  o_attempts :: nat
  o_claim_owner :: "string option"
  o_claim_expires_at :: "instant option"
  o_next_attempt_at :: "instant option"
  o_sent_at :: "instant option"
  o_last_error :: "mm_error option"
  o_created_at :: instant

datatype digest_status = Digest_pending | Digest_sent | Digest_failed

record question_digest =
  g_id :: string
  g_recruiter_user_id :: string
  g_mattermost_channel_id :: string
  g_local_date :: date
  g_status :: digest_status
  g_created_at :: instant
  g_sent_at :: "instant option"

section \<open>Routing jobs\<close>

datatype job_status = Job_queued | Job_dispatched | Job_active | Job_resolved | Job_deferred | Job_failed

record routing_job =
  j_id :: string
  j_recording_id :: string
  j_recruiter_id :: string
  j_recording_version :: int
  j_snapshot :: json
  j_snapshot_hash :: string
  j_status :: job_status
  j_worker_id :: "string option"
  j_dispatch_nonce_hash :: "string option"
  j_dispatch_lease_expires_at :: "instant option"
  j_activated_at :: "instant option"
  j_resolved_destination_id :: "string option"
  j_defer_reason :: "string option"
  j_attempts :: nat
  j_created_at :: instant
  j_updated_at :: instant

section \<open>Placements, reassignments and clean-ups\<close>

datatype reroute_status =
    Reroute_pending | Reroute_moved | Reroute_linked | Reroute_notion_updated | Reroute_completed
  | Reroute_failed

text \<open>\<open>rr_failed\<close>: the \<open>error\<close> column is set.\<close>

record recording_reroute =
  rr_id :: string
  rr_recording_id :: string
  rr_source_artifact_id :: string
  rr_destination_id :: string
  rr_expected_version :: int
  rr_idempotency_key :: string
  rr_status :: reroute_status
  rr_target_file_path :: "string option"
  rr_target_share_url :: "string option"
  rr_failed :: bool
  rr_created_at :: instant

record storage_artifact =
  sa_id :: string
  sa_recording_id :: string
  sa_destination_id :: "string option"
  sa_folder_path :: string
  sa_file_path :: string
  sa_share_url :: string
  sa_owner_marker_path :: string
  sa_size_bytes :: "int option"
  sa_is_active :: bool
  sa_created_at :: instant

datatype proposal_status = Proposal_pending | Proposal_completed | Proposal_expired | Proposal_failed

text \<open>A snapshot is the list of files of the card's recording property.\<close>

record reassignment_proposal =
  np_proposal_id :: string
  np_recording_id :: string
  np_recruiter_user_id :: string
  np_dm_channel_id :: string
  np_source_page_id :: string
  np_target_page_id :: string
  np_recording_version :: int
  np_source_snapshot :: "json list"
  np_target_snapshot :: "json list"
  np_capability_hash :: string
  np_expires_at :: instant
  np_consumed_at :: "instant option"
  np_status :: proposal_status
  np_result :: "json option"
  np_created_at :: instant

datatype preview_status =
    Preview_pending | Preview_processing | Preview_completed | Preview_failed | Preview_expired

record cleanup_preview =
  cp_id :: string
  cp_recruiter_id :: string
  cp_recruiter_user_id :: string
  cp_mattermost_dm_channel_id :: string
  cp_snapshot :: "json list"
  cp_snapshot_hash :: string
  cp_capability_hash :: string
  cp_capability_expires_at :: instant
  cp_capability_consumed_at :: "instant option"
  cp_confirmation_fingerprint :: "string option"
  cp_result :: "json option"
  cp_status :: preview_status
  cp_created_at :: instant
  cp_completed_at :: "instant option"

record cleanup_file_result =
  cf_id :: string
  cf_preview_id :: string
  cf_recording_id :: string
  cf_disk_file_id :: string
  cf_source_version :: int
  cf_state :: string
  cf_safe_error :: "string option"
  cf_moved_at :: "instant option"

section \<open>The world of the services\<close>

record db =
  db_recordings :: "recording list"
  db_recruiters :: "recruiter_config list"
  db_reviews :: "manual_review list"
  db_intents :: "intent_replay list"
  db_outbox :: "notification list"
  db_digests :: "question_digest list"
  db_jobs :: "routing_job list"
  db_destinations :: "storage_destination list"
  db_reroutes :: "recording_reroute list"
  db_artifacts :: "storage_artifact list"
  db_proposals :: "reassignment_proposal list"
  db_previews :: "cleanup_preview list"
  db_file_results :: "cleanup_file_result list"

text \<open>
  \<open>w_db\<close> is what the session sees, \<open>w_saved\<close> what it last committed; an exception that leaves a
  session discards the difference.
\<close>

record ('n, 'w, 'c) world =
  w_db :: db
  w_saved :: db
  w_notion :: "'n notion_state"
  w_nas :: "'w \<times> nas_request list"
  w_chat :: "'c \<times> chat_message mm_request list"

text \<open>
  The services and the functions outside the program: digests (\<open>sv_hash\<close> of a text, \<open>sv_hmac\<close> of a
  secret and a text), \<open>datetime.fromisoformat\<close>, \<open>uuid.UUID\<close>, \<open>str\<close> of decoded JSON
  and the check of a bracketed address in a URL.
\<close>

record ('n, 'w, 'c) services =
  sv_settings :: settings
  sv_notion :: "'n notion_api"
  sv_nas :: "'w dsm"
  sv_chat :: "('c, chat_message) mattermost"
  sv_hash :: "string \<Rightarrow> string"
  sv_hmac :: "string \<Rightarrow> string \<Rightarrow> string"
  sv_instant :: "string \<Rightarrow> instant option"
  sv_uuid :: "string \<Rightarrow> string option"
  sv_show :: "json \<Rightarrow> string"
  sv_brackets :: "string \<Rightarrow> bool"

datatype review_rejection =
    No_capability | Other_interaction | Offline_unavailable | Requester_mismatch
  | User_outside | Out_of_scope permission_error | No_dm_mapping | Already_claimed | Review_not_found
  | Choice_outside | Cannot_resume | Calendar_no_start | Routing_unavailable | No_recruiter
  | Destination_rejected dest_error | Destination_no_identity | Destination_bad_identity
  | Spot_no_title | Spot_no_identity | Spot_bad_url | No_assessment_text | Comment_unavailable
  | No_linked_page | Comment_failed notion_error | Email_malformed | Email_bad_date
  | Review_key_reused | Review_in_progress | Token_consumed | Other_recruiter | Other_dm
  | Other_thread | Token_no_expiry | Token_expired | Stale_version | Token_invalid
  | Recruiter_inactive_or_absent | No_secret | Batch_size | Batch_duplicates | Needs_choice
  | No_choice_expected | Set_mismatch | Not_processing | Outbox_not_owned | Outbox_malformed
  | No_dm_binding | Routing_choices_malformed | Invalid_dm

datatype app_error =
    Review_rejected review_rejection
  | Chat_failed mm_error
  | Bad_move transition_error
  | Bad_value
  | Integrity_violation
  | Nas_failed nas_error
  | Destination_refused dest_error
  | Job_rejected string
  | Notion_failed notion_error
  | Reassign_rejected string
  | Reroute_rejected string
  | Cleanup_rejected string
  | Route_rejected string

type_synonym ('n, 'w, 'c, 'a) app_io = "(('n, 'w, 'c) world, app_error, 'a) io"

abbreviation reject :: "review_rejection \<Rightarrow> ('n, 'w, 'c, 'a) app_io" where
  "reject r \<equiv> io_raise (Review_rejected r)"

definition require :: "bool \<Rightarrow> review_rejection \<Rightarrow> ('n, 'w, 'c, 'a) app_io \<Rightarrow> ('n, 'w, 'c, 'a) app_io" where
  "require b r m = io_guard b (Review_rejected r) m"

lemma require_app: "require b r m s = (if b then m s else (Inl (Review_rejected r), s))"
  by (simp add: require_def io_guard_app)

definition get_db :: "(db \<Rightarrow> 'a) \<Rightarrow> ('n, 'w, 'c, 'a) app_io" where
  "get_db f = (\<lambda>s. (Inr (f (w_db s)), s))"

definition modify_db :: "(db \<Rightarrow> db) \<Rightarrow> ('n, 'w, 'c, unit) app_io" where
  "modify_db f = (\<lambda>s. (Inr (), s\<lparr>w_db := f (w_db s)\<rparr>))"

definition commit :: "('n, 'w, 'c, unit) app_io" where
  "commit = (\<lambda>s. (Inr (), s\<lparr>w_saved := w_db s\<rparr>))"

definition in_chat :: "('c, chat_message, 'a) mm_io \<Rightarrow> ('n, 'w, 'c, 'a) app_io" where
  "in_chat m = (\<lambda>s. case m (w_chat s) of
      (Inl e, c) \<Rightarrow> (Inl (Chat_failed e), s\<lparr>w_chat := c\<rparr>)
    | (Inr x, c) \<Rightarrow> (Inr x, s\<lparr>w_chat := c\<rparr>))"

definition in_notion :: "('n, 'a) notion_io \<Rightarrow> (notion_error \<Rightarrow> app_error) \<Rightarrow> ('n, 'w, 'c, 'a) app_io" where
  "in_notion m err = (\<lambda>s. case m (w_notion s) of
      (Inl e, n) \<Rightarrow> (Inl (err e), s\<lparr>w_notion := n\<rparr>)
    | (Inr x, n) \<Rightarrow> (Inr x, s\<lparr>w_notion := n\<rparr>))"

text \<open>An operation on destinations runs on the file station and on the table of the session.\<close>

definition in_destinations :: "('w, 'a) dest_io \<Rightarrow> (dest_error \<Rightarrow> app_error) \<Rightarrow> ('n, 'w, 'c, 'a) app_io" where
  "in_destinations m err = (\<lambda>s.
     case m \<lparr>dw_nas = w_nas s, dw_rows = db_destinations (w_db s)\<rparr> of (v, d) \<Rightarrow>
       ((case v of Inl e \<Rightarrow> Inl (err e) | Inr x \<Rightarrow> Inr x),
        s\<lparr>w_nas := dw_nas d, w_db := (w_db s)\<lparr>db_destinations := dw_rows d\<rparr>\<rparr>))"

definition update_recording :: "string \<Rightarrow> (recording \<Rightarrow> recording) \<Rightarrow> db \<Rightarrow> db" where
  "update_recording i f d = d\<lparr>db_recordings := update_where (\<lambda>r. r_id r = i) f (db_recordings d)\<rparr>"

definition update_review :: "string \<Rightarrow> (manual_review \<Rightarrow> manual_review) \<Rightarrow> db \<Rightarrow> db" where
  "update_review i f d = d\<lparr>db_reviews := update_where (\<lambda>r. v_id r = i) f (db_reviews d)\<rparr>"

definition recording_of :: "db \<Rightarrow> string \<Rightarrow> recording option" where
  "recording_of d i = find (\<lambda>r. r_id r = i) (db_recordings d)"

definition review_of :: "db \<Rightarrow> string \<Rightarrow> manual_review option" where
  "review_of d i = find (\<lambda>r. v_id r = i) (db_reviews d)"

section \<open>Looking up an updated row\<close>

lemma find_update_where:
  "(\<And>x. p (f x) \<longleftrightarrow> p x) \<Longrightarrow> find p (update_where q f xs) =
     map_option (\<lambda>x. if q x then f x else x) (find p xs)"
  by (induction xs) auto

lemma recording_of_update:
  "(\<And>x. r_id (f x) = r_id x) \<Longrightarrow> recording_of (update_recording i f d) j =
     map_option (\<lambda>x. if j = i then f x else x) (recording_of d j)"
  by (auto simp: recording_of_def update_recording_def find_update_where option.map_comp find_Some_iff
      intro!: map_option_cong)

lemma review_of_update:
  "(\<And>x. v_id (f x) = v_id x) \<Longrightarrow> review_of (update_review i f d) j =
     map_option (\<lambda>x. if j = i then f x else x) (review_of d j)"
  by (auto simp: review_of_def update_review_def find_update_where option.map_comp find_Some_iff
      intro!: map_option_cong)

lemma update_apart [simp]:
  "recording_of (update_review i f d) j = recording_of d j"
  "review_of (update_recording i g d) j = review_of d j"
  "db_intents (update_review i f d) = db_intents d" "db_intents (update_recording i g d) = db_intents d"
  "db_recruiters (update_review i f d) = db_recruiters d"
  "db_recruiters (update_recording i g d) = db_recruiters d"
  "recording_of (d\<lparr>db_intents := ii\<rparr>) j = recording_of d j"
  "review_of (d\<lparr>db_intents := ii\<rparr>) j = review_of d j"
  "recording_of (d\<lparr>db_jobs := jj\<rparr>) j = recording_of d j"
  "recording_of (d\<lparr>db_destinations := ds\<rparr>) j = recording_of d j"
  "db_jobs (update_recording i g d) = db_jobs d" "db_jobs (update_review i f d) = db_jobs d"
  "db_destinations (update_recording i g d) = db_destinations d"
  "db_reviews (update_recording i g d) = db_reviews d"
  "db_recordings (update_review i f d) = db_recordings d"
  by (simp_all add: recording_of_def review_of_def update_review_def update_recording_def)

end
