(* ===== verification/Reviews.thy ===== *)
theory Reviews
imports Tables
begin

text \<open>
  \<open>app/services/reviews.py\<close>: a question about a recording is stored with a one-time capability,
  delivered as a direct message, and answered by a mutation that checks the binding, resumes the
  recording and consumes the capability.  Rows are changed in place as the session's objects are,
  so a change made before an exception stays in the session.  Identifiers, nonces and the instants
  before (\<open>now\<close>) and after (\<open>later\<close>) an outside call are arguments.
\<close>

definition AUTONOMOUS_ROUTING_QUESTION_TYPES :: "string list" where
  "AUTONOMOUS_ROUTING_QUESTION_TYPES =
     [''autonomous_routing_ambiguous'', ''autonomous_routing_no_match'', ''autonomous_routing_model_error'']"

definition DISCARD_ONLY_QUESTION_TYPES :: "string list" where
  "DISCARD_ONLY_QUESTION_TYPES = [''summary_assessment_approval'', ''summary_email_ambiguous'']"

text \<open>What the service was built with, beside the chat.\<close>

record review_wiring =
  rw_destinations :: bool
  rw_notion :: bool

record interaction_binding =
  ib_recruiter_user_id :: string
  ib_dm_channel_id :: string

record review_mutation =
  rm_review_id :: string
  rm_recording_id :: string
  rm_status :: string
  rm_version :: int
  rm_replayed :: bool

definition as_dict :: "review_mutation \<Rightarrow> json" where
  "as_dict m = JObj [(''review_id'', JStr (rm_review_id m)), (''recording_id'', JStr (rm_recording_id m)),
     (''status'', JStr (rm_status m)), (''version'', JInt (rm_version m)),
     (''replayed'', JBool (rm_replayed m))]"

section \<open>Capabilities\<close>

definition derive_review_token ::
  "('n, 'w, 'c) services \<Rightarrow> string \<Rightarrow> string \<Rightarrow> int \<Rightarrow> string \<Rightarrow> string" where
  "derive_review_token sv review_id nonce version secret =
     sv_hmac sv secret (review_id @ '':'' @ nonce @ '':'' @ int_text version)"

definition review_token_secret :: "('n, 'w, 'c) services \<Rightarrow> (review_rejection, string) result" where
  "review_token_secret sv =
     check_that (st_openclaw_secret (sv_settings sv) \<noteq> '''') No_secret
       (Inr (st_openclaw_secret (sv_settings sv)))"

definition review_token ::
  "('n, 'w, 'c) services \<Rightarrow> string \<Rightarrow> string \<Rightarrow> int \<Rightarrow> (review_rejection, string) result" where
  "review_token sv review_id nonce version =
     res_bind (review_token_secret sv) (\<lambda>secret.
       Inr (derive_review_token sv review_id nonce version secret))"

definition capability_token ::
  "('n, 'w, 'c) services \<Rightarrow> manual_review \<Rightarrow> (review_rejection, string) result" where
  "capability_token sv v =
     check_that (truthy (v_delivery_nonce v)) No_capability
       (review_token sv (v_id v) (the (v_delivery_nonce v)) (v_recording_version v))"

text \<open>The row after the rotation, also when no token can be derived.\<close>

definition rotate_digest_capability ::
  "('n, 'w, 'c) services \<Rightarrow> instant \<Rightarrow> string \<Rightarrow> string \<Rightarrow> manual_review \<Rightarrow>
   (review_rejection, string) result \<times> manual_review" where
  "rotate_digest_capability sv issued_at nonce set_id v =
     (let v1 = v\<lparr>v_delivery_nonce := Some nonce, v_question_set_id := set_id, v_token_consumed_at := None\<rparr>
      in case capability_token sv v1 of
           Inl e \<Rightarrow> (Inl e, v1)
         | Inr token \<Rightarrow>
             (Inr token,
              v1\<lparr>v_token_hash := Some (sv_hash sv token),
                 v_token_expires_at :=
                   Some (issued_at + seconds (st_question_capability_ttl_seconds (sv_settings sv)))\<rparr>))"

definition offline_test_mode :: "settings \<Rightarrow> bool" where
  "offline_test_mode st \<longleftrightarrow> st_test_mode_enabled st \<and> \<not> st_mattermost_delivery_enabled st"

definition enforce_user :: "settings \<Rightarrow> string \<Rightarrow> (review_rejection, unit) result" where
  "enforce_user st user =
     check_that (\<not> (st_test_mode_enabled st \<and> user \<notin> set (st_test_mattermost_user_allowlist st)))
       User_outside (Inr ())"

definition lift_rejection :: "(review_rejection, 'a) result \<Rightarrow> ('n, 'w, 'c, 'a) app_io" where
  "lift_rejection v = io_lift (map_sum Review_rejected id v)"

definition scope_check ::
  "('n, 'w, 'c) services \<Rightarrow> recruiter_config \<Rightarrow> (review_rejection, unit) result" where
  "scope_check sv rc =
     map_sum Out_of_scope id (enforce_recruiter_scope (fold_case (sv_notion sv)) (sv_settings sv) rc)"

definition pending_post_id :: "('n, 'w, 'c) services \<Rightarrow> string \<Rightarrow> string \<Rightarrow> int \<Rightarrow> string" where
  "pending_post_id sv kind entity version =
     take 26 (sv_hash sv (''recording-agent:'' @ kind @ '':'' @ entity @ '':'' @ int_text version)) @ '':0''"

section \<open>Asking\<close>

definition pending_review_of :: "string \<Rightarrow> db \<Rightarrow> manual_review option" where
  "pending_review_of recording_id d =
     find (\<lambda>v. v_recording_id v = recording_id \<and> v_status v = Review_pending) (db_reviews d)"

definition question_choices :: "recording \<Rightarrow> json list" where
  "question_choices r = take 10 (opt_or (r_manual_review_candidates r) [])"

definition question_type_of :: "recording \<Rightarrow> string" where
  "question_type_of r =
     (if truthy (r_manual_review_reason r) then the (r_manual_review_reason r) else ''manual_review'')"

text \<open>A pending question of the recruiter's recordings that is bound to another user or channel.\<close>

definition conflicting_review :: "string \<Rightarrow> string \<Rightarrow> string \<Rightarrow> db \<Rightarrow> bool" where
  "conflicting_review email user channel d \<longleftrightarrow>
     list_ex (\<lambda>v. v_status v = Review_pending \<and>
        (case recording_of d (v_recording_id v) of
           None \<Rightarrow> False | Some r \<Rightarrow> r_disk_owner_email r = email) \<and>
        (v_recruiter_user_id v \<noteq> Some user \<or> v_mattermost_channel_id v \<noteq> Some channel)) (db_reviews d)"

text \<open>The user and the channel a new question is bound to.\<close>

definition review_binding ::
  "('n, 'w, 'c) services \<Rightarrow> recruiter_config \<Rightarrow> interaction_binding option \<Rightarrow>
   ('n, 'w, 'c, string \<times> string) app_io" where
  "review_binding sv rc binding =
     (case binding of
        Some b \<Rightarrow>
          require (offline_test_mode (sv_settings sv)) Offline_unavailable
         (require (rc_mattermost_user_id rc = Some (ib_recruiter_user_id b)) Requester_mismatch
         (io_bind (lift_rejection (enforce_user (sv_settings sv) (ib_recruiter_user_id b))) (\<lambda>_.
          io_bind (lift_rejection (scope_check sv rc)) (\<lambda>_.
          io_bind (get_db (conflicting_review (rc_email rc) (ib_recruiter_user_id b) (ib_dm_channel_id b)))
            (\<lambda>conflict.
          require (\<not> conflict) Other_interaction
            (io_return (ib_recruiter_user_id b, ib_dm_channel_id b)))))))
      | None \<Rightarrow>
          require (truthy (rc_mattermost_user_id rc) \<and> truthy (rc_mattermost_dm_channel rc)) No_dm_mapping
         (io_bind (lift_rejection (enforce_user (sv_settings sv) (the (rc_mattermost_user_id rc)))) (\<lambda>_.
          io_bind (in_chat (validate_direct_channel (sv_chat sv) (sv_show sv)
             (the (rc_mattermost_user_id rc)) (the (rc_mattermost_dm_channel rc)))) (\<lambda>_.
          io_return (the (rc_mattermost_user_id rc), the (rc_mattermost_dm_channel rc))))))"

definition enqueue_review ::
  "('n, 'w, 'c) services \<Rightarrow> instant \<Rightarrow> string \<Rightarrow> string \<Rightarrow> string \<Rightarrow> recording \<Rightarrow> recruiter_config \<Rightarrow>
   interaction_binding option \<Rightarrow> ('n, 'w, 'c, manual_review) app_io" where
  "enqueue_review sv now new_id nonce set_id r rc binding =
     io_bind (get_db (pending_review_of (r_id r))) (\<lambda>existing.
       case existing of
         Some v \<Rightarrow>
           require (case binding of None \<Rightarrow> True
                    | Some b \<Rightarrow> v_recruiter_user_id v = Some (ib_recruiter_user_id b) \<and>
                                v_mattermost_channel_id v = Some (ib_dm_channel_id b))
             Other_interaction (io_return v)
       | None \<Rightarrow>
           io_bind (review_binding sv rc binding) (\<lambda>(user, channel).
             let v = (new_review new_id (r_id r) (question_type_of r)
                        (JObj [(''choices'', JList (question_choices r))]) set_id (r_version r) now)
                     \<lparr>v_recruiter_user_id := Some user, v_mattermost_channel_id := Some channel,
                      v_delivery_nonce := Some nonce\<rparr>
             in io_bind (lift_rejection (capability_token sv v)) (\<lambda>token.
               let v1 = v\<lparr>v_token_hash := Some (sv_hash sv token),
                          v_token_expires_at :=
                            Some (now + seconds (st_review_token_ttl_seconds (sv_settings sv)))\<rparr>
               in io_bind (modify_db (\<lambda>d. d\<lparr>db_reviews := db_reviews d @ [v1]\<rparr>)) (\<lambda>_. io_return v1))))"

section \<open>Claims on the notifications of a recording\<close>

definition notification_free :: "int \<Rightarrow> instant \<Rightarrow> string option \<Rightarrow> instant option \<Rightarrow> bool" where
  "notification_free ttl now claim claimed_at \<longleftrightarrow>
     claim = None \<or> (case claimed_at of None \<Rightarrow> False | Some t \<Rightarrow> t \<le> now - seconds ttl)"

definition claim_review_notification :: "int \<Rightarrow> instant \<Rightarrow> string \<Rightarrow> recording \<Rightarrow> recording option" where
  "claim_review_notification ttl now claim r =
     (if notification_free ttl now (r_review_notification_claim r) (r_review_notification_claimed_at r)
      then Some (r\<lparr>r_review_notification_claim := Some claim, r_review_notification_claimed_at := Some now\<rparr>)
      else None)"

definition release_review_notification :: "string \<Rightarrow> recording \<Rightarrow> recording" where
  "release_review_notification claim r =
     (if r_review_notification_claim r = Some claim
      then r\<lparr>r_review_notification_claim := None, r_review_notification_claimed_at := None\<rparr> else r)"

definition claim_terminal_notification :: "int \<Rightarrow> instant \<Rightarrow> string \<Rightarrow> recording \<Rightarrow> recording option" where
  "claim_terminal_notification ttl now claim r =
     (if r_terminal_notified_at r = None \<and>
         notification_free ttl now (r_terminal_notification_claim r) (r_terminal_notification_claimed_at r)
      then Some (r\<lparr>r_terminal_notification_claim := Some claim, r_terminal_notification_claimed_at := Some now\<rparr>)
      else None)"

definition complete_terminal_notification :: "instant \<Rightarrow> string \<Rightarrow> recording \<Rightarrow> recording" where
  "complete_terminal_notification now claim r =
     (if r_terminal_notification_claim r = Some claim
      then r\<lparr>r_terminal_notified_at := Some now, r_terminal_notification_claim := None,
             r_terminal_notification_claimed_at := None\<rparr> else r)"

lemmas notification_claim_defs =
  claim_review_notification_def release_review_notification_def claim_terminal_notification_def
  complete_terminal_notification_def notification_free_def

interpretation review_lease: lease r_review_notification_claim
  "\<lambda>r. map_option (\<lambda>t. t + seconds ttl) (r_review_notification_claimed_at r)"
  "claim_review_notification ttl" release_review_notification "seconds ttl"
  by unfold_locales (auto simp: notification_claim_defs split: if_splits option.splits)

interpretation terminal_lease: lease r_terminal_notification_claim
  "\<lambda>r. map_option (\<lambda>t. t + seconds ttl) (r_terminal_notification_claimed_at r)"
  "claim_terminal_notification ttl" "complete_terminal_notification now" "seconds ttl"
  by unfold_locales (auto simp: notification_claim_defs split: if_splits option.splits)

text \<open>The row of a recording taken by a claim, as \<open>UPDATE ... RETURNING\<close>.\<close>

definition try_claim ::
  "string \<Rightarrow> (recording \<Rightarrow> recording option) \<Rightarrow> ('n, 'w, 'c, bool) app_io" where
  "try_claim i acq =
     io_bind (get_db (\<lambda>d. recording_of d i)) (\<lambda>row.
       case (case row of None \<Rightarrow> None | Some r \<Rightarrow> acq r) of
         None \<Rightarrow> io_return False
       | Some r1 \<Rightarrow> io_bind (modify_db (update_recording i (\<lambda>_. r1))) (\<lambda>_. io_return True))"

section \<open>Individual delivery\<close>

definition choice_details :: "(json \<Rightarrow> string) \<Rightarrow> json \<Rightarrow> choice_detail list" where
  "choice_details show choice =
     (if jtruthy (jget ''name'' choice) then [Detail_label (take 160 (show (jget ''name'' choice)))]
      else if jtruthy (jget ''event_summary'' choice)
      then [Detail_label (take 160 (show (jget ''event_summary'' choice)))]
      else [Detail_untitled]) @
     (if jtruthy (jget ''project_or_spot'' choice)
      then [Detail_spots (take 160 (show (jget ''project_or_spot'' choice)))] else []) @
     (if jtruthy (jget ''spot_url'' choice)
      then [Detail_spot_url (take 500 (show (jget ''spot_url'' choice)))] else []) @
     (if jtruthy (jget ''general_interview_date'' choice)
      then [Detail_date (take 32 (show (jget ''general_interview_date'' choice)))] else []) @
     (let safe = map (take 320) (List.map_filter jtext (take 3 (jitems (jget ''candidate_emails'' choice))))
      in if safe \<noteq> [] then [Detail_contacts safe] else []) @
     (if jtruthy (jget ''url'' choice) then [Detail_url (take 500 (show (jget ''url'' choice)))] else [])"

definition review_message :: "(json \<Rightarrow> string) \<Rightarrow> string \<Rightarrow> json list \<Rightarrow> string \<Rightarrow> chat_message" where
  "review_message show filename choices token =
     Message (Plain (''Recording '' @ filename @ '' needs review.'') #
       (if choices = [] then [Plain '''']
        else map (\<lambda>(n, c). Choice_line n (choice_details show c)) (enumerate 1 choices)) @
       [Plain (''Reply with a choice or skip. Token: '' @ token)])"

text \<open>The row of the question before it is sent: its token, its expiry and the claim.\<close>

definition prepared_review ::
  "('n, 'w, 'c) services \<Rightarrow> instant \<Rightarrow> string \<Rightarrow> string \<Rightarrow> string \<Rightarrow> manual_review \<Rightarrow> manual_review" where
  "prepared_review sv now claim nonce token v =
     v\<lparr>v_token_hash := Some (sv_hash sv token),
       v_token_expires_at := Some (now + seconds (st_review_token_ttl_seconds (sv_settings sv))),
       v_delivery_claim := Some claim, v_delivery_nonce := Some nonce, v_delivery_claimed_at := Some now\<rparr>"

definition store_review :: "manual_review option \<Rightarrow> manual_review \<Rightarrow> db \<Rightarrow> db" where
  "store_review existing v d =
     (case existing of None \<Rightarrow> d\<lparr>db_reviews := db_reviews d @ [v]\<rparr>
      | Some e \<Rightarrow> update_review (v_id e) (\<lambda>_. v) d)"

definition issue_claimed ::
  "('n, 'w, 'c) services \<Rightarrow> instant \<Rightarrow> instant \<Rightarrow> string \<Rightarrow> string \<Rightarrow> string \<Rightarrow> string \<Rightarrow> recording \<Rightarrow>
   string \<Rightarrow> manual_review option \<Rightarrow> ('n, 'w, 'c, manual_review) app_io" where
  "issue_claimed sv now later claim new_id new_nonce set_id r user existing =
     (let fresh = (new_review new_id (r_id r) (question_type_of r)
                     (JObj [(''choices'', JList (question_choices r))]) set_id (r_version r) now)
                  \<lparr>v_recruiter_user_id := Some user\<rparr>;
          v = opt_or existing fresh;
          nonce = (if truthy (v_delivery_nonce v) then the (v_delivery_nonce v) else new_nonce)
      in io_bind (lift_rejection (review_token sv (v_id v) nonce (r_version r))) (\<lambda>token.
         io_guard (list_all is_obj (question_choices r)) Bad_value
        (let v1 = prepared_review sv now claim nonce token v
         in io_bind (modify_db (store_review existing v1)) (\<lambda>_.
            io_bind commit (\<lambda>_.
            io_bind (in_chat (send_dm (sv_chat sv) user
                (review_message (sv_show sv) (r_disk_filename r) (question_choices r) token) ''''
                (pending_post_id sv ''review'' (v_id v1) 0) '''')) (\<lambda>post.
            let v2 = v1\<lparr>v_mattermost_post_id := Some (mp_post_id post),
                        v_mattermost_channel_id := Some (mp_channel_id post),
                        v_mattermost_thread_id := Some (mp_thread_id post),
                        v_delivery_sent_at := Some later\<rparr>
            in io_bind (modify_db (update_review (v_id v1) (\<lambda>_. v2))) (\<lambda>_.
               io_bind (modify_db (update_recording (r_id r) (release_review_notification claim))) (\<lambda>_.
               io_bind commit (\<lambda>_. io_return v2)))))))))"

definition issue_review ::
  "('n, 'w, 'c) services \<Rightarrow> instant \<Rightarrow> instant \<Rightarrow> string \<Rightarrow> string \<Rightarrow> string \<Rightarrow> string \<Rightarrow> recording \<Rightarrow>
   recruiter_config \<Rightarrow> ('n, 'w, 'c, manual_review) app_io" where
  "issue_review sv now later claim new_id new_nonce set_id r rc =
     io_bind (get_db (pending_review_of (r_id r))) (\<lambda>existing.
       if existing \<noteq> None \<and> v_delivery_sent_at (the existing) \<noteq> None then io_return (the existing)
       else require (truthy (rc_mattermost_user_id rc)) No_dm_mapping
           (let user = the (rc_mattermost_user_id rc)
            in io_bind (lift_rejection (enforce_user (sv_settings sv) user)) (\<lambda>_.
               io_bind (lift_rejection (review_token_secret sv)) (\<lambda>_.
               io_bind (try_claim (r_id r) (claim_review_notification
                  (st_intent_claim_ttl_seconds (sv_settings sv)) now claim)) (\<lambda>claimed.
               io_bind commit (\<lambda>_.
                 if claimed then issue_claimed sv now later claim new_id new_nonce set_id r user existing
                 else (case existing of Some v \<Rightarrow> io_return v | None \<Rightarrow> reject Already_claimed)))))))"

section \<open>Terminal notifications\<close>

definition or_text :: "string option \<Rightarrow> string \<Rightarrow> string" where
  "or_text m d = (if truthy m then the m else d)"

definition terminal_text :: "recording \<Rightarrow> string" where
  "terminal_text r =
     (let filename = or_text (r_generated_filename r) (r_disk_filename r);
          who = or_text (r_candidate_name r) ''unknown candidate''
      in if r_status r = COMPLETED
         then ''Recording completed: '' @ who @ ''; '' @ filename @ ''; '' @
              or_text (r_synology_share_url r) ''temporary link unavailable'' @ '' (temporary/test-only).''
         else ''Recording failed: '' @ who @ ''; '' @ filename @ ''; step='' @
              or_text (r_error_step r) ''unknown'' @ ''; error='' @
              take 300 (or_text (r_error_message r) ''unknown''))"

definition notify_terminal ::
  "('n, 'w, 'c) services \<Rightarrow> recording \<Rightarrow> recruiter_config \<Rightarrow> ('n, 'w, 'c, unit) app_io" where
  "notify_terminal sv r rc =
     require (truthy (rc_mattermost_user_id rc)) No_dm_mapping
       (let user = the (rc_mattermost_user_id rc)
        in io_bind (lift_rejection (enforce_user (sv_settings sv) user)) (\<lambda>_.
           io_bind (in_chat (send_dm (sv_chat sv) user (Message [Plain (terminal_text r)]) ''''
              (pending_post_id sv ''terminal'' (r_id r) (r_version r)) '''')) (\<lambda>_. io_return ())))"

definition deliver_terminal ::
  "('n, 'w, 'c) services \<Rightarrow> instant \<Rightarrow> instant \<Rightarrow> string \<Rightarrow> recording \<Rightarrow> recruiter_config \<Rightarrow>
   ('n, 'w, 'c, bool) app_io" where
  "deliver_terminal sv now later claim r rc =
     io_bind (try_claim (r_id r) (claim_terminal_notification
        (st_intent_claim_ttl_seconds (sv_settings sv)) now claim)) (\<lambda>claimed.
     io_bind commit (\<lambda>_.
       if \<not> claimed then io_return False
       else io_bind (notify_terminal sv r rc) (\<lambda>_.
            io_bind (try_claim (r_id r) (\<lambda>x. if r_terminal_notification_claim x = Some claim
                then Some (complete_terminal_notification later claim x) else None)) (\<lambda>completed.
            io_bind commit (\<lambda>_. io_return completed)))))"

section \<open>The checks of an answer\<close>

text \<open>The question with its recording, as the inner join loads them.\<close>

definition joined_review :: "string \<Rightarrow> db \<Rightarrow> (manual_review \<times> recording) option" where
  "joined_review i d =
     (case review_of d i of
        None \<Rightarrow> None
      | Some v \<Rightarrow> (case recording_of d (v_recording_id v) of None \<Rightarrow> None | Some r \<Rightarrow> Some (v, r)))"

definition load_review :: "string \<Rightarrow> ('n, 'w, 'c, manual_review \<times> recording) app_io" where
  "load_review i =
     io_bind (get_db (joined_review i)) (\<lambda>row.
       case row of None \<Rightarrow> reject Review_not_found | Some vr \<Rightarrow> io_return vr)"

definition authoritative_scope ::
  "('n, 'w, 'c) services \<Rightarrow> recording \<Rightarrow> string \<Rightarrow> db \<Rightarrow> (review_rejection, unit) result" where
  "authoritative_scope sv r user d =
     (case find (\<lambda>rc. rc_email rc = r_disk_owner_email r \<and> rc_active rc) (db_recruiters d) of
        None \<Rightarrow> Inl Recruiter_inactive_or_absent
      | Some rc \<Rightarrow> check_that (rc_mattermost_user_id rc = Some user) Requester_mismatch (scope_check sv rc))"

definition enforce_authoritative_scope ::
  "('n, 'w, 'c) services \<Rightarrow> recording \<Rightarrow> string \<Rightarrow> ('n, 'w, 'c, unit) app_io" where
  "enforce_authoritative_scope sv r user =
     io_bind (get_db (authoritative_scope sv r user)) lift_rejection"

text \<open>What \<open>_validate_binding\<close> checks before and after the expiry.\<close>

definition bound_to ::
  "manual_review \<Rightarrow> string \<Rightarrow> string \<Rightarrow> bool \<Rightarrow> (review_rejection, instant) result" where
  "bound_to v user thread bind_dm =
     check_that (v_status v = Review_pending \<and> v_token_consumed_at v = None) Token_consumed
    (check_that (v_recruiter_user_id v = Some user) Other_recruiter
    (check_that (bind_dm \<longrightarrow> v_mattermost_channel_id v = Some thread) Other_dm
    (check_that (\<not> bind_dm \<longrightarrow> v_mattermost_thread_id v = Some thread) Other_thread
    (case v_token_expires_at v of None \<Rightarrow> Inl Token_no_expiry | Some e \<Rightarrow> Inr e))))"

definition capability_matches ::
  "('n, 'w, 'c) services \<Rightarrow> manual_review \<Rightarrow> recording \<Rightarrow> string \<Rightarrow> int \<Rightarrow> (review_rejection, unit) result" where
  "capability_matches sv v r token expected_version =
     check_that (r_version r = expected_version \<and> v_recording_version v = expected_version) Stale_version
    (check_that (sv_hash sv token = opt_or (v_token_hash v) '''') Token_invalid (Inr ()))"

definition validate_binding ::
  "('n, 'w, 'c) services \<Rightarrow> instant \<Rightarrow> manual_review \<Rightarrow> recording \<Rightarrow> string \<Rightarrow> string \<Rightarrow> string \<Rightarrow> int \<Rightarrow> bool \<Rightarrow>
   ('n, 'w, 'c, unit) app_io" where
  "validate_binding sv now v r user thread token expected_version bind_dm =
     io_bind (lift_rejection (enforce_user (sv_settings sv) user)) (\<lambda>_.
     io_bind (lift_rejection (bound_to v user thread bind_dm)) (\<lambda>expires.
       if expires \<le> now
       then io_bind (modify_db (update_review (v_id v)
              (\<lambda>x. x\<lparr>v_status := Review_suppressed, v_suppressed_at := Some now\<rparr>))) (\<lambda>_.
            reject Token_expired)
       else lift_rejection (capability_matches sv v r token expected_version)))"

definition get_bound_review ::
  "('n, 'w, 'c) services \<Rightarrow> instant \<Rightarrow> string \<Rightarrow> string \<Rightarrow> string \<Rightarrow> string \<Rightarrow> ('n, 'w, 'c, manual_review) app_io" where
  "get_bound_review sv now review_id user thread token =
     io_bind (load_review review_id) (\<lambda>(v, r).
     io_bind (enforce_authoritative_scope sv r user) (\<lambda>_.
     io_bind (validate_binding sv now v r user thread token (v_recording_version v) False) (\<lambda>_.
       io_return v)))"

section \<open>The options of a question\<close>

definition blank_text :: "json \<Rightarrow> bool" where
  "blank_text j \<longleftrightarrow> (case jtext j of None \<Rightarrow> True | Some s \<Rightarrow> py_strip s = '''')"

definition safe_https :: "url_parts \<Rightarrow> bool" where
  "safe_https u \<longleftrightarrow> u_scheme u = ''https'' \<and> u_netloc u \<noteq> '''' \<and> \<not> truthy (url_username u) \<and>
     \<not> truthy (url_password u)"

definition selected_spot_identity ::
  "('n, 'w, 'c) services \<Rightarrow> json \<Rightarrow> bool \<Rightarrow> (app_error, string option \<times> string option) result" where
  "selected_spot_identity sv selected required =
     (let spot_id = jget ''spot_id'' selected; spot_url = jget ''spot_url'' selected in
      if required \<or> jtruthy spot_id \<or> jtruthy spot_url
      then check_that (\<not> blank_text (jget ''project_or_spot'' selected)) (Review_rejected Spot_no_title)
          (check_that (\<not> blank_text spot_id) (Review_rejected Spot_no_identity)
          (case jtext spot_url of
             None \<Rightarrow> Inl (Review_rejected Spot_bad_url)
           | Some url \<Rightarrow>
               (case url_split (sv_brackets sv) url of
                  None \<Rightarrow> Inl Bad_value
                | Some u \<Rightarrow> check_that (safe_https u) (Review_rejected Spot_bad_url)
                    (Inr (jtext spot_id, Some url)))))
      else Inr (None, None))"

definition selected_destination_id ::
  "('n, 'w, 'c) services \<Rightarrow> json \<Rightarrow> (review_rejection, string) result" where
  "selected_destination_id sv selected =
     (case jtext (jget ''destination_id'' selected) of
        None \<Rightarrow> Inl Destination_no_identity
      | Some raw \<Rightarrow> (case sv_uuid sv raw of None \<Rightarrow> Inl Destination_bad_identity | Some i \<Rightarrow> Inr i))"

text \<open>\<open>str(x or "")\<close> of a member of the option.\<close>

definition member_text :: "('n, 'w, 'c) services \<Rightarrow> string \<Rightarrow> json \<Rightarrow> string" where
  "member_text sv k selected = or_blank (sv_show sv) (jget k selected)"

section \<open>Changes of the rows\<close>

definition set_recording :: "string \<Rightarrow> (recording \<Rightarrow> recording) \<Rightarrow> ('n, 'w, 'c, unit) app_io" where
  "set_recording i f = modify_db (update_recording i f)"

definition set_review :: "string \<Rightarrow> (manual_review \<Rightarrow> manual_review) \<Rightarrow> ('n, 'w, 'c, unit) app_io" where
  "set_review i f = modify_db (update_review i f)"

text \<open>\<open>recording.transition_to(target)\<close> on the row of the session.\<close>

definition move_recording :: "string \<Rightarrow> recording_status \<Rightarrow> ('n, 'w, 'c, unit) app_io" where
  "move_recording i target =
     io_bind (get_db (\<lambda>d. recording_of d i)) (\<lambda>row.
       case row of
         None \<Rightarrow> reject Review_not_found
       | Some r \<Rightarrow>
           (case transition_to target r of
              Inl e \<Rightarrow> io_raise (Bad_move e)
            | Inr r1 \<Rightarrow> set_recording i (r_status_update (\<lambda>_. r_status r1))))"

definition set_parsed_action :: "string \<Rightarrow> string \<Rightarrow> ('n, 'w, 'c, unit) app_io" where
  "set_parsed_action i action = set_review i (v_parsed_action_update (\<lambda>_. Some action))"

definition apply_assessment_approval ::
  "('n, 'w, 'c) services \<Rightarrow> review_wiring \<Rightarrow> manual_review \<Rightarrow> recording \<Rightarrow> json \<Rightarrow> ('n, 'w, 'c, unit) app_io" where
  "apply_assessment_approval sv rw v r selected =
     (if \<not> jtruthy (jget ''approve'' selected) then set_parsed_action (v_id v) ''reject''
      else let body = jget ''assessment_text'' (v_question_context v) in
        require (\<not> blank_text body) No_assessment_text
       (require (rw_notion rw) Comment_unavailable
       (require (truthy (r_notion_page_id r)) No_linked_page
       (io_bind (in_notion (create_comment (sv_notion sv) (the (r_notion_page_id r)) (the (jtext body)))
           (\<lambda>e. Review_rejected (Comment_failed e))) (\<lambda>_.
        set_parsed_action (v_id v) ''approve'')))))"

definition apply_summary_email_choice ::
  "('n, 'w, 'c) services \<Rightarrow> recording \<Rightarrow> json \<Rightarrow> ('n, 'w, 'c, unit) app_io" where
  "apply_summary_email_choice sv r selected =
     (case jtext (jget ''message_id'' selected) of
        None \<Rightarrow> reject Email_malformed
      | Some message_id \<Rightarrow>
          require (message_id \<noteq> '''') Email_malformed
         (io_bind (set_recording (r_id r) (\<lambda>x. x\<lparr>r_summary_email_message_id := Some message_id,
             r_summary_email_subject := Some (member_text sv ''subject'' selected)\<rparr>)) (\<lambda>_.
          case jtext (jget ''received_at'' selected) of
            None \<Rightarrow> io_return ()
          | Some at \<Rightarrow>
              (case sv_instant sv at of
                 None \<Rightarrow> reject Email_bad_date
               | Some t \<Rightarrow> set_recording (r_id r) (r_summary_email_received_at_update (\<lambda>_. Some t))))))"

definition select_card ::
  "('n, 'w, 'c) services \<Rightarrow> manual_review \<Rightarrow> recording \<Rightarrow> json \<Rightarrow> string \<Rightarrow> ('n, 'w, 'c, unit) app_io" where
  "select_card sv v r selected page_id =
     io_bind (io_lift (selected_spot_identity sv selected (v_question_type v = ''multiple_spots'')))
       (\<lambda>(spot_id, spot_url).
     io_bind (set_recording (r_id r) (\<lambda>x. x\<lparr>r_notion_page_id := Some page_id,
         r_notion_page_url := Some (member_text sv ''url'' selected),
         r_candidate_name := Some (member_text sv ''name'' selected),
         r_project_or_spot := Some (member_text sv ''project_or_spot'' selected),
         r_notion_spot_id := spot_id, r_notion_spot_url := spot_url\<rparr>)) (\<lambda>_.
     io_bind (move_recording (r_id r) CANDIDATE_MATCHED) (\<lambda>_.
       set_review (v_id v) (\<lambda>x. x\<lparr>v_parsed_action := Some ''select_card'',
         v_resolved_notion_page_id := Some page_id,
         v_result := Some (Result_json (JObj [(''selected_choice'', selected)]))\<rparr>))))"

definition calendar_of_choice ::
  "('n, 'w, 'c) services \<Rightarrow> json \<Rightarrow> (app_error, string option) result" where
  "calendar_of_choice sv selected =
     (case jtext (jget ''calendar_id'' selected) of
        None \<Rightarrow> Inr None
      | Some raw \<Rightarrow> if raw = '''' then Inr None
          else (case sv_uuid sv raw of None \<Rightarrow> Inl Bad_value | Some i \<Rightarrow> Inr (Some i)))"

definition select_event ::
  "('n, 'w, 'c) services \<Rightarrow> manual_review \<Rightarrow> recording \<Rightarrow> json \<Rightarrow> string \<Rightarrow> ('n, 'w, 'c, unit) app_io" where
  "select_event sv v r selected event_uid =
     (case jtext (jget ''event_start_utc'' selected) of
        None \<Rightarrow> reject Calendar_no_start
      | Some start \<Rightarrow>
          io_bind (set_recording (r_id r) (\<lambda>x. x\<lparr>r_calendar_event_uid := Some event_uid,
             r_calendar_event_summary := Some (member_text sv ''event_summary'' selected)\<rparr>)) (\<lambda>_.
          case sv_instant sv start of
            None \<Rightarrow> io_raise Bad_value
          | Some t \<Rightarrow>
              io_bind (set_recording (r_id r) (r_calendar_dtstart_update (\<lambda>_. Some t))) (\<lambda>_.
              io_bind (io_lift (calendar_of_choice sv selected)) (\<lambda>calendar.
              io_bind (set_recording (r_id r) (\<lambda>x. x\<lparr>r_matched_calendar_id := calendar,
                 r_matched_calendar_display_name := Some (member_text sv ''calendar_display_name'' selected),
                 r_manual_review_reason := None\<rparr>)) (\<lambda>_.
              io_bind (move_recording (r_id r) CALENDAR_EVENT_FOUND) (\<lambda>_.
                set_parsed_action (v_id v) ''select_calendar_event''))))))"

fun resolve_error :: "dest_error \<Rightarrow> app_error" where
  "resolve_error (Rejected r) = Review_rejected (Destination_rejected (Rejected r))"
| "resolve_error (Nas e) = Nas_failed e"

definition select_destination ::
  "('n, 'w, 'c) services \<Rightarrow> review_wiring \<Rightarrow> manual_review \<Rightarrow> recording \<Rightarrow> json \<Rightarrow> ('n, 'w, 'c, unit) app_io" where
  "select_destination sv rw v r selected =
     io_bind (lift_rejection (selected_destination_id sv selected)) (\<lambda>destination_id.
     require (rw_destinations rw) Routing_unavailable
    (io_bind (get_db (\<lambda>d. find (\<lambda>rc. rc_email rc = r_disk_owner_email r) (db_recruiters d))) (\<lambda>found.
       case found of
         None \<Rightarrow> reject No_recruiter
       | Some rc \<Rightarrow>
           io_bind (in_destinations (resolve_destination (sv_nas sv) (sv_settings sv) rc destination_id)
              resolve_error) (\<lambda>destination.
           io_bind (set_recording (r_id r) (\<lambda>x. x\<lparr>r_storage_destination_id := Some (sd_id destination),
              r_storage_key := None,
              r_content_identity :=
                (if truthy (r_content_identity x) then r_content_identity x
                 else if truthy (r_disk_md5 x) then r_disk_md5 x else Some (r_disk_file_id x))\<rparr>)) (\<lambda>_.
           io_bind (move_recording (r_id r) TRANSFER_STARTED) (\<lambda>_.
             set_review (v_id v) (\<lambda>x. x\<lparr>v_parsed_action := Some ''select_synology_destination'',
               v_result := Some (Result_json (JObj [(''selected_destination_id'', JStr (sd_id destination))]))\<rparr>)))))))"

text \<open>The branches of an accepted answer, in the order of the source.\<close>

definition apply_choice ::
  "('n, 'w, 'c) services \<Rightarrow> review_wiring \<Rightarrow> manual_review \<Rightarrow> recording \<Rightarrow> json \<Rightarrow> ('n, 'w, 'c, unit) app_io" where
  "apply_choice sv rw v r selected =
     (if v_question_type v = ''summary_assessment_approval''
      then apply_assessment_approval sv rw v r selected
      else if v_question_type v = ''summary_email_ambiguous''
      then io_bind (apply_summary_email_choice sv r selected) (\<lambda>_.
             set_parsed_action (v_id v) ''select_email'')
      else case jtext (jget ''id'' selected) of
        Some page_id \<Rightarrow> select_card sv v r selected page_id
      | None \<Rightarrow> (case jtext (jget ''event_uid'' selected) of
          Some event_uid \<Rightarrow> select_event sv v r selected event_uid
        | None \<Rightarrow>
            if v_question_type v \<in> set AUTONOMOUS_ROUTING_QUESTION_TYPES
            then select_destination sv rw v r selected else reject Cannot_resume))"

datatype review_action = Resolve | Ignore

definition apply_answer ::
  "('n, 'w, 'c) services \<Rightarrow> review_wiring \<Rightarrow> manual_review \<Rightarrow> recording \<Rightarrow> review_action \<Rightarrow> int option \<Rightarrow>
   ('n, 'w, 'c, unit) app_io" where
  "apply_answer sv rw v r action choice =
     (case action of
        Ignore \<Rightarrow>
          io_bind (set_parsed_action (v_id v) ''ignore'') (\<lambda>_.
            if v_question_type v \<in> set DISCARD_ONLY_QUESTION_TYPES then io_return ()
            else move_recording (r_id r) IGNORED)
      | Resolve \<Rightarrow>
          (case jget ''choices'' (v_question_context v) of
             JList choices \<Rightarrow>
               (case choice of
                  None \<Rightarrow> reject Choice_outside
                | Some n \<Rightarrow>
                    require (1 \<le> n \<and> n \<le> int (length choices)) Choice_outside
                      (require (is_obj (choices ! nat (n - 1))) Cannot_resume
                        (apply_choice sv rw v r (choices ! nat (n - 1)))))
           | _ \<Rightarrow> reject Choice_outside))"

section \<open>Answering\<close>

record mutate_request =
  mq_review_id :: string
  mq_action :: review_action
  mq_user :: string
  mq_thread :: string
  mq_token :: string
  mq_expected_version :: int
  mq_key :: string
  mq_choice :: "int option"
  mq_bind_dm :: bool

fun action_text :: "review_action \<Rightarrow> string" where
  "action_text Resolve = ''resolve''"
| "action_text Ignore = ''ignore''"

definition mutate_operation :: "mutate_request \<Rightarrow> string" where
  "mutate_operation q = ''review:'' @ mq_review_id q @ '':'' @ action_text (mq_action q)"

definition request_fingerprint :: "('n, 'w, 'c) services \<Rightarrow> mutate_request \<Rightarrow> string" where
  "request_fingerprint sv q = sv_hash sv (flat_json
     [(''action'', JStr (action_text (mq_action q))), (''bind_dm'', JBool (mq_bind_dm q)),
      (''choice'', case mq_choice q of None \<Rightarrow> JNull | Some n \<Rightarrow> JInt n),
      (''expected_version'', JInt (mq_expected_version q)), (''recruiter_user_id'', JStr (mq_user q)),
      (''review_id'', JStr (mq_review_id q)), (''thread_id'', JStr (mq_thread q)),
      (''token_hash'', JStr (sv_hash sv (mq_token q)))])"

definition find_replay :: "mutate_request \<Rightarrow> db \<Rightarrow> intent_replay option" where
  "find_replay q d = find (\<lambda>i. intent_key i = (mq_user q, mutate_operation q, mq_key q)) (db_intents d)"

definition json_member :: "json \<Rightarrow> string \<Rightarrow> (app_error, json) result" where
  "json_member j k = (case json_get k j of None \<Rightarrow> Inl Bad_value | Some v \<Rightarrow> Inr v)"

definition uuid_member :: "('n, 'w, 'c) services \<Rightarrow> json \<Rightarrow> string \<Rightarrow> (app_error, string) result" where
  "uuid_member sv j k =
     res_bind (json_member j k) (\<lambda>v.
       case sv_uuid sv (sv_show sv v) of None \<Rightarrow> Inl Bad_value | Some i \<Rightarrow> Inr i)"

definition mutation_from_replay ::
  "('n, 'w, 'c) services \<Rightarrow> intent_replay \<Rightarrow> string \<Rightarrow> (app_error, review_mutation) result" where
  "mutation_from_replay sv i fingerprint =
     check_that (ir_request_fingerprint i = fingerprint) (Review_rejected Review_key_reused)
       (case ir_response i of
          None \<Rightarrow> Inl (Review_rejected Review_in_progress)
        | Some data \<Rightarrow>
            res_bind (uuid_member sv data ''review_id'') (\<lambda>review_id.
            res_bind (uuid_member sv data ''recording_id'') (\<lambda>recording_id.
            res_bind (json_member data ''status'') (\<lambda>status.
            res_bind (json_member data ''version'') (\<lambda>version.
              case jint version of
                None \<Rightarrow> Inl Bad_value
              | Some n \<Rightarrow> Inr \<lparr>rm_review_id = review_id, rm_recording_id = recording_id,
                               rm_status = sv_show sv status, rm_version = n, rm_replayed = True\<rparr>)))))"

definition completed_intent :: "('n, 'w, 'c) services \<Rightarrow> instant \<Rightarrow> string \<Rightarrow> mutate_request \<Rightarrow> json \<Rightarrow> intent_replay" where
  "completed_intent sv now new_id q response =
     \<lparr>ir_id = new_id, ir_actor = mq_user q, ir_operation = mutate_operation q,
      ir_idempotency_key = mq_key q, ir_request_fingerprint = request_fingerprint sv q,
      ir_state = Intent_completed, ir_claim_owner = None, ir_claim_expires_at = None,
      ir_response = Some response, ir_created_at = now\<rparr>"

text \<open>Consuming the question and recording the answer.\<close>

definition accept_review :: "instant \<Rightarrow> manual_review \<Rightarrow> manual_review" where
  "accept_review now v =
     v\<lparr>v_status := Review_processing, v_answered_at := Some now, v_processing_at := Some now,
       v_resolved_at := Some now, v_token_consumed_at := Some now\<rparr>"

definition record_answer ::
  "('n, 'w, 'c) services \<Rightarrow> instant \<Rightarrow> string \<Rightarrow> mutate_request \<Rightarrow> manual_review \<Rightarrow> recording \<Rightarrow>
   ('n, 'w, 'c, review_mutation) app_io" where
  "record_answer sv now intent_id q v r =
     io_bind (set_recording (r_id r) (\<lambda>x. x\<lparr>r_version := r_version x + 1\<rparr>)) (\<lambda>_.
     io_bind (set_review (v_id v) (accept_review now)) (\<lambda>_.
     io_bind (get_db (\<lambda>d. recording_of d (r_id r))) (\<lambda>row.
       case row of
         None \<Rightarrow> reject Review_not_found
       | Some x \<Rightarrow>
           (let m = \<lparr>rm_review_id = v_id v, rm_recording_id = r_id x, rm_status = status_value (r_status x),
                     rm_version = r_version x, rm_replayed = False\<rparr>
            in io_bind (get_db (\<lambda>d. insert_intent (completed_intent sv now intent_id q (as_dict m)) (db_intents d)))
                 (\<lambda>rows. case rows of
                    None \<Rightarrow> io_raise Integrity_violation
                  | Some rows1 \<Rightarrow> io_bind (modify_db (db_intents_update (\<lambda>_. rows1))) (\<lambda>_. io_return m))))))"

text \<open>
  The lookup, the scope and the replay are checked before and, by \<open>mutate_locked\<close>, after the row is
  locked; with no other transaction in between the second check sees the same rows.
\<close>

definition checked_review ::
  "('n, 'w, 'c) services \<Rightarrow> mutate_request \<Rightarrow>
   (manual_review \<Rightarrow> recording \<Rightarrow> ('n, 'w, 'c, review_mutation) app_io) \<Rightarrow> ('n, 'w, 'c, review_mutation) app_io" where
  "checked_review sv q k =
     io_bind (load_review (mq_review_id q)) (\<lambda>(v, r).
     io_bind (enforce_authoritative_scope sv r (mq_user q)) (\<lambda>_.
     io_bind (get_db (find_replay q)) (\<lambda>replay.
       case replay of
         Some i \<Rightarrow> io_lift (mutation_from_replay sv i (request_fingerprint sv q))
       | None \<Rightarrow> k v r)))"

definition mutate_locked ::
  "('n, 'w, 'c) services \<Rightarrow> review_wiring \<Rightarrow> instant \<Rightarrow> string \<Rightarrow> mutate_request \<Rightarrow>
   ('n, 'w, 'c, review_mutation) app_io" where
  "mutate_locked sv rw now intent_id q =
     checked_review sv q (\<lambda>v r.
       io_bind (validate_binding sv now v r (mq_user q) (mq_thread q) (mq_token q)
          (mq_expected_version q) (mq_bind_dm q)) (\<lambda>_.
       io_bind (apply_answer sv rw v r (mq_action q) (mq_choice q)) (\<lambda>_.
         record_answer sv now intent_id q v r)))"

definition mutate ::
  "('n, 'w, 'c) services \<Rightarrow> review_wiring \<Rightarrow> instant \<Rightarrow> string \<Rightarrow> mutate_request \<Rightarrow>
   ('n, 'w, 'c, review_mutation) app_io" where
  "mutate sv rw now intent_id q = checked_review sv q (\<lambda>_ _. mutate_locked sv rw now intent_id q)"

section \<open>What an answer leaves alone\<close>

definition recording_frame :: "recording \<Rightarrow> recording \<Rightarrow> bool" where
  "recording_frame x y \<longleftrightarrow> r_id y = r_id x \<and> r_version y = r_version x \<and>
     r_disk_owner_email y = r_disk_owner_email x \<and> status_step\<^sup>*\<^sup>* (r_status x) (r_status y)"

definition review_frame :: "manual_review \<Rightarrow> manual_review \<Rightarrow> bool" where
  "review_frame x y \<longleftrightarrow> v_id y = v_id x \<and> v_recording_id y = v_recording_id x \<and> v_status y = v_status x \<and>
     v_token_consumed_at y = v_token_consumed_at x"

definition answer_frame :: "db \<Rightarrow> db \<Rightarrow> bool" where
  "answer_frame d e \<longleftrightarrow> distinct (map r_id (db_recordings d)) \<and>
     db_recruiters e = db_recruiters d \<and> db_intents e = db_intents d \<and>
     list_all2 recording_frame (db_recordings d) (db_recordings e) \<and>
     list_all2 review_frame (db_reviews d) (db_reviews e)"

lemma recording_frame_refl [simp]: "recording_frame x x"
  by (simp add: recording_frame_def)

lemma review_frame_refl [simp]: "review_frame x x"
  by (simp add: review_frame_def)

lemma answer_frame_refl [simp]: "answer_frame d d \<longleftrightarrow> distinct (map r_id (db_recordings d))"
  by (simp add: answer_frame_def list_all2_same)

lemma list_all2_update_where:
  assumes "list_all2 R xs ys" and "\<And>x y. R x y \<Longrightarrow> y \<in> set ys \<Longrightarrow> p y \<Longrightarrow> R x (f y)"
  shows "list_all2 R xs (update_where p f ys)"
  using assms by (induction rule: list_all2_induct) auto

lemma list_all2_find:
  assumes "list_all2 R xs ys" and "\<And>x y. R x y \<Longrightarrow> p x \<longleftrightarrow> p y"
  shows "rel_option R (find p xs) (find p ys)"
  using assms by (induction rule: list_all2_induct) auto

lemma answer_frame_ids:
  assumes "answer_frame d e"
  shows "distinct (map r_id (db_recordings e))"
proof -
  have "list_all2 (\<lambda>x y. r_id x = r_id y) (db_recordings d) (db_recordings e)"
    using assms by (auto simp: answer_frame_def recording_frame_def elim: list_all2_mono)
  then have "map r_id (db_recordings d) = map r_id (db_recordings e)"
    by (simp add: list.rel_map flip: list.rel_eq)
  then show ?thesis using assms by (simp add: answer_frame_def)
qed

lemma keeps_frame_recording:
  assumes "\<And>x y. recording_frame x y \<Longrightarrow> recording_frame x (f y)"
  shows "keeps (\<lambda>s. answer_frame d (w_db s)) (set_recording i f)"
  using assms
  by (auto simp: keeps_def set_recording_def modify_db_def update_recording_def answer_frame_def
      intro!: list_all2_update_where)

lemma keeps_frame_review:
  assumes "\<And>x y. review_frame x y \<Longrightarrow> review_frame x (f y)"
  shows "keeps (\<lambda>s. answer_frame d (w_db s)) (set_review i f)"
  using assms
  by (auto simp: keeps_def set_review_def modify_db_def update_review_def answer_frame_def
      intro!: list_all2_update_where)

lemma keeps_get_db [keeps_rules]: "keeps I (get_db f)"
  by (simp add: keeps_def get_db_def)

lemma keeps_require [keeps_rules]: "keeps I m \<Longrightarrow> keeps I (require b r m)"
  by (simp add: require_def keeps_guard)

lemma keeps_lift_rejection [keeps_rules]: "keeps I (lift_rejection v)"
  by (simp add: lift_rejection_def keeps_lift)

lemma keeps_frame_notion [keeps_rules]: "keeps (\<lambda>s. P (w_db s)) (in_notion m err)"
  by (auto simp: keeps_def in_notion_def split: prod.splits sum.splits)

lemma keeps_frame_destinations [keeps_rules]:
  "keeps (\<lambda>s. answer_frame d (w_db s)) (in_destinations m err)"
  by (auto simp: keeps_def in_destinations_def answer_frame_def split: prod.splits sum.splits)

lemma move_recording_cases:
  "move_recording i t s = (v, s1) \<Longrightarrow>
     s1 = s \<and> (\<exists>e. v = Inl e) \<or>
     (\<exists>r. recording_of (w_db s) i = Some r \<and> t \<in> TRANSITIONS (r_status r) \<and> v = Inr () \<and>
        s1 = s\<lparr>w_db := update_recording i (r_status_update (\<lambda>_. t)) (w_db s)\<rparr>)"
  by (auto simp: move_recording_def get_db_def set_recording_def modify_db_def io_bind_app transition_to_eq
      split: option.splits if_splits)

lemma keeps_frame_move [keeps_rules]: "keeps (\<lambda>s. answer_frame d (w_db s)) (move_recording i t)"
proof (rule keepsI)
  fix s :: "('a, 'b, 'c) world" and v :: "app_error + unit" and s1
  assume fr: "answer_frame d (w_db s)" and run: "move_recording i t s = (v, s1)"
  from move_recording_cases[OF run] show "answer_frame d (w_db s1)"
  proof (elim disjE exE conjE)
    fix r
    assume r: "recording_of (w_db s) i = Some r" "t \<in> TRANSITIONS (r_status r)"
      and s1: "s1 = s\<lparr>w_db := update_recording i (r_status_update (\<lambda>_. t)) (w_db s)\<rparr>"
    have row: "r \<in> set (db_recordings (w_db s))" "r_id r = i"
      using r(1) by (auto simp: recording_of_def find_Some_iff)
    have "recording_frame x (y\<lparr>r_status := t\<rparr>)"
      if "recording_frame x y" "y \<in> set (db_recordings (w_db s))" "r_id y = i" for x y
    proof -
      have "y = r" using same_key[OF answer_frame_ids[OF fr]] that row by simp
      then show ?thesis
        using that(1) r(2) by (auto simp: recording_frame_def status_step_iff intro: rtranclp.rtrancl_into_rtrancl)
    qed
    then show ?thesis
      using fr s1 by (auto simp: answer_frame_def update_recording_def intro!: list_all2_update_where)
  qed (use fr in auto)
qed

lemma keeps_frame_action [keeps_rules]: "keeps (\<lambda>s. answer_frame d (w_db s)) (set_parsed_action i a)"
  unfolding set_parsed_action_def by (rule keeps_frame_review) (simp add: review_frame_def)

lemma keeps_frame_answer: "keeps (\<lambda>s. answer_frame d (w_db s)) (apply_answer sv rw v r a c)"
  unfolding apply_answer_def apply_choice_def apply_assessment_approval_def apply_summary_email_choice_def
    select_card_def select_event_def select_destination_def Let_def
  by (cases a; cases "jget ''choices'' (v_question_context v)";
      auto intro!: keeps_rules keeps_frame_review keeps_frame_recording
        simp: review_frame_def recording_frame_def)

section \<open>Accepted answers\<close>

lemma lift_rejection_Inr [simp]: "lift_rejection v s = (Inr x, s1) \<longleftrightarrow> v = Inr x \<and> s1 = s"
  by (cases v) (auto simp: lift_rejection_def)

lemma load_review_Inr: "load_review i s = (Inr (v, r), s1) \<longleftrightarrow> joined_review i (w_db s) = Some (v, r) \<and> s1 = s"
  by (auto simp: load_review_def get_db_def io_bind_app split: option.splits)

lemma checked_review_run:
  assumes "joined_review (mq_review_id q) (w_db s) = Some (v, r)"
    and "authoritative_scope sv r (mq_user q) (w_db s) = Inr ()"
  shows "checked_review sv q k s =
    (case find_replay q (w_db s) of
       Some i \<Rightarrow> (mutation_from_replay sv i (request_fingerprint sv q), s) | None \<Rightarrow> k v r s)"
  using assms
  by (simp add: checked_review_def load_review_def enforce_authoritative_scope_def get_db_def
      lift_rejection_def io_bind_app split: option.splits)

lemma checked_review_Inr:
  assumes "checked_review sv q k s = (Inr m, s1)" and "find_replay q (w_db s) = None"
  shows "\<exists>v r. joined_review (mq_review_id q) (w_db s) = Some (v, r) \<and>
    authoritative_scope sv r (mq_user q) (w_db s) = Inr () \<and> k v r s = (Inr m, s1)"
  using assms
  by (auto simp: checked_review_def io_bind_Inr_iff load_review_Inr enforce_authoritative_scope_def get_db_def)

lemma validate_binding_Inr:
  "validate_binding sv now v r user thread token ev bind s = (Inr (), s1) \<longleftrightarrow> s1 = s \<and>
     enforce_user (sv_settings sv) user = Inr () \<and>
     (\<exists>e. bound_to v user thread bind = Inr e \<and> now < e) \<and> capability_matches sv v r token ev = Inr ()"
  by (auto simp: validate_binding_def io_bind_Inr_iff) (metis linorder_not_le)

text \<open>The rows an accepted answer leaves behind.\<close>

definition answered_db :: "instant \<Rightarrow> manual_review \<Rightarrow> recording \<Rightarrow> intent_replay \<Rightarrow> db \<Rightarrow> db" where
  "answered_db now v r i d =
     (update_review (v_id v) (accept_review now) (update_recording (r_id r) (\<lambda>x. x\<lparr>r_version := r_version x + 1\<rparr>) d))
       \<lparr>db_intents := db_intents d @ [i]\<rparr>"

lemma accept_review_id [simp]: "v_id (accept_review now v) = v_id v"
  "v_recording_id (accept_review now v) = v_recording_id v"
  by (simp_all add: accept_review_def)

lemma record_answer_Inr:
  assumes "record_answer sv now iid q v r s = (Inr m, s1)"
  shows "\<exists>x. recording_of (w_db s) (r_id r) = Some x \<and>
    m = \<lparr>rm_review_id = v_id v, rm_recording_id = r_id x, rm_status = status_value (r_status x),
         rm_version = r_version x + 1, rm_replayed = False\<rparr> \<and>
    w_db s1 = answered_db now v r (completed_intent sv now iid q (as_dict m)) (w_db s) \<and>
    w_saved s1 = w_saved s"
  using assms
  by (auto simp: record_answer_def set_recording_def set_review_def modify_db_def get_db_def io_bind_app
      answered_db_def insert_intent_def recording_of_update Let_def split: option.splits if_splits)

lemma mutate_accepted:
  assumes run: "mutate sv rw now iid q s = (Inr m, s1)" and fresh: "find_replay q (w_db s) = None"
  shows "\<exists>v r s2. joined_review (mq_review_id q) (w_db s) = Some (v, r) \<and>
    authoritative_scope sv r (mq_user q) (w_db s) = Inr () \<and>
    enforce_user (sv_settings sv) (mq_user q) = Inr () \<and>
    (\<exists>e. bound_to v (mq_user q) (mq_thread q) (mq_bind_dm q) = Inr e \<and> now < e) \<and>
    capability_matches sv v r (mq_token q) (mq_expected_version q) = Inr () \<and>
    apply_answer sv rw v r (mq_action q) (mq_choice q) s = (Inr (), s2) \<and>
    record_answer sv now iid q v r s2 = (Inr m, s1)"
proof -
  obtain v0 r0 where "mutate_locked sv rw now iid q s = (Inr m, s1)"
    using checked_review_Inr[OF run[unfolded mutate_def] fresh] by blast
  from checked_review_Inr[OF this[unfolded mutate_locked_def] fresh] show ?thesis
    by (auto simp: io_bind_Inr_iff validate_binding_Inr)
qed

text \<open>The rows after an accepted answer, in terms of the rows before it.\<close>

lemma answered_rows:
  assumes run: "mutate sv rw now iid q s = (Inr m, s1)" and fresh: "find_replay q (w_db s) = None"
    and keys: "distinct (map r_id (db_recordings (w_db s)))"
  shows "\<exists>v r v1 r1. joined_review (mq_review_id q) (w_db s) = Some (v, r) \<and> v_id v = mq_review_id q \<and>
    authoritative_scope sv r (mq_user q) (w_db s) = Inr () \<and>
    (\<exists>e. bound_to v (mq_user q) (mq_thread q) (mq_bind_dm q) = Inr e \<and> now < e) \<and>
    capability_matches sv v r (mq_token q) (mq_expected_version q) = Inr () \<and>
    joined_review (mq_review_id q) (w_db s1) = Some (v1, r1) \<and>
    v_status v1 = Review_processing \<and> v_token_consumed_at v1 = Some now \<and>
    r_id r1 = r_id r \<and> r_version r1 = r_version r + 1 \<and> r_disk_owner_email r1 = r_disk_owner_email r \<and>
    status_step\<^sup>*\<^sup>* (r_status r) (r_status r1) \<and>
    m = \<lparr>rm_review_id = mq_review_id q, rm_recording_id = r_id r, rm_status = status_value (r_status r1),
         rm_version = r_version r1, rm_replayed = False\<rparr> \<and>
    db_recruiters (w_db s1) = db_recruiters (w_db s) \<and>
    db_intents (w_db s1) = db_intents (w_db s) @ [completed_intent sv now iid q (as_dict m)]"
proof -
  obtain v r s2 where j: "joined_review (mq_review_id q) (w_db s) = Some (v, r)"
    and scope: "authoritative_scope sv r (mq_user q) (w_db s) = Inr ()"
    and bound: "\<exists>e. bound_to v (mq_user q) (mq_thread q) (mq_bind_dm q) = Inr e \<and> now < e"
    and cap: "capability_matches sv v r (mq_token q) (mq_expected_version q) = Inr ()"
    and app: "apply_answer sv rw v r (mq_action q) (mq_choice q) s = (Inr (), s2)"
    and rec: "record_answer sv now iid q v r s2 = (Inr m, s1)"
    using mutate_accepted[OF run fresh] by blast
  have fr: "answer_frame (w_db s) (w_db s2)"
    using keepsD[OF keeps_frame_answer _ app, of "w_db s"] keys by simp
  have vid: "v_id v = mq_review_id q" and v: "review_of (w_db s) (mq_review_id q) = Some v"
    and r: "recording_of (w_db s) (v_recording_id v) = Some r" and rid: "r_id r = v_recording_id v"
    using j by (auto simp: joined_review_def review_of_def recording_of_def find_Some_iff split: option.splits)
  have "rel_option review_frame (review_of (w_db s) (mq_review_id q)) (review_of (w_db s2) (mq_review_id q))"
    using fr unfolding review_of_def answer_frame_def
    by (intro list_all2_find) (auto simp: review_frame_def)
  then obtain v2 where v2: "review_of (w_db s2) (mq_review_id q) = Some v2" "review_frame v v2"
    using v by (cases "review_of (w_db s2) (mq_review_id q)") auto
  have "rel_option recording_frame (recording_of (w_db s) (r_id r)) (recording_of (w_db s2) (r_id r))"
    using fr unfolding recording_of_def answer_frame_def
    by (intro list_all2_find) (auto simp: recording_frame_def)
  then obtain r2 where r2: "recording_of (w_db s2) (r_id r) = Some r2" "recording_frame r r2"
    using r rid by (cases "recording_of (w_db s2) (r_id r)") auto
  have m: "m = \<lparr>rm_review_id = v_id v, rm_recording_id = r_id r2, rm_status = status_value (r_status r2),
         rm_version = r_version r2 + 1, rm_replayed = False\<rparr>"
    and s1: "w_db s1 = answered_db now v r (completed_intent sv now iid q (as_dict m)) (w_db s2)"
    using record_answer_Inr[OF rec] r2(1) by auto
  have "joined_review (mq_review_id q) (w_db s1) =
      Some (accept_review now v2, r2\<lparr>r_version := r_version r2 + 1\<rparr>)"
    using v2 r2 rid vid
    by (simp add: joined_review_def s1 answered_db_def review_of_update recording_of_update review_frame_def)
  then show ?thesis
    using j vid scope bound cap v2(2) r2(2) m fr
    by (auto simp: s1 answered_db_def accept_review_def recording_frame_def answer_frame_def)
qed

section \<open>Properties\<close>

text \<open>
  Property C10.  An answer is accepted only from the active recruiter the recording belongs to, on a
  pending question bound to that user and conversation, with the unexpired token of that question
  and the current version of the recording; it consumes the question, raises the version by one and
  moves the status along the transition table.
\<close>

theorem answer_is_authorised:
  assumes "mutate sv rw now iid q s = (Inr m, s1)" and "find_replay q (w_db s) = None"
    and "distinct (map r_id (db_recordings (w_db s)))"
  shows "\<exists>v r rc v1 r1. review_of (w_db s) (mq_review_id q) = Some v \<and>
    recording_of (w_db s) (v_recording_id v) = Some r \<and>
    rc \<in> set (db_recruiters (w_db s)) \<and> rc_active rc \<and> rc_email rc = r_disk_owner_email r \<and>
    rc_mattermost_user_id rc = Some (mq_user q) \<and> v_recruiter_user_id v = Some (mq_user q) \<and>
    v_status v = Review_pending \<and> v_token_consumed_at v = None \<and>
    (if mq_bind_dm q then v_mattermost_channel_id v else v_mattermost_thread_id v) = Some (mq_thread q) \<and>
    (\<exists>e. v_token_expires_at v = Some e \<and> now < e) \<and>
    r_version r = mq_expected_version q \<and> v_recording_version v = mq_expected_version q \<and>
    sv_hash sv (mq_token q) = opt_or (v_token_hash v) '''' \<and>
    review_of (w_db s1) (mq_review_id q) = Some v1 \<and> v_status v1 = Review_processing \<and>
    v_token_consumed_at v1 = Some now \<and> recording_of (w_db s1) (r_id r) = Some r1 \<and>
    r_version r1 = mq_expected_version q + 1 \<and> status_step\<^sup>*\<^sup>* (r_status r) (r_status r1) \<and>
    rm_version m = r_version r1 \<and> rm_status m = status_value (r_status r1)"
proof -
  obtain v r v1 r1 where facts: "joined_review (mq_review_id q) (w_db s) = Some (v, r)"
    "authoritative_scope sv r (mq_user q) (w_db s) = Inr ()"
    "\<exists>e. bound_to v (mq_user q) (mq_thread q) (mq_bind_dm q) = Inr e \<and> now < e"
    "capability_matches sv v r (mq_token q) (mq_expected_version q) = Inr ()"
    "joined_review (mq_review_id q) (w_db s1) = Some (v1, r1)"
    "v_status v1 = Review_processing" "v_token_consumed_at v1 = Some now"
    "r_id r1 = r_id r" "r_version r1 = r_version r + 1" "status_step\<^sup>*\<^sup>* (r_status r) (r_status r1)"
    "rm_version m = r_version r1" "rm_status m = status_value (r_status r1)"
    using answered_rows[OF assms] by force
  obtain rc where rc: "rc \<in> set (db_recruiters (w_db s))" "rc_active rc"
    "rc_email rc = r_disk_owner_email r" "rc_mattermost_user_id rc = Some (mq_user q)"
    using facts(2) by (auto simp: authoritative_scope_def dest: find_SomeD split: option.splits)
  have rows: "review_of (w_db s) (mq_review_id q) = Some v" "recording_of (w_db s) (v_recording_id v) = Some r"
    "review_of (w_db s1) (mq_review_id q) = Some v1" "recording_of (w_db s1) (r_id r) = Some r1"
    using facts(1,5,8) by (auto simp: joined_review_def recording_of_def find_Some_iff split: option.splits)
  have checks: "v_recruiter_user_id v = Some (mq_user q) \<and>
    v_status v = Review_pending \<and> v_token_consumed_at v = None \<and>
    (if mq_bind_dm q then v_mattermost_channel_id v else v_mattermost_thread_id v) = Some (mq_thread q) \<and>
    (\<exists>e. v_token_expires_at v = Some e \<and> now < e)"
    "r_version r = mq_expected_version q \<and> v_recording_version v = mq_expected_version q \<and>
     sv_hash sv (mq_token q) = opt_or (v_token_hash v) ''''"
    using facts(3,4) by (auto simp: bound_to_def capability_matches_def split: option.splits)
  show ?thesis
    by (rule exI[of _ v], rule exI[of _ r], rule exI[of _ rc], rule exI[of _ v1], rule exI[of _ r1])
       (use facts rc rows checks in auto)
qed

text \<open>
  Property C20.  Repeating an accepted request returns the recorded answer, marked as a replay, and
  changes nothing, whatever services, instant and identifiers the repetition has.
\<close>

theorem answer_is_replayed:
  assumes "mutate sv rw now iid q s = (Inr m, s1)" and "find_replay q (w_db s) = None"
    and "distinct (map r_id (db_recordings (w_db s)))"
    and "\<And>t. sv_show sv (JStr t) = t" and "sv_uuid sv (mq_review_id q) = Some (mq_review_id q)"
    and "sv_uuid sv (rm_recording_id m) = Some (rm_recording_id m)"
  shows "mutate sv rw2 later iid2 q s1 = (Inr (m\<lparr>rm_replayed := True\<rparr>), s1)"
proof -
  obtain v r v1 r1 where facts: "authoritative_scope sv r (mq_user q) (w_db s) = Inr ()"
    "joined_review (mq_review_id q) (w_db s1) = Some (v1, r1)"
    "r_disk_owner_email r1 = r_disk_owner_email r" "db_recruiters (w_db s1) = db_recruiters (w_db s)"
    "m = \<lparr>rm_review_id = mq_review_id q, rm_recording_id = r_id r, rm_status = status_value (r_status r1),
         rm_version = r_version r1, rm_replayed = False\<rparr>"
    "db_intents (w_db s1) = db_intents (w_db s) @ [completed_intent sv now iid q (as_dict m)]"
    using answered_rows[OF assms(1-3)] by blast
  let ?i = "completed_intent sv now iid q (as_dict m)"
  have scope: "authoritative_scope sv r1 (mq_user q) (w_db s1) = Inr ()"
    using facts(1,3,4) by (simp add: authoritative_scope_def)
  have "find_replay q (w_db s1) = Some ?i"
    using assms(2) by (simp add: find_replay_def facts(6) find_append intent_key_def completed_intent_def)
  moreover have "mutation_from_replay sv ?i (request_fingerprint sv q) = Inr (m\<lparr>rm_replayed := True\<rparr>)"
    using assms(4-6) facts(5)
    by (simp add: mutation_from_replay_def completed_intent_def as_dict_def uuid_member_def json_member_def)
  ultimately show ?thesis
    using checked_review_run[OF facts(2) scope] by (simp add: mutate_def)
qed

text \<open>
  Property C13.  A capability is used once: after an accepted answer every other request on the
  question, from whomever and with whatever token, is rejected and changes nothing.
\<close>

theorem capability_is_used_once:
  assumes "mutate sv rw now iid q s = (Inr m, s1)" and "find_replay q (w_db s) = None"
    and "distinct (map r_id (db_recordings (w_db s)))"
    and "mq_review_id q2 = mq_review_id q" and "find_replay q2 (w_db s1) = None"
  shows "\<exists>e. mutate sv rw2 later iid2 q2 s1 = (Inl (Review_rejected e), s1)"
proof -
  obtain v1 r1 where j: "joined_review (mq_review_id q2) (w_db s1) = Some (v1, r1)"
    and st: "v_status v1 = Review_processing"
    using answered_rows[OF assms(1-3)] assms(4) by auto
  show ?thesis
  proof (cases "authoritative_scope sv r1 (mq_user q2) (w_db s1)")
    case (Inl e)
    then show ?thesis
      using j by (simp add: mutate_def checked_review_def load_review_def enforce_authoritative_scope_def
          get_db_def lift_rejection_def io_bind_app)
  next
    case (Inr u)
    then have run: "checked_review sv q2 k s1 = k v1 r1 s1" for k
      using checked_review_run[OF j] assms(5) by simp
    have "bound_to v1 (mq_user q2) (mq_thread q2) (mq_bind_dm q2) = Inl Token_consumed"
      using st by (simp add: bound_to_def)
    then have "\<exists>e. validate_binding sv later v1 r1 (mq_user q2) (mq_thread q2) (mq_token q2)
        (mq_expected_version q2) (mq_bind_dm q2) s1 = (Inl (Review_rejected e), s1)"
      by (cases "enforce_user (sv_settings sv) (mq_user q2)")
         (simp_all add: validate_binding_def lift_rejection_def io_bind_app)
    then show ?thesis
      by (auto simp: mutate_def mutate_locked_def run io_bind_app)
  qed
qed

section \<open>A question answered\<close>

definition demo_services :: "(nat, nat, nat) services" where
  "demo_services = \<lparr>sv_settings = (default_settings ''Spots'')\<lparr>st_openclaw_secret := ''k''\<rparr>,
     sv_notion = demo_api, sv_nas = demo_nas,
     sv_chat = \<lparr>mm_base_url = ''c'', mm_bot_user_id = ''bot'', mm_answer = (\<lambda>q w. (None, w))\<rparr>,
     sv_hash = (\<lambda>t. CHR ''#'' # t), sv_hmac = (\<lambda>k t. k @ t), sv_instant = (\<lambda>t. Some 0),
     sv_uuid = Some, sv_show = (\<lambda>j. case j of JStr t \<Rightarrow> t | _ \<Rightarrow> ''?''), sv_brackets = (\<lambda>_. True)\<rparr>"

definition demo_question :: manual_review where
  "demo_question = (new_review ''q1'' ''r1'' ''multiple_candidates''
      (JObj [(''choices'', JList [JObj [(''id'', JStr ''p1''), (''name'', JStr ''Ann'')]])]) ''set'' 3 0)
     \<lparr>v_recruiter_user_id := Some ''u'', v_mattermost_channel_id := Some ''dm'',
      v_token_hash := Some ''#t'', v_token_expires_at := Some 100\<rparr>"

definition demo_asked :: recording where
  "demo_asked = (new_recording ''r1'' ''f'' ''p'' ''a.webm'' ''hr@x'' 0)
     \<lparr>r_status := MANUAL_REVIEW_REQUIRED, r_version := 3\<rparr>"

definition demo_db :: db where
  "demo_db = \<lparr>db_recordings = [demo_asked], db_recruiters = [sample_recruiter],
     db_reviews = [demo_question], db_intents = [], db_outbox = [], db_digests = [], db_jobs = [],
     db_destinations = [], db_reroutes = [], db_artifacts = [], db_proposals = [], db_previews = [],
     db_file_results = []\<rparr>"

definition demo_room :: "(nat, nat, nat) world" where
  "demo_room = \<lparr>w_db = demo_db, w_saved = demo_db, w_notion = demo_state, w_nas = (0, []), w_chat = (0, [])\<rparr>"

definition demo_answer :: mutate_request where
  "demo_answer = \<lparr>mq_review_id = ''q1'', mq_action = Resolve, mq_user = ''u'', mq_thread = ''dm'',
     mq_token = ''t'', mq_expected_version = 3, mq_key = ''k1'', mq_choice = Some 1, mq_bind_dm = True\<rparr>"

definition demo_mutation :: review_mutation where
  "demo_mutation = \<lparr>rm_review_id = ''q1'', rm_recording_id = ''r1'', rm_status = ''candidate_matched'',
     rm_version = 4, rm_replayed = False\<rparr>"

abbreviation demo_wiring :: review_wiring where
  "demo_wiring \<equiv> \<lparr>rw_destinations = True, rw_notion = True\<rparr>"

lemma demo_answered: "fst (mutate demo_services demo_wiring 50 ''i1'' demo_answer demo_room) = Inr demo_mutation"
  by code_simp

lemma demo_answer_fresh: "find_replay demo_answer (w_db demo_room) = None"
  by code_simp

lemma demo_room_keys: "distinct (map r_id (db_recordings (w_db demo_room)))"
  by code_simp

definition demo_after :: "(nat, nat, nat) world" where
  "demo_after = snd (mutate demo_services demo_wiring 50 ''i1'' demo_answer demo_room)"

lemma demo_run: "mutate demo_services demo_wiring 50 ''i1'' demo_answer demo_room = (Inr demo_mutation, demo_after)"
  using demo_answered by (simp add: demo_after_def prod_eq_iff)

lemma demo_services_simps [simp]: "sv_show demo_services (JStr t) = t" "sv_uuid demo_services t = Some t"
  by (simp_all add: demo_services_def)

theorem authorised_witness:
  "\<exists>v1. review_of (w_db demo_after) ''q1'' = Some v1 \<and> v_token_consumed_at v1 = Some 50"
  using answer_is_authorised[OF demo_run demo_answer_fresh demo_room_keys]
  by (auto simp: demo_answer_def)

theorem replayed_witness:
  "mutate demo_services demo_wiring 99 ''i2'' demo_answer demo_after =
     (Inr (demo_mutation\<lparr>rm_replayed := True\<rparr>), demo_after)"
  using answer_is_replayed[OF demo_run demo_answer_fresh demo_room_keys] by simp

theorem used_once_witness:
  "\<exists>e. mutate demo_services demo_wiring 60 ''i2'' (demo_answer\<lparr>mq_key := ''k2''\<rparr>) demo_after =
     (Inl (Review_rejected e), demo_after)"
proof -
  have "find_replay (demo_answer\<lparr>mq_key := ''k2''\<rparr>) (w_db demo_after) = None"
    unfolding demo_after_def by code_simp
  then show ?thesis
    using capability_is_used_once[OF demo_run demo_answer_fresh demo_room_keys,
        where ?q2.0 = "demo_answer\<lparr>mq_key := ''k2''\<rparr>"] by simp
qed

section \<open>Terminal notifications are sent once\<close>

lemma recording_of_replaced:
  "recording_of d i = Some r \<Longrightarrow> r_id r1 = i \<Longrightarrow> recording_of (update_recording i (\<lambda>_. r1) d) i = Some r1"
  by (simp add: recording_of_def update_recording_def find_replaced)

text \<open>
  Once the result of a recording has been delivered and recorded as delivered, every
  later delivery of it does nothing but commit.
\<close>

theorem terminal_result_is_sent_once:
  assumes "deliver_terminal sv now later claim r rc s = (Inr True, s1)" and "r_id r2 = r_id r"
  shows "deliver_terminal sv2 now2 later2 claim2 r2 rc2 s1 = (Inr False, s1)"
proof -
  let ?ttl = "st_intent_claim_ttl_seconds (sv_settings sv)"
  obtain s2 s3 s4 where claimed: "try_claim (r_id r) (claim_terminal_notification ?ttl now claim) s = (Inr True, s2)"
    and sent: "notify_terminal sv r rc (s2\<lparr>w_saved := w_db s2\<rparr>) = (Inr (), s3)"
    and completed: "try_claim (r_id r) (\<lambda>x. if r_terminal_notification_claim x = Some claim
        then Some (complete_terminal_notification later claim x) else None) s3 = (Inr True, s4)"
    and s1: "s1 = s4\<lparr>w_saved := w_db s4\<rparr>"
    using assms(1) by (auto simp: deliver_terminal_def commit_def io_bind_Inr_iff split: if_splits)
  obtain x where x: "recording_of (w_db s3) (r_id r) = Some x" "r_terminal_notification_claim x = Some claim"
    and s4: "s4 = s3\<lparr>w_db := update_recording (r_id r) (\<lambda>_. complete_terminal_notification later claim x) (w_db s3)\<rparr>"
    using completed by (auto simp: try_claim_def get_db_def modify_db_def io_bind_app
        split: option.splits if_splits)
  have xid: "r_id (complete_terminal_notification later claim x) = r_id r"
    using x by (auto simp: complete_terminal_notification_def recording_of_def dest: find_SomeD)
  have "recording_of (w_db s1) (r_id r) = Some (complete_terminal_notification later claim x)"
    using recording_of_replaced[OF x(1) xid] by (simp add: s1 s4)
  then have "try_claim (r_id r) (claim_terminal_notification ttl now2 claim2) s1 = (Inr False, s1)" for ttl
    using x(2) by (simp add: try_claim_def get_db_def io_bind_app claim_terminal_notification_def
        complete_terminal_notification_def)
  then show ?thesis
    using assms(2) by (simp add: deliver_terminal_def commit_def io_bind_app) (simp add: s1)
qed

fun demo_room_chat :: "chat_message mm_request \<Rightarrow> nat \<Rightarrow> http_response option \<times> nat" where
  "demo_room_chat (Mm_direct a b) n = (Some \<lparr>resp_status = 200, resp_json = Some (JObj
     [(''id'', JStr ''dm''), (''name'', JStr (direct_channel_name a b)), (''type'', JStr ''D'')])\<rparr>, n)"
| "demo_room_chat (Mm_channel c) n = (Some \<lparr>resp_status = 200, resp_json = Some (JObj
     [(''id'', JStr c), (''type'', JStr ''D'')])\<rparr>, n)"
| "demo_room_chat (Mm_members c) n = (Some \<lparr>resp_status = 200, resp_json = Some (JList
     [JObj [(''user_id'', JStr ''bot'')], JObj [(''user_id'', JStr ''u'')]])\<rparr>, n)"
| "demo_room_chat (Mm_posts ch) n = (Some \<lparr>resp_status = 200, resp_json = Some (JObj [(''posts'', JObj [])])\<rparr>, n)"
| "demo_room_chat (Mm_post ch m root pending) n = (Some \<lparr>resp_status = 201, resp_json = Some (JObj
     [(''id'', JStr ''p'')])\<rparr>, Suc n)"
| "demo_room_chat _ n = (None, n)"

definition demo_chatting :: "(nat, nat, nat) services" where
  "demo_chatting = demo_services\<lparr>sv_chat :=
     \<lparr>mm_base_url = ''c'', mm_bot_user_id = ''bot'', mm_answer = demo_room_chat\<rparr>\<rparr>"

definition demo_told :: "(nat, nat, nat) world" where
  "demo_told = snd (deliver_terminal demo_chatting 5 6 ''c'' demo_asked sample_recruiter demo_room)"

theorem terminal_witness:
  "deliver_terminal demo_chatting 7 8 ''d'' demo_asked sample_recruiter demo_told = (Inr False, demo_told)"
proof -
  have "fst (deliver_terminal demo_chatting 5 6 ''c'' demo_asked sample_recruiter demo_room) = Inr True"
    by code_simp
  then have "deliver_terminal demo_chatting 5 6 ''c'' demo_asked sample_recruiter demo_room = (Inr True, demo_told)"
    by (simp add: demo_told_def prod_eq_iff)
  from terminal_result_is_sent_once[OF this] show ?thesis by simp
qed

end
