(* ===== verification/Question_Queue.thy ===== *)
theory Question_Queue
imports Reviews "HOL-Library.List_Lexorder" "HOL-Library.Product_Lexorder"
begin

text \<open>
  \<open>app/services/question_queue.py\<close>: the open questions of a recruiter, batches of answers, the daily
  digest, and the outbox through which every message goes: queued once per key, claimed by a worker,
  delivered with a bounded number of attempts.
\<close>

definition settled :: "recording \<Rightarrow> bool" where
  "settled r \<longleftrightarrow> r_status r = COMPLETED \<or> r_status r = IGNORED"

definition FOLDER_QUESTION_TYPES :: "string list" where
  "FOLDER_QUESTION_TYPES = [''storage_destination_required'', ''autonomous_routing_no_match'']"

definition FAILED_STEPS :: "string list" where
  "FAILED_STEPS = [''calendar_matching'', ''candidate_matching'', ''destination'', ''download'',
     ''ensure_folder'', ''upload'', ''share_link'', ''notion_preflight'', ''notion_update'', ''mark_processed'']"

definition channel_matches :: "settings \<Rightarrow> recruiter_config \<Rightarrow> string \<Rightarrow> bool" where
  "channel_matches st rc channel \<longleftrightarrow>
     rc_mattermost_dm_channel rc = Some channel \<or>
     (st_mattermost_bot_user_id st \<noteq> '''' \<and> truthy (rc_mattermost_user_id rc) \<and>
      direct_channel_name (st_mattermost_bot_user_id st) (the (rc_mattermost_user_id rc)) = channel)"

section \<open>Messages\<close>

definition folder_label :: "string option \<Rightarrow> string" where
  "folder_label path =
     (let parts = filter (\<lambda>p. p \<noteq> '''') (split_on CHR ''/'' (opt_or path ''''))
      in join_with '' / '' (if parts \<noteq> [] \<and> hd parts = ''home'' then tl parts else parts))"

definition render_terminal_message :: "recording \<Rightarrow> chat_message" where
  "render_terminal_message r = Message
     (if r_status r = COMPLETED
      then (if r_route_type r = ''non_interview'' then [Completed_meeting (r_disk_filename r)]
            else Completed_interview (if truthy (r_candidate_name r) then r_candidate_name r else None) #
                 (if truthy (r_notion_page_url r) then [Notion_card (the (r_notion_page_url r))] else [])) @
           (if truthy (r_synology_share_url r) then [Recording_link (the (r_synology_share_url r))] else []) @
           (if folder_label (r_synology_folder_path r) \<noteq> ''''
            then [Folder_line (folder_label (r_synology_folder_path r))] else [])
      else [Failed_head (r_disk_filename r),
            Failed_stage (let step = opt_or (r_error_step r) '''' in if step \<in> set FAILED_STEPS then step else ''''),
            Retry_hint (or_text (r_candidate_name r) (r_disk_filename r))])"

text \<open>\<open>_render_question\<close>; the label of a type is the line's business.\<close>

definition digest_details :: "(json \<Rightarrow> string) \<Rightarrow> json \<Rightarrow> choice_detail list" where
  "digest_details show choice =
     filter (\<lambda>d. case d of Detail_date _ \<Rightarrow> False | _ \<Rightarrow> True) (choice_details show choice)"

definition render_question :: "(json \<Rightarrow> string) \<Rightarrow> nat \<Rightarrow> manual_review \<Rightarrow> recording \<Rightarrow> chat_line list" where
  "render_question show number v r =
     (let choices = jget ''choices'' (v_question_context v) in
      Question_line number (r_disk_filename r) (v_question_type v) #
      (if v_question_type v \<in> set FOLDER_QUESTION_TYPES \<and> \<not> jtruthy choices then [Folder_hint number]
       else map (\<lambda>(k, c). Choice_line k (digest_details show c))
              (filter (\<lambda>(k, c). is_obj c) (enumerate 1 (take 10 (jitems choices))))))"

section \<open>The outbox\<close>

definition new_notification ::
  "string \<Rightarrow> string \<Rightarrow> string \<Rightarrow> string \<Rightarrow> string \<Rightarrow> chat_message \<Rightarrow> string option \<Rightarrow> instant \<Rightarrow> notification" where
  "new_notification new_id key kind user channel message entity now =
     \<lparr>o_id = new_id, o_dedupe_key = key, o_kind = kind, o_recruiter_user_id = user,
      o_mattermost_channel_id = channel, o_message = Some (Clip 4000 message), o_entity_id = entity,
      o_status = Outbox_pending, o_attempts = 0, o_claim_owner = None, o_claim_expires_at = None,
      o_next_attempt_at = None, o_sent_at = None, o_last_error = None, o_created_at = now\<rparr>"

definition queue_row ::
  "notification \<Rightarrow> notification list \<Rightarrow> notification \<times> notification list" where
  "queue_row item rows =
     (case find (\<lambda>x. o_dedupe_key x = o_dedupe_key item) rows of
        Some old \<Rightarrow> (old, rows) | None \<Rightarrow> (item, rows @ [item]))"

definition queue_notification ::
  "instant \<Rightarrow> string \<Rightarrow> string \<Rightarrow> string \<Rightarrow> string \<Rightarrow> string \<Rightarrow> chat_message \<Rightarrow> string option \<Rightarrow>
   ('n, 'w, 'c, notification) app_io" where
  "queue_notification now new_id key kind user channel message entity = (\<lambda>s.
     case queue_row (new_notification new_id key kind user channel message entity now) (db_outbox (w_db s)) of
       (item, rows) \<Rightarrow> (Inr item, s\<lparr>w_db := (w_db s)\<lparr>db_outbox := rows\<rparr>\<rparr>))"

text \<open>Mirroring never fails: a chat error is logged.\<close>

definition mirror_to_observer ::
  "('n, 'w, 'c) services \<Rightarrow> recruiter_config \<Rightarrow> chat_message \<Rightarrow> ('n, 'w, 'c, unit) app_io" where
  "mirror_to_observer sv rc message =
     (if offline_test_mode (sv_settings sv) \<or> \<not> truthy (rc_observer_mattermost_user_id rc) \<or>
         \<not> truthy (rc_observer_mattermost_dm_channel rc)
      then io_return ()
      else io_catch
        (io_bind (in_chat (send_dm (sv_chat sv) (the (rc_observer_mattermost_user_id rc))
            (Labelled (or_text (rc_display_name rc) (rc_email rc)) message) '''' ''''
            (the (rc_observer_mattermost_dm_channel rc)))) (\<lambda>_. io_return ()))
        (\<lambda>e. case e of Chat_failed _ \<Rightarrow> io_return () | _ \<Rightarrow> io_raise e))"

definition terminal_unsent :: "recording \<Rightarrow> bool" where
  "terminal_unsent r \<longleftrightarrow> (r_status r = COMPLETED \<or> r_status r = FAILED) \<and> r_terminal_notified_at r = None \<and>
     r_terminal_notification_claim r = None"

text \<open>The rows of the sweep: settled recordings with the active recruiter that owns them.\<close>

definition terminal_rows :: "nat \<Rightarrow> db \<Rightarrow> (recording \<times> recruiter_config) list" where
  "terminal_rows limit d = take limit (sort_key (r_found_at \<circ> fst)
     (filter (\<lambda>(r, rc). terminal_unsent r \<and> rc_email rc = r_disk_owner_email r \<and> rc_active rc \<and>
        rc_mattermost_user_id rc \<noteq> None \<and> rc_mattermost_dm_channel rc \<noteq> None)
      (List.product (db_recordings d) (db_recruiters d))))"

fun queue_terminals ::
  "instant \<Rightarrow> (string \<times> recording \<times> recruiter_config) list \<Rightarrow> ('n, 'w, 'c, unit) app_io" where
  "queue_terminals now [] = io_return ()"
| "queue_terminals now ((new_id, r, rc) # rows) =
     io_bind (queue_notification now new_id
        (''terminal:'' @ r_id r @ '':'' @ status_value (r_status r) @ '':'' @ int_text (r_version r))
        (if r_status r = COMPLETED then ''completion'' else ''error'') (the (rc_mattermost_user_id rc))
        (the (rc_mattermost_dm_channel rc)) (render_terminal_message r) (Some (r_id r))) (\<lambda>_.
     io_bind (set_recording (r_id r) (r_terminal_notified_at_update (\<lambda>_. Some now))) (\<lambda>_.
       queue_terminals now rows))"

definition queue_terminal_notifications ::
  "('n, 'w, 'c) services \<Rightarrow> instant \<Rightarrow> (nat \<Rightarrow> string) \<Rightarrow> nat \<Rightarrow> ('n, 'w, 'c, nat) app_io" where
  "queue_terminal_notifications sv now fresh limit =
     (if offline_test_mode (sv_settings sv) then io_return 0
      else io_bind (get_db (terminal_rows limit)) (\<lambda>rows.
           io_bind (queue_terminals now (map (\<lambda>(k, x). (fresh k, x)) (enumerate 0 rows))) (\<lambda>_.
             io_return (length rows))))"

section \<open>Delivery\<close>

definition outbox_due :: "instant \<Rightarrow> notification \<Rightarrow> bool" where
  "outbox_due now item \<longleftrightarrow> (o_status item = Outbox_pending \<or> o_status item = Outbox_sending) \<and>
     (o_status item = Outbox_pending \<or> (case o_claim_expires_at item of None \<Rightarrow> True | Some e \<Rightarrow> e \<le> now)) \<and>
     (case o_next_attempt_at item of None \<Rightarrow> True | Some t \<Rightarrow> t \<le> now)"

text \<open>The first statement of \<open>claim_outbox\<close> selects identifiers, the second one takes the rows.\<close>

definition outbox_ids :: "instant \<Rightarrow> nat \<Rightarrow> notification list \<Rightarrow> string list" where
  "outbox_ids now limit rows = map o_id (take (min limit 50) (sort_key o_created_at (filter (outbox_due now) rows)))"

definition outbox_takeable :: "instant \<Rightarrow> notification \<Rightarrow> bool" where
  "outbox_takeable now item \<longleftrightarrow> o_status item = Outbox_pending \<or>
     (case o_claim_expires_at item of None \<Rightarrow> True | Some e \<Rightarrow> e \<le> now)"

definition take_outbox :: "int \<Rightarrow> instant \<Rightarrow> string \<Rightarrow> string list \<Rightarrow> notification list \<Rightarrow> notification list" where
  "take_outbox ttl now worker ids rows =
     update_where (\<lambda>x. o_id x \<in> set ids \<and> outbox_takeable now x)
       (\<lambda>x. x\<lparr>o_status := Outbox_sending, o_claim_owner := Some worker,
              o_claim_expires_at := Some (now + seconds ttl)\<rparr>) rows"

definition claim_outbox ::
  "int \<Rightarrow> instant \<Rightarrow> string \<Rightarrow> nat \<Rightarrow> notification list \<Rightarrow> notification list \<times> notification list" where
  "claim_outbox ttl now worker limit rows =
     (let ids = outbox_ids now limit rows in
      if ids = [] then ([], rows)
      else let rows1 = take_outbox ttl now worker ids rows
           in (filter (\<lambda>x. o_id x \<in> set ids \<and> o_claim_owner x = Some worker) rows1, rows1))"

definition outbox_of :: "db \<Rightarrow> string \<Rightarrow> notification option" where
  "outbox_of d i = find (\<lambda>x. o_id x = i) (db_outbox d)"

definition set_outbox :: "string \<Rightarrow> (notification \<Rightarrow> notification) \<Rightarrow> ('n, 'w, 'c, unit) app_io" where
  "set_outbox i f = modify_db (\<lambda>d. d\<lparr>db_outbox := update_where (\<lambda>x. o_id x = i) f (db_outbox d)\<rparr>)"

text \<open>A failed attempt: five of them are the end, before that the next one waits longer each time.\<close>

definition backoff_seconds :: "nat \<Rightarrow> int" where
  "backoff_seconds attempts = min 3600 (2 ^ min attempts 10)"

definition attempt_failed :: "instant \<Rightarrow> mm_error \<Rightarrow> notification \<Rightarrow> notification" where
  "attempt_failed now e item =
     (let n = o_attempts item + 1 in
      item\<lparr>o_attempts := n, o_status := (if n \<ge> 5 then Outbox_failed else Outbox_pending),
           o_claim_owner := None, o_claim_expires_at := None,
           o_next_attempt_at := Some (now + seconds (backoff_seconds n)), o_last_error := Some e\<rparr>)"

definition attempt_succeeded :: "instant \<Rightarrow> notification \<Rightarrow> notification" where
  "attempt_succeeded now item =
     item\<lparr>o_status := Outbox_sent, o_attempts := o_attempts item + 1, o_sent_at := Some now,
          o_claim_owner := None, o_claim_expires_at := None, o_last_error := None\<rparr>"

text \<open>A delivered digest counts on its pending questions and is marked as sent.\<close>

definition digest_delivered ::
  "('n, 'w, 'c) services \<Rightarrow> instant \<Rightarrow> notification \<Rightarrow> ('n, 'w, 'c, unit) app_io" where
  "digest_delivered sv now item =
     (if o_kind item \<noteq> ''summary'' then io_return ()
      else case o_entity_id item of
        None \<Rightarrow> io_return ()
      | Some raw \<Rightarrow>
          (case sv_uuid sv raw of
             None \<Rightarrow> io_raise Bad_value
           | Some i \<Rightarrow> modify_db (\<lambda>d. if list_ex (\<lambda>g. g_id g = i) (db_digests d)
               then d\<lparr>db_reviews := update_where (\<lambda>v. v_digest_id v = Some i \<and> v_status v = Review_pending)
                        (\<lambda>v. v\<lparr>v_automatic_delivery_count := v_automatic_delivery_count v + 1\<rparr>) (db_reviews d),
                      db_digests := update_where (\<lambda>g. g_id g = i)
                        (\<lambda>g. g\<lparr>g_status := Digest_sent, g_sent_at := Some now\<rparr>) (db_digests d)\<rparr>
               else d)))"

definition outbox_pending_id :: "('n, 'w, 'c) services \<Rightarrow> string \<Rightarrow> string" where
  "outbox_pending_id sv key = take 26 (sv_hash sv key) @ '':0''"

definition attempt_delivery ::
  "('n, 'w, 'c) services \<Rightarrow> notification \<Rightarrow> chat_message \<Rightarrow> ('n, 'w, 'c, unit) app_io" where
  "attempt_delivery sv item message =
     io_bind (in_chat (validate_direct_channel (sv_chat sv) (sv_show sv)
        (o_recruiter_user_id item) (o_mattermost_channel_id item))) (\<lambda>_.
     io_bind (in_chat (send_dm (sv_chat sv) (o_recruiter_user_id item) message []
        (outbox_pending_id sv (o_dedupe_key item)) (o_mattermost_channel_id item))) (\<lambda>_.
       io_return ()))"

definition deliver_claimed ::
  "('n, 'w, 'c) services \<Rightarrow> instant \<Rightarrow> string \<Rightarrow> string \<Rightarrow> ('n, 'w, 'c, unit) app_io" where
  "deliver_claimed sv now worker i =
     io_bind (get_db (\<lambda>d. outbox_of d i)) (\<lambda>row.
       case row of
         None \<Rightarrow> reject Outbox_not_owned
       | Some item \<Rightarrow>
           require (o_claim_owner item = Some worker \<and> o_status item = Outbox_sending) Outbox_not_owned
          (case o_message item of
             None \<Rightarrow> reject Outbox_malformed
           | Some message \<Rightarrow>
               io_bind
                 (io_catch (attempt_delivery sv item message)
                   (\<lambda>e. case e of
                      Chat_failed f \<Rightarrow> io_bind (set_outbox i (attempt_failed now f)) (\<lambda>_. io_raise e)
                    | _ \<Rightarrow> io_raise e)) (\<lambda>_.
               io_bind (set_outbox i (attempt_succeeded now)) (\<lambda>_. digest_delivered sv now item))))"

section \<open>The binding of a conversation\<close>

definition recruiter_of_user :: "string \<Rightarrow> db \<Rightarrow> recruiter_config option" where
  "recruiter_of_user user d =
     find (\<lambda>rc. rc_mattermost_user_id rc = Some user \<and> rc_active rc) (db_recruiters d)"

definition foreign_question :: "string \<Rightarrow> string \<Rightarrow> db \<Rightarrow> bool" where
  "foreign_question user channel d \<longleftrightarrow>
     list_ex (\<lambda>v. v_recruiter_user_id v = Some user \<and> v_status v = Review_pending \<and>
        v_mattermost_channel_id v \<noteq> Some channel) (db_reviews d)"

definition validate_dm ::
  "('n, 'w, 'c) services \<Rightarrow> string \<Rightarrow> string \<Rightarrow> ('n, 'w, 'c, recruiter_config) app_io" where
  "validate_dm sv user channel =
     io_bind (get_db (recruiter_of_user user)) (\<lambda>found.
       case found of
         None \<Rightarrow> reject Invalid_dm
       | Some rc \<Rightarrow>
           if offline_test_mode (sv_settings sv)
           then io_bind (lift_rejection (scope_check sv rc)) (\<lambda>_.
                io_bind (get_db (foreign_question user channel)) (\<lambda>foreign.
                require (\<not> foreign) Other_dm (io_return rc)))
           else require (channel_matches (sv_settings sv) rc channel) Invalid_dm
                (io_bind (in_chat (validate_direct_channel (sv_chat sv) (sv_show sv) user channel)) (\<lambda>_.
                 io_return rc)))"

definition resolve_dm_channel ::
  "('n, 'w, 'c) services \<Rightarrow> string \<Rightarrow> string \<Rightarrow> ('n, 'w, 'c, recruiter_config \<times> string) app_io" where
  "resolve_dm_channel sv user channel =
     io_bind (validate_dm sv user channel) (\<lambda>rc.
       io_return (rc, if offline_test_mode (sv_settings sv) then channel
                      else or_text (rc_mattermost_dm_channel rc) channel))"

section \<open>Open questions and batches of answers\<close>

definition settled_id :: "db \<Rightarrow> string \<Rightarrow> bool" where
  "settled_id d i \<longleftrightarrow> list_ex (\<lambda>r. r_id r = i \<and> settled r) (db_recordings d)"

definition open_question :: "db \<Rightarrow> string \<Rightarrow> string \<Rightarrow> manual_review \<Rightarrow> bool" where
  "open_question d user channel v \<longleftrightarrow>
     v_recruiter_user_id v = Some user \<and> v_mattermost_channel_id v = Some channel \<and>
     v_status v = Review_pending"

definition actionable :: "db \<Rightarrow> manual_review \<Rightarrow> bool" where
  "actionable d v \<longleftrightarrow> v_question_type v \<in> set DISCARD_ONLY_QUESTION_TYPES \<or> \<not> settled_id d (v_recording_id v)"

definition oldest_first :: "manual_review list \<Rightarrow> manual_review list" where
  "oldest_first = sort_key (\<lambda>v. (v_created_at v, v_id v))"

definition active_questions :: "string \<Rightarrow> string \<Rightarrow> string option \<Rightarrow> nat \<Rightarrow> db \<Rightarrow> manual_review list" where
  "active_questions user channel set_id limit d =
     take (min limit 50) (oldest_first (filter (\<lambda>v. open_question d user channel v \<and> actionable d v \<and>
       (case set_id of None \<Rightarrow> True | Some i \<Rightarrow> v_question_set_id v = i)) (db_reviews d)))"

definition list_active ::
  "('n, 'w, 'c) services \<Rightarrow> string \<Rightarrow> string \<Rightarrow> string option \<Rightarrow> nat \<Rightarrow> ('n, 'w, 'c, manual_review list) app_io" where
  "list_active sv user channel set_id limit =
     io_bind (resolve_dm_channel sv user channel) (\<lambda>(rc, ch).
       get_db (active_questions user ch set_id limit))"

record question_answer =
  qa_question_id :: string
  qa_question_set_id :: string
  qa_action :: review_action
  qa_token :: string
  qa_expected_version :: int
  qa_idempotency_key :: string
  qa_choice :: "int option"

record question_batch =
  qb_accepted :: "review_mutation list"
  qb_rejected :: "(string \<times> review_rejection) list"
  qb_pending :: "string list"

definition answer_request :: "string \<Rightarrow> string \<Rightarrow> question_answer \<Rightarrow> mutate_request" where
  "answer_request user channel a =
     \<lparr>mq_review_id = qa_question_id a, mq_action = qa_action a, mq_user = user, mq_thread = channel,
      mq_token = qa_token a, mq_expected_version = qa_expected_version a,
      mq_key = qa_idempotency_key a, mq_choice = qa_choice a, mq_bind_dm = True\<rparr>"

definition started_text :: "review_mutation \<Rightarrow> chat_message" where
  "started_text m = Message [Plain (''Recording '' @ rm_recording_id m @ '': processing started.'')]"

definition apply_one ::
  "('n, 'w, 'c) services \<Rightarrow> review_wiring \<Rightarrow> instant \<Rightarrow> string \<Rightarrow> string \<Rightarrow> string \<Rightarrow> question_answer \<Rightarrow> ('n, 'w, 'c, review_mutation) app_io" where
  "apply_one sv rw now intent_id user channel a =
     require (qa_action a = Resolve \<longrightarrow> qa_choice a \<noteq> None) Needs_choice
    (require (qa_action a = Ignore \<longrightarrow> qa_choice a = None) No_choice_expected
    (io_bind (get_db (\<lambda>d. review_of d (qa_question_id a))) (\<lambda>question.
     require (case question of None \<Rightarrow> False | Some v \<Rightarrow> v_question_set_id v = qa_question_set_id a) Set_mismatch
      (mutate sv rw now intent_id (answer_request user channel a)))))"

text \<open>The acceptance is recorded before it is announced, so a failing announcement keeps it accepted.\<close>

definition announce_start ::
  "('n, 'w, 'c) services \<Rightarrow> instant \<Rightarrow> string \<Rightarrow> recruiter_config \<Rightarrow> string \<Rightarrow> string \<Rightarrow> question_answer \<Rightarrow>
   review_mutation \<Rightarrow> ('n, 'w, 'c, unit) app_io" where
  "announce_start sv now item_id rc user channel a m =
     (if offline_test_mode (sv_settings sv) then io_return ()
      else io_bind (queue_notification now item_id
             (''question:'' @ qa_question_id a @ '':start:'' @ int_text (rm_version m)) ''processing_started''
             user channel (started_text m) None) (\<lambda>_.
           mirror_to_observer sv rc (started_text m)))"

text \<open>
  The loop over the answers: a rejection is listed, any other error ends the batch.  Every answer has
  the identifiers of its intent and of its notification.
\<close>

fun apply_answers ::
  "('n, 'w, 'c) services \<Rightarrow> review_wiring \<Rightarrow> instant \<Rightarrow> recruiter_config \<Rightarrow> string \<Rightarrow> string \<Rightarrow>
   (string \<times> string \<times> question_answer) list \<Rightarrow>
   ('n, 'w, 'c, review_mutation list \<times> (string \<times> review_rejection) list) app_io" where
  "apply_answers sv rw now rc user channel [] = io_return ([], [])"
| "apply_answers sv rw now rc user channel ((intent_id, item_id, a) # rest) =
     io_bind
       (io_catch
         (io_bind (apply_one sv rw now intent_id user channel a) (\<lambda>m.
          io_bind (announce_start sv now item_id rc user channel a m) (\<lambda>_. io_return ([m], []))))
         (\<lambda>e. case e of Review_rejected r \<Rightarrow> io_return ([], [(qa_question_id a, r)]) | _ \<Rightarrow> io_raise e))
       (\<lambda>(acc, rej). io_bind (apply_answers sv rw now rc user channel rest) (\<lambda>(accs, rejs).
          io_return (acc @ accs, rej @ rejs)))"

definition apply_partial ::
  "('n, 'w, 'c) services \<Rightarrow> review_wiring \<Rightarrow> instant \<Rightarrow> string \<Rightarrow> string \<Rightarrow>
   (string \<times> string \<times> question_answer) list \<Rightarrow> ('n, 'w, 'c, question_batch) app_io" where
  "apply_partial sv rw now user channel answers =
     require (answers \<noteq> [] \<and> length answers \<le> 50) Batch_size
    (require (distinct (map (\<lambda>(_, _, a). qa_question_id a) answers)) Batch_duplicates
    (io_bind (resolve_dm_channel sv user channel) (\<lambda>(rc, ch).
     io_bind (apply_answers sv rw now rc user ch answers) (\<lambda>(accepted, rejected).
     io_bind (list_active sv user ch None 50) (\<lambda>open_ones.
       io_return \<lparr>qb_accepted = accepted, qb_rejected = rejected, qb_pending = map v_id open_ones\<rparr>)))))"

section \<open>The daily digest\<close>

definition digest_key :: "string \<Rightarrow> string \<Rightarrow> date \<Rightarrow> string" where
  "digest_key user channel day = ''digest:'' @ user @ '':'' @ channel @ '':'' @ date_iso day"

definition outstanding_summary :: "string \<Rightarrow> string \<Rightarrow> string \<Rightarrow> db \<Rightarrow> bool" where
  "outstanding_summary user channel key d \<longleftrightarrow>
     list_ex (\<lambda>x. o_recruiter_user_id x = user \<and> o_mattermost_channel_id x = channel \<and>
        o_kind x = ''summary'' \<and> o_status x \<in> {Outbox_pending, Outbox_sending} \<and> o_dedupe_key x \<noteq> key)
       (db_outbox d)"

definition digest_of_day :: "string \<Rightarrow> string \<Rightarrow> date \<Rightarrow> db \<Rightarrow> question_digest option" where
  "digest_of_day user channel day d =
     find (\<lambda>g. g_recruiter_user_id g = user \<and> g_mattermost_channel_id g = channel \<and> g_local_date g = day)
       (db_digests d)"

text \<open>The two sweeps: questions about settled recordings close, twice delivered ones are suppressed.\<close>

definition close_settled :: "instant \<Rightarrow> string \<Rightarrow> string \<Rightarrow> db \<Rightarrow> db" where
  "close_settled now user channel d = d\<lparr>db_reviews :=
     update_where (\<lambda>v. open_question d user channel v \<and> \<not> actionable d v)
       (\<lambda>v. v\<lparr>v_status := Review_completed, v_completed_at := Some now,
              v_result := Some (Result_json (JObj [(''closed_by'', JStr ''recording_settled'')]))\<rparr>) (db_reviews d)\<rparr>"

definition suppress_repeated :: "instant \<Rightarrow> string \<Rightarrow> string \<Rightarrow> db \<Rightarrow> db" where
  "suppress_repeated now user channel d = d\<lparr>db_reviews :=
     update_where (\<lambda>v. open_question d user channel v \<and> v_automatic_delivery_count v \<ge> 2)
       (\<lambda>v. v\<lparr>v_status := Review_suppressed, v_suppressed_at := Some now\<rparr>) (db_reviews d)\<rparr>"

definition digest_questions :: "string \<Rightarrow> string \<Rightarrow> db \<Rightarrow> manual_review list" where
  "digest_questions user channel d = take 50 (oldest_first
     (filter (\<lambda>v. open_question d user channel v \<and> v_automatic_delivery_count v < 2) (db_reviews d)))"

text \<open>One question of the digest: it joins the digest, gets a new capability and is rendered.\<close>

definition digest_question ::
  "('n, 'w, 'c) services \<Rightarrow> instant \<Rightarrow> string \<Rightarrow> nat \<Rightarrow> string \<Rightarrow> string \<Rightarrow> manual_review \<Rightarrow>
   ('n, 'w, 'c, chat_line list) app_io" where
  "digest_question sv now digest_id number nonce set_id v =
     (case rotate_digest_capability sv now nonce set_id (v\<lparr>v_digest_id := Some digest_id\<rparr>) of
        (Inl e, v1) \<Rightarrow> io_bind (set_review (v_id v) (\<lambda>_. v1)) (\<lambda>_. reject e)
      | (Inr token, v1) \<Rightarrow>
          io_bind (set_review (v_id v) (\<lambda>_. v1)) (\<lambda>_.
          io_bind (get_db (\<lambda>d. recording_of d (v_recording_id v))) (\<lambda>row.
            case row of
              None \<Rightarrow> io_raise Integrity_violation
            | Some r \<Rightarrow> io_return (render_question (sv_show sv) number v1 r))))"

fun digest_lines ::
  "('n, 'w, 'c) services \<Rightarrow> instant \<Rightarrow> string \<Rightarrow> (nat \<Rightarrow> string \<times> string) \<Rightarrow> (nat \<times> manual_review) list \<Rightarrow>
   ('n, 'w, 'c, chat_line list) app_io" where
  "digest_lines sv now digest_id fresh [] = io_return []"
| "digest_lines sv now digest_id fresh ((number, v) # rest) =
     io_bind (digest_question sv now digest_id number (fst (fresh number)) (snd (fresh number)) v) (\<lambda>lines.
     io_bind (digest_lines sv now digest_id fresh rest) (\<lambda>more. io_return (lines @ more)))"

definition new_digest :: "string \<Rightarrow> string \<Rightarrow> string \<Rightarrow> date \<Rightarrow> instant \<Rightarrow> question_digest" where
  "new_digest new_id user channel day now =
     \<lparr>g_id = new_id, g_recruiter_user_id = user, g_mattermost_channel_id = channel, g_local_date = day,
      g_status = Digest_pending, g_created_at = now, g_sent_at = None\<rparr>"

definition compose_digest ::
  "('n, 'w, 'c) services \<Rightarrow> instant \<Rightarrow> string \<Rightarrow> string \<Rightarrow> (nat \<Rightarrow> string \<times> string) \<Rightarrow> recruiter_config \<Rightarrow>
   string \<Rightarrow> string \<Rightarrow> date \<Rightarrow> question_digest option \<Rightarrow> manual_review list \<Rightarrow>
   ('n, 'w, 'c, question_digest option) app_io" where
  "compose_digest sv now new_id item_id fresh rc user channel day existing questions =
     (let digest = opt_or existing (new_digest new_id user channel day now) in
      io_bind (if existing = None then modify_db (\<lambda>d. d\<lparr>db_digests := db_digests d @ [digest]\<rparr>)
               else io_return ()) (\<lambda>_.
      io_bind (digest_lines sv now (g_id digest) fresh (enumerate 1 questions)) (\<lambda>lines.
        let message = Message (Digest_head (length questions) # lines) in
        io_bind (queue_notification now item_id (digest_key user channel day) ''summary'' user channel
           message (Some (g_id digest))) (\<lambda>_.
        io_bind (mirror_to_observer sv rc message) (\<lambda>_. io_return (Some digest))))))"

definition build_digest ::
  "('n, 'w, 'c) services \<Rightarrow> instant \<Rightarrow> string \<Rightarrow> string \<Rightarrow> (nat \<Rightarrow> string \<times> string) \<Rightarrow> string \<Rightarrow> string \<Rightarrow> date \<Rightarrow>
   bool \<Rightarrow> ('n, 'w, 'c, question_digest option) app_io" where
  "build_digest sv now new_id item_id fresh user channel day sending =
     io_bind (resolve_dm_channel sv user channel) (\<lambda>(rc, ch).
     io_bind (get_db (\<lambda>d. (outstanding_summary user ch (digest_key user ch day) d, digest_of_day user ch day d,
        list_ex (\<lambda>x. o_dedupe_key x = digest_key user ch day) (db_outbox d)))) (\<lambda>(blocked, existing, queued).
       if blocked then io_return None
       else if existing \<noteq> None \<and> (g_status (the existing) \<noteq> Digest_pending \<or> queued) then io_return existing
       else
         io_bind (modify_db (close_settled now user ch)) (\<lambda>_.
         io_bind (modify_db (suppress_repeated now user ch)) (\<lambda>_.
         io_bind (get_db (digest_questions user ch)) (\<lambda>questions.
           if \<not> sending \<or> questions = []
           then io_bind (modify_db (\<lambda>d. case existing of None \<Rightarrow> d
                   | Some g \<Rightarrow> d\<lparr>db_digests := update_where (\<lambda>x. g_id x = g_id g)
                       (\<lambda>x. x\<lparr>g_status := Digest_sent, g_sent_at := Some now\<rparr>) (db_digests d)\<rparr>)) (\<lambda>_.
                io_return None)
           else compose_digest sv now new_id item_id fresh rc user ch day existing questions)))))"

section \<open>Routing questions\<close>

definition choice_label :: "('n, 'w, 'c) services \<Rightarrow> json \<Rightarrow> (review_rejection, string) result" where
  "choice_label sv choice =
     (case (jtext (jget ''destination_id'' choice), jtext (jget ''name'' choice)) of
        (Some raw_id, Some name) \<Rightarrow>
          check_that (py_strip name \<noteq> '''') Routing_choices_malformed
         (check_that (sv_uuid sv raw_id \<noteq> None) Destination_bad_identity
           (Inr (take 160 (join_with '' '' (py_words '''' name)))))
      | _ \<Rightarrow> Inl Routing_choices_malformed)"

definition subject_part :: "string option \<Rightarrow> string option" where
  "subject_part m = (if truthy m then map_option (take 160) m else None)"

definition defer_message :: "recording \<Rightarrow> string list \<Rightarrow> chat_message" where
  "defer_message r labels =
     (let name = take 160 (r_disk_filename r); who = subject_part (r_candidate_name r);
          spot = subject_part (r_project_or_spot r)
      in Message (if labels \<noteq> []
           then Defer_several name who spot # map (\<lambda>(n, l). Defer_option n l) (enumerate 1 labels) @
                [Defer_answer_hint]
           else [Defer_none name who spot, Defer_create_hint]))"

definition queue_routing_defer_notification ::
  "('n, 'w, 'c) services \<Rightarrow> instant \<Rightarrow> string \<Rightarrow> string \<Rightarrow> recording \<Rightarrow> manual_review \<Rightarrow>
   ('n, 'w, 'c, notification) app_io" where
  "queue_routing_defer_notification sv now item_id job_id r v =
     require (truthy (v_recruiter_user_id v) \<and> truthy (v_mattermost_channel_id v)) No_dm_binding
      (case jget ''choices'' (v_question_context v) of
         JList choices \<Rightarrow>
           io_bind (lift_rejection (res_map (choice_label sv) (take 10 choices))) (\<lambda>labels.
             queue_notification now item_id (''routing-defer:'' @ job_id @ '':'' @ int_text (r_version r))
               ''routing_deferred'' (the (v_recruiter_user_id v)) (the (v_mattermost_channel_id v))
               (defer_message r labels) (Some (v_id v)))
       | _ \<Rightarrow> reject Routing_choices_malformed)"

section \<open>Finishing questions\<close>

definition finish_review :: "instant \<Rightarrow> bool \<Rightarrow> chat_message \<Rightarrow> manual_review \<Rightarrow> manual_review" where
  "finish_review now succeeded message v =
     (if succeeded then v\<lparr>v_status := Review_completed, v_completed_at := Some now\<rparr>
      else v\<lparr>v_status := Review_failed, v_failed_at := Some now\<rparr>)
     \<lparr>v_result := Some (Result_closing succeeded (Clip 300 message))\<rparr>"

definition mark_terminal ::
  "('n, 'w, 'c) services \<Rightarrow> instant \<Rightarrow> string \<Rightarrow> string \<Rightarrow> bool \<Rightarrow> chat_message \<Rightarrow> bool \<Rightarrow>
   ('n, 'w, 'c, notification option) app_io" where
  "mark_terminal sv now item_id question_id succeeded message notify =
     io_bind (get_db (\<lambda>d. review_of d question_id)) (\<lambda>row.
       case row of
         None \<Rightarrow> reject Review_not_found
       | Some v \<Rightarrow>
           require (v_status v \<in> {Review_answered, Review_processing, Review_failed, Review_completed}) Not_processing
          (io_bind (set_review question_id (finish_review now succeeded message)) (\<lambda>_.
             if offline_test_mode (sv_settings sv) \<or> \<not> notify then io_return None
             else io_bind (queue_notification now item_id
                    (''question:'' @ v_id v @ '':'' @ (if succeeded then ''completion'' else ''error'') @ '':'' @
                       int_text (v_recording_version v))
                    (if succeeded then ''completion'' else ''error'')
                    (opt_or (v_recruiter_user_id v) '''') (opt_or (v_mattermost_channel_id v) '''')
                    (Clip 4000 message) None) (\<lambda>item. io_return (Some item)))))"

definition reconcile_binding ::
  "('n, 'w, 'c) services \<Rightarrow> recruiter_config \<Rightarrow> interaction_binding option \<Rightarrow>
   (review_rejection, string \<times> string) result" where
  "reconcile_binding sv rc binding =
     (case binding of
        Some b \<Rightarrow> check_that (offline_test_mode (sv_settings sv)) Offline_unavailable
          (check_that (rc_mattermost_user_id rc = Some (ib_recruiter_user_id b)) Requester_mismatch
            (Inr (ib_recruiter_user_id b, ib_dm_channel_id b)))
      | None \<Rightarrow> check_that (truthy (rc_mattermost_user_id rc) \<and> truthy (rc_mattermost_dm_channel rc)) No_dm_mapping
            (Inr (the (rc_mattermost_user_id rc), the (rc_mattermost_dm_channel rc))))"

record fresh_ids =
  fi_item :: string
  fi_review :: string
  fi_nonce :: string
  fi_set :: string

definition reconcile_one ::
  "('n, 'w, 'c) services \<Rightarrow> instant \<Rightarrow> fresh_ids \<Rightarrow> recruiter_config \<Rightarrow> interaction_binding option \<Rightarrow>
   manual_review \<Rightarrow> recording \<Rightarrow> ('n, 'w, 'c, unit) app_io" where
  "reconcile_one sv now ids rc binding v r =
     (let filename = or_text (r_generated_filename r) (r_disk_filename r) in
      if r_status r = COMPLETED \<or> r_status r = FAILED
      then io_bind (mark_terminal sv now (fi_item ids) (v_id v) (r_status r = COMPLETED)
             (Message [Plain (''recording '' @ status_value (r_status r))]) False) (\<lambda>_. io_return ())
      else if r_status r = IGNORED
      then io_bind (mark_terminal sv now (fi_item ids) (v_id v) True
             (Message [Skipped_by_answer filename]) True) (\<lambda>_. io_return ())
      else if r_status r = MANUAL_REVIEW_REQUIRED
      then io_bind (mark_terminal sv now (fi_item ids) (v_id v) True
             (Message [Another_question filename]) True) (\<lambda>_.
           io_bind (enqueue_review sv now (fi_review ids) (fi_nonce ids) (fi_set ids) r rc binding) (\<lambda>_.
             io_return ()))
      else io_return ())"

definition processing_questions :: "string \<Rightarrow> string \<Rightarrow> db \<Rightarrow> (manual_review \<times> recording) list" where
  "processing_questions user channel d =
     List.map_filter (\<lambda>v. map_option (Pair v) (recording_of d (v_recording_id v)))
       (filter (\<lambda>v. v_status v = Review_processing \<and> v_recruiter_user_id v = Some user \<and>
          v_mattermost_channel_id v = Some channel) (db_reviews d))"

fun reconcile_all ::
  "('n, 'w, 'c) services \<Rightarrow> instant \<Rightarrow> recruiter_config \<Rightarrow> interaction_binding option \<Rightarrow>
   (fresh_ids \<times> manual_review \<times> recording) list \<Rightarrow> ('n, 'w, 'c, unit) app_io" where
  "reconcile_all sv now rc binding [] = io_return ()"
| "reconcile_all sv now rc binding ((ids, v, r) # rest) =
     io_bind (reconcile_one sv now ids rc binding v r) (\<lambda>_. reconcile_all sv now rc binding rest)"

definition reconcile_processing ::
  "('n, 'w, 'c) services \<Rightarrow> instant \<Rightarrow> (nat \<Rightarrow> fresh_ids) \<Rightarrow> recruiter_config \<Rightarrow> interaction_binding option \<Rightarrow>
   ('n, 'w, 'c, unit) app_io" where
  "reconcile_processing sv now fresh rc binding =
     io_bind (lift_rejection (reconcile_binding sv rc binding)) (\<lambda>(user, channel).
     io_bind (get_db (processing_questions user channel)) (\<lambda>questions.
       reconcile_all sv now rc binding (map (\<lambda>(k, x). (fresh k, x)) (enumerate 0 questions))))"

section \<open>The life of a notification\<close>

text \<open>What the status of an item says about its attempts and its claim.\<close>

fun item_ok :: "notification \<Rightarrow> bool" where
  "item_ok x = (case o_status x of
      Outbox_pending \<Rightarrow> o_attempts x < 5 \<and> o_claim_owner x = None \<and> o_claim_expires_at x = None
    | Outbox_sending \<Rightarrow> o_attempts x < 5 \<and> o_claim_owner x \<noteq> None \<and> o_claim_expires_at x \<noteq> None
    | Outbox_sent \<Rightarrow> 1 \<le> o_attempts x \<and> o_attempts x \<le> 5 \<and> o_sent_at x \<noteq> None \<and> o_claim_owner x = None
    | Outbox_failed \<Rightarrow> o_attempts x = 5 \<and> o_claim_owner x = None)"

definition outbox_ok :: "notification list \<Rightarrow> bool" where
  "outbox_ok rows \<longleftrightarrow> distinct (map o_id rows) \<and> distinct (map o_dedupe_key rows) \<and> list_all item_ok rows"

definition item_final :: "notification \<Rightarrow> bool" where
  "item_final x \<longleftrightarrow> o_status x = Outbox_sent \<or> o_status x = Outbox_failed"

text \<open>
  The steps of the table and of the selections the workers hold: queueing under a fresh identifier; the
  first statement of \<open>claim_outbox\<close>, which selects identifiers; its second statement, which takes the
  rows of a selection made at any earlier time; giving a selection up; and a delivery of an item
  against any answers of the chat server, as one step.
\<close>

type_synonym dispatch = "notification list \<times> string list list"

inductive outbox_step :: "('n, 'w, 'c) services \<Rightarrow> dispatch \<Rightarrow> dispatch \<Rightarrow> bool"
  for sv :: "('n, 'w, 'c) services" where
  queue_step: "new_id \<notin> set (map o_id rows) \<Longrightarrow> outbox_step sv (rows, sels)
     (snd (queue_row (new_notification new_id key kind user channel msg entity now) rows), sels)"
| select_step: "outbox_step sv (rows, sels) (rows, outbox_ids now limit rows # sels)"
| take_step: "sel \<in> set sels \<Longrightarrow> outbox_step sv (rows, sels) (take_outbox ttl now worker sel rows, remove1 sel sels)"
| forget_step: "outbox_step sv (rows, sels) (rows, remove1 sel sels)"
| deliver_step: "deliver_claimed sv now worker i s = (v, s1) \<Longrightarrow> db_outbox (w_db s) = rows \<Longrightarrow>
     outbox_step sv (rows, sels) (db_outbox (w_db s1), sels)"

lemma take_nothing [simp]: "take_outbox ttl now worker [] rows = rows"
  by (induction rows) (simp_all add: take_outbox_def update_where_def)

text \<open>A claim that nothing comes between is a selection and its take.\<close>

lemma claim_is_select_and_take:
  "snd (claim_outbox ttl now worker limit rows) = take_outbox ttl now worker (outbox_ids now limit rows) rows"
  by (simp add: claim_outbox_def Let_def)

lemma claim_steps:
  "(outbox_step sv)\<^sup>*\<^sup>* (rows, sels) (snd (claim_outbox ttl now worker limit rows), sels)"
proof -
  let ?sel = "outbox_ids now limit rows"
  have "outbox_step sv (rows, sels) (rows, ?sel # sels)" by (rule select_step)
  moreover have "outbox_step sv (rows, ?sel # sels) (take_outbox ttl now worker ?sel rows, remove1 ?sel (?sel # sels))"
    by (rule take_step) simp
  ultimately show ?thesis
    by (simp add: claim_is_select_and_take converse_rtranclp_into_rtranclp)
qed

text \<open>A final item that no selection names; a state in which every final item is such an item.\<close>

definition unnamed :: "string list list \<Rightarrow> notification \<Rightarrow> bool" where
  "unnamed sels x \<longleftrightarrow> (\<forall>sel\<in>set sels. o_id x \<notin> set sel)"

definition calm :: "dispatch \<Rightarrow> bool" where
  "calm d \<longleftrightarrow> (\<forall>x\<in>set (fst d). item_final x \<longrightarrow> unnamed (snd d) x)"

definition calm_step :: "('n, 'w, 'c) services \<Rightarrow> dispatch \<Rightarrow> dispatch \<Rightarrow> bool" where
  "calm_step sv d e \<longleftrightarrow> outbox_step sv d e \<and> calm e"

lemma attempt_frame [simp]:
  "o_id (attempt_failed now e x) = o_id x" "o_dedupe_key (attempt_failed now e x) = o_dedupe_key x"
  "o_id (attempt_succeeded now x) = o_id x" "o_dedupe_key (attempt_succeeded now x) = o_dedupe_key x"
  by (simp_all add: attempt_failed_def attempt_succeeded_def Let_def)

lemma digest_delivered_outbox: "digest_delivered sv now item s = (v, s1) \<Longrightarrow> db_outbox (w_db s1) = db_outbox (w_db s)"
  by (auto simp: digest_delivered_def modify_db_def split: if_splits option.splits)

lemma in_chat_run:
  "in_chat m s = (v, s1) \<Longrightarrow> w_db s1 = w_db s \<and> (\<forall>e. v = Inl e \<longrightarrow> (\<exists>f. e = Chat_failed f))"
  by (auto simp: in_chat_def split: prod.splits sum.splits)

lemma attempt_delivery_run:
  assumes "attempt_delivery sv item message s = (v, s1)"
  shows "w_db s1 = w_db s \<and> (v = Inr () \<or> (\<exists>f. v = Inl (Chat_failed f)))"
  using assms unfolding attempt_delivery_def
  by (auto elim!: io_bind_cases dest!: in_chat_run)

lemma deliver_claimed_rows:
  assumes "deliver_claimed sv now worker i s = (v, s1)"
  shows "db_outbox (w_db s1) = db_outbox (w_db s) \<or>
    (\<exists>item f. outbox_of (w_db s) i = Some item \<and> o_claim_owner item = Some worker \<and>
       o_status item = Outbox_sending \<and> (f = attempt_succeeded now \<or> (\<exists>e. f = attempt_failed now e)) \<and>
       db_outbox (w_db s1) = update_where (\<lambda>x. o_id x = i) f (db_outbox (w_db s)))"
proof (cases "\<exists>item message. outbox_of (w_db s) i = Some item \<and> o_claim_owner item = Some worker \<and>
    o_status item = Outbox_sending \<and> o_message item = Some message")
  case False
  then show ?thesis
    using assms by (auto simp: deliver_claimed_def get_db_def io_bind_app require_app
        split: option.splits if_splits)
next
  case True
  then obtain item message where item: "outbox_of (w_db s) i = Some item" "o_claim_owner item = Some worker"
    "o_status item = Outbox_sending" "o_message item = Some message" by blast
  obtain u s2 where att: "attempt_delivery sv item message s = (u, s2)" by (cases "attempt_delivery sv item message s")
  from attempt_delivery_run[OF this] have db: "w_db s2 = w_db s"
    and u: "u = Inr () \<or> (\<exists>f. u = Inl (Chat_failed f))" by auto
  from u show ?thesis
  proof (elim disjE exE)
    assume "u = Inr ()"
    then have "digest_delivered sv now item
        (s2\<lparr>w_db := (w_db s)\<lparr>db_outbox := update_where (\<lambda>x. o_id x = i) (attempt_succeeded now) (db_outbox (w_db s))\<rparr>\<rparr>)
        = (v, s1)"
      using assms item att db
      by (simp add: deliver_claimed_def get_db_def require_app io_apps set_outbox_def modify_db_def)
    from digest_delivered_outbox[OF this] show ?thesis using item by auto
  next
    fix f
    assume "u = Inl (Chat_failed f)"
    then show ?thesis
      using assms item att db
      by (auto simp: deliver_claimed_def get_db_def require_app io_apps set_outbox_def modify_db_def)
  qed
qed

text \<open>What no step of the table changes of an item, and what its status says in every history.\<close>

definition item_identity :: "notification \<Rightarrow> string \<times> string \<times> string \<times> string \<times> string \<times> chat_message option \<times> instant" where
  "item_identity x = (o_id x, o_dedupe_key x, o_kind x, o_recruiter_user_id x, o_mattermost_channel_id x,
     o_message x, o_created_at x)"

fun item_shape :: "notification \<Rightarrow> bool" where
  "item_shape x = (case o_status x of
      Outbox_pending \<Rightarrow> o_attempts x < 5 \<and> o_claim_owner x = None \<and> o_claim_expires_at x = None
    | Outbox_sending \<Rightarrow> o_claim_owner x \<noteq> None \<and> o_claim_expires_at x \<noteq> None
    | Outbox_sent \<Rightarrow> 1 \<le> o_attempts x \<and> o_sent_at x \<noteq> None \<and> o_claim_owner x = None
    | Outbox_failed \<Rightarrow> 5 \<le> o_attempts x \<and> o_claim_owner x = None)"

definition outbox_shape :: "notification list \<Rightarrow> bool" where
  "outbox_shape rows \<longleftrightarrow> distinct (map o_id rows) \<and> distinct (map o_dedupe_key rows) \<and> list_all item_shape rows"

text \<open>
  Each step leaves the table alone, adds an item, or changes items with a function of two kinds: a
  take, or the outcome of an attempt on an item that is being sent.
\<close>

definition taken_by :: "string \<Rightarrow> instant \<Rightarrow> notification \<Rightarrow> notification" where
  "taken_by worker t x = x\<lparr>o_status := Outbox_sending, o_claim_owner := Some worker, o_claim_expires_at := Some t\<rparr>"

lemma outbox_step_cases:
  assumes "outbox_step sv (rows, sels) (rows1, sels1)" and "distinct (map o_id rows)"
  obtains (same) "rows1 = rows"
  | (added) x where "rows1 = rows @ [x]" "o_id x \<notin> set (map o_id rows)" "o_dedupe_key x \<notin> set (map o_dedupe_key rows)"
      "o_status x = Outbox_pending" "o_attempts x = 0" "o_claim_owner x = None" "o_claim_expires_at x = None"
  | (taken) sel now worker t where "sel \<in> set sels" "sels1 = remove1 sel sels"
      "rows1 = update_where (\<lambda>x. o_id x \<in> set sel \<and> outbox_takeable now x) (taken_by worker t) rows"
  | (tried) item f where "item \<in> set rows" "o_status item = Outbox_sending" "sels1 = sels"
      "(\<exists>now. f = attempt_succeeded now) \<or> (\<exists>now e. f = attempt_failed now e)"
      "rows1 = update_where (\<lambda>x. x = item) f rows"
  using assms(1)
proof cases
  case (queue_step new_id key kind user channel msg entity now)
  then show ?thesis
    using same added[of "new_notification new_id key kind user channel msg entity now"]
    by (auto simp: queue_row_def new_notification_def find_None_iff split: option.splits)
next
  case (take_step sel ttl now worker)
  then show ?thesis
    using taken[of sel now worker "now + seconds ttl"] by (simp add: take_outbox_def taken_by_def[abs_def])
next
  case (deliver_step now worker i s v s1)
  show ?thesis
  proof (cases "db_outbox (w_db s1) = db_outbox (w_db s)")
    case True
    then show ?thesis using deliver_step same by simp
  next
    case False
    then obtain item f where item: "outbox_of (w_db s) i = Some item" "o_status item = Outbox_sending"
      and upd: "db_outbox (w_db s1) = update_where (\<lambda>x. o_id x = i) f (db_outbox (w_db s))"
      and f: "f = attempt_succeeded now \<or> (\<exists>e. f = attempt_failed now e)"
      using deliver_claimed_rows[OF deliver_step(3)] by blast
    have row: "item \<in> set rows" "o_id item = i"
      using item(1) deliver_step by (auto simp: outbox_of_def dest: find_SomeD)
    then have "x = item \<longleftrightarrow> o_id x = i" if "x \<in> set rows" for x
      using that same_key[OF assms(2), of x item] by auto
    then have "update_where (\<lambda>x. o_id x = i) f rows = update_where (\<lambda>x. x = item) f rows"
      by (simp add: update_where_def)
    then show ?thesis using tried[of item f] row(1) item(2) f upd deliver_step by auto
  qed
qed (use same in auto)

lemma step_frame [simp]:
  "item_identity (taken_by worker t x) = item_identity x"
  "item_identity (attempt_failed now e x) = item_identity x"
  "item_identity (attempt_succeeded now x) = item_identity x"
  "item_shape x \<Longrightarrow> item_shape (taken_by worker t x)"
  "item_shape (attempt_failed now e x)" "item_shape (attempt_succeeded now x)"
  by (auto simp: item_identity_def taken_by_def attempt_failed_def attempt_succeeded_def Let_def)

lemma identity_keys: "item_identity y = item_identity x \<Longrightarrow> o_id y = o_id x \<and> o_dedupe_key y = o_dedupe_key x"
  by (simp add: item_identity_def)

lemma identity_map:
  assumes "\<And>x. item_identity (f x) = item_identity x"
  shows "map o_id (update_where p f rows) = map o_id rows"
    "map o_dedupe_key (update_where p f rows) = map o_dedupe_key rows"
  using assms identity_keys by (auto intro!: map_update_where)

lemma outbox_update_shape:
  assumes "outbox_shape rows" and "\<And>x. item_identity (f x) = item_identity x"
    and "\<And>x. x \<in> set rows \<Longrightarrow> item_shape x \<Longrightarrow> item_shape (f x)"
  shows "outbox_shape (update_where p f rows) \<and>
    (\<forall>x\<in>set rows. \<exists>y\<in>set (update_where p f rows). item_identity y = item_identity x)"
proof -
  have "\<exists>y\<in>set (update_where p f rows). item_identity y = item_identity x" if "x \<in> set rows" for x
    using that assms(2) by (intro bexI[of _ "if p x then f x else x"]) (auto simp: in_update_where)
  then show ?thesis
    using assms by (auto simp: outbox_shape_def identity_map[OF assms(2)] list_all_iff in_update_where simp del: item_shape.simps)
qed

lemma outbox_step_shape:
  assumes "outbox_step sv d e" and "outbox_shape (fst d)"
  shows "outbox_shape (fst e) \<and> (\<forall>x\<in>set (fst d). \<exists>y\<in>set (fst e). item_identity y = item_identity x)"
proof -
  obtain rows sels rows1 sels1 where d: "d = (rows, sels)" "e = (rows1, sels1)" by fastforce
  have ok: "outbox_shape rows" "distinct (map o_id rows)" using assms(2) by (simp_all add: d outbox_shape_def)
  from assms(1)[unfolded d] ok(2) show ?thesis
  proof (cases rule: outbox_step_cases)
    case (taken sel now worker t)
    then show ?thesis
      using outbox_update_shape[OF ok(1), of "taken_by worker t"] by (simp add: d del: item_shape.simps)
  next
    case (tried item f)
    then have f: "item_identity (f x) = item_identity x" "item_shape (f x)" for x
      by (auto simp del: item_shape.simps)
    show ?thesis
      using outbox_update_shape[OF ok(1) f(1)] f(2) tried(5) by (simp add: d del: item_shape.simps)
  qed (use ok(1) in \<open>auto simp: d outbox_shape_def list_all_iff\<close>)
qed

lemma outbox_run_shape:
  assumes "(outbox_step sv)\<^sup>*\<^sup>* d e" and "outbox_shape (fst d)"
  shows "outbox_shape (fst e) \<and> (\<forall>x\<in>set (fst d). \<exists>y\<in>set (fst e). item_identity y = item_identity x)"
  using assms
proof (induction rule: rtranclp_induct)
  case (step e1 e2)
  then show ?case using outbox_step_shape[OF step(2)] by (metis (no_types, lifting))
qed auto

text \<open>A final item that no worker has selected stays as it is, and nobody selects it any more.\<close>

lemma final_unnamed_step:
  assumes "outbox_step sv (rows, sels) (rows1, sels1)" and "distinct (map o_id rows)"
    and "x \<in> set rows" "item_final x" "unnamed sels x"
  shows "x \<in> set rows1 \<and> unnamed sels1 x"
proof -
  have "unnamed sels1 x"
    using assms(1)
  proof cases
    case (select_step now limit)
    have "o_id x \<notin> set (outbox_ids now limit rows)"
    proof
      assume "o_id x \<in> set (outbox_ids now limit rows)"
      then obtain y where "y \<in> set rows" "outbox_due now y" "o_id y = o_id x"
        by (auto simp: outbox_ids_def dest!: in_set_takeD)
      then have "outbox_due now x" using assms(2,3) same_key[of o_id rows x y] by auto
      then show False using assms(4) by (auto simp: outbox_due_def item_final_def)
    qed
    then show ?thesis using select_step assms(5) by (simp add: unnamed_def)
  qed (use assms(5) in \<open>auto simp: unnamed_def dest: notin_set_remove1\<close>)
  moreover from assms(1,2) have "x \<in> set rows1"
  proof (cases rule: outbox_step_cases)
    case (taken sel now worker t)
    then show ?thesis using assms(3,5) by (auto simp: unnamed_def intro: in_update_other)
  next
    case (tried item f)
    then have "x \<noteq> item" using assms(4) by (auto simp: item_final_def)
    then show ?thesis using tried(5) assms(3) by (auto intro: in_update_other)
  qed (use assms(3) in auto)
  ultimately show ?thesis by simp
qed

lemma final_unnamed_run:
  assumes "(outbox_step sv)\<^sup>*\<^sup>* (rows, sels) e" and "outbox_shape rows"
    and "x \<in> set rows" "item_final x" "unnamed sels x"
  shows "outbox_shape (fst e) \<and> x \<in> set (fst e) \<and> unnamed (snd e) x"
  using assms(1)
proof (induction rule: rtranclp_induct)
  case base
  then show ?case using assms by simp
next
  case (step e1 e2)
  have "outbox_step sv (fst e1, snd e1) (fst e2, snd e2)" using step(2) by simp
  then show ?case
    using final_unnamed_step[of sv "fst e1" "snd e1" "fst e2" "snd e2" x] outbox_step_shape[OF step(2)] step.IH assms(4)
    by (auto simp: outbox_shape_def)
qed

text \<open>In a calm history an item is never tried more than five times.\<close>

lemma calm_step_ok:
  assumes "calm_step sv (rows, sels) (rows1, sels1)" and "outbox_ok rows" and "calm (rows, sels)"
  shows "outbox_ok rows1"
proof -
  have step: "outbox_step sv (rows, sels) (rows1, sels1)" and ids: "distinct (map o_id rows)"
    using assms(1,2) by (simp_all add: calm_step_def outbox_ok_def)
  then show ?thesis
  proof (cases rule: outbox_step_cases)
    case same
    then show ?thesis using assms(2) by simp
  next
    case (added x)
    then show ?thesis using assms(2) by (auto simp: outbox_ok_def)
  next
    case (taken sel now worker t)
    have "item_ok (taken_by worker t x)" if x: "x \<in> set rows" "o_id x \<in> set sel" for x
    proof -
      have "\<not> item_final x" using assms(3) x taken(1) by (auto simp: calm_def unnamed_def)
      moreover have "item_ok x" using assms(2) x(1) by (auto simp: outbox_ok_def list_all_iff)
      ultimately show ?thesis by (cases "o_status x") (auto simp: item_final_def taken_by_def)
    qed
    then show ?thesis
      using taken(3) assms(2)
      by (auto simp: outbox_ok_def identity_map[of "taken_by worker t"] list_all_iff in_update_where simp del: item_ok.simps)
  next
    case (tried item f)
    have f: "item_identity (f x) = item_identity x" for x using tried(4) by auto
    have "item_ok item" using assms(2) tried(1) by (auto simp: outbox_ok_def list_all_iff)
    then have "item_ok (f item)"
      using tried(2,4) by (auto simp: attempt_failed_def attempt_succeeded_def Let_def)
    then show ?thesis
      using tried(5) assms(2)
      by (auto simp: outbox_ok_def identity_map[OF f] list_all_iff in_update_where simp del: item_ok.simps)
  qed
qed

lemma calm_run_ok:
  assumes "(calm_step sv)\<^sup>*\<^sup>* d e" and "outbox_ok (fst d)" and "calm d"
  shows "outbox_ok (fst e) \<and> calm e"
  using assms
proof (induction rule: rtranclp_induct)
  case (step e1 e2)
  then show ?case
    using calm_step_ok[of sv "fst e1" "snd e1" "fst e2" "snd e2"] by (simp add: calm_step_def)
qed simp

lemma outbox_ok_Nil [simp]: "outbox_ok []"
  by (simp add: outbox_ok_def)

section \<open>Properties\<close>


text \<open>
  The guard of the second statement of \<open>claim_outbox\<close> admits a row without a claim whatever its
  status, so a worker whose selection is older than another worker's delivery sends the item again.
\<close>

lemma stale_selection_resends:
  assumes "o_status x = Outbox_sent" and "o_claim_expires_at x = None" and "o_id x \<in> set ids"
  shows "\<exists>y\<in>set (take_outbox ttl now worker ids [x]). o_id y = o_id x \<and> o_status y = Outbox_sending"
  using assms by (simp add: take_outbox_def outbox_takeable_def)

lemma deliver_claimed_failed:
  assumes "deliver_claimed sv now worker i s = (Inl (Chat_failed e), s1)"
  shows "\<exists>item. outbox_of (w_db s) i = Some item \<and> o_claim_owner item = Some worker \<and>
    o_status item = Outbox_sending \<and>
    db_outbox (w_db s1) = update_where (\<lambda>x. o_id x = i) (attempt_failed now e) (db_outbox (w_db s))"
proof -
  obtain item message where item: "outbox_of (w_db s) i = Some item" "o_claim_owner item = Some worker"
    "o_status item = Outbox_sending" "o_message item = Some message"
    using assms by (auto simp: deliver_claimed_def get_db_def io_bind_app require_app split: option.splits if_splits)
  obtain u s2 where att: "attempt_delivery sv item message s = (u, s2)" by (cases "attempt_delivery sv item message s")
  from attempt_delivery_run[OF this] have db: "w_db s2 = w_db s"
    and u: "u = Inr () \<or> (\<exists>f. u = Inl (Chat_failed f))" by auto
  have "digest_delivered sv now item w \<noteq> (Inl (Chat_failed e), s1)" for w
    by (auto simp: digest_delivered_def modify_db_def split: option.splits)
  then show ?thesis
    using assms item att db u
    by (auto simp: deliver_claimed_def get_db_def require_app io_apps set_outbox_def modify_db_def)
qed


section \<open>A notification delivered\<close>

definition demo_item :: notification where
  "demo_item = new_notification ''n1'' ''k'' ''completion'' ''u'' ''dm'' (Message [Plain ''done'']) None 0"

definition demo_sending :: "notification list" where
  "demo_sending = snd (claim_outbox 900 1 ''w'' 20 [demo_item])"

definition demo_busy :: "(nat, nat, nat) world" where
  "demo_busy = demo_room\<lparr>w_db := demo_db\<lparr>db_outbox := demo_sending\<rparr>\<rparr>"

lemma demo_queued: "outbox_step sv ([], []) ([demo_item], [])"
  using queue_step[of "''n1''" "[]" sv "[]" "''k''" "''completion''" "''u''" "''dm''" "Message [Plain ''done'']" None 0]
  by (simp add: queue_row_def demo_item_def)

lemma demo_claimed: "(outbox_step sv)\<^sup>*\<^sup>* ([demo_item], []) (demo_sending, [])"
  unfolding demo_sending_def by (rule claim_steps)

definition demo_sent :: "notification list" where
  "demo_sent = db_outbox (w_db (snd (deliver_claimed demo_chatting 2 ''w'' ''n1'' demo_busy)))"

lemma demo_delivered: "outbox_step demo_chatting (demo_sending, []) (demo_sent, [])"
  unfolding demo_sent_def by (rule deliver_step[where s = demo_busy]) (simp_all add: demo_busy_def prod_eq_iff)

lemma demo_sent_item: "\<exists>x. demo_sent = [x] \<and> o_status x = Outbox_sent"
proof -
  have "map o_status demo_sent = [Outbox_sent]" by code_simp
  then show ?thesis by auto
qed



end
