(* ===== verification/Routing_Jobs.thy ===== *)
theory Routing_Jobs
imports Question_Queue
begin

text \<open>
  \<open>app/services/routing_jobs.py\<close>: a recording whose folder an isolated worker chooses.  A job carries
  a snapshot of the folders the worker may name; a dispatch leases it under a fresh nonce, the worker
  activates it with the nonce and resolves it to one of the folders or defers it to the recruiter.
\<close>

definition WORKER_ID :: string where "WORKER_ID = ''recordings-saver''"

definition DISPATCH_LEASE :: int where "DISPATCH_LEASE = minutes 5"

definition MAX_DEFER_CANDIDATES :: nat where "MAX_DEFER_CANDIDATES = 10"

abbreviation reject_job :: "string \<Rightarrow> ('n, 'w, 'c, 'a) app_io" where
  "reject_job why \<equiv> io_raise (Job_rejected why)"

definition need_job :: "bool \<Rightarrow> string \<Rightarrow> ('n, 'w, 'c, 'a) app_io \<Rightarrow> ('n, 'w, 'c, 'a) app_io" where
  "need_job b why m = io_guard b (Job_rejected why) m"

lemma need_job_app: "need_job b why m s = (if b then m s else (Inl (Job_rejected why), s))"
  by (simp add: need_job_def io_guard_app)

lemma need_job_Inr: "need_job b why m s = (Inr x, s1) \<longleftrightarrow> b \<and> m s = (Inr x, s1)"
  by (simp add: need_job_app)

section \<open>Snapshots\<close>

text \<open>\<open>json.dumps(x, sort_keys=True, separators=(",", ":"), ensure_ascii=False)\<close>.\<close>

definition raw_char :: "char \<Rightarrow> string" where
  "raw_char c = (if (of_char c :: nat) < 127 then json_escape_char c else [c])"

fun dump_json :: "json \<Rightarrow> string" where
  "dump_json JNull = ''null''"
| "dump_json (JBool b) = (if b then ''true'' else ''false'')"
| "dump_json (JInt n) = int_text n"
| "dump_json (JStr s) = CHR 0x22 # concat (map raw_char s) @ [CHR 0x22]"
| "dump_json (JList xs) = ''['' @ join_with '','' (map dump_json xs) @ '']''"
| "dump_json (JObj ms) = ''{'' @ join_with '',''
     (map (\<lambda>(k, v). (CHR 0x22 # concat (map raw_char k) @ [CHR 0x22]) @ '':'' @ v)
       (sort_key fst (map (\<lambda>(k, v). (k, dump_json v)) ms))) @ ''}''"

definition snapshot_hash_of :: "('n, 'w, 'c) services \<Rightarrow> json \<Rightarrow> string" where
  "snapshot_hash_of sv snapshot = sv_hash sv (dump_json snapshot)"

definition nonce_hash :: "('n, 'w, 'c) services \<Rightarrow> string \<Rightarrow> string" where
  "nonce_hash sv nonce = sv_hash sv nonce"

definition destination_label :: "storage_destination \<Rightarrow> string" where
  "destination_label sd =
     (let p = sd_canonical_path sd in take 160 (if prefix ''/home/'' p then drop 6 p else p))"

definition snapshot_of :: "('n, 'w, 'c) services \<Rightarrow> recording \<Rightarrow> storage_destination list \<Rightarrow> json" where
  "snapshot_of sv r ds = JObj
     [(''candidate_name'', JStr (take 160 (opt_or (r_candidate_name r) ''''))),
      (''interview_date'', JStr (date_iso (utc_date (opt_or (r_calendar_dtstart r) 0)))),
      (''role'', JStr (take 160 (opt_or (r_project_or_spot r) ''''))),
      (''destinations'', JList (map (\<lambda>(i, l). JObj [(''id'', JStr i), (''label'', JStr l)])
         (take 100 (sort_key (\<lambda>(i, l). fold_case (sv_notion sv) l)
           (map (\<lambda>sd. (sd_id sd, destination_label sd)) ds)))))]"

definition snapshot_entry_ok :: "json \<Rightarrow> bool" where
  "snapshot_entry_ok item \<longleftrightarrow> jtext (jget ''id'' item) \<noteq> None \<and> jtext (jget ''label'' item) \<noteq> None"

definition validated_snapshot :: "routing_job \<Rightarrow> (app_error, json) result" where
  "validated_snapshot j =
     (let snapshot = j_snapshot j; entries = jitems (jget ''destinations'' snapshot) in
      check_that (jtext (jget ''candidate_name'' snapshot) \<noteq> None \<and>
                  jtext (jget ''interview_date'' snapshot) \<noteq> None \<and> entries \<noteq> [] \<and>
                  list_all snapshot_entry_ok entries)
        (Job_rejected ''Routing snapshot is malformed'') (Inr snapshot))"

definition entry_pair :: "json \<Rightarrow> string \<times> string" where
  "entry_pair item = (opt_or (jtext (jget ''id'' item)) '''', opt_or (jtext (jget ''label'' item)) '''')"

definition snapshot_entries :: "json \<Rightarrow> (string \<times> string) list" where
  "snapshot_entries snapshot = map entry_pair (jitems (jget ''destinations'' snapshot))"

text \<open>The entries with their identifiers parsed as \<open>uuid.UUID\<close>.\<close>

definition snapshot_destinations ::
  "('n, 'w, 'c) services \<Rightarrow> json \<Rightarrow> (app_error, (string \<times> string) list) result" where
  "snapshot_destinations sv snapshot =
     res_map (\<lambda>(i, l). case sv_uuid sv i of None \<Rightarrow> Inl Bad_value | Some u \<Rightarrow> Inr (u, l))
       (snapshot_entries snapshot)"

section \<open>Creation and dispatch\<close>

definition live_job :: "routing_job \<Rightarrow> bool" where
  "live_job j \<longleftrightarrow> j_status j \<in> {Job_queued, Job_dispatched, Job_active}"

definition new_job :: "string \<Rightarrow> recording \<Rightarrow> recruiter_config \<Rightarrow> json \<Rightarrow> string \<Rightarrow> instant \<Rightarrow> routing_job" where
  "new_job new_id r rc snapshot h now =
     \<lparr>j_id = new_id, j_recording_id = r_id r, j_recruiter_id = rc_id rc, j_recording_version = r_version r,
      j_snapshot = snapshot, j_snapshot_hash = h, j_status = Job_queued, j_worker_id = None,
      j_dispatch_nonce_hash = None, j_dispatch_lease_expires_at = None, j_activated_at = None,
      j_resolved_destination_id = None, j_defer_reason = None, j_attempts = 0, j_created_at = now,
      j_updated_at = now\<rparr>"

definition create_or_reuse ::
  "('n, 'w, 'c) services \<Rightarrow> instant \<Rightarrow> string \<Rightarrow> recording \<Rightarrow> recruiter_config \<Rightarrow> storage_destination list \<Rightarrow>
   ('n, 'w, 'c, routing_job) app_io" where
  "create_or_reuse sv now new_id r rc ds =
     need_job (r_status r = CANDIDATE_MATCHED) ''Recording is not ready for autonomous routing''
    (need_job (truthy (r_candidate_name r) \<and> r_calendar_dtstart r \<noteq> None)
       ''Recording routing context is incomplete''
    (need_job (ds \<noteq> []) ''No allowed Synology destinations are available''
    (io_bind (get_db (\<lambda>d. find (\<lambda>j. j_recording_id j = r_id r \<and> live_job j) (db_jobs d))) (\<lambda>existing.
       case existing of
         Some j \<Rightarrow> io_return j
       | None \<Rightarrow>
           (let snapshot = snapshot_of sv r ds;
                j = new_job new_id r rc snapshot (snapshot_hash_of sv snapshot) now
            in io_bind (modify_db (\<lambda>d. d\<lparr>db_jobs := db_jobs d @ [j]\<rparr>)) (\<lambda>_. io_return j))))))"

definition dispatchable :: "instant \<Rightarrow> routing_job \<Rightarrow> bool" where
  "dispatchable now j \<longleftrightarrow> j_status j = Job_queued \<or>
     (j_status j \<in> {Job_dispatched, Job_active} \<and>
      (case j_dispatch_lease_expires_at j of None \<Rightarrow> False | Some e \<Rightarrow> e \<le> now))"

definition dispatch_job :: "('n, 'w, 'c) services \<Rightarrow> instant \<Rightarrow> string \<Rightarrow> routing_job \<Rightarrow> routing_job" where
  "dispatch_job sv now nonce j =
     j\<lparr>j_status := Job_dispatched, j_worker_id := Some WORKER_ID,
       j_dispatch_nonce_hash := Some (nonce_hash sv nonce),
       j_dispatch_lease_expires_at := Some (now + DISPATCH_LEASE), j_attempts := j_attempts j + 1,
       j_updated_at := now\<rparr>"

definition set_job :: "string \<Rightarrow> (routing_job \<Rightarrow> routing_job) \<Rightarrow> ('n, 'w, 'c, unit) app_io" where
  "set_job i f = modify_db (\<lambda>d. d\<lparr>db_jobs := update_where (\<lambda>j. j_id j = i) f (db_jobs d)\<rparr>)"

definition job_of :: "db \<Rightarrow> string \<Rightarrow> routing_job option" where
  "job_of d i = find (\<lambda>j. j_id j = i) (db_jobs d)"

definition next_job :: "instant \<Rightarrow> db \<Rightarrow> routing_job option" where
  "next_job now d = (case sort_key j_created_at (filter (dispatchable now) (db_jobs d)) of
      [] \<Rightarrow> None | j # _ \<Rightarrow> Some j)"

text \<open>The lease a dispatch returns: the job and the nonce.\<close>

definition dispatch_next ::
  "('n, 'w, 'c) services \<Rightarrow> instant \<Rightarrow> string \<Rightarrow> ('n, 'w, 'c, (string \<times> string) option) app_io" where
  "dispatch_next sv now nonce =
     io_bind (get_db (next_job now)) (\<lambda>found.
       case found of
         None \<Rightarrow> io_return None
       | Some j \<Rightarrow> io_bind (set_job (j_id j) (dispatch_job sv now nonce)) (\<lambda>_. io_return (Some (j_id j, nonce))))"

section \<open>The worker's calls\<close>

definition lease_owned_job ::
  "('n, 'w, 'c) services \<Rightarrow> instant \<Rightarrow> string \<Rightarrow> string \<Rightarrow> string \<Rightarrow> ('n, 'w, 'c, routing_job \<times> recording) app_io" where
  "lease_owned_job sv now job_id worker nonce =
     need_job (worker = WORKER_ID) ''Worker is not authorized''
    (io_bind (get_db (\<lambda>d. job_of d job_id)) (\<lambda>found.
       case found of
         None \<Rightarrow> reject_job ''Routing job is unavailable''
       | Some j \<Rightarrow>
          (case j_dispatch_lease_expires_at j of
             None \<Rightarrow> reject_job ''Routing job is unavailable''
           | Some expires \<Rightarrow>
               need_job (now < expires) ''Routing lease has expired''
              (need_job (truthy (j_dispatch_nonce_hash j) \<and> j_dispatch_nonce_hash j = Some (nonce_hash sv nonce))
                 ''Routing lease is invalid''
              (need_job (j_worker_id j = Some worker) ''Routing worker does not own this job''
              (io_bind (get_db (\<lambda>d. recording_of d (j_recording_id j))) (\<lambda>row.
                 case row of
                   None \<Rightarrow> reject_job ''Recording is unavailable'' | Some r \<Rightarrow> io_return (j, r))))))))"

definition unchanged :: "routing_job \<Rightarrow> recording \<Rightarrow> bool" where
  "unchanged j r \<longleftrightarrow> r_version r = j_recording_version j \<and> r_status r = CANDIDATE_MATCHED"

definition require_active_snapshot ::
  "routing_job \<Rightarrow> recording \<Rightarrow> string \<Rightarrow> ('n, 'w, 'c, 'a) app_io \<Rightarrow> ('n, 'w, 'c, 'a) app_io" where
  "require_active_snapshot j r h m =
     need_job (j_status j = Job_active) ''Routing job is not active''
    (need_job (j_snapshot_hash j = h) ''Routing snapshot is stale''
    (need_job (unchanged j r) ''Recording changed after routing job creation'' m))"

record worker_payload =
  wp_job_id :: string
  wp_recording_id :: string
  wp_recording_version :: int
  wp_snapshot_hash :: string
  wp_candidate_name :: string
  wp_interview_date :: string
  wp_role :: string
  wp_destinations :: "(string \<times> string) list"

definition activate_job :: "instant \<Rightarrow> routing_job \<Rightarrow> routing_job" where
  "activate_job now j =
     (if j_status j = Job_dispatched
      then j\<lparr>j_status := Job_active, j_activated_at := Some now, j_updated_at := now\<rparr> else j)"

definition activate ::
  "('n, 'w, 'c) services \<Rightarrow> instant \<Rightarrow> string \<Rightarrow> string \<Rightarrow> string \<Rightarrow> ('n, 'w, 'c, worker_payload) app_io" where
  "activate sv now job_id worker nonce =
     io_bind (lease_owned_job sv now job_id worker nonce) (\<lambda>(j, r).
     io_bind (set_job (j_id j) (activate_job now)) (\<lambda>_.
     io_bind (io_lift (validated_snapshot j)) (\<lambda>snapshot.
     need_job (unchanged j r) ''Recording changed after routing job creation''
    (io_bind (io_lift (snapshot_destinations sv snapshot)) (\<lambda>ds.
       io_return \<lparr>wp_job_id = j_id j, wp_recording_id = r_id r, wp_recording_version = j_recording_version j,
         wp_snapshot_hash = j_snapshot_hash j,
         wp_candidate_name = opt_or (jtext (jget ''candidate_name'' snapshot)) '''',
         wp_interview_date = opt_or (jtext (jget ''interview_date'' snapshot)) '''',
         wp_role = or_blank (sv_show sv) (jget ''role'' snapshot), wp_destinations = ds\<rparr>)))))"

definition recruiter_by_id :: "db \<Rightarrow> string \<Rightarrow> recruiter_config option" where
  "recruiter_by_id d i = find (\<lambda>rc. rc_id rc = i) (db_recruiters d)"

definition owning_recruiter ::
  "routing_job \<Rightarrow> recording \<Rightarrow> ('n, 'w, 'c, recruiter_config) app_io" where
  "owning_recruiter j r =
     io_bind (get_db (\<lambda>d. recruiter_by_id d (j_recruiter_id j))) (\<lambda>found.
       case found of
         None \<Rightarrow> reject_job ''Routing job ownership is invalid''
       | Some rc \<Rightarrow> need_job (r_disk_owner_email r = rc_email rc) ''Routing job ownership is invalid'' (io_return rc))"

fun job_resolve_error :: "dest_error \<Rightarrow> app_error" where
  "job_resolve_error (Rejected r) = Destination_refused (Rejected r)"
| "job_resolve_error (Nas e) = Nas_failed e"

text \<open>The recording's transfer to a destination starts; reviews do the same.\<close>

definition route_to :: "string \<Rightarrow> recording \<Rightarrow> recording" where
  "route_to destination_id x = x\<lparr>r_storage_destination_id := Some destination_id, r_storage_key := None,
     r_content_identity :=
       (if truthy (r_content_identity x) then r_content_identity x
        else if truthy (r_disk_md5 x) then r_disk_md5 x else Some (r_disk_file_id x))\<rparr>"

definition bump_version :: "recording \<Rightarrow> recording" where
  "bump_version x = x\<lparr>r_version := r_version x + 1\<rparr>"

definition resolved_recording :: "routing_job \<Rightarrow> ('n, 'w, 'c, string \<times> string) app_io" where
  "resolved_recording j =
     io_bind (get_db (\<lambda>d. (recording_of d (j_recording_id j), recruiter_by_id d (j_recruiter_id j)))) (\<lambda>found.
       case found of
         (Some r, Some rc) \<Rightarrow> io_return (r_id r, rc_id rc)
       | _ \<Rightarrow> reject_job ''Resolved routing job is unavailable'')"

definition close_job :: "instant \<Rightarrow> string \<Rightarrow> routing_job \<Rightarrow> routing_job" where
  "close_job now destination_id j =
     j\<lparr>j_status := Job_resolved, j_resolved_destination_id := Some destination_id, j_updated_at := now\<rparr>"

definition apply_resolution ::
  "instant \<Rightarrow> string \<Rightarrow> string \<Rightarrow> string \<Rightarrow> ('n, 'w, 'c, unit) app_io" where
  "apply_resolution now job_id recording_id destination_id =
     io_bind (set_recording recording_id (route_to destination_id)) (\<lambda>_.
     io_bind (move_recording recording_id TRANSFER_STARTED) (\<lambda>_.
     io_bind (set_recording recording_id bump_version) (\<lambda>_.
       set_job job_id (close_job now destination_id))))"

text \<open>Resolution and deferral return the recording and the recruiter, here by their identifiers.\<close>

definition resolve_job ::
  "('n, 'w, 'c) services \<Rightarrow> instant \<Rightarrow> string \<Rightarrow> string \<Rightarrow> string \<Rightarrow> string \<Rightarrow> string \<Rightarrow>
   ('n, 'w, 'c, string \<times> string) app_io" where
  "resolve_job sv now job_id worker nonce h destination_id =
     io_bind (lease_owned_job sv now job_id worker nonce) (\<lambda>(j, r).
       if j_status j = Job_resolved then resolved_recording j
       else require_active_snapshot j r h
        (io_bind (io_lift (validated_snapshot j)) (\<lambda>snapshot.
         io_bind (io_lift (snapshot_destinations sv snapshot)) (\<lambda>allowed.
         need_job (destination_id \<in> set (map fst allowed)) ''Destination is not in the job snapshot''
        (io_bind (get_db (\<lambda>d. list_ex (\<lambda>sd. sd_id sd = destination_id \<and>
             sd_recruiter_id sd = j_recruiter_id j \<and> sd_writable sd \<and> sd_symlink_safe sd) (db_destinations d)))
           (\<lambda>available.
         need_job available ''Destination is unavailable''
        (io_bind (owning_recruiter j r) (\<lambda>rc.
         io_bind (in_destinations (resolve_destination (sv_nas sv) (sv_settings sv) rc destination_id)
            job_resolve_error) (\<lambda>_.
         io_bind (apply_resolution now (j_id j) (r_id r) destination_id) (\<lambda>_.
           io_return (r_id r, rc_id rc)))))))))))"

definition defer_choices :: "json \<Rightarrow> string list \<Rightarrow> (app_error, json list) result" where
  "defer_choices snapshot candidates =
     (let by_id = map_of (rev (snapshot_entries snapshot)); chosen = keep_first candidates in
      check_that (list_all (\<lambda>c. by_id c \<noteq> None) chosen)
        (Job_rejected ''Candidate destination is not in the job snapshot'')
       (check_that (length chosen \<le> MAX_DEFER_CANDIDATES) (Job_rejected ''Too many candidate destinations'')
         (Inr (map (\<lambda>c. JObj [(''destination_id'', JStr c), (''name'', JStr (the (by_id c)))]) chosen))))"

definition defer_job ::
  "('n, 'w, 'c) services \<Rightarrow> instant \<Rightarrow> string \<Rightarrow> string \<Rightarrow> string \<Rightarrow> string \<Rightarrow> string \<Rightarrow> string list \<Rightarrow>
   ('n, 'w, 'c, string \<times> string) app_io" where
  "defer_job sv now job_id worker nonce h reason candidates =
     io_bind (lease_owned_job sv now job_id worker nonce) (\<lambda>(j, r).
       require_active_snapshot j r h
        (io_bind (owning_recruiter j r) (\<lambda>rc.
         io_bind (io_lift (validated_snapshot j)) (\<lambda>snapshot.
         io_bind (io_lift (defer_choices snapshot candidates)) (\<lambda>choices.
         io_bind (move_recording (r_id r) MANUAL_REVIEW_REQUIRED) (\<lambda>_.
         io_bind (set_recording (r_id r) (\<lambda>x. bump_version (x\<lparr>
            r_manual_review_reason := Some (''autonomous_routing_'' @ reason),
            r_manual_review_candidates := Some choices\<rparr>))) (\<lambda>_.
         io_bind (set_job (j_id j) (\<lambda>x. x\<lparr>j_status := Job_deferred, j_defer_reason := Some reason,
            j_updated_at := now\<rparr>)) (\<lambda>_.
           io_return (r_id r, rc_id rc)))))))))"

section \<open>The dispatch lease\<close>

text \<open>A queued job is held by nobody, whatever its columns hold.\<close>

definition job_holder :: "routing_job \<Rightarrow> string option" where
  "job_holder j = (if j_status j = Job_queued then None else j_dispatch_nonce_hash j)"

definition take_job :: "instant \<Rightarrow> string \<Rightarrow> routing_job \<Rightarrow> routing_job option" where
  "take_job now h j = (if dispatchable now j
     then Some (j\<lparr>j_status := Job_dispatched, j_worker_id := Some WORKER_ID, j_dispatch_nonce_hash := Some h,
       j_dispatch_lease_expires_at := Some (now + DISPATCH_LEASE), j_attempts := j_attempts j + 1,
       j_updated_at := now\<rparr>) else None)"

lemma take_job_dispatch: "dispatchable now j \<Longrightarrow> take_job now (nonce_hash sv nonce) j = Some (dispatch_job sv now nonce j)"
  by (simp add: take_job_def dispatch_job_def)

interpretation dispatch_lease: lease job_holder j_dispatch_lease_expires_at take_job "\<lambda>_ j. j" DISPATCH_LEASE
  by unfold_locales
     (auto simp: take_job_def job_holder_def dispatchable_def split: if_splits option.splits)

section \<open>Facts\<close>

lemma lease_owned_Inr:
  assumes "lease_owned_job sv now job_id worker nonce s = (Inr (j, r), s1)"
  shows "s1 = s \<and> worker = WORKER_ID \<and> job_of (w_db s) job_id = Some j \<and>
    (\<exists>e. j_dispatch_lease_expires_at j = Some e \<and> now < e) \<and>
    j_dispatch_nonce_hash j = Some (nonce_hash sv nonce) \<and> j_worker_id j = Some WORKER_ID \<and>
    recording_of (w_db s) (j_recording_id j) = Some r"
  using assms
  by (auto simp: lease_owned_job_def need_job_app get_db_def io_bind_app split: option.splits if_splits)

lemma in_destinations_Inr:
  assumes "in_destinations m err s = (Inr x, s1)"
  shows "\<exists>d1. m \<lparr>dw_nas = w_nas s, dw_rows = db_destinations (w_db s)\<rparr> = (Inr x, d1) \<and>
    s1 = s\<lparr>w_nas := dw_nas d1, w_db := (w_db s)\<lparr>db_destinations := dw_rows d1\<rparr>\<rparr>"
  using assms by (auto simp: in_destinations_def split: prod.splits sum.splits)

lemma set_recording_Inr: "set_recording i f s = (v, s1) \<longleftrightarrow>
    v = Inr () \<and> s1 = s\<lparr>w_db := update_recording i f (w_db s)\<rparr>"
  by (auto simp: set_recording_def modify_db_def)

lemma owning_recruiter_Inr:
  "owning_recruiter j r s = (Inr rc, s1) \<Longrightarrow>
     s1 = s \<and> recruiter_by_id (w_db s) (j_recruiter_id j) = Some rc \<and> r_disk_owner_email r = rc_email rc"
  by (auto simp: owning_recruiter_def get_db_def need_job_app io_bind_app split: option.splits if_splits)

lemma route_frame [simp]:
  "r_id (route_to i x) = r_id x" "r_status (route_to i x) = r_status x" "r_version (route_to i x) = r_version x"
  "r_id (bump_version x) = r_id x" "r_status (bump_version x) = r_status x"
  "r_version (bump_version x) = r_version x + 1" "r_storage_destination_id (route_to i x) = Some i"
  "r_storage_destination_id (bump_version x) = r_storage_destination_id x"
  by (simp_all add: route_to_def bump_version_def)

lemma apply_resolution_Inr:
  assumes "apply_resolution now job_id i destination_id s = (Inr (), s1)"
    and "recording_of (w_db s) i = Some r"
  shows "TRANSFER_STARTED \<in> TRANSITIONS (r_status r) \<and>
    recording_of (w_db s1) i = Some (bump_version ((route_to destination_id r)\<lparr>r_status := TRANSFER_STARTED\<rparr>)) \<and>
    db_jobs (w_db s1) = update_where (\<lambda>j. j_id j = job_id) (close_job now destination_id) (db_jobs (w_db s))"
  using assms
  by (auto simp: apply_resolution_def io_bind_Inr_iff set_recording_Inr set_job_def modify_db_def
      recording_of_update dest!: move_recording_cases)

text \<open>What a successful resolution passed through.\<close>

lemma resolve_job_run:
  assumes "resolve_job sv now job_id worker nonce h destination_id s = (Inr out, s1)"
    and "job_of (w_db s) job_id = Some j" and "j_status j \<noteq> Job_resolved"
  shows "\<exists>r rc sd s2 allowed. lease_owned_job sv now job_id worker nonce s = (Inr (j, r), s) \<and>
    j_status j = Job_active \<and> j_snapshot_hash j = h \<and> unchanged j r \<and>
    snapshot_destinations sv (j_snapshot j) = Inr allowed \<and> destination_id \<in> set (map fst allowed) \<and>
    recruiter_by_id (w_db s) (j_recruiter_id j) = Some rc \<and> r_disk_owner_email r = rc_email rc \<and>
    in_destinations (resolve_destination (sv_nas sv) (sv_settings sv) rc destination_id)
      job_resolve_error s = (Inr sd, s2) \<and>
    apply_resolution now (j_id j) (r_id r) destination_id s2 = (Inr (), s1) \<and> out = (r_id r, rc_id rc)"
proof -
  obtain j1 r w where own: "lease_owned_job sv now job_id worker nonce s = (Inr (j1, r), w)"
    using assms(1) unfolding resolve_job_def by (auto simp: io_bind_Inr_iff)
  have j1: "j1 = j" "w = s" using lease_owned_Inr[OF own] assms(2) by auto
  show ?thesis
    using assms(1,3) own unfolding resolve_job_def j1
    by (auto simp: io_bind_Inr_iff require_active_snapshot_def need_job_Inr validated_snapshot_def Let_def
        get_db_def dest!: owning_recruiter_Inr intro!: rev_image_eqI)
qed

lemma in_destinations_recordings:
  "in_destinations m err s = (v, s1) \<Longrightarrow> recording_of (w_db s1) i = recording_of (w_db s) i \<and>
     db_jobs (w_db s1) = db_jobs (w_db s)"
  by (auto simp: in_destinations_def split: prod.splits sum.splits)

lemma lease_owned_stale:
  assumes "job_of (w_db s) job_id = Some j" and "j_dispatch_nonce_hash j \<noteq> Some (nonce_hash sv nonce)"
  shows "\<exists>why. lease_owned_job sv now job_id worker nonce s = (Inl (Job_rejected why), s)"
  using assms
  by (auto simp: lease_owned_job_def need_job_app get_db_def io_bind_app split: option.splits)

section \<open>Properties\<close>

text \<open>
  Property C21.  A worker resolves a job only under its own unexpired lease and for the snapshot it was
  given, while the recording is as it was when the job was created; the folder is one of the
  snapshot, a stored writable folder of the owning recruiter below an allowed root; the recording
  then starts its transfer into that folder and the job is closed.
\<close>

theorem resolved_job_is_confined:
  assumes "resolve_job sv now job_id worker nonce h destination_id s = (Inr out, s1)"
    and "job_of (w_db s) job_id = Some j" and "j_status j \<noteq> Job_resolved"
  shows "\<exists>r rc sd roots r1 j1 allowed e. recording_of (w_db s) (j_recording_id j) = Some r \<and>
    r_version r = j_recording_version j \<and> r_status r = CANDIDATE_MATCHED \<and>
    j_dispatch_lease_expires_at j = Some e \<and> now < e \<and>
    j_dispatch_nonce_hash j = Some (nonce_hash sv nonce) \<and> j_snapshot_hash j = h \<and>
    snapshot_destinations sv (j_snapshot j) = Inr allowed \<and> destination_id \<in> set (map fst allowed) \<and>
    rc_email rc = r_disk_owner_email r \<and> rc_id rc = j_recruiter_id j \<and>
    sd \<in> set (db_destinations (w_db s)) \<and> sd_id sd = destination_id \<and>
    roots_of (sv_settings sv) rc = Inr roots \<and> owned_by rc roots sd \<and>
    recording_of (w_db s1) (r_id r) = Some r1 \<and> r_status r1 = TRANSFER_STARTED \<and>
    r_version r1 = r_version r + 1 \<and> r_storage_destination_id r1 = Some destination_id \<and>
    job_of (w_db s1) job_id = Some j1 \<and> j_status j1 = Job_resolved"
proof -
  obtain r rc sd s2 allowed where own: "lease_owned_job sv now job_id worker nonce s = (Inr (j, r), s)"
    and snap: "j_snapshot_hash j = h" "unchanged j r"
      "snapshot_destinations sv (j_snapshot j) = Inr allowed" "destination_id \<in> set (map fst allowed)"
    and rc: "recruiter_by_id (w_db s) (j_recruiter_id j) = Some rc" "r_disk_owner_email r = rc_email rc"
    and dest: "in_destinations (resolve_destination (sv_nas sv) (sv_settings sv) rc destination_id)
      job_resolve_error s = (Inr sd, s2)"
    and applied: "apply_resolution now (j_id j) (r_id r) destination_id s2 = (Inr (), s1)"
    using resolve_job_run[OF assms] by blast
  note lease = lease_owned_Inr[OF own]
  obtain d1 where "resolve_destination (sv_nas sv) (sv_settings sv) rc destination_id
      \<lparr>dw_nas = w_nas s, dw_rows = db_destinations (w_db s)\<rparr> = (Inr sd, d1)"
    using in_destinations_Inr[OF dest] by blast
  from resolve_destination_sound[OF this] obtain roots where sd: "sd \<in> set (db_destinations (w_db s))"
    "sd_id sd = destination_id" "roots_of (sv_settings sv) rc = Inr roots" "owned_by rc roots sd" by auto
  have ids: "r_id r = j_recording_id j" "j_id j = job_id" "rc_id rc = j_recruiter_id j"
    using lease rc(1) by (auto simp: recording_of_def job_of_def recruiter_by_id_def dest: find_SomeD)
  have rec2: "recording_of (w_db s2) (r_id r) = Some r" "db_jobs (w_db s2) = db_jobs (w_db s)"
    using in_destinations_recordings[OF dest] lease ids(1) by auto
  have done1: "recording_of (w_db s1) (r_id r) =
      Some (bump_version ((route_to destination_id r)\<lparr>r_status := TRANSFER_STARTED\<rparr>))"
    and jobs: "db_jobs (w_db s1) = update_where (\<lambda>x. j_id x = j_id j) (close_job now destination_id) (db_jobs (w_db s))"
    using apply_resolution_Inr[OF applied rec2(1)] rec2(2) by auto
  have "job_of (w_db s1) job_id = Some (close_job now destination_id j)"
    using assms(2) ids(2) by (auto simp: job_of_def jobs find_update_where close_job_def)
  moreover obtain e where "j_dispatch_lease_expires_at j = Some e" "now < e"
    using lease by blast
  ultimately show ?thesis
    using lease snap rc(2) ids sd done1
    by - (rule exI[of _ r], rule exI[of _ rc], rule exI[of _ sd], rule exI[of _ roots],
        rule exI[of _ "bump_version ((route_to destination_id r)\<lparr>r_status := TRANSFER_STARTED\<rparr>)"],
        rule exI[of _ "close_job now destination_id j"], rule exI[of _ allowed], rule exI[of _ e],
        simp add: unchanged_def close_job_def)
qed

text \<open>
  Property C29.  Once a job is dispatched again, the nonce of an earlier dispatch is worthless: every
  call of the worker under it is rejected and changes nothing.
\<close>

theorem superseded_dispatch_is_rejected:
  assumes "dispatch_next sv now nonce2 s = (Inr (Some (job_id, nonce2)), s1)"
    and "nonce_hash sv nonce1 \<noteq> nonce_hash sv nonce2"
  shows "(\<exists>why. activate sv later job_id worker nonce1 s1 = (Inl (Job_rejected why), s1)) \<and>
    (\<exists>why. resolve_job sv later job_id worker nonce1 h destination_id s1 = (Inl (Job_rejected why), s1)) \<and>
    (\<exists>why. defer_job sv later job_id worker nonce1 h reason candidates s1 = (Inl (Job_rejected why), s1))"
proof -
  obtain j where j: "next_job now (w_db s) = Some j" "j_id j = job_id"
    and s1: "s1 = s\<lparr>w_db := (w_db s)\<lparr>db_jobs :=
      update_where (\<lambda>x. j_id x = job_id) (dispatch_job sv now nonce2) (db_jobs (w_db s))\<rparr>\<rparr>"
    using assms(1) by (auto simp: dispatch_next_def get_db_def set_job_def modify_db_def io_bind_app
        split: option.splits)
  obtain more where "sort_key j_created_at (filter (dispatchable now) (db_jobs (w_db s))) = j # more"
    using j(1) by (auto simp: next_job_def split: list.splits)
  then have "j \<in> set (sort_key j_created_at (filter (dispatchable now) (db_jobs (w_db s))))"
    by (metis list.set_intros(1))
  then have "job_of (w_db s) job_id \<noteq> None"
    using j(2) by (auto simp: job_of_def find_None_iff)
  then obtain x where "job_of (w_db s) job_id = Some x" by blast
  then have "job_of (w_db s1) job_id = Some (dispatch_job sv now nonce2 x)"
    by (auto simp: job_of_def s1 find_update_where dispatch_job_def dest: find_SomeD)
  moreover have "j_dispatch_nonce_hash (dispatch_job sv now nonce2 x) \<noteq> Some (nonce_hash sv nonce1)"
    using assms(2) by (simp add: dispatch_job_def)
  ultimately obtain why where "lease_owned_job sv later job_id worker nonce1 s1 = (Inl (Job_rejected why), s1)"
    using lease_owned_stale by blast
  then show ?thesis
    by (simp add: activate_def resolve_job_def defer_job_def io_bind_app)
qed

section \<open>A job of a worker\<close>

definition demo_ready :: recording where
  "demo_ready = (new_recording ''r1'' ''f'' ''p'' ''a.webm'' ''hr@x'' 0)
     \<lparr>r_status := CANDIDATE_MATCHED, r_candidate_name := Some ''Ann'', r_calendar_dtstart := Some 0\<rparr>"

definition demo_office :: "(nat, nat, nat) world" where
  "demo_office = demo_room\<lparr>w_db := demo_db\<lparr>db_recordings := [demo_ready], db_recruiters := [demo_roots],
     db_reviews := [], db_destinations := [demo_row]\<rparr>\<rparr>"

definition demo_posted :: "(nat, nat, nat) world" where
  "demo_posted = snd (create_or_reuse demo_services 1 ''j1'' demo_ready demo_roots [demo_row] demo_office)"

definition demo_leased :: "(nat, nat, nat) world" where
  "demo_leased = snd (dispatch_next demo_services 2 ''n1'' demo_posted)"

definition demo_active :: "(nat, nat, nat) world" where
  "demo_active = snd (activate demo_services 3 ''j1'' WORKER_ID ''n1'' demo_leased)"

definition demo_hash :: string where
  "demo_hash = snapshot_hash_of demo_services (snapshot_of demo_services demo_ready [demo_row])"

theorem resolved_job_witness:
  "\<exists>s1 r1. resolve_job demo_services 4 ''j1'' WORKER_ID ''n1'' demo_hash ''d1'' demo_active =
     (Inr (''r1'', ''1''), s1) \<and> recording_of (w_db s1) ''r1'' = Some r1 \<and> r_status r1 = TRANSFER_STARTED \<and>
     r_storage_destination_id r1 = Some ''d1''"
proof -
  have out: "fst (resolve_job demo_services 4 ''j1'' WORKER_ID ''n1'' demo_hash ''d1'' demo_active) =
      Inr (''r1'', ''1'')" by code_simp
  then obtain s1 where run: "resolve_job demo_services 4 ''j1'' WORKER_ID ''n1'' demo_hash ''d1'' demo_active =
      (Inr (''r1'', ''1''), s1)" by (metis prod.collapse)
  have "map_option (\<lambda>j. (j_status j, j_recording_id j)) (job_of (w_db demo_active) ''j1'') = Some (Job_active, ''r1'')"
    by code_simp
  then obtain j where j: "job_of (w_db demo_active) ''j1'' = Some j" "j_status j = Job_active"
    "j_recording_id j = ''r1''" by auto
  obtain r r1 where "recording_of (w_db demo_active) (j_recording_id j) = Some r"
    "recording_of (w_db s1) (r_id r) = Some r1" "r_status r1 = TRANSFER_STARTED"
    "r_storage_destination_id r1 = Some ''d1''"
    using resolved_job_is_confined[OF run j(1)] j(2) by auto
  then show ?thesis
    using run j(3) by (auto simp: recording_of_def dest: find_SomeD)
qed

theorem superseded_witness:
  "\<exists>why s1. dispatch_next demo_services (minutes 6) ''n2'' demo_active = (Inr (Some (''j1'', ''n2'')), s1) \<and>
     resolve_job demo_services (minutes 7) ''j1'' WORKER_ID ''n1'' demo_hash ''d1'' s1 = (Inl (Job_rejected why), s1)"
proof -
  have "fst (dispatch_next demo_services (minutes 6) ''n2'' demo_active) = Inr (Some (''j1'', ''n2''))"
    by code_simp
  then obtain s1 where run: "dispatch_next demo_services (minutes 6) ''n2'' demo_active =
      (Inr (Some (''j1'', ''n2'')), s1)" by (metis prod.collapse)
  have "nonce_hash demo_services ''n1'' \<noteq> nonce_hash demo_services ''n2''"
    by code_simp
  then show ?thesis using superseded_dispatch_is_rejected[OF run] run by blast
qed

end
