(* ===== verification/Reassignment.thy ===== *)
theory Reassignment
imports Reviews "HOL-Library.List_Lexorder"
begin

text \<open>
  \<open>app/services/notion_reassignment.py\<close>: moving the recording link from one Notion card to another
  in two calls.  A proposal stores what both cards held and a capability; the confirmation writes and
  reads back the target card before it clears the source card, and can be resumed in between.
\<close>

abbreviation reject_move :: "string \<Rightarrow> ('n, 'w, 'c, 'a) app_io" where
  "reject_move why \<equiv> io_raise (Reassign_rejected why)"

definition need_move :: "bool \<Rightarrow> string \<Rightarrow> ('n, 'w, 'c, 'a) app_io \<Rightarrow> ('n, 'w, 'c, 'a) app_io" where
  "need_move b why m = io_guard b (Reassign_rejected why) m"

lemma need_move_app: "need_move b why m s = (if b then m s else (Inl (Reassign_rejected why), s))"
  by (simp add: need_move_def io_guard_app)

lemma need_move_Inr: "need_move b why m s = (Inr x, s1) \<longleftrightarrow> b \<and> m s = (Inr x, s1)"
  by (simp add: need_move_app)

text \<open>Equality of decoded JSON: objects as finite maps, \<open>True == 1\<close>.\<close>

fun json_norm :: "json \<Rightarrow> json" where
  "json_norm (JBool b) = JInt (if b then 1 else 0)"
| "json_norm (JList xs) = JList (map json_norm xs)"
| "json_norm (JObj ms) = JObj (sort_key fst (map (\<lambda>(k, v). (k, json_norm v)) ms))"
| "json_norm j = j"

definition same_files :: "json list \<Rightarrow> json list \<Rightarrow> bool" where
  "same_files a b \<longleftrightarrow> map json_norm a = map json_norm b"

definition has_url :: "json list \<Rightarrow> string \<Rightarrow> bool" where
  "has_url files url \<longleftrightarrow> list_ex (\<lambda>item. is_obj item \<and> is_obj (jget ''external'' item) \<and>
     jget ''url'' (jget ''external'' item) = JStr url) files"

definition recruiter_props ::
  "('n, 'w, 'c) services \<Rightarrow> recruiter_config \<Rightarrow> (app_error, notion_property_map) result" where
  "recruiter_props sv rc =
     (case resolve_notion_property_map (sv_settings sv) (Some rc) of
        Inl Permission_error \<Rightarrow> Inl (Reassign_rejected ''Notion schema'')
      | Inl _ \<Rightarrow> Inl Bad_value
      | Inr m \<Rightarrow> Inr m)"

definition read_field ::
  "('n, 'w, 'c) services \<Rightarrow> string \<Rightarrow> string \<Rightarrow> ('n, 'w, 'c, json list) app_io" where
  "read_field sv page_id prop = in_notion (get_recording_field (sv_notion sv) page_id prop) Notion_failed"

definition resolve_targets ::
  "('n, 'w, 'c) services \<Rightarrow> recruiter_config \<Rightarrow> string \<Rightarrow> ('n, 'w, 'c, notion_page list) app_io" where
  "resolve_targets sv rc hint =
     io_bind (io_lift (recruiter_props sv rc)) (\<lambda>m.
       in_notion (resolve_reassignment_targets (sv_notion sv) m (rc_notion_database_id rc) hint) Notion_failed)"

definition propose ::
  "('n, 'w, 'c) services \<Rightarrow> instant \<Rightarrow> string \<Rightarrow> string \<Rightarrow> recording \<Rightarrow> recruiter_config \<Rightarrow> string \<Rightarrow> string \<Rightarrow>
   notion_page \<Rightarrow> ('n, 'w, 'c, reassignment_proposal) app_io" where
  "propose sv now new_id capability r rc user channel target =
     need_move (truthy (r_notion_page_id r) \<and> truthy (r_synology_share_url r)) ''Recording lacks an active Notion link''
    (io_bind (io_lift (recruiter_props sv rc)) (\<lambda>m.
     io_bind (read_field sv (the (r_notion_page_id r)) (pm_recording_prop m)) (\<lambda>source.
     io_bind (read_field sv (np_id target) (pm_recording_prop m)) (\<lambda>target_snapshot.
       let p = \<lparr>np_proposal_id = new_id, np_recording_id = r_id r, np_recruiter_user_id = user,
                np_dm_channel_id = channel, np_source_page_id = the (r_notion_page_id r),
                np_target_page_id = np_id target, np_recording_version = r_version r,
                np_source_snapshot = source, np_target_snapshot = target_snapshot,
                np_capability_hash = sv_hash sv capability,
                np_expires_at = now + seconds (st_review_token_ttl_seconds (sv_settings sv)),
                np_consumed_at = None, np_status = Proposal_pending, np_result = None, np_created_at = now\<rparr>
       in io_bind (modify_db (\<lambda>d. d\<lparr>db_proposals := db_proposals d @ [p]\<rparr>)) (\<lambda>_.
          io_bind commit (\<lambda>_. io_return p))))))"

section \<open>Confirmation\<close>

definition proposal_of :: "db \<Rightarrow> string \<Rightarrow> reassignment_proposal option" where
  "proposal_of d i = find (\<lambda>p. np_proposal_id p = i) (db_proposals d)"

definition set_proposal ::
  "string \<Rightarrow> (reassignment_proposal \<Rightarrow> reassignment_proposal) \<Rightarrow> ('n, 'w, 'c, unit) app_io" where
  "set_proposal i f =
     modify_db (\<lambda>d. d\<lparr>db_proposals := update_where (\<lambda>p. np_proposal_id p = i) f (db_proposals d)\<rparr>)"

definition target_written :: "reassignment_proposal \<Rightarrow> bool" where
  "target_written p \<longleftrightarrow> (case np_result p of None \<Rightarrow> False
     | Some j \<Rightarrow> jget ''phase'' j = JStr ''target_written'')"

definition share_url_of :: "recording \<Rightarrow> string" where
  "share_url_of r = opt_or (r_synology_share_url r) ''''"

text \<open>The link is written to the target card and read back.\<close>

definition write_target ::
  "('n, 'w, 'c) services \<Rightarrow> string \<Rightarrow> reassignment_proposal \<Rightarrow> recording \<Rightarrow> ('n, 'w, 'c, unit) app_io" where
  "write_target sv prop p r =
     io_bind (in_notion (replace_recording_link (sv_notion sv) (np_target_page_id p) prop
        (or_text (r_generated_filename r) (r_disk_filename r)) (share_url_of r)) Notion_failed) (\<lambda>_.
     io_bind (read_field sv (np_target_page_id p) prop) (\<lambda>verified.
     need_move (has_url verified (share_url_of r)) ''Notion target did not persist the recording link''
      (io_bind (set_proposal (np_proposal_id p) (\<lambda>x. x\<lparr>np_result := Some (JObj
          [(''phase'', JStr ''target_written''), (''target_page_id'', JStr (np_target_page_id p))])\<rparr>))
        (\<lambda>_. commit))))"

text \<open>Up to the point where the target card is known to carry the link.\<close>

definition ensure_target ::
  "('n, 'w, 'c) services \<Rightarrow> string \<Rightarrow> reassignment_proposal \<Rightarrow> recording \<Rightarrow> ('n, 'w, 'c, unit) app_io" where
  "ensure_target sv prop p r =
     io_bind (read_field sv (np_source_page_id p) prop) (\<lambda>source.
     io_bind (read_field sv (np_target_page_id p) prop) (\<lambda>target.
       if target_written p
       then need_move (same_files source (np_source_snapshot p)) ''Source Notion card changed; it was not cleared''
           (need_move (has_url target (share_url_of r)) ''Target Notion card drifted; source was not cleared''
             (io_return ()))
       else need_move (same_files source (np_source_snapshot p) \<and> same_files target (np_target_snapshot p))
              ''Notion card changed; create a new reassignment proposal''
            (write_target sv prop p r)))"

definition finish_reassignment ::
  "('n, 'w, 'c) services \<Rightarrow> instant \<Rightarrow> string \<Rightarrow> string \<Rightarrow> reassignment_proposal \<Rightarrow> recording \<Rightarrow>
   ('n, 'w, 'c, string) app_io" where
  "finish_reassignment sv now key prop p r =
     io_bind (in_notion (clear_recording_link (sv_notion sv) (np_source_page_id p) prop) Notion_failed) (\<lambda>_.
     io_bind (set_recording (r_id r) (\<lambda>x. x\<lparr>r_notion_page_id := Some (np_target_page_id p),
        r_version := r_version x + 1\<rparr>)) (\<lambda>_.
     io_bind (set_proposal (np_proposal_id p) (\<lambda>x. x\<lparr>np_status := Proposal_completed,
        np_consumed_at := Some now, np_result := Some (JObj [(''idempotency_key'', JStr key),
          (''target_page_id'', JStr (np_target_page_id p))])\<rparr>)) (\<lambda>_.
     io_bind commit (\<lambda>_. io_return (r_id r)))))"

definition replayed_reassignment ::
  "reassignment_proposal \<Rightarrow> string \<Rightarrow> ('n, 'w, 'c, string) app_io" where
  "replayed_reassignment p key =
     need_move (case np_result p of None \<Rightarrow> False | Some j \<Rightarrow> jget ''idempotency_key'' j = JStr key)
       ''Reassignment idempotency key is invalid''
      (io_bind (get_db (\<lambda>d. recording_of d (np_recording_id p))) (\<lambda>row.
         case row of None \<Rightarrow> reject_move ''Recording not found'' | Some r \<Rightarrow> io_return (r_id r)))"

text \<open>The recording of the confirmation, by its identifier.\<close>

definition confirm_reassignment ::
  "('n, 'w, 'c) services \<Rightarrow> instant \<Rightarrow> string \<Rightarrow> recruiter_config \<Rightarrow> string \<Rightarrow> string \<Rightarrow> string \<Rightarrow> string \<Rightarrow>
   ('n, 'w, 'c, string) app_io" where
  "confirm_reassignment sv now proposal_id rc user channel capability key =
     io_bind (get_db (\<lambda>d. proposal_of d proposal_id)) (\<lambda>found.
       case found of
         None \<Rightarrow> reject_move ''Reassignment proposal not found''
       | Some p \<Rightarrow>
           need_move (np_recruiter_user_id p = user \<and> np_dm_channel_id p = channel \<and>
              np_capability_hash p = sv_hash sv capability) ''Reassignment confirmation is invalid''
          (if np_status p = Proposal_completed then replayed_reassignment p key
           else if np_status p \<noteq> Proposal_pending \<or> np_expires_at p \<le> now
           then io_bind (set_proposal proposal_id (np_status_update (\<lambda>_. Proposal_expired))) (\<lambda>_.
                io_bind commit (\<lambda>_. reject_move ''Reassignment confirmation is expired''))
           else io_bind (get_db (\<lambda>d. recording_of d (np_recording_id p))) (\<lambda>row.
             case row of
               None \<Rightarrow> reject_move ''Recording changed; create a new reassignment proposal''
             | Some r \<Rightarrow>
                 need_move (r_version r = np_recording_version p)
                   ''Recording changed; create a new reassignment proposal''
                (need_move (r_disk_owner_email r = rc_email rc) ''Recording not found''
                (io_bind (io_lift (recruiter_props sv rc)) (\<lambda>m.
                 io_bind (ensure_target sv (pm_recording_prop m) p r) (\<lambda>_.
                   finish_reassignment sv now key (pm_recording_prop m) p r)))))))"

section \<open>What is written to Notion\<close>

definition notion_writes :: "('n, 'w, 'c) world \<Rightarrow> notion_request list" where
  "notion_writes s = filter writes_notion (nt_sent (w_notion s))"

lemma notion_writes_db [simp]: "notion_writes (s\<lparr>w_db := d\<rparr>) = notion_writes s" "notion_writes (s\<lparr>w_saved := d\<rparr>) = notion_writes s"
  by (simp_all add: notion_writes_def)

lemma read_field_run:
  assumes "read_field sv i prop s = (v, s1)"
  shows "w_db s1 = w_db s \<and> notion_writes s1 = notion_writes s \<and>
    (\<forall>files. v = Inr files \<longrightarrow> get_recording_field (sv_notion sv) i prop (w_notion s) = (Inr files, w_notion s1))"
  using assms
  by (auto simp: read_field_def in_notion_def notion_writes_def get_recording_field_def call_def io_bind_app
      split: prod.splits sum.splits option.splits)

lemma write_files_run:
  assumes "in_notion (write_recording_files (sv_notion sv) i prop files) err s = (v, s1)"
  shows "w_db s1 = w_db s \<and> nt_sent (w_notion s1) = nt_sent (w_notion s) @ [Patch_files i prop files]"
  using assms
  by (auto simp: in_notion_def write_recording_files_def call_def io_bind_app
      split: prod.splits sum.splits option.splits)

lemma set_proposal_run: "set_proposal i f s = (Inr (), s\<lparr>w_db := (w_db s)
    \<lparr>db_proposals := update_where (\<lambda>p. np_proposal_id p = i) f (db_proposals (w_db s))\<rparr>\<rparr>)"
  by (simp add: set_proposal_def modify_db_def)

definition link_request :: "string \<Rightarrow> reassignment_proposal \<Rightarrow> recording \<Rightarrow> notion_request" where
  "link_request prop p r = Patch_files (np_target_page_id p) prop
     [(or_text (r_generated_filename r) (r_disk_filename r), share_url_of r)]"

text \<open>The target card was read with the link on it, and \<open>n\<close> is the Notion state right after.\<close>

definition target_verified ::
  "('n, 'w, 'c) services \<Rightarrow> string \<Rightarrow> reassignment_proposal \<Rightarrow> recording \<Rightarrow> 'n notion_state \<Rightarrow> bool" where
  "target_verified sv prop p r n \<longleftrightarrow> (\<exists>n1 files.
     get_recording_field (sv_notion sv) (np_target_page_id p) prop n1 = (Inr files, n) \<and>
     has_url files (share_url_of r))"

lemma target_verifiedI:
  "get_recording_field (sv_notion sv) (np_target_page_id p) prop n1 = (Inr files, n) \<Longrightarrow>
     has_url files (share_url_of r) \<Longrightarrow> target_verified sv prop p r n"
  by (auto simp: target_verified_def)

lemma write_target_run:
  assumes "write_target sv prop p r s = (v, s1)"
  shows "notion_writes s1 = notion_writes s @ [link_request prop p r] \<and>
    db_recordings (w_db s1) = db_recordings (w_db s) \<and>
    (v = Inr () \<longrightarrow> target_verified sv prop p r (w_notion s1))"
proof -
  let ?name = "or_text (r_generated_filename r) (r_disk_filename r)"
  obtain v2 s2 where w: "in_notion (write_recording_files (sv_notion sv) (np_target_page_id p) prop
      [(?name, share_url_of r)]) Notion_failed s = (v2, s2)" by fastforce
  have wr: "notion_writes s2 = notion_writes s @ [link_request prop p r]" "w_db s2 = w_db s"
    using write_files_run[OF w] by (simp_all add: notion_writes_def link_request_def)
  obtain v3 s3 where rd: "read_field sv (np_target_page_id p) prop s2 = (v3, s3)" by fastforce
  note r3 = read_field_run[OF rd]
  show ?thesis
    using assms w wr rd r3
    by (cases v2; cases v3)
       (auto simp: write_target_def replace_recording_link_def need_move_app io_bind_app set_proposal_run
         commit_def intro: target_verifiedI split: if_splits)
qed

lemma ensure_target_run:
  assumes "ensure_target sv prop p r s = (v, s1)"
  shows "\<exists>ws. notion_writes s1 = notion_writes s @ ws \<and> set ws \<subseteq> {link_request prop p r} \<and>
    db_recordings (w_db s1) = db_recordings (w_db s) \<and>
    (v = Inr () \<longrightarrow> target_verified sv prop p r (w_notion s1))"
proof -
  obtain v2 s2 where rs: "read_field sv (np_source_page_id p) prop s = (v2, s2)" by fastforce
  obtain v3 s3 where rt: "read_field sv (np_target_page_id p) prop s2 = (v3, s3)" by fastforce
  note r2 = read_field_run[OF rs] and r3 = read_field_run[OF rt]
  show ?thesis
  proof (cases "\<exists>x. write_target sv prop p r s3 = (v, s1)")
    case True
    then show ?thesis using write_target_run r2 r3 by fastforce
  next
    case False
    then show ?thesis
      using assms rs rt r2 r3
      by (cases v2; cases v3)
         (auto simp: ensure_target_def need_move_app io_bind_app intro: target_verifiedI split: if_splits)
  qed
qed

lemma finish_reassignment_run:
  assumes "finish_reassignment sv now key prop p r s = (v, s1)"
  shows "nt_sent (w_notion s1) = nt_sent (w_notion s) @ [Patch_files (np_source_page_id p) prop []] \<and>
    (\<forall>x. v = Inr x \<longrightarrow> db_recordings (w_db s1) = db_recordings (update_recording (r_id r)
       (\<lambda>y. y\<lparr>r_notion_page_id := Some (np_target_page_id p), r_version := r_version y + 1\<rparr>) (w_db s)))"
proof -
  obtain v2 s2 where w: "in_notion (write_recording_files (sv_notion sv) (np_source_page_id p) prop [])
      Notion_failed s = (v2, s2)" by fastforce
  note r2 = write_files_run[OF w]
  show ?thesis
    using assms w r2
    by (cases v2)
       (auto simp: finish_reassignment_def clear_recording_link_def io_bind_app set_proposal_run commit_def
         set_recording_def modify_db_def update_recording_def)
qed

lemma confirm_run:
  assumes "confirm_reassignment sv now i rc user channel capability key s = (v, s1)"
    and "proposal_of (w_db s) i = Some p" and "notion_writes s1 \<noteq> notion_writes s"
  shows "\<exists>(r :: recording) (m :: notion_property_map). np_status p = Proposal_pending \<and> now < np_expires_at p \<and> np_recruiter_user_id p = user \<and>
    np_dm_channel_id p = channel \<and> np_capability_hash p = sv_hash sv capability \<and>
    recording_of (w_db s) (np_recording_id p) = Some r \<and> r_version r = np_recording_version p \<and>
    r_disk_owner_email r = rc_email rc \<and>
    io_bind (ensure_target sv (pm_recording_prop m) p r) (\<lambda>_.
      finish_reassignment sv now key (pm_recording_prop m) p r) s = (v, s1)"
proof (cases "recording_of (w_db s) (np_recording_id p)")
  case None
  then show ?thesis
    using assms
    by (auto simp: confirm_reassignment_def get_db_def io_bind_app need_move_app set_proposal_run commit_def
        replayed_reassignment_def split: option.splits if_splits sum.splits)
next
  case (Some r)
  show ?thesis
  proof (cases "recruiter_props sv rc")
    case (Inl e)
    then show ?thesis
      using assms Some
      by (auto simp: confirm_reassignment_def get_db_def io_bind_app need_move_app set_proposal_run commit_def
          replayed_reassignment_def split: option.splits if_splits)
  next
    case (Inr m)
    have "np_status p = Proposal_pending \<and> now < np_expires_at p \<and> np_recruiter_user_id p = user \<and>
      np_dm_channel_id p = channel \<and> np_capability_hash p = sv_hash sv capability \<and>
      r_version r = np_recording_version p \<and> r_disk_owner_email r = rc_email rc \<and>
      io_bind (ensure_target sv (pm_recording_prop m) p r) (\<lambda>_.
        finish_reassignment sv now key (pm_recording_prop m) p r) s = (v, s1)"
      using assms Some Inr
      by (auto simp: confirm_reassignment_def get_db_def io_bind_app[of "get_db _"] io_bind_app[of "io_lift _"]
           io_bind_app[of "set_proposal _ _"] io_bind_app[of commit] need_move_app set_proposal_run commit_def
           replayed_reassignment_def split: option.splits if_splits)
    then show ?thesis using Some by blast
  qed
qed

section \<open>Properties\<close>

text \<open>
  Property C23.  However a confirmation ends, it writes to Notion only for a pending, unexpired proposal
  confirmed with its capability from its conversation on an unchanged recording; it writes nothing
  but the link to the target card and, last, the clearing of the source card, and the latter only
  right after the target card was read with the link on it.
\<close>

theorem source_card_is_cleared_last:
  assumes "confirm_reassignment sv now i rc user channel capability key s = (v, s1)"
    and "proposal_of (w_db s) i = Some p" and "notion_writes s1 \<noteq> notion_writes s"
  shows "np_status p = Proposal_pending \<and> now < np_expires_at p \<and> np_recruiter_user_id p = user \<and>
    np_dm_channel_id p = channel \<and> np_capability_hash p = sv_hash sv capability \<and>
    (\<exists>r prop ws. recording_of (w_db s) (np_recording_id p) = Some r \<and> r_version r = np_recording_version p \<and>
       r_disk_owner_email r = rc_email rc \<and> set ws \<subseteq> {link_request prop p r} \<and>
       (notion_writes s1 = notion_writes s @ ws \<or>
        (\<exists>n. target_verified sv prop p r n \<and>
           notion_writes s1 = notion_writes s @ ws @ [Patch_files (np_source_page_id p) prop []] \<and>
           nt_sent (w_notion s1) = nt_sent n @ [Patch_files (np_source_page_id p) prop []])))"
proof -
  obtain r :: recording and m :: notion_property_map where checks: "np_status p = Proposal_pending" "now < np_expires_at p" "np_recruiter_user_id p = user"
    "np_dm_channel_id p = channel" "np_capability_hash p = sv_hash sv capability"
    "recording_of (w_db s) (np_recording_id p) = Some r" "r_version r = np_recording_version p"
    "r_disk_owner_email r = rc_email rc"
    and run: "io_bind (ensure_target sv (pm_recording_prop m) p r) (\<lambda>_.
        finish_reassignment sv now key (pm_recording_prop m) p r) s = (v, s1)"
    using confirm_run[OF assms] by blast
  obtain v2 s2 where e: "ensure_target sv (pm_recording_prop m) p r s = (v2, s2)" by fastforce
  obtain ws where ws: "notion_writes s2 = notion_writes s @ ws" "set ws \<subseteq> {link_request (pm_recording_prop m) p r}"
    "v2 = Inr () \<longrightarrow> target_verified sv (pm_recording_prop m) p r (w_notion s2)"
    using ensure_target_run[OF e] by blast
  show ?thesis
  proof (cases v2)
    case (Inl x)
    then show ?thesis using run e ws checks by (auto simp: io_bind_app)
  next
    case (Inr u)
    then have "finish_reassignment sv now key (pm_recording_prop m) p r s2 = (v, s1)"
      using run e by (simp add: io_bind_app)
    note fin = finish_reassignment_run[OF this]
    have "notion_writes s1 = notion_writes s @ ws @ [Patch_files (np_source_page_id p) (pm_recording_prop m) []]"
      using fin ws(1) by (simp add: notion_writes_def)
    moreover have "target_verified sv (pm_recording_prop m) p r (w_notion s2)"
      using ws(3) Inr by simp
    ultimately show ?thesis
      using checks ws(2) fin
      by (intro conjI exI[of _ r] exI[of _ "pm_recording_prop m"] exI[of _ ws]) auto
  qed
qed

section \<open>A link moved\<close>

definition demo_files :: "string list \<Rightarrow> json" where
  "demo_files urls = JList (map (\<lambda>u. JObj [(''name'', JStr ''a''), (''external'', JObj [(''url'', JStr u)])]) urls)"

definition demo_card :: "string list \<Rightarrow> http_response" where
  "demo_card urls = \<lparr>resp_status = 200, resp_json = Some (JObj [(''properties'', JObj
     [(''General Interview recording'', JObj [(''type'', JStr ''files''), (''files'', demo_files urls)])])])\<rparr>"

text \<open>The server counts the writes: the first one links the target, the second one clears the source.\<close>

fun demo_cards :: "notion_request \<Rightarrow> nat \<Rightarrow> http_response option \<times> nat" where
  "demo_cards (Get_page p) n = (Some (demo_card (if p = ''src'' then (if n < 2 then [''u''] else [])
     else (if n = 0 then [] else [''u'']))), n)"
| "demo_cards (Patch_files p prop files) n = (Some \<lparr>resp_status = 200, resp_json = Some (JObj [])\<rparr>, Suc n)"
| "demo_cards _ n = (None, n)"

definition demo_mover :: "(nat, nat, nat) services" where
  "demo_mover = demo_services\<lparr>sv_notion := demo_api\<lparr>reply := demo_cards\<rparr>\<rparr>"

definition demo_linked :: recording where
  "demo_linked = demo_asked\<lparr>r_notion_page_id := Some ''src'', r_synology_share_url := Some ''u''\<rparr>"

definition demo_proposal :: reassignment_proposal where
  "demo_proposal = \<lparr>np_proposal_id = ''p1'', np_recording_id = ''r1'', np_recruiter_user_id = ''u'',
     np_dm_channel_id = ''dm'', np_source_page_id = ''src'', np_target_page_id = ''tgt'',
     np_recording_version = 3, np_source_snapshot = jitems (demo_files [''u'']), np_target_snapshot = [],
     np_capability_hash = ''#cap'', np_expires_at = 100, np_consumed_at = None, np_status = Proposal_pending,
     np_result = None, np_created_at = 0\<rparr>"

definition demo_moving :: "(nat, nat, nat) world" where
  "demo_moving = demo_room\<lparr>w_db := demo_db\<lparr>db_recordings := [demo_linked], db_proposals := [demo_proposal]\<rparr>\<rparr>"

theorem reassignment_witness:
  "\<exists>s1 fld n. confirm_reassignment demo_mover 5 ''p1'' sample_recruiter ''u'' ''dm'' ''cap'' ''k'' demo_moving =
     (Inr ''r1'', s1) \<and> target_verified demo_mover fld demo_proposal demo_linked n \<and>
     nt_sent (w_notion s1) = nt_sent n @ [Patch_files ''src'' fld []]"
proof -
  let ?run = "confirm_reassignment demo_mover 5 ''p1'' sample_recruiter ''u'' ''dm'' ''cap'' ''k'' demo_moving"
  have out: "fst ?run = Inr ''r1''" by code_simp
  have writes: "length (notion_writes (snd ?run)) = 2" "notion_writes demo_moving = []" by (code_simp, code_simp)
  obtain s1 where run: "?run = (Inr ''r1'', s1)" using out by (metis prod.collapse)
  have p: "proposal_of (w_db demo_moving) ''p1'' = Some demo_proposal" by code_simp
  have changed: "notion_writes s1 \<noteq> notion_writes demo_moving" using writes run by auto
  obtain r fld ws where rec: "recording_of (w_db demo_moving) (np_recording_id demo_proposal) = Some r"
    and ws: "set ws \<subseteq> {link_request fld demo_proposal r}"
    and cases: "notion_writes s1 = notion_writes demo_moving @ ws \<or>
      (\<exists>n. target_verified demo_mover fld demo_proposal r n \<and>
         notion_writes s1 = notion_writes demo_moving @ ws @ [Patch_files (np_source_page_id demo_proposal) fld []] \<and>
         nt_sent (w_notion s1) = nt_sent n @ [Patch_files (np_source_page_id demo_proposal) fld []])"
    using source_card_is_cleared_last[OF run p changed] by blast
  have r: "r = demo_linked" using rec by (simp add: demo_moving_def demo_proposal_def recording_of_def demo_linked_def
      demo_asked_def new_recording_def split: if_splits)
  have cleared: "Patch_files ''src'' ''General Interview recording'' [] \<in> set (notion_writes (snd ?run))"
    by code_simp
  have "\<not> notion_writes s1 = notion_writes demo_moving @ ws"
    using cleared run ws writes(2) r
    by (auto simp: link_request_def demo_proposal_def)
  then show ?thesis using cases run r by (auto simp: demo_proposal_def)
qed

end
