(* ===== verification/Reroute.thy ===== *)
theory Reroute
imports Reassignment Routing_Jobs
begin

text \<open>
  \<open>app/services/reroute.py\<close>: a completed recording is moved to another folder of the file station in
  phases (move, share link, Notion card, rows), each committed before the next begins, so that a
  retry with the same idempotency key resumes at the phase the last attempt reached.  The texts of
  errors that only carry an outside message are abbreviated.
\<close>

abbreviation reject_reroute :: "string \<Rightarrow> ('n, 'w, 'c, 'a) app_io" where
  "reject_reroute why \<equiv> io_raise (Reroute_rejected why)"

definition need_reroute :: "bool \<Rightarrow> string \<Rightarrow> ('n, 'w, 'c, 'a) app_io \<Rightarrow> ('n, 'w, 'c, 'a) app_io" where
  "need_reroute b why m = io_guard b (Reroute_rejected why) m"

lemma need_reroute_app: "need_reroute b why m s = (if b then m s else (Inl (Reroute_rejected why), s))"
  by (simp add: need_reroute_def io_guard_app)

definition in_nas :: "('w, 'a) nas_io \<Rightarrow> ('n, 'w, 'c, 'a) app_io" where
  "in_nas m = (\<lambda>s. case m (w_nas s) of
      (Inl e, n) \<Rightarrow> (Inl (Nas_failed e), s\<lparr>w_nas := n\<rparr>)
    | (Inr x, n) \<Rightarrow> (Inr x, s\<lparr>w_nas := n\<rparr>))"

section \<open>Rows\<close>

record reroute_result =
  rt_recording_id :: string
  rt_version :: int
  rt_share_url :: string
  rt_replayed :: bool

definition find_reroute :: "db \<Rightarrow> string \<Rightarrow> string \<Rightarrow> recording_reroute option" where
  "find_reroute d recording_id key =
     find (\<lambda>x. rr_recording_id x = recording_id \<and> rr_idempotency_key x = key) (db_reroutes d)"

definition active_artifact :: "db \<Rightarrow> string \<Rightarrow> storage_artifact option" where
  "active_artifact d recording_id =
     find (\<lambda>a. sa_recording_id a = recording_id \<and> sa_is_active a) (db_artifacts d)"

text \<open>The unique indexes of the table of artifacts.\<close>

definition artifact_constraints :: "storage_artifact list \<Rightarrow> bool" where
  "artifact_constraints rows \<longleftrightarrow> distinct (map sa_file_path rows) \<and>
     distinct (map sa_recording_id (filter sa_is_active rows))"

text \<open>An operation is written and committed.\<close>

definition save_reroute :: "recording_reroute \<Rightarrow> ('n, 'w, 'c, recording_reroute) app_io" where
  "save_reroute op =
     io_bind (modify_db (\<lambda>d. d\<lparr>db_reroutes := update_where (\<lambda>x. rr_id x = rr_id op) (\<lambda>_. op) (db_reroutes d)\<rparr>))
       (\<lambda>_. io_bind commit (\<lambda>_. io_return op))"

definition file_name_of :: "recording \<Rightarrow> string" where
  "file_name_of r = or_text (r_generated_filename r) (r_disk_filename r)"

definition identity_of :: "recording \<Rightarrow> string" where
  "identity_of r = or_text (r_content_identity r) (or_text (r_disk_md5 r) (r_disk_file_id r))"

definition owner_of :: "recording \<Rightarrow> (string \<times> json) list" where
  "owner_of r = expected_owner (r_id r) (identity_of r) (r_disk_size_bytes r)"

section \<open>Checks before the lease\<close>

definition leased :: "instant \<Rightarrow> recording \<Rightarrow> bool" where
  "leased now r \<longleftrightarrow> truthy (r_processing_lease_token r) \<and>
     (case r_processing_lease_expires_at r of None \<Rightarrow> False | Some e \<Rightarrow> now < e)"

definition replayed_reroute :: "recording \<Rightarrow> recording_reroute \<Rightarrow> ('n, 'w, 'c, reroute_result) app_io" where
  "replayed_reroute r x =
     need_reroute (truthy (rr_target_share_url x)) ''Completed reroute has no link''
       (io_return \<lparr>rt_recording_id = r_id r, rt_version = r_version r,
          rt_share_url = the (rr_target_share_url x), rt_replayed = True\<rparr>)"

definition same_inputs :: "string \<Rightarrow> int \<Rightarrow> recording_reroute \<Rightarrow> bool" where
  "same_inputs destination_id expected_version x \<longleftrightarrow>
     rr_destination_id x = destination_id \<and> rr_expected_version x = expected_version"

definition reroutable :: "instant \<Rightarrow> int \<Rightarrow> recording \<Rightarrow> (app_error, unit) result" where
  "reroutable now expected_version r =
     check_that (\<not> leased now r) (Reroute_rejected ''Recording has an active operation lease'')
    (check_that (r_version r = expected_version) (Reroute_rejected ''Recording version is stale'')
    (check_that (r_status r = COMPLETED \<or> r_status r = NOTION_UPDATED)
       (Reroute_rejected ''Recording is not in a reroutable terminal state'')
    (check_that (r_storage_is_durable r \<and> truthy (r_notion_page_id r))
       (Reroute_rejected ''Recording is legacy or has no durable Notion identity'') (Inr ()))))"

text \<open>The errors that end an operation for good; after the others it can be retried.\<close>

fun ends_reroute :: "app_error \<Rightarrow> bool" where
  "ends_reroute (Nas_failed (Collision _)) = True"
| "ends_reroute (Nas_failed (Path_error _)) = True"
| "ends_reroute (Nas_failed Bad_bounds) = True"
| "ends_reroute (Nas_failed Not_writable) = True"
| "ends_reroute (Reroute_rejected _) = True"
| "ends_reroute Bad_value = True"
| "ends_reroute _ = False"

fun reroute_text :: "app_error \<Rightarrow> string" where
  "reroute_text (Reroute_rejected why) = why"
| "reroute_text _ = ''refused''"

section \<open>Phases\<close>

definition allowed_root :: "string list \<Rightarrow> string \<Rightarrow> (app_error, string) result" where
  "allowed_root roots path =
     (case require_allowed_interview_path roots path of
        None \<Rightarrow> Inl (Reroute_rejected ''Path is outside the allowed Synology interview roots'')
      | Some root \<Rightarrow> Inr root)"

definition checkpoint_target :: "recording_reroute \<Rightarrow> string \<Rightarrow> ('n, 'w, 'c, recording_reroute) app_io" where
  "checkpoint_target op intended =
     (case rr_target_file_path op of
        None \<Rightarrow> save_reroute (op\<lparr>rr_target_file_path := Some intended\<rparr>)
      | Some p \<Rightarrow> need_reroute (p = intended) ''Reroute target checkpoint does not match destination'' (io_return op))"

text \<open>A file already at the target counts as moved when the source is gone and its owner is right.\<close>

definition recover_move ::
  "('n, 'w, 'c) services \<Rightarrow> recording \<Rightarrow> string \<Rightarrow> recording_reroute \<Rightarrow> string \<Rightarrow> string \<Rightarrow>
   ('n, 'w, 'c, recording_reroute) app_io" where
  "recover_move sv r source op intended target_root =
     io_bind (in_nas (file_size (sv_nas sv) intended)) (\<lambda>present.
       case present of
         None \<Rightarrow> io_return op
       | Some _ \<Rightarrow>
           io_bind (in_nas (file_size (sv_nas sv) source)) (\<lambda>left.
             case left of
               None \<Rightarrow>
                 io_bind (in_nas (verify_moved_target (sv_nas sv) intended (file_name_of r) target_root
                    (r_disk_size_bytes r) (owner_of r))) (\<lambda>_.
                   save_reroute (op\<lparr>rr_status := Reroute_moved\<rparr>))
             | Some _ \<Rightarrow> reject_reroute ''Reroute target exists while source remains; NAS mutation is ambiguous''))"

definition move_phase ::
  "('n, 'w, 'c) services \<Rightarrow> recording \<Rightarrow> storage_artifact \<Rightarrow> storage_destination \<Rightarrow> string \<Rightarrow> string \<Rightarrow>
   recording_reroute \<Rightarrow> ('n, 'w, 'c, recording_reroute) app_io" where
  "move_phase sv r art dest root target_root op =
     (if rr_status op \<noteq> Reroute_pending then io_return op
      else
        io_bind (in_nas (io_lift (with_path (canonical_under_root target_root
            (join_child (sd_canonical_path dest) (file_name_of r)))))) (\<lambda>intended.
        io_bind (checkpoint_target op intended) (\<lambda>op1.
        io_bind (recover_move sv r (sa_file_path art) op1 intended target_root) (\<lambda>op2.
          if rr_status op2 \<noteq> Reroute_pending then io_return op2
          else
            io_bind (in_nas (copy_move_verified (sv_nas sv) (sa_file_path art) (sd_canonical_path dest)
               (file_name_of r) root (r_disk_size_bytes r) (owner_of r) (Some target_root))) (\<lambda>moved.
              save_reroute (op2\<lparr>rr_status := Reroute_moved, rr_target_file_path := Some (snd moved)\<rparr>))))))"

definition link_phase ::
  "('n, 'w, 'c) services \<Rightarrow> recording_reroute \<Rightarrow> ('n, 'w, 'c, recording_reroute) app_io" where
  "link_phase sv op =
     (if rr_status op \<noteq> Reroute_moved then io_return op
      else
        need_reroute (truthy (rr_target_file_path op)) ''Moved reroute has no durable target checkpoint''
         (io_bind (in_nas (find_public_share_link (sv_nas sv) (the (rr_target_file_path op)))) (\<lambda>found.
          io_bind (case found of
              Some url \<Rightarrow> io_return url
            | None \<Rightarrow> in_nas (create_share_link (sv_nas sv) (the (rr_target_file_path op)))) (\<lambda>url.
            save_reroute (op\<lparr>rr_status := Reroute_linked, rr_target_share_url := Some url\<rparr>)))))"

definition card_phase ::
  "('n, 'w, 'c) services \<Rightarrow> string \<Rightarrow> recording \<Rightarrow> recording_reroute \<Rightarrow> ('n, 'w, 'c, recording_reroute) app_io" where
  "card_phase sv fld r op =
     (if rr_status op \<noteq> Reroute_linked then io_return op
      else
        io_bind (in_notion (replace_recording_link (sv_notion sv) (the (r_notion_page_id r)) fld
           (file_name_of r) (the (rr_target_share_url op))) Notion_failed) (\<lambda>_.
        io_bind (read_field sv (the (r_notion_page_id r)) fld) (\<lambda>current.
        need_reroute (has_url current (the (rr_target_share_url op)))
          ''Notion did not persist the replacement recording link''
         (save_reroute (op\<lparr>rr_status := Reroute_notion_updated\<rparr>)))))"

definition placed_at :: "storage_destination \<Rightarrow> string \<Rightarrow> string \<Rightarrow> recording \<Rightarrow> recording" where
  "placed_at dest path url x =
     x\<lparr>r_synology_folder_path := Some (sd_canonical_path dest), r_synology_file_path := Some path,
       r_synology_share_url := Some url, r_storage_destination_id := Some (sd_id dest),
       r_version := r_version x + 1, r_processing_lease_token := None,
       r_processing_lease_expires_at := None\<rparr>"

definition swap_artifacts ::
  "string \<Rightarrow> storage_artifact \<Rightarrow> storage_artifact list \<Rightarrow> storage_artifact list" where
  "swap_artifacts old_id new rows =
     update_where (\<lambda>a. sa_id a = old_id) (sa_is_active_update (\<lambda>_. False)) rows @ [new]"

definition new_artifact ::
  "instant \<Rightarrow> string \<Rightarrow> recording \<Rightarrow> storage_destination \<Rightarrow> string \<Rightarrow> string \<Rightarrow> storage_artifact" where
  "new_artifact now new_id r dest path url =
     \<lparr>sa_id = new_id, sa_recording_id = r_id r, sa_destination_id = Some (sd_id dest),
      sa_folder_path = sd_canonical_path dest, sa_file_path = path, sa_share_url = url,
      sa_owner_marker_path = join_child (sd_canonical_path dest) (owner_marker_name (file_name_of r)),
      sa_size_bytes = r_disk_size_bytes r, sa_is_active = True, sa_created_at = now\<rparr>"

text \<open>
  The last transaction.  When it breaks a unique index the session falls back to what was committed,
  and the handlers, whose own commit fails too, let the error through.
\<close>

definition finish_reroute ::
  "instant \<Rightarrow> string \<Rightarrow> recording \<Rightarrow> storage_artifact \<Rightarrow> storage_destination \<Rightarrow> recording_reroute \<Rightarrow>
   ('n, 'w, 'c, reroute_result) app_io" where
  "finish_reroute now artifact_id r art dest op =
     (let path = the (rr_target_file_path op); url = the (rr_target_share_url op) in
      io_bind (get_db (\<lambda>d. swap_artifacts (sa_id art) (new_artifact now artifact_id r dest path url)
         (db_artifacts d))) (\<lambda>rows s.
        if \<not> artifact_constraints rows then (Inl Integrity_violation, s\<lparr>w_db := w_saved s\<rparr>)
        else
          io_bind (modify_db (\<lambda>d. d\<lparr>db_artifacts := rows\<rparr>)) (\<lambda>_.
          io_bind (set_recording (r_id r) (placed_at dest path url)) (\<lambda>_.
          io_bind (save_reroute (op\<lparr>rr_status := Reroute_completed\<rparr>)) (\<lambda>_.
            io_return \<lparr>rt_recording_id = r_id r, rt_version = r_version r + 1, rt_share_url = url,
              rt_replayed = False\<rparr>))) s))"

definition release_lease :: "string \<Rightarrow> ('n, 'w, 'c, unit) app_io" where
  "release_lease recording_id = set_recording recording_id
     (\<lambda>x. x\<lparr>r_processing_lease_token := None, r_processing_lease_expires_at := None\<rparr>)"

definition schema_value :: "(schema_error, 'a) result \<Rightarrow> (app_error, 'a) result" where
  "schema_value v = (case v of Inl e \<Rightarrow> Inl Bad_value | Inr x \<Rightarrow> Inr x)"

text \<open>Everything inside the \<open>try\<close>, from an operation as it stands to the result.\<close>

definition run_phases ::
  "('n, 'w, 'c) services \<Rightarrow> recruiter_config \<Rightarrow> instant \<Rightarrow> string \<Rightarrow> recording \<Rightarrow> storage_artifact \<Rightarrow>
   storage_destination \<Rightarrow> recording_reroute \<Rightarrow> ('n, 'w, 'c, reroute_result) app_io" where
  "run_phases sv rc now artifact_id r art dest op =
     io_bind (io_lift (schema_value (resolve_synology_roots (Some (sv_settings sv)) (Some rc)))) (\<lambda>roots.
     io_bind (io_lift (schema_value (resolve_notion_property_map (sv_settings sv) (Some rc)))) (\<lambda>m.
     io_bind (io_lift (allowed_root roots (sa_file_path art))) (\<lambda>root.
     io_bind (io_lift (allowed_root roots (sd_canonical_path dest))) (\<lambda>target_root.
     io_bind (move_phase sv r art dest root target_root op) (\<lambda>op1.
     io_bind (link_phase sv op1) (\<lambda>op2.
     need_reroute (truthy (rr_target_file_path op2) \<and> truthy (rr_target_share_url op2))
       ''Reroute has no durable target/link checkpoint''
      (io_bind (card_phase sv (pm_recording_prop m) r op2) (\<lambda>op3.
        finish_reroute now artifact_id r art dest op3))))))))"

definition fail_reroute :: "string \<Rightarrow> ('n, 'w, 'c, unit) app_io" where
  "fail_reroute op_id = modify_db (\<lambda>d. d\<lparr>db_reroutes := update_where (\<lambda>x. rr_id x = op_id)
     (\<lambda>x. x\<lparr>rr_status := Reroute_failed, rr_failed := True\<rparr>) (db_reroutes d)\<rparr>)"

definition guard_phases ::
  "string \<Rightarrow> string \<Rightarrow> ('n, 'w, 'c, reroute_result) app_io \<Rightarrow> ('n, 'w, 'c, reroute_result) app_io" where
  "guard_phases recording_id op_id m =
     io_catch m (\<lambda>e.
       if e = Integrity_violation then io_raise e
       else if ends_reroute e
       then io_bind (fail_reroute op_id) (\<lambda>_. io_bind (release_lease recording_id) (\<lambda>_.
            io_bind commit (\<lambda>_. reject_reroute (reroute_text e))))
       else io_bind (release_lease recording_id) (\<lambda>_.
            io_bind commit (\<lambda>_. reject_reroute ''Reroute external operation is retryable'')))"

definition new_reroute :: "instant \<Rightarrow> string \<Rightarrow> recording \<Rightarrow> storage_artifact \<Rightarrow> string \<Rightarrow> int \<Rightarrow> string \<Rightarrow> recording_reroute" where
  "new_reroute now new_id r art destination_id expected_version key =
     \<lparr>rr_id = new_id, rr_recording_id = r_id r, rr_source_artifact_id = sa_id art,
      rr_destination_id = destination_id, rr_expected_version = expected_version,
      rr_idempotency_key = key, rr_status = Reroute_pending, rr_target_file_path = None,
      rr_target_share_url = None, rr_failed = False, rr_created_at = now\<rparr>"

definition add_reroute :: "recording_reroute option \<Rightarrow> recording_reroute \<Rightarrow> db \<Rightarrow> db" where
  "add_reroute existing op d =
     (case existing of Some _ \<Rightarrow> d | None \<Rightarrow> d\<lparr>db_reroutes := db_reroutes d @ [op]\<rparr>)"

text \<open>The lease and the operation are committed before the first phase.\<close>

definition start_reroute ::
  "instant \<Rightarrow> string \<Rightarrow> string \<Rightarrow> recording_reroute option \<Rightarrow> recording_reroute \<Rightarrow> ('n, 'w, 'c, unit) app_io" where
  "start_reroute now token recording_id existing op =
     io_bind (set_recording recording_id (\<lambda>x. x\<lparr>r_processing_lease_token := Some token,
        r_processing_lease_expires_at := Some (now + minutes 10)\<rparr>)) (\<lambda>_.
     io_bind (modify_db (add_reroute existing op)) (\<lambda>_. commit))"

text \<open>Fresh identifiers of the operation, the artifact and the lease.\<close>

record reroute_ids =
  ri_op :: string
  ri_artifact :: string
  ri_lease :: string

definition reroute_from ::
  "('n, 'w, 'c) services \<Rightarrow> instant \<Rightarrow> reroute_ids \<Rightarrow> recruiter_config \<Rightarrow> recording \<Rightarrow>
   recording_reroute option \<Rightarrow> string \<Rightarrow> int \<Rightarrow> string \<Rightarrow> ('n, 'w, 'c, reroute_result) app_io" where
  "reroute_from sv now ids rc r existing destination_id expected_version key =
     need_reroute (case existing of None \<Rightarrow> True | Some x \<Rightarrow> same_inputs destination_id expected_version x)
       ''Reroute idempotency key has different immutable inputs''
    (io_bind (io_lift (reroutable now expected_version r)) (\<lambda>_.
     io_bind (get_db (\<lambda>d. active_artifact d (r_id r))) (\<lambda>artifact.
       case artifact of
         None \<Rightarrow> reject_reroute ''Recording is legacy and cannot be safely rerouted''
       | Some art \<Rightarrow>
           io_bind (in_destinations (resolve_destination (sv_nas sv) (sv_settings sv) rc destination_id)
              Destination_refused) (\<lambda>dest.
             let op = (case existing of Some x \<Rightarrow> x
                       | None \<Rightarrow> new_reroute now (ri_op ids) r art (sd_id dest) expected_version key)
             in io_bind (start_reroute now (ri_lease ids) (r_id r) existing op) (\<lambda>_.
                guard_phases (r_id r) (rr_id op) (run_phases sv rc now (ri_artifact ids) r art dest op))))))"

definition reroute ::
  "('n, 'w, 'c) services \<Rightarrow> instant \<Rightarrow> reroute_ids \<Rightarrow> string \<Rightarrow> recruiter_config \<Rightarrow> string \<Rightarrow> int \<Rightarrow> string \<Rightarrow>
   ('n, 'w, 'c, reroute_result) app_io" where
  "reroute sv now ids recording_id rc destination_id expected_version key =
     io_bind (get_db (\<lambda>d. (recording_of d recording_id, find_reroute d recording_id key))) (\<lambda>(row, existing).
       case row of
         None \<Rightarrow> reject_reroute ''Recording not found''
       | Some r \<Rightarrow>
           need_reroute (r_disk_owner_email r = rc_email rc) ''Recording not found''
            (if (case existing of None \<Rightarrow> False | Some x \<Rightarrow> rr_status x = Reroute_completed)
             then replayed_reroute r (the existing)
             else reroute_from sv now ids rc r existing destination_id expected_version key))"

section \<open>What the phases leave alone\<close>

definition unleased :: "recording \<Rightarrow> recording" where
  "unleased x = x\<lparr>r_processing_lease_token := None, r_processing_lease_expires_at := None\<rparr>"

text \<open>The artifacts and, but for the lease, the recordings.\<close>

definition same_placement :: "db \<Rightarrow> db \<Rightarrow> bool" where
  "same_placement d0 d \<longleftrightarrow> db_artifacts d = db_artifacts d0 \<and>
     map unleased (db_recordings d) = map unleased (db_recordings d0)"

definition placement_kept :: "db \<Rightarrow> ('n, 'w, 'c) world \<Rightarrow> bool" where
  "placement_kept d0 s \<longleftrightarrow> same_placement d0 (w_db s) \<and> same_placement d0 (w_saved s)"

lemma save_reroute_run: "save_reroute op s = (Inr op, s\<lparr>w_db := (w_db s)\<lparr>db_reroutes :=
    update_where (\<lambda>x. rr_id x = rr_id op) (\<lambda>_. op) (db_reroutes (w_db s))\<rparr>,
    w_saved := (w_db s)\<lparr>db_reroutes := update_where (\<lambda>x. rr_id x = rr_id op) (\<lambda>_. op) (db_reroutes (w_db s))\<rparr>\<rparr>)"
  by (simp add: save_reroute_def modify_db_def commit_def io_bind_app)

lemma same_placement_reroutes [simp]: "same_placement d0 (d\<lparr>db_reroutes := x\<rparr>) = same_placement d0 d"
  by (simp add: same_placement_def)

lemma same_placement_lease:
  assumes "\<And>x. unleased (f x) = unleased x"
  shows "same_placement d0 (update_recording i f d) = same_placement d0 d"
proof -
  have "map unleased (update_where p f rows) = map unleased rows" for p rows
    using assms by (auto simp: update_where_def)
  then show ?thesis by (simp add: same_placement_def update_recording_def)
qed

lemma keeps_in_nas: "(\<And>s n. I s \<Longrightarrow> I (s\<lparr>w_nas := n\<rparr>)) \<Longrightarrow> keeps I (in_nas m)"
  by (rule keepsI) (auto simp: in_nas_def split: prod.splits sum.splits)

lemma keeps_in_notion: "(\<And>s n. I s \<Longrightarrow> I (s\<lparr>w_notion := n\<rparr>)) \<Longrightarrow> keeps I (in_notion m e)"
  by (rule keepsI) (auto simp: in_notion_def split: prod.splits sum.splits)

lemma placement_kept_apart [simp]:
  "placement_kept d0 (s\<lparr>w_nas := n\<rparr>) = placement_kept d0 s"
  "placement_kept d0 (s\<lparr>w_notion := m\<rparr>) = placement_kept d0 s"
  by (simp_all add: placement_kept_def)

lemma keeps_save [keeps_rules]: "keeps (placement_kept d0) (save_reroute op)"
  by (rule keepsI) (auto simp: save_reroute_run placement_kept_def)

lemma keeps_placement [keeps_rules]:
  "keeps (placement_kept d0) (in_nas m1)" "keeps (placement_kept d0) (in_notion m2 e)"
  "keeps (placement_kept d0) (read_field sv i fld)"
  by (auto intro!: keeps_in_nas keeps_in_notion simp: read_field_def)

lemma keeps_phases [keeps_rules]:
  "keeps (placement_kept d0) (move_phase sv r art dest root target_root op)"
  "keeps (placement_kept d0) (link_phase sv op)" "keeps (placement_kept d0) (card_phase sv fld r op)"
  by (auto intro!: keeps_rules
      simp: move_phase_def checkpoint_target_def recover_move_def link_phase_def card_phase_def need_reroute_def)

text \<open>The file station's part and the rows' part say nothing to Notion.\<close>

lemma keeps_notion [keeps_rules]:
  "keeps (\<lambda>s. w_notion s = n) (in_nas m1)" "keeps (\<lambda>s. w_notion s = n) (save_reroute op)"
  by (auto intro!: keeps_in_nas) (auto intro!: keepsI simp: save_reroute_run)

lemma keeps_notion_phases:
  "keeps (\<lambda>s. w_notion s = n) (move_phase sv r art dest root target_root op)"
  "keeps (\<lambda>s. w_notion s = n) (link_phase sv op)"
  by (auto intro!: keeps_rules
      simp: move_phase_def checkpoint_target_def recover_move_def link_phase_def need_reroute_def)

section \<open>Runs of the phases\<close>

lemma move_phase_status:
  assumes "move_phase sv r art dest root target_root op s = (Inr op1, s1)"
  shows "rr_status op1 = (if rr_status op = Reroute_pending then Reroute_moved else rr_status op) \<and>
    (rr_status op \<noteq> Reroute_pending \<longrightarrow> op1 = op \<and> s1 = s)"
  using assms
  by (auto simp: move_phase_def checkpoint_target_def recover_move_def need_reroute_app io_bind_Inr_iff
      save_reroute_run io_bind_app split: option.splits if_splits sum.splits prod.splits)

lemma link_phase_status:
  assumes "link_phase sv op s = (Inr op1, s1)"
  shows "rr_status op1 = (if rr_status op = Reroute_moved then Reroute_linked else rr_status op) \<and>
    (rr_status op \<noteq> Reroute_moved \<longrightarrow> op1 = op \<and> s1 = s)"
  using assms
  by (auto simp: link_phase_def need_reroute_app io_bind_Inr_iff save_reroute_run
      split: option.splits if_splits)

text \<open>The card was read with the link on it, and \<open>n\<close> is the Notion state right after.\<close>

definition card_carries ::
  "('n, 'w, 'c) services \<Rightarrow> string \<Rightarrow> string \<Rightarrow> string \<Rightarrow> 'n notion_state \<Rightarrow> bool" where
  "card_carries sv page fld url n \<longleftrightarrow> (\<exists>n1 files.
     get_recording_field (sv_notion sv) page fld n1 = (Inr files, n) \<and> has_url files url)"

lemma card_phase_run:
  assumes "card_phase sv fld r op s = (Inr op1, s1)"
  shows "rr_target_share_url op1 = rr_target_share_url op \<and> rr_target_file_path op1 = rr_target_file_path op \<and>
    (rr_status op = Reroute_linked \<longrightarrow> card_carries sv (the (r_notion_page_id r)) fld
       (the (rr_target_share_url op)) (w_notion s1)) \<and>
    (rr_status op \<noteq> Reroute_linked \<longrightarrow> op1 = op \<and> s1 = s)"
proof (cases "rr_status op = Reroute_linked")
  case True
  then obtain files s2 s3 where rd: "read_field sv (the (r_notion_page_id r)) fld s2 = (Inr files, s3)"
    and url: "has_url files (the (rr_target_share_url op))"
    and sv1: "save_reroute (op\<lparr>rr_status := Reroute_notion_updated\<rparr>) s3 = (Inr op1, s1)"
    using assms by (auto simp: card_phase_def io_bind_Inr_iff need_reroute_app split: if_splits)
  have "w_notion s1 = w_notion s3" using sv1 by (auto simp: save_reroute_run)
  then show ?thesis
    using read_field_run[OF rd] url sv1 True by (auto simp: card_carries_def save_reroute_run)
next
  case False
  then show ?thesis using assms by (simp add: card_phase_def)
qed

lemma finish_reroute_run:
  assumes "finish_reroute now i r art dest op s = (v, s1)"
  shows "w_notion s1 = w_notion s \<and>
    (\<forall>res. v = Inr res \<longrightarrow> rt_share_url res = the (rr_target_share_url op) \<and> \<not> rt_replayed res \<and>
       rt_version res = r_version r + 1 \<and>
       db_recordings (w_db s1) = db_recordings (update_recording (r_id r) (placed_at dest
         (the (rr_target_file_path op)) (the (rr_target_share_url op))) (w_db s)) \<and>
       db_artifacts (w_db s1) = swap_artifacts (sa_id art) (new_artifact now i r dest
         (the (rr_target_file_path op)) (the (rr_target_share_url op))) (db_artifacts (w_db s)) \<and>
       artifact_constraints (db_artifacts (w_db s1)) \<and> w_saved s1 = w_db s1) \<and>
    (\<forall>e. v = Inl e \<longrightarrow> e = Integrity_violation \<and> w_db s1 = w_saved s \<and> w_saved s1 = w_saved s)"
  using assms
  by (auto simp: finish_reroute_def Let_def get_db_def io_bind_app modify_db_def set_recording_Inr
      save_reroute_run set_recording_def update_recording_def split: if_splits)

lemma active_after_swap:
  assumes "artifact_constraints (swap_artifacts old_id new rows)" and "sa_is_active new"
  shows "find (\<lambda>a. sa_recording_id a = sa_recording_id new \<and> sa_is_active a) (swap_artifacts old_id new rows) = Some new"
proof -
  let ?rows = "update_where (\<lambda>a. sa_id a = old_id) (sa_is_active_update (\<lambda>_. False)) rows"
  have "sa_recording_id new \<notin> sa_recording_id ` set (filter sa_is_active ?rows)"
    using assms by (simp add: artifact_constraints_def swap_artifacts_def)
  then have "find (\<lambda>a. sa_recording_id a = sa_recording_id new \<and> sa_is_active a) ?rows = None"
    by (auto simp: find_None_iff image_iff)
  then show ?thesis using assms(2) by (simp add: swap_artifacts_def find_append)
qed

text \<open>What a run that returned passed through.\<close>

lemma run_phases_cases:
  assumes "run_phases sv rc now i r art dest op s = (Inr res, s1)"
  obtains fld root target_root op1 op2 op3 s2 s3 s4
    where "move_phase sv r art dest root target_root op s = (Inr op1, s2)"
      "link_phase sv op1 s2 = (Inr op2, s3)" "truthy (rr_target_file_path op2)" "truthy (rr_target_share_url op2)"
      "card_phase sv fld r op2 s3 = (Inr op3, s4)" "finish_reroute now i r art dest op3 s4 = (Inr res, s1)"
  using assms unfolding run_phases_def
  by (auto simp: io_bind_Inr_iff need_reroute_app split: if_splits)

lemma guard_phases_Inr: "guard_phases i j m s = (Inr res, s1) \<longleftrightarrow> m s = (Inr res, s1)"
  by (auto simp: guard_phases_def io_catch_app io_bind_app fail_reroute_def modify_db_def release_lease_def
      set_recording_def commit_def split: sum.splits prod.splits if_splits)

definition started :: "instant \<Rightarrow> string \<Rightarrow> string \<Rightarrow> recording_reroute option \<Rightarrow> recording_reroute \<Rightarrow> db \<Rightarrow> db" where
  "started now token i existing op d = add_reroute existing op (update_recording i
     (\<lambda>x. x\<lparr>r_processing_lease_token := Some token, r_processing_lease_expires_at := Some (now + minutes 10)\<rparr>) d)"

lemma start_reroute_run: "start_reroute now token i existing op s =
    (Inr (), s\<lparr>w_db := started now token i existing op (w_db s), w_saved := started now token i existing op (w_db s)\<rparr>)"
  by (simp add: start_reroute_def started_def set_recording_def modify_db_def commit_def io_bind_app)

lemma add_reroute_apart [simp]:
  "db_recordings (add_reroute x op d) = db_recordings d" "db_artifacts (add_reroute x op d) = db_artifacts d"
  "recording_of (add_reroute x op d) j = recording_of d j"
  by (simp_all add: add_reroute_def recording_of_def split: option.splits)

definition operation_of ::
  "instant \<Rightarrow> string \<Rightarrow> recording \<Rightarrow> storage_artifact \<Rightarrow> storage_destination \<Rightarrow> int \<Rightarrow> string \<Rightarrow>
   recording_reroute option \<Rightarrow> recording_reroute" where
  "operation_of now i r art dest version key existing =
     (case existing of Some x \<Rightarrow> x | None \<Rightarrow> new_reroute now i r art (sd_id dest) version key)"

lemma reroute_cases:
  assumes "reroute sv now ids i rc j version key s = (v, s1)"
    and "\<not> (\<exists>x. find_reroute (w_db s) i key = Some x \<and> rr_status x = Reroute_completed)"
  obtains (early) e d n where "v = Inl e" "s1 = s\<lparr>w_nas := n, w_db := (w_db s)\<lparr>db_destinations := d\<rparr>\<rparr>"
    | (begun) r art dest d n op s2 where "recording_of (w_db s) i = Some r" "r_disk_owner_email r = rc_email rc"
      "reroutable now version r = Inr ()" "active_artifact (w_db s) (r_id r) = Some art"
      "in_destinations (resolve_destination (sv_nas sv) (sv_settings sv) rc j) Destination_refused s =
         (Inr dest, s\<lparr>w_nas := n, w_db := (w_db s)\<lparr>db_destinations := d\<rparr>\<rparr>)"
      "op = operation_of now (ri_op ids) r art dest version key (find_reroute (w_db s) i key)"
      "start_reroute now (ri_lease ids) (r_id r) (find_reroute (w_db s) i key) op
         (s\<lparr>w_nas := n, w_db := (w_db s)\<lparr>db_destinations := d\<rparr>\<rparr>) = (Inr (), s2)"
      "guard_phases (r_id r) (rr_id op) (run_phases sv rc now (ri_artifact ids) r art dest op) s2 = (v, s1)"
proof (cases "\<exists>r. recording_of (w_db s) i = Some r \<and> r_disk_owner_email r = rc_email rc \<and>
    (\<forall>x. find_reroute (w_db s) i key = Some x \<longrightarrow> same_inputs j version x) \<and> reroutable now version r = Inr () \<and>
    active_artifact (w_db s) (r_id r) \<noteq> None")
  case False
  then have "\<exists>e. (v, s1) = (Inl e, s)"
    using assms
    by (cases "\<exists>e r. recording_of (w_db s) i = Some r \<and> reroutable now version r = Inl e")
       (auto simp: reroute_def reroute_from_def get_db_def io_bind_app need_reroute_app
        split: option.splits if_splits sum.splits)
  moreover have "s = s\<lparr>w_nas := w_nas s, w_db := (w_db s)\<lparr>db_destinations := db_destinations (w_db s)\<rparr>\<rparr>" by simp
  ultimately show thesis using early by (metis prod.inject)
next
  case True
  then obtain r art where r: "recording_of (w_db s) i = Some r" "r_disk_owner_email r = rc_email rc"
      "\<forall>x. find_reroute (w_db s) i key = Some x \<longrightarrow> same_inputs j version x" "reroutable now version r = Inr ()"
      "active_artifact (w_db s) (r_id r) = Some art" by auto
  let ?find = "in_destinations (resolve_destination (sv_nas sv) (sv_settings sv) rc j) Destination_refused"
  obtain u d where u: "resolve_destination (sv_nas sv) (sv_settings sv) rc j
      \<lparr>dw_nas = w_nas s, dw_rows = db_destinations (w_db s)\<rparr> = (u, d)" by fastforce
  let ?s = "s\<lparr>w_nas := dw_nas d, w_db := (w_db s)\<lparr>db_destinations := dw_rows d\<rparr>\<rparr>"
  show thesis
  proof (cases u)
    case (Inl e)
    then have "?find s = (Inl (Destination_refused e), ?s)" using u by (simp add: in_destinations_def)
    then have "v = Inl (Destination_refused e) \<and> s1 = ?s"
      using assms r by (auto simp: reroute_def reroute_from_def get_db_def io_bind_app need_reroute_app Let_def
          split: option.splits if_splits)
    then show thesis using early by blast
  next
    case (Inr dest)
    then have find: "?find s = (Inr dest, ?s)" using u by (simp add: in_destinations_def)
    obtain s2 where st: "start_reroute now (ri_lease ids) (r_id r) (find_reroute (w_db s) i key)
        (operation_of now (ri_op ids) r art dest version key (find_reroute (w_db s) i key)) ?s = (Inr (), s2)"
      by (simp add: start_reroute_run)
    have "guard_phases (r_id r) (rr_id (operation_of now (ri_op ids) r art dest version key (find_reroute (w_db s) i key)))
        (run_phases sv rc now (ri_artifact ids) r art dest
          (operation_of now (ri_op ids) r art dest version key (find_reroute (w_db s) i key))) s2 = (v, s1)"
      using assms r find st
      by (auto simp: reroute_def reroute_from_def get_db_def io_bind_app need_reroute_app Let_def operation_of_def
          split: option.splits if_splits)
    then show thesis using begun[OF r(1,2,4,5) find refl st] by blast
  qed
qed

lemma same_placement_found:
  assumes "same_placement d0 d" and "recording_of d0 i = Some r"
  shows "\<exists>r1. recording_of d i = Some r1 \<and> unleased r1 = unleased r"
proof -
  have lift: "map_option unleased (find (\<lambda>r. r_id r = i) xs) = find (\<lambda>r. r_id r = i) (map unleased xs)" for xs
    by (induction xs) (auto simp: unleased_def)
  have "map_option unleased (recording_of d i) = Some (unleased r)"
    using assms lift[of "db_recordings d"] lift[of "db_recordings d0"]
    by (simp add: recording_of_def same_placement_def)
  then show ?thesis by auto
qed

lemma unleased_version: "unleased x = unleased y \<Longrightarrow> r_version x = r_version y"
  by (drule arg_cong[of _ _ r_version]) (simp add: unleased_def)

lemma finish_raises: "keeps_raising (placement_kept d0) (finish_reroute now i r art dest op)"
proof (rule keeps_raisingI)
  fix w e w1
  assume "placement_kept d0 w" and "finish_reroute now i r art dest op w = (Inl e, w1)"
  then show "placement_kept d0 w1"
    using finish_reroute_run[of now i r art dest op w "Inl e" w1] by (simp add: placement_kept_def)
qed

lemma run_phases_Inl:
  assumes "run_phases sv rc now i r art dest op s = (Inl e, s1)" and "placement_kept d0 s"
  shows "placement_kept d0 s1"
proof -
  have "keeps_raising (placement_kept d0) (run_phases sv rc now i r art dest op)"
    unfolding run_phases_def need_reroute_def
    by (rule keeps_raising_bind keeps_raising_guard finish_raises keeps_phases keeps_lift)+
  from keeps_raisingD[OF this] show ?thesis using assms by blast
qed

lemma guard_phases_Inl:
  assumes "guard_phases i j m s = (Inl e, s1)" and "placement_kept d0 s"
    and inl: "\<And>e1 s2. m s = (Inl e1, s2) \<Longrightarrow> placement_kept d0 s2"
  shows "same_placement d0 (w_db s1)"
proof -
  have rel: "same_placement d0 (update_recording i (\<lambda>x. x\<lparr>r_processing_lease_token := None,
      r_processing_lease_expires_at := None\<rparr>) d) = same_placement d0 d" for d
    by (rule same_placement_lease) (simp add: unleased_def)
  obtain u s2 where u: "m s = (u, s2)" by fastforce
  show ?thesis
    using assms(1) u inl
    by (cases u)
       (auto simp: guard_phases_def io_catch_app io_bind_app fail_reroute_def modify_db_def release_lease_def
         set_recording_def commit_def rel placement_kept_def split: if_splits)
qed

lemma started_kept: "placement_kept d0 (s\<lparr>w_db := started now token i x op (d0\<lparr>db_destinations := d\<rparr>),
    w_saved := started now token i x op (d0\<lparr>db_destinations := d\<rparr>)\<rparr>)"
proof -
  have "same_placement d0 (update_recording i (\<lambda>x. x\<lparr>r_processing_lease_token := Some token,
      r_processing_lease_expires_at := Some (now + minutes 10)\<rparr>) (d0\<lparr>db_destinations := d\<rparr>)) =
      same_placement d0 (d0\<lparr>db_destinations := d\<rparr>)"
    by (rule same_placement_lease) (simp add: unleased_def)
  then show ?thesis by (simp add: placement_kept_def started_def same_placement_def)
qed

section \<open>Properties\<close>

text \<open>
  Property C15.  A reroute that ends in an error, at whatever phase, leaves the rows of the placement
  as they were: the artifacts, which of them is active, and every recording but for its lease.
\<close>

theorem failed_reroute_keeps_placement:
  assumes "reroute sv now ids i rc j version key s = (Inl e, s1)"
  shows "same_placement (w_db s) (w_db s1)"
proof (cases "\<exists>x. find_reroute (w_db s) i key = Some x \<and> rr_status x = Reroute_completed")
  case True
  then have "s1 = s"
    using assms
    by (auto simp: reroute_def get_db_def io_bind_app need_reroute_app replayed_reroute_def
        split: option.splits if_splits)
  then show ?thesis by (simp add: same_placement_def)
next
  case False
  show ?thesis
    using assms False
  proof (cases rule: reroute_cases)
    case (early e1 d n)
    then show ?thesis by (simp add: same_placement_def)
  next
    case (begun r art dest d n op s2)
    have "placement_kept (w_db s) s2"
      using begun(7) started_kept[of "w_db s"] by (auto simp: start_reroute_run)
    then show ?thesis
      using guard_phases_Inl[OF begun(8)] run_phases_Inl by blast
  qed
qed

lemma finish_places:
  assumes "finish_reroute now new r art dest op s = (Inr res, s1)" and "recording_of (w_db s) (r_id r) = Some r5"
  shows "recording_of (w_db s1) (r_id r) = Some (placed_at dest (the (rr_target_file_path op)) (rt_share_url res) r5)"
    and "active_artifact (w_db s1) (r_id r) =
      Some (new_artifact now new r dest (the (rr_target_file_path op)) (rt_share_url res))"
proof -
  note f = finish_reroute_run[OF assms(1)]
  show "recording_of (w_db s1) (r_id r) = Some (placed_at dest (the (rr_target_file_path op)) (rt_share_url res) r5)"
    using f assms(2) recording_of_update[of "placed_at dest (the (rr_target_file_path op)) (rt_share_url res)" "r_id r" "w_db s" "r_id r"]
    by (auto simp: recording_of_def placed_at_def)
  show "active_artifact (w_db s1) (r_id r) =
      Some (new_artifact now new r dest (the (rr_target_file_path op)) (rt_share_url res))"
    using f active_after_swap[of "sa_id art" "new_artifact now new r dest (the (rr_target_file_path op)) (rt_share_url res)"]
    by (auto simp: active_artifact_def new_artifact_def)
qed

text \<open>
  Property C5.  A reroute that begins anew under its key or resumes an operation left \<open>PENDING\<close>, \<open>MOVED\<close>
  or \<open>LINKED\<close> completes only for an unleased, stored recording of the recruiter at the expected version,
  into a stored folder below one of the recruiter's roots, and only after the recording's card was read
  with the new link on it, the last thing said to Notion; then the recording carries the new link and
  folder and the next version, and the new placement is its active artifact.  The premise leaves out a
  completed operation, which is only replayed, one whose card an earlier call has verified, and a
  failed one: a retry of that one skips the card (\<open>retried_failure_skips_the_card\<close>).
\<close>

theorem completed_reroute_is_on_the_card:
  assumes "reroute sv now ids i rc j version key s = (Inr res, s1)"
    and "\<forall>x. find_reroute (w_db s) i key = Some x \<longrightarrow> rr_status x \<in> {Reroute_pending, Reroute_moved, Reroute_linked}"
  shows "\<exists>r r1 fld dest roots art. recording_of (w_db s) i = Some r \<and> r_disk_owner_email r = rc_email rc \<and>
    \<not> leased now r \<and> r_version r = version \<and> r_status r \<in> {COMPLETED, NOTION_UPDATED} \<and> r_storage_is_durable r \<and>
    dest \<in> set (db_destinations (w_db s)) \<and> sd_id dest = j \<and>
    roots_of (sv_settings sv) rc = Inr roots \<and> owned_by rc roots dest \<and>
    card_carries sv (the (r_notion_page_id r)) fld (rt_share_url res) (w_notion s1) \<and>
    recording_of (w_db s1) i = Some r1 \<and> r_synology_share_url r1 = Some (rt_share_url res) \<and>
    r_storage_destination_id r1 = Some j \<and> r_version r1 = version + 1 \<and> rt_version res = version + 1 \<and>
    active_artifact (w_db s1) i = Some art \<and> sa_share_url art = rt_share_url res \<and>
    sa_destination_id art = Some j"
proof -
  have nc: "\<not> (\<exists>x. find_reroute (w_db s) i key = Some x \<and> rr_status x = Reroute_completed)"
    using assms(2) by auto
  show ?thesis
    using assms(1) nc
  proof (cases rule: reroute_cases)
    case (begun r art dest d n op s2)
    have run: "run_phases sv rc now (ri_artifact ids) r art dest op s2 = (Inr res, s1)"
      using begun(8) by (simp add: guard_phases_Inr)
    from run obtain fld root target_root op1 op2 op3 s3 s4 s5
      where mv: "move_phase sv r art dest root target_root op s2 = (Inr op1, s3)"
        and lk: "link_phase sv op1 s3 = (Inr op2, s4)"
        and card: "card_phase sv fld r op2 s4 = (Inr op3, s5)"
        and fin: "finish_reroute now (ri_artifact ids) r art dest op3 s5 = (Inr res, s1)"
      by (rule run_phases_cases)
    have "rr_status op \<in> {Reroute_pending, Reroute_moved, Reroute_linked}"
      using assms(2) begun(6) by (auto simp: operation_of_def new_reroute_def split: option.splits)
    then have "rr_status op2 = Reroute_linked"
      using move_phase_status[OF mv] link_phase_status[OF lk] by auto
    then have carried: "card_carries sv (the (r_notion_page_id r)) fld (the (rr_target_share_url op2)) (w_notion s5)"
      and url: "rr_target_share_url op3 = rr_target_share_url op2"
      using card_phase_run[OF card] by auto
    note f = finish_reroute_run[OF fin]
    have i: "r_id r = i" using begun(1) by (auto simp: recording_of_def dest: find_SomeD)
    obtain d1 where "resolve_destination (sv_nas sv) (sv_settings sv) rc j
        \<lparr>dw_nas = w_nas s, dw_rows = db_destinations (w_db s)\<rparr> = (Inr dest, d1)"
      using in_destinations_Inr[OF begun(5)] by blast
    from resolve_destination_sound[OF this] obtain roots where dest: "dest \<in> set (db_destinations (w_db s))"
      "sd_id dest = j" "roots_of (sv_settings sv) rc = Inr roots" "owned_by rc roots dest" by auto
    have kept2: "placement_kept (w_db s) s2"
      using begun(7) started_kept[of "w_db s"] by (auto simp: start_reroute_run)
    have kept: "placement_kept (w_db s) s5"
      using keepsD[OF keeps_phases(3) keepsD[OF keeps_phases(2) keepsD[OF keeps_phases(1) kept2 mv] lk] card] .
    then obtain r5 where r5: "recording_of (w_db s5) i = Some r5" "r_version r5 = r_version r"
      using same_placement_found[OF _ begun(1), of "w_db s5"] unfolding placement_kept_def by (meson unleased_version)
    note placed = finish_places[OF fin, unfolded i, OF r5(1)]
    show ?thesis
      using begun(1-3) dest carried url f i r5(2) placed
      by - (rule exI[of _ r], rule exI[of _ "placed_at dest (the (rr_target_file_path op3)) (rt_share_url res) r5"],
          rule exI[of _ fld], rule exI[of _ dest], rule exI[of _ roots],
          rule exI[of _ "new_artifact now (ri_artifact ids) r dest (the (rr_target_file_path op3)) (rt_share_url res)"],
          simp add: reroutable_def placed_at_def new_artifact_def)
  qed simp
qed

text \<open>
  A defect of the retry: the retry of an operation that failed after it had its link runs none of the phases: if
  it returns, the recording is completed under that link and Notion was never asked, so that a card
  that refused the link keeps the old one, although the comment in the code promises the card first.
\<close>

theorem retried_failure_skips_the_card:
  assumes "reroute sv now ids i rc j version key s = (Inr res, s1)"
    and "find_reroute (w_db s) i key = Some x" and "rr_status x = Reroute_failed"
  shows "w_notion s1 = w_notion s \<and> rr_target_share_url x = Some (rt_share_url res) \<and>
    (\<exists>r1. recording_of (w_db s1) i = Some r1 \<and> r_synology_share_url r1 = Some (rt_share_url res))"
proof -
  have nc: "\<not> (\<exists>x. find_reroute (w_db s) i key = Some x \<and> rr_status x = Reroute_completed)"
    using assms by simp
  show ?thesis
    using assms(1) nc
  proof (cases rule: reroute_cases)
    case (begun r art dest d n op s2)
    have op: "op = x" using begun(6) assms(2) by (simp add: operation_of_def)
    have run: "run_phases sv rc now (ri_artifact ids) r art dest op s2 = (Inr res, s1)"
      using begun(8) by (simp add: guard_phases_Inr)
    from run obtain fld root target_root op1 op2 op3 s3 s4 s5
      where mv: "move_phase sv r art dest root target_root op s2 = (Inr op1, s3)"
        and lk: "link_phase sv op1 s3 = (Inr op2, s4)" and tr: "truthy (rr_target_share_url op2)"
        and card: "card_phase sv fld r op2 s4 = (Inr op3, s5)"
        and fin: "finish_reroute now (ri_artifact ids) r art dest op3 s5 = (Inr res, s1)"
      by (rule run_phases_cases)
    have one: "op1 = x \<and> s3 = s2" using move_phase_status[OF mv] op assms(3) by simp
    then have two: "op2 = x \<and> s4 = s2" using link_phase_status[OF lk] assms(3) by simp
    then have three: "op3 = x \<and> s5 = s2" using card_phase_run[OF card] assms(3) by simp
    note f = finish_reroute_run[OF fin]
    have i: "r_id r = i" using begun(1) by (auto simp: recording_of_def dest: find_SomeD)
    obtain r5 where r5: "recording_of (w_db s2) i = Some r5"
      using same_placement_found[OF _ begun(1), of "w_db s2"] begun(7) started_kept[of "w_db s"]
      by (auto simp: start_reroute_run placement_kept_def)
    have "recording_of (w_db s1) i = Some (placed_at dest (the (rr_target_file_path x)) (rt_share_url res) r5)"
      using f r5 i three recording_of_update[of "placed_at dest (the (rr_target_file_path x)) (rt_share_url res)" i "w_db s2" i]
      by (auto simp: recording_of_def placed_at_def)
    moreover have "w_notion s2 = w_notion s" using begun(7) by (auto simp: start_reroute_run)
    ultimately show ?thesis
      using f three two tr by (auto simp: placed_at_def truthy_iff)
  qed simp
qed

text \<open>
  A recording cannot return to a path it had before: the path's old artifact still holds it, so after
  the move, the link and the card the last transaction is refused.
\<close>

lemma reroute_back_is_refused:
  assumes "a \<in> set (db_artifacts (w_db s))" and "rr_target_file_path op = Some (sa_file_path a)"
  shows "finish_reroute now i r art dest op s = (Inl Integrity_violation, s\<lparr>w_db := w_saved s\<rparr>)"
proof -
  let ?new = "new_artifact now i r dest (sa_file_path a) (the (rr_target_share_url op))"
  have paths: "map sa_file_path (update_where p (sa_is_active_update (\<lambda>_. False)) rows) = map sa_file_path rows"
    for p and rows :: "storage_artifact list"
    by (rule map_update_where) simp
  have "sa_file_path a \<in> set (map sa_file_path (update_where (\<lambda>x. sa_id x = sa_id art)
      (sa_is_active_update (\<lambda>_. False)) (db_artifacts (w_db s))))"
    unfolding paths using assms(1) by simp
  then have "\<not> artifact_constraints (swap_artifacts (sa_id art) ?new (db_artifacts (w_db s)))"
    by (auto simp: artifact_constraints_def swap_artifacts_def new_artifact_def)
  then show ?thesis
    using assms(2) by (simp add: finish_reroute_def get_db_def Let_def io_bind_app)
qed

section \<open>A recording moved\<close>

fun demo_station :: "nas_request \<Rightarrow> nas_files \<Rightarrow> http_response option \<times> nas_files" where
  "demo_station Query_api fs = (fst (demo_nas_answer Query_api 0), fs)"
| "demo_station (Get_info p) fs = (fst (demo_nas_answer (Get_info p) 0), fs)"
| "demo_station (Share_list n) fs = (Some \<lparr>resp_status = 200, resp_json = Some (JObj [(''data'', JObj
     [(''links'', JList [])])])\<rparr>, fs)"
| "demo_station (Share_create p) fs = (Some \<lparr>resp_status = 200, resp_json = Some (JObj [(''data'', JObj
     [(''links'', JList [JObj [(''url'', JStr ''u'')]])])])\<rparr>, fs)"
| "demo_station q fs = memory_answer q fs"

definition demo_mover2 :: "(nat, nas_files, nat) services" where
  "demo_mover2 = \<lparr>sv_settings = (default_settings ''Spots'')\<lparr>st_openclaw_secret := ''k''\<rparr>,
     sv_notion = demo_api\<lparr>reply := demo_cards\<rparr>, sv_nas = \<lparr>answer = demo_station, show_json = (\<lambda>_. '''')\<rparr>,
     sv_chat = \<lparr>mm_base_url = ''c'', mm_bot_user_id = ''bot'', mm_answer = (\<lambda>q w. (None, w))\<rparr>,
     sv_hash = (\<lambda>t. CHR ''#'' # t), sv_hmac = (\<lambda>k t. k @ t), sv_instant = (\<lambda>t. Some 0),
     sv_uuid = Some, sv_show = (\<lambda>j. case j of JStr t \<Rightarrow> t | _ \<Rightarrow> ''?''), sv_brackets = (\<lambda>_. True)\<rparr>"

definition demo_stored :: recording where
  "demo_stored = demo_asked\<lparr>r_status := COMPLETED, r_storage_is_durable := True, r_notion_page_id := Some ''src'',
     r_content_identity := Some ''ci'', r_disk_size_bytes := Some 5, r_synology_share_url := Some ''v''\<rparr>"

definition demo_artifact :: storage_artifact where
  "demo_artifact = \<lparr>sa_id = ''a1'', sa_recording_id = ''r1'', sa_destination_id = None,
     sa_folder_path = ''/home/a/old'', sa_file_path = ''/home/a/old/a.webm'', sa_share_url = ''v'',
     sa_owner_marker_path = '''', sa_size_bytes = Some 5, sa_is_active = True, sa_created_at = 0\<rparr>"

definition demo_shelf :: nas_files where
  "demo_shelf = (\<lambda>p. None)(''/home/a/old/a.webm'' := Some \<lparr>nf_size = 5, nf_body = None\<rparr>,
     ''/home/a/old/.a.webm.recording-agent-owner.json'' :=
       Some \<lparr>nf_size = 9, nf_body = Some (JObj (expected_owner ''r1'' ''ci'' (Some 5)))\<rparr>)"

definition demo_filed :: "(nat, nas_files, nat) world" where
  "demo_filed =
     (let d = demo_db\<lparr>db_recordings := [demo_stored], db_destinations := [demo_row], db_artifacts := [demo_artifact]\<rparr>
      in \<lparr>w_db = d, w_saved = d, w_notion = demo_state, w_nas = (demo_shelf, []), w_chat = (0, [])\<rparr>)"

definition demo_ids :: reroute_ids where
  "demo_ids = \<lparr>ri_op = ''o1'', ri_artifact = ''a2'', ri_lease = ''t''\<rparr>"

definition demo_failed_op :: recording_reroute where
  "demo_failed_op = (new_reroute 0 ''o1'' demo_stored demo_artifact ''d1'' 3 ''k'')
     \<lparr>rr_status := Reroute_failed, rr_target_file_path := Some ''/home/a/x/a.webm'', rr_target_share_url := Some ''u''\<rparr>"

definition demo_failed :: "(nat, nas_files, nat) world" where
  "demo_failed = demo_filed\<lparr>w_db := (w_db demo_filed)\<lparr>db_reroutes := [demo_failed_op]\<rparr>\<rparr>"

theorem failed_reroute_witness:
  "\<exists>e s1. reroute demo_mover2 5 demo_ids ''r1'' demo_roots ''d2'' 3 ''k'' demo_filed = (Inl e, s1) \<and>
     same_placement (w_db demo_filed) (w_db s1)"
proof -
  let ?run = "reroute demo_mover2 5 demo_ids ''r1'' demo_roots ''d2'' 3 ''k'' demo_filed"
  have "fst ?run = Inl (Destination_refused (Rejected Destination_unavailable))" by code_simp
  then have "?run = (Inl (Destination_refused (Rejected Destination_unavailable)), snd ?run)"
    by (metis prod.collapse)
  with failed_reroute_keeps_placement[OF this] show ?thesis by blast
qed

theorem completed_reroute_witness:
  "\<exists>res s1 fld art. reroute demo_mover2 5 demo_ids ''r1'' demo_roots ''d1'' 3 ''k'' demo_filed = (Inr res, s1) \<and>
     rt_share_url res = ''u'' \<and> card_carries demo_mover2 ''src'' fld ''u'' (w_notion s1) \<and>
     active_artifact (w_db s1) ''r1'' = Some art \<and> sa_share_url art = ''u''"
proof -
  let ?run = "reroute demo_mover2 5 demo_ids ''r1'' demo_roots ''d1'' 3 ''k'' demo_filed"
  let ?res = "\<lparr>rt_recording_id = ''r1'', rt_version = 4, rt_share_url = ''u'', rt_replayed = False\<rparr>"
  have "fst ?run = Inr ?res" by code_simp
  then have run: "?run = (Inr ?res, snd ?run)" by (metis prod.collapse)
  have fresh: "\<forall>x. find_reroute (w_db demo_filed) ''r1'' ''k'' = Some x \<longrightarrow>
      rr_status x \<in> {Reroute_pending, Reroute_moved, Reroute_linked}"
    by (simp add: demo_filed_def demo_db_def find_reroute_def Let_def)
  have "recording_of (w_db demo_filed) ''r1'' = Some demo_stored"
    by (simp add: demo_filed_def recording_of_def demo_stored_def demo_asked_def new_recording_def Let_def)
  moreover have "the (r_notion_page_id demo_stored) = ''src''" by (simp add: demo_stored_def)
  ultimately show ?thesis
    using completed_reroute_is_on_the_card[OF run fresh] run by fastforce
qed

theorem retried_failure_witness:
  "\<exists>res s1. reroute demo_mover2 5 demo_ids ''r1'' demo_roots ''d1'' 3 ''k'' demo_failed = (Inr res, s1) \<and>
     w_notion s1 = w_notion demo_failed \<and> rt_share_url res = ''u''"
proof -
  let ?run = "reroute demo_mover2 5 demo_ids ''r1'' demo_roots ''d1'' 3 ''k'' demo_failed"
  let ?res = "\<lparr>rt_recording_id = ''r1'', rt_version = 4, rt_share_url = ''u'', rt_replayed = False\<rparr>"
  have "fst ?run = Inr ?res" by code_simp
  then have run: "?run = (Inr ?res, snd ?run)" by (metis prod.collapse)
  have "find_reroute (w_db demo_failed) ''r1'' ''k'' = Some demo_failed_op"
    by (simp add: demo_failed_def find_reroute_def demo_failed_op_def new_reroute_def demo_stored_def
        demo_asked_def new_recording_def)
  then have "w_notion (snd ?run) = w_notion demo_failed"
    using retried_failure_skips_the_card[OF run] by (simp add: demo_failed_op_def)
  then show ?thesis using run by fastforce
qed

end
