(* ===== verification/Tokens.thy ===== *)
theory Tokens
imports Config
begin

text \<open>
  \<open>app/services/yandex_token_manager.py\<close> and the request function of \<open>app/tools/disk.py\<close>: access tokens
  of the recruiters, refreshed before they run out or when the disk refuses one.  Yandex is one
  server, answering token refreshes and calls of the disk; every reading of the clock is a reading of
  that server's state, so that time passes between the requests.
\<close>

section \<open>The server\<close>

datatype disk_call =
    List_files nat
  | Get_resource string
  | Patch_processed string string
  | Trash_resource string
  | List_trash nat
  | Get_trash string
  | Purge_trash string
  | Get_operation string
  | Get_download string

datatype yandex_request =
    Oauth_refresh string
  | Disk_call string disk_call

text \<open>Beside the server: \<open>str\<close> and \<open>int\<close> of decoded JSON, ISO texts of instants and back.\<close>

record 'd yandex =
  ya_answer :: "yandex_request \<Rightarrow> 'd \<Rightarrow> http_response option \<times> 'd"
  ya_clock :: "'d \<Rightarrow> instant"
  ya_show :: "json \<Rightarrow> string"
  ya_int :: "json \<Rightarrow> int option"
  ya_iso :: "instant \<Rightarrow> string"
  ya_parse :: "string \<Rightarrow> instant option"

record yandex_token =
  yt_recruiter_email :: string
  yt_access_token :: "string option"
  yt_refresh_token :: string
  yt_expires_at :: "instant option"
  yt_created_at :: instant
  yt_updated_at :: instant

text \<open>Nonces are the permanent deletions this process has approved so far.\<close>

record 'd yandex_state =
  ys_server :: 'd
  ys_sent :: "yandex_request list"
  ys_tokens :: "yandex_token list"
  ys_nonces :: "string list"

datatype disk_error =
    Status_error int
  | No_connection
  | Malformed_payload
  | No_refresh_token string
  | No_token_row string
  | Outside_telemost
  | Delete_failed
  | Delete_timeout
  | Not_approved string
  | Endless_listing

type_synonym ('d, 'a) disk_io = "('d yandex_state, disk_error, 'a) io"

definition yandex_call :: "'d yandex \<Rightarrow> yandex_request \<Rightarrow> ('d, http_response) disk_io" where
  "yandex_call y q = (\<lambda>s. case ya_answer y q (ys_server s) of
      (None, w) \<Rightarrow> (Inl No_connection, s\<lparr>ys_server := w, ys_sent := ys_sent s @ [q]\<rparr>)
    | (Some r, w) \<Rightarrow> (Inr r, s\<lparr>ys_server := w, ys_sent := ys_sent s @ [q]\<rparr>))"

definition read_clock :: "'d yandex \<Rightarrow> ('d, instant) disk_io" where
  "read_clock y = (\<lambda>s. (Inr (ya_clock y (ys_server s)), s))"

text \<open>\<open>raise_for_status\<close>: every status but a success raises.\<close>

definition raise_for_status :: "http_response \<Rightarrow> (disk_error, unit) result" where
  "raise_for_status r = (if 200 \<le> resp_status r \<and> resp_status r \<le> 299 then Inr ()
     else Inl (Status_error (resp_status r)))"

section \<open>Tokens\<close>

definition token_of :: "string \<Rightarrow> yandex_token list \<Rightarrow> yandex_token option" where
  "token_of email rows = find (\<lambda>t. yt_recruiter_email t = email) rows"

definition is_fresh :: "instant \<Rightarrow> int \<Rightarrow> yandex_token \<Rightarrow> bool" where
  "is_fresh now margin t \<longleftrightarrow> yt_access_token t \<noteq> None \<and>
     (case yt_expires_at t of None \<Rightarrow> False | Some e \<Rightarrow> now + margin < e)"

definition get_token :: "string \<Rightarrow> ('d, yandex_token) disk_io" where
  "get_token email = (\<lambda>s. case token_of email (ys_tokens s) of
      None \<Rightarrow> (Inl (No_token_row email), s) | Some t \<Rightarrow> (Inr t, s))"

definition is_expired :: "'d yandex \<Rightarrow> string \<Rightarrow> ('d, bool) disk_io" where
  "is_expired y email = io_bind (get_token email) (\<lambda>t. io_bind (read_clock y) (\<lambda>now.
     io_return (\<not> is_fresh now 0 t)))"

definition new_token :: "instant \<Rightarrow> string \<Rightarrow> string \<Rightarrow> yandex_token" where
  "new_token now email refresh =
     \<lparr>yt_recruiter_email = email, yt_access_token = None, yt_refresh_token = refresh, yt_expires_at = None,
      yt_created_at = now, yt_updated_at = now\<rparr>"

definition store_token ::
  "instant \<Rightarrow> string \<Rightarrow> string \<Rightarrow> (yandex_token \<Rightarrow> yandex_token) \<Rightarrow> yandex_token list \<Rightarrow> yandex_token list" where
  "store_token now email refresh f rows =
     (case token_of email rows of
        None \<Rightarrow> rows @ [f (new_token now email refresh)]
      | Some t \<Rightarrow> update_where (\<lambda>x. yt_recruiter_email x = email) f rows)"

definition upsert_token ::
  "'d yandex \<Rightarrow> string \<Rightarrow> string option \<Rightarrow> string \<Rightarrow> instant option \<Rightarrow> ('d, yandex_token) disk_io" where
  "upsert_token y email access refresh expires =
     io_bind (read_clock y) (\<lambda>now s.
       let rows = store_token now email refresh (\<lambda>t. t\<lparr>yt_access_token := access, yt_refresh_token := refresh,
             yt_expires_at := expires, yt_updated_at := now\<rparr>) (ys_tokens s)
       in get_token email (s\<lparr>ys_tokens := rows\<rparr>))"

text \<open>\<open>ON CONFLICT DO NOTHING\<close>.\<close>

definition seed_token_row :: "instant \<Rightarrow> string \<Rightarrow> string \<Rightarrow> yandex_token list \<Rightarrow> yandex_token list" where
  "seed_token_row now email refresh rows =
     (case token_of email rows of None \<Rightarrow> rows @ [new_token now email refresh] | Some _ \<Rightarrow> rows)"

definition configured_token :: "settings \<Rightarrow> string \<Rightarrow> string" where
  "configured_token st email = opt_or (map_of (st_yandex_refresh_tokens st) email) ''''"

definition still_good :: "instant \<Rightarrow> string option \<Rightarrow> yandex_token option \<Rightarrow> bool" where
  "still_good now stale row =
     (case row of None \<Rightarrow> False
      | Some t \<Rightarrow> is_fresh now (minutes 5) t \<and> (stale = None \<or> yt_access_token t \<noteq> stale))"

definition granted :: "'d yandex \<Rightarrow> http_response \<Rightarrow> (disk_error, string \<times> int) result" where
  "granted y r =
     (case resp_json r of
        None \<Rightarrow> Inl Malformed_payload
      | Some p \<Rightarrow>
          (case (json_get ''access_token'' p, json_get ''expires_in'' p) of
             (Some t, Some e) \<Rightarrow>
               (case ya_int y e of None \<Rightarrow> Inl Malformed_payload | Some n \<Rightarrow> Inr (ya_show y t, n))
           | _ \<Rightarrow> Inl Malformed_payload))"

definition exchange_token ::
  "'d yandex \<Rightarrow> string \<Rightarrow> string \<Rightarrow> ('d, string) disk_io" where
  "exchange_token y email refresh =
     io_bind (yandex_call y (Oauth_refresh refresh)) (\<lambda>r.
     io_bind (io_lift (raise_for_status r)) (\<lambda>_.
     io_bind (io_lift (granted y r)) (\<lambda>(access, lifetime).
     io_bind (read_clock y) (\<lambda>now s.
       (Inr access, s\<lparr>ys_tokens := store_token now email refresh
          (\<lambda>t. t\<lparr>yt_access_token := Some access, yt_expires_at := Some (now + seconds lifetime),
             yt_updated_at := now\<rparr>) (ys_tokens s)\<rparr>)))))"

text \<open>The lock per recruiter makes refreshes of a process run one after the other.\<close>

definition refresh_token :: "'d yandex \<Rightarrow> settings \<Rightarrow> string \<Rightarrow> string option \<Rightarrow> ('d, string) disk_io" where
  "refresh_token y st email stale =
     (let configured = configured_token st email in
      io_bind (read_clock y) (\<lambda>now s.
        let rows = (if configured = '''' then ys_tokens s else seed_token_row now email configured (ys_tokens s));
            row = token_of email rows;
            refresh = (case row of None \<Rightarrow> configured | Some t \<Rightarrow> yt_refresh_token t)
        in (if still_good now stale row then io_return (the (yt_access_token (the row)))
            else if refresh = '''' then io_raise (No_refresh_token email)
            else exchange_token y email refresh) (s\<lparr>ys_tokens := rows\<rparr>)))"

definition get_access_token :: "'d yandex \<Rightarrow> settings \<Rightarrow> string \<Rightarrow> ('d, string) disk_io" where
  "get_access_token y st email =
     io_bind (read_clock y) (\<lambda>now s.
       case token_of email (ys_tokens s) of
         None \<Rightarrow> refresh_token y st email None s
       | Some t \<Rightarrow>
           if is_fresh now (minutes 5) t then (Inr (the (yt_access_token t)), s)
           else refresh_token y st email None s)"

text \<open>\<open>DiskScanner._request\<close>: a refused token is refreshed and the call sent once more.\<close>

definition disk_request :: "'d yandex \<Rightarrow> settings \<Rightarrow> string \<Rightarrow> disk_call \<Rightarrow> ('d, http_response) disk_io" where
  "disk_request y st email c =
     io_bind (get_access_token y st email) (\<lambda>token.
     io_bind (yandex_call y (Disk_call token c)) (\<lambda>r.
     io_bind (if resp_status r = 401
              then io_bind (refresh_token y st email (Some token)) (\<lambda>t. yandex_call y (Disk_call t c))
              else io_return r) (\<lambda>r1.
     io_bind (io_lift (raise_for_status r1)) (\<lambda>_. io_return r1))))"

section \<open>What a call sends\<close>

text \<open>The calls to the disk in the log, without their tokens.\<close>

fun disk_calls :: "yandex_request list \<Rightarrow> disk_call list" where
  "disk_calls [] = []"
| "disk_calls (Disk_call t c # qs) = c # disk_calls qs"
| "disk_calls (_ # qs) = disk_calls qs"

lemma disk_calls_append [simp]: "disk_calls (xs @ ys) = disk_calls xs @ disk_calls ys"
  by (induction xs rule: disk_calls.induct) auto

definition calls_of :: "'d yandex_state \<Rightarrow> disk_call list" where
  "calls_of s = disk_calls (ys_sent s)"

lemma yandex_call_run:
  "yandex_call y q s = (v, s1) \<Longrightarrow> ys_sent s1 = ys_sent s @ [q] \<and> ys_tokens s1 = ys_tokens s \<and>
     ys_nonces s1 = ys_nonces s \<and> (\<forall>r. v = Inr r \<longrightarrow> ya_answer y q (ys_server s) = (Some r, ys_server s1))"
  by (auto simp: yandex_call_def split: prod.splits option.splits)

lemma read_clock_run [simp]: "read_clock y s = (Inr (ya_clock y (ys_server s)), s)"
  by (simp add: read_clock_def)

lemma keeps_read_clock [keeps_rules]: "keeps I (read_clock y)"
  by (simp add: keeps_def)

text \<open>Token routines speak to the token server only.\<close>

definition same_calls :: "disk_call list \<Rightarrow> string list \<Rightarrow> 'd yandex_state \<Rightarrow> bool" where
  "same_calls cs ns s \<longleftrightarrow> calls_of s = cs \<and> ys_nonces s = ns"

lemma same_calls_tokens [simp]: "same_calls cs ns (s\<lparr>ys_tokens := r\<rparr>) = same_calls cs ns s"
  by (simp add: same_calls_def calls_of_def)

lemma keeps_exchange: "keeps (same_calls cs ns) (exchange_token y email refresh)"
proof -
  have "keeps (same_calls cs ns) (yandex_call y (Oauth_refresh refresh))"
    by (rule keepsI) (auto simp: same_calls_def calls_of_def dest!: yandex_call_run)
  then show ?thesis
    by (auto simp: exchange_token_def keeps_def io_bind_app split: sum.splits prod.splits)
qed

lemma keeps_refresh: "keeps (same_calls cs ns) (refresh_token y st email stale)"
  using keeps_exchange[of cs ns y email]
  by (auto simp: refresh_token_def keeps_def Let_def io_bind_app)

lemma keeps_access: "keeps (same_calls cs ns) (get_access_token y st email)"
  using keeps_refresh[of cs ns y st email None]
  by (auto simp: get_access_token_def keeps_def io_bind_app split: option.splits)

lemma disk_request_calls:
  assumes "disk_request y st email c s = (v, s1)"
  shows "(\<exists>n\<le>2. calls_of s1 = calls_of s @ replicate n c) \<and> ys_nonces s1 = ys_nonces s \<and>
    (\<forall>r. v = Inr r \<longrightarrow> 200 \<le> resp_status r \<and> resp_status r \<le> 299 \<and>
       (\<exists>token w w1. ya_answer y (Disk_call token c) w = (Some r, w1) \<and> ys_server s1 = w1))"
proof -
  have kr: "calls_of w1 = calls_of w \<and> ys_nonces w1 = ys_nonces w"
    if "refresh_token y st email stale w = (u, w1)" for stale w u w1
    using keepsD[OF keeps_refresh _ that, of "calls_of w" "ys_nonces w"] by (simp add: same_calls_def)
  obtain u s2 where tk: "get_access_token y st email s = (u, s2)" by fastforce
  have k2: "calls_of s2 = calls_of s \<and> ys_nonces s2 = ys_nonces s"
    using keepsD[OF keeps_access _ tk, of "calls_of s" "ys_nonces s"] by (simp add: same_calls_def)
  show ?thesis
  proof (cases u)
    case (Inl e)
    then show ?thesis using assms tk k2 by (auto simp: disk_request_def io_bind_app intro: exI[of _ 0])
  next
    case (Inr token)
    obtain r1 s3 where c1: "yandex_call y (Disk_call token c) s2 = (r1, s3)" by fastforce
    note run1 = yandex_call_run[OF c1]
    have k3: "calls_of s3 = calls_of s @ replicate 1 c \<and> ys_nonces s3 = ys_nonces s"
      using run1 k2 by (simp add: calls_of_def)
    consider (lost) e where "r1 = Inl e" | (plain) r where "r1 = Inr r" "resp_status r \<noteq> 401"
      | (refused) r where "r1 = Inr r" "resp_status r = 401" by (cases r1) auto
    then show ?thesis
    proof cases
      case lost
      then show ?thesis using assms tk Inr c1 k3
        by (auto simp: disk_request_def io_bind_app intro: exI[of _ 1])
    next
      case plain
      then have "s1 = s3" using assms tk Inr c1
        by (auto simp: disk_request_def io_bind_app split: sum.splits)
      then show ?thesis using assms tk Inr c1 plain k3 run1
        by (auto simp: disk_request_def io_bind_app raise_for_status_def intro: exI[of _ 1] split: if_splits)
    next
      case refused
      obtain u4 s4 where rf: "refresh_token y st email (Some token) s3 = (u4, s4)" by fastforce
      show ?thesis
      proof (cases u4)
        case (Inl e)
        then show ?thesis using assms tk Inr c1 refused k3 rf kr[OF rf]
          by (auto simp: disk_request_def io_bind_app intro: exI[of _ 1])
      next
        case t: (Inr t)
        obtain r5 s5 where c5: "yandex_call y (Disk_call t c) s4 = (r5, s5)" by fastforce
        note run5 = yandex_call_run[OF c5]
        have k5: "calls_of s5 = calls_of s @ replicate 2 c \<and> ys_nonces s5 = ys_nonces s"
          using run5 kr[OF rf] k3 by (simp add: calls_of_def numeral_2_eq_2)
        have "s1 = s5" using assms tk Inr c1 refused rf t c5
          by (auto simp: disk_request_def io_bind_app split: sum.splits)
        then show ?thesis using assms tk Inr c1 refused rf t c5 k5 run5
          by (auto simp: disk_request_def io_bind_app raise_for_status_def intro: exI[of _ 2]
              split: if_splits sum.splits)
      qed
    qed
  qed
qed

end
