(* ===== verification/Disk.thy ===== *)
theory Disk
imports Tokens Urls
begin

text \<open>
  \<open>app/tools/disk.py\<close>: the client of the recruiters' disks.  It lists the recordings of the Telemost
  folder, marks those processed, moves expired ones to the trash and, under a fresh approval, empties
  them from the trash.  The two listings follow pages until a short one; \<open>n\<close> bounds the number of
  pages, and a listing that needs more raises \<open>Endless_listing\<close> where the program would go on.
\<close>

section \<open>Resources\<close>

text \<open>\<open>disk:/\<close>, then the name of the folder of Telemost recordings, a parameter (it is Cyrillic).\<close>

record scanner =
  sc_settings :: settings
  sc_telemost_root :: string
  sc_retention_days :: int
  sc_pages :: nat

definition in_telemost :: "scanner \<Rightarrow> string \<Rightarrow> bool" where
  "in_telemost sc path \<longleftrightarrow> prefix (sc_telemost_root sc) path"

text \<open>\<open>str(item.get(k, ''))\<close>.\<close>

definition text_member :: "'d yandex \<Rightarrow> string \<Rightarrow> json \<Rightarrow> string" where
  "text_member y k item = (case json_get k item of None \<Rightarrow> '''' | Some (JStr t) \<Rightarrow> t | Some j \<Rightarrow> ya_show y j)"

definition custom_properties :: "json \<Rightarrow> json" where
  "custom_properties item = (let p = jget ''custom_properties'' item in if is_obj p then p else JObj [])"

definition marked_processed :: "'d yandex \<Rightarrow> json \<Rightarrow> bool" where
  "marked_processed y props \<longleftrightarrow> lower_text (text_member y ''processed'' props) = ''true''"

definition parse_datetime :: "'d yandex \<Rightarrow> json \<Rightarrow> instant option" where
  "parse_datetime y j = (case j of
      JStr t \<Rightarrow> if t = '''' then None else ya_parse y (replace_char CHR ''Z'' ''+00:00'' t)
    | _ \<Rightarrow> None)"

definition processed_at :: "'d yandex \<Rightarrow> json \<Rightarrow> instant option" where
  "processed_at y props = parse_datetime y (jget ''processed_at'' props)"

definition has_valid_processed_marker :: "'d yandex \<Rightarrow> json \<Rightarrow> bool" where
  "has_valid_processed_marker y props \<longleftrightarrow> marked_processed y props \<and> processed_at y props \<noteq> None"

definition file_id :: "'d yandex \<Rightarrow> json \<Rightarrow> (disk_error, string) result" where
  "file_id y item =
     (let pick = (if jtruthy (jget ''resource_id'' item) then jget ''resource_id'' item
                  else if jtruthy (jget ''file_id'' item) then jget ''file_id'' item
                  else jget ''md5'' item)
      in if \<not> jtruthy pick then Inl Malformed_payload
         else Inr (case pick of JStr t \<Rightarrow> t | j \<Rightarrow> ya_show y j))"

text \<open>\<open>isoformat().replace('+00:00', 'Z')\<close> of the clock.\<close>

definition stamp :: "'d yandex \<Rightarrow> instant \<Rightarrow> string" where
  "stamp y t = ya_iso y t"

section \<open>Listing\<close>

text \<open>The dictionaries among the items; a string or a dictionary has none, a scalar cannot be iterated.\<close>

fun dict_items :: "json \<Rightarrow> (disk_error, json list) result" where
  "dict_items (JList xs) = Inr (filter is_obj xs)"
| "dict_items (JObj _) = Inr []"
| "dict_items (JStr _) = Inr []"
| "dict_items _ = Inl Malformed_payload"

definition video_page :: "http_response \<Rightarrow> (disk_error, json list) result" where
  "video_page r =
     (case resp_json r of
        Some (JObj ms) \<Rightarrow>
          (case jget ''items'' (JObj ms) of
             JNull \<Rightarrow>
               (case json_get ''_embedded'' (JObj ms) of
                  None \<Rightarrow> Inr []
                | Some e \<Rightarrow>
                    if \<not> is_obj e then Inl Malformed_payload
                    else case json_get ''items'' e of None \<Rightarrow> Inr [] | Some xs \<Rightarrow> dict_items xs)
           | xs \<Rightarrow> dict_items xs)
      | _ \<Rightarrow> Inl Malformed_payload)"

definition trash_page :: "http_response \<Rightarrow> (disk_error, json list) result" where
  "trash_page r =
     (case resp_json r of
        None \<Rightarrow> Inl Malformed_payload
      | Some j \<Rightarrow>
          (let embedded = (case json_get ''_embedded'' j of None \<Rightarrow> JObj [] | Some e \<Rightarrow> e);
               items = (case json_get ''items'' embedded of None \<Rightarrow> JList [] | Some xs \<Rightarrow> xs)
           in dict_items items))"

fun list_pages ::
  "'d yandex \<Rightarrow> settings \<Rightarrow> string \<Rightarrow> (nat \<Rightarrow> disk_call) \<Rightarrow> (http_response \<Rightarrow> (disk_error, json list) result) \<Rightarrow>
   nat \<Rightarrow> nat \<Rightarrow> json list \<Rightarrow> ('d, json list) disk_io" where
  "list_pages y st email call page 0 offset found = io_raise Endless_listing"
| "list_pages y st email call page (Suc n) offset found =
     io_bind (disk_request y st email (call offset)) (\<lambda>r.
     io_bind (io_lift (page r)) (\<lambda>items.
       if length items < 100 then io_return (found @ items)
       else list_pages y st email call page n (offset + length items) (found @ items)))"

definition list_video_files :: "'d yandex \<Rightarrow> scanner \<Rightarrow> string \<Rightarrow> ('d, json list) disk_io" where
  "list_video_files y sc email =
     io_bind (list_pages y (sc_settings sc) email List_files video_page (sc_pages sc) 0 []) (\<lambda>items.
       io_return (filter (\<lambda>item. in_telemost sc (text_member y ''path'' item)) items))"

definition list_trash_resources :: "'d yandex \<Rightarrow> scanner \<Rightarrow> string \<Rightarrow> ('d, json list) disk_io" where
  "list_trash_resources y sc email =
     list_pages y (sc_settings sc) email List_trash trash_page (sc_pages sc) 0 []"

definition object_response :: "http_response \<Rightarrow> (disk_error, json) result" where
  "object_response r = (case resp_json r of Some (JObj ms) \<Rightarrow> Inr (JObj ms) | _ \<Rightarrow> Inl Malformed_payload)"

definition get_resource :: "'d yandex \<Rightarrow> scanner \<Rightarrow> string \<Rightarrow> string \<Rightarrow> ('d, json) disk_io" where
  "get_resource y sc path email =
     io_bind (disk_request y (sc_settings sc) email (Get_resource path)) (\<lambda>r. io_lift (object_response r))"

definition get_trash_resource :: "'d yandex \<Rightarrow> scanner \<Rightarrow> string \<Rightarrow> string \<Rightarrow> ('d, json) disk_io" where
  "get_trash_resource y sc path email =
     io_bind (disk_request y (sc_settings sc) email (Get_trash path)) (\<lambda>r. io_lift (object_response r))"

definition patch_processed ::
  "'d yandex \<Rightarrow> scanner \<Rightarrow> string \<Rightarrow> string \<Rightarrow> string \<Rightarrow> ('d, unit) disk_io" where
  "patch_processed y sc path email at =
     io_bind (disk_request y (sc_settings sc) email (Patch_processed path at)) (\<lambda>_. io_return ())"

text \<open>The marker without a date is repaired.\<close>

definition stamp_now :: "'d yandex \<Rightarrow> scanner \<Rightarrow> string \<Rightarrow> string \<Rightarrow> ('d, unit) disk_io" where
  "stamp_now y sc path email =
     io_bind (read_clock y) (\<lambda>now. patch_processed y sc path email (stamp y now))"

fun keep_unprocessed ::
  "'d yandex \<Rightarrow> scanner \<Rightarrow> string \<Rightarrow> json list \<Rightarrow> ('d, json list) disk_io" where
  "keep_unprocessed y sc email [] = io_return []"
| "keep_unprocessed y sc email (item # items) =
     io_bind (get_resource y sc (text_member y ''path'' item) email) (\<lambda>resource.
       let props = custom_properties resource in
       if marked_processed y props
       then io_bind (if has_valid_processed_marker y props then io_return ()
                     else stamp_now y sc (text_member y ''path'' item) email)
              (\<lambda>_. keep_unprocessed y sc email items)
       else io_bind (keep_unprocessed y sc email items) (\<lambda>kept. io_return (item # kept)))"

text \<open>\<open>known\<close> holds the file identifiers of the recordings in the database.\<close>

definition list_new :: "'d yandex \<Rightarrow> scanner \<Rightarrow> string list \<Rightarrow> string \<Rightarrow> ('d, json list) disk_io" where
  "list_new y sc known email =
     io_bind (list_video_files y sc email) (\<lambda>candidates.
     io_bind (io_lift (res_map (file_id y) candidates)) (\<lambda>ids.
       keep_unprocessed y sc email
         (map snd (filter (\<lambda>(i, item). i \<notin> set known) (zip ids candidates)))))"

record disk_metadata =
  dm_disk_file_id :: string
  dm_disk_path :: json
  dm_disk_filename :: json
  dm_disk_owner_email :: string
  dm_disk_created_at :: json
  dm_disk_modified_at :: json
  dm_disk_size_bytes :: json
  dm_disk_mime_type :: json
  dm_disk_md5 :: json

definition last_part :: "string \<Rightarrow> string" where
  "last_part path = last (split_on CHR ''/'' path)"

definition metadata_of :: "'d yandex \<Rightarrow> string \<Rightarrow> string \<Rightarrow> json \<Rightarrow> (disk_error, disk_metadata) result" where
  "metadata_of y path email item =
     res_bind (file_id y item) (\<lambda>i. Inr
       \<lparr>dm_disk_file_id = i,
        dm_disk_path = (case json_get ''path'' item of None \<Rightarrow> JStr path | Some p \<Rightarrow> p),
        dm_disk_filename = (if jtruthy (jget ''name'' item) then jget ''name'' item else JStr (last_part path)),
        dm_disk_owner_email = email, dm_disk_created_at = jget ''created'' item,
        dm_disk_modified_at = jget ''modified'' item, dm_disk_size_bytes = jget ''size'' item,
        dm_disk_mime_type = jget ''mime_type'' item, dm_disk_md5 = jget ''md5'' item\<rparr>)"

definition get_metadata :: "'d yandex \<Rightarrow> scanner \<Rightarrow> string \<Rightarrow> string \<Rightarrow> ('d, disk_metadata) disk_io" where
  "get_metadata y sc path email =
     io_bind (get_resource y sc path email) (\<lambda>item. io_lift (metadata_of y path email item))"

definition mark_processed :: "'d yandex \<Rightarrow> scanner \<Rightarrow> string \<Rightarrow> string \<Rightarrow> ('d, unit) disk_io" where
  "mark_processed y sc path email =
     io_bind (get_resource y sc path email) (\<lambda>resource.
       if has_valid_processed_marker y (custom_properties resource) then io_return ()
       else stamp_now y sc path email)"

section \<open>Deleting\<close>

fun await_polls :: "'d yandex \<Rightarrow> scanner \<Rightarrow> string \<Rightarrow> string \<Rightarrow> nat \<Rightarrow> ('d, unit) disk_io" where
  "await_polls y sc email url 0 = io_raise Delete_timeout"
| "await_polls y sc email url (Suc n) =
     io_bind (disk_request y (sc_settings sc) email (Get_operation url)) (\<lambda>r.
       case resp_json r of
         Some (JObj ms) \<Rightarrow>
           if jget ''status'' (JObj ms) = JStr ''success'' then io_return ()
           else if jget ''status'' (JObj ms) = JStr ''failed'' then io_raise Delete_failed
           else await_polls y sc email url n
       | _ \<Rightarrow> io_raise Malformed_payload)"

definition await_operation :: "'d yandex \<Rightarrow> scanner \<Rightarrow> string \<Rightarrow> http_response \<Rightarrow> ('d, unit) disk_io" where
  "await_operation y sc email r =
     (if resp_status r \<noteq> 202 then io_return ()
      else case resp_json r of
        Some (JObj ms) \<Rightarrow>
          (let url = text_member y ''href'' (JObj ms) in
           if url = '''' then io_raise Malformed_payload else await_polls y sc email url 60)
      | _ \<Rightarrow> io_raise Malformed_payload)"

definition trash :: "'d yandex \<Rightarrow> scanner \<Rightarrow> string \<Rightarrow> string \<Rightarrow> ('d, unit) disk_io" where
  "trash y sc path email =
     io_bind (disk_request y (sc_settings sc) email (Trash_resource path)) (await_operation y sc email)"

definition move_to_trash :: "'d yandex \<Rightarrow> scanner \<Rightarrow> string \<Rightarrow> string \<Rightarrow> ('d, unit) disk_io" where
  "move_to_trash y sc path email =
     io_guard (in_telemost sc path) Outside_telemost (trash y sc path email)"

fun delete_each ::
  "'d yandex \<Rightarrow> scanner \<Rightarrow> string \<Rightarrow> instant \<Rightarrow> json list \<Rightarrow> ('d, string list) disk_io" where
  "delete_each y sc email now [] = io_return []"
| "delete_each y sc email now (item # items) =
     (let path = text_member y ''path'' item in
      io_bind (get_resource y sc path email) (\<lambda>resource.
        let props = custom_properties resource in
        if \<not> marked_processed y props then delete_each y sc email now items
        else case processed_at y props of
          None \<Rightarrow> io_bind (patch_processed y sc path email (stamp y now)) (\<lambda>_. delete_each y sc email now items)
        | Some t \<Rightarrow>
            if now - days (sc_retention_days sc) < t then delete_each y sc email now items
            else io_bind (trash y sc path email) (\<lambda>_.
                 io_bind (delete_each y sc email now items) (\<lambda>paths. io_return (path # paths)))))"

text \<open>\<open>now\<close> is the argument of the call or the clock.\<close>

definition delete_expired :: "'d yandex \<Rightarrow> scanner \<Rightarrow> instant option \<Rightarrow> string \<Rightarrow> ('d, string list) disk_io" where
  "delete_expired y sc at email =
     io_bind (read_clock y) (\<lambda>clock.
     io_bind (list_video_files y sc email) (delete_each y sc email (opt_or at clock)))"

section \<open>Permanent deletion\<close>

text \<open>An approval without a time zone has no instant.\<close>

record approval =
  ap_approved_by :: string
  ap_approved_at :: "instant option"
  ap_nonce :: string

definition APPROVAL_MAX_AGE :: int where "APPROVAL_MAX_AGE = minutes 5"

definition approval_fault :: "instant \<Rightarrow> string list \<Rightarrow> approval \<Rightarrow> string option" where
  "approval_fault now used a =
     (if py_strip (ap_nonce a) = '''' then Some ''nonce''
      else if ap_nonce a \<in> set used then Some ''consumed''
      else case ap_approved_at a of
        None \<Rightarrow> Some ''timezone''
      | Some t \<Rightarrow>
          if py_strip (ap_approved_by a) = '''' then Some ''operator''
          else if now < t \<or> APPROVAL_MAX_AGE < now - t then Some ''not fresh''
          else None)"

definition consume_approval :: "approval \<Rightarrow> instant \<Rightarrow> ('d, unit) disk_io" where
  "consume_approval a now = (\<lambda>s. case approval_fault now (ys_nonces s) a of
      Some why \<Rightarrow> (Inl (Not_approved why), s)
    | None \<Rightarrow> (Inr (), s\<lparr>ys_nonces := ap_nonce a # ys_nonces s\<rparr>))"

definition purgeable :: "'d yandex \<Rightarrow> scanner \<Rightarrow> instant \<Rightarrow> json \<Rightarrow> bool" where
  "purgeable y sc now resource \<longleftrightarrow>
     (let props = custom_properties resource in
      in_telemost sc (text_member y ''origin_path'' resource) \<and> marked_processed y props \<and>
      (case processed_at y props of None \<Rightarrow> False | Some t \<Rightarrow> t \<le> now - days (sc_retention_days sc)))"

definition trash_details :: "'d yandex \<Rightarrow> scanner \<Rightarrow> string \<Rightarrow> json \<Rightarrow> ('d, json) disk_io" where
  "trash_details y sc email item =
     (if \<not> jtruthy (jget ''origin_path'' item) \<or> custom_properties item = JObj []
      then get_trash_resource y sc (text_member y ''path'' item) email else io_return item)"

definition purge :: "'d yandex \<Rightarrow> scanner \<Rightarrow> string \<Rightarrow> string \<Rightarrow> ('d, unit) disk_io" where
  "purge y sc path email =
     io_bind (disk_request y (sc_settings sc) email (Purge_trash path)) (await_operation y sc email)"

fun purge_each ::
  "'d yandex \<Rightarrow> scanner \<Rightarrow> string \<Rightarrow> instant \<Rightarrow> json list \<Rightarrow> ('d, string list) disk_io" where
  "purge_each y sc email now [] = io_return []"
| "purge_each y sc email now (item # items) =
     (let path = text_member y ''path'' item in
      if path = '''' then purge_each y sc email now items
      else io_bind (trash_details y sc email item) (\<lambda>resource.
        if purgeable y sc now resource
        then io_bind (purge y sc path email) (\<lambda>_.
             io_bind (purge_each y sc email now items) (\<lambda>paths. io_return (path # paths)))
        else purge_each y sc email now items))"

definition purge_expired_from_trash ::
  "'d yandex \<Rightarrow> scanner \<Rightarrow> approval \<Rightarrow> string \<Rightarrow> ('d, string list) disk_io" where
  "purge_expired_from_trash y sc a email =
     io_bind (read_clock y) (\<lambda>now.
     io_bind (consume_approval a now) (\<lambda>_.
     io_bind (list_trash_resources y sc email) (purge_each y sc email now)))"

section \<open>What the routines send\<close>

lemma keeps_bind_from:
  assumes "keeps I m" and "\<And>x w w1. m w = (Inr x, w1) \<Longrightarrow> keeps I (f x)"
  shows "keeps I (io_bind m f)"
proof (rule keepsI)
  fix w v w2
  assume w: "I w" and "io_bind m f w = (v, w2)"
  from this(2) show "I w2"
  proof (cases rule: io_bind_cases)
    case (raised e)
    then show ?thesis using keepsD[OF assms(1) w] by blast
  next
    case (passed x w1)
    then show ?thesis using keepsD[OF assms(1) w] keepsD[OF assms(2)] by blast
  qed
qed

text \<open>All calls since \<open>base\<close> satisfy \<open>P\<close>, and the approvals are \<open>ns\<close>.\<close>

definition calls_since :: "disk_call list \<Rightarrow> (disk_call \<Rightarrow> bool) \<Rightarrow> string list \<Rightarrow> 'd yandex_state \<Rightarrow> bool" where
  "calls_since base P ns s \<longleftrightarrow> (\<exists>cs. calls_of s = base @ cs \<and> list_all P cs) \<and> ys_nonces s = ns"

lemma calls_since_start: "calls_since (calls_of s) P (ys_nonces s) s"
  by (auto simp: calls_since_def intro: exI[of _ "[]"])

lemma keeps_disk_request [keeps_rules]:
  assumes "P c"
  shows "keeps (calls_since base P ns) (disk_request y st email c)"
proof (rule keepsI)
  fix s v s1
  assume "calls_since base P ns s" and run: "disk_request y st email c s = (v, s1)"
  then obtain cs where cs: "calls_of s = base @ cs" "list_all P cs" "ys_nonces s = ns"
    by (auto simp: calls_since_def)
  obtain n where "calls_of s1 = calls_of s @ replicate n c" "ys_nonces s1 = ys_nonces s"
    using disk_request_calls[OF run] by blast
  then show "calls_since base P ns s1"
    using cs assms by (auto simp: calls_since_def list_all_iff intro!: exI[of _ "cs @ replicate n c"])
qed

text \<open>Only readings and the mark of a processed file.\<close>

fun harmless :: "disk_call \<Rightarrow> bool" where
  "harmless (Trash_resource _) = False"
| "harmless (Purge_trash _) = False"
| "harmless _ = True"

definition permits :: "(disk_call \<Rightarrow> bool) \<Rightarrow> bool" where
  "permits P \<longleftrightarrow> (\<forall>c. harmless c \<longrightarrow> P c)"

lemma permitsD:
  "permits P \<Longrightarrow> P (List_files n)" "permits P \<Longrightarrow> P (List_trash n)" "permits P \<Longrightarrow> P (Get_resource p)"
  "permits P \<Longrightarrow> P (Get_trash p)" "permits P \<Longrightarrow> P (Patch_processed p t)" "permits P \<Longrightarrow> P (Get_operation p)"
  by (simp_all add: permits_def)

lemma keeps_list_pages:
  assumes "\<And>n. P (call n)"
  shows "keeps (calls_since base P ns) (list_pages y st email call page n offset found)"
  by (induction n arbitrary: offset found) (auto intro!: keeps_rules assms)

lemma keeps_readings [keeps_rules]:
  assumes "permits P"
  shows "keeps (calls_since base P ns) (list_video_files y sc email)"
    "keeps (calls_since base P ns) (list_trash_resources y sc email)"
    "keeps (calls_since base P ns) (get_resource y sc path email)"
    "keeps (calls_since base P ns) (trash_details y sc email item)"
    "keeps (calls_since base P ns) (patch_processed y sc path email at)"
  using assms
  by (auto simp: list_video_files_def list_trash_resources_def get_resource_def trash_details_def
      get_trash_resource_def patch_processed_def intro!: keeps_rules keeps_list_pages dest: permitsD)

lemma keeps_polls: "permits P \<Longrightarrow> keeps (calls_since base P ns) (await_polls y sc email url n)"
  by (induction n) (auto intro!: keeps_rules dest: permitsD split: json.splits option.splits)

lemma keeps_await [keeps_rules]: "permits P \<Longrightarrow> keeps (calls_since base P ns) (await_operation y sc email r)"
  by (auto simp: await_operation_def Let_def intro!: keeps_rules keeps_polls split: json.splits option.splits)

lemma keeps_trash [keeps_rules]:
  "permits P \<Longrightarrow> P (Trash_resource path) \<Longrightarrow> keeps (calls_since base P ns) (trash y sc path email)"
  by (auto simp: trash_def intro!: keeps_rules)

lemma keeps_purge [keeps_rules]:
  "permits P \<Longrightarrow> P (Purge_trash path) \<Longrightarrow> keeps (calls_since base P ns) (purge y sc path email)"
  by (auto simp: purge_def intro!: keeps_rules)

text \<open>The disk has answered that the resource carries an expired mark.\<close>

definition expired_mark :: "'d yandex \<Rightarrow> scanner \<Rightarrow> instant \<Rightarrow> json \<Rightarrow> bool" where
  "expired_mark y sc now resource \<longleftrightarrow>
     (let props = custom_properties resource in marked_processed y props \<and>
      (case processed_at y props of None \<Rightarrow> False | Some t \<Rightarrow> t \<le> now - days (sc_retention_days sc)))"

definition answered :: "'d yandex \<Rightarrow> disk_call \<Rightarrow> json \<Rightarrow> bool" where
  "answered y c resource \<longleftrightarrow> (\<exists>token w r w1. ya_answer y (Disk_call token c) w = (Some r, w1) \<and>
     resp_json r = Some resource)"

lemma get_resource_answered:
  assumes "get_resource y sc path email s = (Inr resource, s1)"
  shows "answered y (Get_resource path) resource"
proof -
  obtain r s2 where run: "disk_request y (sc_settings sc) email (Get_resource path) s = (Inr r, s2)"
    and obj: "object_response r = Inr resource"
    using assms by (auto simp: get_resource_def io_bind_Inr_iff)
  obtain token w w1 where "ya_answer y (Disk_call token (Get_resource path)) w = (Some r, w1)"
    using disk_request_calls[OF run] by blast
  then show ?thesis
    using obj by (auto simp: object_response_def answered_def split: option.splits json.splits)
qed

fun trashes_expired :: "'d yandex \<Rightarrow> scanner \<Rightarrow> instant \<Rightarrow> disk_call \<Rightarrow> bool" where
  "trashes_expired y sc now (Trash_resource p) =
     (in_telemost sc p \<and> (\<exists>resource. answered y (Get_resource p) resource \<and> expired_mark y sc now resource))"
| "trashes_expired y sc now (Purge_trash p) = False"
| "trashes_expired y sc now c = True"

lemma permits_trashes: "permits (trashes_expired y sc now)"
  unfolding permits_def
proof (intro allI impI)
  fix c :: disk_call
  assume "harmless c"
  then show "trashes_expired y sc now c" by (cases c) auto
qed

lemma keeps_delete_each:
  assumes "\<forall>item\<in>set items. in_telemost sc (text_member y ''path'' item)"
  shows "keeps (calls_since base (trashes_expired y sc now) ns) (delete_each y sc email now items)"
  using assms
proof (induction items)
  case (Cons item items)
  let ?I = "calls_since base (trashes_expired y sc now) ns"
  have rest: "keeps ?I (delete_each y sc email now items)" using Cons by simp
  note permits = permits_trashes[of y sc now]
  show ?case
    unfolding delete_each.simps Let_def
  proof (rule keeps_bind_from)
    show "keeps ?I (get_resource y sc (text_member y ''path'' item) email)"
      by (rule keeps_readings[OF permits])
  next
    fix resource w w1
    assume "get_resource y sc (text_member y ''path'' item) email w = (Inr resource, w1)"
    from get_resource_answered[OF this]
    have ok: "trashes_expired y sc now (Trash_resource (text_member y ''path'' item))"
      if "marked_processed y (custom_properties resource)" "processed_at y (custom_properties resource) = Some t"
        "\<not> now - days (sc_retention_days sc) < t" for t
      using that Cons.prems by (auto simp: expired_mark_def Let_def intro!: exI[of _ resource])
    show "keeps ?I (if \<not> marked_processed y (custom_properties resource) then delete_each y sc email now items
        else case processed_at y (custom_properties resource) of
          None \<Rightarrow> io_bind (patch_processed y sc (text_member y ''path'' item) email (stamp y now))
            (\<lambda>_. delete_each y sc email now items)
        | Some t \<Rightarrow>
            if now - days (sc_retention_days sc) < t then delete_each y sc email now items
            else io_bind (trash y sc (text_member y ''path'' item) email) (\<lambda>_.
                 io_bind (delete_each y sc email now items) (\<lambda>paths. io_return (text_member y ''path'' item # paths))))"
      using rest permits ok
      by (auto intro!: keeps_bind keeps_return keeps_readings keeps_trash split: option.splits)
  qed
qed (simp add: keeps_return)

lemma list_video_files_telemost:
  "list_video_files y sc email s = (Inr items, s1) \<Longrightarrow> \<forall>item\<in>set items. in_telemost sc (text_member y ''path'' item)"
  by (auto simp: list_video_files_def io_bind_Inr_iff)

lemma keeps_deleting:
  "keeps (calls_since base (trashes_expired y sc now) ns)
     (io_bind (list_video_files y sc email) (delete_each y sc email now))"
  by (rule keeps_bind_from[OF keeps_readings(1)[OF permits_trashes] keeps_delete_each[OF list_video_files_telemost]])

section \<open>Emptying the trash\<close>

definition listed :: "'d yandex \<Rightarrow> json \<Rightarrow> bool" where
  "listed y item \<longleftrightarrow> (\<exists>token n w r w1 items. ya_answer y (Disk_call token (List_trash n)) w = (Some r, w1) \<and>
     trash_page r = Inr items \<and> item \<in> set items)"

text \<open>The disk has described the thing in the trash at \<open>p\<close> by \<open>resource\<close>.\<close>

definition described :: "'d yandex \<Rightarrow> string \<Rightarrow> json \<Rightarrow> bool" where
  "described y p resource \<longleftrightarrow> answered y (Get_trash p) resource \<or>
     (listed y resource \<and> text_member y ''path'' resource = p)"

lemma list_pages_listed:
  assumes "list_pages y st email List_trash trash_page n offset found s = (Inr items, s1)"
    and "\<forall>item\<in>set found. listed y item"
  shows "\<forall>item\<in>set items. listed y item"
  using assms
proof (induction n arbitrary: offset found s)
  case (Suc n)
  then obtain r s2 page where run: "disk_request y st email (List_trash offset) s = (Inr r, s2)"
    and page: "trash_page r = Inr page"
    and rest: "(if length page < 100 then io_return (found @ page)
      else list_pages y st email List_trash trash_page n (offset + length page) (found @ page)) s2 = (Inr items, s1)"
    by (auto simp: io_bind_Inr_iff)
  obtain token w w1 where "ya_answer y (Disk_call token (List_trash offset)) w = (Some r, w1)"
    using disk_request_calls[OF run] by blast
  then have new: "\<forall>item\<in>set (found @ page). listed y item"
    using page Suc.prems(2) unfolding listed_def by fastforce
  show ?case
    using rest new Suc.IH[where found = "found @ page"] by (auto split: if_splits)
qed simp

lemma trash_details_described:
  assumes "trash_details y sc email item s = (Inr resource, s1)" and "listed y item"
  shows "described y (text_member y ''path'' item) resource"
proof (cases "\<not> jtruthy (jget ''origin_path'' item) \<or> custom_properties item = JObj []")
  case False
  then show ?thesis using assms by (auto simp: trash_details_def described_def)
next
  case True
  then obtain r s2 where run: "disk_request y (sc_settings sc) email (Get_trash (text_member y ''path'' item)) s = (Inr r, s2)"
    and obj: "object_response r = Inr resource"
    using assms by (auto simp: trash_details_def get_trash_resource_def io_bind_Inr_iff)
  obtain token w w1 where "ya_answer y (Disk_call token (Get_trash (text_member y ''path'' item))) w = (Some r, w1)"
    using disk_request_calls[OF run] by blast
  then show ?thesis
    using obj by (auto simp: object_response_def answered_def described_def split: option.splits json.splits)
qed

fun purges_expired :: "'d yandex \<Rightarrow> scanner \<Rightarrow> instant \<Rightarrow> disk_call \<Rightarrow> bool" where
  "purges_expired y sc now (Purge_trash p) = (\<exists>resource. described y p resource \<and> purgeable y sc now resource)"
| "purges_expired y sc now (Trash_resource p) = False"
| "purges_expired y sc now c = True"

lemma permits_purges: "permits (purges_expired y sc now)"
  unfolding permits_def
proof (intro allI impI)
  fix c :: disk_call
  assume "harmless c"
  then show "purges_expired y sc now c" by (cases c) auto
qed

lemma keeps_purge_each:
  assumes "\<forall>item\<in>set items. listed y item"
  shows "keeps (calls_since base (purges_expired y sc now) ns) (purge_each y sc email now items)"
  using assms
proof (induction items)
  case (Cons item items)
  let ?I = "calls_since base (purges_expired y sc now) ns"
  let ?path = "text_member y ''path'' item"
  have rest: "keeps ?I (purge_each y sc email now items)" using Cons by simp
  note permits = permits_purges[of y sc now]
  have "keeps ?I (io_bind (trash_details y sc email item) (\<lambda>resource.
      if purgeable y sc now resource
      then io_bind (purge y sc ?path email) (\<lambda>_.
           io_bind (purge_each y sc email now items) (\<lambda>paths. io_return (?path # paths)))
      else purge_each y sc email now items))"
  proof (rule keeps_bind_from[OF keeps_readings(4)[OF permits]])
    fix resource w w1
    assume "trash_details y sc email item w = (Inr resource, w1)"
    then have "described y ?path resource" using trash_details_described[of y sc email item w resource w1] Cons.prems by simp
    then have "purgeable y sc now resource \<Longrightarrow> purges_expired y sc now (Purge_trash ?path)" by auto
    then show "keeps ?I (if purgeable y sc now resource
        then io_bind (purge y sc ?path email) (\<lambda>_.
             io_bind (purge_each y sc email now items) (\<lambda>paths. io_return (?path # paths)))
        else purge_each y sc email now items)"
      using rest permits by (auto intro!: keeps_bind keeps_return keeps_purge)
  qed
  then show ?case using rest by (simp add: Let_def)
qed (simp add: keeps_return)

lemma keeps_purging:
  "keeps (calls_since base (purges_expired y sc now) ns)
     (io_bind (list_trash_resources y sc email) (purge_each y sc email now))"
  by (rule keeps_bind_from[OF keeps_readings(2)[OF permits_purges] keeps_purge_each])
     (auto simp: list_trash_resources_def dest: list_pages_listed)

lemma consume_approval_run:
  "consume_approval a now s = (Inr (), s1) \<Longrightarrow>
     s1 = s\<lparr>ys_nonces := ap_nonce a # ys_nonces s\<rparr> \<and> ap_nonce a \<notin> set (ys_nonces s) \<and>
     (\<exists>t. ap_approved_at a = Some t \<and> t \<le> now \<and> now - t \<le> minutes 5)"
  by (auto simp: consume_approval_def approval_fault_def APPROVAL_MAX_AGE_def split: option.splits if_splits)

lemma used_approval_refused:
  "ap_nonce a \<in> set (ys_nonces s) \<Longrightarrow> \<exists>why. purge_expired_from_trash y sc a email s = (Inl (Not_approved why), s)"
  by (auto simp: purge_expired_from_trash_def io_bind_app consume_approval_def approval_fault_def
      split: option.splits)

section \<open>Listings are complete\<close>

text \<open>A disk that serves the pages of a list of resources.\<close>

definition serves ::
  "'d yandex \<Rightarrow> settings \<Rightarrow> string \<Rightarrow> (nat \<Rightarrow> disk_call) \<Rightarrow> (http_response \<Rightarrow> (disk_error, json list) result) \<Rightarrow>
   ('d yandex_state \<Rightarrow> bool) \<Rightarrow> json list \<Rightarrow> bool" where
  "serves y st email call page good files \<longleftrightarrow> (\<forall>s offset. good s \<longrightarrow> (\<exists>r s1.
     disk_request y st email (call offset) s = (Inr r, s1) \<and> good s1 \<and>
     page r = Inr (take 100 (drop offset files))))"

lemma list_pages_complete:
  assumes "serves y st email call page good files" and "good s"
    and "length (drop offset files) div 100 < n"
  shows "\<exists>s1. list_pages y st email call page n offset found s = (Inr (found @ drop offset files), s1) \<and> good s1"
  using assms(2,3)
proof (induction n arbitrary: offset found s)
  case (Suc n)
  obtain r s1 where step: "disk_request y st email (call offset) s = (Inr r, s1)" "good s1"
    "page r = Inr (take 100 (drop offset files))"
    using assms(1) Suc.prems(1) unfolding serves_def by blast
  show ?case
  proof (cases "length (drop offset files) < 100")
    case True
    then show ?thesis using step by (simp add: io_bind_app)
  next
    case False
    then have len: "length (take 100 (drop offset files)) = 100" by simp
    have "length (drop (offset + 100) files) div 100 < n"
      using Suc.prems(2) False by simp
    have glue: "take 100 (drop offset files) @ drop (offset + 100) files = drop offset files"
      by (metis append_take_drop_id drop_drop add.commute)
    from Suc.IH[OF step(2) \<open>length (drop (offset + 100) files) div 100 < n\<close>, of "found @ take 100 (drop offset files)"]
    have "\<exists>s2. list_pages y st email call page n (offset + 100) (found @ take 100 (drop offset files)) s1 =
        (Inr (found @ drop offset files), s2) \<and> good s2"
      using glue by simp
    then show ?thesis using step False len by (simp add: io_bind_app)
  qed
qed simp

section \<open>Properties\<close>

text \<open>
  Property C19.  Whatever the disk answers and however the routine ends, deleting what has expired
  moves to the trash only files of the Telemost folder which the disk described as marked processed
  at least the retention time ago, and deletes nothing permanently.
\<close>

theorem only_expired_recordings_are_trashed:
  assumes "delete_expired y sc at email s = (v, s1)"
  shows "\<exists>cs. calls_of s1 = calls_of s @ cs \<and> (\<forall>p. Purge_trash p \<notin> set cs) \<and>
    (\<forall>p. Trash_resource p \<in> set cs \<longrightarrow> in_telemost sc p \<and>
       (\<exists>resource t. answered y (Get_resource p) resource \<and> marked_processed y (custom_properties resource) \<and>
          processed_at y (custom_properties resource) = Some t \<and>
          t + days (sc_retention_days sc) \<le> opt_or at (ya_clock y (ys_server s))))"
proof -
  let ?now = "opt_or at (ya_clock y (ys_server s))"
  have "io_bind (list_video_files y sc email) (delete_each y sc email ?now) s = (v, s1)"
    using assms by (simp add: delete_expired_def io_bind_app)
  from keepsD[OF keeps_deleting calls_since_start this] obtain cs
    where cs: "calls_of s1 = calls_of s @ cs" "list_all (trashes_expired y sc ?now) cs"
    by (auto simp: calls_since_def)
  have "Purge_trash p \<notin> set cs" for p
    using cs(2) by (fastforce simp: list_all_iff)
  moreover have "in_telemost sc p \<and> (\<exists>resource t. answered y (Get_resource p) resource \<and>
      marked_processed y (custom_properties resource) \<and> processed_at y (custom_properties resource) = Some t \<and>
      t + days (sc_retention_days sc) \<le> ?now)" if "Trash_resource p \<in> set cs" for p
  proof -
    have "trashes_expired y sc ?now (Trash_resource p)" using cs(2) that unfolding list_all_iff by blast
    then obtain resource where r: "in_telemost sc p" "answered y (Get_resource p) resource"
      "expired_mark y sc ?now resource" by auto
    from r(3) obtain t where "marked_processed y (custom_properties resource)"
      "processed_at y (custom_properties resource) = Some t" "t \<le> ?now - days (sc_retention_days sc)"
      unfolding expired_mark_def Let_def by (auto split: option.splits)
    then show ?thesis using r by (intro conjI exI[of _ resource] exI[of _ t]) auto
  qed
  ultimately show ?thesis using cs(1) by blast
qed

text \<open>
  Property C11.  Permanent deletion: anything is sent only under an unused approval at most five minutes
  old, which is used up by it; what is deleted was described by the disk as an expired recording of the
  Telemost folder in the trash; and under a used approval the disk is not even asked.
\<close>

theorem purge_needs_a_fresh_approval:
  assumes "purge_expired_from_trash y sc a email s = (v, s1)"
  shows "\<exists>cs. calls_of s1 = calls_of s @ cs \<and>
    (cs \<noteq> [] \<longrightarrow> ap_nonce a \<notin> set (ys_nonces s) \<and> ap_nonce a \<in> set (ys_nonces s1) \<and>
       (\<exists>t. ap_approved_at a = Some t \<and> t \<le> ya_clock y (ys_server s) \<and>
          ya_clock y (ys_server s) - t \<le> minutes 5)) \<and>
    (\<forall>p. Purge_trash p \<in> set cs \<longrightarrow> (\<exists>resource. described y p resource \<and>
       purgeable y sc (ya_clock y (ys_server s)) resource)) \<and>
    (\<forall>s2. ap_nonce a \<in> set (ys_nonces s2) \<longrightarrow>
       (\<exists>why. purge_expired_from_trash y sc a email s2 = (Inl (Not_approved why), s2)))"
proof -
  let ?now = "ya_clock y (ys_server s)"
  have used: "\<forall>s2. ap_nonce a \<in> set (ys_nonces s2) \<longrightarrow>
      (\<exists>why. purge_expired_from_trash y sc a email s2 = (Inl (Not_approved why), s2))"
    using used_approval_refused by blast
  show ?thesis
  proof (cases "fst (consume_approval a ?now s)")
    case (Inl e)
    then have "s1 = s"
      using assms by (auto simp: purge_expired_from_trash_def io_bind_app consume_approval_def split: option.splits)
    then show ?thesis using used by (intro exI[of _ "[]"]) simp
  next
    case (Inr u)
    then obtain s2 where c: "consume_approval a ?now s = (Inr (), s2)"
      by (metis (full_types) old.unit.exhaust prod.collapse)
    note ok = consume_approval_run[OF c]
    have run: "io_bind (list_trash_resources y sc email) (purge_each y sc email ?now) s2 = (v, s1)"
      using assms c by (simp add: purge_expired_from_trash_def io_bind_app)
    from keepsD[OF keeps_purging calls_since_start run] obtain cs
      where cs: "calls_of s1 = calls_of s2 @ cs" "list_all (purges_expired y sc ?now) cs" "ys_nonces s1 = ys_nonces s2"
      by (auto simp: calls_since_def)
    have same: "calls_of s2 = calls_of s" using ok by (simp add: calls_of_def)
    have described: "\<exists>resource. described y p resource \<and> purgeable y sc ?now resource" if "Purge_trash p \<in> set cs" for p
      using cs(2) that by (fastforce simp: list_all_iff)
    show ?thesis
      using cs same ok used described by (intro exI[of _ cs]) auto
  qed
qed

text \<open>
  Property C35.  A call to the disk is sent at most twice, the second time only after the first was
  refused for its token; other calls to the disk are not sent, and what is returned is a success
  which the disk answered to that call.
\<close>

theorem disk_call_is_sent_at_most_twice:
  assumes "disk_request y st email c s = (v, s1)"
  shows "(\<exists>n\<le>2. calls_of s1 = calls_of s @ replicate n c) \<and> ys_nonces s1 = ys_nonces s \<and>
    (\<forall>r. v = Inr r \<longrightarrow> 200 \<le> resp_status r \<and> resp_status r \<le> 299 \<and>
       (\<exists>token w w1. ya_answer y (Disk_call token c) w = (Some r, w1) \<and> ys_server s1 = w1))"
  by (rule disk_request_calls[OF assms])

text \<open>
  Property C26.  Listing the recordings comes to an end: on a disk that serves the pages of any list of
  files, a bound of pages beyond a hundredth of their number suffices, and what is returned is exactly
  the files of the Telemost folder, in order.
\<close>

theorem listing_is_complete:
  assumes "serves y (sc_settings sc) email List_files video_page good files" and "good s"
    and "length files div 100 < sc_pages sc"
  shows "\<exists>s1. list_video_files y sc email s =
    (Inr (filter (\<lambda>item. in_telemost sc (text_member y ''path'' item)) files), s1) \<and> good s1"
  using list_pages_complete[OF assms(1,2), of 0 "sc_pages sc" "[]"] assms(3)
  by (auto simp: list_video_files_def io_bind_app)

section \<open>A disk\<close>

definition demo_props :: json where
  "demo_props = JObj [(''processed'', JStr ''True''), (''processed_at'', JStr ''old'')]"

definition demo_video :: "string \<Rightarrow> json" where
  "demo_video path = JObj [(''path'', JStr path), (''resource_id'', JStr ''f''), (''origin_path'', JStr ''disk:/T/a''),
     (''custom_properties'', demo_props)]"

definition demo_list :: "json list \<Rightarrow> json" where
  "demo_list items = JObj [(''_embedded'', JObj [(''items'', JList items)])]"

fun demo_disk_answer :: "yandex_request \<Rightarrow> nat \<Rightarrow> http_response option \<times> nat" where
  "demo_disk_answer (Disk_call t (List_files n)) w =
     (Some \<lparr>resp_status = 200, resp_json = Some (demo_list (take 100 (drop n [demo_video ''disk:/T/a''])))\<rparr>, w)"
| "demo_disk_answer (Disk_call t (Get_resource p)) w = (Some \<lparr>resp_status = 200, resp_json = Some (demo_video p)\<rparr>, w)"
| "demo_disk_answer (Disk_call t (List_trash n)) w =
     (Some \<lparr>resp_status = 200, resp_json = Some (demo_list [demo_video ''trash:/a''])\<rparr>, w)"
| "demo_disk_answer (Oauth_refresh t) w = (Some \<lparr>resp_status = 400, resp_json = None\<rparr>, w)"
| "demo_disk_answer q w = (Some \<lparr>resp_status = 204, resp_json = None\<rparr>, Suc w)"

definition demo_yandex :: "nat yandex" where
  "demo_yandex = \<lparr>ya_answer = demo_disk_answer, ya_clock = (\<lambda>_. days 30),
     ya_show = (\<lambda>j. case j of JStr t \<Rightarrow> t | _ \<Rightarrow> ''?''), ya_int = jint, ya_iso = (\<lambda>_. ''now''), ya_parse = (\<lambda>t. Some 0)\<rparr>"

definition demo_scanner :: scanner where
  "demo_scanner = \<lparr>sc_settings = default_settings ''Spots'', sc_telemost_root = ''disk:/T/'', sc_retention_days = 7,
     sc_pages = 5\<rparr>"

definition demo_token :: yandex_token where
  "demo_token = (new_token 0 ''hr@x'' ''r'')\<lparr>yt_access_token := Some ''t'', yt_expires_at := Some (days 40)\<rparr>"

definition demo_disk :: "nat yandex_state" where
  "demo_disk = \<lparr>ys_server = 0, ys_sent = [], ys_tokens = [demo_token], ys_nonces = []\<rparr>"

definition demo_approval :: approval where
  "demo_approval = \<lparr>ap_approved_by = ''op'', ap_approved_at = Some (days 30 - 60000000), ap_nonce = ''n''\<rparr>"

theorem only_expired_witness:
  "\<exists>s1 cs. delete_expired demo_yandex demo_scanner None ''hr@x'' demo_disk = (Inr [''disk:/T/a''], s1) \<and>
     calls_of s1 = cs \<and> Trash_resource ''disk:/T/a'' \<in> set cs \<and>
     (\<exists>resource. answered demo_yandex (Get_resource ''disk:/T/a'') resource)"
proof -
  let ?run = "delete_expired demo_yandex demo_scanner None ''hr@x'' demo_disk"
  have "fst ?run = Inr [''disk:/T/a'']" by code_simp
  then have run: "?run = (Inr [''disk:/T/a''], snd ?run)" by (metis prod.collapse)
  have sent: "Trash_resource ''disk:/T/a'' \<in> set (calls_of (snd ?run))" by code_simp
  have "calls_of demo_disk = []" by code_simp
  then obtain resource where "answered demo_yandex (Get_resource ''disk:/T/a'') resource"
    using only_expired_recordings_are_trashed[OF run] sent by auto
  then show ?thesis using run sent by metis
qed

theorem purge_witness:
  "\<exists>s1 why. purge_expired_from_trash demo_yandex demo_scanner demo_approval ''hr@x'' demo_disk = (Inr [''trash:/a''], s1) \<and>
     (\<exists>resource. described demo_yandex ''trash:/a'' resource) \<and>
     purge_expired_from_trash demo_yandex demo_scanner demo_approval ''hr@x'' s1 = (Inl (Not_approved why), s1)"
proof -
  let ?run = "purge_expired_from_trash demo_yandex demo_scanner demo_approval ''hr@x'' demo_disk"
  have "fst ?run = Inr [''trash:/a'']" by code_simp
  then have run: "?run = (Inr [''trash:/a''], snd ?run)" by (metis prod.collapse)
  have sent: "Purge_trash ''trash:/a'' \<in> set (calls_of (snd ?run))" by code_simp
  have none: "calls_of demo_disk = []" by code_simp
  obtain cs where cs: "calls_of (snd ?run) = calls_of demo_disk @ cs"
    "cs \<noteq> [] \<longrightarrow> ap_nonce demo_approval \<in> set (ys_nonces (snd ?run))"
    "Purge_trash ''trash:/a'' \<in> set cs \<longrightarrow> (\<exists>resource. described demo_yandex ''trash:/a'' resource)"
    "\<forall>s2. ap_nonce demo_approval \<in> set (ys_nonces s2) \<longrightarrow>
      (\<exists>why. purge_expired_from_trash demo_yandex demo_scanner demo_approval ''hr@x'' s2 = (Inl (Not_approved why), s2))"
    using purge_needs_a_fresh_approval[OF run] by blast
  have "cs = calls_of (snd ?run)" using cs(1) none by simp
  then have "Purge_trash ''trash:/a'' \<in> set cs" "cs \<noteq> []" using sent by auto
  then show ?thesis using cs(2-4) run by metis
qed

theorem sent_twice_witness:
  "\<exists>s1. disk_request demo_yandex (default_settings ''Spots'') ''hr@x'' (Get_resource ''p'') demo_disk =
      (Inr \<lparr>resp_status = 200, resp_json = Some (demo_video ''p'')\<rparr>, s1) \<and>
     (\<exists>n\<le>2. calls_of s1 = calls_of demo_disk @ replicate n (Get_resource ''p''))"
proof -
  let ?run = "disk_request demo_yandex (default_settings ''Spots'') ''hr@x'' (Get_resource ''p'') demo_disk"
  have "fst ?run = Inr \<lparr>resp_status = 200, resp_json = Some (demo_video ''p'')\<rparr>" by code_simp
  then have "?run = (Inr \<lparr>resp_status = 200, resp_json = Some (demo_video ''p'')\<rparr>, snd ?run)" by (metis prod.collapse)
  from disk_call_is_sent_at_most_twice[OF this] this show ?thesis by blast
qed

theorem listing_witness:
  "\<exists>s1. list_video_files demo_yandex demo_scanner ''hr@x'' demo_disk = (Inr [demo_video ''disk:/T/a''], s1)"
proof -
  let ?good = "\<lambda>s. ys_tokens s = [demo_token]"
  have page: "filter is_obj (drop n [demo_video p]) = drop n [demo_video p]" for n p
    by (cases n) (simp_all add: demo_video_def)
  have srv: "serves demo_yandex (sc_settings demo_scanner) ''hr@x'' List_files video_page ?good [demo_video ''disk:/T/a'']"
    unfolding serves_def
    by (auto simp: page disk_request_def get_access_token_def token_of_def demo_token_def new_token_def is_fresh_def
        yandex_call_def demo_yandex_def raise_for_status_def io_bind_app video_page_def demo_list_def)
  have "length [demo_video ''disk:/T/a''] div 100 < sc_pages demo_scanner" by (simp add: demo_scanner_def)
  moreover have "ys_tokens demo_disk = [demo_token]" by (simp add: demo_disk_def)
  moreover have "in_telemost demo_scanner (text_member demo_yandex ''path'' (demo_video ''disk:/T/a''))" by code_simp
  ultimately show ?thesis using listing_is_complete[OF srv] by fastforce
qed

end
