(* ===== verification/Storage.thy ===== *)
theory Storage
imports Synology_Client
begin

text \<open>
  \<open>app/services/storage.py\<close>: the object store (MinIO through an S3 client).  An upload cuts the stream
  into parts of five mebibytes whatever the chunks it arrives in, claims its key atomically at the
  end, and treats an object already at the key as its own only if it names the same owner.  The S3
  client is a parameter that answers requests; bytes are characters.
\<close>

section \<open>The client\<close>

datatype s3_request =
    Head_object string
  | Create_multipart string "(string \<times> string) list"
  | Upload_part string string nat string
  | Complete_multipart string string "(json \<times> nat) list"
  | Abort_multipart string string
  | Put_empty string "(string \<times> string) list"
  | Presign string nat

text \<open>A failure carries the code of the service, when it has one.\<close>

datatype s3_fault = Fault "string option"

record 's s3_client =
  s3_answer :: "s3_request \<Rightarrow> 's \<Rightarrow> (s3_fault + json) \<times> 's"

datatype s3_error =
    S3_failed s3_fault
  | No_upload_id
  | No_etag nat
  | Foreign_object string
  | Stream_broken

type_synonym ('s, 'a) s3_io = "('s \<times> s3_request list, s3_error, 'a) io"

definition s3_call :: "'s s3_client \<Rightarrow> s3_request \<Rightarrow> ('s, json) s3_io" where
  "s3_call c q = (\<lambda>(w, log). case s3_answer c q w of
      (Inl e, w1) \<Rightarrow> (Inl (S3_failed e), (w1, log @ [q]))
    | (Inr j, w1) \<Rightarrow> (Inr j, (w1, log @ [q])))"

section \<open>Ownership\<close>

definition missing_code :: "s3_error \<Rightarrow> bool" where
  "missing_code e \<longleftrightarrow> (case e of S3_failed (Fault (Some code)) \<Rightarrow> code \<in> {''404'', ''NoSuchKey'', ''NotFound''} | _ \<Rightarrow> False)"

definition head_object :: "'s s3_client \<Rightarrow> string \<Rightarrow> ('s, json option) s3_io" where
  "head_object c key =
     io_catch (io_bind (s3_call c (Head_object key)) (\<lambda>j. io_return (Some j)))
       (\<lambda>e. if missing_code e then io_return None else io_raise e)"

definition owner_metadata :: "string \<Rightarrow> string \<Rightarrow> (string \<times> string) list" where
  "owner_metadata recording_id content_identity =
     [(''recording-id'', recording_id), (''content-identity'', content_identity)]"

definition same_object :: "json \<Rightarrow> (string \<times> string) list \<Rightarrow> int option \<Rightarrow> bool" where
  "same_object existing expected n \<longleftrightarrow>
     (let metadata = jget ''Metadata'' existing; len = jget ''ContentLength'' existing in
      (n = None \<or> len = JNull \<or> jint len = n) \<and>
      is_obj metadata \<and> list_all (\<lambda>(k, v). jget k metadata = JStr v) expected)"

definition require_same_object ::
  "string \<Rightarrow> json \<Rightarrow> (string \<times> string) list \<Rightarrow> int option \<Rightarrow> (s3_error, unit) result" where
  "require_same_object key existing expected n =
     (if same_object existing expected n then Inr () else Inl (Foreign_object key))"

section \<open>Parts\<close>

definition MIN_MULTIPART_PART_SIZE :: nat where "MIN_MULTIPART_PART_SIZE = 5 * 1024 * 1024"

definition upload_part :: "'s s3_client \<Rightarrow> string \<Rightarrow> string \<Rightarrow> nat \<Rightarrow> string \<Rightarrow> ('s, json \<times> nat) s3_io" where
  "upload_part c key upload_id number body =
     io_bind (s3_call c (Upload_part key upload_id number body)) (\<lambda>r.
       case jget ''ETag'' r of
         JStr t \<Rightarrow> if t = '''' then io_raise (No_etag number) else io_return (JStr t, number)
       | _ \<Rightarrow> io_raise (No_etag number))"

text \<open>
  The inner loop on one chunk, with parts of \<open>n\<close> bytes: it fills the buffer and uploads it when it is
  full.  The buffer is never full between two rounds, so every round takes at least one byte.
\<close>

function feed ::
  "'s s3_client \<Rightarrow> string \<Rightarrow> string \<Rightarrow> nat \<Rightarrow> (json \<times> nat) list \<Rightarrow> string \<Rightarrow> string \<Rightarrow>
   ('s, (json \<times> nat) list \<times> string) s3_io" where
  "feed c key upload_id n parts buffer chunk =
     (if chunk = [] \<or> n \<le> length buffer then io_return (parts, buffer)
      else
        (let got = min (n - length buffer) (length chunk);
             filled = buffer @ take got chunk
         in if length filled = n
            then io_bind (upload_part c key upload_id (length parts + 1) filled) (\<lambda>p.
                   feed c key upload_id n (parts @ [p]) [] (drop got chunk))
            else feed c key upload_id n parts filled (drop got chunk)))"
  by pat_completeness auto
termination
  by (relation "measure (\<lambda>(c, key, i, n, parts, buffer, chunk). length chunk)") auto

declare feed.simps [simp del]

fun feed_all ::
  "'s s3_client \<Rightarrow> string \<Rightarrow> string \<Rightarrow> nat \<Rightarrow> (json \<times> nat) list \<Rightarrow> string \<Rightarrow> string list \<Rightarrow>
   ('s, (json \<times> nat) list \<times> string) s3_io" where
  "feed_all c key upload_id n parts buffer [] = io_return (parts, buffer)"
| "feed_all c key upload_id n parts buffer (chunk # chunks) =
     io_bind (feed c key upload_id n parts buffer chunk) (\<lambda>(parts1, buffer1).
       feed_all c key upload_id n parts1 buffer1 chunks)"

text \<open>A stream is its chunks and whether it breaks off after them.\<close>

type_synonym byte_stream = "string list \<times> bool"

definition upload_parts ::
  "'s s3_client \<Rightarrow> string \<Rightarrow> string \<Rightarrow> nat \<Rightarrow> byte_stream \<Rightarrow> ('s, (json \<times> nat) list) s3_io" where
  "upload_parts c key upload_id n stream =
     io_bind (feed_all c key upload_id n [] [] (fst stream)) (\<lambda>(parts, buffer).
       if snd stream then io_raise Stream_broken
       else if buffer = [] then io_return parts
       else io_bind (upload_part c key upload_id (length parts + 1) buffer) (\<lambda>p. io_return (parts @ [p])))"

section \<open>Upload\<close>

definition abort_upload :: "'s s3_client \<Rightarrow> string \<Rightarrow> string \<Rightarrow> ('s, unit) s3_io" where
  "abort_upload c key upload_id =
     io_bind (s3_call c (Abort_multipart key upload_id)) (\<lambda>_. io_return ())"

definition ignoring :: "('s, unit) s3_io \<Rightarrow> ('s, unit) s3_io" where
  "ignoring m = io_catch m (\<lambda>_. io_return ())"

text \<open>After a refused claim of the key, an object of the same owner there is the upload's own.\<close>

definition accept_own ::
  "'s s3_client \<Rightarrow> string \<Rightarrow> (string \<times> string) list \<Rightarrow> int option \<Rightarrow> s3_error \<Rightarrow> ('s, unit) s3_io" where
  "accept_own c key metadata n e =
     io_bind (head_object c key) (\<lambda>existing.
       case existing of None \<Rightarrow> io_raise e | Some j \<Rightarrow> io_lift (require_same_object key j metadata n))"

definition put_empty ::
  "'s s3_client \<Rightarrow> string \<Rightarrow> string \<Rightarrow> (string \<times> string) list \<Rightarrow> int option \<Rightarrow> ('s, unit) s3_io" where
  "put_empty c key upload_id metadata n =
     io_bind (abort_upload c key upload_id) (\<lambda>_.
       io_catch (io_bind (s3_call c (Put_empty key metadata)) (\<lambda>_. io_return ()))
         (accept_own c key metadata n))"

definition complete_upload ::
  "'s s3_client \<Rightarrow> string \<Rightarrow> string \<Rightarrow> (json \<times> nat) list \<Rightarrow> (string \<times> string) list \<Rightarrow> int option \<Rightarrow> ('s, unit) s3_io" where
  "complete_upload c key upload_id parts metadata n =
     io_catch (io_bind (s3_call c (Complete_multipart key upload_id parts)) (\<lambda>_. io_return ()))
       (\<lambda>e. io_bind (ignoring (abort_upload c key upload_id)) (\<lambda>_. accept_own c key metadata n e))"

definition s3_transfer ::
  "'s s3_client \<Rightarrow> nat \<Rightarrow> string \<Rightarrow> string \<Rightarrow> byte_stream \<Rightarrow> (string \<times> string) list \<Rightarrow> int option \<Rightarrow> ('s, unit) s3_io" where
  "s3_transfer c part key upload_id stream metadata n =
     io_catch
       (io_bind (upload_parts c key upload_id part stream) (\<lambda>parts.
          if parts = [] then put_empty c key upload_id metadata n
          else complete_upload c key upload_id parts metadata n))
       (\<lambda>e. io_bind (ignoring (abort_upload c key upload_id)) (\<lambda>_. io_raise e))"

definition s3_key :: "string \<Rightarrow> string \<Rightarrow> string" where
  "s3_key folder filename = lstrip_by (\<lambda>c. c = CHR ''/'') (join_child folder filename)"

definition s3_upload ::
  "'s s3_client \<Rightarrow> nat \<Rightarrow> string \<Rightarrow> string \<Rightarrow> byte_stream \<Rightarrow> int option \<Rightarrow> string \<Rightarrow> string \<Rightarrow> ('s, string) s3_io" where
  "s3_upload c part folder filename stream n recording_id content_identity =
     (let key = s3_key folder filename; metadata = owner_metadata recording_id content_identity in
      io_bind (head_object c key) (\<lambda>existing.
        case existing of
          Some j \<Rightarrow> io_bind (io_lift (require_same_object key j metadata n)) (\<lambda>_. io_return (CHR ''/'' # key))
        | None \<Rightarrow>
            io_bind (s3_call c (Create_multipart key metadata)) (\<lambda>created.
              case jget ''UploadId'' created of
                JStr upload_id \<Rightarrow>
                  if upload_id = '''' then io_raise No_upload_id
                  else io_bind (s3_transfer c part key upload_id stream metadata n) (\<lambda>_.
                       io_return (CHR ''/'' # key))
              | _ \<Rightarrow> io_raise No_upload_id)))"

definition s3_share_link :: "'s s3_client \<Rightarrow> string \<Rightarrow> ('s, json) s3_io" where
  "s3_share_link c path = s3_call c (Presign (lstrip_by (\<lambda>x. x = CHR ''/'') path) 604800)"

section \<open>The reference cut\<close>

text \<open>What the parts of a text are: \<open>n\<close> bytes each, the last one what is left.\<close>

function cut :: "nat \<Rightarrow> string \<Rightarrow> string list" where
  "cut n xs = (if xs = [] \<or> n = 0 then [] else take n xs # cut n (drop n xs))"
  by pat_completeness auto
termination by (relation "measure (\<lambda>(n, xs). length xs)") auto

declare cut.simps [simp del]

lemma cut_Nil [simp]: "cut n [] = []"
  by (simp add: cut.simps[of n "[]"])

lemma cut_step: "0 < n \<Longrightarrow> xs \<noteq> [] \<Longrightarrow> cut n xs = take n xs # cut n (drop n xs)"
  by (simp add: cut.simps[of n xs])

lemma concat_cut: "0 < n \<Longrightarrow> concat (cut n xs) = xs"
proof (induction n xs rule: cut.induct)
  case (1 n xs)
  then show ?case by (cases "xs = []") (simp_all add: cut_step)
qed

lemma cut_lengths: "ys \<in> set (butlast (cut n xs)) \<Longrightarrow> length ys = n"
proof (induction n xs rule: cut.induct)
  case (1 n xs)
  show ?case
  proof (cases "xs = [] \<or> n = 0")
    case True
    then show ?thesis using 1(2) by (simp add: cut.simps[of n xs])
  next
    case False
    then have step: "cut n xs = take n xs # cut n (drop n xs)" by (simp add: cut_step)
    have long: "cut n (drop n xs) \<noteq> [] \<Longrightarrow> n < length xs" by (cases "n < length xs") auto
    show ?thesis
    proof (cases "cut n (drop n xs) = []")
      case True
      then show ?thesis using 1(2) by (simp add: step)
    next
      case more: False
      then have "ys = take n xs \<or> ys \<in> set (butlast (cut n (drop n xs)))"
        using 1(2) by (simp add: step)
      then show ?thesis using 1(1) False long[OF more] by auto
    qed
  qed
qed

text \<open>A full buffer in front of the rest is the first part.\<close>

lemma cut_full: "0 < n \<Longrightarrow> length b = n \<Longrightarrow> cut n (b @ xs) = b # cut n xs"
  by (subst cut_step) auto

lemma cut_short: "length b < n \<Longrightarrow> cut n b = (if b = [] then [] else [b])"
  by (simp add: cut_step)

lemma cut_bodies:
  "0 < n \<Longrightarrow> \<forall>b\<in>set bs. length b = n \<Longrightarrow> cut n (concat bs @ xs) = bs @ cut n xs"
  by (induction bs) (simp_all add: cut_full)

section \<open>The multipart loop cuts like the reference\<close>

fun part_requests :: "string \<Rightarrow> string \<Rightarrow> nat \<Rightarrow> string list \<Rightarrow> s3_request list" where
  "part_requests key upload_id k [] = []"
| "part_requests key upload_id k (b # bs) =
     Upload_part key upload_id (k + 1) b # part_requests key upload_id (k + 1) bs"

lemma part_requests_append:
  "part_requests key i k (bs @ cs) = part_requests key i k bs @ part_requests key i (k + length bs) cs"
  by (induction bs arbitrary: k) auto

lemma s3_call_run: "s3_call c q s = (v, s1) \<Longrightarrow> snd s1 = snd s @ [q]"
  by (auto simp: s3_call_def split: prod.splits sum.splits)

lemma upload_part_run:
  assumes "upload_part c key i k b s = (Inr p, s1)"
  shows "snd s1 = snd s @ [Upload_part key i k b]"
proof -
  obtain r s2 where r: "s3_call c (Upload_part key i k b) s = (Inr r, s2)"
    and rest: "(case jget ''ETag'' r of
        JStr t \<Rightarrow> if t = '''' then io_raise (No_etag k) else io_return (JStr t, k)
      | _ \<Rightarrow> io_raise (No_etag k)) s2 = (Inr p, s1)"
    using assms unfolding upload_part_def io_bind_Inr_iff by blast
  have "s1 = s2" using rest by (cases "jget ''ETag'' r") (auto split: if_splits)
  then show ?thesis using s3_call_run[OF r] by simp
qed

text \<open>What was uploaded from a text: full bodies, numbered on, and a short remainder.\<close>

definition fed ::
  "string \<Rightarrow> string \<Rightarrow> nat \<Rightarrow> (json \<times> nat) list \<Rightarrow> string \<Rightarrow> 's \<times> s3_request list \<Rightarrow>
   (json \<times> nat) list \<Rightarrow> string \<Rightarrow> 's \<times> s3_request list \<Rightarrow> bool" where
  "fed key i n parts text s parts1 buffer1 s1 \<longleftrightarrow> (\<exists>bs. (\<forall>b\<in>set bs. length b = n) \<and> text = concat bs @ buffer1 \<and>
     length buffer1 < n \<and> length parts1 = length parts + length bs \<and>
     snd s1 = snd s @ part_requests key i (length parts) bs)"

lemma fed_none: "length buffer < n \<Longrightarrow> fed key i n parts buffer s parts buffer s"
  by (auto simp: fed_def intro: exI[of _ "[]"])

lemma fed_body:
  assumes "length b = n" and "snd s1 = snd s @ [Upload_part key i (length parts + 1) b]"
    and "fed key i n (parts @ [p]) text s1 parts2 buffer2 s2"
  shows "fed key i n parts (b @ text) s parts2 buffer2 s2"
proof -
  obtain bs where "\<forall>x\<in>set bs. length x = n" "text = concat bs @ buffer2" "length buffer2 < n"
    "length parts2 = length parts + 1 + length bs" "snd s2 = snd s1 @ part_requests key i (length parts + 1) bs"
    using assms(3) by (auto simp: fed_def)
  then show ?thesis using assms(1,2) by (auto simp: fed_def intro!: exI[of _ "b # bs"])
qed

lemma fed_trans:
  assumes "fed key i n parts t s parts1 buffer1 s1" and "fed key i n parts1 (buffer1 @ u) s1 parts2 buffer2 s2"
  shows "fed key i n parts (t @ u) s parts2 buffer2 s2"
proof -
  obtain bs where one: "\<forall>x\<in>set bs. length x = n" "t = concat bs @ buffer1" "length parts1 = length parts + length bs"
    "snd s1 = snd s @ part_requests key i (length parts) bs" using assms(1) by (auto simp: fed_def)
  obtain cs where two: "\<forall>x\<in>set cs. length x = n" "buffer1 @ u = concat cs @ buffer2" "length buffer2 < n"
    "length parts2 = length parts1 + length cs" "snd s2 = snd s1 @ part_requests key i (length parts1) cs"
    using assms(2) by (auto simp: fed_def)
  show ?thesis
    unfolding fed_def using one two by (intro exI[of _ "bs @ cs"]) (auto simp: part_requests_append)
qed

lemma feed_run:
  assumes "feed c key i n parts buffer chunk s = (Inr (parts1, buffer1), s1)" and "length buffer < n"
  shows "fed key i n parts (buffer @ chunk) s parts1 buffer1 s1"
  using assms
proof (induction c key i n parts buffer chunk arbitrary: s rule: feed.induct)
  case (1 c key i n parts buffer chunk)
  define got where "got = min (n - length buffer) (length chunk)"
  define filled where "filled = buffer @ take got chunk"
  have joined: "buffer @ chunk = filled @ drop got chunk" by (simp add: filled_def)
  show ?case
  proof (cases "chunk = []")
    case True
    then show ?thesis using 1(3,4) by (auto simp: feed.simps intro: fed_none)
  next
    case False
    then have go: "\<not> (chunk = [] \<or> n \<le> length buffer)" using 1(4) by simp
    note step = feed.simps[of c key i n parts buffer chunk, unfolded Let_def, folded got_def, folded filled_def]
    show ?thesis
    proof (cases "length filled = n")
      case True
      then obtain p s2 where up: "upload_part c key i (length parts + 1) filled s = (Inr p, s2)"
        and rest: "feed c key i n (parts @ [p]) [] (drop got chunk) s2 = (Inr (parts1, buffer1), s1)"
        using 1(3) go by (auto simp: step io_bind_Inr_iff)
      have "fed key i n (parts @ [p]) ([] @ drop got chunk) s2 parts1 buffer1 s1"
        using 1(1)[OF go got_def filled_def True rest] 1(4) by simp
      then show ?thesis
        using fed_body[OF True upload_part_run[OF up]] by (simp add: joined)
    next
      case False
      then have rest: "feed c key i n parts filled (drop got chunk) s = (Inr (parts1, buffer1), s1)"
        using 1(3) go by (simp add: step)
      have "length filled < n" using False 1(4) by (simp add: filled_def got_def)
      then show ?thesis using 1(2)[OF go got_def filled_def False rest] by (simp add: joined)
    qed
  qed
qed

lemma feed_all_run:
  assumes "feed_all c key i n parts buffer chunks s = (Inr (parts1, buffer1), s1)" and "length buffer < n"
  shows "fed key i n parts (buffer @ concat chunks) s parts1 buffer1 s1"
  using assms
proof (induction chunks arbitrary: parts buffer s)
  case Nil
  then show ?case by (auto intro: fed_none)
next
  case (Cons chunk chunks)
  then obtain parts2 buffer2 s2 where one: "feed c key i n parts buffer chunk s = (Inr (parts2, buffer2), s2)"
    and rest: "feed_all c key i n parts2 buffer2 chunks s2 = (Inr (parts1, buffer1), s1)"
    by (auto simp: io_bind_Inr_iff)
  have f: "fed key i n parts (buffer @ chunk) s parts2 buffer2 s2" by (rule feed_run[OF one Cons.prems(2)])
  then have "length buffer2 < n" by (auto simp: fed_def)
  from fed_trans[OF f Cons.IH[OF rest this]] show ?case by simp
qed

lemma upload_parts_run:
  assumes "upload_parts c key i n stream s = (Inr parts, s1)" and "0 < n"
  shows "\<not> snd stream \<and> length parts = length (cut n (concat (fst stream))) \<and>
    snd s1 = snd s @ part_requests key i 0 (cut n (concat (fst stream)))"
proof -
  obtain parts1 buffer1 s2 where all: "feed_all c key i n [] [] (fst stream) s = (Inr (parts1, buffer1), s2)"
    and rest: "(if snd stream then io_raise Stream_broken
      else if buffer1 = [] then io_return parts1
      else io_bind (upload_part c key i (length parts1 + 1) buffer1) (\<lambda>p. io_return (parts1 @ [p]))) s2 = (Inr parts, s1)"
    using assms(1) by (auto simp: upload_parts_def io_bind_Inr_iff)
  obtain bs where bs: "\<forall>b\<in>set bs. length b = n" "concat (fst stream) = concat bs @ buffer1" "length buffer1 < n"
    "length parts1 = length bs" "snd s2 = snd s @ part_requests key i 0 bs"
    using feed_all_run[OF all] assms(2) by (auto simp: fed_def)
  have cut: "cut n (concat (fst stream)) = bs @ (if buffer1 = [] then [] else [buffer1])"
    using bs(1-3) assms(2) by (simp add: cut_bodies cut_short)
  show ?thesis
  proof (cases "buffer1 = []")
    case True
    then show ?thesis using rest bs cut by (auto split: if_splits)
  next
    case False
    then obtain p where up: "upload_part c key i (length parts1 + 1) buffer1 s2 = (Inr p, s1)" "parts = parts1 @ [p]"
      "\<not> snd stream" using rest by (auto simp: io_bind_Inr_iff split: if_splits)
    show ?thesis
      using upload_part_run[OF up(1)] up bs cut False by (simp add: part_requests_append)
  qed
qed

section \<open>Uploads\<close>

fun is_part :: "s3_request \<Rightarrow> bool" where
  "is_part (Upload_part _ _ _ _) = True"
| "is_part _ = False"

text \<open>The parts uploaded so far.\<close>

definition parts_sent :: "'s \<times> s3_request list \<Rightarrow> s3_request list" where
  "parts_sent s = filter is_part (snd s)"

lemma parts_sent_requests [simp]: "filter is_part (part_requests key i k bs) = part_requests key i k bs"
  by (induction bs arbitrary: k) auto

lemma keeps_s3_call [keeps_rules]: "\<not> is_part q \<Longrightarrow> keeps (\<lambda>s. parts_sent s = ps) (s3_call c q)"
  by (rule keepsI) (auto simp: parts_sent_def dest: s3_call_run)

lemma keeps_s3 [keeps_rules]:
  "keeps (\<lambda>s. parts_sent s = ps) (head_object c key)" "keeps (\<lambda>s. parts_sent s = ps) (abort_upload c key i)"
  by (auto simp: head_object_def abort_upload_def intro!: keeps_rules)

lemma keeps_claims [keeps_rules]:
  "keeps (\<lambda>s. parts_sent s = ps) (accept_own c key metadata n e)"
  "keeps (\<lambda>s. parts_sent s = ps) (put_empty c key i metadata n)"
  "keeps (\<lambda>s. parts_sent s = ps) (complete_upload c key i parts metadata n)"
  by (auto simp: accept_own_def put_empty_def complete_upload_def ignoring_def intro!: keeps_rules)

lemma s3_transfer_run:
  assumes "s3_transfer c part key i stream metadata n s = (Inr u, s1)" and "0 < part"
  shows "\<not> snd stream \<and> parts_sent s1 = parts_sent s @ part_requests key i 0 (cut part (concat (fst stream)))"
proof -
  let ?claim = "\<lambda>parts. if parts = [] then put_empty c key i metadata n else complete_upload c key i parts metadata n"
  have claims: "keeps (\<lambda>s. parts_sent s = ps) (?claim parts)" for ps parts by (auto intro: keeps_claims)
  obtain parts s2 where up: "upload_parts c key i part stream s = (Inr parts, s2)"
    and rest: "?claim parts s2 = (Inr u, s1)"
    using assms(1)
    by (auto simp: s3_transfer_def io_catch_app io_bind_app ignoring_def split: sum.splits prod.splits)
  note run = upload_parts_run[OF up assms(2)]
  have "parts_sent s1 = parts_sent s2" using keepsD[OF claims refl rest] .
  then show ?thesis using run by (simp add: parts_sent_def)
qed

section \<open>Properties\<close>

text \<open>
  Property C2.  An upload that finds nothing at its key and returns has received the whole stream and
  uploaded, in order and numbered from one, exactly the parts of the reference cut of its content,
  however the stream was divided into chunks: parts of the part size and a shorter last one, which
  together are the content.
\<close>

theorem multipart_is_the_reference_cut:
  assumes "s3_upload c part folder filename stream n recording_id content_identity s = (Inr path, s1)"
    and "head_object c (s3_key folder filename) s = (Inr None, s2)" and "0 < part"
  shows "\<not> snd stream \<and> path = CHR ''/'' # s3_key folder filename \<and>
    concat (cut part (concat (fst stream))) = concat (fst stream) \<and>
    (\<forall>b\<in>set (butlast (cut part (concat (fst stream)))). length b = part) \<and>
    (\<exists>i. parts_sent s1 = parts_sent s @
       part_requests (s3_key folder filename) i 0 (cut part (concat (fst stream))))"
proof -
  let ?key = "s3_key folder filename" and ?meta = "owner_metadata recording_id content_identity"
  obtain created s3 where made: "s3_call c (Create_multipart ?key ?meta) s2 = (Inr created, s3)"
    and rest: "(case jget ''UploadId'' created of
        JStr i \<Rightarrow> if i = '''' then io_raise No_upload_id
          else io_bind (s3_transfer c part ?key i stream ?meta n) (\<lambda>_. io_return (CHR ''/'' # ?key))
      | _ \<Rightarrow> io_raise No_upload_id) s3 = (Inr path, s1)"
    using assms(1,2) by (auto simp: s3_upload_def Let_def io_bind_app split: sum.splits prod.splits)
  then obtain i u where tr: "s3_transfer c part ?key i stream ?meta n s3 = (Inr u, s1)" and path: "path = CHR ''/'' # ?key"
    by (cases "jget ''UploadId'' created") (auto simp: io_bind_Inr_iff split: if_splits)
  have "parts_sent s3 = parts_sent s2" using made by (auto simp: parts_sent_def dest: s3_call_run)
  moreover have "parts_sent s2 = parts_sent s" using keepsD[OF keeps_s3(1) refl assms(2)] .
  ultimately show ?thesis
    using s3_transfer_run[OF tr assms(3)] path concat_cut[OF assms(3)] cut_lengths by auto
qed

section \<open>A store\<close>

fun demo_s3_answer :: "s3_request \<Rightarrow> nat \<Rightarrow> (s3_fault + json) \<times> nat" where
  "demo_s3_answer (Head_object k) n = (Inl (Fault (Some ''404'')), n)"
| "demo_s3_answer (Create_multipart k m) n = (Inr (JObj [(''UploadId'', JStr ''i'')]), n)"
| "demo_s3_answer (Upload_part k i m b) n = (Inr (JObj [(''ETag'', JStr ''e'')]), n)"
| "demo_s3_answer q n = (Inr (JObj []), n)"

theorem multipart_witness:
  "\<exists>s1 i. s3_upload \<lparr>s3_answer = demo_s3_answer\<rparr> 2 ''/b/'' ''v'' ([''ab'', '''', ''cde''], False) (Some 5) ''1'' ''ci'' (0, []) =
      (Inr ''/b/v'', s1) \<and> parts_sent s1 = part_requests ''b/v'' i 0 [''ab'', ''cd'', ''e'']"
proof -
  let ?c = "\<lparr>s3_answer = demo_s3_answer\<rparr>"
  let ?run = "s3_upload ?c 2 ''/b/'' ''v'' ([''ab'', '''', ''cde''], False) (Some 5) ''1'' ''ci'' (0, [])"
  have key: "s3_key ''/b/'' ''v'' = ''b/v''" by code_simp
  have cut: "cut 2 (concat [''ab'', '''', ''cde'']) = [''ab'', ''cd'', ''e'']"
    by (simp add: cut_step)
  have head: "head_object ?c (s3_key ''/b/'' ''v'') (0, []) = (Inr None, (0, [Head_object (s3_key ''/b/'' ''v'')]))"
    by (simp add: head_object_def io_apps s3_call_def missing_code_def)
  have create: "s3_call ?c (Create_multipart k m) (0, log) = (Inr (JObj [(''UploadId'', JStr ''i'')]), (0, log @ [Create_multipart k m]))" for k m log
    by (simp add: s3_call_def)
  have part: "upload_part ?c k i m b (0, log) = (Inr (JStr ''e'', m), (0, log @ [Upload_part k i m b]))" for k i m b log
    by (simp add: upload_part_def s3_call_def io_bind_app)
  have "fst ?run = Inr ''/b/v''"
    by (simp add: s3_upload_def Let_def io_bind_app head create s3_transfer_def upload_parts_def feed.simps part
        complete_upload_def s3_call_def io_catch_app) (simp add: key)
  then obtain s1 where run: "?run = (Inr ''/b/v'', s1)" by (metis prod.collapse)
  show ?thesis
    using multipart_is_the_reference_cut[OF run head] run cut key by (auto simp: parts_sent_def)
qed

end
