(* ===== verification/Mail.thy ===== *)
theory Mail
imports Tables Recording
begin

text \<open>
  \<open>app/tools/mail_imap.py\<close> and \<open>app/services/summary_email.py\<close>: looking for the mail that summarises a
  recording's call.  The mail server behind \<open>imaplib\<close> is a parameter answering the commands the code
  gives; so are the decoding of bytes, of headers and of entities, and the groups of the regular
  expression for the Cyrillic line that states when the call began.
\<close>

section \<open>The mail server\<close>

text \<open>A status other than OK, an error of the protocol, or a broken connection.\<close>

datatype 'a imap_reply = Done 'a | Refused | Protocol_error | Broken

datatype imap_command =
    Imap_connect string
  | Imap_login string string
  | Imap_select
  | Imap_search date "string option"
  | Imap_close
  | Imap_logout

text \<open>A part of a message: its type, file name, payload in bytes if it decodes, raw payload and charset.\<close>

record mail_part =
  mp_type :: string
  mp_filename :: "string option"
  mp_payload :: "string option"
  mp_raw :: string
  mp_charset :: "string option"

record mime =
  mi_message_id :: "string option"
  mi_subject :: "string option"
  mi_from :: "string option"
  mi_date :: "string option"
  mi_multipart :: bool
  mi_parts :: "mail_part list"

text \<open>\<open>im_search\<close> and the commands share \<open>im_do\<close>: a search answers the message numbers, oldest first.\<close>

record 'h imap =
  im_do :: "imap_command \<Rightarrow> 'h \<Rightarrow> string list imap_reply \<times> 'h"
  im_fetch :: "string \<Rightarrow> 'h \<Rightarrow> mime option imap_reply \<times> 'h"
  im_decode :: "string \<Rightarrow> string \<Rightarrow> string option"
  im_header :: "string \<Rightarrow> (string \<times> string option + string) list option"
  im_date :: "string \<Rightarrow> instant option"
  im_unescape :: "string \<Rightarrow> string"
  im_started :: "string \<Rightarrow> (nat \<times> nat \<times> nat \<times> nat \<times> nat) option"

datatype mail_error = Mail_connection | Mail_auth | Mail_search | Mail_escaped

definition transient_mail :: "mail_error \<Rightarrow> bool" where
  "transient_mail e \<longleftrightarrow> e = Mail_connection"

type_synonym ('h, 'a) mail_io = "('h, mail_error, 'a) io"

record mail_message =
  mm_message_id :: string
  mm_subject :: string
  mm_sender :: string
  mm_received_at :: instant
  mm_body :: string

section \<open>Bodies\<close>

definition word_char :: "char \<Rightarrow> bool" where
  "word_char c = (let n = (of_char c :: nat) in
     (48 \<le> n \<and> n \<le> 57) \<or> (65 \<le> n \<and> n \<le> 90) \<or> n = 95 \<or> (97 \<le> n \<and> n \<le> 122) \<or> n \<in> {170, 178, 179, 181, 185, 186, 188, 189, 190} \<or>
     (192 \<le> n \<and> n \<noteq> 215 \<and> n \<noteq> 247))"

text \<open>What follows the first occurrence of a text, compared in lower case.\<close>

fun after_text :: "string \<Rightarrow> string \<Rightarrow> string option" where
  "after_text p [] = None"
| "after_text p (c # cs) =
     (if prefix p (lower_text (c # cs)) then Some (drop (length p) (c # cs)) else after_text p cs)"

text \<open>After a style or script block that starts here: \<open><(style|script)\b[^>]*>.*?</\1>\<close>.\<close>

definition block_end :: "string \<Rightarrow> string \<Rightarrow> string option" where
  "block_end name s =
     (let n = length name + 1; rest = drop n s in
      if prefix (CHR ''<'' # name) (lower_text s) \<and> (rest = '''' \<or> \<not> word_char (hd rest)) \<and> CHR ''>'' \<in> set rest
      then after_text (''</'' @ name @ ''>'') (tl (dropWhile (\<lambda>c. c \<noteq> CHR ''>'') rest))
      else None)"

definition style_or_script_end :: "string \<Rightarrow> string option" where
  "style_or_script_end s = (case block_end ''style'' s of Some r \<Rightarrow> Some r | None \<Rightarrow> block_end ''script'' s)"

text \<open>After a tag that starts here: \<open><[^>]+>\<close>.\<close>

definition tag_end :: "string \<Rightarrow> string option" where
  "tag_end s =
     (if prefix ''<'' s \<and> CHR ''>'' \<in> set (tl s) \<and> takeWhile (\<lambda>c. c \<noteq> CHR ''>'') (tl s) \<noteq> ''''
      then Some (tl (dropWhile (\<lambda>c. c \<noteq> CHR ''>'') (tl s))) else None)"

definition blank :: "char \<Rightarrow> bool" where "blank c \<longleftrightarrow> c = CHR '' '' \<or> c = CHR 0x09"
definition newline :: "char \<Rightarrow> bool" where "newline c \<longleftrightarrow> c = CHR 0x0A"

definition blanks_end :: "string \<Rightarrow> string option" where
  "blanks_end s = (if s \<noteq> '''' \<and> blank (hd s) then Some (dropWhile blank s) else None)"

text \<open>After empty lines that start here: \<open>[ \t]*\n[ \t]*\n+\<close>.\<close>

definition empty_lines_end :: "string \<Rightarrow> string option" where
  "empty_lines_end s =
     (let a = dropWhile blank s; b = dropWhile blank (tl a) in
      if a \<noteq> '''' \<and> newline (hd a) \<and> b \<noteq> '''' \<and> newline (hd b) then Some (dropWhile newline b) else None)"

text \<open>
  \<open>re.sub\<close>: \<open>m\<close> gives what is left after a match at the start of a text.  A match is not empty, so the
  length of the text bounds the number of steps.
\<close>

fun sub_at :: "nat \<Rightarrow> (string \<Rightarrow> string option) \<Rightarrow> string \<Rightarrow> string \<Rightarrow> string" where
  "sub_at n m r [] = []"
| "sub_at 0 m r s = s"
| "sub_at (Suc n) m r (c # cs) =
     (case m (c # cs) of Some rest \<Rightarrow> r @ sub_at n m r rest | None \<Rightarrow> c # sub_at n m r cs)"

definition sub_all :: "(string \<Rightarrow> string option) \<Rightarrow> string \<Rightarrow> string \<Rightarrow> string" where
  "sub_all m r s = sub_at (length s) m r s"

definition html_to_text :: "'h imap \<Rightarrow> string \<Rightarrow> string" where
  "html_to_text im markup =
     (let without_style = sub_all style_or_script_end '' '' markup;
          without_tags = sub_all tag_end '' '' without_style;
          collapsed = sub_all blanks_end '' '' (im_unescape im without_tags)
      in py_strip (sub_all empty_lines_end [CHR 0x0A, CHR 0x0A] collapsed))"

definition decode_payload :: "'h imap \<Rightarrow> mail_part \<Rightarrow> string" where
  "decode_payload im p =
     (case mp_payload p of
        None \<Rightarrow> mp_raw p
      | Some bytes \<Rightarrow>
          (case im_decode im (if truthy (mp_charset p) then the (mp_charset p) else ''utf-8'') bytes of
             Some t \<Rightarrow> t
           | None \<Rightarrow> opt_or (im_decode im ''utf-8'' bytes) ''''))"

definition inline_part :: "string \<Rightarrow> mail_part \<Rightarrow> bool" where
  "inline_part kind p \<longleftrightarrow> mp_type p = kind \<and> \<not> truthy (mp_filename p)"

text \<open>The first inline plain text, or the first inline HTML.\<close>

definition extract_body :: "'h imap \<Rightarrow> mime \<Rightarrow> string" where
  "extract_body im m =
     (if mi_multipart m
      then (case find (inline_part ''text/plain'') (mi_parts m) of
              Some p \<Rightarrow> decode_payload im p
            | None \<Rightarrow>
                (case find (inline_part ''text/html'') (mi_parts m) of
                   Some p \<Rightarrow> html_to_text im (decode_payload im p)
                 | None \<Rightarrow> ''''))
      else case mi_parts m of
        [] \<Rightarrow> ''''
      | p # _ \<Rightarrow> if mp_type p = ''text/html'' then html_to_text im (decode_payload im p) else decode_payload im p)"

definition decode_header_value :: "'h imap \<Rightarrow> string option \<Rightarrow> string" where
  "decode_header_value im v =
     (if \<not> truthy v then ''''
      else case im_header im (the v) of
        None \<Rightarrow> the v
      | Some parts \<Rightarrow> concat (map (\<lambda>part. case part of
            Inr t \<Rightarrow> t
          | Inl (bytes, charset) \<Rightarrow>
              (case im_decode im (if truthy charset then the charset else ''utf-8'') bytes of
                 Some t \<Rightarrow> t | None \<Rightarrow> opt_or (im_decode im ''utf-8'' bytes) '''')) parts))"

definition parse_mail_date :: "'h imap \<Rightarrow> instant \<Rightarrow> string option \<Rightarrow> instant" where
  "parse_mail_date im now v =
     (if truthy v then (case im_date im (the v) of Some t \<Rightarrow> t | None \<Rightarrow> now) else now)"

section \<open>One connection\<close>

definition fetch_message :: "'h imap \<Rightarrow> instant \<Rightarrow> string \<Rightarrow> ('h, mail_message option) mail_io" where
  "fetch_message im now raw_id = (\<lambda>h. case im_fetch im raw_id h of
      (Broken, h1) \<Rightarrow> (Inl Mail_escaped, h1)
    | (Done (Some m), h1) \<Rightarrow> (Inr (Some
        \<lparr>mm_message_id = (if truthy (mi_message_id m) then the (mi_message_id m) else raw_id),
         mm_subject = decode_header_value im (mi_subject m), mm_sender = decode_header_value im (mi_from m),
         mm_received_at = parse_mail_date im now (mi_date m), mm_body = extract_body im m\<rparr>), h1)
    | (_, h1) \<Rightarrow> (Inr None, h1))"

definition MAX_MESSAGES_PER_SEARCH :: nat where "MAX_MESSAGES_PER_SEARCH = 25"

definition last_ids :: "string list \<Rightarrow> string list" where
  "last_ids ids = drop (length ids - MAX_MESSAGES_PER_SEARCH) ids"

text \<open>\<open>on\<close> says which replies raise what.\<close>

definition imap_do ::
  "'h imap \<Rightarrow> imap_command \<Rightarrow> (string list imap_reply \<Rightarrow> mail_error + string list) \<Rightarrow> ('h, string list) mail_io" where
  "imap_do im c on = (\<lambda>h. case im_do im c h of (r, h1) \<Rightarrow> (on r, h1))"

fun must_connect :: "string list imap_reply \<Rightarrow> mail_error + string list" where
  "must_connect (Done xs) = Inr xs"
| "must_connect _ = Inl Mail_connection"

fun must_login :: "string list imap_reply \<Rightarrow> mail_error + string list" where
  "must_login (Done xs) = Inr xs"
| "must_login Broken = Inl Mail_escaped"
| "must_login _ = Inl Mail_auth"

fun must_select :: "string list imap_reply \<Rightarrow> mail_error + string list" where
  "must_select (Done xs) = Inr xs"
| "must_select Refused = Inl Mail_search"
| "must_select _ = Inl Mail_escaped"

fun must_search :: "string list imap_reply \<Rightarrow> mail_error + string list" where
  "must_search (Done xs) = Inr xs"
| "must_search Broken = Inl Mail_escaped"
| "must_search _ = Inl Mail_search"

text \<open>\<open>finally\<close>: closing runs after the work; a broken connection while closing is the error that counts.\<close>

definition finally_do ::
  "'h imap \<Rightarrow> imap_command \<Rightarrow> bool \<Rightarrow> ('h, 'a) mail_io \<Rightarrow> ('h, 'a) mail_io" where
  "finally_do im c quiet work = (\<lambda>h. case work h of (v, h1) \<Rightarrow>
     (case im_do im c h1 of (r, h2) \<Rightarrow> (if r = Broken \<and> \<not> quiet then Inl Mail_escaped else v, h2)))"

definition with_inbox ::
  "'h imap \<Rightarrow> string \<Rightarrow> string \<Rightarrow> string \<Rightarrow> date \<Rightarrow> string option \<Rightarrow> (string list \<Rightarrow> ('h, 'a) mail_io) \<Rightarrow>
   ('h, 'a) mail_io" where
  "with_inbox im host username password since from_contains work =
     io_bind (imap_do im (Imap_connect host) must_connect) (\<lambda>_.
     finally_do im Imap_logout True
      (io_bind (imap_do im (Imap_login username password) must_login) (\<lambda>_.
       finally_do im Imap_close False
        (io_bind (imap_do im Imap_select must_select) (\<lambda>_.
         io_bind (imap_do im (Imap_search since from_contains) must_search) work)))))"

fun first_with_id :: "'h imap \<Rightarrow> instant \<Rightarrow> string \<Rightarrow> string list \<Rightarrow> ('h, mail_message option) mail_io" where
  "first_with_id im now message_id [] = io_return None"
| "first_with_id im now message_id (i # is) =
     io_bind (fetch_message im now i) (\<lambda>m.
       if map_option mm_message_id m = Some message_id then io_return m
       else first_with_id im now message_id is)"

definition fetch_by_message_id ::
  "'h imap \<Rightarrow> instant \<Rightarrow> string \<Rightarrow> string \<Rightarrow> string \<Rightarrow> string \<Rightarrow> instant \<Rightarrow> ('h, mail_message option) mail_io" where
  "fetch_by_message_id im now host username password message_id since =
     with_inbox im host username password (utc_date since) None
       (\<lambda>ids. first_with_id im now message_id (rev (last_ids ids)))"

fun all_with_body :: "'h imap \<Rightarrow> instant \<Rightarrow> string \<Rightarrow> string list \<Rightarrow> ('h, mail_message list) mail_io" where
  "all_with_body im now part [] = io_return []"
| "all_with_body im now part (i # is) =
     io_bind (fetch_message im now i) (\<lambda>m.
     io_bind (all_with_body im now part is) (\<lambda>ms.
       io_return (case m of Some x \<Rightarrow> if sublist part (mm_body x) then x # ms else ms | None \<Rightarrow> ms)))"

definition search_inbox ::
  "'h imap \<Rightarrow> instant \<Rightarrow> string \<Rightarrow> string \<Rightarrow> string \<Rightarrow> instant \<Rightarrow> string \<Rightarrow> string \<Rightarrow> ('h, mail_message list) mail_io" where
  "search_inbox im now host username password since from_contains body_contains =
     with_inbox im host username password (utc_date since) (Some from_contains)
       (\<lambda>ids. all_with_body im now body_contains (last_ids ids))"

section \<open>The summary of a call\<close>

datatype summary_outcome =
    Summary_found mail_message
  | Summary_not_found
  | Summary_ambiguous "mail_message list"
  | Summary_unavailable

definition MAX_AMBIGUOUS_CANDIDATES :: nat where "MAX_AMBIGUOUS_CANDIDATES = 10"
definition START_TIME_TOLERANCE :: int where "START_TIME_TOLERANCE = minutes 20"

definition TELEMOST_KEEPER_SENDER :: string where "TELEMOST_KEEPER_SENDER = ''keeper@telemost.yandex.ru''"

text \<open>The days from 1970-01-01 to a date, in the years that begin in March; \<open>utc_date\<close> undoes it.\<close>

definition civil_days :: "date \<Rightarrow> int" where
  "civil_days dt = (case dt of (y, m, d) \<Rightarrow>
     (let y1 = int y - (if m \<le> 2 then 1 else 0); era = y1 div 400; yoe = y1 mod 400;
          mp = (int m + 9) mod 12; doy = (153 * mp + 2) div 5 + int d - 1
      in era * 146097 + yoe * 365 + yoe div 4 - yoe div 100 + doy - 719468))"

text \<open>The start a mail states, in Moscow time, three hours ahead of UTC.\<close>

definition parse_started_at :: "'h imap \<Rightarrow> string \<Rightarrow> instant option" where
  "parse_started_at im body =
     (case im_started im body of
        None \<Rightarrow> None
      | Some (d, mo, y, h, mi) \<Rightarrow>
          if valid_local_time (y, mo, d, h, mi, 0)
          then Some (days (civil_days (y, mo, d)) + hours (int h) + minutes (int mi) - hours 3) else None)"

definition near_start :: "'h imap \<Rightarrow> instant \<Rightarrow> mail_message \<Rightarrow> bool" where
  "near_start im start m \<longleftrightarrow> (case parse_started_at im (mm_body m) of
      None \<Rightarrow> False | Some t \<Rightarrow> \<bar>t - start\<bar> \<le> START_TIME_TOLERANCE)"

definition disambiguate_by_start_time :: "'h imap \<Rightarrow> mail_message list \<Rightarrow> instant option \<Rightarrow> mail_message option" where
  "disambiguate_by_start_time im messages scheduled =
     (case scheduled of
        None \<Rightarrow> None
      | Some start \<Rightarrow> (case filter (near_start im start) messages of [m] \<Rightarrow> Some m | _ \<Rightarrow> None))"

definition mail_password :: "settings \<Rightarrow> recruiter_config \<Rightarrow> string option" where
  "mail_password st rc = map_of (st_yandex_mail_app_passwords st) (rc_email rc)"

definition summary_of :: "'h imap \<Rightarrow> instant option \<Rightarrow> mail_message list \<Rightarrow> summary_outcome" where
  "summary_of im scheduled messages =
     (case messages of
        [] \<Rightarrow> Summary_not_found
      | [m] \<Rightarrow> Summary_found m
      | _ \<Rightarrow> (case disambiguate_by_start_time im messages scheduled of
                Some m \<Rightarrow> Summary_found m
              | None \<Rightarrow> Summary_ambiguous (take MAX_AMBIGUOUS_CANDIDATES messages)))"

text \<open>Errors of the mail client become outcomes; others escape.\<close>

definition find_summary ::
  "'h imap \<Rightarrow> settings \<Rightarrow> instant \<Rightarrow> recording \<Rightarrow> recruiter_config \<Rightarrow> ('h, summary_outcome) mail_io" where
  "find_summary im st now r rc =
     (if \<not> truthy (mail_password st rc) \<or> \<not> truthy (r_calendar_telemost_url r)
      then io_return Summary_unavailable
      else
        io_catch
          (io_bind (search_inbox im now (st_summary_email_imap_host st) (rc_email rc) (the (mail_password st rc))
              (opt_or (r_calendar_dtstart r) (r_found_at r)) TELEMOST_KEEPER_SENDER (the (r_calendar_telemost_url r)))
            (\<lambda>messages. io_return (summary_of im (r_calendar_dtstart r) messages)))
          (\<lambda>e. if e = Mail_escaped then io_raise e
               else io_return (if transient_mail e then Summary_not_found else Summary_unavailable)))"

definition fetch_found_message ::
  "'h imap \<Rightarrow> settings \<Rightarrow> instant \<Rightarrow> recording \<Rightarrow> recruiter_config \<Rightarrow> ('h, mail_message option) mail_io" where
  "fetch_found_message im st now r rc =
     (if \<not> truthy (r_summary_email_message_id r) \<or> \<not> truthy (mail_password st rc) then io_return None
      else
        (let since = opt_or (r_summary_email_received_at r) (opt_or (r_calendar_dtstart r) (r_found_at r))
         in io_catch (fetch_by_message_id im now (st_summary_email_imap_host st) (rc_email rc)
              (the (mail_password st rc)) (the (r_summary_email_message_id r)) (since - days 1))
            (\<lambda>e. if e = Mail_escaped then io_raise e else io_return None)))"

definition search_deadline_exceeded :: "recording \<Rightarrow> instant \<Rightarrow> bool" where
  "search_deadline_exceeded r now \<longleftrightarrow>
     (case r_summary_email_search_deadline_at r of None \<Rightarrow> True | Some t \<Rightarrow> t \<le> now)"

section \<open>What is found\<close>

lemma civil_days_examples:
  "civil_days (1970, 1, 1) = 0" "civil_days (2024, 2, 29) = 19782" "civil_days (1969, 12, 31) = -1"
  by code_simp+

lemma all_with_body_sound:
  "all_with_body im now part ids h = (Inr ms, h1) \<Longrightarrow> \<forall>m\<in>set ms. sublist part (mm_body m)"
  by (induction ids arbitrary: ms h h1) (auto simp: io_bind_app split: sum.splits prod.splits option.splits if_splits)

lemma finally_do_Inr: "finally_do im c quiet work h = (Inr x, h1) \<Longrightarrow> \<exists>h2. work h = (Inr x, h2)"
  by (auto simp: finally_do_def split: prod.splits if_splits)

lemma with_inbox_Inr:
  "with_inbox im host u p since f work h = (Inr x, h1) \<Longrightarrow> \<exists>ids h2 h3. work ids h2 = (Inr x, h3)"
  by (fastforce simp: with_inbox_def io_bind_Inr_iff dest!: finally_do_Inr)

lemma summary_of_found:
  assumes "summary_of im scheduled ms = Summary_found m"
  shows "m \<in> set ms \<and> (ms = [m] \<or> (\<exists>start. scheduled = Some start \<and> filter (near_start im start) ms = [m]))"
proof -
  consider (one) "ms = [m]" | (near) "disambiguate_by_start_time im ms scheduled = Some m"
    using assms by (auto simp: summary_of_def split: list.splits option.splits)
  then show ?thesis
  proof cases
    case one
    then show ?thesis by simp
  next
    case near
    then obtain start where start: "scheduled = Some start" "filter (near_start im start) ms = [m]"
      by (auto simp: disambiguate_by_start_time_def split: option.splits list.splits)
    then have "m \<in> set ms" by (metis filter_is_subset list.set_intros(1) subsetD)
    then show ?thesis using start by blast
  qed
qed

text \<open>
  A mail is taken for the summary only when it names the recording's own call and is the only such
  mail, or the only one that states a start near the scheduled one.
\<close>

lemma found_summary_is_unique:
  assumes "find_summary im st now r rc h = (Inr (Summary_found m), h1)"
  shows "\<exists>ms url. r_calendar_telemost_url r = Some url \<and> url \<noteq> '''' \<and> m \<in> set ms \<and>
    (\<forall>x\<in>set ms. sublist url (mm_body x)) \<and>
    (ms = [m] \<or> (\<exists>start. r_calendar_dtstart r = Some start \<and> filter (near_start im start) ms = [m]))"
proof -
  obtain url where url: "r_calendar_telemost_url r = Some url" "url \<noteq> ''''"
    using assms by (auto simp: find_summary_def truthy_iff split: if_splits)
  obtain ms h2 where run: "search_inbox im now (st_summary_email_imap_host st) (rc_email rc)
      (the (mail_password st rc)) (opt_or (r_calendar_dtstart r) (r_found_at r)) TELEMOST_KEEPER_SENDER url h =
      (Inr ms, h2)" and m: "summary_of im (r_calendar_dtstart r) ms = Summary_found m"
    using assms url by (auto simp: find_summary_def io_catch_app io_bind_app split: if_splits sum.splits prod.splits)
  have "\<forall>x\<in>set ms. sublist url (mm_body x)"
    using with_inbox_Inr[OF run[unfolded search_inbox_def]] by (auto dest!: all_with_body_sound)
  then show ?thesis using url summary_of_found[OF m] by blast
qed

section \<open>A mail server\<close>

definition demo_imap :: "nat imap" where
  "demo_imap = \<lparr>im_do = (\<lambda>c h. (Done [], h)), im_fetch = (\<lambda>i h. (Done None, h)), im_decode = (\<lambda>_ t. Some t),
     im_header = (\<lambda>t. Some [Inr t]), im_date = (\<lambda>_. None), im_unescape = (\<lambda>t. t), im_started = (\<lambda>_. None)\<rparr>"

end
