(* ===== verification/Calendars.thy ===== *)
theory Calendars
imports Config Matching Urls "HOL-Library.List_Lexorder"
begin

text \<open>
  \<open>app/tools/calendar.py\<close>: the client of the recruiters' calendars.  It discovers the calendar
  collections, keeps them as rows, and reads the events of a window from every available one.  The
  server, the parsers of XML and of iCalendar and the joining of URLs are parameters.
\<close>

section \<open>The server\<close>

datatype dav_request =
    Find_principal
  | Find_home
  | Find_collections
  | Report_events instant instant

record dav_response =
  da_status :: int
  da_content :: string

record dav_prop =
  dp_is_calendar :: bool
  dp_components :: "string list"
  dp_display_name :: "string option"

record dav_collection =
  dc_href :: "string option"
  dc_propstats :: "(string \<times> dav_prop option) list"

datatype ics_time = At instant | On_date int

record ics_event =
  ie_uid :: string
  ie_summary :: string
  ie_dtstart :: "ics_time option"
  ie_dtend :: "ics_time option"
  ie_description :: string
  ie_organizer :: string
  ie_attendees :: "string list"
  ie_recurrence_id :: "string option"

text \<open>
  A parser answers \<open>None\<close> where it raises.  \<open>cv_answer\<close> gets the request, its URL and the credentials;
  \<open>cv_utf8\<close>, \<open>cv_cp1251\<close> and \<open>cv_detect\<close> decode bytes.
\<close>

record 'h caldav =
  cv_answer :: "dav_request \<Rightarrow> string \<Rightarrow> string \<Rightarrow> string \<Rightarrow> 'h \<Rightarrow> dav_response option \<times> 'h"
  cv_principal :: "string \<Rightarrow> string option option"
  cv_home :: "string \<Rightarrow> string option option"
  cv_collections :: "string \<Rightarrow> dav_collection list option"
  cv_calendar_data :: "string \<Rightarrow> string list option"
  cv_vevents :: "string \<Rightarrow> ics_event list option"
  cv_join :: "string \<Rightarrow> string \<Rightarrow> string"
  cv_brackets :: "string \<Rightarrow> bool"
  cv_casefold :: "string \<Rightarrow> string"
  cv_utf8 :: "string \<Rightarrow> string option"
  cv_cp1251 :: "string \<Rightarrow> string option"
  cv_detect :: "string \<Rightarrow> (string \<times> string) option"

datatype calendar_error =
    Calendar_auth
  | Calendar_origin
  | Calendar_configuration
  | Snapshot_incomplete
  | Calendar_key
  | Calendar_http
  | Calendar_value
  | Calendar_xml

record recruiter_calendar =
  cl_id :: string
  cl_recruiter_id :: string
  cl_canonical_url :: string
  cl_display_name :: string
  cl_is_default :: bool
  cl_selected :: bool
  cl_available :: bool
  cl_last_seen_at :: instant
  cl_created_at :: instant
  cl_updated_at :: instant

record 'h calendar_state =
  cs_server :: 'h
  cs_rows :: "recruiter_calendar list"

type_synonym ('h, 'a) calendar_io = "('h calendar_state, calendar_error, 'a) io"

section \<open>One origin\<close>

definition digits_port :: "string \<Rightarrow> nat option" where
  "digits_port p =
     (let n = foldl (\<lambda>a c. 10 * a + (of_char c - 48)) 0 p in
      if p \<noteq> '''' \<and> list_all (\<lambda>c. 48 \<le> (of_char c :: nat) \<and> (of_char c :: nat) \<le> 57) p \<and> n \<le> 65535
      then Some n else None)"

text \<open>Host and port text: after a bracketed address, or around the first colon.\<close>

definition host_port :: "url_parts \<Rightarrow> string \<times> string option" where
  "host_port u =
     (case cut_at CHR ''['' (url_hostinfo u) of
        (_, Some bracketed) \<Rightarrow>
          (case cut_at CHR '']'' bracketed of
             (h, rest) \<Rightarrow> (h, case cut_at CHR '':'' (opt_or rest '''') of (_, p) \<Rightarrow> p))
      | (plain, None) \<Rightarrow> cut_at CHR '':'' plain)"

definition url_hostname :: "url_parts \<Rightarrow> string" where
  "url_hostname u = lower_text (fst (host_port u))"

text \<open>\<open>parsed.port\<close>: a text that is no port number raises.\<close>

definition url_port :: "url_parts \<Rightarrow> nat option option" where
  "url_port u = (case snd (host_port u) of
      None \<Rightarrow> Some None
    | Some p \<Rightarrow> if p = '''' then Some None else (case digits_port p of None \<Rightarrow> None | Some n \<Rightarrow> Some (Some n)))"

type_synonym origin = "string \<times> string \<times> nat option"

definition validated_origin :: "'h caldav \<Rightarrow> string \<Rightarrow> (calendar_error, origin) result" where
  "validated_origin cv base =
     (case url_split (cv_brackets cv) base of
        None \<Rightarrow> Inl Calendar_value
      | Some u \<Rightarrow>
          if u_scheme u \<noteq> ''https'' \<or> url_hostname u = '''' then Inl Calendar_origin
          else (case url_port u of None \<Rightarrow> Inl Calendar_value | Some p \<Rightarrow> Inr (u_scheme u, url_hostname u, p)))"

fun single_slashes :: "string \<Rightarrow> string" where
  "single_slashes (x # y # zs) =
     (if x = CHR ''/'' \<and> y = CHR ''/'' then single_slashes (y # zs) else x # single_slashes (y # zs))"
| "single_slashes s = s"

text \<open>\<open>urlunsplit\<close> of an HTTPS URL without fragment.\<close>

definition https_url :: "string \<Rightarrow> string \<Rightarrow> string \<Rightarrow> string" where
  "https_url netloc path query =
     ''https://'' @ netloc @ (if path \<noteq> '''' \<and> hd path \<noteq> CHR ''/'' then ''/'' @ path else path) @
     (if query = '''' then '''' else ''?'' @ query)"

definition canonical_url :: "'h caldav \<Rightarrow> origin \<Rightarrow> string \<Rightarrow> (calendar_error, string) result" where
  "canonical_url cv own v =
     (case url_split (cv_brackets cv) v of
        None \<Rightarrow> Inl Calendar_value
      | Some u \<Rightarrow>
          (case url_port u of
             None \<Rightarrow> Inl Calendar_value
           | Some p \<Rightarrow>
               if (u_scheme u, url_hostname u, p) \<noteq> own \<or> truthy (url_username u) \<or> truthy (url_password u)
               then Inl Calendar_origin
               else Inr (https_url (lower_text (u_netloc u))
                 (single_slashes (if u_path u = '''' then ''/'' else u_path u)) (u_query u))))"

text \<open>The URL is checked before the credentials are looked up, and redirects are refused.\<close>

definition dav_request ::
  "'h caldav \<Rightarrow> settings \<Rightarrow> origin \<Rightarrow> dav_request \<Rightarrow> string \<Rightarrow> string \<Rightarrow> ('h, string) calendar_io" where
  "dav_request cv st own q url email =
     io_bind (io_lift (canonical_url cv own url)) (\<lambda>safe_url.
       case map_of (st_yandex_caldav_passwords st) email of
         None \<Rightarrow> io_raise Calendar_key
       | Some password \<Rightarrow> (\<lambda>s. case cv_answer cv q safe_url email password (cs_server s) of
           (None, h) \<Rightarrow> (Inl Calendar_http, s\<lparr>cs_server := h\<rparr>)
         | (Some r, h) \<Rightarrow>
             ((if 300 \<le> da_status r \<and> da_status r \<le> 399 then Inl Calendar_origin
               else if da_status r = 401 then Inl Calendar_auth
               else if 200 \<le> da_status r \<and> da_status r \<le> 299 then Inr (da_content r)
               else Inl Calendar_http), s\<lparr>cs_server := h\<rparr>)))"

definition decode_bytes :: "'h caldav \<Rightarrow> string \<Rightarrow> (calendar_error, string) result" where
  "decode_bytes cv bytes =
     (case cv_utf8 cv bytes of
        Some t \<Rightarrow> Inr t
      | None \<Rightarrow>
          (case cv_detect cv bytes of
             None \<Rightarrow> Inl Calendar_value
           | Some (encoding, t) \<Rightarrow>
               if map (\<lambda>c. if c = CHR ''_'' then CHR ''-'' else c) (lower_text encoding) \<in> {''cp1251'', ''windows-1251''}
               then Inr t
               else (case cv_cp1251 cv bytes of Some w \<Rightarrow> Inr w | None \<Rightarrow> Inl Calendar_value)))"

definition parse_xml :: "'h caldav \<Rightarrow> (string \<Rightarrow> 'a option) \<Rightarrow> string \<Rightarrow> (calendar_error, 'a) result" where
  "parse_xml cv parse bytes =
     res_bind (decode_bytes cv bytes) (\<lambda>t. case parse t of None \<Rightarrow> Inl Calendar_xml | Some x \<Rightarrow> Inr x)"

section \<open>Discovery\<close>

definition need_href :: "string option \<Rightarrow> (calendar_error, string) result" where
  "need_href h = (if truthy h then Inr (the h) else Inl Calendar_value)"

definition discover_home :: "'h caldav \<Rightarrow> settings \<Rightarrow> origin \<Rightarrow> string \<Rightarrow> ('h, string) calendar_io" where
  "discover_home cv st own email =
     io_bind (dav_request cv st own Find_principal (st_caldav_base_url st) email) (\<lambda>content.
     io_bind (io_lift (res_bind (parse_xml cv (cv_principal cv) content) need_href)) (\<lambda>href.
     io_bind (io_lift (canonical_url cv own (cv_join cv (st_caldav_base_url st) href))) (\<lambda>principal_url.
     io_bind (dav_request cv st own Find_home principal_url email) (\<lambda>content.
     io_bind (io_lift (res_bind (parse_xml cv (cv_home cv) content) need_href)) (\<lambda>href.
     io_lift (canonical_url cv own (cv_join cv principal_url href)))))))"

definition event_calendar :: "string \<times> dav_prop option \<Rightarrow> dav_prop option" where
  "event_calendar ps = (case ps of
      (status, Some p) \<Rightarrow>
        if sublist '' 200 '' status \<and> dp_is_calendar p \<and>
           list_ex (\<lambda>c. map (\<lambda>x. if 97 \<le> (of_char x :: nat) \<and> (of_char x :: nat) \<le> 122 then char_of (of_char x - 32 :: nat) else x) c = ''VEVENT'')
             (dp_components p)
        then Some p else None
    | (_, None) \<Rightarrow> None)"

definition collection_names ::
  "'h caldav \<Rightarrow> origin \<Rightarrow> string \<Rightarrow> dav_collection \<Rightarrow> (calendar_error, (string \<times> string) list) result" where
  "collection_names cv own home_url c =
     (if \<not> truthy (dc_href c) then Inr []
      else res_map (\<lambda>p. res_bind (canonical_url cv own (cv_join cv home_url (the (dc_href c)))) (\<lambda>url.
             Inr (url, py_strip (if truthy (dp_display_name p) then the (dp_display_name p) else url))))
           (List.map_filter event_calendar (dc_propstats c)))"

definition parse_collection_discovery ::
  "'h caldav \<Rightarrow> origin \<Rightarrow> string \<Rightarrow> string \<Rightarrow> (calendar_error, (string \<times> string) list) result" where
  "parse_collection_discovery cv own content home_url =
     res_bind (parse_xml cv (cv_collections cv) content) (\<lambda>cs.
     res_bind (res_map (collection_names cv own home_url) cs) (\<lambda>xs. Inr (sort_key fst (concat xs))))"

definition conflicting :: "(string \<times> string) list \<Rightarrow> bool" where
  "conflicting xs \<longleftrightarrow> list_ex (\<lambda>(u, n). map_of xs u \<noteq> Some n) xs"

definition fetch_calendar_collections ::
  "'h caldav \<Rightarrow> settings \<Rightarrow> origin \<Rightarrow> string \<Rightarrow> ('h, (string \<times> string) list) calendar_io" where
  "fetch_calendar_collections cv st own email =
     io_bind (discover_home cv st own email) (\<lambda>home_url.
     io_bind (dav_request cv st own Find_collections home_url email) (\<lambda>content.
     io_bind (io_lift (parse_collection_discovery cv own content home_url)) (\<lambda>found.
     io_guard (\<not> conflicting found) Snapshot_incomplete (io_return (remdups found)))))"

section \<open>The rows of a recruiter\<close>

definition calendars_of :: "recruiter_config \<Rightarrow> recruiter_calendar list \<Rightarrow> recruiter_calendar list" where
  "calendars_of rc rows = filter (\<lambda>r. cl_recruiter_id r = rc_id rc) rows"

definition selection_fault :: "recruiter_calendar list \<Rightarrow> string list \<Rightarrow> calendar_error option" where
  "selection_fault own urls =
     (let selected = filter cl_selected own in
      if selected \<noteq> []
      then (if list_ex (\<lambda>r. cl_canonical_url r \<notin> set urls) selected then Some Snapshot_incomplete else None)
      else (if length (filter (\<lambda>r. cl_is_default r \<and> cl_canonical_url r \<in> set urls) own) \<noteq> 1
            then Some Calendar_configuration else None))"

definition seen_row :: "instant \<Rightarrow> (string \<times> string) list \<Rightarrow> recruiter_calendar \<Rightarrow> recruiter_calendar" where
  "seen_row now found r =
     (case map_of found (cl_canonical_url r) of
        Some name \<Rightarrow> r\<lparr>cl_display_name := name, cl_available := True, cl_last_seen_at := now, cl_updated_at := now\<rparr>
      | None \<Rightarrow> r\<lparr>cl_available := False, cl_updated_at := now\<rparr>)"

definition new_row :: "instant \<Rightarrow> (string \<Rightarrow> string) \<Rightarrow> recruiter_config \<Rightarrow> string \<times> string \<Rightarrow> recruiter_calendar" where
  "new_row now fresh rc x = (case x of (url, name) \<Rightarrow>
     \<lparr>cl_id = fresh url, cl_recruiter_id = rc_id rc, cl_canonical_url = url, cl_display_name = name,
      cl_is_default = False, cl_selected = False, cl_available = True, cl_last_seen_at = now,
      cl_created_at = now, cl_updated_at = now\<rparr>)"

definition seen_rows ::
  "instant \<Rightarrow> recruiter_config \<Rightarrow> (string \<times> string) list \<Rightarrow> recruiter_calendar list \<Rightarrow> recruiter_calendar list" where
  "seen_rows now rc found rows = update_where (\<lambda>r. cl_recruiter_id r = rc_id rc) (seen_row now found) rows"

definition new_rows ::
  "instant \<Rightarrow> (string \<Rightarrow> string) \<Rightarrow> recruiter_config \<Rightarrow> (string \<times> string) list \<Rightarrow> recruiter_calendar list \<Rightarrow>
   recruiter_calendar list" where
  "new_rows now fresh rc found rows = map (new_row now fresh rc)
     (filter (\<lambda>x. fst x \<notin> cl_canonical_url ` set (calendars_of rc rows)) found)"

text \<open>
  Without a default yet, the calendar configured earlier becomes it, if it was a row before: the
  column \<open>available\<close> of a row that is not yet written is not set.
\<close>

definition adopt_legacy ::
  "'h caldav \<Rightarrow> origin \<Rightarrow> recruiter_config \<Rightarrow> recruiter_calendar list \<Rightarrow>
   (calendar_error, recruiter_calendar list) result" where
  "adopt_legacy cv own rc rows =
     (if list_ex cl_is_default (calendars_of rc rows) \<or> \<not> truthy (rc_caldav_calendar_url rc) then Inr rows
      else case canonical_url cv own (the (rc_caldav_calendar_url rc)) of
        Inl Calendar_origin \<Rightarrow> Inr rows
      | Inl e \<Rightarrow> Inl e
      | Inr url \<Rightarrow> Inr (update_where (\<lambda>r. cl_recruiter_id r = rc_id rc \<and> cl_canonical_url r = url \<and> cl_available r)
          (cl_is_default_update (\<lambda>_. True)) rows))"

definition persisted_rows ::
  "'h caldav \<Rightarrow> origin \<Rightarrow> instant \<Rightarrow> (string \<Rightarrow> string) \<Rightarrow> recruiter_config \<Rightarrow> (string \<times> string) list \<Rightarrow> bool \<Rightarrow>
   recruiter_calendar list \<Rightarrow> (calendar_error, recruiter_calendar list) result" where
  "persisted_rows cv own now fresh rc found validate_selection rows =
     (case (if validate_selection then selection_fault (calendars_of rc rows) (map fst found) else None) of
        Some e \<Rightarrow> Inl e
      | None \<Rightarrow>
          res_bind (if validate_selection then Inr (seen_rows now rc found rows)
                    else adopt_legacy cv own rc (seen_rows now rc found rows)) (\<lambda>old.
          Inr (old @ new_rows now fresh rc found rows)))"

definition persist_discovery ::
  "'h caldav \<Rightarrow> origin \<Rightarrow> instant \<Rightarrow> (string \<Rightarrow> string) \<Rightarrow> recruiter_config list \<Rightarrow> string \<Rightarrow> (string \<times> string) list \<Rightarrow>
   bool \<Rightarrow> ('h, recruiter_calendar list) calendar_io" where
  "persist_discovery cv own now fresh rcs email found validate_selection = (\<lambda>s.
     case find (\<lambda>rc. rc_email rc = email) rcs of
       None \<Rightarrow> (Inl Calendar_key, s)
     | Some rc \<Rightarrow>
         (case persisted_rows cv own now fresh rc found validate_selection (cs_rows s) of
            Inl e \<Rightarrow> (Inl e, s)
          | Inr rows \<Rightarrow>
              (Inr (sort_key (\<lambda>r. cv_casefold cv (cl_display_name r)) (sort_key cl_canonical_url (calendars_of rc rows))),
               s\<lparr>cs_rows := rows\<rparr>)))"

definition discover_calendars ::
  "'h caldav \<Rightarrow> settings \<Rightarrow> origin \<Rightarrow> instant \<Rightarrow> (string \<Rightarrow> string) \<Rightarrow> recruiter_config list \<Rightarrow> string \<Rightarrow>
   ('h, recruiter_calendar list) calendar_io" where
  "discover_calendars cv st own now fresh rcs email =
     io_bind (fetch_calendar_collections cv st own email) (\<lambda>found.
       persist_discovery cv own now fresh rcs email found False)"

definition refresh_snapshot ::
  "'h caldav \<Rightarrow> settings \<Rightarrow> origin \<Rightarrow> instant \<Rightarrow> (string \<Rightarrow> string) \<Rightarrow> recruiter_config list \<Rightarrow> string \<Rightarrow>
   ('h, recruiter_calendar list) calendar_io" where
  "refresh_snapshot cv st own now fresh rcs email =
     io_bind (fetch_calendar_collections cv st own email) (\<lambda>found.
       io_guard (found \<noteq> []) Snapshot_incomplete (persist_discovery cv own now fresh rcs email found True))"

section \<open>Events\<close>

definition DISCOVERY_MAX_AGE :: int where "DISCOVERY_MAX_AGE = hours 24"

definition calendar_is_stale :: "instant \<Rightarrow> recruiter_calendar \<Rightarrow> bool" where
  "calendar_is_stale now r \<longleftrightarrow> cl_last_seen_at r < now - DISCOVERY_MAX_AGE"

record calendar_ref =
  cr_id :: string
  cr_canonical_url :: string
  cr_display_name :: string
  cr_eligible :: bool

text \<open>The identifiers of the calendars whose events may be matched: the selected ones or the default.\<close>

definition eligible_ids ::
  "instant \<Rightarrow> recruiter_calendar list \<Rightarrow> (calendar_error, string list) result" where
  "eligible_ids now rows =
     (let selected = filter cl_selected rows; defaults = filter cl_is_default rows in
      if selected \<noteq> [] then Inr (map cl_id selected)
      else (case defaults of
        [d] \<Rightarrow> if \<not> cl_available d \<or> calendar_is_stale now d then Inl Snapshot_incomplete else Inr [cl_id d]
      | _ \<Rightarrow> Inl Calendar_configuration))"

definition snapshot_refs ::
  "instant \<Rightarrow> recruiter_calendar list \<Rightarrow> (calendar_error, calendar_ref list) result" where
  "snapshot_refs now rows =
     (let selected = filter cl_selected rows; available_rows = filter cl_available rows in
      check_that (rows \<noteq> []) Calendar_configuration
     (check_that (list_all cl_available selected) Snapshot_incomplete
     (check_that (\<not> list_ex (calendar_is_stale now) selected) Snapshot_incomplete
     (check_that (available_rows \<noteq> []) Snapshot_incomplete
     (check_that (\<not> list_ex (calendar_is_stale now) available_rows) Snapshot_incomplete
     (res_bind (eligible_ids now rows) (\<lambda>ids. Inr (map (\<lambda>r.
        \<lparr>cr_id = cl_id r, cr_canonical_url = cl_canonical_url r, cr_display_name = cl_display_name r,
         cr_eligible = cl_id r \<in> set ids\<rparr>) (sort_key cl_id available_rows)))))))))"

definition calendar_snapshot ::
  "instant \<Rightarrow> recruiter_config list \<Rightarrow> string \<Rightarrow> ('h, calendar_ref list) calendar_io" where
  "calendar_snapshot now rcs email = (\<lambda>s.
     case find (\<lambda>rc. rc_email rc = email) rcs of
       None \<Rightarrow> (Inl Calendar_key, s)
     | Some rc \<Rightarrow> (snapshot_refs now (calendars_of rc (cs_rows s)), s))"

definition plain_email :: "string \<Rightarrow> string" where
  "plain_email v =
     (let strip = (\<lambda>p t. if prefix p t then drop (length p) t else t) in strip ''MAILTO:'' (strip ''mailto:'' v))"

fun decoded_time :: "ics_time \<Rightarrow> instant" where
  "decoded_time (At t) = t"
| "decoded_time (On_date d) = days d"

definition event_of :: "string \<Rightarrow> ics_event \<Rightarrow> (calendar_error, vevent) result" where
  "event_of raw e =
     (case ie_dtstart e of
        None \<Rightarrow> Inl Calendar_key
      | Some t \<Rightarrow> Inr
          \<lparr>ev_uid = ie_uid e, ev_summary = ie_summary e, ev_dtstart = decoded_time t,
           ev_dtend = (case ie_dtend e of None \<Rightarrow> decoded_time t | Some u \<Rightarrow> decoded_time u),
           ev_description = ie_description e, ev_organizer_email = plain_email (ie_organizer e),
           ev_attendees = map plain_email (ie_attendees e), ev_raw_ics = raw,
           ev_recurrence_id = ie_recurrence_id e, ev_calendar_id = None, ev_calendar_url = None,
           ev_calendar_display_name = None, ev_eligible = True\<rparr>)"

definition parse_vevents :: "'h caldav \<Rightarrow> string \<Rightarrow> (calendar_error, vevent list) result" where
  "parse_vevents cv raw =
     (case cv_vevents cv raw of None \<Rightarrow> Inl Calendar_value | Some es \<Rightarrow> res_map (event_of raw) es)"

definition parse_vevent :: "'h caldav \<Rightarrow> string \<Rightarrow> (calendar_error, vevent) result" where
  "parse_vevent cv raw =
     res_bind (parse_vevents cv raw) (\<lambda>es. case es of [] \<Rightarrow> Inl Calendar_value | e # _ \<Rightarrow> Inr e)"

definition starts_between :: "instant \<Rightarrow> instant \<Rightarrow> vevent \<Rightarrow> bool" where
  "starts_between a b e \<longleftrightarrow> a \<le> ev_dtstart e \<and> ev_dtstart e \<le> b"

definition from_calendar :: "calendar_ref \<Rightarrow> vevent \<Rightarrow> vevent" where
  "from_calendar c e = e\<lparr>ev_calendar_id := Some (cr_id c), ev_calendar_url := Some (cr_canonical_url c),
     ev_calendar_display_name := Some (cr_display_name c), ev_eligible := cr_eligible c\<rparr>"

definition report_events ::
  "'h caldav \<Rightarrow> calendar_ref \<Rightarrow> instant \<Rightarrow> instant \<Rightarrow> string \<Rightarrow> (calendar_error, vevent list) result" where
  "report_events cv c a b content =
     res_bind (parse_xml cv (cv_calendar_data cv) content) (\<lambda>raws.
     res_bind (res_map (parse_vevents cv) raws) (\<lambda>ess.
       Inr (map (from_calendar c) (filter (starts_between a b) (concat ess)))))"

definition report_calendar ::
  "'h caldav \<Rightarrow> settings \<Rightarrow> origin \<Rightarrow> string \<Rightarrow> calendar_ref \<Rightarrow> instant \<Rightarrow> instant \<Rightarrow> ('h, vevent list) calendar_io" where
  "report_calendar cv st own email c a b =
     io_bind (dav_request cv st own (Report_events (a - minutes 15) (b + minutes 15)) (cr_canonical_url c) email)
       (\<lambda>content. io_lift (report_events cv c a b content))"

text \<open>Failures of a report leave the snapshot incomplete; only malformed XML escapes as it is.\<close>

definition incomplete :: "calendar_error \<Rightarrow> calendar_error" where
  "incomplete e = (if e = Calendar_xml then e else Snapshot_incomplete)"

fun report_all ::
  "'h caldav \<Rightarrow> settings \<Rightarrow> origin \<Rightarrow> string \<Rightarrow> instant \<Rightarrow> instant \<Rightarrow> calendar_ref list \<Rightarrow> ('h, vevent list) calendar_io" where
  "report_all cv st own email a b [] = io_return []"
| "report_all cv st own email a b (c # cs) =
     io_bind (io_catch (report_calendar cv st own email c a b) (\<lambda>e. io_raise (incomplete e))) (\<lambda>es.
     io_bind (report_all cv st own email a b cs) (\<lambda>more. io_return (es @ more)))"

definition find_events ::
  "'h caldav \<Rightarrow> settings \<Rightarrow> origin \<Rightarrow> instant \<Rightarrow> recruiter_config list \<Rightarrow> string \<Rightarrow> instant \<Rightarrow> instant \<Rightarrow>
   ('h, vevent list) calendar_io" where
  "find_events cv st own now rcs email a b =
     io_bind (calendar_snapshot now rcs email) (\<lambda>calendars. report_all cv st own email a b calendars)"

section \<open>What the events are\<close>

lemma report_events_Inr:
  "report_events cv c a b content = Inr es \<Longrightarrow>
     \<forall>e\<in>set es. starts_between a b e \<and> ev_calendar_id e = Some (cr_id c) \<and> ev_eligible e = cr_eligible c"
  by (auto simp: report_events_def res_bind_Inr_iff from_calendar_def starts_between_def)

lemma report_all_sound:
  assumes "report_all cv st own email a b cs s = (Inr es, s1)"
  shows "(\<forall>e\<in>set es. starts_between a b e \<and> (\<exists>c\<in>set cs. ev_calendar_id e = Some (cr_id c) \<and> ev_eligible e = cr_eligible c)) \<and>
    cs_rows s1 = cs_rows s"
  using assms
proof (induction cs arbitrary: s es)
  case Nil
  then show ?case by simp
next
  case (Cons c cs)
  then obtain fs s2 gs where one: "io_catch (report_calendar cv st own email c a b) (\<lambda>e. io_raise (incomplete e)) s = (Inr fs, s2)"
    and more: "report_all cv st own email a b cs s2 = (Inr gs, s1)" and es: "es = fs @ gs"
    by (auto simp: io_bind_Inr_iff)
  obtain content where "report_events cv c a b content = Inr fs" and rows: "cs_rows s2 = cs_rows s"
    using one by (auto simp: io_catch_app report_calendar_def io_bind_app dav_request_def
        split: sum.splits prod.splits option.splits if_splits)
  from report_events_Inr[OF this(1)] Cons.IH[OF more] show ?case using es rows by auto
qed

text \<open>
  The events of a window start in it and come from the available calendars of the recruiter, each of
  them seen within a day; those that may be matched come from a selected calendar or, when none is
  selected, from the one default.
\<close>

lemma found_events_are_current:
  assumes "find_events cv st own now rcs email a b s = (Inr es, s1)"
  shows "\<exists>rc rows. find (\<lambda>rc. rc_email rc = email) rcs = Some rc \<and> rows = calendars_of rc (cs_rows s) \<and>
    (\<forall>e\<in>set es. starts_between a b e \<and> (\<exists>r\<in>set rows. cl_available r \<and> \<not> calendar_is_stale now r \<and>
       ev_calendar_id e = Some (cl_id r) \<and>
       (ev_eligible e \<longrightarrow> (\<exists>x\<in>set rows. cl_id x = cl_id r \<and> (cl_selected x \<or> cl_is_default x)))))"
proof -
  obtain rc where rc: "find (\<lambda>rc. rc_email rc = email) rcs = Some rc"
    using assms by (auto simp: find_events_def calendar_snapshot_def io_bind_app split: option.splits)
  let ?rows = "calendars_of rc (cs_rows s)"
  obtain refs where refs: "snapshot_refs now ?rows = Inr refs" and run: "report_all cv st own email a b refs s = (Inr es, s1)"
    using assms rc by (auto simp: find_events_def calendar_snapshot_def io_bind_app split: sum.splits)
  obtain ids where ids: "eligible_ids now ?rows = Inr ids" and current: "\<not> list_ex (calendar_is_stale now) (filter cl_available ?rows)"
    and refs_eq: "refs = map (\<lambda>r. \<lparr>cr_id = cl_id r, cr_canonical_url = cl_canonical_url r,
        cr_display_name = cl_display_name r, cr_eligible = cl_id r \<in> set ids\<rparr>) (sort_key cl_id (filter cl_available ?rows))"
    using refs by (auto simp: snapshot_refs_def Let_def check_that_Inr_iff res_bind_Inr_iff)
  have chosen: "\<exists>x\<in>set ?rows. cl_id x = i \<and> (cl_selected x \<or> cl_is_default x)" if "i \<in> set ids" for i
  proof (cases "filter cl_selected ?rows = []")
    case True
    then obtain d where "filter cl_is_default ?rows = [d]" "ids = [cl_id d]"
      using ids by (auto simp: eligible_ids_def Let_def split: if_splits list.splits)
    then have "d \<in> set (filter cl_is_default ?rows)" "i = cl_id d" using that by auto
    then show ?thesis by auto
  next
    case False
    then have "ids = map cl_id (filter cl_selected ?rows)" using ids by (simp add: eligible_ids_def Let_def)
    then show ?thesis using that by auto
  qed
  have "starts_between a b e \<and> (\<exists>r\<in>set ?rows. cl_available r \<and> \<not> calendar_is_stale now r \<and>
       ev_calendar_id e = Some (cl_id r) \<and>
       (ev_eligible e \<longrightarrow> (\<exists>x\<in>set ?rows. cl_id x = cl_id r \<and> (cl_selected x \<or> cl_is_default x))))" if "e \<in> set es" for e
  proof -
    have "starts_between a b e \<and> (\<exists>c\<in>set refs. ev_calendar_id e = Some (cr_id c) \<and> ev_eligible e = cr_eligible c)"
      using conjunct1[OF report_all_sound[OF run]] that by (rule bspec)
    then obtain c where c: "starts_between a b e" "c \<in> set refs" "ev_calendar_id e = Some (cr_id c)"
      "ev_eligible e = cr_eligible c" by blast
    from c(2) obtain r where r: "r \<in> set ?rows" "cl_available r" "cr_id c = cl_id r" "cr_eligible c \<longleftrightarrow> cl_id r \<in> set ids"
      unfolding refs_eq by auto
    have "\<not> calendar_is_stale now r" using current r by (auto simp: list_ex_iff)
    moreover have "ev_eligible e \<longrightarrow> (\<exists>x\<in>set ?rows. cl_id x = cl_id r \<and> (cl_selected x \<or> cl_is_default x))"
      using c(4) r(4) chosen by simp
    ultimately show ?thesis using c(1,3) r(1,2,3) by (intro conjI bexI[of _ r]) simp_all
  qed
  then show ?thesis using rc by blast
qed

section \<open>A calendar server\<close>

definition demo_caldav :: "nat caldav" where
  "demo_caldav = \<lparr>cv_answer = (\<lambda>q u e p h. (None, h)), cv_principal = (\<lambda>_. None), cv_home = (\<lambda>_. None),
     cv_collections = (\<lambda>_. None), cv_calendar_data = (\<lambda>_. None), cv_vevents = (\<lambda>_. None),
     cv_join = (\<lambda>_ t. t), cv_brackets = (\<lambda>_. True), cv_casefold = (\<lambda>t. t), cv_utf8 = Some,
     cv_cp1251 = Some, cv_detect = (\<lambda>_. None)\<rparr>"

end
