(* ===== verification/Signals.thy ===== *)
theory Signals
imports Config Matching
begin

text \<open>
  The matching signals of \<open>app/services/recruiter_schema.py\<close>: a recruiter may replace the three regular
  expressions that recognise an interview.  The engine behind \<open>re.compile\<close> is a parameter (a pattern
  that does not compile has no value); what the code itself checks is the shape that backtracks.
\<close>

section \<open>Dangerous patterns\<close>

definition backslash :: char where "backslash = CHR 0x5C"

text \<open>\<open>(?<!\)[...]\<close>: one of the characters, not right after a backslash.\<close>

fun has_unescaped :: "char set \<Rightarrow> bool \<Rightarrow> string \<Rightarrow> bool" where
  "has_unescaped cs escaped [] = False"
| "has_unescaped cs escaped (c # s) \<longleftrightarrow>
     (c \<in> cs \<and> \<not> escaped) \<or> has_unescaped cs (c = backslash) s"

definition is_digit_char :: "char \<Rightarrow> bool" where
  "is_digit_char c = (let n = (of_char c :: nat) in 48 \<le> n \<and> n \<le> 57)"

text \<open>\<open>\d+(?:,\d*)?\}\<close> at the start of a text.\<close>

definition counted :: "string \<Rightarrow> bool" where
  "counted s =
     (let rest = dropWhile is_digit_char s in
      s \<noteq> '''' \<and> is_digit_char (hd s) \<and>
      (prefix ''}'' rest \<or> (prefix '','' rest \<and> prefix ''}'' (dropWhile is_digit_char (tl rest)))))"

definition quantifier :: "string \<Rightarrow> bool" where
  "quantifier s \<longleftrightarrow> s \<noteq> '''' \<and> (hd s \<in> {CHR ''+'', CHR ''*''} \<or> (hd s = CHR ''{'' \<and> counted (tl s)))"

definition paren :: "char \<Rightarrow> bool" where "paren c \<longleftrightarrow> c = CHR ''('' \<or> c = CHR '')''"

text \<open>A flat group that starts here and is quantified: its content.\<close>

definition quantified_group :: "string \<Rightarrow> string option" where
  "quantified_group s =
     (if s = '''' \<or> hd s \<noteq> CHR ''('' then None
      else
        (let content = takeWhile (\<lambda>c. \<not> paren c) (tl s); rest = dropWhile (\<lambda>c. \<not> paren c) (tl s) in
         if prefix '')'' rest \<and> quantifier (tl rest) then Some content else None))"

definition ambiguous :: "string \<Rightarrow> bool" where
  "ambiguous content \<longleftrightarrow> has_unescaped {CHR ''+'', CHR ''*''} False content \<or>
     has_unescaped {CHR ''|''} False content"

text \<open>Groups cannot overlap, so the search for matches is a search over all suffixes.\<close>

fun backtracks :: "string \<Rightarrow> bool" where
  "backtracks [] = False"
| "backtracks (c # s) \<longleftrightarrow>
     (case quantified_group (c # s) of Some content \<Rightarrow> ambiguous content | None \<Rightarrow> False) \<or> backtracks s"

datatype regex_error = Bad_syntax | Backtracking

definition reject_dangerous_regex ::
  "(string \<Rightarrow> (string \<Rightarrow> bool) option) \<Rightarrow> string \<Rightarrow> (regex_error, string) result" where
  "reject_dangerous_regex compile v =
     (if compile v = None then Inl Bad_syntax else if backtracks v then Inl Backtracking else Inr v)"

section \<open>Overrides\<close>

definition SIGNAL_KEYS :: "string list" where
  "SIGNAL_KEYS = [''name_pattern'', ''interview_pattern'', ''booking_pattern'']"

text \<open>An override: a text that passes the checks, or null; \<open>None\<close> is a validation error.\<close>

definition override_of ::
  "(string \<Rightarrow> (string \<Rightarrow> bool) option) \<Rightarrow> json \<Rightarrow> string \<Rightarrow> string option option" where
  "override_of compile overrides k =
     (case jget k overrides of
        JNull \<Rightarrow> Some None
      | JStr v \<Rightarrow> (case reject_dangerous_regex compile v of Inl e \<Rightarrow> None | Inr w \<Rightarrow> Some (Some w))
      | _ \<Rightarrow> None)"

fun members :: "json \<Rightarrow> (string \<times> json) list" where
  "members (JObj ms) = ms"
| "members _ = []"

definition merge_matching_signals ::
  "(string \<Rightarrow> (string \<Rightarrow> bool) option) \<Rightarrow> matching_signals \<Rightarrow> json \<Rightarrow> (schema_error, matching_signals) result" where
  "merge_matching_signals compile defaults overrides =
     (if members overrides = [] then Inr defaults
      else if \<not> list_all (\<lambda>(k, v). k \<in> set SIGNAL_KEYS) (members overrides) then Inl Validation_error
      else
        (let pick = (\<lambda>k d. map_option (\<lambda>v. case v of None \<Rightarrow> d | Some w \<Rightarrow> the (compile w)) (override_of compile overrides k)) in
         case (pick ''name_pattern'' (ms_name defaults), pick ''interview_pattern'' (ms_interview defaults),
               pick ''booking_pattern'' (ms_booking defaults)) of
           (Some n, Some i, Some b) \<Rightarrow> Inr \<lparr>ms_name = n, ms_interview = i, ms_booking = b\<rparr>
         | _ \<Rightarrow> Inl Validation_error))"

definition resolve_matching_signals ::
  "(string \<Rightarrow> (string \<Rightarrow> bool) option) \<Rightarrow> matching_signals \<Rightarrow> recruiter_config option \<Rightarrow>
   (schema_error, matching_signals) result" where
  "resolve_matching_signals compile defaults recruiter =
     (case (case recruiter of None \<Rightarrow> None | Some rc \<Rightarrow> rc_matching_signals rc) of
        None \<Rightarrow> Inr defaults
      | Some raw \<Rightarrow>
          if raw = JNull then Inr defaults
          else if \<not> is_obj raw then Inl Permission_error
          else (case merge_matching_signals compile defaults raw of
                  Inl e \<Rightarrow> Inl Permission_error | Inr s \<Rightarrow> Inr s))"

section \<open>What is accepted\<close>

lemma backtracks_iff:
  "backtracks s \<longleftrightarrow> (\<exists>pre rest content. s = pre @ rest \<and> quantified_group rest = Some content \<and> ambiguous content)"
proof (induction s)
  case Nil
  then show ?case by (auto simp: quantified_group_def)
next
  case (Cons c s)
  note IH = Cons.IH
  show ?case
  proof
    assume "backtracks (c # s)"
    then consider content where "quantified_group (c # s) = Some content" "ambiguous content" | "backtracks s"
      by (cases "quantified_group (c # s)") auto
    then show "\<exists>pre rest content. c # s = pre @ rest \<and> quantified_group rest = Some content \<and> ambiguous content"
    proof cases
      case 1
      then have "c # s = [] @ c # s \<and> quantified_group (c # s) = Some content \<and> ambiguous content" by simp
      then show ?thesis by blast
    next
      case 2
      then show ?thesis using IH by (metis append_Cons)
    qed
  next
    assume "\<exists>pre rest content. c # s = pre @ rest \<and> quantified_group rest = Some content \<and> ambiguous content"
    then obtain pre rest content where p: "c # s = pre @ rest" "quantified_group rest = Some content" "ambiguous content"
      by blast
    then show "backtracks (c # s)"
    proof (cases pre)
      case Nil
      then have "quantified_group (c # s) = Some content" using p(1,2) by simp
      then show ?thesis using p(3) by simp
    next
      case (Cons d pre1)
      then have "s = pre1 @ rest" using p(1) by simp
      then show ?thesis using p(2,3) IH by auto
    qed
  qed
qed

text \<open>
  In a pattern that a recruiter's row puts in place, no flat group under a quantifier holds a
  quantifier or an alternative of its own that is not escaped.
\<close>

lemma accepted_override_is_safe:
  assumes "resolve_matching_signals compile defaults (Some rc) = Inr s" and "rc_matching_signals rc = Some raw"
    and "k \<in> set SIGNAL_KEYS" and "jget k raw = JStr v" and "members raw \<noteq> []"
  shows "compile v \<noteq> None \<and> \<not> backtracks v"
proof -
  have merged: "merge_matching_signals compile defaults raw = Inr s"
    using assms(1,2,4) by (cases raw) (auto simp: resolve_matching_signals_def split: sum.splits if_splits)
  then have "override_of compile raw ''name_pattern'' \<noteq> None \<and> override_of compile raw ''interview_pattern'' \<noteq> None \<and>
      override_of compile raw ''booking_pattern'' \<noteq> None"
    using assms(5) by (auto simp: merge_matching_signals_def Let_def split: if_splits option.splits)
  then have "override_of compile raw k \<noteq> None" using assms(3) by (auto simp: SIGNAL_KEYS_def)
  then show ?thesis using assms(4)
    by (auto simp: override_of_def reject_dangerous_regex_def split: sum.splits if_splits)
qed

end
