(* ===== verification/Agent.thy ===== *)
theory Agent
imports Reroute Disk Storage Mail Calendars Signals
begin

text \<open>
  The whole agent: the session and the services of \<open>Tables\<close> together with the recruiters' disks, the
  object store, and the rest of the network in one state: the servers behind download links, the
  mail server and the calendar server.
\<close>

text \<open>A download: the chunks of the body, whether it broke off, and the announced length.\<close>

record download =
  dl_status :: int
  dl_body :: byte_stream
  dl_length :: "int option"

record ('n, 'w, 'c, 'd, 'k, 'h) agent =
  ag_world :: "('n, 'w, 'c) world"
  ag_disk :: "'d yandex_state"
  ag_store :: "'k \<times> s3_request list"
  ag_calendars :: "recruiter_calendar list"
  ag_web :: 'h

text \<open>\<open>None\<close> is a connection that failed.\<close>

datatype agent_error =
    App_failed app_error
  | Disk_failed disk_error
  | Store_failed s3_error
  | Mail_failed mail_error
  | Calendar_failed calendar_error
  | Candidate_failed candidate_error
  | Identity_failed filename_error
  | Scope_failed permission_error
  | Schema_failed schema_error
  | Advance_failed advance_error
  | Web_failed
  | Value_failed string
  | Streaming_unsupported
  | Transfer_failed string agent_error

text \<open>
  The services and the functions outside the program: \<open>os_download\<close> answers a GET of a link,
  \<open>os_text\<close> is \<open>str\<close> of an exception, \<open>os_label\<close> the Cyrillic label of a subject and a sender, \<open>os_local_date\<close> and
  \<open>os_local_minutes\<close> the date and the minute of the day of an instant in a named time zone, \<open>os_midnight\<close> the
  instant a local date begins at,
  \<open>os_compile\<close> and \<open>os_default_signals\<close> the regular expressions of the matching, and \<open>os_origin\<close> the
  origin the calendar client was made for.
\<close>

record ('n, 'w, 'c, 'd, 'k, 'h) outside =
  os_services :: "('n, 'w, 'c) services"
  os_yandex :: "'d yandex"
  os_scanner :: scanner
  os_store :: "'k s3_client"
  os_download :: "string \<Rightarrow> 'h \<Rightarrow> download option \<times> 'h"
  os_imap :: "'h imap"
  os_caldav :: "'h caldav"
  os_origin :: origin
  os_env :: text_env
  os_digests :: preflight_digests
  os_compile :: "string \<Rightarrow> (string \<Rightarrow> bool) option"
  os_default_signals :: matching_signals
  os_text :: "agent_error \<Rightarrow> string"
  os_label :: "string \<Rightarrow> string \<Rightarrow> string"
  os_local_date :: "string \<Rightarrow> instant \<Rightarrow> date option"
  os_local_minutes :: "string \<Rightarrow> instant \<Rightarrow> nat option"
  os_midnight :: "string \<Rightarrow> date \<Rightarrow> instant option"

type_synonym ('n, 'w, 'c, 'd, 'k, 'h, 'a) agent_io = "(('n, 'w, 'c, 'd, 'k, 'h) agent, agent_error, 'a) io"

definition in_world :: "('n, 'w, 'c, 'a) app_io \<Rightarrow> ('n, 'w, 'c, 'd, 'k, 'h, 'a) agent_io" where
  "in_world m = (\<lambda>s. case m (ag_world s) of
      (Inl e, w) \<Rightarrow> (Inl (App_failed e), s\<lparr>ag_world := w\<rparr>)
    | (Inr x, w) \<Rightarrow> (Inr x, s\<lparr>ag_world := w\<rparr>))"

definition in_disk :: "('d, 'a) disk_io \<Rightarrow> ('n, 'w, 'c, 'd, 'k, 'h, 'a) agent_io" where
  "in_disk m = (\<lambda>s. case m (ag_disk s) of
      (Inl e, d) \<Rightarrow> (Inl (Disk_failed e), s\<lparr>ag_disk := d\<rparr>)
    | (Inr x, d) \<Rightarrow> (Inr x, s\<lparr>ag_disk := d\<rparr>))"

definition in_store :: "('k, 'a) s3_io \<Rightarrow> ('n, 'w, 'c, 'd, 'k, 'h, 'a) agent_io" where
  "in_store m = (\<lambda>s. case m (ag_store s) of
      (Inl e, k) \<Rightarrow> (Inl (Store_failed e), s\<lparr>ag_store := k\<rparr>)
    | (Inr x, k) \<Rightarrow> (Inr x, s\<lparr>ag_store := k\<rparr>))"

definition in_mail :: "('h, 'a) mail_io \<Rightarrow> ('n, 'w, 'c, 'd, 'k, 'h, 'a) agent_io" where
  "in_mail m = (\<lambda>s. case m (ag_web s) of
      (Inl e, h) \<Rightarrow> (Inl (Mail_failed e), s\<lparr>ag_web := h\<rparr>)
    | (Inr x, h) \<Rightarrow> (Inr x, s\<lparr>ag_web := h\<rparr>))"

definition in_calendars :: "('h, 'a) calendar_io \<Rightarrow> ('n, 'w, 'c, 'd, 'k, 'h, 'a) agent_io" where
  "in_calendars m = (\<lambda>s. case m \<lparr>cs_server = ag_web s, cs_rows = ag_calendars s\<rparr> of (v, c) \<Rightarrow>
     ((case v of Inl e \<Rightarrow> Inl (Calendar_failed e) | Inr x \<Rightarrow> Inr x),
      s\<lparr>ag_web := cs_server c, ag_calendars := cs_rows c\<rparr>))"

text \<open>The table of the session, changed and committed; an error that leaves a session rolls it back.\<close>

definition see :: "(db \<Rightarrow> 'a) \<Rightarrow> ('n, 'w, 'c, 'd, 'k, 'h, 'a) agent_io" where
  "see f = (\<lambda>s. (Inr (f (w_db (ag_world s))), s))"

definition change :: "(db \<Rightarrow> db) \<Rightarrow> ('n, 'w, 'c, 'd, 'k, 'h, unit) agent_io" where
  "change f = in_world (modify_db f)"

definition save :: "(db \<Rightarrow> db) \<Rightarrow> ('n, 'w, 'c, 'd, 'k, 'h, unit) agent_io" where
  "save f = in_world (io_bind (modify_db f) (\<lambda>_. commit))"

definition in_session :: "('n, 'w, 'c, 'd, 'k, 'h, 'a) agent_io \<Rightarrow> ('n, 'w, 'c, 'd, 'k, 'h, 'a) agent_io" where
  "in_session m = (\<lambda>s. case m s of (v, s1) \<Rightarrow> (v, s1\<lparr>ag_world := (ag_world s1)\<lparr>w_db := w_saved (ag_world s1)\<rparr>\<rparr>))"

text \<open>The clock is the one of the disks.\<close>

definition clock :: "('n, 'w, 'c, 'd, 'k, 'h) outside \<Rightarrow> ('n, 'w, 'c, 'd, 'k, 'h, instant) agent_io" where
  "clock os = in_disk (read_clock (os_yandex os))"

section \<open>Running a part of the agent\<close>

lemma see_app [simp]: "see f s = (Inr (f (w_db (ag_world s))), s)"
  by (simp add: see_def)

lemma change_app [simp]:
  "change f s = (Inr (), s\<lparr>ag_world := (ag_world s)\<lparr>w_db := f (w_db (ag_world s))\<rparr>\<rparr>)"
  by (simp add: change_def in_world_def modify_db_def)

lemma save_app [simp]:
  "save f s = (Inr (), s\<lparr>ag_world := (ag_world s)\<lparr>w_db := f (w_db (ag_world s)), w_saved := f (w_db (ag_world s))\<rparr>\<rparr>)"
  by (simp add: save_def in_world_def modify_db_def commit_def io_bind_app)

lemma clock_app [simp]: "clock os s = (Inr (ya_clock (os_yandex os) (ys_server (ag_disk s))), s)"
  by (simp add: clock_def in_disk_def)

lemma in_world_Inr: "in_world m s = (Inr x, s1) \<longleftrightarrow> (\<exists>w. m (ag_world s) = (Inr x, w) \<and> s1 = s\<lparr>ag_world := w\<rparr>)"
  by (auto simp: in_world_def split: sum.splits prod.splits)

lemma in_disk_cases:
  assumes "in_disk m s = (v, s1)"
  obtains u d where "m (ag_disk s) = (u, d)" "s1 = s\<lparr>ag_disk := d\<rparr>"
    "v = (case u of Inl e \<Rightarrow> Inl (Disk_failed e) | Inr x \<Rightarrow> Inr x)"
  using assms by (auto simp: in_disk_def split: sum.splits prod.splits)

lemma keeps_and: "keeps I m \<Longrightarrow> keeps (\<lambda>w. I w \<and> C) m"
  by (simp add: keeps_def)

lemma keeps_in_world:
  assumes "\<And>s. keeps (\<lambda>w. I (s\<lparr>ag_world := w\<rparr>)) m"
  shows "keeps I (in_world m)"
proof (rule keepsI)
  fix s v s1
  assume s: "I s" and run: "in_world m s = (v, s1)"
  obtain u w where m: "m (ag_world s) = (u, w)" by fastforce
  then have "s1 = s\<lparr>ag_world := w\<rparr>" using run by (auto simp: in_world_def split: sum.splits)
  moreover have "I (s\<lparr>ag_world := w\<rparr>)"
    using keepsD[OF assms _ m, of s] s by simp
  ultimately show "I s1" by simp
qed

lemma keeps_in_disk:
  assumes "\<And>s. keeps (\<lambda>d. I (s\<lparr>ag_disk := d\<rparr>)) m"
  shows "keeps I (in_disk m)"
proof (rule keepsI)
  fix s v s1
  assume s: "I s" and run: "in_disk m s = (v, s1)"
  then obtain u d where m: "m (ag_disk s) = (u, d)" "s1 = s\<lparr>ag_disk := d\<rparr>" by (elim in_disk_cases)
  then show "I s1" using keepsD[OF assms _ m(1), of s] s by simp
qed

lemma keeps_see [keeps_rules]: "keeps I (see f)"
  by (simp add: keeps_def)

lemma keeps_clock [keeps_rules]: "keeps I (clock os)"
  by (simp add: keeps_def)

end
