(* ===== verification/Cleanup.thy ===== *)
theory Cleanup
imports Agent
begin

text \<open>
  \<open>app/services/cleanup.py\<close>: moving the sources of stored recordings to the trash in two calls.  A
  preview lists what would be moved and issues a capability; the confirmation spends it and treats
  each listed recording on its own, after comparing it with what the preview saw.  Fresh identifiers
  and the token are arguments; \<open>new_ids\<close> gives the identifier of the result of a recording.
\<close>

abbreviation reject_cleanup :: "string \<Rightarrow> ('n, 'w, 'c, 'd, 'k, 'h, 'a) agent_io" where
  "reject_cleanup why \<equiv> io_raise (App_failed (Cleanup_rejected why))"

definition need_cleanup ::
  "bool \<Rightarrow> string \<Rightarrow> ('n, 'w, 'c, 'd, 'k, 'h, 'a) agent_io \<Rightarrow> ('n, 'w, 'c, 'd, 'k, 'h, 'a) agent_io" where
  "need_cleanup b why m = io_guard b (App_failed (Cleanup_rejected why)) m"

lemma need_cleanup_app:
  "need_cleanup b why m s = (if b then m s else (Inl (App_failed (Cleanup_rejected why)), s))"
  by (simp add: need_cleanup_def io_guard_app)

section \<open>Previewing\<close>

text \<open>\<open>json.dumps(x, sort_keys=True, separators=(",", ":"))\<close> and its digest.\<close>

fun dump_ascii :: "json \<Rightarrow> string" where
  "dump_ascii (JList xs) = ''['' @ join_with '','' (map dump_ascii xs) @ '']''"
| "dump_ascii (JObj ms) = ''{'' @ join_with '','' (map (\<lambda>(k, v). json_string k @ '':'' @ v)
     (sort_key fst (map (\<lambda>(k, v). (k, dump_ascii v)) ms))) @ ''}''"
| "dump_ascii j = json_scalar j"

definition json_hash :: "('n, 'w, 'c) services \<Rightarrow> json \<Rightarrow> string" where
  "json_hash sv j = sv_hash sv (dump_ascii j)"

definition link_hash :: "('n, 'w, 'c) services \<Rightarrow> recording \<Rightarrow> string" where
  "link_hash sv r = sv_hash sv (opt_or (r_synology_share_url r) '''')"

definition dm_matches :: "recruiter_config \<Rightarrow> string \<Rightarrow> string \<Rightarrow> (agent_error, unit) result" where
  "dm_matches rc user channel =
     check_that (rc_mattermost_user_id rc = Some user)
       (App_failed (Cleanup_rejected ''Recruiter identity does not match configuration''))
    (check_that (rc_mattermost_dm_channel rc = Some channel)
       (App_failed (Cleanup_rejected ''Mattermost DM does not match configuration'')) (Inr ()))"

definition stored_source :: "recruiter_config \<Rightarrow> recording \<Rightarrow> bool" where
  "stored_source rc r \<longleftrightarrow> r_disk_owner_email r = rc_email rc \<and> r_status r = COMPLETED \<and>
     r_synology_share_url r \<noteq> None \<and> r_storage_is_durable r \<and> r_deleted_from_disk_at r = None"

text \<open>Ordered by completion and identifier; a row without a completion time comes last.\<close>

definition preview_rows :: "recruiter_config \<Rightarrow> int \<Rightarrow> db \<Rightarrow> recording list" where
  "preview_rows rc limit d =
     (let rows = sort_key r_id (filter (stored_source rc) (db_recordings d));
          dated = sort_key (\<lambda>r. the (r_completed_at r)) (filter (\<lambda>r. r_completed_at r \<noteq> None) rows);
          undated = filter (\<lambda>r. r_completed_at r = None) rows
      in take (nat limit) (dated @ undated))"

definition snapshot_item :: "('n, 'w, 'c) services \<Rightarrow> recording \<Rightarrow> json" where
  "snapshot_item sv r = JObj
     [(''recording_id'', JStr (r_id r)), (''disk_file_id'', JStr (r_disk_file_id r)),
      (''disk_path'', JStr (r_disk_path r)), (''filename'', JStr (r_disk_filename r)),
      (''version'', JInt (r_version r)), (''storage_link_hash'', JStr (link_hash sv r))]"

definition cleanup_preview_call ::
  "('n, 'w, 'c, 'd, 'k, 'h) outside \<Rightarrow> instant \<Rightarrow> string \<Rightarrow> string \<Rightarrow> recruiter_config \<Rightarrow> string \<Rightarrow> string \<Rightarrow> int \<Rightarrow>
   ('n, 'w, 'c, 'd, 'k, 'h, cleanup_preview \<times> string) agent_io" where
  "cleanup_preview_call os now new_id token rc user channel limit =
     (let sv = os_services os; st = sv_settings sv in
      io_bind (io_lift (dm_matches rc user channel)) (\<lambda>_.
      io_bind (see (preview_rows rc (min limit (st_cleanup_preview_max_items st)))) (\<lambda>rows.
        let snapshot = map (snapshot_item sv) rows;
            p = \<lparr>cp_id = new_id, cp_recruiter_id = rc_id rc, cp_recruiter_user_id = user,
                 cp_mattermost_dm_channel_id = channel, cp_snapshot = snapshot,
                 cp_snapshot_hash = json_hash sv (JList snapshot), cp_capability_hash = sv_hash sv token,
                 cp_capability_expires_at = now + seconds (st_cleanup_preview_ttl_seconds st),
                 cp_capability_consumed_at = None, cp_confirmation_fingerprint = None, cp_result = None,
                 cp_status = Preview_pending, cp_created_at = now, cp_completed_at = None\<rparr>
        in io_bind (save (\<lambda>d. d\<lparr>db_previews := db_previews d @ [p]\<rparr>)) (\<lambda>_. io_return (p, token)))))"

section \<open>One recording\<close>

text \<open>What an item must hold: identifier, version, file and path; other members are optional.\<close>

record cleanup_item =
  ci_recording_id :: string
  ci_version :: int
  ci_file_id :: string
  ci_path :: string
  ci_link_hash :: string

definition shown :: "('n, 'w, 'c) services \<Rightarrow> json \<Rightarrow> string" where
  "shown sv j = (case j of JStr t \<Rightarrow> t | _ \<Rightarrow> sv_show sv j)"

definition parse_item :: "('n, 'w, 'c, 'd, 'k, 'h) outside \<Rightarrow> json \<Rightarrow> cleanup_item option" where
  "parse_item os item =
     (let sv = os_services os in
      case (json_get ''recording_id'' item, json_get ''version'' item, json_get ''disk_file_id'' item,
            json_get ''disk_path'' item) of
        (Some i, Some v, Some f, Some p) \<Rightarrow>
          (case (sv_uuid sv (shown sv i), ya_int (os_yandex os) v) of
             (Some rid, Some n) \<Rightarrow>
               Some \<lparr>ci_recording_id = rid, ci_version = n, ci_file_id = shown sv f, ci_path = shown sv p,
                     ci_link_hash = (let h = jget ''storage_link_hash'' item in
                       if jtruthy h then shown sv h else '''')\<rparr>
           | _ \<Rightarrow> None)
      | _ \<Rightarrow> None)"

definition item_result :: "string \<Rightarrow> string \<Rightarrow> json" where
  "item_result recording_id state = JObj [(''recording_id'', JStr recording_id), (''state'', JStr state)]"

definition result_of :: "string \<Rightarrow> string \<Rightarrow> db \<Rightarrow> cleanup_file_result option" where
  "result_of preview_id recording_id d =
     find (\<lambda>x. cf_preview_id x = preview_id \<and> cf_recording_id x = recording_id) (db_file_results d)"

definition unresolved_result :: "string \<Rightarrow> db \<Rightarrow> cleanup_file_result option" where
  "unresolved_result recording_id d =
     find (\<lambda>x. cf_recording_id x = recording_id \<and> cf_state x \<in> {''processing'', ''moved_to_trash''})
       (db_file_results d)"

definition unchanged_source :: "('n, 'w, 'c) services \<Rightarrow> recruiter_config \<Rightarrow> cleanup_item \<Rightarrow> recording \<Rightarrow> bool" where
  "unchanged_source sv rc i r \<longleftrightarrow>
     r_disk_owner_email r = rc_email rc \<and> r_disk_file_id r = ci_file_id i \<and> r_disk_path r = ci_path i \<and>
     r_version r = ci_version i \<and> r_status r = COMPLETED \<and> truthy (r_synology_share_url r) \<and>
     r_storage_is_durable r \<and> r_deleted_from_disk_at r = None \<and> link_hash sv r = ci_link_hash i"

definition new_file_result ::
  "string \<Rightarrow> string \<Rightarrow> string \<Rightarrow> string \<Rightarrow> int \<Rightarrow> string \<Rightarrow> string option \<Rightarrow> cleanup_file_result" where
  "new_file_result new_id preview_id recording_id fid version state safe_error =
     \<lparr>cf_id = new_id, cf_preview_id = preview_id, cf_recording_id = recording_id, cf_disk_file_id = fid,
      cf_source_version = version, cf_state = state, cf_safe_error = safe_error, cf_moved_at = None\<rparr>"

text \<open>The row added last for this preview and recording.\<close>

definition set_result ::
  "string \<Rightarrow> string \<Rightarrow> (cleanup_file_result \<Rightarrow> cleanup_file_result) \<Rightarrow> db \<Rightarrow> db" where
  "set_result preview_id recording_id f d = d\<lparr>db_file_results :=
     update_where (\<lambda>x. cf_preview_id x = preview_id \<and> cf_recording_id x = recording_id) f (db_file_results d)\<rparr>"

text \<open>The file is moved after the intention to move it is committed.\<close>

definition move_source ::
  "('n, 'w, 'c, 'd, 'k, 'h) outside \<Rightarrow> string \<Rightarrow> recruiter_config \<Rightarrow> recording \<Rightarrow>
   ('n, 'w, 'c, 'd, 'k, 'h, string) agent_io" where
  "move_source os preview_id rc r =
     io_bind (io_catch
        (io_bind (in_disk (move_to_trash (os_yandex os) (os_scanner os) (r_disk_path r) (rc_email rc)))
           (\<lambda>_. io_return True))
        (\<lambda>e. io_return False)) (\<lambda>moved.
      if moved
      then io_bind (clock os) (\<lambda>t.
           io_bind (save (\<lambda>d. update_recording (r_id r) (r_deleted_from_disk_at_update (\<lambda>_. Some t))
               (set_result preview_id (r_id r) (\<lambda>x. x\<lparr>cf_state := ''moved_to_trash'', cf_moved_at := Some t\<rparr>) d)))
             (\<lambda>_. io_return ''moved_to_trash''))
      else io_bind (save (set_result preview_id (r_id r) (\<lambda>x. x\<lparr>cf_state := ''failed'',
               cf_safe_error := Some ''Yandex Trash move failed; retry requires a new preview''\<rparr>)))
             (\<lambda>_. io_return ''failed''))"

definition process_item ::
  "('n, 'w, 'c, 'd, 'k, 'h) outside \<Rightarrow> (string \<Rightarrow> string) \<Rightarrow> string \<Rightarrow> recruiter_config \<Rightarrow> json \<Rightarrow>
   ('n, 'w, 'c, 'd, 'k, 'h, json) agent_io" where
  "process_item os new_ids preview_id rc item =
     (case parse_item os item of
        None \<Rightarrow> reject_cleanup ''Cleanup snapshot is invalid''
      | Some i \<Rightarrow>
          (let rid = ci_recording_id i;
               add = (\<lambda>x. save (\<lambda>d. d\<lparr>db_file_results := db_file_results d @ [x]\<rparr>)) in
           io_bind (see (\<lambda>d. d)) (\<lambda>d.
             case result_of preview_id rid d of
               Some x \<Rightarrow> io_return (item_result rid (cf_state x))
             | None \<Rightarrow>
                (case unresolved_result rid d of
                   Some x \<Rightarrow> io_return (item_result rid (cf_state x))
                 | None \<Rightarrow>
                    (let skip =
                           io_bind (add (new_file_result (new_ids rid) preview_id rid (ci_file_id i) (ci_version i)
                             ''skipped_drift'' (Some ''Recording no longer matches the cleanup preview'')))
                            (\<lambda>_. io_return (item_result rid ''skipped_drift''))
                     in case recording_of d rid of
                       None \<Rightarrow> skip
                     | Some r \<Rightarrow>
                         if \<not> unchanged_source (os_services os) rc i r then skip
                         else
                           io_bind (add (new_file_result (new_ids rid) preview_id rid (r_disk_file_id r) (r_version r)
                             ''processing'' None)) (\<lambda>_.
                           io_bind (move_source os preview_id rc r) (\<lambda>state.
                           io_return (item_result rid state))))))))"

fun process_items ::
  "('n, 'w, 'c, 'd, 'k, 'h) outside \<Rightarrow> (string \<Rightarrow> string) \<Rightarrow> string \<Rightarrow> recruiter_config \<Rightarrow> json list \<Rightarrow>
   ('n, 'w, 'c, 'd, 'k, 'h, json list) agent_io" where
  "process_items os new_ids preview_id rc [] = io_return []"
| "process_items os new_ids preview_id rc (item # items) =
     io_bind (process_item os new_ids preview_id rc item) (\<lambda>x.
     io_bind (process_items os new_ids preview_id rc items) (\<lambda>xs. io_return (x # xs)))"

section \<open>Confirming\<close>

record cleanup_confirmation =
  cc_preview_id :: string
  cc_user :: string
  cc_channel :: string
  cc_capability :: string
  cc_snapshot_hash :: string
  cc_key :: string

definition cleanup_fingerprint :: "('n, 'w, 'c) services \<Rightarrow> cleanup_confirmation \<Rightarrow> string" where
  "cleanup_fingerprint sv q = json_hash sv (JObj
     [(''preview_id'', JStr (cc_preview_id q)), (''recruiter_user_id'', JStr (cc_user q)),
      (''dm_channel_id'', JStr (cc_channel q)), (''capability_hash'', JStr (sv_hash sv (cc_capability q))),
      (''snapshot_hash'', JStr (cc_snapshot_hash q)), (''idempotency_key'', JStr (cc_key q))])"

definition set_preview :: "string \<Rightarrow> (cleanup_preview \<Rightarrow> cleanup_preview) \<Rightarrow> db \<Rightarrow> db" where
  "set_preview i f d = d\<lparr>db_previews := update_where (\<lambda>p. cp_id p = i) f (db_previews d)\<rparr>"

text \<open>A spent capability answers the same request again; \<open>None\<close> means that work remains.\<close>

definition replay_or_pending ::
  "('n, 'w, 'c) services \<Rightarrow> cleanup_confirmation \<Rightarrow> cleanup_preview \<Rightarrow> (agent_error, json option) result" where
  "replay_or_pending sv q p =
     (let no = (\<lambda>why. App_failed (Cleanup_rejected why)) in
      if cp_capability_consumed_at p \<noteq> None
      then check_that (cp_confirmation_fingerprint p = Some (cleanup_fingerprint sv q))
             (no ''Cleanup capability was already consumed'')
            (case cp_result p of
               Some j \<Rightarrow> Inr (Some j)
             | None \<Rightarrow> check_that (cp_status p = Preview_processing)
                 (no ''Cleanup confirmation cannot be resumed'') (Inr None))
      else check_that (cp_status p = Preview_pending) (no ''Cleanup preview is not pending'') (Inr None))"

definition spend_capability ::
  "('n, 'w, 'c, 'd, 'k, 'h) outside \<Rightarrow> instant \<Rightarrow> cleanup_confirmation \<Rightarrow> cleanup_preview \<Rightarrow>
   ('n, 'w, 'c, 'd, 'k, 'h, unit) agent_io" where
  "spend_capability os now q p =
     (let sv = os_services os in
      if cp_capability_consumed_at p \<noteq> None then io_return ()
      else if cp_capability_expires_at p \<le> now
      then io_bind (save (set_preview (cp_id p) (cp_status_update (\<lambda>_. Preview_expired))))
             (\<lambda>_. reject_cleanup ''Cleanup preview expired'')
      else need_cleanup (cp_capability_hash p = sv_hash sv (cc_capability q)) ''Cleanup capability is invalid''
          (need_cleanup (cp_snapshot_hash p = cc_snapshot_hash q) ''Cleanup snapshot hash changed''
            (save (set_preview (cp_id p) (\<lambda>x. x\<lparr>cp_status := Preview_processing,
               cp_capability_consumed_at := Some now,
               cp_confirmation_fingerprint := Some (cleanup_fingerprint sv q)\<rparr>)))))"

definition run_cleanup ::
  "('n, 'w, 'c, 'd, 'k, 'h) outside \<Rightarrow> (string \<Rightarrow> string) \<Rightarrow> recruiter_config \<Rightarrow> cleanup_preview \<Rightarrow>
   ('n, 'w, 'c, 'd, 'k, 'h, json) agent_io" where
  "run_cleanup os new_ids rc p =
     io_bind (process_items os new_ids (cp_id p) rc (cp_snapshot p)) (\<lambda>results.
     io_bind (clock os) (\<lambda>t.
       let payload = JObj [(''preview_id'', JStr (cp_id p)), (''items'', JList results)] in
       io_bind (save (set_preview (cp_id p) (\<lambda>x. x\<lparr>cp_status := Preview_completed,
          cp_completed_at := Some t, cp_result := Some payload\<rparr>))) (\<lambda>_. io_return payload)))"

definition confirm_cleanup ::
  "('n, 'w, 'c, 'd, 'k, 'h) outside \<Rightarrow> instant \<Rightarrow> (string \<Rightarrow> string) \<Rightarrow> recruiter_config \<Rightarrow> cleanup_confirmation \<Rightarrow>
   ('n, 'w, 'c, 'd, 'k, 'h, json) agent_io" where
  "confirm_cleanup os now new_ids rc q =
     (let sv = os_services os in
      io_bind (io_lift (dm_matches rc (cc_user q) (cc_channel q))) (\<lambda>_.
      io_bind (see (\<lambda>d. find (\<lambda>p. cp_id p = cc_preview_id q) (db_previews d))) (\<lambda>row.
        case row of
          None \<Rightarrow> reject_cleanup ''Cleanup preview not found''
        | Some p \<Rightarrow>
            need_cleanup (cp_recruiter_id p = rc_id rc) ''Cleanup preview not found''
           (io_bind (io_lift (replay_or_pending sv q p)) (\<lambda>replay.
              case replay of
                Some j \<Rightarrow> io_return j
              | None \<Rightarrow>
                  need_cleanup (cp_recruiter_user_id p = cc_user q) ''Cleanup preview belongs to another recruiter''
                 (need_cleanup (cp_mattermost_dm_channel_id p = cc_channel q)
                    ''Cleanup preview belongs to another Mattermost DM''
                 (need_cleanup (st_yandex_source_mutation_enabled (sv_settings sv))
                    ''Yandex source mutation is disabled''
                 (io_bind (spend_capability os now q p) (\<lambda>_. run_cleanup os new_ids rc p)))))))))"

section \<open>What is moved\<close>

text \<open>The source of a recording that an item of the snapshot names and that is still as listed.\<close>

definition confirmed_source ::
  "('n, 'w, 'c, 'd, 'k, 'h) outside \<Rightarrow> recruiter_config \<Rightarrow> cleanup_preview \<Rightarrow> db \<Rightarrow> string \<Rightarrow> bool" where
  "confirmed_source os rc p d path \<longleftrightarrow>
     (\<exists>item\<in>set (cp_snapshot p). \<exists>i r. parse_item os item = Some i \<and> r \<in> set (db_recordings d) \<and>
        r_id r = ci_recording_id i \<and> r_disk_path r = path \<and> unchanged_source (os_services os) rc i r \<and>
        result_of (cp_id p) (r_id r) d = None \<and> unresolved_result (r_id r) d = None)"

text \<open>The confirmation spends the capability, or resumes the run of the same confirmation.\<close>

definition confirms_now :: "('n, 'w, 'c) services \<Rightarrow> instant \<Rightarrow> cleanup_confirmation \<Rightarrow> cleanup_preview \<Rightarrow> bool" where
  "confirms_now sv now q p \<longleftrightarrow>
     (if cp_capability_consumed_at p = None
      then cp_status p = Preview_pending \<and> now < cp_capability_expires_at p \<and>
        cp_capability_hash p = sv_hash sv (cc_capability q) \<and> cp_snapshot_hash p = cc_snapshot_hash q
      else cp_status p = Preview_processing \<and> cp_result p = None \<and>
        cp_confirmation_fingerprint p = Some (cleanup_fingerprint sv q))"

fun moves_confirmed :: "(string \<Rightarrow> bool) \<Rightarrow> disk_call \<Rightarrow> bool" where
  "moves_confirmed P (Trash_resource path) = P path"
| "moves_confirmed P (Purge_trash path) = False"
| "moves_confirmed P _ = True"

lemma permits_confirmed: "permits (moves_confirmed P)"
  unfolding permits_def
proof (intro allI impI)
  fix c
  assume "harmless c"
  then show "moves_confirmed P c" by (cases c) auto
qed

text \<open>
  Since \<open>d\<close> the disks were asked for moves in \<open>P\<close> only, a source is marked as moved or untouched, and
  no result is lost.
\<close>

definition cleaned_since ::
  "disk_call list \<Rightarrow> string list \<Rightarrow> (string \<Rightarrow> bool) \<Rightarrow> db \<Rightarrow> ('n, 'w, 'c, 'd, 'k, 'h) agent \<Rightarrow> bool" where
  "cleaned_since base ns P d s \<longleftrightarrow> calls_since base (moves_confirmed P) ns (ag_disk s) \<and>
     (\<forall>r\<in>set (db_recordings (w_db (ag_world s))). r_deleted_from_disk_at r = None \<longrightarrow> r \<in> set (db_recordings d)) \<and>
     set (db_file_results d) \<subseteq> set (db_file_results (w_db (ag_world s)))"

lemma result_of_None_iff:
  "result_of i rid d = None \<longleftrightarrow> (\<forall>x\<in>set (db_file_results d). \<not> (cf_preview_id x = i \<and> cf_recording_id x = rid))"
  by (auto simp: result_of_def find_None_iff)

lemma unresolved_None_iff:
  "unresolved_result rid d = None \<longleftrightarrow> (\<forall>x\<in>set (db_file_results d).
     \<not> (cf_recording_id x = rid \<and> cf_state x \<in> {''processing'', ''moved_to_trash''}))"
  by (auto simp: unresolved_result_def find_None_iff)

lemma keeps_set_result:
  assumes "result_of i rid d = None"
    and "\<And>x. db_file_results (g x) = db_file_results (set_result i rid f x)"
    and "\<And>x r. r \<in> set (db_recordings (g x)) \<Longrightarrow> r_deleted_from_disk_at r = None \<Longrightarrow> r \<in> set (db_recordings x)"
  shows "keeps (cleaned_since base ns P d) (save g)"
proof (rule keepsI)
  fix s v s1
  assume s: "cleaned_since base ns P d s" and "save g s = (v, s1)"
  then have s1: "w_db (ag_world s1) = g (w_db (ag_world s))" "ag_disk s1 = ag_disk s" by auto
  have "x \<in> set (db_file_results (g (w_db (ag_world s))))" if "x \<in> set (db_file_results d)" for x
    using that s assms(1) unfolding assms(2) cleaned_since_def set_result_def result_of_None_iff
    by (auto intro!: in_update_other)
  then show "cleaned_since base ns P d s1"
    using s s1 assms(3) by (auto simp: cleaned_since_def)
qed

lemma keeps_move_source:
  assumes "result_of i (r_id r) d = None" and "P (r_disk_path r)"
  shows "keeps (cleaned_since base ns P d) (move_source os i rc r)"
proof -
  have "keeps (calls_since base (moves_confirmed P) ns)
      (move_to_trash (os_yandex os) (os_scanner os) (r_disk_path r) (rc_email rc))"
    unfolding move_to_trash_def using assms(2)
    by (intro keeps_guard keeps_trash[OF permits_confirmed]) simp
  from keeps_and[OF this]
  have disk: "keeps (cleaned_since base ns P d)
      (in_disk (move_to_trash (os_yandex os) (os_scanner os) (r_disk_path r) (rc_email rc)))"
    by (intro keeps_in_disk) (simp add: cleaned_since_def)
  have marks: "keeps (cleaned_since base ns P d) (save (\<lambda>x. update_recording (r_id r)
      (r_deleted_from_disk_at_update (\<lambda>_. Some t)) (set_result i (r_id r) f x)))" for t f
    by (rule keeps_set_result[OF assms(1)]) (auto simp: set_result_def update_recording_def in_update_where)
  have results: "keeps (cleaned_since base ns P d) (save (set_result i (r_id r) f))" for f
    by (rule keeps_set_result[OF assms(1)]) (auto simp: set_result_def update_where_def)
  show ?thesis
    unfolding move_source_def
    by (rule keeps_bind keeps_catch keeps_if keeps_return disk keeps_clock marks results)+
qed

lemma keeps_add_result:
  "keeps (cleaned_since base ns P d) (save (\<lambda>x. x\<lparr>db_file_results := db_file_results x @ [y]\<rparr>))"
  by (rule keepsI) (auto simp: cleaned_since_def)

lemma process_item_kept:
  assumes "item \<in> set (cp_snapshot p)" and "P = confirmed_source os rc p d"
    and "cleaned_since base ns P d s" and "process_item os new_ids (cp_id p) rc item s = (v, s1)"
  shows "cleaned_since base ns P d s1"
proof (cases "parse_item os item")
  case None
  then show ?thesis using assms(3,4) by (simp add: process_item_def)
next
  case (Some i)
  let ?rid = "ci_recording_id i" and ?d = "w_db (ag_world s)"
  let ?skip = "save (\<lambda>x. x\<lparr>db_file_results := db_file_results x @ [new_file_result (new_ids ?rid) (cp_id p) ?rid
      (ci_file_id i) (ci_version i) ''skipped_drift'' (Some ''Recording no longer matches the cleanup preview'')]\<rparr>)"
  consider (known) x where "result_of (cp_id p) ?rid ?d = Some x \<or> unresolved_result ?rid ?d = Some x"
    | (drift) "result_of (cp_id p) ?rid ?d = None" "unresolved_result ?rid ?d = None"
        "\<forall>r. recording_of ?d ?rid = Some r \<longrightarrow> \<not> unchanged_source (os_services os) rc i r"
    | (move) r where "result_of (cp_id p) ?rid ?d = None" "unresolved_result ?rid ?d = None"
        "recording_of ?d ?rid = Some r" "unchanged_source (os_services os) rc i r"
    by (cases "result_of (cp_id p) ?rid ?d"; cases "unresolved_result ?rid ?d") auto
  then show ?thesis
  proof cases
    case known
    then have "s1 = s" using assms(4) Some
      by (cases "result_of (cp_id p) ?rid ?d"; cases "unresolved_result ?rid ?d")
        (auto simp: process_item_def Let_def io_bind_app)
    then show ?thesis using assms(3) by simp
  next
    case drift
    then have "io_bind ?skip (\<lambda>_. io_return (item_result ?rid ''skipped_drift'')) s = (v, s1)"
      using assms(4) Some by (auto simp: process_item_def Let_def io_bind_app split: option.splits)
    then show ?thesis
      by (rule keepsD[OF keeps_bind[OF keeps_add_result keeps_return] assms(3)])
  next
    case move
    have r: "r \<in> set (db_recordings ?d)" "r_id r = ?rid" "r_deleted_from_disk_at r = None"
      using move(3,4) by (auto simp: recording_of_def unchanged_source_def dest: find_SomeD)
    have rows: "result_of (cp_id p) (r_id r) d = None" "unresolved_result (r_id r) d = None"
      using move(1,2) r(2) assms(3) by (auto simp: cleaned_since_def result_of_None_iff unresolved_None_iff)
    have "r \<in> set (db_recordings d)" using r assms(3) by (simp add: cleaned_since_def)
    then have ok: "P (r_disk_path r)"
      using assms(1,2) Some move(4) rows r(2) unfolding confirmed_source_def by blast
    obtain u s2 where "move_source os (cp_id p) rc r s2 = (u, s1)" and "cleaned_since base ns P d s2"
      using assms(4) Some move r(2) keepsD[OF keeps_add_result assms(3)]
      by (auto simp: process_item_def Let_def io_bind_app split: sum.splits prod.splits)
    then show ?thesis using keepsD[OF keeps_move_source[of "cp_id p" r d P, OF rows(1) ok]] by blast
  qed
qed

lemma process_items_kept:
  assumes "set items \<subseteq> set (cp_snapshot p)" and "P = confirmed_source os rc p d"
    and "cleaned_since base ns P d s" and "process_items os new_ids (cp_id p) rc items s = (v, s1)"
  shows "cleaned_since base ns P d s1"
  using assms
proof (induction items arbitrary: s v)
  case Nil
  then show ?case by simp
next
  case (Cons item items)
  from Cons.prems(4)[unfolded process_items.simps] show ?case
  proof (cases rule: io_bind_cases)
    case (raised e)
    then show ?thesis using process_item_kept[OF _ Cons.prems(2,3)] Cons.prems(1) by fastforce
  next
    case (passed x s2)
    have "cleaned_since base ns P d s2"
      using process_item_kept[OF _ Cons.prems(2,3) passed(1)] Cons.prems(1) by simp
    then show ?thesis using passed(2) Cons.IH Cons.prems(1,2)
      by (auto elim!: io_bind_cases)
  qed
qed

lemma cleaned_since_preview:
  "cleaned_since base ns P d (s\<lparr>ag_world := (ag_world s)\<lparr>w_db := set_preview i f (w_db (ag_world s)), w_saved := x\<rparr>\<rparr>)
     = cleaned_since base ns P d s"
  by (simp add: cleaned_since_def set_preview_def)

definition preview_of :: "string \<Rightarrow> db \<Rightarrow> cleanup_preview option" where
  "preview_of i d = find (\<lambda>p. cp_id p = i) (db_previews d)"

lemma preview_of_set:
  "(\<And>p. cp_id (f p) = cp_id p) \<Longrightarrow> preview_of i (set_preview j f d) =
     map_option (\<lambda>p. if cp_id p = j then f p else p) (preview_of i d)"
  by (simp add: preview_of_def set_preview_def find_update_where)

text \<open>The capability of a preview, once spent, stays spent.\<close>

definition spent :: "string \<Rightarrow> ('n, 'w, 'c, 'd, 'k, 'h) agent \<Rightarrow> bool" where
  "spent i s \<longleftrightarrow> (\<exists>p. preview_of i (w_db (ag_world s)) = Some p \<and> cp_capability_consumed_at p \<noteq> None)"

lemma spent_frame: "db_previews (w_db (ag_world s1)) = db_previews (w_db (ag_world s)) \<Longrightarrow> spent i s1 = spent i s"
  by (simp add: spent_def preview_of_def)

lemma keeps_spent [keeps_rules]:
  "(\<And>d. db_previews (f d) = db_previews d) \<Longrightarrow> keeps (spent i) (save f)"
  "keeps (spent i) (in_disk m)"
  by (rule keepsI; auto simp: spent_def preview_of_def elim!: in_disk_cases)+

lemma keeps_spent_items: "keeps (spent i) (process_items os new_ids pid rc items)"
proof (induction items)
  case Nil
  show ?case by (simp add: keeps_pair)
next
  case (Cons item items)
  have "keeps (spent i) (process_item os new_ids pid rc item)"
    unfolding process_item_def Let_def move_source_def
    by (rule keeps_rules | simp add: set_result_def update_recording_def)+
  then show ?case using Cons by (auto intro!: keeps_rules)
qed

lemma run_cleanup_kept:
  assumes "cleaned_since base ns (confirmed_source os rc p d) d s" and "spent i s"
    and "run_cleanup os new_ids rc p s = (v, s1)"
  shows "cleaned_since base ns (confirmed_source os rc p d) d s1 \<and> spent i s1"
proof -
  from assms(3)[unfolded run_cleanup_def] show ?thesis
  proof (cases rule: io_bind_cases)
    case (raised e)
    then show ?thesis
      using process_items_kept[OF _ refl assms(1)] keepsD[OF keeps_spent_items assms(2)] by blast
  next
    case (passed results s2)
    have "cleaned_since base ns (confirmed_source os rc p d) d s2" and "spent i s2"
      using process_items_kept[OF _ refl assms(1) passed(1)] keepsD[OF keeps_spent_items assms(2) passed(1)] by auto
    then show ?thesis using passed(2)
      by (auto simp: io_bind_app Let_def cleaned_since_preview spent_def preview_of_set)
  qed
qed

lemma replay_or_pending_None:
  "replay_or_pending sv q p = Inr None \<Longrightarrow>
     (if cp_capability_consumed_at p = None then cp_status p = Preview_pending
      else cp_status p = Preview_processing \<and> cp_result p = None \<and>
        cp_confirmation_fingerprint p = Some (cleanup_fingerprint sv q))"
  by (auto simp: replay_or_pending_def Let_def check_that_Inr_iff split: if_splits option.splits)

lemma spend_capability_run:
  assumes "spend_capability os now q p s = (v, s1)" and "preview_of (cp_id p) (w_db (ag_world s)) = Some p"
    and "cleaned_since base ns P d s"
  shows "ag_disk s1 = ag_disk s \<and> cleaned_since base ns P d s1 \<and>
    (\<forall>u. v = Inr u \<longrightarrow> spent (cp_id p) s1 \<and> (cp_capability_consumed_at p = None \<longrightarrow> now < cp_capability_expires_at p \<and>
       cp_capability_hash p = sv_hash (os_services os) (cc_capability q) \<and> cp_snapshot_hash p = cc_snapshot_hash q))"
  using assms
  by (auto simp: spend_capability_def Let_def io_bind_app need_cleanup_app cleaned_since_preview spent_def
      preview_of_set split: if_splits)

lemma confirm_cleanup_cases:
  assumes "confirm_cleanup os now new_ids rc q s = (v, s1)"
  obtains (idle) "s1 = s" | (runs) p where "preview_of (cc_preview_id q) (w_db (ag_world s)) = Some p" "cp_recruiter_id p = rc_id rc"
    "rc_mattermost_user_id rc = Some (cc_user q)" "cp_recruiter_user_id p = cc_user q"
    "st_yandex_source_mutation_enabled (sv_settings (os_services os))"
    "replay_or_pending (os_services os) q p = Inr None"
    "io_bind (spend_capability os now q p) (\<lambda>_. run_cleanup os new_ids rc p) s = (v, s1)"
proof (cases "dm_matches rc (cc_user q) (cc_channel q)")
  case (Inl e)
  then have "s1 = s" using assms by (simp add: confirm_cleanup_def io_bind_app Let_def)
  then show ?thesis by (rule that(1))
next
  case (Inr u)
  then have user: "rc_mattermost_user_id rc = Some (cc_user q)"
    by (simp add: dm_matches_def check_that_def split: if_splits)
  show ?thesis
  proof (cases "preview_of (cc_preview_id q) (w_db (ag_world s))")
    case None
    then have "s1 = s" using assms Inr
      by (simp add: confirm_cleanup_def io_bind_app Let_def preview_of_def)
    then show ?thesis by (rule that(1))
  next
    case (Some p)
    note run = assms[unfolded confirm_cleanup_def Let_def io_bind_app, simplified Inr, simplified,
      folded preview_of_def, simplified Some, simplified]
    show ?thesis
    proof (cases "replay_or_pending (os_services os) q p = Inr None")
      case True
      then show ?thesis
        using run Some user that by (auto simp: need_cleanup_app io_bind_app split: if_splits)
    next
      case False
      then have "s1 = s" using run
        by (auto simp: need_cleanup_app io_bind_app split: if_splits sum.splits option.splits)
      then show ?thesis by (rule that(1))
    qed
  qed
qed

section \<open>Properties\<close>

text \<open>
  Property C6.  A confirmation that sends anything to the disks was made by the recruiter the preview
  was issued to while changing the source is allowed, and in one of two ways (\<open>confirms_now\<close>): with
  the unspent capability of a pending preview before it expires and under the hash of its snapshot;
  or, the capability being spent already, as the repetition of the very request that spent it, with
  the same fingerprint of preview, recruiter, channel, capability, snapshot and key, whose run is
  still processing and has no result (such a resume may come at any time: the code checks the expiry
  only when the capability is spent).  In both cases it purges nothing and asks only for moves of
  sources the snapshot lists whose recording is still exactly as listed and that no clean-up has begun
  to move, and the capability is spent afterwards.
\<close>

theorem cleanup_moves_only_confirmed_sources:
  assumes "confirm_cleanup os now new_ids rc q s = (v, s1)"
    and "calls_of (ag_disk s1) = calls_of (ag_disk s) @ cs" and "cs \<noteq> []"
  shows "\<exists>p. preview_of (cc_preview_id q) (w_db (ag_world s)) = Some p \<and> cp_recruiter_id p = rc_id rc \<and>
    rc_mattermost_user_id rc = Some (cc_user q) \<and> cp_recruiter_user_id p = cc_user q \<and>
    st_yandex_source_mutation_enabled (sv_settings (os_services os)) \<and> confirms_now (os_services os) now q p \<and>
    (\<forall>c\<in>set cs. moves_confirmed (confirmed_source os rc p (w_db (ag_world s))) c) \<and> spent (cc_preview_id q) s1"
proof -
  let ?d = "w_db (ag_world s)" and ?sv = "os_services os"
  have quiet: "s1 \<noteq> s" using assms(2,3) by auto
  from assms(1) show ?thesis
  proof (cases rule: confirm_cleanup_cases)
    case idle
    then show ?thesis using quiet by simp
  next
    case p: (runs p)
    note rest = p(7)
    have pid: "cp_id p = cc_preview_id q" using p(1) by (auto simp: preview_of_def dest: find_SomeD)
    have start: "cleaned_since (calls_of (ag_disk s)) (ys_nonces (ag_disk s)) (confirmed_source os rc p ?d) ?d s"
      by (simp add: cleaned_since_def calls_since_start)
    obtain u s2 where sp: "spend_capability os now q p s = (u, s2)" by fastforce
    note spend = spend_capability_run[OF sp, unfolded pid, OF p(1) start]
    have "s1 = s2" if "u = Inl e" for e using rest sp that by simp
    then obtain w where u: "u = Inr w" using spend assms(2,3) by (cases u) auto
    have "cleaned_since (calls_of (ag_disk s)) (ys_nonces (ag_disk s)) (confirmed_source os rc p ?d) ?d s1 \<and>
        spent (cc_preview_id q) s1"
      by (rule run_cleanup_kept[of _ _ os rc p ?d s2]) (use spend u rest sp in \<open>simp_all\<close>)
    then have "list_all (moves_confirmed (confirmed_source os rc p ?d)) cs" "spent (cc_preview_id q) s1"
      using assms(2) by (auto simp: cleaned_since_def calls_since_def)
    moreover have "confirms_now ?sv now q p"
      using replay_or_pending_None[OF p(6)] spend u by (auto simp: confirms_now_def)
    ultimately show ?thesis using p by (auto simp: list_all_iff)
  qed
qed

section \<open>A clean-up\<close>

definition demo_outside :: "(nat, nas_files, nat, nat, nat, nat) outside" where
  "demo_outside = \<lparr>os_services = demo_mover2\<lparr>sv_settings :=
       (default_settings ''Spots'')\<lparr>st_yandex_source_mutation_enabled := True\<rparr>\<rparr>,
     os_yandex = demo_yandex, os_scanner = demo_scanner,
     os_store = \<lparr>s3_answer = demo_s3_answer\<rparr>, os_download = (\<lambda>_ w. (None, w)),
     os_imap = demo_imap, os_caldav = demo_caldav, os_origin = (''https'', ''c'', None),
     os_env = sample_env, os_digests = \<lparr>token_digest = (\<lambda>t. t), payload_digest = (\<lambda>_. [])\<rparr>, os_compile = (\<lambda>_. None),
     os_default_signals = sample_signals, os_text = (\<lambda>_. ''e''), os_label = (\<lambda>a b. a @ b), os_local_date = (\<lambda>_ _. Some (2024, 1, 1)),
     os_local_minutes = (\<lambda>_ _. Some 1080), os_midnight = (\<lambda>_ _. Some 0)\<rparr>"

definition demo_done :: recording where
  "demo_done = demo_stored\<lparr>r_disk_path := ''disk:/T/a''\<rparr>"

definition demo_preview :: cleanup_preview where
  "demo_preview = \<lparr>cp_id = ''p1'', cp_recruiter_id = ''1'', cp_recruiter_user_id = ''u'',
     cp_mattermost_dm_channel_id = ''dm'', cp_snapshot = [snapshot_item demo_mover2 demo_done],
     cp_snapshot_hash = ''h'', cp_capability_hash = ''#t'', cp_capability_expires_at = 100,
     cp_capability_consumed_at = None, cp_confirmation_fingerprint = None, cp_result = None,
     cp_status = Preview_pending, cp_created_at = 0, cp_completed_at = None\<rparr>"

definition demo_agent :: "(nat, nas_files, nat, nat, nat, nat) agent" where
  "demo_agent = \<lparr>ag_world = demo_filed\<lparr>w_db := (w_db demo_filed)\<lparr>db_recordings := [demo_done],
       db_previews := [demo_preview]\<rparr>\<rparr>,
     ag_disk = demo_disk, ag_store = (0, []), ag_calendars = [], ag_web = 0\<rparr>"

definition demo_confirmation :: cleanup_confirmation where
  "demo_confirmation = \<lparr>cc_preview_id = ''p1'', cc_user = ''u'', cc_channel = ''dm'', cc_capability = ''t'',
     cc_snapshot_hash = ''h'', cc_key = ''k''\<rparr>"

theorem cleanup_witness:
  "\<exists>s1 p. confirm_cleanup demo_outside 5 (\<lambda>i. i) sample_recruiter demo_confirmation demo_agent =
       (Inr (JObj [(''preview_id'', JStr ''p1''), (''items'', JList [item_result ''r1'' ''moved_to_trash''])]), s1) \<and>
     calls_of (ag_disk s1) = [Trash_resource ''disk:/T/a''] \<and>
     confirmed_source demo_outside sample_recruiter p (w_db (ag_world demo_agent)) ''disk:/T/a'' \<and> spent ''p1'' s1"
proof -
  let ?run = "confirm_cleanup demo_outside 5 (\<lambda>i. i) sample_recruiter demo_confirmation demo_agent"
  let ?out = "JObj [(''preview_id'', JStr ''p1''), (''items'', JList [item_result ''r1'' ''moved_to_trash''])]"
  have "fst ?run = Inr ?out" by code_simp
  then have run: "?run = (Inr ?out, snd ?run)" by (metis prod.collapse)
  have sent: "calls_of (ag_disk (snd ?run)) = [Trash_resource ''disk:/T/a'']" by code_simp
  have "calls_of (ag_disk demo_agent) = []" by code_simp
  then have "calls_of (ag_disk (snd ?run)) = calls_of (ag_disk demo_agent) @ [Trash_resource ''disk:/T/a'']"
    using sent by simp
  from cleanup_moves_only_confirmed_sources[OF run this]
  obtain p where "confirmed_source demo_outside sample_recruiter p (w_db (ag_world demo_agent)) ''disk:/T/a''"
    "spent (cc_preview_id demo_confirmation) (snd ?run)" by auto
  then show ?thesis using run sent by (auto simp: demo_confirmation_def)
qed

end
