(* ===== verification/File_Transfer.thy ===== *)
theory File_Transfer
imports Agent
begin

text \<open>
  \<open>app/services/transfer.py\<close>: copying a recording from the recruiter's disk to the storage the settings
  name, through a download link, and making its link.  A failed step is raised as \<open>Transfer_failed\<close>
  with the name of the step and the cause.
\<close>

section \<open>The storage\<close>

text \<open>\<open>StorageFactory.create\<close>; only the file station implements destinations and keeps files for good.\<close>

definition on_station :: "('n, 'w, 'c, 'd, 'k, 'h) outside \<Rightarrow> bool" where
  "on_station os \<longleftrightarrow> st_storage_provider (sv_settings (os_services os)) = Synology"

definition in_station :: "('w, 'a) nas_io \<Rightarrow> ('n, 'w, 'c, 'd, 'k, 'h, 'a) agent_io" where
  "in_station m = in_world (in_nas m)"

definition failing :: "string \<Rightarrow> ('n, 'w, 'c, 'd, 'k, 'h, 'a) agent_io \<Rightarrow> ('n, 'w, 'c, 'd, 'k, 'h, 'a) agent_io" where
  "failing step m = io_catch m (\<lambda>e. io_raise (Transfer_failed step e))"

definition fails :: "string \<Rightarrow> string \<Rightarrow> (agent_error, 'a) result" where
  "fails step why = Inl (Transfer_failed step (Value_failed why))"

section \<open>Where the file goes\<close>

text \<open>The errors of the file station and of the recruiter's roots that \<open>transfer\<close> turns into its own.\<close>

fun refuses_destination :: "agent_error \<Rightarrow> bool" where
  "refuses_destination (App_failed (Nas_failed (Api_error s j))) = True"
| "refuses_destination (App_failed (Nas_failed (Path_error e))) = True"
| "refuses_destination (App_failed (Nas_failed Bad_bounds)) = True"
| "refuses_destination (App_failed (Nas_failed Not_writable)) = True"
| "refuses_destination (Value_failed why) = True"
| "refuses_destination _ = False"

text \<open>\<open>_canonical_allowed_destination\<close>: the folder under the first root that contains it.\<close>

fun canonical_allowed :: "string \<Rightarrow> string list \<Rightarrow> (string \<times> string) option" where
  "canonical_allowed path [] = None"
| "canonical_allowed path (root # roots) =
     (case canonical_under_root root path of
        Inr c \<Rightarrow> Some (c, root)
      | Inl e \<Rightarrow> canonical_allowed path roots)"

definition usable_destination :: "recording \<Rightarrow> recruiter_config \<Rightarrow> db \<Rightarrow> storage_destination option" where
  "usable_destination r rc d = find (\<lambda>x. r_storage_destination_id r = Some (sd_id x) \<and>
     sd_recruiter_id x = rc_id rc \<and> sd_writable x \<and> sd_symlink_safe x) (db_destinations d)"

definition transfer_roots :: "settings \<Rightarrow> recruiter_config \<Rightarrow> (agent_error, string list) result" where
  "transfer_roots st rc = (case resolve_synology_roots (Some st) (Some rc) of
      Inl e \<Rightarrow> Inl (Value_failed ''roots'') | Inr roots \<Rightarrow> Inr roots)"

definition check_destination ::
  "('n, 'w, 'c, 'd, 'k, 'h) outside \<Rightarrow> recruiter_config \<Rightarrow> storage_destination \<Rightarrow>
   ('n, 'w, 'c, 'd, 'k, 'h, string) agent_io" where
  "check_destination os rc dest =
     (let sv = os_services os in
      io_catch
        (io_bind (io_lift (transfer_roots (sv_settings sv) rc)) (\<lambda>roots.
           case canonical_allowed (sd_canonical_path dest) roots of
             None \<Rightarrow> io_raise (Value_failed ''storage destination is outside allowed interview roots'')
           | Some (folder, root) \<Rightarrow>
               io_bind (in_station (validate_existing_directory_under_root (sv_nas sv) root folder))
                 (\<lambda>_. io_return folder)))
        (\<lambda>e. io_raise (if refuses_destination e then Transfer_failed ''destination'' e else e)))"

definition destination_place ::
  "('n, 'w, 'c, 'd, 'k, 'h) outside \<Rightarrow> recording \<Rightarrow> recruiter_config \<Rightarrow>
   ('n, 'w, 'c, 'd, 'k, 'h, string \<times> string) agent_io" where
  "destination_place os r rc =
     (if \<not> truthy (r_generated_filename r) then io_lift (fails ''destination'' ''generated filename is missing'')
      else io_bind (see (usable_destination r rc)) (\<lambda>row.
        case row of
          None \<Rightarrow> io_lift (fails ''destination'' ''storage destination is unavailable'')
        | Some dest \<Rightarrow> io_bind (check_destination os rc dest) (\<lambda>folder.
            io_return (folder, the (r_generated_filename r)))))"

text \<open>\<open>str.rpartition('/')\<close>, without the separator.\<close>

definition rpartition_slash :: "string \<Rightarrow> string \<times> string" where
  "rpartition_slash s =
     (let ps = split_on CHR ''/'' s in (join_with ''/'' (butlast ps), last ps))"

definition without_slash :: "string \<Rightarrow> string" where
  "without_slash = rstrip_by (\<lambda>x. x = CHR ''/'')"

definition keyed_place ::
  "('n, 'w, 'c, 'd, 'k, 'h) outside \<Rightarrow> string \<Rightarrow> string \<Rightarrow> recruiter_config \<Rightarrow> (agent_error, string \<times> string) result" where
  "keyed_place os key name rc =
     (case rpartition_slash key of (folder, filename) \<Rightarrow>
        if folder = '''' \<or> filename \<noteq> name then fails ''destination'' ''persisted storage key is invalid''
        else if on_station os
        then (case canonical_under_root (rc_synology_base_folder rc)
                     (without_slash (rc_synology_base_folder rc) @ ''/'' @ folder) of
                Inl e \<Rightarrow> fails ''destination'' ''folder''
              | Inr c \<Rightarrow> Inr (c, filename))
        else Inr (folder, filename))"

definition dated_place :: "recording \<Rightarrow> recruiter_config \<Rightarrow> string \<Rightarrow> (agent_error, string \<times> string) result" where
  "dated_place r rc candidate_name =
     (case r_calendar_dtstart r of
        None \<Rightarrow> fails ''destination'' ''calendar start is missing''
      | Some t \<Rightarrow> Inr (without_slash (rc_synology_base_folder rc) @ ''/'' @ date_iso (utc_date t) @ ''/'' @
          sub_reserved candidate_name, r_disk_filename r))"

definition to_destination :: "('n, 'w, 'c, 'd, 'k, 'h) outside \<Rightarrow> recording \<Rightarrow> bool" where
  "to_destination os r \<longleftrightarrow> r_storage_destination_id r \<noteq> None \<and> on_station os"

definition place_of ::
  "('n, 'w, 'c, 'd, 'k, 'h) outside \<Rightarrow> recording \<Rightarrow> recruiter_config \<Rightarrow> string \<Rightarrow>
   ('n, 'w, 'c, 'd, 'k, 'h, string \<times> string) agent_io" where
  "place_of os r rc candidate_name =
     (if to_destination os r then destination_place os r rc
      else if truthy (r_storage_key r) \<and> truthy (r_generated_filename r)
      then io_lift (keyed_place os (the (r_storage_key r)) (the (r_generated_filename r)) rc)
      else io_lift (dated_place r rc candidate_name))"

section \<open>Copying\<close>

definition find_download :: "('n, 'w, 'c, 'd, 'k, 'h) outside \<Rightarrow> string \<Rightarrow> string \<Rightarrow> ('n, 'w, 'c, 'd, 'k, 'h, string) agent_io" where
  "find_download os path email =
     io_bind (in_disk (disk_request (os_yandex os) (sc_settings (os_scanner os)) email (Get_download path))) (\<lambda>r.
       case resp_json r of
         Some j \<Rightarrow> (case jget ''href'' j of
             JStr href \<Rightarrow> if href = '''' then io_raise (Value_failed ''no href'') else io_return href
           | _ \<Rightarrow> io_raise (Value_failed ''no href''))
       | None \<Rightarrow> io_raise (Value_failed ''no href''))"

definition get_download :: "('n, 'w, 'c, 'd, 'k, 'h) outside \<Rightarrow> string \<Rightarrow> ('n, 'w, 'c, 'd, 'k, 'h, download) agent_io" where
  "get_download os href = (\<lambda>s. case os_download os href (ag_web s) of (r, w) \<Rightarrow>
     ((case r of
         None \<Rightarrow> Inl Web_failed
       | Some x \<Rightarrow> if 200 \<le> dl_status x \<and> dl_status x \<le> 299 then Inr x else Inl Web_failed),
      s\<lparr>ag_web := w\<rparr>))"

text \<open>The announced length, when it is positive.\<close>

definition known_length :: "download \<Rightarrow> int option" where
  "known_length x = (case dl_length x of Some n \<Rightarrow> if n > 0 then Some n else None | None \<Rightarrow> None)"

text \<open>
  A body that breaks off loses the response of the upload it is sent in: the station has seen the
  beginning only.
\<close>

definition cut_off :: "string \<Rightarrow> 'w dsm \<Rightarrow> 'w dsm" where
  "cut_off filename d = d\<lparr>answer := (\<lambda>q w. case q of
      Upload_file f n c ow \<Rightarrow> if n = filename then (None, snd (answer d q w)) else answer d q w
    | _ \<Rightarrow> answer d q w)\<rparr>"

definition put_file ::
  "('n, 'w, 'c, 'd, 'k, 'h) outside \<Rightarrow> string \<Rightarrow> string \<Rightarrow> byte_stream \<Rightarrow> int option \<Rightarrow> recording \<Rightarrow>
   ('n, 'w, 'c, 'd, 'k, 'h, string) agent_io" where
  "put_file os folder filename stream n r =
     (let nas = sv_nas (os_services os) in
      if on_station os
      then in_station (upload (if snd stream then cut_off filename nas else nas) folder filename
             (concat (fst stream)) n (r_id r) (identity_of r))
      else in_store (s3_upload (os_store os) MIN_MULTIPART_PART_SIZE folder filename stream n (r_id r) (identity_of r)))"

definition stream_upload ::
  "('n, 'w, 'c, 'd, 'k, 'h) outside \<Rightarrow> string \<Rightarrow> string \<Rightarrow> string \<Rightarrow> recording \<Rightarrow>
   ('n, 'w, 'c, 'd, 'k, 'h, string) agent_io" where
  "stream_upload os href folder filename r =
     io_bind (get_download os href) (\<lambda>x. put_file os folder filename (dl_body x) (known_length x) r)"

text \<open>Through a temporary file, read again a mebibyte at a time.\<close>

definition temp_upload ::
  "('n, 'w, 'c, 'd, 'k, 'h) outside \<Rightarrow> string \<Rightarrow> string \<Rightarrow> string \<Rightarrow> recording \<Rightarrow>
   ('n, 'w, 'c, 'd, 'k, 'h, string) agent_io" where
  "temp_upload os href folder filename r =
     io_bind (get_download os href) (\<lambda>x.
       let content = concat (fst (dl_body x)) in
       if snd (dl_body x) then io_raise Web_failed
       else put_file os folder filename (cut (1024 * 1024) content, False) (Some (int (length content))) r)"

definition copy_file ::
  "('n, 'w, 'c, 'd, 'k, 'h) outside \<Rightarrow> string \<Rightarrow> string \<Rightarrow> string \<Rightarrow> recording \<Rightarrow>
   ('n, 'w, 'c, 'd, 'k, 'h, string) agent_io" where
  "copy_file os href folder filename r =
     io_catch (stream_upload os href folder filename r) (\<lambda>e.
       if e = Streaming_unsupported then failing ''upload'' (temp_upload os href folder filename r)
       else io_raise (Transfer_failed ''upload'' e))"

record transfer_result =
  tr_folder_path :: string
  tr_file_path :: string
  tr_storage_is_durable :: bool

definition transfer ::
  "('n, 'w, 'c, 'd, 'k, 'h) outside \<Rightarrow> recording \<Rightarrow> recruiter_config \<Rightarrow> string \<Rightarrow>
   ('n, 'w, 'c, 'd, 'k, 'h, transfer_result) agent_io" where
  "transfer os r rc candidate_name =
     io_bind (place_of os r rc candidate_name) (\<lambda>(folder, filename).
     io_bind (if to_destination os r \<or> \<not> on_station os then io_return ()
              else failing ''ensure_folder'' (in_station (ensure_folder (sv_nas (os_services os)) folder))) (\<lambda>_.
     io_bind (failing ''download'' (find_download os (r_disk_path r) (rc_email rc))) (\<lambda>href.
     io_bind (copy_file os href folder filename r) (\<lambda>path.
     io_return \<lparr>tr_folder_path = folder, tr_file_path = path, tr_storage_is_durable = on_station os\<rparr>))))"

definition share_link ::
  "('n, 'w, 'c, 'd, 'k, 'h) outside \<Rightarrow> string \<Rightarrow> ('n, 'w, 'c, 'd, 'k, 'h, string) agent_io" where
  "share_link os path = failing ''share_link''
     (let nas = sv_nas (os_services os) in
      if on_station os
      then io_bind (in_station (find_public_share_link nas path)) (\<lambda>existing.
             case existing of
               Some url \<Rightarrow> io_return url
             | None \<Rightarrow> in_station (create_share_link nas path))
      else io_bind (in_store (s3_share_link (os_store os) path)) (\<lambda>j.
             case j of JStr url \<Rightarrow> io_return url | _ \<Rightarrow> io_raise (Value_failed ''no url'')))"

end
