(* ===== verification/Pipeline.thy ===== *)
theory Pipeline
imports File_Transfer Lease Question_Queue Routing_Jobs
begin

text \<open>
  The transfer half of \<open>app/scheduler/cron.py\<close>: from a matched recording to a completed one.  A worker
  that holds the processing lease settles the candidate, names the file, chooses or asks for the
  destination, copies the file, makes its link, writes the Notion card and marks the source; every
  step commits the status it reached, and a later run resumes after the last committed step.  Fresh
  identifiers are arguments, the clock is read from the disks, and logging is left out.
\<close>

section \<open>Moving a recording\<close>

text \<open>The row of the session, and \<open>StatusService.advance\<close> on it; \<open>f\<close> sets the other columns.\<close>

definition row_of :: "string \<Rightarrow> ('n, 'w, 'c, 'd, 'k, 'h, recording) agent_io" where
  "row_of i = io_bind (see (\<lambda>d. recording_of d i)) (\<lambda>row.
     case row of None \<Rightarrow> io_raise (Value_failed ''no row'') | Some r \<Rightarrow> io_return r)"

definition advance_row ::
  "('n, 'w, 'c, 'd, 'k, 'h) outside \<Rightarrow> string \<Rightarrow> recording_status \<Rightarrow> string option \<Rightarrow> string option \<Rightarrow>
   (recording \<Rightarrow> recording) \<Rightarrow> ('n, 'w, 'c, 'd, 'k, 'h, unit) agent_io" where
  "advance_row os i target step msg f =
     io_bind (clock os) (\<lambda>t.
     io_bind (row_of i) (\<lambda>r.
       case advance t target step msg [] r of
         Inl e \<Rightarrow> io_raise (Advance_failed e)
       | Inr r1 \<Rightarrow> change (update_recording i (\<lambda>_. f r1))))"

definition commit_all :: "('n, 'w, 'c, 'd, 'k, 'h, unit) agent_io" where
  "commit_all = in_world commit"

definition move_row ::
  "('n, 'w, 'c, 'd, 'k, 'h) outside \<Rightarrow> string \<Rightarrow> recording_status \<Rightarrow> string option \<Rightarrow> string option \<Rightarrow>
   (recording \<Rightarrow> recording) \<Rightarrow> ('n, 'w, 'c, 'd, 'k, 'h, unit) agent_io" where
  "move_row os i target step msg f = io_bind (advance_row os i target step msg f) (\<lambda>_. commit_all)"

definition fail_row ::
  "('n, 'w, 'c, 'd, 'k, 'h) outside \<Rightarrow> string \<Rightarrow> string \<Rightarrow> string \<Rightarrow> ('n, 'w, 'c, 'd, 'k, 'h, unit) agent_io" where
  "fail_row os i step msg = move_row os i FAILED (Some step) (Some msg) (\<lambda>r. r)"

definition ask_recruiter ::
  "('n, 'w, 'c, 'd, 'k, 'h) outside \<Rightarrow> string \<Rightarrow> string option \<Rightarrow> json list \<Rightarrow> string option \<Rightarrow> string option \<Rightarrow>
   ('n, 'w, 'c, 'd, 'k, 'h, unit) agent_io" where
  "ask_recruiter os i reason candidates step msg =
     move_row os i MANUAL_REVIEW_REQUIRED step msg (\<lambda>r. r\<lparr>r_manual_review_reason := reason,
       r_manual_review_candidates := Some candidates\<rparr>)"

section \<open>The candidate's page and spot\<close>

definition validated_spot :: "('n, 'w, 'c, 'd, 'k, 'h) outside \<Rightarrow> notion_spot \<Rightarrow> (string, notion_spot) result" where
  "validated_spot os s =
     (if py_strip (sp_id s) = '''' \<or> py_strip (sp_title s) = '''' then Inl ''Resolved Spot identity is incomplete''
      else case url_split (sv_brackets (os_services os)) (sp_url s) of
        None \<Rightarrow> Inl ''Invalid IPv6 URL''
      | Some u \<Rightarrow> if safe_https u then Inr s else Inl ''Resolved Spot URL is unsafe'')"

definition persisted_spot ::
  "('n, 'w, 'c, 'd, 'k, 'h) outside \<Rightarrow> recording \<Rightarrow> (string, notion_spot option) result" where
  "persisted_spot os r =
     (if r_manual_review_reason r \<noteq> Some ''multiple_spots'' \<and> \<not> truthy (r_notion_spot_id r) \<and> \<not> truthy (r_notion_spot_url r)
      then Inr None
      else
        check_that (py_strip (opt_or (r_project_or_spot r) '''') \<noteq> '''') ''Resolved Spot title is missing''
       (check_that (py_strip (opt_or (r_notion_spot_id r) '''') \<noteq> '''') ''Resolved Spot opaque identity is missing''
       (check_that (truthy (r_notion_spot_url r)) ''Resolved Spot URL is missing''
       (res_bind (validated_spot os \<lparr>sp_id = the (r_notion_spot_id r), sp_title = the (r_project_or_spot r),
           sp_url = the (r_notion_spot_url r)\<rparr>) (\<lambda>s. Inr (Some s))))))"

definition single_page_spot ::
  "('n, 'w, 'c, 'd, 'k, 'h) outside \<Rightarrow> notion_page \<Rightarrow> (string, notion_spot option) result" where
  "single_page_spot os p =
     (case np_spots p of
        [] \<Rightarrow> Inr None
      | [s] \<Rightarrow> res_bind (validated_spot os s) (\<lambda>x. Inr (Some x))
      | _ \<Rightarrow> Inl ''Candidate page has multiple unresolved Spots'')"

definition spot_context :: "recording \<Rightarrow> notion_spot option \<Rightarrow> (string \<times> json) list" where
  "spot_context r s =
     (case s of
        Some x \<Rightarrow> [(''project_or_spot'', JStr (sp_title x)), (''spot_id'', JStr (sp_id x)), (''spot_url'', JStr (sp_url x))]
      | None \<Rightarrow> [(''project_or_spot'', JStr (opt_or (r_project_or_spot r) '''')),
          (''spot_id'', JStr (opt_or (r_notion_spot_id r) '''')), (''spot_url'', JStr (opt_or (r_notion_spot_url r) ''''))])"

text \<open>What the rest of the run needs of the page: identifier, URL, e-mail, project, spot, and the name.\<close>

record settled_candidate =
  se_page_id :: string
  se_page_url :: string
  se_email :: "string option"
  se_project :: "string option"
  se_spot :: "notion_spot option"
  se_candidate :: string

definition NOTION_TEMPORARILY_UNAVAILABLE :: string where
  "NOTION_TEMPORARILY_UNAVAILABLE = ''notion_temporarily_unavailable''"

text \<open>The recording stays where it is and is tried again by the next scan.\<close>

definition leave_resumable ::
  "('n, 'w, 'c, 'd, 'k, 'h) outside \<Rightarrow> string \<Rightarrow> string \<Rightarrow> ('n, 'w, 'c, 'd, 'k, 'h, unit) agent_io" where
  "leave_resumable os i step =
     io_bind (clock os) (\<lambda>t. save (update_recording i (\<lambda>r. r\<lparr>r_error_step := Some step,
       r_error_message := Some NOTION_TEMPORARILY_UNAVAILABLE, r_last_attempted_at := Some t\<rparr>)))"

fun transient_failure :: "agent_error \<Rightarrow> bool" where
  "transient_failure (Candidate_failed (Candidate_notion e)) = transient_error e"
| "transient_failure (App_failed (Notion_failed e)) = transient_error e"
| "transient_failure _ = False"

text \<open>\<open>None\<close>: the run ends here, with the recording moved or left as it is.\<close>

definition resolved_candidate ::
  "('n, 'w, 'c, 'd, 'k, 'h) outside \<Rightarrow> recording \<Rightarrow> ('n, 'w, 'c, 'd, 'k, 'h, settled_candidate option) agent_io" where
  "resolved_candidate os r =
     (if \<not> truthy (r_notion_page_id r) \<or> \<not> truthy (r_candidate_name r)
      then io_bind (fail_row os (r_id r) ''review_resolution'' ''Resolved candidate state is incomplete'')
             (\<lambda>_. io_return None)
      else case persisted_spot os r of
        Inl why \<Rightarrow> io_bind (ask_recruiter os (r_id r) (Some ''invalid_selected_spot_identity'') []
                    (Some ''review_resolution'') (Some why)) (\<lambda>_. io_return None)
      | Inr spot \<Rightarrow> io_return (Some \<lparr>se_page_id = the (r_notion_page_id r), se_page_url = opt_or (r_notion_page_url r) '''',
            se_email = r_candidate_email r, se_project = r_project_or_spot r, se_spot = spot,
            se_candidate = the (r_candidate_name r)\<rparr>))"

definition in_candidates ::
  "('n notion_state, candidate_error, 'a) io \<Rightarrow> ('n, 'w, 'c, 'd, 'k, 'h, 'a) agent_io" where
  "in_candidates m = (\<lambda>s. case m (w_notion (ag_world s)) of (v, n) \<Rightarrow>
     ((case v of Inl e \<Rightarrow> Inl (Candidate_failed e) | Inr x \<Rightarrow> Inr x),
      s\<lparr>ag_world := (ag_world s)\<lparr>w_notion := n\<rparr>\<rparr>))"

definition settle_page ::
  "('n, 'w, 'c, 'd, 'k, 'h) outside \<Rightarrow> recording \<Rightarrow> notion_page \<Rightarrow> ('n, 'w, 'c, 'd, 'k, 'h, settled_candidate option) agent_io" where
  "settle_page os r p =
     (case name_in_parens (opt_or (r_calendar_event_summary r) '''') of
        None \<Rightarrow> io_raise (Value_failed ''Calendar event has no candidate name'')
      | Some name \<Rightarrow>
          (case single_page_spot os p of
             Inl why \<Rightarrow> io_bind (ask_recruiter os (r_id r) (Some ''invalid_selected_spot_identity'') []
                         (Some ''candidate_matching'') (Some why)) (\<lambda>_. io_return None)
           | Inr spot \<Rightarrow> io_return (Some \<lparr>se_page_id = np_id p, se_page_url = np_url p, se_email = np_email p,
                 se_project = np_project_or_spot p, se_spot = spot, se_candidate = py_strip name\<rparr>)))"

definition matched_candidate ::
  "('n, 'w, 'c, 'd, 'k, 'h) outside \<Rightarrow> recruiter_config \<Rightarrow> recording \<Rightarrow>
   ('n, 'w, 'c, 'd, 'k, 'h, settled_candidate option) agent_io" where
  "matched_candidate os rc r =
     (let sv = os_services os in
      io_bind (io_catch
          (io_bind (in_candidates (find_and_match (sv_notion sv) (sv_settings sv) rc r)) (\<lambda>m. io_return (Inr m)))
          (\<lambda>e. io_return (Inl e))) (\<lambda>v.
        case v of
          Inl e \<Rightarrow>
            io_bind (if transient_failure e then leave_resumable os (r_id r) ''candidate_matching''
                     else fail_row os (r_id r) ''candidate_matching'' (os_text os e)) (\<lambda>_. io_return None)
        | Inr m \<Rightarrow>
            (case cm_page m of
               None \<Rightarrow> io_bind (ask_recruiter os (r_id r) (cm_reason m)
                          (if cm_choices m \<noteq> [] then cm_choices m else cm_candidates m) None None)
                         (\<lambda>_. io_return None)
             | Some p \<Rightarrow> settle_page os r p)))"

section \<open>The name and place of the file\<close>

definition event_date ::
  "('n, 'w, 'c, 'd, 'k, 'h) outside \<Rightarrow> instant option \<Rightarrow> ('n, 'w, 'c, 'd, 'k, 'h, date) agent_io" where
  "event_date os start =
     (case start of
        None \<Rightarrow> io_bind (clock os) (\<lambda>t. io_return (utc_date t))
      | Some t \<Rightarrow>
          (case os_local_date os (st_scan_local_timezone (sv_settings (os_services os))) t of
             None \<Rightarrow> io_raise (Value_failed ''No time zone found'')
           | Some d \<Rightarrow> io_return d))"

text \<open>A name that is not allowed is the recruiter's to resolve; a key outside the test prefix escapes.\<close>

definition storage_identity_of ::
  "('n, 'w, 'c, 'd, 'k, 'h) outside \<Rightarrow> recruiter_config \<Rightarrow> recording \<Rightarrow> settled_candidate \<Rightarrow>
   ('n, 'w, 'c, 'd, 'k, 'h, storage_identity option) agent_io" where
  "storage_identity_of os rc r e =
     (let st = sv_settings (os_services os) in
      io_bind (event_date os (r_calendar_dtstart r)) (\<lambda>d.
        case build_storage_identity (te_nfkc (os_env os)) d (se_candidate e) (se_project e) (st_notion_interview_type st)
               (r_disk_filename r) (rc_email rc)
               (if st_test_mode_enabled st then Some (rc_synology_base_folder rc) else None) of
          Inl x \<Rightarrow> io_bind (ask_recruiter os (r_id r) (Some ''invalid_storage_identity'') [] None
                    (Some (os_text os (Identity_failed x)))) (\<lambda>_. io_return None)
        | Inr identity \<Rightarrow>
            (case enforce_storage_key_scope st rc (si_key identity) of
               Inl x \<Rightarrow> io_raise (Scope_failed x)
             | Inr u \<Rightarrow> io_return (Some identity))))"

definition stale_identity :: "recording \<Rightarrow> storage_identity \<Rightarrow> bool" where
  "stale_identity r s \<longleftrightarrow>
     (r_generated_filename r \<noteq> None \<and> r_generated_filename r \<noteq> Some (si_filename s)) \<or>
     (r_storage_key r \<noteq> None \<and> r_storage_key r \<noteq> Some (si_key s))"

definition key_owner :: "string \<Rightarrow> string \<Rightarrow> db \<Rightarrow> recording option" where
  "key_owner key i d = find (\<lambda>x. r_storage_key x = Some key \<and> r_id x \<noteq> i) (db_recordings d)"

definition collision_context :: "recording \<Rightarrow> notion_spot option \<Rightarrow> recording \<Rightarrow> json" where
  "collision_context r spot other = JObj (spot_context r spot @
     [(''conflicting_recording_id'', JStr (r_id other)),
      (''conflicting_spot_id'', JStr (opt_or (r_notion_spot_id other) ''''))])"

text \<open>The columns the settled candidate fills in.\<close>

definition with_candidate ::
  "('n, 'w, 'c, 'd, 'k, 'h) outside \<Rightarrow> recruiter_config \<Rightarrow> settled_candidate \<Rightarrow> storage_identity \<Rightarrow> recording \<Rightarrow> recording" where
  "with_candidate os rc e s r =
     r\<lparr>r_candidate_name := Some (se_candidate e), r_candidate_email := se_email e,
       r_notion_database_id := Some (rc_notion_database_id rc), r_notion_page_id := Some (se_page_id e),
       r_notion_page_url := Some (se_page_url e), r_project_or_spot := se_project e,
       r_notion_spot_id := map_option sp_id (se_spot e), r_notion_spot_url := map_option sp_url (se_spot e),
       r_generated_filename := Some (si_filename s),
       r_storage_key := (if on_station os then None else Some (si_key s)),
       r_content_identity := Some (or_text (r_disk_md5 r) (r_disk_file_id r))\<rparr>"

definition persist_candidate ::
  "('n, 'w, 'c, 'd, 'k, 'h) outside \<Rightarrow> recruiter_config \<Rightarrow> recording \<Rightarrow> settled_candidate \<Rightarrow> storage_identity \<Rightarrow>
   ('n, 'w, 'c, 'd, 'k, 'h, unit) agent_io" where
  "persist_candidate os rc r e s =
     (if r_status r = CANDIDATE_MATCHED then save (update_recording (r_id r) (with_candidate os rc e s))
      else move_row os (r_id r) CANDIDATE_MATCHED None None
             (\<lambda>x. (with_candidate os rc e s x)\<lparr>r_version := r_version x + 1\<rparr>))"

section \<open>Choosing the destination\<close>

text \<open>The errors of the routing that become a question: its own rejections and \<open>ValueError\<close>s.\<close>

fun routing_refused :: "agent_error \<Rightarrow> bool" where
  "routing_refused (App_failed (Job_rejected w)) = True"
| "routing_refused (App_failed (Destination_refused (Rejected x))) = True"
| "routing_refused (App_failed (Destination_refused (Nas (Path_error e)))) = True"
| "routing_refused (App_failed (Destination_refused (Nas Bad_bounds))) = True"
| "routing_refused _ = False"

definition rollback_all :: "('n, 'w, 'c, 'd, 'k, 'h, unit) agent_io" where
  "rollback_all = (\<lambda>s. (Inr (), s\<lparr>ag_world := (ag_world s)\<lparr>w_db := w_saved (ag_world s)\<rparr>\<rparr>))"

text \<open>The inventory is committed as it returns.\<close>

definition discovered ::
  "('n, 'w, 'c, 'd, 'k, 'h) outside \<Rightarrow> instant \<Rightarrow> (nat \<Rightarrow> string) \<Rightarrow> recruiter_config \<Rightarrow>
   ('n, 'w, 'c, 'd, 'k, 'h, storage_destination list) agent_io" where
  "discovered os now fresh rc =
     io_bind (in_world (in_destinations (discover (sv_nas (os_services os)) (sv_settings (os_services os)) now fresh rc)
       Destination_refused)) (\<lambda>ds. io_bind commit_all (\<lambda>_. io_return ds))"

definition queue_routing ::
  "('n, 'w, 'c, 'd, 'k, 'h) outside \<Rightarrow> (nat \<Rightarrow> string) \<Rightarrow> string \<Rightarrow> recruiter_config \<Rightarrow> string \<Rightarrow>
   ('n, 'w, 'c, 'd, 'k, 'h, unit) agent_io" where
  "queue_routing os fresh job_id rc i =
     (let sv = os_services os in
      io_catch
        (io_bind (clock os) (\<lambda>t.
         io_bind (discovered os t fresh rc) (\<lambda>ds.
         io_bind (row_of i) (\<lambda>r.
         io_bind (in_world (create_or_reuse sv t job_id r rc ds)) (\<lambda>_. commit_all)))))
        (\<lambda>e. if routing_refused e
             then io_bind rollback_all (\<lambda>_. ask_recruiter os i (Some ''storage_destination_required'') []
                    (Some ''destination'') (Some (os_text os e)))
             else io_raise e))"

section \<open>Copying, linking, writing the card\<close>

text \<open>\<open>_ensure_active_storage_artifact\<close>; the unique indexes are checked by the commit that follows.\<close>

definition initial_artifact :: "instant \<Rightarrow> string \<Rightarrow> recording \<Rightarrow> storage_artifact" where
  "initial_artifact now new_id r =
     \<lparr>sa_id = new_id, sa_recording_id = r_id r, sa_destination_id = r_storage_destination_id r,
      sa_folder_path = the (r_synology_folder_path r), sa_file_path = the (r_synology_file_path r),
      sa_share_url = the (r_synology_share_url r),
      sa_owner_marker_path = without_slash (the (r_synology_folder_path r)) @ ''/.'' @ file_name_of r @
        ''.recording-agent-owner.json'',
      sa_size_bytes = r_disk_size_bytes r, sa_is_active = True, sa_created_at = now\<rparr>"

definition placed :: "recording \<Rightarrow> bool" where
  "placed r \<longleftrightarrow> truthy (r_synology_folder_path r) \<and> truthy (r_synology_file_path r) \<and> truthy (r_synology_share_url r)"

definition ensure_artifact ::
  "('n, 'w, 'c, 'd, 'k, 'h) outside \<Rightarrow> string \<Rightarrow> string \<Rightarrow> ('n, 'w, 'c, 'd, 'k, 'h, unit) agent_io" where
  "ensure_artifact os new_id i =
     io_bind (clock os) (\<lambda>t.
     io_bind (row_of i) (\<lambda>r.
     io_bind (see (\<lambda>d. active_artifact d i)) (\<lambda>existing.
       if \<not> placed r \<or> existing \<noteq> None then io_return ()
       else change (\<lambda>d. d\<lparr>db_artifacts := db_artifacts d @ [initial_artifact t new_id r]\<rparr>))))"

definition commit_artifacts :: "('n, 'w, 'c, 'd, 'k, 'h, unit) agent_io" where
  "commit_artifacts = io_bind (see (\<lambda>d. artifact_constraints (db_artifacts d))) (\<lambda>ok.
     if ok then commit_all else io_raise (App_failed Integrity_violation))"

definition save_artifact ::
  "('n, 'w, 'c, 'd, 'k, 'h) outside \<Rightarrow> string \<Rightarrow> string \<Rightarrow> ('n, 'w, 'c, 'd, 'k, 'h, unit) agent_io" where
  "save_artifact os new_id i =
     (if on_station os then io_bind (ensure_artifact os new_id i) (\<lambda>_. commit_artifacts) else commit_all)"

text \<open>A \<open>StorageCollisionError\<close> of either storage.\<close>

fun collision_cause :: "agent_error \<Rightarrow> bool" where
  "collision_cause (App_failed (Nas_failed (Collision c))) = True"
| "collision_cause (Store_failed (Foreign_object k)) = True"
| "collision_cause _ = False"

text \<open>A failed step ends the run; other errors escape.  The value says whether the run goes on.\<close>

definition upload_step ::
  "('n, 'w, 'c, 'd, 'k, 'h) outside \<Rightarrow> recruiter_config \<Rightarrow> string \<Rightarrow> string \<Rightarrow>
   ('n, 'w, 'c, 'd, 'k, 'h, unit) agent_io \<Rightarrow> ('n, 'w, 'c, 'd, 'k, 'h, bool) agent_io" where
  "upload_step os rc i candidate_name finish =
     io_bind (row_of i) (\<lambda>r.
     io_bind (io_catch (io_bind (transfer os r rc candidate_name) (\<lambda>x. io_return (Inr x)))
        (\<lambda>e. case e of Transfer_failed step cause \<Rightarrow> io_return (Inl (step, cause)) | _ \<Rightarrow> io_raise e)) (\<lambda>v.
       case v of
         Inl (step, cause) \<Rightarrow>
           io_bind (if collision_cause cause
                    then ask_recruiter os i (Some ''storage_key_collision'') [] None (Some (os_text os cause))
                    else fail_row os i step (os_text os cause)) (\<lambda>_. io_return False)
       | Inr x \<Rightarrow>
           io_bind (advance_row os i UPLOADED_TO_SYNOLOGY None None (\<lambda>r. r\<lparr>
              r_synology_folder_path := Some (tr_folder_path x), r_synology_file_path := Some (tr_file_path x)\<rparr>)) (\<lambda>_.
           io_bind finish (\<lambda>_. io_return True))))"

definition link_step ::
  "('n, 'w, 'c, 'd, 'k, 'h) outside \<Rightarrow> string \<Rightarrow> string \<Rightarrow> string \<Rightarrow> ('n, 'w, 'c, 'd, 'k, 'h, bool) agent_io" where
  "link_step os new_id i path =
     io_bind (io_catch (io_bind (share_link os path) (\<lambda>x. io_return (Inr x)))
        (\<lambda>e. case e of Transfer_failed step cause \<Rightarrow> io_return (Inl (step, cause)) | _ \<Rightarrow> io_raise e)) (\<lambda>v.
       case v of
         Inl (step, cause) \<Rightarrow> io_bind (fail_row os i step (os_text os cause)) (\<lambda>_. io_return False)
       | Inr url \<Rightarrow>
           io_bind (advance_row os i SYNOLOGY_LINK_CREATED None None (\<lambda>r. r\<lparr>r_synology_share_url := Some url,
              r_storage_is_durable := on_station os\<rparr>)) (\<lambda>_.
           io_bind (save_artifact os new_id i) (\<lambda>_. io_return True)))"

text \<open>The day number of a date, as the request to Notion carries it.\<close>

definition write_card ::
  "('n, 'w, 'c, 'd, 'k, 'h) outside \<Rightarrow> recruiter_config \<Rightarrow> recording \<Rightarrow> string \<Rightarrow> string \<Rightarrow> string \<Rightarrow>
   ('n, 'w, 'c, 'd, 'k, 'h, unit) agent_io" where
  "write_card os rc r page_id url filename =
     (let sv = os_services os in
      case r_calendar_dtstart r of
        None \<Rightarrow> io_raise (Value_failed ''Matched calendar date is missing'')
      | Some t \<Rightarrow>
          io_bind (io_lift (case resolve_notion_property_map (sv_settings sv) (Some rc) of
              Inl e \<Rightarrow> Inl (Schema_failed e) | Inr m \<Rightarrow> Inr m)) (\<lambda>m.
          io_bind (event_date os (Some t)) (\<lambda>d.
            in_world (in_notion (update_page_interview (sv_notion sv) m page_id (civil_days d) url filename)
              Notion_failed))))"

definition notion_step ::
  "('n, 'w, 'c, 'd, 'k, 'h) outside \<Rightarrow> recruiter_config \<Rightarrow> string \<Rightarrow> string \<Rightarrow> string \<Rightarrow> (recording \<Rightarrow> string) \<Rightarrow>
   (recording \<Rightarrow> recording) \<Rightarrow> ('n, 'w, 'c, 'd, 'k, 'h, bool) agent_io" where
  "notion_step os rc i page_id url filename mark =
     io_bind (row_of i) (\<lambda>r.
     io_bind (io_catch (io_bind (write_card os rc r page_id url (filename r)) (\<lambda>_. io_return None))
        (\<lambda>e. io_return (Some e))) (\<lambda>v.
       case v of
         Some e \<Rightarrow>
           io_bind (if transient_failure e then leave_resumable os i ''notion_update''
                    else fail_row os i ''notion_update'' (os_text os e)) (\<lambda>_. io_return False)
       | None \<Rightarrow> io_bind (move_row os i NOTION_UPDATED None None mark) (\<lambda>_. io_return True)))"

definition preflight_step ::
  "('n, 'w, 'c, 'd, 'k, 'h) outside \<Rightarrow> recruiter_config \<Rightarrow> string \<Rightarrow> ('n, 'w, 'c, 'd, 'k, 'h, bool) agent_io" where
  "preflight_step os rc i =
     (case require_notion_preflight (os_digests os) (sv_settings (os_services os)) rc of
        Inl e \<Rightarrow> io_bind (fail_row os i ''notion_preflight'' (os_text os (Scope_failed e))) (\<lambda>_. io_return False)
      | Inr u \<Rightarrow> io_return True)"

section \<open>Completing\<close>

definition complete_marked ::
  "('n, 'w, 'c, 'd, 'k, 'h) outside \<Rightarrow> string \<Rightarrow> ('n, 'w, 'c, 'd, 'k, 'h, unit) agent_io" where
  "complete_marked os i =
     io_bind commit_all (\<lambda>_. io_bind (clock os) (\<lambda>t.
       move_row os i COMPLETED None None (\<lambda>r. r\<lparr>r_completed_at := Some t\<rparr>)))"

text \<open>The source is marked when the settings allow it; both ways end in \<open>COMPLETED\<close>.\<close>

definition finish_step ::
  "('n, 'w, 'c, 'd, 'k, 'h) outside \<Rightarrow> recruiter_config \<Rightarrow> string \<Rightarrow> ('n, 'w, 'c, 'd, 'k, 'h, unit) agent_io" where
  "finish_step os rc i =
     io_bind (clock os) (\<lambda>t.
       if \<not> st_yandex_source_mutation_enabled (sv_settings (os_services os))
       then move_row os i COMPLETED None None (\<lambda>r. r\<lparr>r_completed_at := Some t\<rparr>)
       else
         io_bind (row_of i) (\<lambda>r.
         io_bind (io_catch (io_bind (in_disk (mark_processed (os_yandex os) (os_scanner os) (r_disk_path r) (rc_email rc)))
             (\<lambda>_. io_return None)) (\<lambda>e. io_return (Some e))) (\<lambda>v.
           case v of
             Some e \<Rightarrow> fail_row os i ''mark_processed'' (os_text os e)
           | None \<Rightarrow>
               io_bind (clock os) (\<lambda>t1.
               io_bind (advance_row os i SOURCE_MARKED_PROCESSED None None (\<lambda>r. r\<lparr>r_source_processed := True,
                  r_disk_deletable_after := Some (t1 + days 7)\<rparr>)) (\<lambda>_. complete_marked os i)))))"

section \<open>A first run\<close>

text \<open>From the settled candidate on: \<open>None\<close> when the file's place has to be chosen first.\<close>

definition start_transfer ::
  "('n, 'w, 'c, 'd, 'k, 'h) outside \<Rightarrow> recruiter_config \<Rightarrow> string \<Rightarrow> string \<Rightarrow> settled_candidate \<Rightarrow>
   ('n, 'w, 'c, 'd, 'k, 'h, unit) agent_io" where
  "start_transfer os rc new_id i e =
     io_bind (move_row os i TRANSFER_STARTED None None (\<lambda>r. r)) (\<lambda>_.
     io_bind (upload_step os rc i (se_candidate e) (save_artifact os new_id i)) (\<lambda>ok1.
     if \<not> ok1 then io_return () else
     io_bind (row_of i) (\<lambda>r.
     io_bind (link_step os new_id i (opt_or (r_synology_file_path r) '''')) (\<lambda>ok2.
     if \<not> ok2 then io_return () else
     io_bind (preflight_step os rc i) (\<lambda>ok3.
     if \<not> ok3 then io_return () else
     io_bind (row_of i) (\<lambda>r1.
     io_bind (notion_step os rc i (se_page_id e) (opt_or (r_synology_share_url r1) '''') file_name_of
         (r_notion_page_url_update (\<lambda>_. Some (se_page_url e)))) (\<lambda>ok4.
     if \<not> ok4 then io_return () else finish_step os rc i)))))))"

record pipeline_ids =
  pi_job :: string
  pi_artifact :: string
  pi_destination :: "nat \<Rightarrow> string"
  pi_review :: string
  pi_nonce :: string
  pi_set :: string

definition place_and_start ::
  "('n, 'w, 'c, 'd, 'k, 'h) outside \<Rightarrow> pipeline_ids \<Rightarrow> bool \<Rightarrow> recruiter_config \<Rightarrow> string \<Rightarrow> settled_candidate \<Rightarrow>
   ('n, 'w, 'c, 'd, 'k, 'h, unit) agent_io" where
  "place_and_start os ids routed rc i e =
     io_bind (row_of i) (\<lambda>r.
       if st_autonomous_routing_enabled (sv_settings (os_services os)) \<and> on_station os \<and>
          r_storage_destination_id r = None \<and> routed
       then queue_routing os (pi_destination ids) (pi_job ids) rc i
       else if on_station os \<and> r_storage_destination_id r = None
       then ask_recruiter os i (Some ''storage_destination_required'') [] (Some ''destination'')
              (Some ''Interview destination must be selected from allowed Synology inventory'')
       else start_transfer os rc (pi_artifact ids) i e)"

definition run_first ::
  "('n, 'w, 'c, 'd, 'k, 'h) outside \<Rightarrow> pipeline_ids \<Rightarrow> bool \<Rightarrow> recruiter_config \<Rightarrow> recording \<Rightarrow>
   ('n, 'w, 'c, 'd, 'k, 'h, unit) agent_io" where
  "run_first os ids routed rc r =
     io_bind (if r_status r = CANDIDATE_MATCHED then resolved_candidate os r else matched_candidate os rc r) (\<lambda>v.
       case v of
         None \<Rightarrow> io_return ()
       | Some e \<Rightarrow>
           io_bind (storage_identity_of os rc r e) (\<lambda>w.
             case w of
               None \<Rightarrow> io_return ()
             | Some s \<Rightarrow>
                 if stale_identity r s
                 then ask_recruiter os (r_id r) (Some ''stale_storage_identity'') [JObj (spot_context r (se_spot e))]
                        (Some ''destination'') (Some ''Persisted storage identity does not match the selected Spot'')
                 else io_bind (see (key_owner (si_key s) (r_id r))) (\<lambda>other.
                   case other of
                     Some x \<Rightarrow> ask_recruiter os (r_id r) (Some ''storage_key_collision'')
                                [collision_context r (se_spot e) x] None None
                   | None \<Rightarrow> io_bind (persist_candidate os rc r e s) (\<lambda>_.
                               place_and_start os ids routed rc (r_id r) e))))"

section \<open>Waiting for the summary of the call\<close>

definition ambiguous_choice :: "('n, 'w, 'c, 'd, 'k, 'h) outside \<Rightarrow> mail_message \<Rightarrow> json" where
  "ambiguous_choice os m = JObj
     [(''message_id'', JStr (mm_message_id m)),
      (''name'', JStr (os_label os (take 160 (mm_subject m)) (take 160 (mm_sender m)))),
      (''subject'', JStr (take 200 (mm_subject m))), (''sender'', JStr (take 320 (mm_sender m))),
      (''received_at'', JStr (te_iso (os_env os) (mm_received_at m)))]"

definition pending_summary_question :: "string \<Rightarrow> db \<Rightarrow> bool" where
  "pending_summary_question i d \<longleftrightarrow> list_ex (\<lambda>v. v_recording_id v = i \<and>
     v_question_type v = ''summary_email_ambiguous'' \<and> v_status v = Review_pending) (db_reviews d)"

text \<open>One question about the candidates; the recording does not wait for its answer.\<close>

definition escalate_summary ::
  "('n, 'w, 'c, 'd, 'k, 'h) outside \<Rightarrow> pipeline_ids \<Rightarrow> recruiter_config \<Rightarrow> recording \<Rightarrow> mail_message list \<Rightarrow>
   ('n, 'w, 'c, 'd, 'k, 'h, unit) agent_io" where
  "escalate_summary os ids rc r candidates =
     (let sv = os_services os; st = sv_settings sv in
      if \<not> truthy (rc_mattermost_user_id rc) \<or> \<not> truthy (rc_mattermost_dm_channel rc) then io_return ()
      else io_bind (see (pending_summary_question (r_id r))) (\<lambda>existing.
        if existing \<or> st_openclaw_secret st = '''' then io_return ()
        else io_bind (clock os) (\<lambda>t.
          let v = new_review (pi_review ids) (r_id r) ''summary_email_ambiguous''
                (JObj [(''choices'', JList (map (ambiguous_choice os) (take 10 candidates)))]) (pi_set ids) (r_version r) t;
              token = derive_review_token sv (pi_review ids) (pi_nonce ids) (r_version r) (st_openclaw_secret st);
              v1 = v\<lparr>v_recruiter_user_id := rc_mattermost_user_id rc,
                v_mattermost_channel_id := rc_mattermost_dm_channel rc, v_delivery_nonce := Some (pi_nonce ids),
                v_token_hash := Some (sv_hash sv token),
                v_token_expires_at := Some (t + seconds (st_review_token_ttl_seconds st))\<rparr>
          in change (\<lambda>d. d\<lparr>db_reviews := db_reviews d @ [v1]\<rparr>))))"

text \<open>One tick of the search; \<open>True\<close> keeps the recording waiting.\<close>

definition advance_summary_search ::
  "('n, 'w, 'c, 'd, 'k, 'h) outside \<Rightarrow> pipeline_ids \<Rightarrow> recruiter_config \<Rightarrow> string \<Rightarrow>
   ('n, 'w, 'c, 'd, 'k, 'h, bool) agent_io" where
  "advance_summary_search os ids rc i =
     io_bind (change (update_recording i (\<lambda>r. r\<lparr>r_summary_email_search_attempts := r_summary_email_search_attempts r + 1\<rparr>))) (\<lambda>_.
     io_bind (clock os) (\<lambda>t.
     io_bind (row_of i) (\<lambda>r.
     io_bind (io_catch (in_mail (find_summary (os_imap os) (sv_settings (os_services os)) t r rc))
         (\<lambda>e. io_return Summary_not_found)) (\<lambda>outcome.
       case outcome of
         Summary_found m \<Rightarrow>
           io_bind (change (update_recording i (\<lambda>r. r\<lparr>r_summary_email_message_id := Some (mm_message_id m),
              r_summary_email_subject := Some (mm_subject m),
              r_summary_email_received_at := Some (mm_received_at m)\<rparr>))) (\<lambda>_. io_return False)
       | Summary_ambiguous ms \<Rightarrow> io_bind (escalate_summary os ids rc r ms) (\<lambda>_. io_return False)
       | Summary_unavailable \<Rightarrow> io_return False
       | Summary_not_found \<Rightarrow>
           io_bind (clock os) (\<lambda>now.
             io_return (case r_summary_email_search_deadline_at r of None \<Rightarrow> False | Some e \<Rightarrow> now < e))))))"

section \<open>A later run\<close>

definition COMMITTED_STATUSES :: "recording_status list" where
  "COMMITTED_STATUSES = [TRANSFER_STARTED, UPLOADED_TO_SYNOLOGY, SYNOLOGY_LINK_CREATED, NOTION_UPDATED,
     AWAITING_SUMMARY_EMAIL]"

definition missing_columns :: "recording \<Rightarrow> string list" where
  "missing_columns r =
     (if truthy (r_generated_filename r) then [] else [''generated_filename'']) @
     (if truthy (r_content_identity r) then [] else [''content_identity'']) @
     (if truthy (r_storage_key r) \<or> r_storage_destination_id r \<noteq> None then []
      else [''storage_destination_id_or_storage_key'']) @
     (if r_route_type r = ''interview''
      then (if truthy (r_candidate_name r) then [] else [''candidate_name'']) @
           (if truthy (r_notion_page_id r) then [] else [''notion_page_id''])
      else [])"

text \<open>A phase runs when the recording has the status it starts from, and is skipped otherwise.\<close>

definition phase ::
  "string \<Rightarrow> recording_status \<Rightarrow> (recording \<Rightarrow> ('n, 'w, 'c, 'd, 'k, 'h, bool) agent_io) \<Rightarrow>
   ('n, 'w, 'c, 'd, 'k, 'h, bool) agent_io" where
  "phase i status m = io_bind (row_of i) (\<lambda>r. if r_status r = status then m r else io_return True)"

definition then_phase ::
  "('n, 'w, 'c, 'd, 'k, 'h, bool) agent_io \<Rightarrow> ('n, 'w, 'c, 'd, 'k, 'h, bool) agent_io \<Rightarrow>
   ('n, 'w, 'c, 'd, 'k, 'h, bool) agent_io" where
  "then_phase m n = io_bind m (\<lambda>ok. if ok then n else io_return False)"

definition resume_link ::
  "('n, 'w, 'c, 'd, 'k, 'h) outside \<Rightarrow> pipeline_ids \<Rightarrow> recording \<Rightarrow> ('n, 'w, 'c, 'd, 'k, 'h, bool) agent_io" where
  "resume_link os ids r =
     (if \<not> truthy (r_synology_file_path r)
      then io_bind (fail_row os (r_id r) ''restart_recovery'' ''Committed upload has no storage path'') (\<lambda>_. io_return False)
      else link_step os (pi_artifact ids) (r_id r) (the (r_synology_file_path r)))"

definition resume_card ::
  "('n, 'w, 'c, 'd, 'k, 'h) outside \<Rightarrow> recruiter_config \<Rightarrow> recording \<Rightarrow> ('n, 'w, 'c, 'd, 'k, 'h, bool) agent_io" where
  "resume_card os rc r =
     (if r_route_type r = ''non_interview''
      then io_bind (clock os) (\<lambda>t.
           io_bind (move_row os (r_id r) COMPLETED None None (\<lambda>x. x\<lparr>r_storage_is_durable := True,
             r_completed_at := Some t\<rparr>)) (\<lambda>_. io_return False))
      else then_phase (preflight_step os rc (r_id r))
        (if \<not> truthy (r_synology_share_url r)
         then io_bind (fail_row os (r_id r) ''restart_recovery'' ''Committed share-link state has no URL'')
                (\<lambda>_. io_return False)
         else notion_step os rc (r_id r) (opt_or (r_notion_page_id r) '''') (the (r_synology_share_url r))
                (\<lambda>x. opt_or (r_generated_filename x) '''') (\<lambda>x. x)))"

definition start_waiting ::
  "('n, 'w, 'c, 'd, 'k, 'h) outside \<Rightarrow> recording \<Rightarrow> ('n, 'w, 'c, 'd, 'k, 'h, bool) agent_io" where
  "start_waiting os r =
     io_bind (clock os) (\<lambda>t.
     io_bind (move_row os (r_id r) AWAITING_SUMMARY_EMAIL None None (\<lambda>x. x\<lparr>r_summary_email_search_attempts := 0,
        r_summary_email_search_deadline_at :=
          Some (t + seconds (st_summary_email_search_timeout_seconds (sv_settings (os_services os))))\<rparr>))
       (\<lambda>_. io_return True))"

definition wait_and_finish ::
  "('n, 'w, 'c, 'd, 'k, 'h) outside \<Rightarrow> pipeline_ids \<Rightarrow> recruiter_config \<Rightarrow> recording \<Rightarrow>
   ('n, 'w, 'c, 'd, 'k, 'h, bool) agent_io" where
  "wait_and_finish os ids rc r =
     io_bind (advance_summary_search os ids rc (r_id r)) (\<lambda>waiting.
     io_bind commit_all (\<lambda>_.
       if waiting then io_return False
       else io_bind (finish_step os rc (r_id r)) (\<lambda>_. io_return False)))"

definition resume_committed ::
  "('n, 'w, 'c, 'd, 'k, 'h) outside \<Rightarrow> pipeline_ids \<Rightarrow> recruiter_config \<Rightarrow> recording \<Rightarrow>
   ('n, 'w, 'c, 'd, 'k, 'h, bool) agent_io" where
  "resume_committed os ids rc r =
     (let i = r_id r in
      if missing_columns r \<noteq> []
      then io_bind (fail_row os i ''restart_recovery''
             (''Committed transfer state is incomplete: '' @ join_with '', '' (missing_columns r))) (\<lambda>_. io_return False)
      else
        then_phase (phase i TRANSFER_STARTED (\<lambda>x. upload_step os rc i (opt_or (r_candidate_name x) '''') commit_all))
       (then_phase (phase i UPLOADED_TO_SYNOLOGY (resume_link os ids))
       (then_phase (phase i SYNOLOGY_LINK_CREATED (resume_card os rc))
       (then_phase (phase i NOTION_UPDATED (start_waiting os))
         (phase i AWAITING_SUMMARY_EMAIL (wait_and_finish os ids rc))))))"

section \<open>A worker\<close>

definition run_transfer ::
  "('n, 'w, 'c, 'd, 'k, 'h) outside \<Rightarrow> pipeline_ids \<Rightarrow> bool \<Rightarrow> recruiter_config \<Rightarrow> string \<Rightarrow>
   ('n, 'w, 'c, 'd, 'k, 'h, unit) agent_io" where
  "run_transfer os ids routed rc i = in_session
     (io_bind (see (\<lambda>d. recording_of d i)) (\<lambda>row.
        case row of
          None \<Rightarrow> io_return ()
        | Some r \<Rightarrow>
            if r_status r \<in> set COMMITTED_STATUSES
            then io_bind (resume_committed os ids rc r) (\<lambda>_. io_return ())
            else if r_status r \<in> {CALENDAR_EVENT_FOUND, CANDIDATE_MATCHED} then run_first os ids routed rc r
            else io_return ()))"

text \<open>Take the lease, do the work, give the lease back whatever happened.\<close>

definition claim_row ::
  "('n, 'w, 'c, 'd, 'k, 'h) outside \<Rightarrow> (instant \<Rightarrow> string \<Rightarrow> recording \<Rightarrow> recording option) \<Rightarrow> string \<Rightarrow> string \<Rightarrow>
   ('n, 'w, 'c, 'd, 'k, 'h, bool) agent_io" where
  "claim_row os claim token i =
     io_bind (clock os) (\<lambda>t.
     io_bind (see (\<lambda>d. Option.bind (recording_of d i) (claim t token))) (\<lambda>v.
       case v of
         None \<Rightarrow> io_return False
       | Some r1 \<Rightarrow> io_bind (save (update_recording i (\<lambda>_. r1))) (\<lambda>_. io_return True)))"

definition with_lease ::
  "('n, 'w, 'c, 'd, 'k, 'h) outside \<Rightarrow> (instant \<Rightarrow> string \<Rightarrow> recording \<Rightarrow> recording option) \<Rightarrow> string \<Rightarrow> string \<Rightarrow>
   ('n, 'w, 'c, 'd, 'k, 'h, 'a) agent_io \<Rightarrow> ('n, 'w, 'c, 'd, 'k, 'h, 'a option) agent_io" where
  "with_lease os claim token i work =
     io_bind (claim_row os claim token i) (\<lambda>claimed.
       if \<not> claimed then io_return None
       else (\<lambda>s. case work s of (v, s1) \<Rightarrow>
         (case save (update_recording i (release_processing_lease token)) s1 of (u, s2) \<Rightarrow>
            (map_sum id Some v, s2))))"

definition resume_transfer ::
  "('n, 'w, 'c, 'd, 'k, 'h) outside \<Rightarrow> pipeline_ids \<Rightarrow> bool \<Rightarrow> recruiter_config \<Rightarrow> string \<Rightarrow> string \<Rightarrow>
   ('n, 'w, 'c, 'd, 'k, 'h, bool) agent_io" where
  "resume_transfer os ids routed rc token i =
     io_bind (with_lease os claim_transfer_lease token i (run_transfer os ids routed rc i)) (\<lambda>v.
       io_return (v \<noteq> None))"

end
