(* ===== verification/Pipeline_Run.thy ===== *)
theory Pipeline_Run
imports Pipeline
begin

text \<open>
  What the transfer half of \<open>cron.py\<close> promises of a recording, as a step relation on its row, and the
  proof that every run of a worker, whether it returns or raises, follows it in the session and in
  the committed state.
\<close>

section \<open>The stages of a recording\<close>

text \<open>The columns that name the source, and the ones that say where the stored file is.\<close>

definition source_of :: "recording \<Rightarrow> string \<times> string \<times> string \<times> string \<times> string" where
  "source_of r = (r_id r, r_disk_file_id r, r_disk_path r, r_disk_owner_email r, r_route_type r)"

definition place_in_storage :: "recording \<Rightarrow> string option \<times> string option \<times> string option" where
  "place_in_storage r = (r_synology_folder_path r, r_synology_file_path r, r_synology_share_url r)"

definition card_page :: "recording \<Rightarrow> string" where
  "card_page r = opt_or (r_notion_page_id r) ''''"

text \<open>
  \<open>C\<close> holds the cards that Notion has accepted: the page and the link that was put on it.  Only the
  match of a candidate gives a recording another page.
\<close>

inductive pipeline_step :: "(string \<times> string) set \<Rightarrow> recording \<Rightarrow> recording \<Rightarrow> bool" where
  noted: "source_of x = source_of r \<Longrightarrow> place_in_storage x = place_in_storage r \<Longrightarrow> card_page x = card_page r \<Longrightarrow>
    r_status x = r_status r \<Longrightarrow> r_completed_at x = r_completed_at r \<Longrightarrow>
    r_source_processed x = r_source_processed r \<Longrightarrow> pipeline_step C r x"
| moved: "source_of x = source_of r \<Longrightarrow> place_in_storage x = place_in_storage r \<Longrightarrow>
    r_status x = CANDIDATE_MATCHED \<or> card_page x = card_page r \<Longrightarrow>
    r_status x \<in> TRANSITIONS (r_status r) \<Longrightarrow>
    r_status x \<in> {FAILED, MANUAL_REVIEW_REQUIRED, CANDIDATE_MATCHED, TRANSFER_STARTED,
      AWAITING_SUMMARY_EMAIL} \<Longrightarrow> pipeline_step C r x"
| carded: "source_of x = source_of r \<Longrightarrow> place_in_storage x = place_in_storage r \<Longrightarrow> card_page x = card_page r \<Longrightarrow>
    r_status x = NOTION_UPDATED \<Longrightarrow> NOTION_UPDATED \<in> TRANSITIONS (r_status r) \<Longrightarrow>
    (card_page r, opt_or (r_synology_share_url r) '''') \<in> C \<Longrightarrow> pipeline_step C r x"
| uploaded: "source_of x = source_of r \<Longrightarrow> card_page x = card_page r \<Longrightarrow> r_status x = UPLOADED_TO_SYNOLOGY \<Longrightarrow>
    UPLOADED_TO_SYNOLOGY \<in> TRANSITIONS (r_status r) \<Longrightarrow>
    r_synology_folder_path x \<noteq> None \<Longrightarrow> r_synology_file_path x \<noteq> None \<Longrightarrow> pipeline_step C r x"
| linked: "source_of x = source_of r \<Longrightarrow> card_page x = card_page r \<Longrightarrow> r_status x = SYNOLOGY_LINK_CREATED \<Longrightarrow>
    SYNOLOGY_LINK_CREATED \<in> TRANSITIONS (r_status r) \<Longrightarrow>
    r_synology_folder_path x = r_synology_folder_path r \<Longrightarrow> r_synology_file_path x = r_synology_file_path r \<Longrightarrow>
    r_synology_share_url x \<noteq> None \<Longrightarrow> pipeline_step C r x"
| marked: "source_of x = source_of r \<Longrightarrow> place_in_storage x = place_in_storage r \<Longrightarrow> card_page x = card_page r \<Longrightarrow>
    r_status x = SOURCE_MARKED_PROCESSED \<Longrightarrow> SOURCE_MARKED_PROCESSED \<in> TRANSITIONS (r_status r) \<Longrightarrow>
    r_source_processed x \<Longrightarrow> pipeline_step C r x"
| completed: "source_of x = source_of r \<Longrightarrow> place_in_storage x = place_in_storage r \<Longrightarrow> card_page x = card_page r \<Longrightarrow>
    r_status x = COMPLETED \<Longrightarrow> COMPLETED \<in> TRANSITIONS (r_status r) \<Longrightarrow> r_completed_at x \<noteq> None \<Longrightarrow>
    r_status r \<noteq> SYNOLOGY_LINK_CREATED \<or> r_route_type r = ''non_interview'' \<Longrightarrow> pipeline_step C r x"

inductive_cases pipeline_stepE: "pipeline_step C r x"

lemma pipeline_step_source: "pipeline_step C r x \<Longrightarrow> source_of x = source_of r"
  by (auto elim: pipeline_stepE)

lemma pipeline_step_id: "pipeline_step C r x \<Longrightarrow> r_id x = r_id r"
  using pipeline_step_source by (fastforce simp: source_of_def)

lemma pipeline_steps_source: "(pipeline_step C)\<^sup>*\<^sup>* r x \<Longrightarrow> source_of x = source_of r"
  by (induction rule: rtranclp_induct) (auto dest: pipeline_step_source)

lemma pipeline_step_status: "pipeline_step C r x \<Longrightarrow> r_status x = r_status r \<or> status_step (r_status r) (r_status x)"
  by (auto elim!: pipeline_stepE simp: status_step_iff)

lemma pipeline_steps_status: "(pipeline_step C)\<^sup>*\<^sup>* r x \<Longrightarrow> status_step\<^sup>*\<^sup>* (r_status r) (r_status x)"
proof (induction rule: rtranclp_induct)
  case (step y z)
  then show ?case using pipeline_step_status[OF step(2)] by (metis rtranclp.rtrancl_into_rtrancl)
qed simp

lemma pipeline_step_mono: "pipeline_step C r x \<Longrightarrow> C \<subseteq> C1 \<Longrightarrow> pipeline_step C1 r x"
  by (erule pipeline_stepE) (auto intro: noted moved carded uploaded linked marked completed)

lemma pipeline_steps_mono: "(pipeline_step C)\<^sup>*\<^sup>* r x \<Longrightarrow> C \<subseteq> C1 \<Longrightarrow> (pipeline_step C1)\<^sup>*\<^sup>* r x"
  by (induction rule: rtranclp_induct) (auto intro: rtranclp.rtrancl_into_rtrancl pipeline_step_mono)

text \<open>The rows of a table, of which only the one with identifier \<open>i\<close> has moved.\<close>

definition follows :: "(string \<times> string) set \<Rightarrow> string \<Rightarrow> db \<Rightarrow> db \<Rightarrow> bool" where
  "follows C i d0 d \<longleftrightarrow> list_all2 (\<lambda>r0 r. if r_id r0 = i then (pipeline_step C)\<^sup>*\<^sup>* r0 r else r = r0)
     (db_recordings d0) (db_recordings d)"

lemma follows_refl: "follows C i d d"
  by (auto simp: follows_def list_all2_same)

lemma follows_keys: "follows C i d0 d \<Longrightarrow> map r_id (db_recordings d) = map r_id (db_recordings d0)"
  unfolding follows_def
proof (induction rule: list_all2_induct)
  case (Cons r0 rs0 r rs)
  then show ?case using pipeline_steps_source[of C r0 r] by (auto simp: source_of_def split: if_splits)
qed simp

lemma follows_each:
  assumes "follows C i d0 d" and step: "\<And>r. r \<in> set (db_recordings d) \<Longrightarrow> r_id r = i \<Longrightarrow> pipeline_step C r (g r)"
  shows "follows C i d0 (update_recording i g d)"
proof -
  let ?R = "\<lambda>r0 r. if r_id r0 = i then (pipeline_step C)\<^sup>*\<^sup>* r0 r else r = r0"
  have "?R r0 (if r_id r = i then g r else r)" if r: "r \<in> set (db_recordings d)" and R: "?R r0 r" for r0 r
  proof (cases "r_id r0 = i")
    case True
    then have "r_id r = i" using R pipeline_steps_source[of C r0 r] by (simp add: source_of_def)
    then show ?thesis using True R rtranclp.rtrancl_into_rtrancl[of "pipeline_step C" r0 r "g r"] step[OF r] by simp
  qed (use R in simp)
  then show ?thesis
    using assms(1) unfolding follows_def update_recording_def update_where_def
    by (auto simp: list_all2_conv_all_nth)
qed

lemma follows_row:
  assumes "follows C i d0 d" "distinct (map r_id (db_recordings d0))" "recording_of d i = Some r"
    and "pipeline_step C r x"
  shows "follows C i d0 (update_recording i (\<lambda>_. x) d)"
proof -
  have r: "r \<in> set (db_recordings d)" "r_id r = i" using assms(3) by (auto simp: recording_of_def dest: find_SomeD)
  have "distinct (map r_id (db_recordings d))" using assms(1,2) follows_keys by metis
  then have "r1 = r" if "r1 \<in> set (db_recordings d)" "r_id r1 = i" for r1
    using r that by (metis distinct_map inj_onD)
  then show ?thesis using assms(1,4) by (intro follows_each) auto
qed

lemma follows_mono: "follows C i d0 d \<Longrightarrow> C \<subseteq> C1 \<Longrightarrow> follows C1 i d0 d"
  unfolding follows_def by (erule list_all2_mono) (auto dest: pipeline_steps_mono split: if_splits)

lemma follows_apart [simp]:
  "follows C i d0 (d\<lparr>db_artifacts := a\<rparr>) = follows C i d0 d" "follows C i d0 (d\<lparr>db_reviews := v\<rparr>) = follows C i d0 d"
  "follows C i d0 (d\<lparr>db_jobs := j\<rparr>) = follows C i d0 d" "follows C i d0 (d\<lparr>db_destinations := x\<rparr>) = follows C i d0 d"
  by (simp_all add: follows_def)

lemma recording_apart [simp]:
  "recording_of (d\<lparr>db_artifacts := a\<rparr>) i = recording_of d i" "recording_of (d\<lparr>db_reviews := v\<rparr>) i = recording_of d i"
  by (simp_all add: recording_of_def)

lemma row_is: "recording_of d i = Some r \<Longrightarrow> r_id r = i"
  by (auto simp: recording_of_def dest: find_SomeD)

section \<open>What a run keeps\<close>

text \<open>
  The cards that Notion accepted since its state was \<open>n\<close>: the page updates among the requests sent since,
  each with the answer that the workspace gave to it, that were answered without an error status.
\<close>

fun accepted_card :: "notion_request \<times> http_response option \<Rightarrow> (string \<times> string) option" where
  "accepted_card (Patch_interview page date_prop recording_prop day url filename, Some r) =
     (if is_error_status (resp_status r) then None else Some (page, url))"
| "accepted_card _ = None"

definition cards_since ::
  "('n, 'w, 'c, 'd, 'k, 'h) outside \<Rightarrow> 'n notion_state \<Rightarrow> ('n, 'w, 'c, 'd, 'k, 'h) agent \<Rightarrow> (string \<times> string) set" where
  "cards_since os n s = set (List.map_filter accepted_card (exchange (sv_notion (os_services os)) n (w_notion (ag_world s))))"

definition notion_kept ::
  "('n, 'w, 'c, 'd, 'k, 'h) outside \<Rightarrow> 'n notion_state \<Rightarrow> ('n, 'w, 'c, 'd, 'k, 'h) agent \<Rightarrow> bool" where
  "notion_kept os n s \<longleftrightarrow> talks (sv_notion (os_services os)) n (w_notion (ag_world s))"

text \<open>
  The tables of the session and of the committed state follow the stages, and the row of the session
  has the property \<open>Q\<close>.
\<close>

definition tracked ::
  "('n, 'w, 'c, 'd, 'k, 'h) outside \<Rightarrow> 'n notion_state \<Rightarrow> (recording \<Rightarrow> bool) \<Rightarrow> string \<Rightarrow> db \<Rightarrow>
   ('n, 'w, 'c, 'd, 'k, 'h) agent \<Rightarrow> bool" where
  "tracked os n Q i d0 s \<longleftrightarrow> distinct (map r_id (db_recordings d0)) \<and> notion_kept os n s \<and>
     follows (cards_since os n s) i d0 (w_db (ag_world s)) \<and> follows (cards_since os n s) i d0 (w_saved (ag_world s)) \<and>
     (\<forall>r. recording_of (w_db (ag_world s)) i = Some r \<longrightarrow> Q r)"

definition any_row :: "recording \<Rightarrow> bool" where
  "any_row r \<longleftrightarrow> True"

definition ready_row :: "recording \<Rightarrow> bool" where
  "ready_row r \<longleftrightarrow> r_status r \<noteq> SYNOLOGY_LINK_CREATED \<or> r_route_type r = ''non_interview''"

definition page_row :: "string \<Rightarrow> recording \<Rightarrow> bool" where
  "page_row p r \<longleftrightarrow> card_page r = p"

definition card_row :: "string \<Rightarrow> string \<Rightarrow> recording \<Rightarrow> bool" where
  "card_row p u r \<longleftrightarrow> card_page r = p \<and> opt_or (r_synology_share_url r) '''' = u"

lemma tracked_any: "tracked os n Q i d0 s \<Longrightarrow> tracked os n any_row i d0 s"
  by (simp add: tracked_def any_row_def)

lemma tracked_row: "tracked os n any_row i d0 s \<Longrightarrow>
    (\<And>r. recording_of (w_db (ag_world s)) i = Some r \<Longrightarrow> Q r) \<Longrightarrow> tracked os n Q i d0 s"
  by (simp add: tracked_def)

lemma cards_since_frame [simp]:
  "cards_since os n (s\<lparr>ag_disk := x\<rparr>) = cards_since os n s" "cards_since os n (s\<lparr>ag_store := y\<rparr>) = cards_since os n s"
  "cards_since os n (s\<lparr>ag_web := z\<rparr>) = cards_since os n s" "w_notion w = w_notion (ag_world s) \<Longrightarrow>
    cards_since os n (s\<lparr>ag_world := w\<rparr>) = cards_since os n s"
  by (simp_all add: cards_since_def)

lemma notion_kept_frame [simp]:
  "notion_kept os n (s\<lparr>ag_disk := x\<rparr>) = notion_kept os n s" "notion_kept os n (s\<lparr>ag_store := y\<rparr>) = notion_kept os n s"
  "notion_kept os n (s\<lparr>ag_web := z\<rparr>) = notion_kept os n s" "w_notion w = w_notion (ag_world s) \<Longrightarrow>
    notion_kept os n (s\<lparr>ag_world := w\<rparr>) = notion_kept os n s"
  by (simp_all add: notion_kept_def)

section \<open>Changing the tables\<close>

lemma save_parts: "save f = io_bind (change f) (\<lambda>_. commit_all)"
  by (auto simp: fun_eq_iff io_bind_app commit_all_def in_world_def commit_def)

named_theorems tracked_rules \<open>routines that keep a recording on its stages\<close>

lemma keeps_commit_all [tracked_rules]: "keeps (tracked os n Q i d0) commit_all"
  by (auto simp: keeps_def commit_all_def in_world_def commit_def tracked_def)

lemma keeps_change_apart [tracked_rules]:
  "keeps (tracked os n Q i d0) (change (\<lambda>d. d\<lparr>db_artifacts := db_artifacts d @ a d\<rparr>))"
  "keeps (tracked os n Q i d0) (change (\<lambda>d. d\<lparr>db_reviews := db_reviews d @ v d\<rparr>))"
  by (auto simp: keeps_def tracked_def)

text \<open>A remark on the row: nothing that the stages speak of.\<close>

definition remark :: "(recording \<Rightarrow> bool) \<Rightarrow> (recording \<Rightarrow> recording) \<Rightarrow> bool" where
  "remark Q g \<longleftrightarrow> (\<forall>r. source_of (g r) = source_of r \<and> place_in_storage (g r) = place_in_storage r \<and>
     r_status (g r) = r_status r \<and> r_completed_at (g r) = r_completed_at r \<and>
     r_source_processed (g r) = r_source_processed r \<and> (Q r \<longrightarrow> card_page (g r) = card_page r \<and> Q (g r)))"

lemma keeps_remark:
  assumes "remark Q g"
  shows "keeps (tracked os n Q i d0) (change (update_recording i g))"
proof -
  have step: "pipeline_step C r (g r)" if "Q r" for C r
    by (rule noted) (use assms that in \<open>simp_all add: remark_def\<close>)
  have "follows C i d0 (update_recording i g d)"
    if f: "follows C i d0 d" and d0: "distinct (map r_id (db_recordings d0))"
      and Q: "\<forall>r. recording_of d i = Some r \<longrightarrow> Q r" for C d
  proof (rule follows_each[OF f])
    fix r
    assume r: "r \<in> set (db_recordings d)" "r_id r = i"
    have "distinct (map r_id (db_recordings d))" using f d0 follows_keys by metis
    then have "recording_of d i = Some r"
      using r find_by_key[of r_id "db_recordings d" r] by (simp add: recording_of_def)
    then show "pipeline_step C r (g r)" using Q step by blast
  qed
  moreover have "follows C i d0 (w_saved (ag_world s)) \<Longrightarrow> follows C i d0 (w_saved (ag_world s))" for C s .
  moreover have "Q r \<Longrightarrow> Q (g r)" "r_id (g r) = r_id r" for r
    using assms by (simp_all add: remark_def source_of_def)
  ultimately show ?thesis by (auto simp: keeps_def tracked_def recording_of_update)
qed

lemma keeps_save_remark: "remark Q g \<Longrightarrow> keeps (tracked os n Q i d0) (save (update_recording i g))"
  unfolding save_parts by (rule keeps_bind[OF keeps_remark keeps_commit_all])

lemma keeps_row_of [tracked_rules]: "keeps I (row_of i)"
  unfolding row_of_def by (rule keeps_rules)+

lemma row_of_run: "row_of i s = (Inr r, s1) \<longleftrightarrow> recording_of (w_db (ag_world s)) i = Some r \<and> s1 = s"
  by (auto simp: row_of_def io_bind_app split: option.splits)

section \<open>Moving the row\<close>

text \<open>The row an \<open>advance\<close> leaves, with the other columns set by \<open>f\<close>.\<close>

definition stage ::
  "(string \<times> string) set \<Rightarrow> (recording \<Rightarrow> bool) \<Rightarrow> (recording \<Rightarrow> bool) \<Rightarrow> recording_status \<Rightarrow>
   (recording \<Rightarrow> recording) \<Rightarrow> bool" where
  "stage C Q Q1 target f \<longleftrightarrow> (\<forall>r x. target \<in> TRANSITIONS (r_status r) \<longrightarrow> Q r \<longrightarrow> r_status x = target \<longrightarrow>
     source_of x = source_of r \<longrightarrow> place_in_storage x = place_in_storage r \<longrightarrow>
     r_notion_page_id x = r_notion_page_id r \<longrightarrow> pipeline_step C r (f x) \<and> Q1 (f x))"

lemma advance_row_tracked:
  assumes s: "tracked os n Q i d0 s" and stage: "stage (cards_since os n s) Q Q1 target f"
    and run: "advance_row os i target step msg f s = (v, s1)"
  shows "v \<noteq> Inr () \<and> s1 = s \<or> v = Inr () \<and> tracked os n Q1 i d0 s1"
proof -
  let ?t = "ya_clock (os_yandex os) (ys_server (ag_disk s))" and ?d = "w_db (ag_world s)"
  show ?thesis
  proof (cases "recording_of ?d i")
    case None
    then show ?thesis using run by (auto simp: advance_row_def io_bind_app row_of_def)
  next
    case (Some r)
    show ?thesis
    proof (cases "advance ?t target step msg [] r")
      case (Inl e)
      then show ?thesis using run Some by (auto simp: advance_row_def io_bind_app row_of_def)
    next
      case (Inr r1)
      then have "target \<in> TRANSITIONS (r_status r)" "r_status r1 = target" "source_of r1 = source_of r"
        "place_in_storage r1 = place_in_storage r" "r_notion_page_id r1 = r_notion_page_id r"
        by (auto simp: advance_Inr_iff source_of_def place_in_storage_def)
      then have f: "pipeline_step (cards_since os n s) r (f r1)" "Q1 (f r1)"
        using stage s Some by (auto simp: stage_def tracked_def)
      then have "follows (cards_since os n s) i d0 (update_recording i (\<lambda>_. f r1) ?d)"
        using s Some by (intro follows_row) (auto simp: tracked_def)
      moreover have "recording_of (update_recording i (\<lambda>_. f r1) ?d) i = Some (f r1)"
        using Some row_is[OF Some] pipeline_step_id[OF f(1)] by (intro recording_of_replaced) auto
      ultimately show ?thesis
        using run s Some Inr f by (auto simp: advance_row_def io_bind_app row_of_def tracked_def)
    qed
  qed
qed

lemma move_row_tracked:
  assumes "tracked os n Q i d0 s" "stage (cards_since os n s) Q Q1 target f"
    and "move_row os i target step msg f s = (v, s1)"
  shows "v \<noteq> Inr () \<and> s1 = s \<or> v = Inr () \<and> tracked os n Q1 i d0 s1"
proof -
  obtain u s2 where a: "advance_row os i target step msg f s = (u, s2)" by fastforce
  show ?thesis
    using advance_row_tracked[OF assms(1,2) a] assms(3) a keeps_commit_all[of os n Q1 i d0]
    by (cases u) (auto simp: move_row_def io_bind_app keeps_def commit_all_def in_world_def commit_def)
qed

lemma keeps_moving:
  assumes "\<And>C. stage C Q Q target f"
  shows "keeps (tracked os n Q i d0) (advance_row os i target step msg f)"
    "keeps (tracked os n Q i d0) (move_row os i target step msg f)"
  using advance_row_tracked[OF _ assms] move_row_tracked[OF _ assms] by (blast intro: keepsI)+

section \<open>The moves of the workers\<close>

lemmas row_properties = any_row_def ready_row_def page_row_def card_row_def card_page_def

text \<open>The moves that keep a property of the row.\<close>

definition lasting :: "(recording \<Rightarrow> bool) \<Rightarrow> bool" where
  "lasting Q \<longleftrightarrow> Q = any_row \<or> Q = ready_row \<or> (\<exists>p. Q = page_row p) \<or> (\<exists>p u. Q = card_row p u)"

lemma lasting_rows [simp]: "lasting any_row" "lasting ready_row" "lasting (page_row p)" "lasting (card_row p u)"
  by (auto simp: lasting_def)

lemma stages:
  "lasting Q \<Longrightarrow> stage C Q Q FAILED (\<lambda>r. r)"
  "lasting Q \<Longrightarrow> stage C Q Q TRANSFER_STARTED (\<lambda>r. r)"
  "lasting Q \<Longrightarrow> stage C Q Q MANUAL_REVIEW_REQUIRED
     (\<lambda>r. r\<lparr>r_manual_review_reason := why, r_manual_review_candidates := cs\<rparr>)"
  "lasting Q \<Longrightarrow> stage C Q Q UPLOADED_TO_SYNOLOGY
     (\<lambda>r. r\<lparr>r_synology_folder_path := Some folder, r_synology_file_path := Some file\<rparr>)"
  "lasting Q \<Longrightarrow> stage C Q Q AWAITING_SUMMARY_EMAIL
     (\<lambda>x. x\<lparr>r_summary_email_search_attempts := k, r_summary_email_search_deadline_at := dl\<rparr>)"
  "lasting Q \<Longrightarrow> stage C Q Q SOURCE_MARKED_PROCESSED (\<lambda>r. r\<lparr>r_source_processed := True, r_disk_deletable_after := da\<rparr>)"
  "stage C ready_row ready_row COMPLETED (\<lambda>r. r\<lparr>r_completed_at := Some t\<rparr>)"
  "stage C ready_row ready_row COMPLETED (\<lambda>x. x\<lparr>r_storage_is_durable := dur, r_completed_at := Some t\<rparr>)"
  "stage C (page_row p) (page_row p) SYNOLOGY_LINK_CREATED
     (\<lambda>r. r\<lparr>r_synology_share_url := Some url, r_storage_is_durable := dur\<rparr>)"
  "stage C any_row any_row SYNOLOGY_LINK_CREATED (\<lambda>r. r\<lparr>r_synology_share_url := Some url, r_storage_is_durable := dur\<rparr>)"
  unfolding lasting_def
  by (auto simp: stage_def source_of_def place_in_storage_def row_properties
      intro: moved uploaded linked marked completed)

lemma stage_candidate:
  "stage C any_row (page_row (se_page_id e)) CANDIDATE_MATCHED
     (\<lambda>x. (with_candidate os rc e si x)\<lparr>r_version := r_version x + 1\<rparr>)"
  by (auto simp: stage_def source_of_def place_in_storage_def row_properties with_candidate_def intro: moved)

lemma stage_card:
  "(p, u) \<in> C \<Longrightarrow> stage C (card_row p u) ready_row NOTION_UPDATED (r_notion_page_url_update (\<lambda>_. x))"
  "(p, u) \<in> C \<Longrightarrow> stage C (card_row p u) ready_row NOTION_UPDATED (\<lambda>r. r)"
  by (auto simp: stage_def source_of_def place_in_storage_def row_properties intro: carded)

lemmas keeps_moves [tracked_rules] = stages[THEN keeps_moving(1)] stages[THEN keeps_moving(2)]

lemma keeps_fail_row [tracked_rules]: "lasting Q \<Longrightarrow> keeps (tracked os n Q i d0) (fail_row os i step msg)"
  unfolding fail_row_def by (rule tracked_rules)

lemma keeps_ask_recruiter [tracked_rules]:
  "lasting Q \<Longrightarrow> keeps (tracked os n Q i d0) (ask_recruiter os i why cs step msg)"
  unfolding ask_recruiter_def by (rule tracked_rules)

lemma keeps_leave_resumable [tracked_rules]:
  assumes "lasting Q"
  shows "keeps (tracked os n Q i d0) (leave_resumable os i step)"
proof -
  have "remark Q (\<lambda>r. r\<lparr>r_error_step := a, r_error_message := b, r_last_attempted_at := t\<rparr>)" for a b t
    using assms by (auto simp: lasting_def remark_def source_of_def place_in_storage_def row_properties)
  then show ?thesis unfolding leave_resumable_def by (intro keeps_rules keeps_save_remark)
qed

section \<open>The services leave the tables alone\<close>

lemma tracked_frame [simp]:
  "tracked os n Q i d0 (s\<lparr>ag_disk := x\<rparr>) = tracked os n Q i d0 s"
  "tracked os n Q i d0 (s\<lparr>ag_store := y\<rparr>) = tracked os n Q i d0 s"
  "tracked os n Q i d0 (s\<lparr>ag_web := z\<rparr>) = tracked os n Q i d0 s"
  "tracked os n Q i d0 (s\<lparr>ag_world := (ag_world s)\<lparr>w_nas := m\<rparr>\<rparr>) = tracked os n Q i d0 s"
  by (simp_all add: tracked_def)

lemma keeps_services [tracked_rules]:
  "keeps (tracked os n Q i d0) (in_disk m1)" "keeps (tracked os n Q i d0) (in_store m2)"
  "keeps (tracked os n Q i d0) (in_mail m3)" "keeps (tracked os n Q i d0) (in_station m4)"
  "keeps (tracked os n Q i d0) (get_download os1 href)"
  by (auto simp: keeps_def in_disk_def in_store_def in_mail_def in_station_def in_world_def
      in_nas_def get_download_def split: prod.splits sum.splits)

text \<open>Whatever is said to Notion, the cards it accepted before stay accepted.\<close>

lemma tracked_notion:
  assumes s: "tracked os n Q i d0 s" and more: "talks (sv_notion (os_services os)) (w_notion (ag_world s)) x"
  shows "tracked os n Q i d0 (s\<lparr>ag_world := (ag_world s)\<lparr>w_notion := x\<rparr>\<rparr>)"
proof -
  let ?s = "s\<lparr>ag_world := (ag_world s)\<lparr>w_notion := x\<rparr>\<rparr>"
  have old: "talks (sv_notion (os_services os)) n (w_notion (ag_world s))"
    using s by (simp add: tracked_def notion_kept_def)
  have "cards_since os n s \<subseteq> cards_since os n ?s"
    using talks_trans(2)[OF old more] by (auto simp: cards_since_def List.map_filter_def)
  moreover have "notion_kept os n ?s"
    using talks_trans(1)[OF old more] by (simp add: notion_kept_def)
  ultimately show ?thesis using s by (auto simp: tracked_def intro: follows_mono)
qed

lemma keeps_find_and_match: "keeps (talks a n) (find_and_match a st rc r)"
  unfolding find_and_match_def
  by (auto simp: keeps_def split: option.split sum.split prod.splits dest: keepsD[OF talking.search_pages_kept])

lemma keeps_candidates [tracked_rules]:
  "keeps (tracked os n Q i d0) (in_candidates (find_and_match (sv_notion (os_services os)) st rc r))"
proof (rule keepsI)
  fix s :: "('a, 'b, 'c, 'd, 'e, 'f) agent" and v s1
  assume s: "tracked os n Q i d0 s"
    and run: "in_candidates (find_and_match (sv_notion (os_services os)) st rc r) s = (v, s1)"
  obtain u x where m: "find_and_match (sv_notion (os_services os)) st rc r (w_notion (ag_world s)) = (u, x)" by fastforce
  have "talks (sv_notion (os_services os)) (w_notion (ag_world s)) x"
    using keepsD[OF keeps_find_and_match talks_refl m] .
  then have "tracked os n Q i d0 (s\<lparr>ag_world := (ag_world s)\<lparr>w_notion := x\<rparr>\<rparr>)"
    by (rule tracked_notion[OF s])
  then show "tracked os n Q i d0 s1" using run m by (auto simp: in_candidates_def)
qed

lemma keeps_case_json:
  "(\<And>t. keeps I (f t)) \<Longrightarrow> keeps I m \<Longrightarrow> keeps I (case j of JStr t \<Rightarrow> f t | _ \<Rightarrow> m)"
  by (cases j) simp_all

lemma keeps_transfer [tracked_rules]: "keeps (tracked os n Q i d0) (transfer os1 r rc c)"
  unfolding transfer_def place_of_def destination_place_def check_destination_def failing_def find_download_def
    copy_file_def stream_upload_def temp_upload_def put_file_def Let_def
  by (rule keeps_rules tracked_rules keeps_case_json)+

lemma keeps_share_link [tracked_rules]: "keeps (tracked os n Q i d0) (share_link os1 path)"
  unfolding share_link_def failing_def Let_def
  by (rule keeps_rules tracked_rules keeps_case_json)+

lemma keeps_event_date [tracked_rules]: "keeps (tracked os n Q i d0) (event_date os1 t)"
  unfolding event_date_def by (rule keeps_rules)+

lemma keeps_save_artifact [tracked_rules]: "keeps (tracked os n Q i d0) (save_artifact os1 new_id i)"
  unfolding save_artifact_def ensure_artifact_def commit_artifacts_def
  by (rule keeps_rules tracked_rules)+

lemma keeps_routing [tracked_rules]:
  "keeps (tracked os n Q i d0) (in_world (in_destinations m err))"
  "keeps (tracked os n any_row i d0) rollback_all"
  by (auto simp: keeps_def in_world_def in_destinations_def rollback_all_def tracked_def any_row_def split: prod.splits sum.splits)

lemma keeps_create_or_reuse [tracked_rules]:
  "keeps (tracked os n Q i d0) (in_world (create_or_reuse sv t new r rc ds))"
  by (rule keeps_in_world, unfold create_or_reuse_def need_job_def Let_def, (rule keeps_rules)+)
    (auto simp: keeps_def get_db_def modify_db_def tracked_def notion_kept_def cards_since_def)

section \<open>Writing the card\<close>

lemma error_statuses: "raise_other e r = Inr u \<Longrightarrow> \<not> is_error_status (resp_status r)"
  by (auto simp: raise_other_def raise_common_def split: if_splits)

lemma patch_tracked:
  assumes s: "tracked os n Q i d0 s"
    and run: "in_world (in_notion (update_page_interview (sv_notion (os_services os)) m page d url name) Notion_failed) s = (v, s1)"
  shows "tracked os n Q i d0 s1 \<and> (v = Inr () \<longrightarrow> (page, url) \<in> cards_since os n s1)"
proof -
  let ?a = "sv_notion (os_services os)" and ?n = "w_notion (ag_world s)"
  let ?q = "Patch_interview page (pm_date_prop m) (pm_recording_prop m) d url name"
  obtain u x where call: "call ?a (Update_error True) ?q ?n = (u, x)" by fastforce
  have talk: "talks ?a ?n x" "exchange ?a ?n x = [(?q, fst (reply ?a ?q (nt_server ?n)))]"
    using talks_call[OF call] by simp_all
  have old: "talks ?a n ?n" using s by (simp add: tracked_def notion_kept_def)
  have s1: "s1 = s\<lparr>ag_world := (ag_world s)\<lparr>w_notion := x\<rparr>\<rparr>"
    using run call by (cases u) (auto simp: in_world_def in_notion_def update_page_interview_def io_bind_app
        split: prod.splits sum.splits)
  have "tracked os n Q i d0 s1" unfolding s1 by (rule tracked_notion[OF s talk(1)])
  moreover have "(page, url) \<in> cards_since os n s1" if done1: "v = Inr ()"
  proof -
    obtain r where r: "u = Inr r" and raised: "raise_other (Update_error (transient_status (resp_status r))) r = Inr ()"
      using run call done1 by (cases u) (auto simp: in_world_def in_notion_def update_page_interview_def io_bind_app
          split: prod.splits sum.splits)
    have ok: "\<not> is_error_status (resp_status r)" using raised by (rule error_statuses)
    have "fst (reply ?a ?q (nt_server ?n)) = Some r"
      using call r by (auto simp: call_def split: prod.splits option.splits)
    then have "(?q, Some r) \<in> set (exchange ?a n x)" using talks_trans(3)[OF old talk(1)] talk(2) by auto
    then show ?thesis using ok
      by (auto simp: s1 cards_since_def List.map_filter_def intro!: rev_image_eqI[of "(?q, Some r)"])
  qed
  ultimately show ?thesis by simp
qed

lemma write_card_tracked:
  assumes s: "tracked os n Q i d0 s" and run: "write_card os rc r page url name s = (v, s1)"
  shows "tracked os n Q i d0 s1 \<and> (v = Inr () \<longrightarrow> (page, url) \<in> cards_since os n s1)"
proof -
  note parts = write_card_def Let_def io_bind_app
  show ?thesis
  proof (cases "r_calendar_dtstart r")
    case None
    then show ?thesis using s run by (auto simp: parts)
  next
    case (Some t)
    show ?thesis
    proof (cases "resolve_notion_property_map (sv_settings (os_services os)) (Some rc)")
      case (Inl e)
      then show ?thesis using s run Some by (auto simp: parts)
    next
      case (Inr m)
      obtain u s2 where d: "event_date os (Some t) s = (u, s2)" by fastforce
      note s2 = keepsD[OF keeps_event_date s d]
      show ?thesis
      proof (cases u)
        case (Inl e)
        then show ?thesis using s2 run Some Inr d by (auto simp: parts)
      next
        case (Inr day)
        then show ?thesis
          using patch_tracked[OF s2] run Some \<open>resolve_notion_property_map _ _ = _\<close> d by (auto simp: parts)
      qed
    qed
  qed
qed

text \<open>The card is written before the row says so, with the link the row has.\<close>

lemma notion_step_tracked:
  assumes s: "tracked os n (card_row page url) i d0 s"
    and mark: "mark = (\<lambda>r. r) \<or> mark = r_notion_page_url_update (\<lambda>_. x)"
    and run: "notion_step os rc i page url name mark s = (v, s1)"
  shows "tracked os n any_row i d0 s1 \<and> (v = Inr True \<longrightarrow> tracked os n ready_row i d0 s1)"
proof (cases "row_of i s")
  case r: (Pair u s0)
  then have s0: "s0 = s" by (auto simp: row_of_def io_bind_app split: option.splits)
  show ?thesis
  proof (cases u)
    case (Inl e)
    then show ?thesis using run r s s0 by (auto simp: notion_step_def io_bind_app intro: tracked_any)
  next
    case (Inr row)
    obtain w s2 where card: "write_card os rc row page url (name row) s = (w, s2)" by fastforce
    note s2 = write_card_tracked[OF s card]
    show ?thesis
    proof (cases w)
      case (Inl e)
      let ?fin = "if transient_failure e then leave_resumable os i ''notion_update''
        else fail_row os i ''notion_update'' (os_text os e)"
      obtain u3 s3 where e: "?fin s2 = (u3, s3)" by (cases "?fin s2")
      have "keeps (tracked os n any_row i d0) ?fin" by (rule keeps_rules tracked_rules lasting_rows)+
      then have "tracked os n any_row i d0 s3" using tracked_any[OF conjunct1[OF s2]] e by (rule keepsD)
      moreover have "notion_step os rc i page url name mark s = io_bind ?fin (\<lambda>_. io_return False) s2"
        using r Inr card Inl by (simp add: notion_step_def io_bind_app io_catch_app s0)
      then have "s1 = s3" "v \<noteq> Inr True" using run e by (cases u3; simp)+
      ultimately show ?thesis by simp
    next
      case (Inr w1)
      have st: "stage (cards_since os n s2) (card_row page url) ready_row NOTION_UPDATED mark"
        using s2 Inr mark stage_card by (cases w1) auto
      obtain u2 s3 where mv: "move_row os i NOTION_UPDATED None None mark s2 = (u2, s3)" by fastforce
      then have "v = map_sum id (\<lambda>_. True) u2" "s1 = s3"
        using run r \<open>u = Inr row\<close> card Inr by (cases u2; simp add: notion_step_def io_bind_app io_catch_app s0)+
      then show ?thesis using move_row_tracked[OF conjunct1[OF s2] st mv] s2 by (cases u2) (auto intro: tracked_any)
    qed
  qed
qed

section \<open>The steps\<close>

lemma keeps_case_failure:
  "(\<And>step cause. keeps I (f step cause)) \<Longrightarrow> (\<And>e. keeps I (g e)) \<Longrightarrow>
     keeps I (case e of Transfer_failed step cause \<Rightarrow> f step cause | _ \<Rightarrow> g e)"
  by (cases e) simp_all

lemma keeps_upload_step [tracked_rules]:
  "lasting Q \<Longrightarrow> keeps (tracked os n Q i d0) finish \<Longrightarrow> keeps (tracked os n Q i d0) (upload_step os rc i c finish)"
  unfolding upload_step_def by (rule keeps_rules tracked_rules keeps_case_failure | assumption)+

lemma keeps_link_step [tracked_rules]:
  "keeps (tracked os n any_row i d0) (link_step os new_id i path)"
  "keeps (tracked os n (page_row p) i d0) (link_step os new_id i path)"
  unfolding link_step_def by (rule keeps_rules tracked_rules keeps_case_failure lasting_rows)+

lemma keeps_preflight_step [tracked_rules]: "lasting Q \<Longrightarrow> keeps (tracked os n Q i d0) (preflight_step os rc i)"
  unfolding preflight_step_def by (rule keeps_rules tracked_rules | assumption)+

lemma keeps_finish_step [tracked_rules]: "keeps (tracked os n ready_row i d0) (finish_step os rc i)"
  unfolding finish_step_def complete_marked_def by (rule keeps_rules tracked_rules lasting_rows)+

lemma keeps_queue_routing [tracked_rules]: "keeps (tracked os n any_row i d0) (queue_routing os fresh job rc i)"
  unfolding queue_routing_def discovered_def Let_def by (rule keeps_rules tracked_rules lasting_rows)+

section \<open>The workers\<close>

text \<open>From one property of the world to another, whether the part returns or raises.\<close>

definition goes :: "('w \<Rightarrow> bool) \<Rightarrow> ('w \<Rightarrow> bool) \<Rightarrow> ('w, 'e, 'a) io \<Rightarrow> bool" where
  "goes I J m \<longleftrightarrow> (\<forall>s. I s \<longrightarrow> J (snd (m s)))"

lemma keeps_goes: "keeps I m = goes I I m"
  by (simp add: keeps_def goes_def)

lemma goesD: "goes I J m \<Longrightarrow> I s \<Longrightarrow> J (snd (m s))"
  by (simp add: goes_def)

lemma keeps_snd: "keeps I m \<Longrightarrow> I s \<Longrightarrow> I (snd (m s))"
  by (simp add: keeps_def)

lemma goes_after: "goes I I m \<Longrightarrow> (\<And>s. I s \<Longrightarrow> J s) \<Longrightarrow> goes I J m"
  by (simp add: goes_def)

lemma goes_if: "(b \<Longrightarrow> goes I J m) \<Longrightarrow> (\<not> b \<Longrightarrow> goes I J m1) \<Longrightarrow> goes I J (if b then m else m1)"
  by simp

lemma goes_bind_from:
  assumes m: "keeps I m" and f: "\<And>s x s1. I s \<Longrightarrow> m s = (Inr x, s1) \<Longrightarrow> I s1 \<Longrightarrow> J (snd (f x s1))"
    and J: "\<And>s. I s \<Longrightarrow> J s"
  shows "goes I J (io_bind m f)"
  unfolding goes_def
proof (intro allI impI)
  fix s
  assume s: "I s"
  show "J (snd (io_bind m f s))"
  proof (cases "m s")
    case run: (Pair v s1)
    note s1 = keepsD[OF m s run]
    show ?thesis
    proof (cases v)
      case (Inl e)
      then show ?thesis using run J[OF s1] by (simp add: io_bind_app)
    next
      case (Inr x)
      then show ?thesis using run f[OF s _ s1, of x] by (simp add: io_bind_app)
    qed
  qed
qed

lemma goes_bind: "keeps I m \<Longrightarrow> (\<And>x. goes I J (f x)) \<Longrightarrow> (\<And>s. I s \<Longrightarrow> J s) \<Longrightarrow> goes I J (io_bind m f)"
  by (rule goes_bind_from) (auto simp: goes_def)

lemma card_and_finish:
  assumes "mark = (\<lambda>r. r) \<or> mark = r_notion_page_url_update (\<lambda>_. x)"
  shows "goes (tracked os n (card_row page url) i d0) (tracked os n any_row i d0)
    (io_bind (notion_step os rc i page url name mark) (\<lambda>ok. if \<not> ok then io_return () else finish_step os rc i))"
  unfolding goes_def
proof (intro allI impI)
  fix s
  assume s: "tracked os n (card_row page url) i d0 s"
  let ?run = "io_bind (notion_step os rc i page url name mark) (\<lambda>ok. if \<not> ok then io_return () else finish_step os rc i) s"
  obtain v s1 where run: "notion_step os rc i page url name mark s = (v, s1)" by fastforce
  note t = notion_step_tracked[OF s assms run]
  show "tracked os n any_row i d0 (snd ?run)"
  proof (cases "v = Inr True")
    case True
    then have "tracked os n ready_row i d0 s1" using t by simp
    then have "tracked os n ready_row i d0 (snd (finish_step os rc i s1))" by (rule keeps_snd[OF keeps_finish_step])
    then show ?thesis using run True by (auto simp: io_bind_app intro: tracked_any)
  next
    case False
    then show ?thesis using run t by (cases v) (auto simp: io_bind_app)
  qed
qed

lemma start_transfer_tracked:
  "goes (tracked os n (page_row (se_page_id e)) i d0) (tracked os n any_row i d0) (start_transfer os rc new_id i e)"
proof -
  let ?I = "tracked os n (page_row (se_page_id e)) i d0"
  let ?last = "\<lambda>r1. io_bind (notion_step os rc i (se_page_id e) (opt_or (r_synology_share_url r1) '''') file_name_of
         (r_notion_page_url_update (\<lambda>_. Some (se_page_url e)))) (\<lambda>ok4. if \<not> ok4 then io_return () else finish_step os rc i)"
  have last: "goes ?I (tracked os n any_row i d0) (io_bind (row_of i) ?last)"
  proof (rule goes_bind_from[OF keeps_row_of])
    fix s :: "('a, 'b, 'c, 'd, 'e, 'f) agent" and r s1
    assume "row_of i s = (Inr r, s1)" and s1: "?I s1"
    then have "tracked os n (card_row (se_page_id e) (opt_or (r_synology_share_url r) '''')) i d0 s1"
      by (intro tracked_row[OF tracked_any[OF s1]]) (auto simp: row_of_run tracked_def row_properties)
    then show "tracked os n any_row i d0 (snd (?last r s1))"
      by (rule goesD[OF card_and_finish, rotated]) (rule disjI2, rule refl)
  qed (rule tracked_any)
  have stop: "goes ?I (tracked os n any_row i d0) (io_return ())" by (auto simp: goes_def intro: tracked_any)
  show ?thesis unfolding start_transfer_def
    by (erule tracked_any | rule last stop goes_if goes_bind tracked_rules lasting_rows)+
qed

lemma goes_bind_post:
  assumes m: "\<And>s v s1. I s \<Longrightarrow> m s = (v, s1) \<Longrightarrow> J s1 \<and> (\<forall>x. v = Inr x \<longrightarrow> K s1)" and f: "\<And>x. goes K J (f x)"
  shows "goes I J (io_bind m f)"
  unfolding goes_def
proof (intro allI impI)
  fix s
  assume s: "I s"
  obtain v s1 where run: "m s = (v, s1)" by fastforce
  show "J (snd (io_bind m f s))"
    using m[OF s run] f run by (cases v) (auto simp: io_bind_app goes_def)
qed

lemma persist_candidate_tracked:
  assumes s: "tracked os n any_row (r_id r) d0 s" and run: "persist_candidate os rc r e si s = (v, s1)"
    and known: "r_status r = CANDIDATE_MATCHED \<Longrightarrow> tracked os n (page_row (se_page_id e)) (r_id r) d0 s"
  shows "tracked os n any_row (r_id r) d0 s1 \<and> (\<forall>x. v = Inr x \<longrightarrow> tracked os n (page_row (se_page_id e)) (r_id r) d0 s1)"
proof (cases "r_status r = CANDIDATE_MATCHED")
  case True
  have same: "source_of (with_candidate os rc e si x) = source_of x"
    "place_in_storage (with_candidate os rc e si x) = place_in_storage x"
    "r_status (with_candidate os rc e si x) = r_status x" "r_completed_at (with_candidate os rc e si x) = r_completed_at x"
    "r_source_processed (with_candidate os rc e si x) = r_source_processed x"
    "page_row (se_page_id e) (with_candidate os rc e si x)" "r_id (with_candidate os rc e si x) = r_id x" for x
    by (simp_all add: source_of_def place_in_storage_def with_candidate_def page_row_def card_page_def)
  have run1: "v = Inr ()" "save (update_recording (r_id r) (with_candidate os rc e si)) s = (Inr (), s1)"
    using run True by (auto simp: persist_candidate_def)
  have "tracked os n (page_row (se_page_id e)) (r_id r) d0 s1"
    by (rule keepsD[OF keeps_save_remark known[OF True] run1(2)])
      (use same in \<open>simp add: remark_def page_row_def\<close>)
  then show ?thesis using tracked_any by blast
next
  case False
  then have "move_row os (r_id r) CANDIDATE_MATCHED None None
      (\<lambda>x. (with_candidate os rc e si x)\<lparr>r_version := r_version x + 1\<rparr>) s = (v, s1)"
    using run by (simp add: persist_candidate_def)
  from move_row_tracked[OF s stage_candidate this] s show ?thesis by (auto intro: tracked_any)
qed

lemma goes_weaken:
  "keeps (tracked os n any_row i d0) m \<Longrightarrow> goes (tracked os n Q i d0) (tracked os n any_row i d0) m"
  by (auto simp: keeps_def goes_def intro: tracked_any)

lemma place_and_start_tracked:
  "goes (tracked os n (page_row (se_page_id e)) i d0) (tracked os n any_row i d0) (place_and_start os ids routed rc i e)"
  unfolding place_and_start_def
    by (erule tracked_any | rule goes_bind goes_if start_transfer_tracked tracked_rules lasting_rows | rule goes_weaken)+

text \<open>A candidate that was matched before keeps its page.\<close>

lemma resolved_page: "resolved_candidate os r s = (Inr (Some e), s1) \<Longrightarrow> s1 = s \<and> se_page_id e = card_page r"
  by (cases "r_notion_page_id r"; cases "persisted_spot os r")
    (auto simp: resolved_candidate_def card_page_def io_bind_Inr_iff io_return_def split: if_splits)

lemma run_first_tracked:
  assumes r: "r_id r = i" "recording_of (w_db (ag_world s)) i = Some r" and s: "tracked os n any_row i d0 s"
  shows "tracked os n any_row i d0 (snd (run_first os ids routed rc r s))"
proof -
  let ?Q = "\<lambda>e. if r_status r = CANDIDATE_MATCHED then page_row (se_page_id e) else any_row"
  let ?I = "\<lambda>Q. tracked os n Q i d0"
  have lasting: "lasting (?Q e)" for e by simp
  have settle: "keeps (?I any_row) (settle_page os r p)" for p
    unfolding settle_page_def r(1) by (rule keeps_rules tracked_rules lasting_rows)+
  have found: "keeps (?I any_row) (matched_candidate os rc r)"
    unfolding matched_candidate_def Let_def r(1) by (rule keeps_rules tracked_rules settle lasting_rows)+
  have resolved: "keeps (?I any_row) (resolved_candidate os r)"
    unfolding resolved_candidate_def r(1) by (rule keeps_rules tracked_rules lasting_rows)+
  have identity: "keeps (?I (?Q e)) (storage_identity_of os rc r e)" for e
    unfolding storage_identity_of_def Let_def r(1) by (rule keeps_rules tracked_rules lasting)+
  have persist: "goes (?I (?Q e)) (?I any_row)
      (io_bind (persist_candidate os rc r e si) (\<lambda>_. place_and_start os ids routed rc i e))" for e si
  proof (rule goes_bind_post[OF _ place_and_start_tracked])
    fix t v t1
    assume "?I (?Q e) t" and run: "persist_candidate os rc r e si t = (v, t1)"
    then show "?I any_row t1 \<and> (\<forall>x. v = Inr x \<longrightarrow> ?I (page_row (se_page_id e)) t1)"
      using persist_candidate_tracked[of os n r d0 t rc e si v t1] r(1)
      by (auto intro: tracked_any split: if_splits)
  qed
  have ask: "goes (?I (?Q e)) (?I any_row) (ask_recruiter os i why cs step msg)" for e why cs step msg
    by (rule goes_after[OF _ tracked_any], unfold keeps_goes[symmetric], rule keeps_ask_recruiter[OF lasting])
  have stop: "goes (?I (?Q e)) (?I any_row) (io_return ())" for e by (auto simp: goes_def intro: tracked_any)
  define place where "place e w = (case w of
             None \<Rightarrow> io_return ()
           | Some si \<Rightarrow>
               if stale_identity r si
               then ask_recruiter os i (Some ''stale_storage_identity'') [JObj (spot_context r (se_spot e))]
                      (Some ''destination'') (Some ''Persisted storage identity does not match the selected Spot'')
               else io_bind (see (key_owner (si_key si) i)) (\<lambda>other.
                 case other of
                   Some x \<Rightarrow> ask_recruiter os i (Some ''storage_key_collision'')
                              [collision_context r (se_spot e) x] None None
                 | None \<Rightarrow> io_bind (persist_candidate os rc r e si) (\<lambda>_.
                             place_and_start os ids routed rc i e)))" for e w
  have place: "goes (?I (?Q e)) (?I any_row) (place e w)" for e w
  proof (cases w)
    case None
    show ?thesis unfolding place_def None option.case by (rule stop)
  next
    case (Some si)
    have owner: "goes (?I (?Q e)) (?I any_row) (case other of
        Some x \<Rightarrow> ask_recruiter os i (Some ''storage_key_collision'') [collision_context r (se_spot e) x] None None
      | None \<Rightarrow> io_bind (persist_candidate os rc r e si) (\<lambda>_. place_and_start os ids routed rc i e))" for other
      using ask persist by (cases other) (simp_all only: option.case)
    show ?thesis
      unfolding place_def Some option.case
      by (intro goes_if ask goes_bind[OF keeps_see owner tracked_any])
  qed
  have rest: "goes (?I (?Q e)) (?I any_row) (io_bind (storage_identity_of os rc r e) (place e))" for e
    by (rule goes_bind[OF identity place tracked_any])
  have run: "run_first os ids routed rc r = io_bind
      (if r_status r = CANDIDATE_MATCHED then resolved_candidate os r else matched_candidate os rc r)
      (\<lambda>v. case v of None \<Rightarrow> io_return () | Some e \<Rightarrow> io_bind (storage_identity_of os rc r e) (place e))"
    unfolding run_first_def place_def r(1) ..
  let ?m = "if r_status r = CANDIDATE_MATCHED then resolved_candidate os r else matched_candidate os rc r"
  obtain v s2 where m: "?m s = (v, s2)" by fastforce
  have "keeps (?I any_row) ?m" using found resolved by simp
  from keepsD[OF this s m] have s2: "?I any_row s2" .
  have start: "?I (?Q e) s2" if "v = Inr (Some e)" for e
  proof (cases "r_status r = CANDIDATE_MATCHED")
    case True
    then have "resolved_candidate os r s = (Inr (Some e), s2)" using m that by simp
    from resolved_page[OF this] have "s2 = s" "se_page_id e = card_page r" by simp_all
    then show ?thesis using True r(2) by (auto intro!: tracked_row[OF s] simp: page_row_def)
  qed (use s2 in simp)
  show ?thesis
  proof (cases v)
    case (Inl e)
    then show ?thesis using m s2 by (simp add: run io_bind_app)
  next
    case (Inr w)
    show ?thesis
    proof (cases w)
      case None
      then show ?thesis using m s2 Inr by (simp add: run io_bind_app)
    next
      case (Some e)
      then have "?I any_row (snd (io_bind (storage_identity_of os rc r e) (place e) s2))"
        using goesD[OF rest start] Inr by simp
      then show ?thesis using m Inr Some by (simp add: run io_bind_app)
    qed
  qed
qed

section \<open>A later run\<close>

lemma keeps_phase:
  assumes "\<And>r s. r_id r = i \<Longrightarrow> r_status r = st \<Longrightarrow> recording_of (w_db (ag_world s)) i = Some r \<Longrightarrow>
    tracked os n any_row i d0 s \<Longrightarrow> tracked os n any_row i d0 (snd (m r s))"
  shows "keeps (tracked os n any_row i d0) (phase i st m)"
  unfolding phase_def keeps_goes
proof (rule goes_bind_from[OF keeps_row_of])
  fix s s1 :: "('a, 'b, 'c, 'd, 'e, 'f) agent" and r
  assume "tracked os n any_row i d0 s" "row_of i s = (Inr r, s1)"
  then show "tracked os n any_row i d0 (snd ((if r_status r = st then m r else io_return True) s1))"
    using assms[of r s] by (auto simp: row_of_run row_is)
qed

lemma keeps_then_phase [tracked_rules]: "keeps I m \<Longrightarrow> keeps I m1 \<Longrightarrow> keeps I (then_phase m m1)"
  unfolding then_phase_def by (rule keeps_rules | assumption)+

lemma keeps_advance_summary_search [tracked_rules]:
  assumes "lasting Q"
  shows "keeps (tracked os n Q i d0) (advance_summary_search os ids rc i)"
proof -
  have remarks: "remark Q (\<lambda>r. r\<lparr>r_summary_email_search_attempts := r_summary_email_search_attempts r + 1\<rparr>)"
    "remark Q (\<lambda>r. r\<lparr>r_summary_email_message_id := m, r_summary_email_subject := sb, r_summary_email_received_at := ra\<rparr>)"
    for m sb ra using assms by (auto simp: remark_def source_of_def place_in_storage_def lasting_def row_properties)
  have escalate: "keeps (tracked os n Q i d0) (escalate_summary os ids rc r ms)" for r ms
    unfolding escalate_summary_def Let_def by (rule keeps_rules tracked_rules)+
  have cases: "keeps I (case x of Summary_found m \<Rightarrow> f m | Summary_ambiguous ms \<Rightarrow> g ms | Summary_unavailable \<Rightarrow> u
      | Summary_not_found \<Rightarrow> nf)" if "\<And>m. keeps I (f m)" "\<And>ms. keeps I (g ms)" "keeps I u" "keeps I nf"
    for I :: "('a, 'b, 'c, 'd, 'e, 'f) agent \<Rightarrow> bool" and f g u nf x
    using that by (cases x) simp_all
  show ?thesis unfolding advance_summary_search_def
    by (rule keeps_rules tracked_rules cases escalate keeps_remark[OF remarks(1)] keeps_remark[OF remarks(2)])+
qed

lemma ready_done:
  assumes "keeps (tracked os n ready_row i d0) m" "tracked os n any_row i d0 s"
    and "recording_of (w_db (ag_world s)) i = Some r" "ready_row r"
  shows "tracked os n any_row i d0 (snd (m s))"
proof -
  have "tracked os n ready_row i d0 s" using assms(3,4) by (intro tracked_row[OF assms(2)]) simp
  then show ?thesis using assms(1) by (auto simp: keeps_def intro: tracked_any)
qed

lemma notion_step_goes:
  assumes "mark = (\<lambda>r. r) \<or> mark = r_notion_page_url_update (\<lambda>_. x)"
  shows "goes (tracked os n (card_row page url) i d0) (tracked os n any_row i d0)
    (notion_step os rc i page url name mark)"
  unfolding goes_def using notion_step_tracked[OF _ assms] by (metis prod.collapse)

lemma resume_card_tracked:
  assumes r: "r_id r = i" "recording_of (w_db (ag_world s)) i = Some r" and s: "tracked os n any_row i d0 s"
  shows "tracked os n any_row i d0 (snd (resume_card os rc r s))"
proof (cases "r_route_type r = ''non_interview''")
  case True
  have "keeps (tracked os n ready_row i d0) (resume_card os rc r)"
    unfolding resume_card_def r(1) if_P[OF True] by (rule keeps_rules tracked_rules)+
  then show ?thesis using ready_done[OF _ s r(2)] True by (simp add: ready_row_def)
next
  case False
  let ?url = "opt_or (r_synology_share_url r) ''''"
  let ?I = "tracked os n (card_row (opt_or (r_notion_page_id r) '''') ?url) i d0"
  have url: "truthy (r_synology_share_url r) \<Longrightarrow> the (r_synology_share_url r) = ?url"
    by (cases "r_synology_share_url r") auto
  have card: "goes ?I (tracked os n any_row i d0) (notion_step os rc i (opt_or (r_notion_page_id r) '''')
      (the (r_synology_share_url r)) name (\<lambda>x. x))" if "truthy (r_synology_share_url r)" for name
    unfolding url[OF that] by (rule notion_step_goes) (rule disjI1, rule refl)
  have stop: "keeps (tracked os n any_row i d0) (io_bind (fail_row os i step msg) (\<lambda>_. io_return False))" for step msg
    by (rule keeps_rules tracked_rules lasting_rows)+
  have "goes ?I (tracked os n any_row i d0) (resume_card os rc r)"
    unfolding resume_card_def r(1) if_not_P[OF False] then_phase_def
    by (erule tracked_any | rule goes_bind keeps_preflight_step lasting_rows goes_if goes_weaken[OF stop] card
        goes_weaken[OF keeps_return] | simp)+
  moreover have "?I s" using r(2) by (intro tracked_row[OF s]) (simp add: card_row_def card_page_def)
  ultimately show ?thesis by (rule goesD)
qed

lemma wait_and_finish_tracked:
  assumes r: "r_id r = i" "r_status r = AWAITING_SUMMARY_EMAIL" "recording_of (w_db (ag_world s)) i = Some r"
    and s: "tracked os n any_row i d0 s"
  shows "tracked os n any_row i d0 (snd (wait_and_finish os ids rc r s))"
proof (rule ready_done[OF _ s r(3)])
  show "keeps (tracked os n ready_row i d0) (wait_and_finish os ids rc r)"
    unfolding wait_and_finish_def r(1) by (rule keeps_rules tracked_rules lasting_rows)+
  show "ready_row r" using r(2) by (simp add: ready_row_def)
qed

lemma keeps_resume_committed [tracked_rules]:
  assumes "r_id r = i"
  shows "keeps (tracked os n any_row i d0) (resume_committed os ids rc r)"
proof -
  let ?K = "keeps (tracked os n any_row i d0)"
  have upload: "?K (upload_step os rc i c commit_all)" for c
    by (rule tracked_rules lasting_rows)+
  have link: "?K (resume_link os ids x)" if "r_id x = i" for x
    unfolding resume_link_def that by (rule keeps_rules tracked_rules lasting_rows)+
  have wait: "?K (start_waiting os x)" if "r_id x = i" for x
    unfolding start_waiting_def that by (rule keeps_rules tracked_rules lasting_rows)+
  have phases: "?K (phase i TRANSFER_STARTED (\<lambda>x. upload_step os rc i (c x) commit_all))"
    "?K (phase i UPLOADED_TO_SYNOLOGY (resume_link os ids))" "?K (phase i NOTION_UPDATED (start_waiting os))" for c
    by (rule keeps_phase, erule keeps_snd[OF upload], rule keeps_phase, erule (1) keeps_snd[OF link],
        rule keeps_phase, erule (1) keeps_snd[OF wait])
  have late: "?K (phase i SYNOLOGY_LINK_CREATED (resume_card os rc))"
    "?K (phase i AWAITING_SUMMARY_EMAIL (wait_and_finish os ids rc))"
    by (rule keeps_phase, rule resume_card_tracked, assumption+, rule keeps_phase, rule wait_and_finish_tracked, assumption+)
  show ?thesis unfolding resume_committed_def Let_def assms
    by (rule keeps_rules tracked_rules phases late lasting_rows)+
qed

section \<open>A worker\<close>

lemma keeps_in_session:
  assumes "keeps (tracked os n any_row i d0) m"
  shows "keeps (tracked os n any_row i d0) (in_session m)"
proof (rule keepsI)
  fix s v s1
  assume s: "tracked os n any_row i d0 s" and run: "in_session m s = (v, s1)"
  obtain u s2 where m: "m s = (u, s2)" by fastforce
  have "tracked os n any_row i d0 s2" by (rule keepsD[OF assms s m])
  then show "tracked os n any_row i d0 s1" using run m by (auto simp: in_session_def tracked_def any_row_def)
qed

lemma keeps_run_transfer: "keeps (tracked os n any_row i d0) (run_transfer os ids routed rc i)"
  unfolding run_transfer_def
proof (rule keeps_in_session, unfold keeps_goes, rule goes_bind_from[OF keeps_see])
  fix s s1 :: "('a, 'b, 'c, 'd, 'e, 'f) agent" and row
  assume "tracked os n any_row i d0 s" and row: "see (\<lambda>d. recording_of d i) s = (Inr row, s1)" and s1: "tracked os n any_row i d0 s1"
  show "tracked os n any_row i d0 (snd ((case row of
          None \<Rightarrow> io_return ()
        | Some r \<Rightarrow>
            if r_status r \<in> set COMMITTED_STATUSES
            then io_bind (resume_committed os ids rc r) (\<lambda>_. io_return ())
            else if r_status r \<in> {CALENDAR_EVENT_FOUND, CANDIDATE_MATCHED} then run_first os ids routed rc r
            else io_return ()) s1))"
  proof (cases row)
    case None
    then show ?thesis using s1 by simp
  next
    case (Some r)
    then have r: "r_id r = i" "recording_of (w_db (ag_world s1)) i = Some r" using row by (auto dest: row_is)
    have "keeps (tracked os n any_row i d0) (io_bind (resume_committed os ids rc r) (\<lambda>_. io_return ()))"
      using r(1) by (intro keeps_bind keeps_return keeps_resume_committed)
    then show ?thesis
      using run_first_tracked[OF r s1] s1 Some by (auto dest: keeps_snd[where s = s1])
  qed
qed

lemma leased_row: "claim_transfer_lease t token r = Some x \<Longrightarrow> pipeline_step C r x \<and> r_id x = r_id r"
  by (auto simp: processing_lease_defs source_of_def place_in_storage_def card_page_def split: if_splits intro!: noted)

lemma keeps_with_lease:
  assumes "keeps (tracked os n any_row i d0) work"
  shows "keeps (tracked os n any_row i d0) (with_lease os claim_transfer_lease token i work)"
proof (rule keepsI)
  fix s v s1
  assume s: "tracked os n any_row i d0 s" and run: "with_lease os claim_transfer_lease token i work s = (v, s1)"
  let ?d = "w_db (ag_world s)" and ?t = "ya_clock (os_yandex os) (ys_server (ag_disk s))"
  show "tracked os n any_row i d0 s1"
  proof (cases "Option.bind (recording_of ?d i) (claim_transfer_lease ?t token)")
    case None
    then show ?thesis using run s by (simp add: with_lease_def claim_row_def io_bind_app)
  next
    case (Some x)
    then obtain r where r: "recording_of ?d i = Some r" "claim_transfer_lease ?t token r = Some x"
      by (auto simp: Option.bind_eq_Some_conv)
    obtain s2 where sv: "save (update_recording i (\<lambda>_. x)) s = (Inr (), s2)" by simp
    have "follows (cards_since os n s) i d0 (update_recording i (\<lambda>_. x) ?d)"
      using s r leased_row by (intro follows_row) (auto simp: tracked_def)
    then have s2: "tracked os n any_row i d0 s2" using sv s by (auto simp: tracked_def any_row_def)
    obtain u s3 where w: "work s2 = (u, s3)" by fastforce
    have s3: "tracked os n any_row i d0 s3" by (rule keepsD[OF assms s2 w])
    have "remark any_row (release_processing_lease token)"
      by (auto simp: remark_def release_processing_lease_def source_of_def place_in_storage_def any_row_def card_page_def)
    from keepsD[OF keeps_save_remark[OF this] s3]
    show ?thesis using run sv w Some by (auto simp: with_lease_def claim_row_def io_bind_app split: prod.splits)
  qed
qed

text \<open>Every run of a worker, from a fresh session.\<close>

lemma resume_transfer_tracked:
  assumes "resume_transfer os ids routed rc token i s = (v, s1)"
    and "w_saved (ag_world s) = w_db (ag_world s)" "distinct (map r_id (db_recordings (w_db (ag_world s))))"
  shows "tracked os (w_notion (ag_world s)) any_row i (w_db (ag_world s)) s1"
proof -
  have "keeps (tracked os n any_row i d0) (resume_transfer os ids routed rc token i)" for n d0
    unfolding resume_transfer_def by (rule keeps_bind keeps_return keeps_with_lease keeps_run_transfer)+
  moreover have "tracked os (w_notion (ag_world s)) any_row i (w_db (ag_world s)) s"
    using assms(2-) by (simp add: tracked_def notion_kept_def any_row_def follows_refl)
  ultimately show ?thesis using assms(1) by (rule keepsD)
qed

section \<open>What a stage promises of the row\<close>

text \<open>The columns that a row of each status has: the type of a row.\<close>

definition STORED_STATUSES :: "recording_status list" where
  "STORED_STATUSES = [UPLOADED_TO_SYNOLOGY, SYNOLOGY_LINK_CREATED, NOTION_UPDATED, AWAITING_SUMMARY_EMAIL,
     SOURCE_MARKED_PROCESSED, COMPLETED]"

definition well_staged :: "recording \<Rightarrow> bool" where
  "well_staged r \<longleftrightarrow>
     (r_status r \<in> set STORED_STATUSES \<longrightarrow> r_synology_folder_path r \<noteq> None \<and> r_synology_file_path r \<noteq> None) \<and>
     (r_status r \<in> set (tl STORED_STATUSES) \<longrightarrow> r_synology_share_url r \<noteq> None) \<and>
     (r_status r = SOURCE_MARKED_PROCESSED \<longrightarrow> r_source_processed r) \<and>
     (r_status r = COMPLETED \<longrightarrow> r_completed_at r \<noteq> None) \<and> r_status r \<noteq> SOURCE_DELETED"

lemma before_stage:
  "AWAITING_SUMMARY_EMAIL \<in> TRANSITIONS s \<longleftrightarrow> s \<in> {NOTION_UPDATED, AWAITING_SUMMARY_EMAIL}"
  "NOTION_UPDATED \<in> TRANSITIONS s \<longleftrightarrow> s = SYNOLOGY_LINK_CREATED"
  "SYNOLOGY_LINK_CREATED \<in> TRANSITIONS s \<longleftrightarrow> s = UPLOADED_TO_SYNOLOGY"
  "SOURCE_MARKED_PROCESSED \<in> TRANSITIONS s \<longleftrightarrow> s \<in> {NOTION_UPDATED, AWAITING_SUMMARY_EMAIL}"
  "COMPLETED \<in> TRANSITIONS s \<longleftrightarrow> s \<in> {SYNOLOGY_LINK_CREATED, NOTION_UPDATED, AWAITING_SUMMARY_EMAIL,
     SOURCE_MARKED_PROCESSED, SOURCE_DELETED}"
  by (cases s; simp)+

lemma moved_before:
  assumes "r_status x \<in> TRANSITIONS s" "r_status x \<in> {FAILED, MANUAL_REVIEW_REQUIRED, CANDIDATE_MATCHED, TRANSFER_STARTED,
      AWAITING_SUMMARY_EMAIL}"
  shows "r_status x \<in> {FAILED, MANUAL_REVIEW_REQUIRED, CANDIDATE_MATCHED, TRANSFER_STARTED} \<or>
    r_status x = AWAITING_SUMMARY_EMAIL \<and> s \<in> {NOTION_UPDATED, AWAITING_SUMMARY_EMAIL}"
proof (cases "r_status x = AWAITING_SUMMARY_EMAIL")
  case True
  then show ?thesis using assms(1) before_stage(1) by simp
qed (use assms(2) in blast)

lemma pipeline_step_staged:
  assumes "pipeline_step C r x" "well_staged r"
  shows "well_staged x"
  using assms(1)
proof (cases rule: pipeline_step.cases)
  case noted
  then show ?thesis using assms(2) by (simp add: well_staged_def place_in_storage_def)
next
  case moved
  from moved_before[OF moved(4,5)] show ?thesis
  proof (elim disjE conjE)
    assume "r_status x = AWAITING_SUMMARY_EMAIL" "r_status r \<in> {NOTION_UPDATED, AWAITING_SUMMARY_EMAIL}"
    then show ?thesis using moved(2) assms(2) by (elim insertE emptyE) (simp_all add: well_staged_def STORED_STATUSES_def place_in_storage_def)
  next
    assume "r_status x \<in> {FAILED, MANUAL_REVIEW_REQUIRED, CANDIDATE_MATCHED, TRANSFER_STARTED}"
    then show ?thesis by (elim insertE emptyE) (simp_all add: well_staged_def STORED_STATUSES_def)
  qed
next
  case marked
  then have "r_status r \<in> {NOTION_UPDATED, AWAITING_SUMMARY_EMAIL}" using before_stage(4) by simp
  then show ?thesis using marked(2,4,6) assms(2) by (elim insertE emptyE) (simp_all add: well_staged_def STORED_STATUSES_def place_in_storage_def)
next
  case completed
  then have "r_status r \<in> {SYNOLOGY_LINK_CREATED, NOTION_UPDATED, AWAITING_SUMMARY_EMAIL,
     SOURCE_MARKED_PROCESSED, SOURCE_DELETED}" using before_stage(5) by simp
  then show ?thesis using completed(2,4,6) assms(2) by (elim insertE emptyE) (simp_all add: well_staged_def STORED_STATUSES_def place_in_storage_def)
next
  case linked
  then have "r_status r = UPLOADED_TO_SYNOLOGY" using before_stage(3) by simp
  then show ?thesis using linked(3,5-7) assms(2) by (simp add: well_staged_def STORED_STATUSES_def)
next
  case carded
  then have "r_status r = SYNOLOGY_LINK_CREATED" using before_stage(2) by simp
  then show ?thesis using carded(2,4) assms(2) by (simp add: well_staged_def STORED_STATUSES_def place_in_storage_def)
qed (simp add: well_staged_def STORED_STATUSES_def)

lemma pipeline_steps_staged: "(pipeline_step C)\<^sup>*\<^sup>* r x \<Longrightarrow> well_staged r \<Longrightarrow> well_staged x"
  by (induction rule: rtranclp_induct) (auto dest: pipeline_step_staged)

lemma follows_all:
  assumes "follows C i d0 d" "list_all P (db_recordings d0)" "\<And>r x. (pipeline_step C)\<^sup>*\<^sup>* r x \<Longrightarrow> P r \<Longrightarrow> P x"
  shows "list_all P (db_recordings d)"
  using assms(1,2) unfolding follows_def
  by (induction rule: list_all2_induct) (auto simp: assms(3) split: if_splits)

text \<open>A row whose card has been written, unless it needs none.\<close>

definition past_card :: "recording \<Rightarrow> bool" where
  "past_card r \<longleftrightarrow> r_route_type r \<noteq> ''non_interview'' \<and>
     r_status r \<in> {NOTION_UPDATED, AWAITING_SUMMARY_EMAIL, SOURCE_MARKED_PROCESSED, SOURCE_DELETED, COMPLETED}"

definition linked_by :: "(string \<times> string) set \<Rightarrow> recording \<Rightarrow> bool" where
  "linked_by C r \<longleftrightarrow> (card_page r, opt_or (r_synology_share_url r) '''') \<in> C"

lemma pipeline_step_card:
  assumes "pipeline_step C r x" "past_card r \<Longrightarrow> linked_by C r" "past_card x"
  shows "linked_by C x"
proof -
  have same: "r_route_type x = r_route_type r" using pipeline_step_source[OF assms(1)] by (simp add: source_of_def)
  have kept: "linked_by C x" if "past_card r" "place_in_storage x = place_in_storage r" "card_page x = card_page r"
    using assms(2) that by (simp add: linked_by_def place_in_storage_def)
  show ?thesis
    using assms(1)
  proof (cases rule: pipeline_step.cases)
    case noted
    then show ?thesis using kept assms(3) same by (simp add: past_card_def)
  next
    case moved
    then have "past_card r" using moved_before[OF moved(4,5)] assms(3) same by (auto simp: past_card_def)
    then show ?thesis using kept moved(2,3) assms(3) by (auto simp: past_card_def)
  next
    case carded
    then show ?thesis by (auto simp: linked_by_def place_in_storage_def)
  next
    case marked
    then have "past_card r" using before_stage(4) assms(3) same by (auto simp: past_card_def)
    then show ?thesis using kept marked(2,3) by blast
  next
    case completed
    then have "past_card r" using before_stage(5) assms(3) same by (auto simp: past_card_def)
    then show ?thesis using kept completed(2,3) by blast
  qed (use assms(3) in \<open>simp_all add: past_card_def\<close>)
qed

lemma pipeline_steps_card:
  "(pipeline_step C)\<^sup>*\<^sup>* r x \<Longrightarrow> \<not> past_card r \<Longrightarrow> past_card x \<Longrightarrow> linked_by C x"
proof (induction rule: rtranclp_induct)
  case (step y z)
  then show ?case using pipeline_step_card[OF step(2)] by blast
qed simp

lemma follows_found:
  assumes "follows C i d0 d" "recording_of d0 i = Some r0" "recording_of d i = Some r"
  shows "(pipeline_step C)\<^sup>*\<^sup>* r0 r"
proof -
  let ?R = "\<lambda>r0 r. if r_id r0 = i then (pipeline_step C)\<^sup>*\<^sup>* r0 r else r = r0"
  have "list_all2 ?R xs ys \<Longrightarrow> find (\<lambda>r. r_id r = i) xs = Some r0 \<Longrightarrow> find (\<lambda>r. r_id r = i) ys = Some r \<Longrightarrow> ?thesis" for xs ys
  proof (induction rule: list_all2_induct)
    case (Cons x xs y ys)
    have "r_id y = r_id x" using Cons(1) pipeline_steps_source[of C x y] by (auto simp: source_of_def split: if_splits)
    then show ?case using Cons by (auto split: if_splits)
  qed simp
  then show ?thesis using assms by (auto simp: follows_def recording_of_def)
qed

section \<open>Properties\<close>

text \<open>
  Property C3.  Whatever a worker of the transfer does, and whether it returns or raises, the
  committed table follows the stages of the pipeline: the worker's recording has gone through a
  sequence of allowed moves with the columns each of them sets, its source is the same, and no other
  recording has changed.  In particular it became \<open>NOTION_UPDATED\<close> only when Notion had, during this
  run, answered without an error to an update that put the recording's link on the recording's page.
\<close>

theorem worker_follows_the_stages:
  assumes "resume_transfer os ids routed rc token i s = (v, s1)"
    and "w_saved (ag_world s) = w_db (ag_world s)" "distinct (map r_id (db_recordings (w_db (ag_world s))))"
  shows "follows (cards_since os (w_notion (ag_world s)) s1) i (w_db (ag_world s)) (w_saved (ag_world s1))"
  using resume_transfer_tracked[OF assms] by (simp add: tracked_def)

text \<open>
  Property C25.  The rows stay well staged: an uploaded recording has its folder and path, a linked
  one its link, a marked one its mark and a completed one the time, after every run of a worker.
\<close>

theorem worker_keeps_rows_well_staged:
  assumes "resume_transfer os ids routed rc token i s = (v, s1)"
    and "w_saved (ag_world s) = w_db (ag_world s)" "distinct (map r_id (db_recordings (w_db (ag_world s))))"
    and "list_all well_staged (db_recordings (w_db (ag_world s)))"
  shows "list_all well_staged (db_recordings (w_saved (ag_world s1)))"
  using resume_transfer_tracked[OF assms(1-3)] assms(4)
  by (auto simp: tracked_def intro: follows_all pipeline_steps_staged)

text \<open>
  Property C4.  An interview does not get past its card without it: when a run of a worker takes a
  recording from before the card to a status after it, completed included, then during the run Notion
  has accepted (answered without an error status) the update that puts the very link the recording now
  has on the very page the recording now has.
\<close>

theorem no_completion_without_card:
  assumes "resume_transfer os ids routed rc token i s = (v, s1)"
    and "w_saved (ag_world s) = w_db (ag_world s)" "distinct (map r_id (db_recordings (w_db (ag_world s))))"
    and "recording_of (w_db (ag_world s)) i = Some r0" "\<not> past_card r0"
    and "recording_of (w_saved (ag_world s1)) i = Some r" "past_card r"
  shows "linked_by (cards_since os (w_notion (ag_world s)) s1) r"
proof -
  have "follows (cards_since os (w_notion (ag_world s)) s1) i (w_db (ag_world s)) (w_saved (ag_world s1))"
    using resume_transfer_tracked[OF assms(1-3)] by (simp add: tracked_def)
  from follows_found[OF this assms(4,6)] show ?thesis using assms(5,7) by (rule pipeline_steps_card)
qed

end
