(* ===== verification/Pipeline_Demo.thy ===== *)
theory Pipeline_Demo
imports Pipeline_Run Cleanup
begin

text \<open>
  One run of the transfer, evaluated: a linked interview is put on its card, waits for the summary
  e-mail, whose deadline has passed, and is completed.  The properties of \<open>Pipeline_Run\<close> are applied to it.
\<close>

section \<open>A run\<close>

text \<open>A linked interview, a recruiter who has passed the preflight, and a Notion that takes every write.\<close>

definition demo_linked_row :: recording where
  "demo_linked_row = demo_stored\<lparr>r_status := SYNOLOGY_LINK_CREATED, r_generated_filename := Some ''a.webm'',
     r_storage_key := Some ''k/a.webm'', r_candidate_name := Some ''Ann'', r_calendar_dtstart := Some 0,
     r_synology_folder_path := Some ''/h'', r_synology_file_path := Some ''/h/a.webm''\<rparr>"

definition demo_preflighted :: recruiter_config where
  "demo_preflighted = sample_recruiter\<lparr>rc_notion_preflight_completed_at := Some 0,
     rc_notion_preflight_database_id := Some ''a-b'', rc_notion_preflight_token_hash := Some '''',
     rc_notion_preflight_schema_hash := Some '''', rc_notion_preflight_synthetic_page_id := Some ''s''\<rparr>"

definition demo_pipeline :: "(nat, nas_files, nat, nat, nat, nat) outside" where
  "demo_pipeline = demo_outside\<lparr>os_services := demo_mover2\<lparr>sv_settings :=
     (default_settings ''Spots'')\<lparr>st_notion_writes_enabled := True, st_summary_email_search_timeout_seconds := 0\<rparr>,
     sv_notion := demo_api\<lparr>reply := (\<lambda>q w. (Some \<lparr>resp_status = 200, resp_json = Some (JObj [])\<rparr>, w))\<rparr>\<rparr>\<rparr>"

definition demo_pipeline_ids :: pipeline_ids where
  "demo_pipeline_ids = \<lparr>pi_job = ''j'', pi_artifact = ''a'', pi_destination = (\<lambda>_. ''d''), pi_review = ''v'',
     pi_nonce = ''n'', pi_set = ''s''\<rparr>"

definition demo_worker :: "(nat, nas_files, nat, nat, nat, nat) agent" where
  "demo_worker = (let d = (w_db demo_filed)\<lparr>db_recordings := [demo_linked_row]\<rparr> in
     demo_agent\<lparr>ag_world := demo_filed\<lparr>w_db := d, w_saved := d\<rparr>\<rparr>)"

text \<open>The states between the phases of the run.\<close>

definition row_in :: "('n, 'w, 'c, 'd, 'k, 'h) agent \<Rightarrow> recording" where
  "row_in s = the (recording_of (w_db (ag_world s)) ''r1'')"

definition demo_held :: "(nat, nas_files, nat, nat, nat, nat) agent" where
  "demo_held = snd (claim_row demo_pipeline claim_transfer_lease ''t'' ''r1'' demo_worker)"

definition demo_carded :: "(nat, nas_files, nat, nat, nat, nat) agent" where
  "demo_carded = snd (resume_card demo_pipeline demo_preflighted (row_in demo_held) demo_held)"

definition demo_waiting :: "(nat, nas_files, nat, nat, nat, nat) agent" where
  "demo_waiting = snd (start_waiting demo_pipeline (row_in demo_carded) demo_carded)"

definition demo_finished :: "(nat, nas_files, nat, nat, nat, nat) agent" where
  "demo_finished = snd (wait_and_finish demo_pipeline demo_pipeline_ids demo_preflighted (row_in demo_waiting) demo_waiting)"

lemma demo_phases:
  "fst (claim_row demo_pipeline claim_transfer_lease ''t'' ''r1'' demo_worker) = Inr True"
  "fst (resume_card demo_pipeline demo_preflighted (row_in demo_held) demo_held) = Inr True"
  "fst (start_waiting demo_pipeline (row_in demo_carded) demo_carded) = Inr True"
  "fst (wait_and_finish demo_pipeline demo_pipeline_ids demo_preflighted (row_in demo_waiting) demo_waiting) = Inr False"
  by code_simp+

lemma demo_rows:
  "map_option r_status (recording_of (w_db (ag_world demo_held)) ''r1'') = Some SYNOLOGY_LINK_CREATED"
  "map_option r_status (recording_of (w_db (ag_world demo_carded)) ''r1'') = Some NOTION_UPDATED"
  "map_option r_status (recording_of (w_db (ag_world demo_waiting)) ''r1'') = Some AWAITING_SUMMARY_EMAIL"
  "missing_columns (row_in demo_held) = []"
  by code_simp+

lemma phase_run:
  "recording_of (w_db (ag_world s)) i = Some r \<Longrightarrow>
     phase i st m s = (if r_status r = st then m r s else (Inr True, s))"
  by (simp add: phase_def row_of_def io_bind_app)

lemma row_in_eq: "map_option f (recording_of (w_db (ag_world s)) ''r1'') = Some y \<Longrightarrow>
    recording_of (w_db (ag_world s)) ''r1'' = Some (row_in s) \<and> f (row_in s) = y"
  by (auto simp: row_in_def)

lemma demo_resumed:
  "resume_committed demo_pipeline demo_pipeline_ids demo_preflighted (row_in demo_held) demo_held = (Inr False, demo_finished)"
proof -
  note rows = demo_rows(1-3)[THEN row_in_eq]
  note phases = conjunct1[OF rows(1), THEN phase_run] conjunct1[OF rows(2), THEN phase_run]
    conjunct1[OF rows(3), THEN phase_run]
  have "r_id (row_in demo_held) = ''r1''" using rows(1) row_is by blast
  moreover have "resume_card demo_pipeline demo_preflighted (row_in demo_held) demo_held = (Inr True, demo_carded)"
    "start_waiting demo_pipeline (row_in demo_carded) demo_carded = (Inr True, demo_waiting)"
    "wait_and_finish demo_pipeline demo_pipeline_ids demo_preflighted (row_in demo_waiting) demo_waiting = (Inr False, demo_finished)"
    using demo_phases(2-4) by (simp_all add: prod_eq_iff demo_carded_def demo_waiting_def demo_finished_def)
  ultimately show ?thesis
    using rows demo_rows(4) by (simp add: resume_committed_def Let_def then_phase_def io_bind_app phases)
qed

definition demo_completed :: "(nat, nas_files, nat, nat, nat, nat) agent" where
  "demo_completed = snd (save (update_recording ''r1'' (release_processing_lease ''t''))
     (demo_finished\<lparr>ag_world := (ag_world demo_finished)\<lparr>w_db := w_saved (ag_world demo_finished)\<rparr>\<rparr>))"

lemma demo_worker_run:
  "resume_transfer demo_pipeline demo_pipeline_ids True demo_preflighted ''t'' ''r1'' demo_worker = (Inr True, demo_completed)"
proof -
  note row = demo_rows(1)[THEN row_in_eq]
  have "run_transfer demo_pipeline demo_pipeline_ids True demo_preflighted ''r1'' demo_held = (Inr (),
      demo_finished\<lparr>ag_world := (ag_world demo_finished)\<lparr>w_db := w_saved (ag_world demo_finished)\<rparr>\<rparr>)"
    using row demo_resumed by (simp add: run_transfer_def in_session_def io_bind_app COMMITTED_STATUSES_def)
  moreover have "claim_row demo_pipeline claim_transfer_lease ''t'' ''r1'' demo_worker = (Inr True, demo_held)"
    using demo_phases(1) by (simp add: prod_eq_iff demo_held_def)
  ultimately show ?thesis
    by (simp add: resume_transfer_def with_lease_def io_bind_app demo_completed_def)
qed

lemma demo_worker_start:
  "w_saved (ag_world demo_worker) = w_db (ag_world demo_worker)"
  "distinct (map r_id (db_recordings (w_db (ag_world demo_worker))))"
  "list_all well_staged (db_recordings (w_db (ag_world demo_worker)))"
  "map_option past_card (recording_of (w_db (ag_world demo_worker)) ''r1'') = Some False"
  "map_option (\<lambda>r. (past_card r, r_status r, r_synology_share_url r)) (recording_of (w_saved (ag_world demo_completed)) ''r1'') =
     Some (True, COMPLETED, Some ''v'')"
  by (simp add: demo_worker_def Let_def, code_simp+)

theorem stages_witness:
  "\<exists>s1. resume_transfer demo_pipeline demo_pipeline_ids True demo_preflighted ''t'' ''r1'' demo_worker = (Inr True, s1) \<and>
     follows (cards_since demo_pipeline (w_notion (ag_world demo_worker)) s1) ''r1'' (w_db (ag_world demo_worker)) (w_saved (ag_world s1)) \<and>
     map_option r_status (recording_of (w_saved (ag_world s1)) ''r1'') = Some COMPLETED"
  using demo_worker_run worker_follows_the_stages[OF demo_worker_run demo_worker_start(1,2)] demo_worker_start(5)
  by (auto simp: map_option_case split: option.splits)

theorem well_staged_witness:
  "\<exists>s1. resume_transfer demo_pipeline demo_pipeline_ids True demo_preflighted ''t'' ''r1'' demo_worker = (Inr True, s1) \<and>
     list_all well_staged (db_recordings (w_saved (ag_world s1)))"
  using demo_worker_run worker_keeps_rows_well_staged[OF demo_worker_run demo_worker_start(1,2) demo_worker_start(3)]
  by blast

theorem card_witness:
  "\<exists>s1 r. resume_transfer demo_pipeline demo_pipeline_ids True demo_preflighted ''t'' ''r1'' demo_worker = (Inr True, s1) \<and>
     recording_of (w_saved (ag_world s1)) ''r1'' = Some r \<and> r_status r = COMPLETED \<and> 
     linked_by (cards_since demo_pipeline (w_notion (ag_world demo_worker)) s1) r"
proof -
  obtain r0 where r0: "recording_of (w_db (ag_world demo_worker)) ''r1'' = Some r0" "\<not> past_card r0"
    using demo_worker_start(4) by auto
  obtain r where r: "recording_of (w_saved (ag_world demo_completed)) ''r1'' = Some r" "past_card r" "r_status r = COMPLETED"
    using demo_worker_start(5) by auto
  show ?thesis
    using no_completion_without_card[OF demo_worker_run demo_worker_start(1,2) r0 r(1,2)] demo_worker_run r
    by auto
qed

end
