(* ===== verification/Scan.thy ===== *)
theory Scan
imports Pipeline_Run Cleanup
begin

text \<open>
  The rest of \<open>app/scheduler/cron.py\<close>: storing the recordings found on a recruiter's disk, matching them
  to calendar events, the scan of a recruiter, the daily dispatcher with its digest claims, the drain
  of the outbox and the jobs that are registered.  Work that the event loop interleaves is run here in
  one order; a scan's lock makes the scans of one recruiter sequential.
\<close>

section \<open>Storing what is found\<close>

definition no_value :: "string \<Rightarrow> (agent_error, 'a) result" where
  "no_value why = Inl (Value_failed why)"

definition local_today_start_utc ::
  "('n, 'w, 'c, 'd, 'k, 'h) outside \<Rightarrow> instant \<Rightarrow> (agent_error, instant) result" where
  "local_today_start_utc os now =
     (let st = sv_settings (os_services os); zone = st_scan_local_timezone st in
      case os_local_date os zone now of
        None \<Rightarrow> no_value ''time zone''
      | Some d \<Rightarrow>
          (case os_midnight os zone (civil_date (civil_days d - st_scan_ignore_before_days st)) of
             None \<Rightarrow> no_value ''time zone''
           | Some t \<Rightarrow> Inr t))"

text \<open>\<open>_datetime\<close>, \<open>_integer\<close> and \<open>_optional_string\<close> of a member of the metadata.\<close>

definition datetime_of ::
  "('n, 'w, 'c, 'd, 'k, 'h) outside \<Rightarrow> json \<Rightarrow> (agent_error, instant option) result" where
  "datetime_of os j =
     (case j of
        JStr t \<Rightarrow>
          if t = '''' then Inr None
          else (case sv_instant (os_services os) (replace_char CHR ''Z'' ''+00:00'' t) of
                  None \<Rightarrow> no_value ''isoformat'' | Some x \<Rightarrow> Inr (Some x))
      | _ \<Rightarrow> Inr None)"

definition integer_of :: "('n, 'w, 'c, 'd, 'k, 'h) outside \<Rightarrow> json \<Rightarrow> (agent_error, int option) result" where
  "integer_of os j =
     (if j = JNull then Inr None
      else case ya_int (os_yandex os) j of None \<Rightarrow> no_value ''int'' | Some n \<Rightarrow> Inr (Some n))"

definition optional_string :: "('n, 'w, 'c, 'd, 'k, 'h) outside \<Rightarrow> json \<Rightarrow> string option" where
  "optional_string os j = (if j = JNull then None else Some (shown (os_services os) j))"

definition is_legacy :: "settings \<Rightarrow> instant option \<Rightarrow> instant \<Rightarrow> bool" where
  "is_legacy st created today \<longleftrightarrow> (case created of None \<Rightarrow> False | Some t \<Rightarrow> t < today)"

definition found_recording ::
  "('n, 'w, 'c, 'd, 'k, 'h) outside \<Rightarrow> instant \<Rightarrow> string \<Rightarrow> recruiter_config \<Rightarrow> instant option \<Rightarrow> disk_metadata \<Rightarrow>
   (agent_error, recording) result" where
  "found_recording os now new_id rc created md =
     (let text = shown (os_services os) in
      res_bind (datetime_of os (dm_disk_modified_at md)) (\<lambda>modified.
      res_bind (integer_of os (dm_disk_size_bytes md)) (\<lambda>size.
        Inr ((new_recording new_id (dm_disk_file_id md) (text (dm_disk_path md)) (text (dm_disk_filename md))
                (rc_email rc) now)
          \<lparr>r_disk_created_at := created, r_disk_modified_at := modified, r_disk_size_bytes := size,
           r_disk_mime_type := optional_string os (dm_disk_mime_type md),
           r_disk_md5 := optional_string os (dm_disk_md5 md)\<rparr>))))"

datatype persisted = Existing string | Inserted string | Skipped_legacy

definition recording_of_file :: "string \<Rightarrow> db \<Rightarrow> recording option" where
  "recording_of_file f d = find (\<lambda>r. r_disk_file_id r = f) (db_recordings d)"

text \<open>The date limit is looked at only when the settings ask for it and the file has a creation time.\<close>

definition legacy_file ::
  "('n, 'w, 'c, 'd, 'k, 'h) outside \<Rightarrow> instant \<Rightarrow> instant option \<Rightarrow> (agent_error, bool) result" where
  "legacy_file os now created =
     (if \<not> st_scan_ignore_before_today (sv_settings (os_services os)) \<or> created = None then Inr False
      else res_bind (local_today_start_utc os now) (\<lambda>today.
        Inr (is_legacy (sv_settings (os_services os)) created today)))"

definition insert_found ::
  "('n, 'w, 'c, 'd, 'k, 'h) outside \<Rightarrow> instant \<Rightarrow> string \<Rightarrow> recruiter_config \<Rightarrow> instant option \<Rightarrow> disk_metadata \<Rightarrow>
   ('n, 'w, 'c, 'd, 'k, 'h, persisted) agent_io" where
  "insert_found os now new_id rc created md = in_session
     (io_bind (see (recording_of_file (dm_disk_file_id md))) (\<lambda>existing.
        case existing of
          Some r \<Rightarrow> io_return (Existing (r_id r))
        | None \<Rightarrow>
            io_bind (io_lift (found_recording os now new_id rc created md)) (\<lambda>r.
            io_bind (save (\<lambda>d. d\<lparr>db_recordings := db_recordings d @ [r]\<rparr>)) (\<lambda>_. io_return (Inserted new_id)))))"

definition persist_found_recording ::
  "('n, 'w, 'c, 'd, 'k, 'h) outside \<Rightarrow> instant \<Rightarrow> string \<Rightarrow> recruiter_config \<Rightarrow> json \<Rightarrow>
   ('n, 'w, 'c, 'd, 'k, 'h, persisted) agent_io" where
  "persist_found_recording os now new_id rc item =
     (case json_get ''path'' item of
        None \<Rightarrow> io_raise (Value_failed ''path'')
      | Some p \<Rightarrow>
          io_bind (in_disk (get_metadata (os_yandex os) (os_scanner os) (shown (os_services os) p) (rc_email rc))) (\<lambda>md.
          io_bind (io_lift (datetime_of os (dm_disk_created_at md))) (\<lambda>created.
          io_bind (io_lift (legacy_file os now created)) (\<lambda>legacy.
            if legacy then io_return Skipped_legacy
            else io_bind (clock os) (\<lambda>t. insert_found os t new_id rc created md)))))"

section \<open>Matching to the calendar\<close>

text \<open>\<open>https://telemost\.360\.yandex\.ru/\S+\<close>: the first match in a description.\<close>

definition telemost_prefix :: string where
  "telemost_prefix = ''https://telemost.360.yandex.ru/''"

fun telemost_link :: "string \<Rightarrow> string option" where
  "telemost_link [] = None"
| "telemost_link (c # cs) =
     (let rest = takeWhile (\<lambda>x. \<not> py_space x) (drop (length telemost_prefix) (c # cs)) in
      if prefix telemost_prefix (c # cs) \<and> rest \<noteq> '''' then Some (telemost_prefix @ rest) else telemost_link cs)"

definition candidate_attendees :: "(string \<Rightarrow> string) \<Rightarrow> string \<Rightarrow> vevent \<Rightarrow> string list" where
  "candidate_attendees cf owner e =
     (let excluded = [cf owner, cf (ev_organizer_email e)] in
      sort (remdups (filter (\<lambda>a. a \<notin> set excluded) (map (\<lambda>a. cf (py_strip a))
        (filter (\<lambda>a. py_strip a \<noteq> '''') (ev_attendees e))))))"

definition without_event :: "recording \<Rightarrow> recording" where
  "without_event r = r\<lparr>r_calendar_event_uid := None, r_calendar_event_recurrence_id := None,
     r_calendar_event_summary := None, r_calendar_dtstart := None, r_calendar_dtend := None,
     r_calendar_organizer := None, r_calendar_telemost_url := None, r_calendar_raw_ics := None,
     r_matched_calendar_id := None, r_matched_calendar_url := None, r_matched_calendar_display_name := None\<rparr>"

definition with_event :: "(string \<Rightarrow> string) \<Rightarrow> vevent \<Rightarrow> recording \<Rightarrow> recording" where
  "with_event cf e r = r\<lparr>r_calendar_event_uid := Some (ev_uid e),
     r_calendar_event_recurrence_id := ev_recurrence_id e, r_calendar_event_summary := Some (ev_summary e),
     r_calendar_dtstart := Some (ev_dtstart e), r_calendar_dtend := Some (ev_dtend e),
     r_calendar_organizer := Some (ev_organizer_email e),
     r_candidate_email := (case candidate_attendees cf (r_disk_owner_email r) e of [a] \<Rightarrow> Some a | _ \<Rightarrow> None),
     r_calendar_telemost_url := telemost_link (ev_description e), r_calendar_raw_ics := Some (ev_raw_ics e),
     r_matched_calendar_id := ev_calendar_id e, r_matched_calendar_url := ev_calendar_url e,
     r_matched_calendar_display_name := ev_calendar_display_name e\<rparr>"

definition match_status :: "match_result \<Rightarrow> recording_status" where
  "match_status m = (if mr_manual_review_required m then MANUAL_REVIEW_REQUIRED else CALENDAR_EVENT_FOUND)"

definition with_match :: "(string \<Rightarrow> string) \<Rightarrow> match_result \<Rightarrow> recording \<Rightarrow> recording" where
  "with_match cf m r =
     (let r1 = r\<lparr>r_manual_review_reason := map_option reason_value (mr_reason m),
            r_manual_review_candidates := (if mr_candidates m = [] then None
              else Some (map (\<lambda>c. JObj (candidate_dict c)) (mr_candidates m)))\<rparr>
      in case mr_best_event m of
           None \<Rightarrow> without_event r1
         | Some e \<Rightarrow> if mr_manual_review_required m then without_event r1 else with_event cf e r1)"

definition apply_match_result ::
  "('n, 'w, 'c, 'd, 'k, 'h) outside \<Rightarrow> string \<Rightarrow> match_result \<Rightarrow> ('n, 'w, 'c, 'd, 'k, 'h, match_result option) agent_io" where
  "apply_match_result os i m =
     io_bind (move_row os i (match_status m) None None (with_match (te_casefold (os_env os)) m))
       (\<lambda>_. io_return (Some m))"

definition unconfigured :: match_result where
  "unconfigured = manual CALENDAR_CONFIGURATION_INCOMPLETE 0 [] []"

text \<open>The events of four hours around the start the file name gives; \<open>None\<close> when no calendar is configured.\<close>

definition events_around ::
  "('n, 'w, 'c, 'd, 'k, 'h) outside \<Rightarrow> string \<Rightarrow> instant \<Rightarrow> ('n, 'w, 'c, 'd, 'k, 'h, vevent list option) agent_io" where
  "events_around os email t =
     io_bind (clock os) (\<lambda>now.
     io_bind (see db_recruiters) (\<lambda>rcs.
       io_catch
         (io_bind (in_calendars (find_events (os_caldav os) (sv_settings (os_services os)) (os_origin os) now rcs email
              (t - hours 2) (t + hours 2))) (\<lambda>es. io_return (Some es)))
         (\<lambda>e. if e = Calendar_failed Calendar_configuration then io_return None else io_raise e)))"

definition match_row ::
  "('n, 'w, 'c, 'd, 'k, 'h) outside \<Rightarrow> matching_signals \<Rightarrow> recording \<Rightarrow>
   ('n, 'w, 'c, 'd, 'k, 'h, match_result option) agent_io" where
  "match_row os sig r =
     (let st = sv_settings (os_services os); te = os_env os;
          decide = score te st sig (r_disk_filename r) (r_disk_created_at r) in
      case parse_recording_filename te (r_disk_filename r) (st_recording_filename_timezone st) of
        Inl e \<Rightarrow> apply_match_result os (r_id r) (decide [])
      | Inr parsed \<Rightarrow>
          io_bind (events_around os (r_disk_owner_email r) (pf_start_utc parsed)) (\<lambda>es.
            apply_match_result os (r_id r) (case es of None \<Rightarrow> unconfigured | Some es \<Rightarrow> decide es)))"

definition run_found_recording ::
  "('n, 'w, 'c, 'd, 'k, 'h) outside \<Rightarrow> recruiter_config \<Rightarrow> string \<Rightarrow>
   ('n, 'w, 'c, 'd, 'k, 'h, match_result option) agent_io" where
  "run_found_recording os rc i =
     (let signals = resolve_matching_signals (os_compile os) (os_default_signals os) (Some rc) in
      in_session (io_bind (see (\<lambda>d. recording_of d i)) (\<lambda>row.
        case row of
          None \<Rightarrow> io_return None
        | Some r \<Rightarrow>
            if r_status r \<noteq> FOUND then io_return None
            else case signals of
              Inl e \<Rightarrow> io_bind (fail_row os i ''matching_signals_config'' (os_text os (Schema_failed e))) (\<lambda>_. io_return None)
            | Inr sig \<Rightarrow> match_row os sig r)))"

definition resume_found_recording ::
  "('n, 'w, 'c, 'd, 'k, 'h) outside \<Rightarrow> recruiter_config \<Rightarrow> string \<Rightarrow> string \<Rightarrow>
   ('n, 'w, 'c, 'd, 'k, 'h, match_result option) agent_io" where
  "resume_found_recording os rc token i =
     io_bind (with_lease os claim_found_lease token i (run_found_recording os rc i)) (\<lambda>v. io_return (Option.bind v id))"

definition fail_recording ::
  "('n, 'w, 'c, 'd, 'k, 'h) outside \<Rightarrow> string \<Rightarrow> agent_error \<Rightarrow> ('n, 'w, 'c, 'd, 'k, 'h, unit) agent_io" where
  "fail_recording os i e = in_session
     (io_bind (see (\<lambda>d. recording_of d i)) (\<lambda>row.
        case row of
          None \<Rightarrow> io_return ()
        | Some r \<Rightarrow> if r_status r \<noteq> FOUND then io_return () else fail_row os i ''calendar_matching'' (os_text os e)))"

section \<open>A scan\<close>

record scan_error =
  sx_stage :: string
  sx_code :: string
  sx_message :: string
  sx_retryable :: bool

record scan_summary =
  su_discovered :: nat
  su_inserted :: nat
  su_skipped_legacy :: nat
  su_matched :: nat
  su_manual_review :: nat
  su_failed :: nat
  su_recording_ids :: "string list"
  su_inserted_recording_ids :: "string list"
  su_aborted :: bool
  su_errors :: "scan_error list"

definition empty_summary :: scan_summary where
  "empty_summary = \<lparr>su_discovered = 0, su_inserted = 0, su_skipped_legacy = 0, su_matched = 0, su_manual_review = 0,
     su_failed = 0, su_recording_ids = [], su_inserted_recording_ids = [], su_aborted = False, su_errors = []\<rparr>"

text \<open>The identifiers, tokens and nonces a scan makes, and the services it was given.\<close>

record scan_ids =
  sn_row :: "nat \<Rightarrow> string"
  sn_lease :: "string \<Rightarrow> string"
  sn_pipeline :: "string \<Rightarrow> pipeline_ids"
  sn_fresh :: "nat \<Rightarrow> fresh_ids"
  sn_review :: "string \<Rightarrow> string \<times> string \<times> string"

record scan_services =
  sw_transfer :: bool
  sw_routing :: bool
  sw_reviews :: bool
  sw_questions :: bool

definition attempt :: "('n, 'w, 'c, 'd, 'k, 'h, 'a) agent_io \<Rightarrow> ('n, 'w, 'c, 'd, 'k, 'h, agent_error + 'a) agent_io" where
  "attempt m = io_catch (io_bind m (\<lambda>x. io_return (Inr x))) (\<lambda>e. io_return (Inl e))"

definition failed_once :: "scan_summary \<Rightarrow> scan_summary" where
  "failed_once sm = sm\<lparr>su_failed := su_failed sm + 1\<rparr>"

definition listed_once :: "string \<Rightarrow> scan_summary \<Rightarrow> scan_summary" where
  "listed_once i sm = (if i \<in> set (su_recording_ids sm) then sm
     else sm\<lparr>su_recording_ids := su_recording_ids sm @ [i]\<rparr>)"

definition count_stored :: "agent_error + persisted \<Rightarrow> scan_summary \<Rightarrow> scan_summary" where
  "count_stored v sm = (case v of
      Inl e \<Rightarrow> failed_once sm
    | Inr (Inserted i) \<Rightarrow> sm\<lparr>su_inserted := su_inserted sm + 1,
        su_inserted_recording_ids := su_inserted_recording_ids sm @ [i], su_recording_ids := su_recording_ids sm @ [i]\<rparr>
    | Inr Skipped_legacy \<Rightarrow> sm\<lparr>su_skipped_legacy := su_skipped_legacy sm + 1\<rparr>
    | Inr (Existing i) \<Rightarrow> sm)"

fun store_files ::
  "('n, 'w, 'c, 'd, 'k, 'h) outside \<Rightarrow> scan_ids \<Rightarrow> recruiter_config \<Rightarrow> instant option \<Rightarrow> nat \<Rightarrow> json list \<Rightarrow>
   scan_summary \<Rightarrow> ('n, 'w, 'c, 'd, 'k, 'h, scan_summary) agent_io" where
  "store_files os ids rc at k [] sm = io_return sm"
| "store_files os ids rc at k (f # fs) sm =
     io_bind (clock os) (\<lambda>t.
     io_bind (attempt (persist_found_recording os (opt_or at t) (sn_row ids k) rc f)) (\<lambda>v.
       store_files os ids rc at (k + 1) fs (count_stored v sm)))"

text \<open>\<open>CalDAVAuthError\<close>, \<open>KeyError\<close> and \<open>ValueError\<close> fail the recording; it stays to be tried again otherwise.\<close>

fun permanent_match_failure :: "agent_error \<Rightarrow> bool" where
  "permanent_match_failure (Calendar_failed e) \<longleftrightarrow>
     e \<in> {Calendar_auth, Calendar_key, Calendar_origin, Calendar_configuration, Calendar_value}"
| "permanent_match_failure (Advance_failed e) \<longleftrightarrow> True"
| "permanent_match_failure (Value_failed why) \<longleftrightarrow> True"
| "permanent_match_failure _ \<longleftrightarrow> False"

definition count_match :: "string \<Rightarrow> match_result \<Rightarrow> scan_summary \<Rightarrow> scan_summary" where
  "count_match i m sm =
     (let sm1 = listed_once i sm in
      if mr_manual_review_required m then sm1\<lparr>su_manual_review := su_manual_review sm1 + 1\<rparr>
      else sm1\<lparr>su_matched := su_matched sm1 + 1\<rparr>)"

fun match_all ::
  "('n, 'w, 'c, 'd, 'k, 'h) outside \<Rightarrow> scan_ids \<Rightarrow> recruiter_config \<Rightarrow> string list \<Rightarrow> scan_summary \<Rightarrow>
   ('n, 'w, 'c, 'd, 'k, 'h, scan_summary) agent_io" where
  "match_all os ids rc [] sm = io_return sm"
| "match_all os ids rc (i # is) sm =
     io_bind (attempt (resume_found_recording os rc (sn_lease ids i) i)) (\<lambda>v.
       case v of
         Inl e \<Rightarrow>
           io_bind (if permanent_match_failure e then fail_recording os i e else io_return ()) (\<lambda>_.
             match_all os ids rc is (failed_once sm))
       | Inr None \<Rightarrow> match_all os ids rc is sm
       | Inr (Some m) \<Rightarrow> match_all os ids rc is (count_match i m sm))"

fun transfer_all ::
  "('n, 'w, 'c, 'd, 'k, 'h) outside \<Rightarrow> scan_ids \<Rightarrow> bool \<Rightarrow> recruiter_config \<Rightarrow> string list \<Rightarrow> scan_summary \<Rightarrow>
   ('n, 'w, 'c, 'd, 'k, 'h, scan_summary) agent_io" where
  "transfer_all os ids routed rc [] sm = io_return sm"
| "transfer_all os ids routed rc (i # is) sm =
     io_bind (attempt (resume_transfer os (sn_pipeline ids i) routed rc (sn_lease ids i) i)) (\<lambda>v.
       transfer_all os ids routed rc is
         (case v of Inl e \<Rightarrow> failed_once sm | Inr owned \<Rightarrow> if owned then listed_once i sm else sm))"

definition rows_with :: "recruiter_config \<Rightarrow> recording_status list \<Rightarrow> db \<Rightarrow> recording list" where
  "rows_with rc statuses d = filter (\<lambda>r. r_disk_owner_email r = rc_email rc \<and> r_status r \<in> set statuses) (db_recordings d)"

text \<open>A pending question of the recruiter's recordings that was asked elsewhere.\<close>

definition asked_elsewhere :: "recruiter_config \<Rightarrow> interaction_binding \<Rightarrow> db \<Rightarrow> bool" where
  "asked_elsewhere rc b d \<longleftrightarrow> list_ex (\<lambda>v. v_status v = Review_pending \<and>
     (v_recruiter_user_id v \<noteq> Some (ib_recruiter_user_id b) \<or> v_mattermost_channel_id v \<noteq> Some (ib_dm_channel_id b)) \<and>
     list_ex (\<lambda>r. r_id r = v_recording_id v \<and> r_disk_owner_email r = rc_email rc) (db_recordings d)) (db_reviews d)"

definition validate_offline_interaction_binding ::
  "recruiter_config \<Rightarrow> interaction_binding option \<Rightarrow> ('n, 'w, 'c, 'd, 'k, 'h, unit) agent_io" where
  "validate_offline_interaction_binding rc binding =
     (case binding of
        None \<Rightarrow> io_return ()
      | Some b \<Rightarrow> io_bind (see (asked_elsewhere rc b)) (\<lambda>conflicting.
          if conflicting then io_raise (App_failed (Review_rejected Other_interaction)) else io_return ()))"

fun enqueue_all ::
  "('n, 'w, 'c) services \<Rightarrow> instant \<Rightarrow> (string \<Rightarrow> string \<times> string \<times> string) \<Rightarrow> recruiter_config \<Rightarrow>
   interaction_binding option \<Rightarrow> recording list \<Rightarrow> ('n, 'w, 'c, unit) app_io" where
  "enqueue_all sv now fresh rc binding [] = io_return ()"
| "enqueue_all sv now fresh rc binding (r # rs) =
     (case fresh (r_id r) of (new_id, nonce, set_id) \<Rightarrow>
        io_bind (enqueue_review sv now new_id nonce set_id r rc binding) (\<lambda>_. enqueue_all sv now fresh rc binding rs))"

definition discovery_failed :: scan_summary where
  "discovery_failed = empty_summary\<lparr>su_aborted := True, su_failed := 1,
     su_errors := [\<lparr>sx_stage = ''calendar_discovery'', sx_code = ''calendar_discovery_failed'',
       sx_message = ''Calendar discovery could not be refreshed; retry the scan.'', sx_retryable = True\<rparr>]\<rparr>"

definition refresh_calendars ::
  "('n, 'w, 'c, 'd, 'k, 'h) outside \<Rightarrow> (string \<Rightarrow> string) \<Rightarrow> recruiter_config \<Rightarrow>
   ('n, 'w, 'c, 'd, 'k, 'h, recruiter_calendar list) agent_io" where
  "refresh_calendars os fresh rc =
     io_bind (clock os) (\<lambda>t.
     io_bind (see db_recruiters) (\<lambda>rcs.
       in_calendars (refresh_snapshot (os_caldav os) (sv_settings (os_services os)) (os_origin os) t fresh rcs (rc_email rc))))"

text \<open>A disk that cannot be listed leaves no new files, and the persisted recordings go on.\<close>

definition list_files ::
  "('n, 'w, 'c, 'd, 'k, 'h) outside \<Rightarrow> recruiter_config \<Rightarrow> ('n, 'w, 'c, 'd, 'k, 'h, json list) agent_io" where
  "list_files os rc =
     io_bind (see (\<lambda>d. map r_disk_file_id (db_recordings d))) (\<lambda>known.
       io_catch (in_disk (list_new (os_yandex os) (os_scanner os) known (rc_email rc))) (\<lambda>e. io_return []))"

definition scan_recordings ::
  "('n, 'w, 'c, 'd, 'k, 'h) outside \<Rightarrow> scan_ids \<Rightarrow> scan_services \<Rightarrow> recruiter_config \<Rightarrow> instant option \<Rightarrow>
   ('n, 'w, 'c, 'd, 'k, 'h, scan_summary) agent_io" where
  "scan_recordings os ids ss rc at =
     io_bind (list_files os rc) (\<lambda>files.
     io_bind (store_files os ids rc at 0 files (empty_summary\<lparr>su_discovered := length files\<rparr>)) (\<lambda>sm.
     io_bind (see (\<lambda>d. map r_id (rows_with rc [FOUND] d))) (\<lambda>found.
     io_bind (match_all os ids rc found sm) (\<lambda>sm.
       if \<not> sw_transfer ss then io_return sm
       else io_bind (see (\<lambda>d. map r_id (rows_with rc TRANSFER_RESUMABLE_STATUSES d))) (\<lambda>resumable.
         transfer_all os ids (sw_routing ss) rc resumable sm)))))"

definition scan_questions ::
  "('n, 'w, 'c, 'd, 'k, 'h) outside \<Rightarrow> scan_ids \<Rightarrow> scan_services \<Rightarrow> recruiter_config \<Rightarrow> interaction_binding option \<Rightarrow>
   ('n, 'w, 'c, 'd, 'k, 'h, unit) agent_io" where
  "scan_questions os ids ss rc binding =
     (let sv = os_services os in
      io_bind (clock os) (\<lambda>t.
      io_bind (if sw_questions ss
               then in_session (in_world (io_bind (reconcile_processing sv t (sn_fresh ids) rc binding) (\<lambda>_. commit)))
               else io_return ()) (\<lambda>_.
        if sw_reviews ss \<and> (st_mattermost_delivery_enabled (sv_settings sv) \<or> binding \<noteq> None)
        then in_session (io_bind (see (rows_with rc [MANUAL_REVIEW_REQUIRED])) (\<lambda>pending.
               in_world (io_bind (enqueue_all sv t (sn_review ids) rc binding pending) (\<lambda>_. commit))))
        else io_return ())))"

definition scan_recruiter ::
  "('n, 'w, 'c, 'd, 'k, 'h) outside \<Rightarrow> scan_ids \<Rightarrow> (string \<Rightarrow> string) \<Rightarrow> scan_services \<Rightarrow> recruiter_config \<Rightarrow>
   instant option \<Rightarrow> interaction_binding option \<Rightarrow> ('n, 'w, 'c, 'd, 'k, 'h, scan_summary) agent_io" where
  "scan_recruiter os ids fresh_calendar ss rc at binding =
     (let sv = os_services os in
      io_bind (io_lift (map_sum Scope_failed id
        (enforce_recruiter_scope (fold_case (sv_notion sv)) (sv_settings sv) rc))) (\<lambda>_.
      io_bind (validate_offline_interaction_binding rc binding) (\<lambda>_.
      io_bind (attempt (refresh_calendars os fresh_calendar rc)) (\<lambda>v.
        case v of
          Inl e \<Rightarrow> io_return discovery_failed
        | Inr rows \<Rightarrow>
            io_bind (scan_recordings os ids ss rc at) (\<lambda>sm.
            io_bind (scan_questions os ids ss rc binding) (\<lambda>_. io_return sm))))))"

section \<open>The dispatcher\<close>

definition active_recruiters :: "db \<Rightarrow> recruiter_config list" where
  "active_recruiters d = filter rc_active (db_recruiters d)"

definition digits :: "string \<Rightarrow> nat" where
  "digits t = foldl (\<lambda>a c. 10 * a + (of_char c - 48)) 0 t"

text \<open>\<open>HH:MM\<close> as the minute of the day; the settings admit no other text.\<close>

definition summary_time :: "string \<Rightarrow> nat" where
  "summary_time t = (case split_on CHR '':'' t of [h, m] \<Rightarrow> 60 * digits h + digits m | _ \<Rightarrow> 0)"

definition due_recruiter_local_date ::
  "('n, 'w, 'c, 'd, 'k, 'h) outside \<Rightarrow> recruiter_config \<Rightarrow> instant \<Rightarrow> nat \<Rightarrow> date option" where
  "due_recruiter_local_date os rc now due =
     (case (os_local_date os (rc_timezone rc) now, os_local_minutes os (rc_timezone rc) now) of
        (Some d, Some m) \<Rightarrow> if due \<le> m then Some d else None
      | _ \<Rightarrow> None)"

definition SUMMARY_CLAIM_TTL :: int where "SUMMARY_CLAIM_TTL = minutes 15"

text \<open>A day's digest is free when it is not sent and no other dispatcher holds a fresh claim on it.\<close>

definition digest_free :: "instant \<Rightarrow> question_digest \<Rightarrow> bool" where
  "digest_free now g \<longleftrightarrow> g_status g \<noteq> Digest_sent \<and>
     \<not> (g_status g = Digest_pending \<and> now - SUMMARY_CLAIM_TTL < g_created_at g)"

definition set_digest_of_day ::
  "string \<Rightarrow> string \<Rightarrow> date \<Rightarrow> (question_digest \<Rightarrow> question_digest) \<Rightarrow> db \<Rightarrow> db" where
  "set_digest_of_day user channel day f d = d\<lparr>db_digests := update_where
     (\<lambda>g. g_recruiter_user_id g = user \<and> g_mattermost_channel_id g = channel \<and> g_local_date g = day) f (db_digests d)\<rparr>"

definition claim_daily_digest ::
  "string \<Rightarrow> string \<Rightarrow> string \<Rightarrow> date \<Rightarrow> instant \<Rightarrow> ('n, 'w, 'c, 'd, 'k, 'h, bool) agent_io" where
  "claim_daily_digest new_id user channel day now = in_session
     (io_bind (see (digest_of_day user channel day)) (\<lambda>existing.
        case existing of
          Some g \<Rightarrow>
            if \<not> digest_free now g then io_return False
            else io_bind (save (set_digest_of_day user channel day
                   (\<lambda>g. g\<lparr>g_status := Digest_pending, g_created_at := now\<rparr>))) (\<lambda>_. io_return True)
        | None \<Rightarrow> io_bind (save (\<lambda>d. d\<lparr>db_digests := db_digests d @ [new_digest new_id user channel day now]\<rparr>))
                    (\<lambda>_. io_return True)))"

definition mark_daily_digest_failed ::
  "string \<Rightarrow> string \<Rightarrow> date \<Rightarrow> ('n, 'w, 'c, 'd, 'k, 'h, unit) agent_io" where
  "mark_daily_digest_failed user channel day = in_session
     (io_bind (see (digest_of_day user channel day)) (\<lambda>g.
        if g = None then io_return ()
        else save (set_digest_of_day user channel day (g_status_update (\<lambda>_. Digest_failed)))))"

record day_ids =
  dd_claim :: string
  dd_digest :: string
  dd_item :: string
  dd_questions :: "nat \<Rightarrow> string \<times> string"
  dd_calendar :: "string \<Rightarrow> string"
  dd_scan :: scan_ids

text \<open>The claimed day of a recruiter: the scan, and the digest of its questions.\<close>

definition scan_and_digest ::
  "('n, 'w, 'c, 'd, 'k, 'h) outside \<Rightarrow> day_ids \<Rightarrow> scan_services \<Rightarrow> recruiter_config \<Rightarrow> string \<Rightarrow> string \<Rightarrow> date \<Rightarrow>
   instant \<Rightarrow> ('n, 'w, 'c, 'd, 'k, 'h, unit) agent_io" where
  "scan_and_digest os ids ss rc user channel day current =
     io_bind (scan_recruiter os (dd_scan ids) (dd_calendar ids) ss rc (Some current) None) (\<lambda>sm.
       if su_aborted sm then mark_daily_digest_failed user channel day
       else io_bind (clock os) (\<lambda>t. in_session (in_world
         (io_bind (build_digest (os_services os) t (dd_digest ids) (dd_item ids) (dd_questions ids) user channel day
            (rc_daily_digest_enabled rc)) (\<lambda>_. commit)))))"

definition run_recruiter_day ::
  "('n, 'w, 'c, 'd, 'k, 'h) outside \<Rightarrow> day_ids \<Rightarrow> scan_services \<Rightarrow> instant \<Rightarrow> recruiter_config \<Rightarrow>
   ('n, 'w, 'c, 'd, 'k, 'h, unit) agent_io" where
  "run_recruiter_day os ids ss current rc =
     (case due_recruiter_local_date os rc current (summary_time (st_summary_local_time (sv_settings (os_services os)))) of
        None \<Rightarrow> io_return ()
      | Some day \<Rightarrow>
          if \<not> truthy (rc_mattermost_user_id rc) \<or> \<not> truthy (rc_mattermost_dm_channel rc) then io_return ()
          else
            (let user = the (rc_mattermost_user_id rc); channel = the (rc_mattermost_dm_channel rc) in
             io_bind (claim_daily_digest (dd_claim ids) user channel day current) (\<lambda>claimed.
               if \<not> claimed then io_return ()
               else io_catch (scan_and_digest os ids ss rc user channel day current)
                      (\<lambda>e. mark_daily_digest_failed user channel day))))"

fun each_recruiter ::
  "(recruiter_config \<Rightarrow> ('n, 'w, 'c, 'd, 'k, 'h, unit) agent_io) \<Rightarrow> recruiter_config list \<Rightarrow>
   ('n, 'w, 'c, 'd, 'k, 'h, unit) agent_io" where
  "each_recruiter m [] = io_return ()"
| "each_recruiter m (rc # rcs) = io_bind (m rc) (\<lambda>_. each_recruiter m rcs)"

definition run_due_recruiter_summaries ::
  "('n, 'w, 'c, 'd, 'k, 'h) outside \<Rightarrow> (string \<Rightarrow> day_ids) \<Rightarrow> scan_services \<Rightarrow> instant option \<Rightarrow>
   ('n, 'w, 'c, 'd, 'k, 'h, unit) agent_io" where
  "run_due_recruiter_summaries os ids ss at =
     io_bind (clock os) (\<lambda>t.
     io_bind (see active_recruiters) (each_recruiter (\<lambda>rc. run_recruiter_day os (ids (rc_id rc)) ss (opt_or at t) rc)))"

text \<open>Every recruiter is scanned, and every disk cleaned, whatever happens to the others.\<close>

definition isolated :: "('n, 'w, 'c, 'd, 'k, 'h, 'a) agent_io \<Rightarrow> ('n, 'w, 'c, 'd, 'k, 'h, unit) agent_io" where
  "isolated m = io_bind (attempt m) (\<lambda>_. io_return ())"

definition scan_all_recruiters ::
  "('n, 'w, 'c, 'd, 'k, 'h) outside \<Rightarrow> (string \<Rightarrow> day_ids) \<Rightarrow> scan_services \<Rightarrow> ('n, 'w, 'c, 'd, 'k, 'h, unit) agent_io" where
  "scan_all_recruiters os ids ss =
     io_bind (see active_recruiters) (each_recruiter (\<lambda>rc.
       isolated (scan_recruiter os (dd_scan (ids (rc_id rc))) (dd_calendar (ids (rc_id rc))) (ss\<lparr>sw_routing := False\<rparr>) rc None None)))"

definition cleanup_expired_recordings ::
  "('n, 'w, 'c, 'd, 'k, 'h) outside \<Rightarrow> ('n, 'w, 'c, 'd, 'k, 'h, unit) agent_io" where
  "cleanup_expired_recordings os =
     io_bind (see active_recruiters) (each_recruiter (\<lambda>rc.
       isolated (in_disk (delete_expired (os_yandex os) (os_scanner os) None (rc_email rc)))))"

section \<open>Notifications\<close>

fun deliver_items ::
  "('n, 'w, 'c, 'd, 'k, 'h) outside \<Rightarrow> string \<Rightarrow> string list \<Rightarrow> ('n, 'w, 'c, 'd, 'k, 'h, unit) agent_io" where
  "deliver_items os worker [] = io_return ()"
| "deliver_items os worker (i # is) =
     io_bind (clock os) (\<lambda>t.
     io_bind (attempt (in_world (io_bind (deliver_claimed (os_services os) t worker i) (\<lambda>_. commit)))) (\<lambda>v.
     io_bind (if isl v then commit_all else io_return ()) (\<lambda>_.
       deliver_items os worker is)))"

definition OUTBOX_BATCH :: nat where "OUTBOX_BATCH = 20"

definition drain_notification_outbox ::
  "('n, 'w, 'c, 'd, 'k, 'h) outside \<Rightarrow> string \<Rightarrow> (nat \<Rightarrow> string) \<Rightarrow> ('n, 'w, 'c, 'd, 'k, 'h, unit) agent_io" where
  "drain_notification_outbox os worker fresh =
     (let sv = os_services os; ttl = st_intent_claim_ttl_seconds (sv_settings sv) in in_session
      (io_bind (clock os) (\<lambda>t.
       io_bind (io_catch (in_world (io_bind (queue_terminal_notifications sv t fresh OUTBOX_BATCH) (\<lambda>_. commit)))
          (\<lambda>e. rollback_all)) (\<lambda>_.
       io_bind (see (\<lambda>d. claim_outbox ttl t worker OUTBOX_BATCH (db_outbox d))) (\<lambda>(items, rows).
       io_bind (save (\<lambda>d. d\<lparr>db_outbox := rows\<rparr>)) (\<lambda>_.
         deliver_items os worker (map o_id items)))))))"

text \<open>The direct deliveries of \<open>_send_recruiter_notifications\<close>: an error leaves the rest to be sent.\<close>

fun each_recording ::
  "(recording \<Rightarrow> ('n, 'w, 'c, 'd, 'k, 'h, unit) agent_io) \<Rightarrow> recording list \<Rightarrow>
   ('n, 'w, 'c, 'd, 'k, 'h, unit) agent_io" where
  "each_recording m [] = io_return ()"
| "each_recording m (r # rs) = io_bind (io_catch (m r) (\<lambda>e. rollback_all)) (\<lambda>_. each_recording m rs)"

definition terminal_untold :: "recruiter_config \<Rightarrow> db \<Rightarrow> recording list" where
  "terminal_untold rc d = filter (\<lambda>r. r_terminal_notified_at r = None \<and> r_terminal_notification_claim r = None)
     (rows_with rc [COMPLETED, FAILED] d)"

definition send_recruiter_notifications ::
  "('n, 'w, 'c, 'd, 'k, 'h) outside \<Rightarrow> (string \<Rightarrow> string \<times> string \<times> string) \<Rightarrow> (string \<Rightarrow> string) \<Rightarrow> recruiter_config \<Rightarrow>
   ('n, 'w, 'c, 'd, 'k, 'h, unit) agent_io" where
  "send_recruiter_notifications os fresh claim rc =
     (let sv = os_services os in in_session
      (io_bind (clock os) (\<lambda>t.
       io_bind (see (rows_with rc [MANUAL_REVIEW_REQUIRED])) (\<lambda>pending.
       io_bind (each_recording (\<lambda>r. case fresh (r_id r) of (new_id, nonce, set_id) \<Rightarrow>
          in_world (io_bind (issue_review sv t t (claim (r_id r)) new_id nonce set_id r rc) (\<lambda>_. commit))) pending) (\<lambda>_.
       io_bind (see (terminal_untold rc)) (\<lambda>terminal.
         each_recording (\<lambda>r. in_world (io_bind (deliver_terminal sv t t (claim (r_id r)) r rc) (\<lambda>_. io_return ()))) terminal))))))"

section \<open>Jobs\<close>

datatype job_error = No_question_queue

text \<open>Identifier and interval in seconds of each job; \<open>queue\<close> tells whether there is a question queue.\<close>

definition register_jobs :: "settings \<Rightarrow> bool \<Rightarrow> (job_error, (string \<times> nat) list) result" where
  "register_jobs st queue =
     (let base = [(''cleanup_stale_transfer_files'', 3600)] @
            (if st_mattermost_delivery_enabled st \<and> queue then [(''deliver_notification_outbox'', 10)] else [])
      in if \<not> st_scheduler_enabled st then Inr base
         else if \<not> queue then Inl No_question_queue
         else Inr (base @ [(''scan_due_recruiter_summaries'', 60)]))"

end
