(* ===== verification/Non_Interview.thy ===== *)
theory Non_Interview
imports Pipeline_Run
begin

text \<open>
  \<open>app/services/non_interview.py\<close>: a recording the recruiter says is not an interview is put at a chosen
  destination, linked and completed, without a candidate and without a Notion card.  The decision is
  committed before the copy starts, so a scan can resume it.
\<close>

section \<open>The decision\<close>

definition need_route ::
  "bool \<Rightarrow> string \<Rightarrow> ('n, 'w, 'c, 'd, 'k, 'h, 'a) agent_io \<Rightarrow> ('n, 'w, 'c, 'd, 'k, 'h, 'a) agent_io" where
  "need_route b why m = io_guard b (App_failed (Route_rejected why)) m"

definition moved_to :: "recording_status \<Rightarrow> recording \<Rightarrow> (agent_error, recording) result" where
  "moved_to target r = (case transition_to target r of
      Inl e \<Rightarrow> Inl (App_failed (Bad_move e)) | Inr r1 \<Rightarrow> Inr r1)"

definition retried_route :: "recording \<Rightarrow> bool" where
  "retried_route r \<longleftrightarrow> r_status r = FAILED \<and> r_route_type r = ''non_interview''"

definition destination_key :: "storage_destination \<Rightarrow> recording \<Rightarrow> string" where
  "destination_key dest r = without_slash (sd_canonical_path dest) @ ''/'' @ file_name_of r"

definition routed_away :: "storage_destination \<Rightarrow> recording \<Rightarrow> recording" where
  "routed_away dest r = r\<lparr>r_route_type := ''non_interview'', r_storage_destination_id := Some (sd_id dest),
     r_generated_filename := Some (file_name_of r), r_storage_key := Some (destination_key dest r),
     r_content_identity := Some (identity_of r)\<rparr>"

definition decide_row ::
  "('n, 'w, 'c, 'd, 'k, 'h) outside \<Rightarrow> recruiter_config \<Rightarrow> string \<Rightarrow> int \<Rightarrow> recording \<Rightarrow>
   ('n, 'w, 'c, 'd, 'k, 'h, unit) agent_io" where
  "decide_row os rc destination_id version r =
     need_route (r_disk_owner_email r = rc_email rc) ''Recording not found''
    (need_route (r_version r = version) ''Recording version is stale''
    (need_route (r_status r = MANUAL_REVIEW_REQUIRED \<or> retried_route r) ''Recording is not awaiting a route decision''
    (io_bind (in_world (in_destinations (resolve_destination (sv_nas (os_services os)) (sv_settings (os_services os)) rc
        destination_id) Destination_refused)) (\<lambda>dest.
     io_bind (see (key_owner (destination_key dest r) (r_id r))) (\<lambda>other.
       need_route (other = None) ''Storage destination is already owned by another recording''
      (io_bind (io_lift (moved_to TRANSFER_STARTED (routed_away dest (if retried_route r then reset_for_retry r else r)))) (\<lambda>x.
         save (update_recording (r_id r) (\<lambda>_. x\<lparr>r_version := r_version x + 1\<rparr>)))))))))"

definition decide_route ::
  "('n, 'w, 'c, 'd, 'k, 'h) outside \<Rightarrow> string \<Rightarrow> recruiter_config \<Rightarrow> string \<Rightarrow> int \<Rightarrow>
   ('n, 'w, 'c, 'd, 'k, 'h, unit) agent_io" where
  "decide_route os i rc destination_id version = in_session
     (io_bind (see (\<lambda>d. recording_of d i)) (\<lambda>row.
        case row of
          None \<Rightarrow> io_raise (App_failed (Route_rejected ''Recording not found''))
        | Some r \<Rightarrow> decide_row os rc destination_id version r))"

section \<open>The copy\<close>

definition copied_to :: "transfer_result \<Rightarrow> recording \<Rightarrow> recording" where
  "copied_to x r = r\<lparr>r_synology_folder_path := Some (tr_folder_path x), r_synology_file_path := Some (tr_file_path x)\<rparr>"

definition linked_to :: "transfer_result \<Rightarrow> string \<Rightarrow> recording \<Rightarrow> recording" where
  "linked_to x url r = r\<lparr>r_synology_share_url := Some url, r_storage_is_durable := tr_storage_is_durable x\<rparr>"

definition carry_out_row ::
  "('n, 'w, 'c, 'd, 'k, 'h) outside \<Rightarrow> recruiter_config \<Rightarrow> recording \<Rightarrow> ('n, 'w, 'c, 'd, 'k, 'h, recording) agent_io" where
  "carry_out_row os rc r =
     io_bind (transfer os r rc ''non-interview'') (\<lambda>x.
     io_bind (io_lift (moved_to UPLOADED_TO_SYNOLOGY (copied_to x r))) (\<lambda>r1.
     io_bind (save (update_recording (r_id r) (\<lambda>_. r1))) (\<lambda>_.
     io_bind (share_link os (tr_file_path x)) (\<lambda>url.
     io_bind (io_lift (res_bind (moved_to SYNOLOGY_LINK_CREATED (linked_to x url r1)) (moved_to COMPLETED))) (\<lambda>r2.
     io_bind (clock os) (\<lambda>t.
       let r3 = r2\<lparr>r_completed_at := Some t, r_version := r_version r2 + 1\<rparr> in
       io_bind (save (update_recording (r_id r) (\<lambda>_. r3))) (\<lambda>_. io_return r3)))))))"

definition carry_out_route ::
  "('n, 'w, 'c, 'd, 'k, 'h) outside \<Rightarrow> string \<Rightarrow> recruiter_config \<Rightarrow> ('n, 'w, 'c, 'd, 'k, 'h, recording) agent_io" where
  "carry_out_route os i rc = in_session
     (io_bind (see (\<lambda>d. recording_of d i)) (\<lambda>row.
        case row of
          None \<Rightarrow> io_raise (App_failed (Route_rejected ''Recording disappeared''))
        | Some r \<Rightarrow> carry_out_row os rc r))"

definition route ::
  "('n, 'w, 'c, 'd, 'k, 'h) outside \<Rightarrow> string \<Rightarrow> recruiter_config \<Rightarrow> string \<Rightarrow> int \<Rightarrow>
   ('n, 'w, 'c, 'd, 'k, 'h, recording) agent_io" where
  "route os i rc destination_id version =
     io_bind (decide_route os i rc destination_id version) (\<lambda>_. carry_out_route os i rc)"

section \<open>What a route leaves\<close>

text \<open>The tables and the Notion log, which the copy and its link do not touch.\<close>

definition quiet ::
  "db \<Rightarrow> db \<Rightarrow> 'n notion_state \<Rightarrow> ('n, 'w, 'c, 'd, 'k, 'h) agent \<Rightarrow> bool" where
  "quiet d e n s \<longleftrightarrow> w_db (ag_world s) = d \<and> w_saved (ag_world s) = e \<and> w_notion (ag_world s) = n"

named_theorems quiet_rules \<open>routines that change neither the tables nor Notion\<close>

lemma keeps_quiet_services [quiet_rules]:
  "keeps (quiet d e n) (in_disk m)" "keeps (quiet d e n) (in_station m1)" "keeps (quiet d e n) (in_store m2)"
  "keeps (quiet d e n) (get_download os href)"
  by (auto simp: keeps_def quiet_def in_disk_def in_station_def in_world_def in_nas_def in_store_def get_download_def
      split: prod.splits sum.splits option.splits)

lemma keeps_rows_resolve [keeps_rules]: "keeps (rows_are rows) (resolve_destination nas st rc i)"
proof (rule keepsI)
  fix w v w1
  assume w: "rows_are rows w" and run: "resolve_destination nas st rc i w = (v, w1)"
  have "keeps (rows_are rows) (live_validation nas root path)" for root path
    unfolding live_validation_def
    by (intro keeps_catch keeps_on_nas) (auto intro!: keeps_rules split: dest_error.splits)
  then have live: "keeps (rows_are rows) (io_bind (live_validation nas root path) (\<lambda>_. io_return r))" for root path r
    by (intro keeps_bind keeps_return)
  show "rows_are rows w1"
    using run w keepsD[OF live w]
    by (auto simp: resolve_destination_def split: option.splits sum.splits)
qed

lemma keeps_quiet_resolve [quiet_rules]:
  "keeps (quiet d e n) (in_world (in_destinations (resolve_destination nas st rc i) err))"
proof (rule keepsI)
  fix s v s1
  assume s: "quiet d e n s" and run: "in_world (in_destinations (resolve_destination nas st rc i) err) s = (v, s1)"
  let ?w = "\<lparr>dw_nas = w_nas (ag_world s), dw_rows = db_destinations (w_db (ag_world s))\<rparr>"
  obtain u w1 where r: "resolve_destination nas st rc i ?w = (u, w1)" by fastforce
  then have "dw_rows w1 = db_destinations (w_db (ag_world s))" using keeps_rows[OF keeps_rows_resolve] by fastforce
  then show "quiet d e n s1"
    using s run r by (auto simp: quiet_def in_world_def in_destinations_def split: sum.splits)
qed

lemma keeps_quiet_transfer [quiet_rules]: "keeps (quiet d e n) (transfer os r rc c)"
  unfolding transfer_def place_of_def destination_place_def check_destination_def failing_def find_download_def
    copy_file_def stream_upload_def temp_upload_def put_file_def Let_def
  by (rule keeps_rules quiet_rules keeps_case_json)+

lemma keeps_quiet_share_link [quiet_rules]: "keeps (quiet d e n) (share_link os path)"
  unfolding share_link_def failing_def Let_def
  by (rule keeps_rules quiet_rules keeps_case_json)+

lemma quiet_start: "quiet (w_db (ag_world s)) (w_saved (ag_world s)) (w_notion (ag_world s)) s"
  by (simp add: quiet_def)

lemma quiet_run:
  assumes "keeps (quiet (w_db (ag_world s)) (w_saved (ag_world s)) (w_notion (ag_world s))) m" "m s = (v, s1)"
  shows "w_db (ag_world s1) = w_db (ag_world s)" "w_saved (ag_world s1) = w_saved (ag_world s)"
    "w_notion (ag_world s1) = w_notion (ag_world s)"
  using keepsD[OF assms(1) quiet_start assms(2)] by (simp_all add: quiet_def)

lemma moved_to_Inr_iff: "moved_to target r = Inr x \<longleftrightarrow> target \<in> TRANSITIONS (r_status r) \<and> x = r\<lparr>r_status := target\<rparr>"
  using transition_to_Inr_iff[of target r x] by (auto simp: moved_to_def split: sum.splits)

lemma in_session_run:
  assumes "in_session m s = (v, s1)"
  obtains s2 where "m s = (v, s2)" "s1 = s2\<lparr>ag_world := (ag_world s2)\<lparr>w_db := w_saved (ag_world s2)\<rparr>\<rparr>"
  using assms by (auto simp: in_session_def split: prod.splits)

text \<open>A row on which the recruiter may decide, and the row of a decision that was taken.\<close>

definition decidable_row :: "recruiter_config \<Rightarrow> int \<Rightarrow> recording \<Rightarrow> bool" where
  "decidable_row rc version r \<longleftrightarrow> r_disk_owner_email r = rc_email rc \<and> r_version r = version \<and>
     (r_status r = MANUAL_REVIEW_REQUIRED \<or> retried_route r)"

definition decided :: "string \<Rightarrow> int \<Rightarrow> recording \<Rightarrow> bool" where
  "decided i version x \<longleftrightarrow> r_id x = i \<and> r_route_type x = ''non_interview'' \<and> r_version x = version + 1 \<and>
     r_status x = TRANSFER_STARTED"

lemma decide_row_run:
  assumes "decide_row os rc did version r s = (Inr u, s1)"
  shows "\<exists>x. decidable_row rc version r \<and> decided (r_id r) version x \<and>
    w_db (ag_world s1) = update_recording (r_id r) (\<lambda>_. x) (w_db (ag_world s)) \<and>
    w_saved (ag_world s1) = w_db (ag_world s1) \<and> w_notion (ag_world s1) = w_notion (ag_world s)"
proof -
  obtain dest s2 x where row: "decidable_row rc version r"
    and look: "in_world (in_destinations (resolve_destination (sv_nas (os_services os)) (sv_settings (os_services os)) rc did)
        Destination_refused) s = (Inr dest, s2)"
    and x: "moved_to TRANSFER_STARTED (routed_away dest (if retried_route r then reset_for_retry r else r)) = Inr x"
    and s1: "s1 = snd (save (update_recording (r_id r) (\<lambda>_. x\<lparr>r_version := r_version x + 1\<rparr>)) s2)"
    using assms by (auto simp: decide_row_def need_route_def io_guard_Inr_iff io_bind_Inr_iff decidable_row_def io_lift_def)
  have "decided (r_id r) version (x\<lparr>r_version := r_version x + 1\<rparr>)"
    using x row by (auto simp: moved_to_Inr_iff routed_away_def reset_for_retry_def decided_def decidable_row_def)
  then show ?thesis using row s1 quiet_run[OF keeps_quiet_resolve look] by auto
qed

lemma decide_route_run:
  assumes "decide_route os i rc did version s = (Inr u, s1)"
  shows "\<exists>r x. recording_of (w_db (ag_world s)) i = Some r \<and> decidable_row rc version r \<and> decided i version x \<and>
    w_db (ag_world s1) = update_recording i (\<lambda>_. x) (w_db (ag_world s)) \<and>
    w_saved (ag_world s1) = w_db (ag_world s1) \<and> w_notion (ag_world s1) = w_notion (ag_world s)"
  using assms unfolding decide_route_def
  by (elim in_session_run)
    (auto simp: io_bind_Inr_iff io_raise_def row_is split: option.splits dest!: decide_row_run)

lemma saved_twice:
  "recording_of d i = Some r \<Longrightarrow> r_id r1 = i \<Longrightarrow> r_id r2 = i \<Longrightarrow>
    recording_of (update_recording i (\<lambda>_. r2) (update_recording i (\<lambda>_. r1) d)) i = Some r2"
  by (intro recording_of_replaced[OF recording_of_replaced])

lemma carry_out_row_run:
  assumes "carry_out_row os rc r s = (Inr x, s1)" "recording_of (w_db (ag_world s)) (r_id r) = Some r"
  shows "r_status x = COMPLETED \<and> r_route_type x = r_route_type r \<and> r_version x = r_version r + 1 \<and>
    r_synology_file_path x \<noteq> None \<and> r_synology_share_url x \<noteq> None \<and> r_completed_at x \<noteq> None \<and>
    (r_storage_is_durable x \<longleftrightarrow> on_station os) \<and> w_notion (ag_world s1) = w_notion (ag_world s) \<and>
    recording_of (w_saved (ag_world s1)) (r_id r) = Some x"
proof -
  obtain tr s2 r1 url s3 r2 t where move: "transfer os r rc ''non-interview'' s = (Inr tr, s2)"
    and r1: "moved_to UPLOADED_TO_SYNOLOGY (copied_to tr r) = Inr r1"
    and link: "share_link os (tr_file_path tr) (snd (save (update_recording (r_id r) (\<lambda>_. r1)) s2)) = (Inr url, s3)"
    and r2: "res_bind (moved_to SYNOLOGY_LINK_CREATED (linked_to tr url r1)) (moved_to COMPLETED) = Inr r2"
    and x: "x = r2\<lparr>r_completed_at := Some t, r_version := r_version r2 + 1\<rparr>"
    and s1: "s1 = snd (save (update_recording (r_id r) (\<lambda>_. x)) s3)"
    using assms(1) by (auto simp: carry_out_row_def Let_def io_bind_Inr_iff io_lift_def io_return_def)
  have durable: "tr_storage_is_durable tr \<longleftrightarrow> on_station os"
    using move by (auto simp: transfer_def io_bind_Inr_iff io_return_def split: prod.splits)
  note same = quiet_run[OF keeps_quiet_transfer move] quiet_run[OF keeps_quiet_share_link link]
  have row: "r_id r1 = r_id r" "r_id x = r_id r" "r_status x = COMPLETED" "r_route_type x = r_route_type r"
    "r_version x = r_version r + 1" "r_synology_file_path x \<noteq> None" "r_synology_share_url x \<noteq> None"
    "r_completed_at x \<noteq> None" "r_storage_is_durable x \<longleftrightarrow> on_station os"
    using r1 r2 x durable by (auto simp: moved_to_Inr_iff res_bind_Inr_iff copied_to_def linked_to_def)
  show ?thesis
    using row s1 same saved_twice[OF assms(2) row(1,2)] by simp
qed

text \<open>A decision that is refused has changed nothing.\<close>

lemma refused_route_changes_nothing:
  assumes "decide_route os i rc did version s = (Inl e, s1)"
  shows "w_db (ag_world s1) = w_saved (ag_world s)" "w_saved (ag_world s1) = w_saved (ag_world s)"
    "w_notion (ag_world s1) = w_notion (ag_world s)"
proof -
  have "w_saved (ag_world s2) = w_saved (ag_world s) \<and> w_notion (ag_world s2) = w_notion (ag_world s)"
    if "decide_row os rc did version r s = (Inl e, s2)" for r s2
    using that unfolding decide_row_def need_route_def
    by (auto simp: io_guard_app io_raise_def io_lift_def split: if_splits sum.splits elim!: io_bind_cases
        dest: quiet_run[OF keeps_quiet_resolve])
  then show "w_db (ag_world s1) = w_saved (ag_world s)" "w_saved (ag_world s1) = w_saved (ag_world s)"
    "w_notion (ag_world s1) = w_notion (ag_world s)"
    using assms unfolding decide_route_def
    by (auto simp: io_bind_app io_raise_def elim!: in_session_run split: option.splits)
qed

text \<open>
  Property C7.  A recording the recruiter takes out of the interviews: when the route returns, its
  recruiter asked for it in the version they saw, it was waiting for a decision or had failed as a
  non-interview, and the committed row is now completed, two versions later, with its path and link,
  durable exactly on the file station; nothing was sent to Notion.
\<close>

theorem non_interview_is_stored_without_a_card:
  assumes "route os i rc did version s = (Inr x, s1)"
  shows "\<exists>r. recording_of (w_db (ag_world s)) i = Some r \<and> r_disk_owner_email r = rc_email rc \<and> r_version r = version \<and>
    (r_status r = MANUAL_REVIEW_REQUIRED \<or> retried_route r) \<and> recording_of (w_saved (ag_world s1)) i = Some x \<and>
    r_status x = COMPLETED \<and> r_route_type x = ''non_interview'' \<and> r_version x = version + 2 \<and>
    r_synology_file_path x \<noteq> None \<and> r_synology_share_url x \<noteq> None \<and>
    (r_storage_is_durable x \<longleftrightarrow> on_station os) \<and> w_notion (ag_world s1) = w_notion (ag_world s)"
proof -
  obtain s2 where "decide_route os i rc did version s = (Inr (), s2)" and rest: "carry_out_route os i rc s2 = (Inr x, s1)"
    using assms by (auto simp: route_def io_bind_Inr_iff)
  then obtain r y where r: "recording_of (w_db (ag_world s)) i = Some r" "decidable_row rc version r"
      and y: "decided i version y" "w_db (ag_world s2) = update_recording i (\<lambda>_. y) (w_db (ag_world s))"
      and n: "w_notion (ag_world s2) = w_notion (ag_world s)"
    using decide_route_run by blast
  have now: "recording_of (w_db (ag_world s2)) i = Some y"
    using r(1) y by (simp add: recording_of_replaced decided_def)
  then obtain s3 where "carry_out_row os rc y s2 = (Inr x, s3)"
      and s1: "s1 = s3\<lparr>ag_world := (ag_world s3)\<lparr>w_db := w_saved (ag_world s3)\<rparr>\<rparr>"
    using rest unfolding carry_out_route_def by (elim in_session_run) (auto simp: io_bind_app)
  from carry_out_row_run[OF this(1)] show ?thesis
    using r y n s1 now by (auto simp: decided_def decidable_row_def)
qed

end
