(* ===== verification/Tool_Calls.thy ===== *)
theory Tool_Calls
imports Scan Non_Interview
begin

text \<open>
  The calls that OpenClaw makes: the shared secret of \<open>app/routers/events.py\<close> and the handlers of
  \<open>app/routers/tools.py\<close>, each with its guards, the service it runs and the status code that its errors
  become.  Requests arrive parsed and bounded as their models say, and a response is given as the JSON
  the caller gets; the row of an intent stores that JSON and a replay answers it again.
\<close>

section \<open>Answers\<close>

text \<open>An error of a handler: a status code with its detail, or an exception that no clause catches.\<close>

datatype call_error =
    Http int json
  | Uncaught agent_error
  | Lost_intent
  | Invalid_response

type_synonym ('n, 'w, 'c, 'd, 'k, 'h, 'a) call = "(('n, 'w, 'c, 'd, 'k, 'h) agent, call_error, 'a) io"

definition http :: "int \<Rightarrow> string \<Rightarrow> ('n, 'w, 'c, 'd, 'k, 'h, 'a) call" where
  "http code detail = io_raise (Http code (JStr detail))"

definition need_call :: "bool \<Rightarrow> int \<Rightarrow> string \<Rightarrow> ('n, 'w, 'c, 'd, 'k, 'h, 'a) call \<Rightarrow> ('n, 'w, 'c, 'd, 'k, 'h, 'a) call" where
  "need_call b code detail m = (if b then m else http code detail)"

text \<open>A service runs with the status code of the errors that are caught: a function of the error.\<close>

definition served ::
  "(agent_error \<Rightarrow> (int \<times> string) option) \<Rightarrow> ('n, 'w, 'c, 'd, 'k, 'h, 'a) agent_io \<Rightarrow>
   ('n, 'w, 'c, 'd, 'k, 'h, 'a) call" where
  "served handler m = (\<lambda>s. case m s of
      (Inr x, s1) \<Rightarrow> (Inr x, s1)
    | (Inl e, s1) \<Rightarrow> (Inl (case handler e of Some (code, detail) \<Rightarrow> Http code (JStr detail) | None \<Rightarrow> Uncaught e), s1))"

definition run_call :: "('n, 'w, 'c, 'd, 'k, 'h, 'a) agent_io \<Rightarrow> ('n, 'w, 'c, 'd, 'k, 'h, 'a) call" where
  "run_call = served (\<lambda>_. None)"

text \<open>The clauses \<open>except E as error: raise HTTPException(409, str(error))\<close>.\<close>

definition conflicts ::
  "('n, 'w, 'c, 'd, 'k, 'h) outside \<Rightarrow> (agent_error \<Rightarrow> bool) \<Rightarrow> agent_error \<Rightarrow> (int \<times> string) option" where
  "conflicts os caught e = (if caught e then Some (409, os_text os e) else None)"

text \<open>The request's session: what the handler did not commit is gone when it ends.\<close>

definition in_request :: "('n, 'w, 'c, 'd, 'k, 'h, 'a) call \<Rightarrow> ('n, 'w, 'c, 'd, 'k, 'h, 'a) call" where
  "in_request m = (\<lambda>s. case m s of (v, s1) \<Rightarrow>
     (v, s1\<lparr>ag_world := (ag_world s1)\<lparr>w_db := w_saved (ag_world s1)\<rparr>\<rparr>))"

section \<open>The shared secret\<close>

text \<open>\<open>str.lower\<close> on the scheme is a parameter; the comparison is constant-time equality.\<close>

definition bearer_of :: "(string \<Rightarrow> string) \<Rightarrow> string option \<Rightarrow> string" where
  "bearer_of lower authorization =
     (case authorization of
        None \<Rightarrow> ''''
      | Some h \<Rightarrow>
          (let scheme = takeWhile (\<lambda>c. c \<noteq> CHR '' '') h; credential = drop (length scheme + 1) h
           in if h \<noteq> '''' \<and> lower scheme = ''bearer'' then credential else ''''))"

definition verify_openclaw_secret ::
  "(string \<Rightarrow> string) \<Rightarrow> settings \<Rightarrow> string option \<Rightarrow> string option \<Rightarrow> (call_error, unit) result" where
  "verify_openclaw_secret lower st x_secret authorization =
     (let expected = st_openclaw_secret st; bearer = bearer_of lower authorization;
          supplied = (if bearer \<noteq> '''' then bearer else opt_or x_secret '''')
      in check_that (expected \<noteq> '''' \<and> supplied = expected) (Http 401 (JStr ''Invalid OpenClaw secret'')) (Inr ()))"

section \<open>The recruiter of a call\<close>

definition scope_of_call ::
  "('n, 'w, 'c, 'd, 'k, 'h) outside \<Rightarrow> int \<Rightarrow> recruiter_config \<Rightarrow> ('n, 'w, 'c, 'd, 'k, 'h, unit) call" where
  "scope_of_call os code rc =
     (let sv = os_services os in
      case enforce_recruiter_scope (fold_case (sv_notion sv)) (sv_settings sv) rc of
        Inr u \<Rightarrow> io_return ()
      | Inl e \<Rightarrow> http code (os_text os (Scope_failed e)))"

definition recruiter_by_user_id ::
  "('n, 'w, 'c, 'd, 'k, 'h) outside \<Rightarrow> string \<Rightarrow> ('n, 'w, 'c, 'd, 'k, 'h, recruiter_config) call" where
  "recruiter_by_user_id os user =
     io_bind (run_call (see (recruiter_of_user user))) (\<lambda>row.
       case row of
         None \<Rightarrow> http 404 ''Recruiter not found''
       | Some rc \<Rightarrow> io_bind (scope_of_call os 403 rc) (\<lambda>_. io_return rc))"

definition bound_recruiter ::
  "('n, 'w, 'c, 'd, 'k, 'h) outside \<Rightarrow> string \<Rightarrow> string \<Rightarrow> ('n, 'w, 'c, 'd, 'k, 'h, recruiter_config) call" where
  "bound_recruiter os user channel =
     io_bind (run_call (see (recruiter_of_user user))) (\<lambda>row.
       case row of
         None \<Rightarrow> http 404 ''Active recruiter DM binding not found''
       | Some rc \<Rightarrow>
           need_call (channel_matches (sv_settings (os_services os)) rc channel) 404 ''Active recruiter DM binding not found''
            (io_bind (scope_of_call os 403 rc) (\<lambda>_. io_return rc)))"

text \<open>The recording of a call, which must be the recruiter's.\<close>

definition own_recording ::
  "recruiter_config \<Rightarrow> string \<Rightarrow> ('n, 'w, 'c, 'd, 'k, 'h, recording) call" where
  "own_recording rc i =
     io_bind (run_call (see (\<lambda>d. recording_of d i))) (\<lambda>row.
       case row of
         None \<Rightarrow> http 404 ''Recording not found''
       | Some r \<Rightarrow> need_call (r_disk_owner_email r = rc_email rc) 404 ''Recording not found'' (io_return r))"

section \<open>Idempotent calls\<close>

fun intent_text :: "intent_error \<Rightarrow> string" where
  "intent_text Claim_disappeared = ''Intent claim disappeared''"
| "intent_text Key_reused = ''Idempotency key was reused for another request''"
| "intent_text Still_in_progress = ''Intent request is still in progress''"
| "intent_text Ownership_lost = ''Intent claim ownership was lost''"

text \<open>The identifiers of the intent's row and of its owner.\<close>

record intent_ids =
  ii_row :: string
  ii_owner :: string

definition intent_of_call ::
  "('n, 'w, 'c, 'd, 'k, 'h) outside \<Rightarrow> string \<Rightarrow> string \<Rightarrow> string \<Rightarrow> json \<Rightarrow> intent_request" where
  "intent_of_call os actor operation key payload =
     \<lparr>iq_key = (actor, operation, key), iq_fingerprint = json_hash (os_services os) payload,
      iq_ttl = st_intent_claim_ttl_seconds (sv_settings (os_services os))\<rparr>"

definition begin_intent ::
  "('n, 'w, 'c, 'd, 'k, 'h) outside \<Rightarrow> intent_ids \<Rightarrow> intent_request \<Rightarrow> ('n, 'w, 'c, 'd, 'k, 'h, intent_claim) call" where
  "begin_intent os ids q =
     io_bind (run_call (clock os)) (\<lambda>t.
     io_bind (run_call (see (\<lambda>d. claim_intent q t (ii_row ids) (ii_owner ids) (db_intents d)))) (\<lambda>(v, rows).
       case v of
         Inl e \<Rightarrow> http 409 (intent_text e)
       | Inr c \<Rightarrow> io_bind (run_call (save (\<lambda>d. d\<lparr>db_intents := rows\<rparr>))) (\<lambda>_. io_return c)))"

text \<open>An intent that was lost in the meantime is an error no clause catches.\<close>

definition end_intent ::
  "intent_claim \<Rightarrow> json \<Rightarrow> ('n, 'w, 'c, 'd, 'k, 'h, unit) call" where
  "end_intent c response =
     io_bind (run_call (see (\<lambda>d. complete_intent c response (db_intents d)))) (\<lambda>(v, rows).
       case v of
         Inl e \<Rightarrow> io_raise Lost_intent
       | Inr u \<Rightarrow> run_call (save (\<lambda>d. d\<lparr>db_intents := rows\<rparr>)))"

fun with_member :: "string \<Rightarrow> json \<Rightarrow> json \<Rightarrow> json" where
  "with_member k v (JObj ms) = JObj (filter (\<lambda>m. fst m \<noteq> k) ms @ [(k, v)])"
| "with_member k v j = j"

text \<open>
  The declared fields of a response model, with their defaults.  \<open>model_validate\<close> converts each member
  of a stored object to its field's type and drops the members that are not declared; the conversion
  of one value belongs to Pydantic and is a parameter.  A value that does not convert raises.
\<close>

datatype field_type =
    Uuid_field
  | Status_field
  | Int_field
  | Text_field
  | Optional_text_field
  | Bool_field

type_synonym coercion = "field_type \<Rightarrow> json \<Rightarrow> json option"
type_synonym response_model = "(string \<times> field_type \<times> json option) list"

definition model_validate :: "coercion \<Rightarrow> response_model \<Rightarrow> json \<Rightarrow> json option" where
  "model_validate coerce model j =
     (case j of
        JObj ms \<Rightarrow> map_option JObj (those (map (\<lambda>(k, kind, default).
          map_option (Pair k) (case map_of ms k of Some v \<Rightarrow> coerce kind v | None \<Rightarrow> default)) model))
      | _ \<Rightarrow> None)"

definition INTERVIEW_ROUTE_RESPONSE :: response_model where
  "INTERVIEW_ROUTE_RESPONSE = [(''recording_id'', Uuid_field, None), (''status'', Status_field, None),
     (''version'', Int_field, None), (''safe_link'', Text_field, None), (''notion_url'', Text_field, Some (JStr '''')),
     (''candidate_name'', Text_field, Some (JStr '''')), (''replayed'', Bool_field, Some (JBool False)),
     (''error'', Optional_text_field, Some JNull), (''error_step'', Optional_text_field, Some JNull)]"

definition NON_INTERVIEW_ROUTE_RESPONSE :: response_model where
  "NON_INTERVIEW_ROUTE_RESPONSE = [(''recording_id'', Uuid_field, None), (''status'', Status_field, None),
     (''version'', Int_field, None), (''safe_link'', Text_field, None), (''replayed'', Bool_field, Some (JBool False))]"

definition SUMMARY_SUBMIT_RESPONSE :: response_model where
  "SUMMARY_SUBMIT_RESPONSE = [(''recording_id'', Uuid_field, None), (''version'', Int_field, None),
     (''toggle_written'', Bool_field, None), (''review_id'', Uuid_field, None),
     (''replayed'', Bool_field, Some (JBool False))]"

text \<open>A call that is executed once for its key: a completed one answers what it answered then.\<close>

definition once ::
  "('n, 'w, 'c, 'd, 'k, 'h) outside \<Rightarrow> intent_ids \<Rightarrow> intent_request \<Rightarrow> (json \<Rightarrow> json option) \<Rightarrow>
   ('n, 'w, 'c, 'd, 'k, 'h, json) call \<Rightarrow> ('n, 'w, 'c, 'd, 'k, 'h, json) call" where
  "once os ids q replay work =
     io_bind (begin_intent os ids q) (\<lambda>c.
       case completed_response c of
         Some j \<Rightarrow> (case replay j of None \<Rightarrow> io_raise Invalid_response | Some again \<Rightarrow> io_return again)
       | None \<Rightarrow> io_bind work (\<lambda>response. io_bind (end_intent c response) (\<lambda>_. io_return response)))"

definition replayed :: "json \<Rightarrow> json" where
  "replayed = with_member ''replayed'' (JBool True)"

text \<open>
  The services the application was built with, its Cyrillic texts, and the conversion of its response
  models.
\<close>

record app_state =
  as_destinations :: bool
  as_reroute :: bool
  as_reassignment :: bool
  as_non_interview :: bool
  as_summary_email :: bool
  as_toggle_title :: string
  as_approve_text :: string
  as_reject_text :: string
  as_coerce :: coercion

definition replayed_as :: "app_state \<Rightarrow> response_model \<Rightarrow> json \<Rightarrow> json option" where
  "replayed_as app model j = model_validate (as_coerce app) model (replayed j)"

section \<open>Destinations\<close>

fun destination_refusal :: "agent_error \<Rightarrow> bool" where
  "destination_refusal (App_failed (Destination_refused (Rejected x))) = True"
| "destination_refusal (App_failed (Destination_refused (Nas (Path_error e)))) = True"
| "destination_refusal (App_failed (Destination_refused (Nas Bad_bounds))) = True"
| "destination_refusal (App_failed (Destination_refused (Nas Not_writable))) = True"
| "destination_refusal _ = False"

fun station_failure :: "agent_error \<Rightarrow> bool" where
  "station_failure (App_failed (Destination_refused (Nas (Api_error code body)))) = True"
| "station_failure _ = False"

definition destination_item :: "storage_destination \<Rightarrow> json" where
  "destination_item d = JObj [(''id'', JStr (sd_id d)), (''display_name'', JStr (sd_display_name d)),
     (''path_label'', JStr (sd_canonical_path d)), (''writable'', JBool (sd_writable d))]"

definition listing :: "json list \<Rightarrow> json" where
  "listing items = JObj [(''items'', JList items), (''count'', JInt (int (length items)))]"

definition list_storage_destinations ::
  "('n, 'w, 'c, 'd, 'k, 'h) outside \<Rightarrow> app_state \<Rightarrow> (nat \<Rightarrow> string) \<Rightarrow> string \<Rightarrow> string \<Rightarrow>
   ('n, 'w, 'c, 'd, 'k, 'h, json) call" where
  "list_storage_destinations os app fresh user channel = in_request
     (io_bind (bound_recruiter os user channel) (\<lambda>rc.
      need_call (as_destinations app) 409 ''Synology destinations are disabled''
     (io_bind (run_call (clock os)) (\<lambda>t.
      io_bind (served (conflicts os destination_refusal) (discovered os t fresh rc)) (\<lambda>rows.
        io_return (listing (map destination_item rows)))))))"

definition creation_answer ::
  "('n, 'w, 'c, 'd, 'k, 'h) outside \<Rightarrow> agent_error \<Rightarrow> (int \<times> string) option" where
  "creation_answer os e =
     (if destination_refusal e then Some (409, os_text os e)
      else if station_failure e then Some (502, ''Synology could not create the folder; retry later'') else None)"

definition create_storage_destination ::
  "('n, 'w, 'c, 'd, 'k, 'h) outside \<Rightarrow> app_state \<Rightarrow> string \<Rightarrow> string \<Rightarrow> string \<Rightarrow> string \<Rightarrow> string \<Rightarrow>
   ('n, 'w, 'c, 'd, 'k, 'h, json) call" where
  "create_storage_destination os app new_id user channel parent name =
     (let sv = os_services os in in_request
     (io_bind (bound_recruiter os user channel) (\<lambda>rc.
      need_call (as_destinations app) 409 ''Synology destinations are disabled''
     (io_bind (run_call (clock os)) (\<lambda>t.
      io_bind (served (creation_answer os)
         (io_bind (in_world (in_destinations (create_destination (sv_nas sv) (sv_settings sv) t new_id rc parent name)
             Destination_refused)) (\<lambda>d. io_bind commit_all (\<lambda>_. io_return d)))) (\<lambda>d.
        io_return (destination_item d)))))))"

section \<open>Routing an interview\<close>

text \<open>The body of a routing request.\<close>

record route_body =
  rb_user :: string
  rb_channel :: string
  rb_destination :: string
  rb_version :: int
  rb_key :: string

definition route_payload :: "string \<Rightarrow> route_body \<Rightarrow> json" where
  "route_payload i b = JObj [(''recruiter_user_id'', JStr (rb_user b)), (''mattermost_dm_channel_id'', JStr (rb_channel b)),
     (''destination_id'', JStr (rb_destination b)), (''expected_version'', JInt (rb_version b)),
     (''idempotency_key'', JStr (rb_key b)), (''recording_id'', JStr i)]"

fun route_refusal :: "agent_error \<Rightarrow> bool" where
  "route_refusal (App_failed (Route_rejected why)) = True"
| "route_refusal (App_failed (Bad_move e)) = True"
| "route_refusal e = destination_refusal e"

definition interview_ready :: "recruiter_config \<Rightarrow> int \<Rightarrow> recording option \<Rightarrow> (agent_error, recording) result" where
  "interview_ready rc version row =
     (let no = (\<lambda>why. App_failed (Route_rejected why)) in
      case row of
        None \<Rightarrow> Inl (no ''Recording not found'')
      | Some r \<Rightarrow>
          check_that (r_disk_owner_email r = rc_email rc) (no ''Recording not found'')
         (check_that (r_version r = version) (no ''Recording version is stale'')
         (check_that (r_route_type r = ''interview'') (no ''Recording is not an interview'')
         (check_that (r_status r \<in> {CANDIDATE_MATCHED, MANUAL_REVIEW_REQUIRED, FAILED})
            (no ''Recording is not awaiting interview destination'')
         (check_that (truthy (r_generated_filename r) \<and> truthy (r_candidate_name r) \<and> truthy (r_notion_page_id r))
            (no ''Recording candidate state is incomplete'') (Inr r))))))"

text \<open>Every open question about the recording is answered by the decision.\<close>

definition close_questions :: "instant \<Rightarrow> string \<Rightarrow> string \<Rightarrow> db \<Rightarrow> db" where
  "close_questions now by i d = d\<lparr>db_reviews := update_where (\<lambda>v. v_recording_id v = i \<and> v_status v = Review_pending)
     (\<lambda>v. v\<lparr>v_status := Review_completed, v_completed_at := Some now,
        v_result := Some (Result_json (JObj [(''resumed_by'', JStr by)]))\<rparr>) (db_reviews d)\<rparr>"

definition send_to_destination ::
  "('n, 'w, 'c, 'd, 'k, 'h) outside \<Rightarrow> recruiter_config \<Rightarrow> string \<Rightarrow> recording \<Rightarrow> ('n, 'w, 'c, 'd, 'k, 'h, unit) agent_io" where
  "send_to_destination os rc destination_id r =
     (let sv = os_services os; r1 = (if r_status r = FAILED then reset_for_retry r else r) in
      io_bind (in_world (in_destinations (resolve_destination (sv_nas sv) (sv_settings sv) rc destination_id)
          Destination_refused)) (\<lambda>d.
      io_bind (io_lift (moved_to TRANSFER_STARTED (route_to (sd_id d) r1))) (\<lambda>x.
      io_bind (clock os) (\<lambda>t.
        save (\<lambda>d. close_questions t ''route_interview'' (r_id r) (update_recording (r_id r) (\<lambda>_. bump_version x) d))))))"

definition interview_response :: "recording \<Rightarrow> json" where
  "interview_response r = JObj [(''recording_id'', JStr (r_id r)), (''status'', JStr (status_value (r_status r))),
     (''version'', JInt (r_version r)), (''safe_link'', JStr (opt_or (r_synology_share_url r) '''')),
     (''notion_url'', JStr (opt_or (r_notion_page_url r) '''')), (''candidate_name'', JStr (opt_or (r_candidate_name r) '''')),
     (''replayed'', JBool False), (''error'', opt_json (r_error_message r)), (''error_step'', opt_json (r_error_step r))]"

definition interview_started ::
  "('n, 'w, 'c, 'd, 'k, 'h) outside \<Rightarrow> app_state \<Rightarrow> recruiter_config \<Rightarrow> string \<Rightarrow> route_body \<Rightarrow>
   ('n, 'w, 'c, 'd, 'k, 'h, unit) call" where
  "interview_started os app rc i b =
     io_bind (run_call (see (\<lambda>d. recording_of d i))) (\<lambda>row.
     io_bind (served (conflicts os route_refusal) (io_lift (interview_ready rc (rb_version b) row))) (\<lambda>r.
       need_call (as_destinations app) 409 ''Synology destinations are disabled''
        (served (conflicts os route_refusal) (send_to_destination os rc (rb_destination b) r))))"

definition interview_resumed ::
  "('n, 'w, 'c, 'd, 'k, 'h) outside \<Rightarrow> pipeline_ids \<Rightarrow> string \<Rightarrow> recruiter_config \<Rightarrow> string \<Rightarrow>
   ('n, 'w, 'c, 'd, 'k, 'h, json) call" where
  "interview_resumed os ids token rc i =
     io_bind (run_call (resume_transfer os ids False rc token i)) (\<lambda>resumed.
     io_bind (run_call (see (\<lambda>d. recording_of d i))) (\<lambda>row.
       case row of
         None \<Rightarrow> http 404 ''Recording not found''
       | Some r \<Rightarrow>
           if resumed then io_return (interview_response r)
           else io_raise (Http 409 (with_member ''message''
             (JStr ''Transfer resume is already in progress or not resumable'') (interview_response r)))))"

definition route_interview ::
  "('n, 'w, 'c, 'd, 'k, 'h) outside \<Rightarrow> app_state \<Rightarrow> intent_ids \<Rightarrow> pipeline_ids \<Rightarrow> string \<Rightarrow> string \<Rightarrow> route_body \<Rightarrow>
   ('n, 'w, 'c, 'd, 'k, 'h, json) call" where
  "route_interview os app ids pids token i b = in_request
     (io_bind (bound_recruiter os (rb_user b) (rb_channel b)) (\<lambda>rc.
        once os ids (intent_of_call os (rb_user b) (''route-interview:'' @ i) (rb_key b) (route_payload i b))
          (replayed_as app INTERVIEW_ROUTE_RESPONSE)
          (io_bind (interview_started os app rc i b) (\<lambda>_. interview_resumed os pids token rc i))))"

section \<open>Routing something else\<close>

definition non_interview_response :: "recording \<Rightarrow> json" where
  "non_interview_response r = JObj [(''recording_id'', JStr (r_id r)), (''status'', JStr (status_value (r_status r))),
     (''version'', JInt (r_version r)), (''safe_link'', JStr (opt_or (r_synology_share_url r) '''')),
     (''replayed'', JBool False)]"

fun non_interview_refusal :: "agent_error \<Rightarrow> bool" where
  "non_interview_refusal (App_failed (Route_rejected why)) = True"
| "non_interview_refusal _ = False"

definition route_non_interview ::
  "('n, 'w, 'c, 'd, 'k, 'h) outside \<Rightarrow> app_state \<Rightarrow> intent_ids \<Rightarrow> string \<Rightarrow> route_body \<Rightarrow>
   ('n, 'w, 'c, 'd, 'k, 'h, json) call" where
  "route_non_interview os app ids i b = in_request
     (io_bind (bound_recruiter os (rb_user b) (rb_channel b)) (\<lambda>rc.
        once os ids (intent_of_call os (rb_user b) (''route-non-interview:'' @ i) (rb_key b) (route_payload i b))
          (replayed_as app NON_INTERVIEW_ROUTE_RESPONSE)
          (need_call (as_non_interview app) 409 ''Non-interview routing is disabled''
            (io_bind (served (conflicts os non_interview_refusal) (route os i rc (rb_destination b) (rb_version b))) (\<lambda>r.
             io_bind (run_call (clock os)) (\<lambda>t.
             io_bind (run_call (save (close_questions t ''route_non_interview'' (r_id r)))) (\<lambda>_.
               io_return (non_interview_response r))))))))"

section \<open>The summary of a call\<close>

definition summary_source ::
  "('n, 'w, 'c, 'd, 'k, 'h) outside \<Rightarrow> app_state \<Rightarrow> string \<Rightarrow> string \<Rightarrow> ('n, 'w, 'c, 'd, 'k, 'h, json) call" where
  "summary_source os app i user = in_request
     (io_bind (recruiter_by_user_id os user) (\<lambda>rc.
      io_bind (own_recording rc i) (\<lambda>r.
      need_call (truthy (r_summary_email_message_id r)) 409 ''Summary email was not found yet for this recording''
     (need_call (as_summary_email app) 409 ''Summary email search is unavailable''
     (io_bind (run_call (clock os)) (\<lambda>t.
      io_bind (run_call (in_mail (fetch_found_message (os_imap os) (sv_settings (os_services os)) t r rc))) (\<lambda>found.
        case found of
          None \<Rightarrow> http 409 ''Summary email is temporarily unavailable; retry later''
        | Some m \<Rightarrow> io_return (JObj [(''recording_id'', JStr (r_id r)), (''subject'', JStr (mm_subject m)),
            (''sender'', JStr (mm_sender m)), (''received_at'', JStr (te_iso (os_env os) (mm_received_at m))),
            (''body'', JStr (take 20000 (mm_body m)))]))))))))"

text \<open>The validators of the texts: blank runs collapsed, nothing empty, at most 4000 characters.\<close>

definition bounded_paragraphs :: "string list \<Rightarrow> string list option" where
  "bounded_paragraphs ps =
     (let cleaned = map (join_with '' '' \<circ> py_words '''') ps in
      if list_all (\<lambda>x. x \<noteq> '''' \<and> length x \<le> 4000) cleaned then Some cleaned else None)"

definition bounded_assessment :: "string \<Rightarrow> string option" where
  "bounded_assessment s = (if py_strip s = '''' then None else Some (py_strip s))"

record summary_body =
  sb_user :: string
  sb_version :: int
  sb_key :: string
  sb_paragraphs :: "string list"
  sb_assessment :: string

definition summary_payload :: "string \<Rightarrow> summary_body \<Rightarrow> json" where
  "summary_payload i b = JObj [(''recruiter_user_id'', JStr (sb_user b)), (''expected_version'', JInt (sb_version b)),
     (''idempotency_key'', JStr (sb_key b)), (''toggle_paragraphs'', JList (map JStr (sb_paragraphs b))),
     (''assessment_text'', JStr (sb_assessment b)), (''recording_id'', JStr i)]"

fun notion_refusal :: "agent_error \<Rightarrow> bool" where
  "notion_refusal (App_failed (Notion_failed e)) \<longleftrightarrow> e \<notin> {Http_failure, Type_failure}"
| "notion_refusal _ \<longleftrightarrow> False"

text \<open>The identifiers of the question that asks for the approval of the assessment.\<close>

record approval_ids =
  ap_review :: string
  ap_nonce :: string
  ap_set :: string

definition approval_question ::
  "('n, 'w, 'c) services \<Rightarrow> app_state \<Rightarrow> approval_ids \<Rightarrow> instant \<Rightarrow> recruiter_config \<Rightarrow> recording \<Rightarrow> string \<Rightarrow> manual_review" where
  "approval_question sv app ids now rc r assessment =
     (let st = sv_settings sv;
          context = JObj [(''choices'', JList
              [JObj [(''approve'', JBool True), (''name'', JStr (as_approve_text app))],
               JObj [(''approve'', JBool False), (''name'', JStr (as_reject_text app))]]),
            (''assessment_text'', JStr assessment)];
          token = derive_review_token sv (ap_review ids) (ap_nonce ids) (r_version r) (st_openclaw_secret st)
      in (new_review (ap_review ids) (r_id r) ''summary_assessment_approval'' context (ap_set ids) (r_version r) now)
         \<lparr>v_recruiter_user_id := rc_mattermost_user_id rc, v_mattermost_channel_id := rc_mattermost_dm_channel rc,
          v_delivery_nonce := Some (ap_nonce ids), v_token_hash := Some (sv_hash sv token),
          v_token_expires_at := Some (now + seconds (st_review_token_ttl_seconds st))\<rparr>)"

definition summary_response :: "string \<Rightarrow> recording \<Rightarrow> json" where
  "summary_response review_id r = JObj [(''recording_id'', JStr (r_id r)), (''version'', JInt (r_version r)),
     (''toggle_written'', JBool True), (''review_id'', JStr review_id), (''replayed'', JBool False)]"

definition write_summary ::
  "('n, 'w, 'c, 'd, 'k, 'h) outside \<Rightarrow> app_state \<Rightarrow> approval_ids \<Rightarrow> recruiter_config \<Rightarrow> recording \<Rightarrow> summary_body \<Rightarrow>
   ('n, 'w, 'c, 'd, 'k, 'h, json) call" where
  "write_summary os app ids rc r b =
     (let sv = os_services os in
      need_call (r_version r = sb_version b) 409 ''Recording version is stale''
     (need_call (r_status r \<noteq> FAILED) 409 ''Recording is in a failed state''
     (need_call (truthy (r_notion_page_id r)) 409 ''Recording has no linked Notion page''
     (need_call (st_openclaw_secret (sv_settings sv) \<noteq> '''') 409 ''OpenClaw secret is required for review delivery''
     (io_bind (served (conflicts os notion_refusal) (in_world (in_notion (append_toggle_block (sv_notion sv)
          (the (r_notion_page_id r)) (as_toggle_title app) (sb_paragraphs b)) Notion_failed))) (\<lambda>_.
      io_bind (run_call (clock os)) (\<lambda>t.
        let r1 = r\<lparr>r_summary_toggle_written_at := Some t, r_version := r_version r + 1\<rparr>;
            v = approval_question sv app ids t rc r1 (sb_assessment b)
        in io_bind (run_call (change (\<lambda>d. (update_recording (r_id r) (\<lambda>_. r1) d)\<lparr>db_reviews := db_reviews d @ [v]\<rparr>)))
             (\<lambda>_. io_return (summary_response (v_id v) r1)))))))))"

definition submit_summary ::
  "('n, 'w, 'c, 'd, 'k, 'h) outside \<Rightarrow> app_state \<Rightarrow> intent_ids \<Rightarrow> approval_ids \<Rightarrow> string \<Rightarrow> summary_body \<Rightarrow>
   ('n, 'w, 'c, 'd, 'k, 'h, json) call" where
  "submit_summary os app ids aids i b = in_request
     (io_bind (recruiter_by_user_id os (sb_user b)) (\<lambda>rc.
      io_bind (own_recording rc i) (\<lambda>r.
        once os ids (intent_of_call os (sb_user b) (''summary-submit:'' @ i) (sb_key b) (summary_payload i b))
          (replayed_as app SUMMARY_SUBMIT_RESPONSE)
          (write_summary os app aids rc r b))))"

section \<open>Moving a stored recording, and its card\<close>

fun reroute_refusal :: "agent_error \<Rightarrow> bool" where
  "reroute_refusal (App_failed (Reroute_rejected why)) = True"
| "reroute_refusal _ = False"

definition moved_response :: "string \<Rightarrow> int \<Rightarrow> string \<Rightarrow> bool \<Rightarrow> json" where
  "moved_response i version link again = JObj [(''recording_id'', JStr i), (''version'', JInt version),
     (''safe_link'', JStr link), (''replayed'', JBool again)]"

definition reroute_recording ::
  "('n, 'w, 'c, 'd, 'k, 'h) outside \<Rightarrow> app_state \<Rightarrow> reroute_ids \<Rightarrow> string \<Rightarrow> route_body \<Rightarrow>
   ('n, 'w, 'c, 'd, 'k, 'h, json) call" where
  "reroute_recording os app ids i b = in_request
     (io_bind (bound_recruiter os (rb_user b) (rb_channel b)) (\<lambda>rc.
      need_call (as_reroute app) 409 ''Synology reroute is unavailable''
     (io_bind (run_call (clock os)) (\<lambda>t.
      io_bind (served (conflicts os reroute_refusal)
          (in_world (reroute (os_services os) t ids i rc (rb_destination b) (rb_version b) (rb_key b)))) (\<lambda>x.
        io_return (moved_response (rt_recording_id x) (rt_version x) (rt_share_url x) (rt_replayed x)))))))"

fun reassign_refusal :: "agent_error \<Rightarrow> bool" where
  "reassign_refusal (App_failed (Reassign_rejected why)) = True"
| "reassign_refusal _ = False"

definition target_item :: "notion_page \<Rightarrow> json" where
  "target_item p = JObj [(''page_id'', JStr (np_id p)), (''title'', JStr (np_title p)), (''url'', JStr (np_url p)),
     (''recording_present'', JBool (np_recording_present p))]"

definition targets_of_hint ::
  "('n, 'w, 'c, 'd, 'k, 'h) outside \<Rightarrow> app_state \<Rightarrow> recruiter_config \<Rightarrow> string \<Rightarrow>
   ('n, 'w, 'c, 'd, 'k, 'h, notion_page list) call" where
  "targets_of_hint os app rc hint =
     need_call (as_reassignment app) 409 ''Notion reassignment is unavailable''
       (served (conflicts os reassign_refusal) (in_world (resolve_targets (os_services os) rc hint)))"

definition resolve_notion_reassignment ::
  "('n, 'w, 'c, 'd, 'k, 'h) outside \<Rightarrow> app_state \<Rightarrow> string \<Rightarrow> string \<Rightarrow> string \<Rightarrow> string \<Rightarrow>
   ('n, 'w, 'c, 'd, 'k, 'h, json) call" where
  "resolve_notion_reassignment os app i user channel hint = in_request
     (io_bind (bound_recruiter os user channel) (\<lambda>rc.
      io_bind (own_recording rc i) (\<lambda>r.
      io_bind (targets_of_hint os app rc hint) (\<lambda>pages.
        io_return (JObj [(''items'', JList (map target_item pages))])))))"

definition propose_notion_reassignment ::
  "('n, 'w, 'c, 'd, 'k, 'h) outside \<Rightarrow> app_state \<Rightarrow> string \<Rightarrow> string \<Rightarrow> string \<Rightarrow> string \<Rightarrow> string \<Rightarrow> string \<Rightarrow>
   ('n, 'w, 'c, 'd, 'k, 'h, json) call" where
  "propose_notion_reassignment os app new_id capability i user channel target = in_request
     (io_bind (bound_recruiter os user channel) (\<lambda>rc.
      io_bind (own_recording rc i) (\<lambda>r.
      io_bind (targets_of_hint os app rc target) (\<lambda>pages.
        case pages of
          [page] \<Rightarrow>
            need_call (np_id page = target) 409 ''Target Notion card is not a bounded candidate''
           (io_bind (run_call (clock os)) (\<lambda>t.
            io_bind (served (conflicts os reassign_refusal)
               (in_world (propose (os_services os) t new_id capability r rc user channel page))) (\<lambda>p.
              io_return (JObj [(''proposal_id'', JStr (np_proposal_id p)), (''capability'', JStr capability),
                (''expires_at'', JStr (te_iso (os_env os) (np_expires_at p))), (''target'', target_item page)]))))
        | _ \<Rightarrow> http 409 ''Target Notion card is not a bounded candidate''))))"

definition confirm_notion_reassignment ::
  "('n, 'w, 'c, 'd, 'k, 'h) outside \<Rightarrow> app_state \<Rightarrow> string \<Rightarrow> string \<Rightarrow> string \<Rightarrow> string \<Rightarrow> string \<Rightarrow>
   ('n, 'w, 'c, 'd, 'k, 'h, json) call" where
  "confirm_notion_reassignment os app proposal user channel capability key = in_request
     (io_bind (bound_recruiter os user channel) (\<lambda>rc.
      need_call (as_reassignment app) 409 ''Notion reassignment is unavailable''
     (io_bind (run_call (clock os)) (\<lambda>t.
      io_bind (served (conflicts os reassign_refusal)
         (in_world (confirm_reassignment (os_services os) t proposal rc user channel capability key))) (\<lambda>i.
      io_bind (run_call (row_of i)) (\<lambda>r.
        io_return (moved_response (r_id r) (r_version r) (opt_or (r_synology_share_url r) '''') False)))))))"

section \<open>Cleaning the disk\<close>

fun cleanup_refusal :: "agent_error \<Rightarrow> bool" where
  "cleanup_refusal (App_failed (Cleanup_rejected why)) = True"
| "cleanup_refusal _ = False"

definition preview_item :: "json \<Rightarrow> json" where
  "preview_item j = JObj (map (\<lambda>k. (k, jget k j)) [''recording_id'', ''disk_file_id'', ''filename'', ''version''])"

definition create_cleanup_preview ::
  "('n, 'w, 'c, 'd, 'k, 'h) outside \<Rightarrow> string \<Rightarrow> string \<Rightarrow> string \<Rightarrow> string \<Rightarrow> int \<Rightarrow> ('n, 'w, 'c, 'd, 'k, 'h, json) call" where
  "create_cleanup_preview os new_id capability user channel limit = in_request
     (io_bind (bound_recruiter os user channel) (\<lambda>rc.
      io_bind (run_call (clock os)) (\<lambda>t.
      io_bind (run_call (cleanup_preview_call os t new_id capability rc user channel limit)) (\<lambda>(p, c).
        io_return (JObj [(''preview_id'', JStr (cp_id p)), (''snapshot_hash'', JStr (cp_snapshot_hash p)),
          (''capability'', JStr c), (''expires_at'', JStr (te_iso (os_env os) (cp_capability_expires_at p))),
          (''items'', JList (map preview_item (cp_snapshot p)))])))))"

definition confirm_cleanup_preview ::
  "('n, 'w, 'c, 'd, 'k, 'h) outside \<Rightarrow> (string \<Rightarrow> string) \<Rightarrow> cleanup_confirmation \<Rightarrow> ('n, 'w, 'c, 'd, 'k, 'h, json) call" where
  "confirm_cleanup_preview os new_ids q = in_request
     (io_bind (bound_recruiter os (cc_user q) (cc_channel q)) (\<lambda>rc.
      io_bind (run_call (clock os)) (\<lambda>t.
        served (conflicts os cleanup_refusal) (confirm_cleanup os t new_ids rc q))))"

section \<open>A scan on demand\<close>

record scan_body =
  qb_email :: "string option"
  qb_user :: string
  qb_channel :: string
  qb_scope :: string
  qb_key :: string

definition scan_payload :: "scan_body \<Rightarrow> json" where
  "scan_payload b = JObj [(''recruiter_email'', opt_json (qb_email b)), (''recruiter_user_id'', JStr (qb_user b)),
     (''mattermost_dm_channel_id'', JStr (qb_channel b)), (''scope'', JStr (qb_scope b)), (''idempotency_key'', JStr (qb_key b))]"

definition recruiter_to_scan :: "settings \<Rightarrow> scan_body \<Rightarrow> db \<Rightarrow> recruiter_config option" where
  "recruiter_to_scan st b d =
     (case qb_email b of
        Some email \<Rightarrow> find (\<lambda>rc. rc_active rc \<and> rc_email rc = email) (db_recruiters d)
      | None \<Rightarrow>
          (case recruiter_of_user (qb_user b) d of
             None \<Rightarrow> None
           | Some rc \<Rightarrow> if offline_test_mode st \<or> channel_matches st rc (qb_channel b) then Some rc else None))"

text \<open>Offline, the interaction is the one the caller names; otherwise the recruiter's own channel.\<close>

definition scan_interaction_binding ::
  "settings \<Rightarrow> recruiter_config \<Rightarrow> scan_body \<Rightarrow> (string, interaction_binding option) result" where
  "scan_interaction_binding st rc b =
     check_that (rc_mattermost_user_id rc = Some (qb_user b)) ''Scan requester does not match recruiter configuration''
      (if offline_test_mode st
       then Inr (Some \<lparr>ib_recruiter_user_id = qb_user b, ib_dm_channel_id = qb_channel b\<rparr>)
       else check_that (channel_matches st rc (qb_channel b)) ''Scan channel does not match recruiter configuration'' (Inr None))"

definition binding_available ::
  "recruiter_config \<Rightarrow> interaction_binding option \<Rightarrow> ('n, 'w, 'c, 'd, 'k, 'h, unit) call" where
  "binding_available rc binding =
     (case binding of
        None \<Rightarrow> io_return ()
      | Some b \<Rightarrow> io_bind (run_call (see (asked_elsewhere rc b))) (\<lambda>conflicting.
          need_call (\<not> conflicting) 409 ''Pending question belongs to another interaction'' (io_return ())))"

definition release_scan_intent :: "intent_claim \<Rightarrow> db \<Rightarrow> db" where
  "release_scan_intent c d = d\<lparr>db_intents := release_intent c (db_intents d)\<rparr>"

fun other_interaction :: "agent_error \<Rightarrow> bool" where
  "other_interaction (App_failed (Review_rejected Other_interaction)) = True"
| "other_interaction _ = False"

fun forbidden :: "agent_error \<Rightarrow> bool" where
  "forbidden (Scope_failed e) = True"
| "forbidden _ = False"

definition scan_error_item :: "scan_error \<Rightarrow> json" where
  "scan_error_item e = JObj [(''stage'', JStr (sx_stage e)), (''code'', JStr (sx_code e)),
     (''message'', JStr (sx_message e)), (''retryable'', JBool (sx_retryable e))]"

definition scan_item :: "scan_summary \<Rightarrow> recording \<Rightarrow> json" where
  "scan_item sm r = JObj [(''id'', JStr (r_id r)), (''filename'', JStr (r_disk_filename r)),
     (''candidate_name'', opt_json (r_candidate_name r)), (''status'', JStr (status_value (r_status r))),
     (''is_new'', JBool (r_id r \<in> set (su_inserted_recording_ids sm))),
     (''requires_review'', JBool (r_status r = MANUAL_REVIEW_REQUIRED)), (''review_reason'', opt_json (r_manual_review_reason r)),
     (''generated_filename'', opt_json (r_generated_filename r)), (''safe_link'', opt_json (r_synology_share_url r)),
     (''notion_url'', opt_json (r_notion_page_url r)), (''spot'', opt_json (r_project_or_spot r)),
     (''error'', opt_json (r_error_message r))]"

text \<open>The recordings of the scan, counted by status; at most fifty are listed, the earliest found first.\<close>

definition scanned_rows :: "recruiter_config \<Rightarrow> scan_summary \<Rightarrow> db \<Rightarrow> recording list" where
  "scanned_rows rc sm d = filter (\<lambda>r. r_disk_owner_email r = rc_email rc \<and> r_id r \<in> set (su_recording_ids sm)) (db_recordings d)"

definition status_count :: "recording_status \<Rightarrow> recording list \<Rightarrow> nat" where
  "status_count st rows = length (filter (\<lambda>r. r_status r = st) rows)"

definition scan_response :: "recruiter_config \<Rightarrow> scan_summary \<Rightarrow> recording list \<Rightarrow> json" where
  "scan_response rc sm rows =
     (let n = (\<lambda>k. JInt (int k)); listed = take 50 (sort_key r_found_at rows); processed = length rows;
          review = status_count MANUAL_REVIEW_REQUIRED rows; failed = status_count FAILED rows;
          pending = status_count FOUND rows
      in JObj [(''accepted'', JBool True), (''recruiter_email'', JStr (rc_email rc)), (''discovered'', n (su_discovered sm)),
        (''inserted'', n (su_inserted sm)), (''skipped_legacy'', n (su_skipped_legacy sm)), (''matched'', n (su_matched sm)),
        (''manual_review'', n review), (''without_review'', n (processed - (review + failed + pending))),
        (''pending'', n pending), (''failed'', n (su_failed sm)), (''failed_recordings'', n failed),
        (''aborted'', JBool (su_aborted sm)), (''errors'', JList (map scan_error_item (su_errors sm))),
        (''processed'', n processed), (''items_truncated'', JBool (processed > length listed)),
        (''items'', JList (map (scan_item sm) listed))])"

definition run_scan ::
  "('n, 'w, 'c, 'd, 'k, 'h) outside \<Rightarrow> scan_ids \<Rightarrow> (string \<Rightarrow> string) \<Rightarrow> scan_services \<Rightarrow> recruiter_config \<Rightarrow>
   interaction_binding option \<Rightarrow> intent_claim \<Rightarrow> ('n, 'w, 'c, 'd, 'k, 'h, json) call" where
  "run_scan os ids fresh ss rc binding c =
     io_bind (run_call (attempt (scan_recruiter os ids fresh ss rc None binding))) (\<lambda>v.
       case v of
         Inl e \<Rightarrow>
           if other_interaction e
           then io_bind (run_call (save (release_scan_intent c))) (\<lambda>_. http 409 (os_text os e))
           else if forbidden e then http 403 (os_text os e)
           else io_raise (Uncaught e)
       | Inr sm \<Rightarrow>
           io_bind (run_call (see (scanned_rows rc sm))) (\<lambda>rows.
           io_bind (end_intent c (scan_response rc sm rows)) (\<lambda>_. io_return (scan_response rc sm rows))))"

definition trigger_scan ::
  "('n, 'w, 'c, 'd, 'k, 'h) outside \<Rightarrow> intent_ids \<Rightarrow> scan_ids \<Rightarrow> (string \<Rightarrow> string) \<Rightarrow> scan_services \<Rightarrow> scan_body \<Rightarrow>
   ('n, 'w, 'c, 'd, 'k, 'h, json) call" where
  "trigger_scan os iids ids fresh ss b =
     (let st = sv_settings (os_services os) in in_request
      (need_call (st_test_mode_enabled st \<longrightarrow> qb_scope b = ''test'') 403 ''Production scan is forbidden in test mode''
      (io_bind (run_call (see (recruiter_to_scan st b))) (\<lambda>row.
         case row of
           None \<Rightarrow> http 404 ''Active recruiter not found''
         | Some rc \<Rightarrow>
             io_bind (scope_of_call os 409 rc) (\<lambda>_.
               case scan_interaction_binding st rc b of
                 Inl why \<Rightarrow> http 409 why
               | Inr binding \<Rightarrow>
                   io_bind (binding_available rc binding) (\<lambda>_.
                   io_bind (begin_intent os iids (intent_of_call os (rc_email rc) (''scan:'' @ qb_scope b) (qb_key b)
                       (scan_payload b))) (\<lambda>c.
                     case completed_response c of
                       Some j \<Rightarrow> io_return j
                     | None \<Rightarrow> run_scan os ids fresh ss rc binding c)))))))"

section \<open>Looking things up\<close>

text \<open>The filters of the status call; \<open>ilike\<close> is the case-blind pattern match of the database.\<close>

record status_query =
  sq_user :: string
  sq_on_date :: "date option"
  sq_candidate :: "string option"
  sq_recording :: "string option"
  sq_status :: "recording_status option"
  sq_limit :: nat

definition status_matches :: "(string \<Rightarrow> string \<Rightarrow> bool) \<Rightarrow> status_query \<Rightarrow> recording \<Rightarrow> bool" where
  "status_matches ilike q r \<longleftrightarrow>
     (case sq_on_date q of None \<Rightarrow> True | Some d \<Rightarrow>
        days (civil_days d) \<le> r_found_at r \<and> r_found_at r < days (civil_days d) + days 1) \<and>
     (truthy (sq_candidate q) \<longrightarrow> (case r_candidate_name r of None \<Rightarrow> False
        | Some n \<Rightarrow> ilike (''%'' @ the (sq_candidate q) @ ''%'') n)) \<and>
     (case sq_recording q of None \<Rightarrow> True | Some i \<Rightarrow> r_id r = i) \<and>
     (case sq_status q of None \<Rightarrow> True | Some st \<Rightarrow> r_status r = st)"

definition status_item :: "('n, 'w, 'c, 'd, 'k, 'h) outside \<Rightarrow> recording \<Rightarrow> json" where
  "status_item os r = JObj [(''id'', JStr (r_id r)), (''filename'', JStr (r_disk_filename r)),
     (''generated_filename'', opt_json (r_generated_filename r)), (''candidate_name'', opt_json (r_candidate_name r)),
     (''status'', JStr (status_value (r_status r))), (''requires_review'', JBool (r_status r = MANUAL_REVIEW_REQUIRED)),
     (''review_reason'', opt_json (r_manual_review_reason r)), (''version'', JInt (r_version r)),
     (''found_at'', JStr (te_iso (os_env os) (r_found_at r))), (''safe_link'', opt_json (r_synology_share_url r)),
     (''notion_url'', opt_json (r_notion_page_url r)), (''spot'', opt_json (r_project_or_spot r)),
     (''error'', opt_json (r_error_message r)), (''error_step'', opt_json (r_error_step r))]"

text \<open>The latest first; the total is counted only when the page is full.\<close>

definition status_rows :: "(string \<Rightarrow> string \<Rightarrow> bool) \<Rightarrow> status_query \<Rightarrow> recruiter_config \<Rightarrow> db \<Rightarrow> recording list" where
  "status_rows ilike q rc d = rev (sort_key r_found_at (filter (\<lambda>r. r_disk_owner_email r = rc_email rc \<and> status_matches ilike q r)
     (rev (db_recordings d))))"

definition status_response :: "('n, 'w, 'c, 'd, 'k, 'h) outside \<Rightarrow> nat \<Rightarrow> recording list \<Rightarrow> json" where
  "status_response os limit rows =
     (let page = take limit rows; total = (if length page = limit then length rows else length page) in
      JObj [(''items'', JList (map (status_item os) page)), (''count'', JInt (int (length page))),
        (''total'', JInt (int total))])"

definition recording_status_call ::
  "('n, 'w, 'c, 'd, 'k, 'h) outside \<Rightarrow> (string \<Rightarrow> string \<Rightarrow> bool) \<Rightarrow> status_query \<Rightarrow> ('n, 'w, 'c, 'd, 'k, 'h, json) call" where
  "recording_status_call os ilike q = in_request
     (io_bind (recruiter_by_user_id os (sq_user q)) (\<lambda>rc.
      io_bind (run_call (see (status_rows ilike q rc))) (\<lambda>rows. io_return (status_response os (sq_limit q) rows))))"

fun review_refusal :: "agent_error \<Rightarrow> bool" where
  "review_refusal (App_failed (Review_rejected why)) = True"
| "review_refusal _ = False"

definition expiry_text :: "('n, 'w, 'c, 'd, 'k, 'h) outside \<Rightarrow> manual_review \<Rightarrow> json" where
  "expiry_text os v = JStr (case v_token_expires_at v of None \<Rightarrow> '''' | Some t \<Rightarrow> te_iso (os_env os) t)"

definition choices_of :: "manual_review \<Rightarrow> json" where
  "choices_of v = (case json_get ''choices'' (v_question_context v) of None \<Rightarrow> JList [] | Some j \<Rightarrow> j)"

definition file_of_question :: "manual_review \<Rightarrow> db \<Rightarrow> json" where
  "file_of_question v d = opt_json (map_option r_disk_filename (recording_of d (v_recording_id v)))"

definition review_context ::
  "('n, 'w, 'c, 'd, 'k, 'h) outside \<Rightarrow> string \<Rightarrow> string \<Rightarrow> string \<Rightarrow> string \<Rightarrow> ('n, 'w, 'c, 'd, 'k, 'h, json) call" where
  "review_context os i user thread token = in_request
     (io_bind (run_call (clock os)) (\<lambda>t.
      io_bind (served (conflicts os review_refusal) (in_world (get_bound_review (os_services os) t i user thread token))) (\<lambda>v.
      io_bind (run_call (see (file_of_question v))) (\<lambda>file.
        io_return (JObj [(''review_id'', JStr (v_id v)), (''recording_id'', JStr (v_recording_id v)),
          (''recording_version'', JInt (v_recording_version v)), (''filename'', file), (''reason'', JStr (v_question_type v)),
          (''choices'', choices_of v), (''expires_at'', expiry_text os v)])))))"

fun question_items ::
  "('n, 'w, 'c, 'd, 'k, 'h) outside \<Rightarrow> manual_review list \<Rightarrow> ('n, 'w, 'c, 'd, 'k, 'h, json list) call" where
  "question_items os [] = io_return []"
| "question_items os (v # vs) =
     io_bind (run_call (io_lift (map_sum (App_failed \<circ> Review_rejected) id (capability_token (os_services os) v)))) (\<lambda>token.
     io_bind (run_call (see (file_of_question v))) (\<lambda>file.
     io_bind (question_items os vs) (\<lambda>items.
       io_return (JObj [(''question_id'', JStr (v_id v)), (''question_set_id'', JStr (v_question_set_id v)),
         (''recording_id'', JStr (v_recording_id v)), (''recording_version'', JInt (v_recording_version v)),
         (''filename'', file), (''reason'', JStr (v_question_type v)), (''choices'', choices_of v),
         (''capability'', JStr token), (''expires_at'', expiry_text os v)] # items))))"

definition list_questions ::
  "('n, 'w, 'c, 'd, 'k, 'h) outside \<Rightarrow> string \<Rightarrow> string \<Rightarrow> string option \<Rightarrow> nat \<Rightarrow> ('n, 'w, 'c, 'd, 'k, 'h, json) call" where
  "list_questions os user channel set_id limit = in_request
     (io_bind (served (conflicts os review_refusal) (in_world (list_active (os_services os) user channel set_id limit))) (\<lambda>vs.
      io_bind (question_items os vs) (\<lambda>items. io_return (listing items))))"

section \<open>Answering\<close>

definition question_recruiter ::
  "('n, 'w, 'c, 'd, 'k, 'h) outside \<Rightarrow> string \<Rightarrow> string \<Rightarrow>
   ('n, 'w, 'c, 'd, 'k, 'h, recruiter_config \<times> interaction_binding option) agent_io" where
  "question_recruiter os user channel =
     (let sv = os_services os; offline = offline_test_mode (sv_settings sv) in
      io_bind (see (recruiter_of_user user)) (\<lambda>row.
        case row of
          None \<Rightarrow> io_raise (App_failed (Review_rejected Invalid_dm))
        | Some rc \<Rightarrow>
            if \<not> offline \<and> \<not> channel_matches (sv_settings sv) rc channel
            then io_raise (App_failed (Review_rejected Invalid_dm))
            else (case enforce_recruiter_scope (fold_case (sv_notion sv)) (sv_settings sv) rc of
                    Inl e \<Rightarrow> io_raise (App_failed (Review_rejected (Out_of_scope e)))
                  | Inr u \<Rightarrow> io_return (rc, if offline
                      then Some \<lparr>ib_recruiter_user_id = user, ib_dm_channel_id = channel\<rparr> else None))))"

definition resumes_after_answer :: "recording_status list" where
  "resumes_after_answer = [CALENDAR_EVENT_FOUND, CANDIDATE_MATCHED, TRANSFER_STARTED, UPLOADED_TO_SYNOLOGY,
     SYNOLOGY_LINK_CREATED, NOTION_UPDATED]"

record answer_ids =
  an_pipeline :: "string \<Rightarrow> pipeline_ids"
  an_lease :: "string \<Rightarrow> string"
  an_fresh :: "nat \<Rightarrow> fresh_ids"

fun resume_answered ::
  "('n, 'w, 'c, 'd, 'k, 'h) outside \<Rightarrow> answer_ids \<Rightarrow> recruiter_config \<Rightarrow> review_mutation list \<Rightarrow>
   ('n, 'w, 'c, 'd, 'k, 'h, unit) agent_io" where
  "resume_answered os ids rc [] = io_return ()"
| "resume_answered os ids rc (m # ms) =
     io_bind (see (\<lambda>d. recording_of d (rm_recording_id m))) (\<lambda>row.
     io_bind (case row of
         None \<Rightarrow> io_return ()
       | Some r \<Rightarrow>
           if rm_replayed m \<or> r_status r \<notin> set resumes_after_answer then io_return ()
           else io_bind (resume_transfer os (an_pipeline ids (r_id r)) False rc (an_lease ids (r_id r)) (r_id r))
                  (\<lambda>_. io_return ())) (\<lambda>_.
       resume_answered os ids rc ms))"

definition mutation_json :: "review_mutation \<Rightarrow> json" where
  "mutation_json m = JObj [(''question_id'', JStr (rm_review_id m)), (''recording_id'', JStr (rm_recording_id m)),
     (''status'', JStr (rm_status m)), (''version'', JInt (rm_version m)), (''replayed'', JBool (rm_replayed m))]"

definition batch_response :: "('n, 'w, 'c, 'd, 'k, 'h) outside \<Rightarrow> question_batch \<Rightarrow> json" where
  "batch_response os b = JObj [(''accepted'', JList (map mutation_json (qb_accepted b))),
     (''rejected'', JList (map (\<lambda>(q, why). JObj [(''question_id'', JStr q),
        (''reason'', JStr (os_text os (App_failed (Review_rejected why))))]) (qb_rejected b))),
     (''pending'', JList (map JStr (qb_pending b)))]"

definition answer_batch ::
  "('n, 'w, 'c, 'd, 'k, 'h) outside \<Rightarrow> review_wiring \<Rightarrow> answer_ids \<Rightarrow> string \<Rightarrow> string \<Rightarrow>
   (string \<times> string \<times> question_answer) list \<Rightarrow> ('n, 'w, 'c, 'd, 'k, 'h, question_batch) agent_io" where
  "answer_batch os rw ids user channel answers =
     (let sv = os_services os in
      io_bind (clock os) (\<lambda>t.
      io_bind (in_world (apply_partial sv rw t user channel answers)) (\<lambda>batch.
      io_bind commit_all (\<lambda>_.
      io_bind (question_recruiter os user channel) (\<lambda>(rc, binding).
      io_bind (resume_answered os ids rc (qb_accepted batch)) (\<lambda>_.
      io_bind (clock os) (\<lambda>t1.
      io_bind (in_world (reconcile_processing sv t1 (an_fresh ids) rc binding)) (\<lambda>_.
      io_bind commit_all (\<lambda>_. io_return batch)))))))))"

definition answer_questions ::
  "('n, 'w, 'c, 'd, 'k, 'h) outside \<Rightarrow> review_wiring \<Rightarrow> answer_ids \<Rightarrow> string \<Rightarrow> string \<Rightarrow>
   (string \<times> string \<times> question_answer) list \<Rightarrow> ('n, 'w, 'c, 'd, 'k, 'h, json) call" where
  "answer_questions os rw ids user channel answers = in_request
     (io_bind (served (conflicts os review_refusal) (answer_batch os rw ids user channel answers)) (\<lambda>batch.
        io_return (batch_response os batch)))"

definition recruiter_of_recording :: "recording \<Rightarrow> db \<Rightarrow> recruiter_config option" where
  "recruiter_of_recording r d = find (\<lambda>rc. rc_email rc = r_disk_owner_email r) (db_recruiters d)"

text \<open>The recording goes on before the answer returns, and the stored response tells where it got.\<close>

definition after_resolution ::
  "('n, 'w, 'c, 'd, 'k, 'h) outside \<Rightarrow> answer_ids \<Rightarrow> string \<Rightarrow> mutate_request \<Rightarrow> review_mutation \<Rightarrow> recruiter_config \<Rightarrow>
   ('n, 'w, 'c, 'd, 'k, 'h, review_mutation) agent_io" where
  "after_resolution os ids claim q m rc =
     (let sv = os_services os; i = rm_recording_id m in
      io_bind (resume_transfer os (an_pipeline ids i) False rc (an_lease ids i) i) (\<lambda>_.
      io_bind (row_of i) (\<lambda>r.
      io_bind (clock os) (\<lambda>t.
      io_bind (if r_status r \<in> {COMPLETED, FAILED}
               then io_bind (in_world (deliver_terminal sv t t claim r rc)) (\<lambda>_. io_return ()) else io_return ()) (\<lambda>_.
        let m1 = m\<lparr>rm_status := status_value (r_status r), rm_version := r_version r\<rparr> in
        io_bind (see (find_replay q)) (\<lambda>replay.
          case replay of
            None \<Rightarrow> io_return m1
          | Some x \<Rightarrow> io_bind (save (\<lambda>d. d\<lparr>db_intents := update_where (\<lambda>y. ir_id y = ir_id x)
              (\<lambda>y. y\<lparr>ir_response := Some (as_dict m1)\<rparr>) (db_intents d)\<rparr>)) (\<lambda>_. io_return m1)))))))"

definition mutate_review ::
  "('n, 'w, 'c, 'd, 'k, 'h) outside \<Rightarrow> review_wiring \<Rightarrow> answer_ids \<Rightarrow> string \<Rightarrow> string \<Rightarrow> mutate_request \<Rightarrow>
   ('n, 'w, 'c, 'd, 'k, 'h, json) call" where
  "mutate_review os rw ids intent_id claim q = in_request
     (io_bind (run_call (clock os)) (\<lambda>t.
      io_bind (served (conflicts os review_refusal)
        (io_bind (in_world (mutate (os_services os) rw t intent_id q)) (\<lambda>m. io_bind commit_all (\<lambda>_. io_return m)))) (\<lambda>m.
        if mq_action q \<noteq> Resolve then io_return (as_dict m)
        else
          io_bind (run_call (see (\<lambda>d. Option.bind (recording_of d (rm_recording_id m)) (\<lambda>r. recruiter_of_recording r d)))) (\<lambda>found.
            case found of
              None \<Rightarrow> io_return (as_dict m)
            | Some rc \<Rightarrow> io_bind (run_call (after_resolution os ids claim q m rc)) (\<lambda>m1. io_return (as_dict m1))))))"

text \<open>The two calls; their requests bind the thread, not the direct message.\<close>

definition resolve_review ::
  "('n, 'w, 'c, 'd, 'k, 'h) outside \<Rightarrow> review_wiring \<Rightarrow> answer_ids \<Rightarrow> string \<Rightarrow> string \<Rightarrow> mutate_request \<Rightarrow> int \<Rightarrow>
   ('n, 'w, 'c, 'd, 'k, 'h, json) call" where
  "resolve_review os rw ids intent_id claim q choice =
     mutate_review os rw ids intent_id claim (q\<lparr>mq_action := Resolve, mq_choice := Some choice, mq_bind_dm := False\<rparr>)"

definition ignore_review ::
  "('n, 'w, 'c, 'd, 'k, 'h) outside \<Rightarrow> review_wiring \<Rightarrow> answer_ids \<Rightarrow> string \<Rightarrow> string \<Rightarrow> mutate_request \<Rightarrow>
   ('n, 'w, 'c, 'd, 'k, 'h, json) call" where
  "ignore_review os rw ids intent_id claim q =
     mutate_review os rw ids intent_id claim (q\<lparr>mq_action := Ignore, mq_choice := None, mq_bind_dm := False\<rparr>)"

section \<open>Running a call\<close>

lemma served_app:
  "served h m s = (case m s of (Inr x, s1) \<Rightarrow> (Inr x, s1)
    | (Inl e, s1) \<Rightarrow> (Inl (case h e of Some (code, detail) \<Rightarrow> Http code (JStr detail) | None \<Rightarrow> Uncaught e), s1))"
  by (simp add: served_def)

lemma run_call_see [simp]: "run_call (see f) s = (Inr (f (w_db (ag_world s))), s)"
  by (simp add: run_call_def served_app)

lemma run_call_clock [simp]: "run_call (clock os) s = (Inr (ya_clock (os_yandex os) (ys_server (ag_disk s))), s)"
  by (simp add: run_call_def served_app)

lemma run_call_save [simp]:
  "run_call (save f) s = (Inr (), s\<lparr>ag_world := (ag_world s)\<lparr>w_db := f (w_db (ag_world s)), w_saved := f (w_db (ag_world s))\<rparr>\<rparr>)"
  by (simp add: run_call_def served_app)

definition rolled_back :: "('n, 'w, 'c, 'd, 'k, 'h) agent \<Rightarrow> ('n, 'w, 'c, 'd, 'k, 'h) agent" where
  "rolled_back s = s\<lparr>ag_world := (ag_world s)\<lparr>w_db := w_saved (ag_world s)\<rparr>\<rparr>"

lemma in_request_app: "in_request m s = (case m s of (v, s1) \<Rightarrow> (v, rolled_back s1))"
  by (simp add: in_request_def rolled_back_def)

section \<open>Who may call\<close>

definition bound_call :: "('n, 'w, 'c, 'd, 'k, 'h) outside \<Rightarrow> string \<Rightarrow> string \<Rightarrow> ('n, 'w, 'c, 'd, 'k, 'h) agent \<Rightarrow> bool" where
  "bound_call os user channel s \<longleftrightarrow> (let sv = os_services os in
     case recruiter_of_user user (w_db (ag_world s)) of
       None \<Rightarrow> False
     | Some rc \<Rightarrow> channel_matches (sv_settings sv) rc channel \<and>
         enforce_recruiter_scope (fold_case (sv_notion sv)) (sv_settings sv) rc = Inr ())"

definition refused :: "('n, 'w, 'c, 'd, 'k, 'h, 'a) call \<Rightarrow> ('n, 'w, 'c, 'd, 'k, 'h) agent \<Rightarrow> bool" where
  "refused m s \<longleftrightarrow> (\<exists>code detail. m s = (Inl (Http code detail), rolled_back s) \<and> code \<in> {403, 404})"

lemma bound_recruiter_unbound:
  assumes "\<not> bound_call os user channel s"
  obtains code detail where "bound_recruiter os user channel s = (Inl (Http code detail), s)" "code \<in> {403, 404}"
proof -
  have "\<exists>code detail. bound_recruiter os user channel s = (Inl (Http code detail), s) \<and> code \<in> {403, 404}"
  proof (cases "recruiter_of_user user (w_db (ag_world s))")
    case (Some rc)
    then show ?thesis
      using assms
      by (cases "enforce_recruiter_scope (fold_case (sv_notion (os_services os))) (sv_settings (os_services os)) rc")
        (auto simp: bound_recruiter_def bound_call_def Let_def io_bind_app http_def need_call_def scope_of_call_def
          io_raise_def io_return_def)
  qed (simp add: bound_recruiter_def io_bind_app http_def io_raise_def)
  then show ?thesis using that by blast
qed

lemma bound_recruiter_bound:
  assumes "bound_call os user channel s"
  shows "\<exists>rc. recruiter_of_user user (w_db (ag_world s)) = Some rc \<and> bound_recruiter os user channel s = (Inr rc, s)"
  using assms
  by (auto simp: bound_recruiter_def bound_call_def Let_def io_bind_app need_call_def scope_of_call_def
      io_return_def split: option.splits sum.splits if_splits)

lemma refused_unbound:
  assumes "\<not> bound_call os user channel s"
  shows "refused (in_request (io_bind (bound_recruiter os user channel) f)) s"
proof -
  obtain code detail where "bound_recruiter os user channel s = (Inl (Http code detail), s)" "code \<in> {403, 404}"
    using bound_recruiter_unbound[OF assms] by blast
  then show ?thesis by (auto simp: refused_def in_request_app io_bind_app)
qed

text \<open>
  Property C12.  A call is answered only for the conversation it comes from: unless the user is an
  active recruiter within the allowed scope and the channel is their direct channel, each of the
  calls that list or create destinations, route, move or reassign a recording, or clean the disk is
  refused with 403 or 404, and nothing has been sent or changed by it.
\<close>

theorem call_needs_its_conversation:
  assumes "\<not> bound_call os (rb_user b) (rb_channel b) s" "cc_user q = rb_user b" "cc_channel q = rb_channel b"
  shows "\<forall>m\<in>set [list_storage_destinations os app fresh (rb_user b) (rb_channel b),
      create_storage_destination os app new_id (rb_user b) (rb_channel b) parent name,
      route_interview os app ids pids token i b, route_non_interview os app ids i b,
      reroute_recording os app rids i b, resolve_notion_reassignment os app i (rb_user b) (rb_channel b) hint,
      propose_notion_reassignment os app new_id capability i (rb_user b) (rb_channel b) target,
      confirm_notion_reassignment os app proposal (rb_user b) (rb_channel b) capability key,
      create_cleanup_preview os new_id capability (rb_user b) (rb_channel b) limit,
      confirm_cleanup_preview os new_ids q]. refused m s"
  unfolding list_storage_destinations_def create_storage_destination_def route_interview_def route_non_interview_def
    reroute_recording_def resolve_notion_reassignment_def propose_notion_reassignment_def
    confirm_notion_reassignment_def create_cleanup_preview_def confirm_cleanup_preview_def Let_def assms(2,3)
  by (simp del: in_request_app add: refused_unbound[OF assms(1)])

section \<open>Repeated calls\<close>

lemma same_saved:
  "w_saved (ag_world s) = w_db (ag_world s) \<Longrightarrow>
    s\<lparr>ag_world := (ag_world s)\<lparr>w_db := w_db (ag_world s), w_saved := w_db (ag_world s)\<rparr>\<rparr> = s"
  "w_saved (ag_world s) = w_db (ag_world s) \<Longrightarrow> rolled_back s = s"
  by (cases s; cases "ag_world s"; simp add: rolled_back_def)+

text \<open>The row of a call that was completed with the response \<open>j\<close>.\<close>

definition answered_before :: "intent_request \<Rightarrow> json \<Rightarrow> db \<Rightarrow> bool" where
  "answered_before q j d \<longleftrightarrow> (case find (\<lambda>r. intent_key r = iq_key q) (db_intents d) of
      None \<Rightarrow> False
    | Some r \<Rightarrow> ir_request_fingerprint r = iq_fingerprint q \<and> ir_state r = Intent_completed \<and> ir_response r = Some j)"

definition replay_answer :: "json option \<Rightarrow> (call_error, json) result" where
  "replay_answer v = (case v of None \<Rightarrow> Inl Invalid_response | Some again \<Rightarrow> Inr again)"

lemma once_replayed:
  assumes "answered_before q j (w_db (ag_world s))" "w_saved (ag_world s) = w_db (ag_world s)"
  shows "once os ids q replay work s = (replay_answer (replay j), s)"
proof -
  let ?rows = "db_intents (w_db (ag_world s))" and ?t = "ya_clock (os_yandex os) (ys_server (ag_disk s))"
  obtain r where r: "find (\<lambda>r. intent_key r = iq_key q) ?rows = Some r" "ir_request_fingerprint r = iq_fingerprint q"
      "ir_state r = Intent_completed" "ir_response r = Some j"
    using assms(1) by (auto simp: answered_before_def split: option.splits)
  have "intent_key (pending_intent q ?t (ii_row ids) (ii_owner ids)) = iq_key q"
    by (auto simp: pending_intent_def intent_key_def split: prod.splits)
  then have "intent_key (pending_intent q ?t (ii_row ids) (ii_owner ids)) \<in> set (map intent_key ?rows)"
    using find_SomeD[OF r(1)] by (metis image_eqI list.set_map)
  then have claim: "claim_intent q ?t (ii_row ids) (ii_owner ids) ?rows = (Inr \<lparr>ic_replay = r, ic_owner = None\<rparr>, ?rows)"
    using r by (simp add: claim_intent_def insert_intent_def Let_def reclaim_intent_def)
  show ?thesis
    using claim r(3,4) same_saved(1)[OF assms(2)]
    by (cases "replay j")
      (simp_all add: once_def begin_intent_def io_bind_app completed_response_def io_return_def io_raise_def replay_answer_def)
qed

text \<open>
  What Pydantic documents of the conversions and the answers rely on: a value that has the type of its
  field already is kept.
\<close>

definition keeps_typed :: "coercion \<Rightarrow> (string \<Rightarrow> bool) \<Rightarrow> bool" where
  "keeps_typed coerce uuid \<longleftrightarrow>
     (\<forall>s. uuid s \<longrightarrow> coerce Uuid_field (JStr s) = Some (JStr s)) \<and>
     (\<forall>st. coerce Status_field (JStr (status_value st)) = Some (JStr (status_value st))) \<and>
     (\<forall>n. coerce Int_field (JInt n) = Some (JInt n)) \<and>
     (\<forall>s. coerce Text_field (JStr s) = Some (JStr s)) \<and>
     (\<forall>o1. coerce Optional_text_field (opt_json o1) = Some (opt_json o1)) \<and>
     (\<forall>x. coerce Bool_field (JBool x) = Some (JBool x))"

text \<open>The answer of a repeated call: the members of the first answer, marked as a replay.\<close>

definition interview_again :: "recording \<Rightarrow> json" where
  "interview_again r = JObj [(''recording_id'', JStr (r_id r)), (''status'', JStr (status_value (r_status r))),
     (''version'', JInt (r_version r)), (''safe_link'', JStr (opt_or (r_synology_share_url r) '''')),
     (''notion_url'', JStr (opt_or (r_notion_page_url r) '''')), (''candidate_name'', JStr (opt_or (r_candidate_name r) '''')),
     (''replayed'', JBool True), (''error'', opt_json (r_error_message r)), (''error_step'', opt_json (r_error_step r))]"

definition non_interview_again :: "recording \<Rightarrow> json" where
  "non_interview_again r = JObj [(''recording_id'', JStr (r_id r)), (''status'', JStr (status_value (r_status r))),
     (''version'', JInt (r_version r)), (''safe_link'', JStr (opt_or (r_synology_share_url r) '''')),
     (''replayed'', JBool True)]"

lemma route_answers_kept:
  assumes "keeps_typed (as_coerce app) uuid" and "uuid (r_id r)"
  shows "replayed_as app INTERVIEW_ROUTE_RESPONSE (interview_response r) = Some (interview_again r)"
    "replayed_as app NON_INTERVIEW_ROUTE_RESPONSE (non_interview_response r) = Some (non_interview_again r)"
  using assms
  by (simp_all add: replayed_as_def model_validate_def INTERVIEW_ROUTE_RESPONSE_def NON_INTERVIEW_ROUTE_RESPONSE_def
      keeps_typed_def replayed_def interview_response_def non_interview_response_def interview_again_def
      non_interview_again_def)

text \<open>
  Property C17.  A routing call is executed once.  When an interview routing with the same user,
  recording, key and body has been completed before, the call answers the stored response, marked as a
  replay and read through the declared response model, and leaves the whole agent as it is: nothing is
  sent to any service and no row changes; if the stored response does not fit the model, the call fails
  and still nothing changes.  The same holds, on its own, of a non-interview routing.  A response that
  the calls store themselves is answered again member by member, with \<open>replayed\<close> set (Pydantic keeping
  values that are well typed, and the recording's identifier being a UUID).
\<close>

theorem completed_route_is_replayed:
  assumes "bound_call os (rb_user b) (rb_channel b) s" "w_saved (ag_world s) = w_db (ag_world s)"
  shows "(\<forall>j. answered_before (intent_of_call os (rb_user b) (''route-interview:'' @ i) (rb_key b) (route_payload i b)) j
        (w_db (ag_world s)) \<longrightarrow>
      route_interview os app ids pids token i b s =
        (replay_answer (replayed_as app INTERVIEW_ROUTE_RESPONSE j), s)) \<and>
    (\<forall>j. answered_before (intent_of_call os (rb_user b) (''route-non-interview:'' @ i) (rb_key b) (route_payload i b)) j
        (w_db (ag_world s)) \<longrightarrow>
      route_non_interview os app ids i b s =
        (replay_answer (replayed_as app NON_INTERVIEW_ROUTE_RESPONSE j), s)) \<and>
    (\<forall>r uuid. keeps_typed (as_coerce app) uuid \<and> uuid (r_id r) \<longrightarrow>
      replayed_as app INTERVIEW_ROUTE_RESPONSE (interview_response r) = Some (interview_again r) \<and>
      replayed_as app NON_INTERVIEW_ROUTE_RESPONSE (non_interview_response r) = Some (non_interview_again r))"
proof (intro conjI allI impI)
  fix j
  assume "answered_before (intent_of_call os (rb_user b) (''route-interview:'' @ i) (rb_key b) (route_payload i b)) j
        (w_db (ag_world s))"
  from once_replayed[OF this assms(2)] show "route_interview os app ids pids token i b s =
        (replay_answer (replayed_as app INTERVIEW_ROUTE_RESPONSE j), s)"
    using bound_recruiter_bound[OF assms(1)] same_saved(2)[OF assms(2)]
    by (auto simp: route_interview_def in_request_app io_bind_app)
next
  fix j
  assume "answered_before (intent_of_call os (rb_user b) (''route-non-interview:'' @ i) (rb_key b) (route_payload i b)) j
        (w_db (ag_world s))"
  from once_replayed[OF this assms(2)] show "route_non_interview os app ids i b s =
        (replay_answer (replayed_as app NON_INTERVIEW_ROUTE_RESPONSE j), s)"
    using bound_recruiter_bound[OF assms(1)] same_saved(2)[OF assms(2)]
    by (auto simp: route_non_interview_def in_request_app io_bind_app)
qed (auto intro: route_answers_kept)

end
