(* ===== verification/Router_Calls.thy ===== *)
theory Router_Calls
imports Tool_Calls
begin

text \<open>
  \<open>app/routers/routing_jobs.py\<close>, the calls of the routing dispatcher and its worker, and
  \<open>app/routers/calendars.py\<close>, the calls an operator chooses a recruiter's calendars with.
\<close>

section \<open>Routing jobs\<close>

definition autonomous_only :: "('n, 'w, 'c, 'd, 'k, 'h) outside \<Rightarrow> ('n, 'w, 'c, 'd, 'k, 'h, 'a) call \<Rightarrow> ('n, 'w, 'c, 'd, 'k, 'h, 'a) call" where
  "autonomous_only os m =
     need_call (st_autonomous_routing_enabled (sv_settings (os_services os))) 409 ''Autonomous routing is disabled'' m"

fun job_refusal :: "agent_error \<Rightarrow> bool" where
  "job_refusal (App_failed (Job_rejected why)) = True"
| "job_refusal _ = False"

fun resolution_refusal :: "agent_error \<Rightarrow> bool" where
  "resolution_refusal (App_failed (Job_rejected why)) = True"
| "resolution_refusal (App_failed (Bad_move e)) = True"
| "resolution_refusal (App_failed (Nas_failed (Path_error e))) = True"
| "resolution_refusal (App_failed (Nas_failed Bad_bounds)) = True"
| "resolution_refusal (App_failed (Nas_failed Not_writable)) = True"
| "resolution_refusal e = destination_refusal e"

text \<open>What runs and is committed before the call answers.\<close>

definition committed :: "('n, 'w, 'c, 'd, 'k, 'h, 'a) agent_io \<Rightarrow> ('n, 'w, 'c, 'd, 'k, 'h, 'a) agent_io" where
  "committed m = io_bind m (\<lambda>x. io_bind commit_all (\<lambda>_. io_return x))"

definition dispatch_call ::
  "('n, 'w, 'c, 'd, 'k, 'h) outside \<Rightarrow> string \<Rightarrow> ('n, 'w, 'c, 'd, 'k, 'h, json) call" where
  "dispatch_call os nonce = in_request (autonomous_only os
     (io_bind (run_call (clock os)) (\<lambda>t.
      io_bind (run_call (committed (in_world (dispatch_next (os_services os) t nonce)))) (\<lambda>found.
        io_return (case found of
          None \<Rightarrow> JNull
        | Some (i, n) \<Rightarrow> JObj [(''job_id'', JStr i), (''dispatch_nonce'', JStr n)])))))"

definition activate_response :: "worker_payload \<Rightarrow> json" where
  "activate_response p = JObj [(''job_id'', JStr (wp_job_id p)), (''recording_id'', JStr (wp_recording_id p)),
     (''recording_version'', JInt (wp_recording_version p)), (''snapshot_hash'', JStr (wp_snapshot_hash p)),
     (''candidate_name'', JStr (wp_candidate_name p)), (''interview_date'', JStr (wp_interview_date p)),
     (''role'', JStr (wp_role p)), (''destinations'', JList (map (\<lambda>(i, label).
        JObj [(''id'', JStr i), (''label'', JStr label)]) (wp_destinations p)))]"

definition activate_call ::
  "('n, 'w, 'c, 'd, 'k, 'h) outside \<Rightarrow> string \<Rightarrow> string \<Rightarrow> string \<Rightarrow> ('n, 'w, 'c, 'd, 'k, 'h, json) call" where
  "activate_call os job worker nonce = in_request (autonomous_only os
     (io_bind (run_call (clock os)) (\<lambda>t.
      io_bind (served (conflicts os job_refusal) (committed (in_world (activate (os_services os) t job worker nonce)))) (\<lambda>p.
        io_return (activate_response p)))))"

definition action_response :: "string \<Rightarrow> string \<Rightarrow> string \<Rightarrow> json" where
  "action_response job recording status =
     JObj [(''job_id'', JStr job), (''recording_id'', JStr recording), (''status'', JStr status)]"

text \<open>The recruiter that the service returned, by its identifier.\<close>

definition recruiter_now :: "string \<Rightarrow> ('n, 'w, 'c, 'd, 'k, 'h, recruiter_config) agent_io" where
  "recruiter_now i = io_bind (see (\<lambda>d. recruiter_by_id d i)) (\<lambda>row.
     case row of None \<Rightarrow> io_raise (Value_failed ''no row'') | Some rc \<Rightarrow> io_return rc)"

definition resolve_call ::
  "('n, 'w, 'c, 'd, 'k, 'h) outside \<Rightarrow> app_state \<Rightarrow> pipeline_ids \<Rightarrow> string \<Rightarrow> string \<Rightarrow> string \<Rightarrow> string \<Rightarrow> string \<Rightarrow>
   string \<Rightarrow> ('n, 'w, 'c, 'd, 'k, 'h, json) call" where
  "resolve_call os app ids token job worker nonce h destination = in_request (autonomous_only os
     (need_call (as_destinations app) 409 ''Synology routing is disabled''
     (io_bind (run_call (clock os)) (\<lambda>t.
      io_bind (served (conflicts os resolution_refusal)
          (committed (in_world (resolve_job (os_services os) t job worker nonce h destination)))) (\<lambda>(i, owner).
      io_bind (run_call (recruiter_now owner)) (\<lambda>rc.
      io_bind (run_call (resume_transfer os ids False rc token i)) (\<lambda>resumed.
        need_call resumed 409 ''Transfer is already owned'' (io_return (action_response job i ''transfer_started'')))))))))"

fun defer_refusal :: "agent_error \<Rightarrow> bool" where
  "defer_refusal (App_failed (Job_rejected why)) = True"
| "defer_refusal (App_failed (Review_rejected why)) = True"
| "defer_refusal _ = False"

text \<open>The deferral, its question and the notice of it are committed together.\<close>

definition defer_and_ask ::
  "('n, 'w, 'c, 'd, 'k, 'h) outside \<Rightarrow> fresh_ids \<Rightarrow> string \<Rightarrow> string \<Rightarrow> string \<Rightarrow> string \<Rightarrow> string \<Rightarrow> string list \<Rightarrow>
   ('n, 'w, 'c, 'd, 'k, 'h, string) agent_io" where
  "defer_and_ask os ids job worker nonce h reason candidates =
     (let sv = os_services os in
      io_bind (clock os) (\<lambda>t.
      io_bind (in_world (defer_job sv t job worker nonce h reason candidates)) (\<lambda>(i, owner).
      io_bind (recruiter_now owner) (\<lambda>rc.
      io_bind (row_of i) (\<lambda>r.
      io_bind (in_world (enqueue_review sv t (fi_review ids) (fi_nonce ids) (fi_set ids) r rc None)) (\<lambda>v.
      io_bind (in_world (queue_routing_defer_notification sv t (fi_item ids) job r v)) (\<lambda>_.
        io_return i)))))))"

definition defer_call ::
  "('n, 'w, 'c, 'd, 'k, 'h) outside \<Rightarrow> fresh_ids \<Rightarrow> string \<Rightarrow> string \<Rightarrow> string \<Rightarrow> string \<Rightarrow> string \<Rightarrow> string list \<Rightarrow>
   ('n, 'w, 'c, 'd, 'k, 'h, json) call" where
  "defer_call os ids job worker nonce h reason candidates = in_request (autonomous_only os
     (io_bind (served (conflicts os defer_refusal) (committed (defer_and_ask os ids job worker nonce h reason candidates)))
        (\<lambda>i. io_return (action_response job i ''awaiting_recruiter''))))"

section \<open>Calendars\<close>

definition selected_ids :: "recruiter_calendar list \<Rightarrow> string list" where
  "selected_ids rows = sort (map cl_id (filter cl_selected rows))"

definition effective_ids :: "recruiter_calendar list \<Rightarrow> string list" where
  "effective_ids rows = (if selected_ids rows \<noteq> [] then selected_ids rows
     else sort (map cl_id (filter cl_is_default rows)))"

definition default_id :: "recruiter_calendar list \<Rightarrow> string option" where
  "default_id rows = (case filter cl_is_default rows of [r] \<Rightarrow> Some (cl_id r) | _ \<Rightarrow> None)"

definition selection_incomplete :: "instant \<Rightarrow> recruiter_calendar list \<Rightarrow> bool" where
  "selection_incomplete now rows =
     (let selected = filter cl_selected rows;
          effective = (if selected \<noteq> [] then selected else filter cl_is_default rows)
      in (selected = [] \<and> length effective \<noteq> 1) \<or>
         list_ex (\<lambda>r. \<not> cl_available r \<or> calendar_is_stale now r) effective)"

definition calendar_item :: "recruiter_calendar \<Rightarrow> json" where
  "calendar_item r = JObj [(''id'', JStr (cl_id r)), (''display_name'', JStr (cl_display_name r)),
     (''available'', JBool (cl_available r)), (''selected'', JBool (cl_selected r)), (''is_default'', JBool (cl_is_default r))]"

definition calendar_rows :: "string \<Rightarrow> recruiter_calendar list \<Rightarrow> recruiter_calendar list" where
  "calendar_rows recruiter rows =
     sort_key cl_display_name (sort_key cl_id (filter (\<lambda>r. cl_recruiter_id r = recruiter) rows))"

definition calendars_table :: "('n, 'w, 'c, 'd, 'k, 'h, recruiter_calendar list) call" where
  "calendars_table = (\<lambda>s. (Inr (ag_calendars s), s))"

definition recruiter_of_email :: "string \<Rightarrow> ('n, 'w, 'c, 'd, 'k, 'h, recruiter_config) call" where
  "recruiter_of_email email =
     io_bind (run_call (see (\<lambda>d. find (\<lambda>rc. rc_email rc = email) (db_recruiters d)))) (\<lambda>row.
       case row of None \<Rightarrow> http 404 ''Recruiter not found'' | Some rc \<Rightarrow> io_return rc)"

definition state_response :: "string \<Rightarrow> recruiter_config \<Rightarrow> instant \<Rightarrow> recruiter_calendar list \<Rightarrow> json" where
  "state_response email rc now rows = JObj [(''recruiter_email'', JStr email),
     (''version'', JInt (rc_calendar_selection_version rc)), (''default_id'', opt_json (default_id rows)),
     (''selected_ids'', JList (map JStr (selected_ids rows))), (''effective_ids'', JList (map JStr (effective_ids rows))),
     (''selection_incomplete'', JBool (selection_incomplete now rows)), (''calendars'', JList (map calendar_item rows))]"

definition calendar_state_of ::
  "('n, 'w, 'c, 'd, 'k, 'h) outside \<Rightarrow> string \<Rightarrow> ('n, 'w, 'c, 'd, 'k, 'h, json) call" where
  "calendar_state_of os email =
     io_bind (recruiter_of_email email) (\<lambda>rc.
     io_bind calendars_table (\<lambda>rows.
     io_bind (run_call (clock os)) (\<lambda>t.
       io_return (state_response email rc t (calendar_rows (rc_id rc) rows)))))"

definition discover_calendars_call ::
  "('n, 'w, 'c, 'd, 'k, 'h) outside \<Rightarrow> (string \<Rightarrow> string) \<Rightarrow> string \<Rightarrow> ('n, 'w, 'c, 'd, 'k, 'h, json) call" where
  "discover_calendars_call os fresh email = in_request
     (io_bind (run_call (clock os)) (\<lambda>t.
      io_bind (run_call (see db_recruiters)) (\<lambda>rcs.
      io_bind (run_call (in_calendars (discover_calendars (os_caldav os) (sv_settings (os_services os)) (os_origin os) t fresh rcs
         email))) (\<lambda>_.
        calendar_state_of os email))))"

definition audit_state :: "recruiter_calendar list \<Rightarrow> json" where
  "audit_state rows = JObj [(''selected_ids'', JList (map JStr (selected_ids rows))),
     (''effective_ids'', JList (map JStr (effective_ids rows))), (''default_id'', opt_json (default_id rows))]"

definition audited :: "string \<Rightarrow> instant \<Rightarrow> json \<Rightarrow> json \<Rightarrow> recruiter_config \<Rightarrow> recruiter_config" where
  "audited actor now before after rc = rc\<lparr>rc_calendar_selection_before := Some before,
     rc_calendar_selection_after := Some after, rc_calendar_selection_updated_by := Some actor,
     rc_calendar_selection_updated_at := Some now, rc_calendar_selection_version := rc_calendar_selection_version rc + 1\<rparr>"

text \<open>The calendars of the recruiter and the recruiter's row change in one transaction.\<close>

definition save_selection ::
  "string \<Rightarrow> (recruiter_calendar \<Rightarrow> recruiter_calendar) \<Rightarrow> (recruiter_config \<Rightarrow> recruiter_config) \<Rightarrow>
   ('n, 'w, 'c, 'd, 'k, 'h, unit) agent_io" where
  "save_selection recruiter f g = io_bind
     (\<lambda>s. (Inr (), s\<lparr>ag_calendars := update_where (\<lambda>r. cl_recruiter_id r = recruiter) f (ag_calendars s)\<rparr>))
     (\<lambda>_. save (\<lambda>d. d\<lparr>db_recruiters := update_where (\<lambda>rc. rc_id rc = recruiter) g (db_recruiters d)\<rparr>))"

definition select_calendar :: "string list \<Rightarrow> instant \<Rightarrow> recruiter_calendar \<Rightarrow> recruiter_calendar" where
  "select_calendar ids now r = r\<lparr>cl_selected := cl_id r \<in> set ids, cl_updated_at := now\<rparr>"

definition replace_calendar_selection ::
  "('n, 'w, 'c, 'd, 'k, 'h) outside \<Rightarrow> string \<Rightarrow> string \<Rightarrow> int \<Rightarrow> string list \<Rightarrow> ('n, 'w, 'c, 'd, 'k, 'h, json) call" where
  "replace_calendar_selection os email actor version ids = in_request
     (io_bind (recruiter_of_email email) (\<lambda>rc.
      need_call (rc_calendar_selection_version rc = version) 409 ''Calendar selection version conflict''
     (io_bind calendars_table (\<lambda>table.
      let rows = calendar_rows (rc_id rc) table in
      need_call (distinct ids) 422 ''calendar_ids must be unique''
     (need_call (list_all (\<lambda>i. list_ex (\<lambda>r. cl_id r = i \<and> cl_available r) rows) ids) 422 ''Unknown or unavailable calendar ID''
     (io_bind (run_call (clock os)) (\<lambda>t.
      io_bind (run_call (save_selection (rc_id rc) (select_calendar ids t)
          (audited actor t (audit_state rows) (audit_state (map (select_calendar ids t) rows))))) (\<lambda>_.
        calendar_state_of os email))))))))"

definition default_calendar :: "string \<Rightarrow> instant \<Rightarrow> recruiter_calendar \<Rightarrow> recruiter_calendar" where
  "default_calendar i now r = r\<lparr>cl_is_default := (cl_id r = i), cl_updated_at := now\<rparr>"

definition set_default_calendar ::
  "('n, 'w, 'c, 'd, 'k, 'h) outside \<Rightarrow> string \<Rightarrow> string \<Rightarrow> int \<Rightarrow> string \<Rightarrow> ('n, 'w, 'c, 'd, 'k, 'h, json) call" where
  "set_default_calendar os email actor version i = in_request
     (io_bind (recruiter_of_email email) (\<lambda>rc.
      need_call (rc_calendar_selection_version rc = version) 409 ''Calendar selection version conflict''
     (io_bind calendars_table (\<lambda>table.
      let rows = calendar_rows (rc_id rc) table in
      case find (\<lambda>r. cl_id r = i \<and> cl_available r) rows of
        None \<Rightarrow> http 422 ''Unknown or unavailable calendar ID''
      | Some target \<Rightarrow>
          io_bind (run_call (clock os)) (\<lambda>t.
          io_bind (run_call (save_selection (rc_id rc) (default_calendar i t)
              (\<lambda>x. audited actor t (audit_state rows) (audit_state (map (default_calendar i t) rows))
                 (x\<lparr>rc_caldav_calendar_url := Some (cl_canonical_url target)\<rparr>)))) (\<lambda>_.
            calendar_state_of os email))))))"

end
