(* ===== verification/Calls_Demo.thy ===== *)
theory Calls_Demo
imports Router_Calls Pipeline_Demo
begin

text \<open>
  Calls evaluated: one that comes from another conversation, one that was answered before, and a recording
  that its recruiter takes out of the interviews.  The properties of \<open>Tool_Calls\<close> and \<open>Non_Interview\<close> are applied
  to them.
\<close>

section \<open>A stranger's call\<close>

text \<open>Conversions that keep well typed values and refuse the others.\<close>

fun demo_coerce :: coercion where
  "demo_coerce Uuid_field (JStr s) = Some (JStr s)"
| "demo_coerce Status_field (JStr s) = Some (JStr s)"
| "demo_coerce Int_field (JInt n) = Some (JInt n)"
| "demo_coerce Text_field (JStr s) = Some (JStr s)"
| "demo_coerce Optional_text_field (JStr s) = Some (JStr s)"
| "demo_coerce Optional_text_field JNull = Some JNull"
| "demo_coerce Bool_field (JBool x) = Some (JBool x)"
| "demo_coerce _ _ = None"

lemma demo_coerce_typed: "keeps_typed demo_coerce (\<lambda>s. True)"
  by (auto simp: keeps_typed_def opt_json_def split: option.splits)

definition demo_app :: app_state where
  "demo_app = \<lparr>as_destinations = True, as_reroute = True, as_reassignment = True, as_non_interview = True,
     as_summary_email = True, as_toggle_title = ''s'', as_approve_text = ''y'', as_reject_text = ''n'',
     as_coerce = demo_coerce\<rparr>"

definition demo_intent_ids :: intent_ids where
  "demo_intent_ids = \<lparr>ii_row = ''i1'', ii_owner = ''o1''\<rparr>"

definition demo_body :: "string \<Rightarrow> route_body" where
  "demo_body user = \<lparr>rb_user = user, rb_channel = ''dm'', rb_destination = ''d1'', rb_version = 3, rb_key = ''k''\<rparr>"

theorem conversation_witness:
  "refused (route_interview demo_outside demo_app demo_intent_ids demo_pipeline_ids ''t'' ''r1'' (demo_body ''w'')) demo_agent \<and>
   bound_call demo_outside ''u'' ''dm'' demo_agent"
proof -
  have "\<not> bound_call demo_outside (rb_user (demo_body ''w'')) (rb_channel (demo_body ''w'')) demo_agent"
    "bound_call demo_outside ''u'' ''dm'' demo_agent" by code_simp+
  moreover have "cc_user (demo_confirmation\<lparr>cc_user := ''w''\<rparr>) = rb_user (demo_body ''w'')"
    "cc_channel (demo_confirmation\<lparr>cc_user := ''w''\<rparr>) = rb_channel (demo_body ''w'')"
    by (simp_all add: demo_confirmation_def demo_body_def)
  ultimately show ?thesis
    using call_needs_its_conversation[of demo_outside "demo_body ''w''" demo_agent "demo_confirmation\<lparr>cc_user := ''w''\<rparr>" demo_app
      "\<lambda>_. ''f''" "''n''" "''p''" "''q''" demo_intent_ids demo_pipeline_ids "''t''" "''r1''" demo_ids "''h''" "''c''" "''g''"
      "''x''" "''k''" 1 "\<lambda>i. i"]
    by simp
qed

section \<open>A repeated call\<close>

definition answered_row :: "intent_request \<Rightarrow> json \<Rightarrow> intent_replay" where
  "answered_row q j = (pending_intent q 0 (snd (snd (iq_key q))) ''o'')\<lparr>ir_state := Intent_completed, ir_response := Some j\<rparr>"

definition demo_request :: "string \<Rightarrow> intent_request" where
  "demo_request operation = intent_of_call demo_outside ''u'' operation ''k'' (route_payload ''r1'' (demo_body ''u''))"

definition demo_asked_twice :: "(nat, nas_files, nat, nat, nat, nat) agent" where
  "demo_asked_twice = (let d = (w_db demo_filed)\<lparr>db_intents :=
      [answered_row (demo_request ''route-interview:r1'') (interview_response demo_asked)]\<rparr>
     in demo_agent\<lparr>ag_world := demo_filed\<lparr>w_db := d, w_saved := d\<rparr>\<rparr>)"

theorem route_replay_witness:
  "route_interview demo_outside demo_app demo_intent_ids demo_pipeline_ids ''t'' ''r1'' (demo_body ''u'') demo_asked_twice =
     (Inr (interview_again demo_asked), demo_asked_twice)"
proof -
  have saved: "w_saved (ag_world demo_asked_twice) = w_db (ag_world demo_asked_twice)"
    by (simp add: demo_asked_twice_def Let_def)
  have caller: "bound_call demo_outside (rb_user (demo_body ''u'')) (rb_channel (demo_body ''u'')) demo_asked_twice" by code_simp
  have before: "answered_before (intent_of_call demo_outside (rb_user (demo_body ''u'')) (''route-interview:'' @ ''r1'')
      (rb_key (demo_body ''u'')) (route_payload ''r1'' (demo_body ''u''))) (interview_response demo_asked)
      (w_db (ag_world demo_asked_twice))" by code_simp
  have typed: "keeps_typed (as_coerce demo_app) (\<lambda>s. True)"
    using demo_coerce_typed by (simp add: demo_app_def)
  note once_only = completed_route_is_replayed[OF caller saved, where i = "''r1''" and app = demo_app]
  have "replayed_as demo_app INTERVIEW_ROUTE_RESPONSE (interview_response demo_asked) = Some (interview_again demo_asked)"
    using once_only typed by blast
  then show ?thesis
    using once_only before by (simp add: replay_answer_def)
qed

section \<open>A recording taken out of the interviews\<close>

definition demo_away :: "(nat, nas_files, nat, nat, nat, nat) outside" where
  "demo_away = demo_outside\<lparr>os_yandex := demo_yandex\<lparr>ya_answer := (\<lambda>q n.
       (Some \<lparr>resp_status = 200, resp_json = Some (JObj [(''href'', JStr ''w'')])\<rparr>, n))\<rparr>,
     os_download := (\<lambda>_ n. (Some \<lparr>dl_status = 200, dl_body = ([], False), dl_length = None\<rparr>, n)),
     os_store := \<lparr>s3_answer = (\<lambda>q n. case q of Presign k t \<Rightarrow> (Inr (JStr ''l''), n) | _ \<Rightarrow> demo_s3_answer q n)\<rparr>\<rparr>"

definition demo_undecided :: "(nat, nas_files, nat, nat, nat, nat) agent" where
  "demo_undecided = (let d = (w_db demo_filed)\<lparr>db_recordings := [demo_asked]\<rparr> in
     demo_agent\<lparr>ag_world := demo_filed\<lparr>w_db := d, w_saved := d\<rparr>\<rparr>)"

definition demo_decided :: "(nat, nas_files, nat, nat, nat, nat) agent" where
  "demo_decided = snd (decide_route demo_away ''r1'' demo_roots ''d1'' 3 demo_undecided)"

lemma demo_decision: "fst (decide_route demo_away ''r1'' demo_roots ''d1'' 3 demo_undecided) = Inr ()"
  by code_simp

text \<open>The row that was decided, and what the steps of the copy answer for it.\<close>

definition demo_taken :: recording where
  "demo_taken = the (recording_of (w_db (ag_world demo_decided)) ''r1'')"

definition demo_found :: "(nat, nas_files, nat, nat, nat, nat) agent" where
  "demo_found = snd (find_download demo_away ''p'' ''hr@x'' demo_decided)"

lemma demo_taken_row:
  "map_option r_status (recording_of (w_db (ag_world demo_decided)) ''r1'') = Some TRANSFER_STARTED"
  "r_status demo_taken = TRANSFER_STARTED" "r_id demo_taken = ''r1''" "r_disk_path demo_taken = ''p''"
  "identity_of demo_taken = ''f''" "rc_email demo_roots = ''hr@x''"
  by code_simp+

lemma demo_copy:
  "place_of demo_away demo_taken demo_roots ''non-interview'' demo_decided = (Inr (''/home/a/x'', ''a.webm''), demo_decided)"
  "fst (find_download demo_away ''p'' ''hr@x'' demo_decided) = Inr ''w''"
  "fst (get_download demo_away ''w'' demo_found) = Inr \<lparr>dl_status = 200, dl_body = ([], False), dl_length = None\<rparr>"
  "ag_store (snd (get_download demo_away ''w'' demo_found)) = (0, [])"
  "\<not> on_station demo_away"
  "fst (s3_upload (os_store demo_away) n ''/home/a/x'' ''a.webm'' ([], False) None ''r1'' ''f'' (0, [])) = Inr ''/home/a/x/a.webm''"
proof -
  have "fst (place_of demo_away demo_taken demo_roots ''non-interview'' demo_decided) = Inr (''/home/a/x'', ''a.webm'')"
    by code_simp
  moreover have "truthy (r_storage_key demo_taken)" "truthy (r_generated_filename demo_taken)" "\<not> on_station demo_away"
    by code_simp+
  ultimately show "place_of demo_away demo_taken demo_roots ''non-interview'' demo_decided = (Inr (''/home/a/x'', ''a.webm''), demo_decided)"
    by (simp add: place_of_def to_destination_def)
qed (code_simp+)

lemma demo_transferred:
  "\<exists>s. transfer demo_away demo_taken demo_roots ''non-interview'' demo_decided =
     (Inr \<lparr>tr_folder_path = ''/home/a/x'', tr_file_path = ''/home/a/x/a.webm'', tr_storage_is_durable = False\<rparr>, s)"
proof -
  obtain k where up: "s3_upload (os_store demo_away) MIN_MULTIPART_PART_SIZE ''/home/a/x'' ''a.webm'' ([], False) None ''r1'' ''f'' (0, []) =
      (Inr ''/home/a/x/a.webm'', k)"
    using demo_copy(6) by (metis prod.collapse)
  obtain t where got: "get_download demo_away ''w'' demo_found = (Inr \<lparr>dl_status = 200, dl_body = ([], False), dl_length = None\<rparr>, t)"
    using demo_copy(3) by (metis prod.collapse)
  have find: "find_download demo_away ''p'' ''hr@x'' demo_decided = (Inr ''w'', demo_found)"
    using demo_copy(2) by (simp add: prod_eq_iff demo_found_def)
  have "\<exists>s. put_file demo_away ''/home/a/x'' ''a.webm'' ([], False) None demo_taken t = (Inr ''/home/a/x/a.webm'', s)"
    using demo_copy(4,5) got demo_taken_row(3,5) up by (simp add: put_file_def in_store_def)
  then obtain s where "put_file demo_away ''/home/a/x'' ''a.webm'' ([], False) None demo_taken t = (Inr ''/home/a/x/a.webm'', s)"
    by blast
  then have "copy_file demo_away ''w'' ''/home/a/x'' ''a.webm'' demo_taken demo_found = (Inr ''/home/a/x/a.webm'', s)"
    by (simp add: copy_file_def stream_upload_def io_catch_app io_bind_app got known_length_def)
  moreover have "failing ''download'' (find_download demo_away ''p'' ''hr@x'') demo_decided = (Inr ''w'', demo_found)"
    by (simp add: failing_def io_catch_app find)
  ultimately show ?thesis
    by (simp add: transfer_def io_bind_app demo_copy(1,5) demo_taken_row(4,6) io_return_def)
qed

lemma demo_carried: "\<exists>x s. carry_out_route demo_away ''r1'' demo_roots demo_decided = (Inr x, s)"
proof -
  obtain s where tr: "transfer demo_away demo_taken demo_roots ''non-interview'' demo_decided =
     (Inr \<lparr>tr_folder_path = ''/home/a/x'', tr_file_path = ''/home/a/x/a.webm'', tr_storage_is_durable = False\<rparr>, s)"
    using demo_transferred by blast
  have "s3_answer (os_store demo_away) (Presign key t) = (\<lambda>n. (Inr (JStr ''l''), n))" for key t
    by (simp add: demo_away_def)
  then have link: "\<exists>t1. share_link demo_away path t = (Inr ''l'', t1)" for path t
    by (cases "ag_store t") (simp add: share_link_def failing_def io_catch_app demo_copy(5) io_bind_app in_store_def
        s3_share_link_def s3_call_def Let_def io_return_def)
  have "recording_of (w_db (ag_world demo_decided)) ''r1'' = Some demo_taken"
    using demo_taken_row(1) by (auto simp: demo_taken_def)
  moreover obtain g where "\<And>t. share_link demo_away ''/home/a/x/a.webm'' t = (Inr ''l'', g t)"
    using link[of "''/home/a/x/a.webm''"] by metis
  then have "\<exists>x t. carry_out_row demo_away demo_roots demo_taken demo_decided = (Inr x, t)"
    by (simp add: carry_out_row_def io_bind_app tr io_lift_def moved_to_def transition_to_eq copied_to_def linked_to_def
        demo_taken_row(2) io_return_def Let_def)
  ultimately show ?thesis
    by (auto simp: carry_out_route_def in_session_def io_bind_app)
qed

theorem non_interview_witness:
  "\<exists>x s1. route demo_away ''r1'' demo_roots ''d1'' 3 demo_undecided = (Inr x, s1) \<and> r_status x = COMPLETED \<and>
     r_version x = 5 \<and> \<not> r_storage_is_durable x"
proof -
  obtain x s1 where "carry_out_route demo_away ''r1'' demo_roots demo_decided = (Inr x, s1)"
    using demo_carried by blast
  then have run: "route demo_away ''r1'' demo_roots ''d1'' 3 demo_undecided = (Inr x, s1)"
    using demo_decision by (simp add: route_def io_bind_app demo_decided_def split_beta)
  then show ?thesis
    using non_interview_is_stored_without_a_card[OF run] demo_copy(5) by auto
qed

end
