(* ===== verification/Onboarding.thy ===== *)
theory Onboarding
imports Agent
begin

text \<open>
  \<open>tools/setup/configure_recruiter.py\<close>: the operator's commands that create a recruiter, run the preflights,
  activate them and change their settings later.  Each command runs in one session of its own; the
  operator's input is an argument.
\<close>

section \<open>What the operator names\<close>

text \<open>
  The functions outside the program: the canonical key of a time zone, the decoding of JSON, and the
  content of a file.
\<close>

record operator_env =
  oe_zone :: "string \<Rightarrow> string option"
  oe_json :: "string \<Rightarrow> json option"
  oe_list :: "string \<Rightarrow> string list option"
  oe_file :: "string \<Rightarrow> string option"

text \<open>\<open>str(uuid.UUID(compact))\<close> of 32 hexadecimal digits, and \<open>parse_notion_database_id\<close>.\<close>

definition any_hex :: "char \<Rightarrow> bool" where
  "any_hex c \<longleftrightarrow> is_hex (lower_char c)"

definition hex32 :: "string \<Rightarrow> bool" where
  "hex32 s \<longleftrightarrow> length s = 32 \<and> list_all any_hex s"

definition dashed_uuid :: "string \<Rightarrow> string" where
  "dashed_uuid s = (let h = map lower_char s in join_with ''-''
     [take 8 h, take 4 (drop 8 h), take 4 (drop 12 h), take 4 (drop 16 h), drop 20 h])"

definition before_char :: "char \<Rightarrow> string \<Rightarrow> string" where
  "before_char c = takeWhile (\<lambda>x. x \<noteq> c)"

text \<open>A \<open>$\<close> matches at the end and before a last line break.\<close>

definition chomped :: "string \<Rightarrow> string" where
  "chomped s = (if s \<noteq> [] \<and> last s = char_of (10::nat) then butlast s else s)"

definition parse_notion_database_id :: "string \<Rightarrow> (agent_error, string) result" where
  "parse_notion_database_id value =
     (let raw = py_strip value; compact = replace_char CHR ''-'' '''' raw;
          tail = chomped (before_char CHR ''#'' (before_char CHR ''?'' (last (split_on CHR ''/'' (strip_root raw)))));
          found = drop (length tail - 32) tail
      in if hex32 compact then Inr (dashed_uuid compact)
         else if hex32 found then Inr (dashed_uuid found)
         else Inl (Value_failed ''Explicit Notion URL/ID has no database UUID''))"

definition storage_base_folder :: "settings \<Rightarrow> string \<Rightarrow> string" where
  "storage_base_folder st storage_prefix =
     (let p = strip_by space_slash storage_prefix in if st_storage_provider st = Synology then CHR ''/'' # p else p)"

record database_inspection =
  di_database_id :: string
  di_title :: string
  di_property_types :: "(string \<times> string) list"

text \<open>\<open>NotionInspector.inspect\<close>: with the map the new row will have, or the global one.\<close>

definition inspect ::
  "('n, 'w, 'c, 'd, 'k, 'h) outside \<Rightarrow> string \<Rightarrow> notion_property_map option \<Rightarrow>
   ('n, 'w, 'c, 'd, 'k, 'h, database_inspection) agent_io" where
  "inspect os database_id pm =
     (let sv = os_services os in
      io_bind (io_lift (case pm of Some m \<Rightarrow> Inr m
        | None \<Rightarrow> map_sum Schema_failed id (default_notion_property_map (sv_settings sv)))) (\<lambda>m.
      io_bind (in_world (in_notion (inspect_database (sv_notion sv) m database_id) Notion_failed)) (\<lambda>(title, schema).
        io_return \<lparr>di_database_id = database_id, di_title = title, di_property_types = ns_property_types schema\<rparr>)))"

section \<open>Creating a recruiter\<close>

definition need_value :: "bool \<Rightarrow> string \<Rightarrow> ('n, 'w, 'c, 'd, 'k, 'h, 'a) agent_io \<Rightarrow> ('n, 'w, 'c, 'd, 'k, 'h, 'a) agent_io" where
  "need_value b why m = io_guard b (Value_failed why) m"

text \<open>\<open>email.strip().casefold()\<close>.\<close>

definition normal_email :: "('n, 'w, 'c, 'd, 'k, 'h) outside \<Rightarrow> string \<Rightarrow> string" where
  "normal_email os email = fold_case (sv_notion (os_services os)) (py_strip email)"

definition provisioned :: "settings \<Rightarrow> string \<Rightarrow> (agent_error, unit) result" where
  "provisioned st email =
     check_that (email \<in> fst ` set (st_yandex_refresh_tokens st))
       (Value_failed ''Yandex refresh token is not provisioned for recruiter'')
    (check_that (email \<in> fst ` set (st_yandex_caldav_passwords st))
       (Value_failed ''CalDAV app password is not provisioned for recruiter'') (Inr ()))"

record configuration =
  cf_email :: string
  cf_notion :: string
  cf_user :: string
  cf_dm_channel :: string
  cf_timezone :: string
  cf_storage_prefix :: string
  cf_overrides :: "notion_overrides option"
  cf_roots :: "string list option"

definition no_overrides :: notion_overrides where
  "no_overrides = \<lparr>ov_name_prop = None, ov_date_prop = None, ov_recording_prop = None, ov_project_prop = None,
     ov_project_prop_type = None, ov_contacts_mode = None, ov_contacts_prop = None, ov_contacts_relation_prop = None,
     ov_contacts_target_prop = None\<rparr>"

text \<open>The columns that stay \<open>NULL\<close>, to inherit the global values, when nothing is named.\<close>

definition stored_map :: "notion_overrides option \<Rightarrow> notion_overrides column" where
  "stored_map v = (case v of None \<Rightarrow> Null | Some x \<Rightarrow> if x = no_overrides then Null else Value x)"

definition stored_roots :: "string list option \<Rightarrow> (agent_error, string list column) result" where
  "stored_roots roots =
     (case roots of
        None \<Rightarrow> Inr Null
      | Some [] \<Rightarrow> Inr Null
      | Some rs \<Rightarrow> (case validate_synology_interview_roots rs of
            Inl e \<Rightarrow> Inl (Schema_failed Roots_invalid) | Inr xs \<Rightarrow> Inr (Value xs)))"

definition configured_row ::
  "settings \<Rightarrow> instant \<Rightarrow> string \<Rightarrow> string \<Rightarrow> string \<Rightarrow> string \<Rightarrow> string list column \<Rightarrow> configuration \<Rightarrow> recruiter_config" where
  "configured_row st now new_id email database_id zone roots c =
     \<lparr>rc_id = new_id, rc_email = email, rc_display_name = None, rc_notion_database_id = database_id,
      rc_synology_base_folder = storage_base_folder st (cf_storage_prefix c),
      rc_mattermost_user_id = Some (py_strip (cf_user c)),
      rc_mattermost_dm_channel = (let ch = py_strip (cf_dm_channel c) in if ch = '''' then None else Some ch),
      rc_observer_mattermost_user_id = None, rc_observer_mattermost_dm_channel = None, rc_timezone = zone,
      rc_notion_preflight_token_hash = None, rc_notion_preflight_database_id = None,
      rc_notion_preflight_schema_hash = None, rc_notion_preflight_synthetic_page_id = None,
      rc_notion_preflight_completed_at = None, rc_caldav_calendar_url = None, rc_calendar_selection_version = 0,
      rc_calendar_selection_updated_at = None, rc_calendar_selection_updated_by = None,
      rc_calendar_selection_before = None, rc_calendar_selection_after = None,
      rc_notion_property_map = stored_map (cf_overrides c), rc_synology_interview_roots = roots,
      rc_matching_signals = None, rc_active = False, rc_daily_digest_enabled = True,
      rc_created_at = now, rc_updated_at = now\<rparr>"

definition add_recruiter :: "recruiter_config \<Rightarrow> db \<Rightarrow> db" where
  "add_recruiter rc d = d\<lparr>db_recruiters := db_recruiters d @ [rc]\<rparr>"

definition configure_recruiter ::
  "('n, 'w, 'c, 'd, 'k, 'h) outside \<Rightarrow> operator_env \<Rightarrow> string \<Rightarrow> configuration \<Rightarrow> bool \<Rightarrow> database_inspection option \<Rightarrow>
   ('n, 'w, 'c, 'd, 'k, 'h, recruiter_config) agent_io" where
  "configure_recruiter os oe new_id c confirmed inspection =
     (let st = sv_settings (os_services os); email = normal_email os (cf_email c) in
      io_bind (io_lift (provisioned st email)) (\<lambda>_.
      io_bind (see (\<lambda>d. list_ex (\<lambda>rc. rc_email rc = email) (db_recruiters d))) (\<lambda>taken.
      need_value (\<not> taken) ''Recruiter already exists''
     (io_bind (io_lift (case oe_zone oe (py_strip (cf_timezone c)) of
         None \<Rightarrow> Inl (Value_failed ''Recruiter timezone is invalid'') | Some z \<Rightarrow> Inr z)) (\<lambda>zone.
      io_bind (io_lift (map_sum Schema_failed id (merge_notion_property_map st (cf_overrides c)))) (\<lambda>m.
      io_bind (io_lift (stored_roots (cf_roots c))) (\<lambda>roots.
      io_bind (io_lift (parse_notion_database_id (cf_notion c))) (\<lambda>database_id.
      io_bind (case inspection of None \<Rightarrow> inspect os database_id (Some m) | Some x \<Rightarrow> io_return x) (\<lambda>x.
      need_value (di_database_id x = database_id) ''Database inspection does not match explicit Notion target''
     (need_value confirmed ''Operator confirmation is required''
     (io_bind (clock os) (\<lambda>t.
      let rc = configured_row st t new_id email database_id zone roots c in
      io_bind (save (add_recruiter rc)) (\<lambda>_. io_return rc)))))))))))))"

section \<open>Preflights\<close>

definition recruiter_where ::
  "(recruiter_config \<Rightarrow> bool) \<Rightarrow> string \<Rightarrow> ('n, 'w, 'c, 'd, 'k, 'h, recruiter_config) agent_io" where
  "recruiter_where p why = io_bind (see (\<lambda>d. find p (db_recruiters d))) (\<lambda>row.
     case row of None \<Rightarrow> io_raise (Value_failed why) | Some rc \<Rightarrow> io_return rc)"

definition inactive_recruiter ::
  "('n, 'w, 'c, 'd, 'k, 'h) outside \<Rightarrow> string \<Rightarrow> ('n, 'w, 'c, 'd, 'k, 'h, recruiter_config) agent_io" where
  "inactive_recruiter os email =
     recruiter_where (\<lambda>rc. rc_email rc = normal_email os email \<and> \<not> rc_active rc) ''Inactive recruiter config not found''"

definition save_recruiter :: "recruiter_config \<Rightarrow> ('n, 'w, 'c, 'd, 'k, 'h, recruiter_config) agent_io" where
  "save_recruiter x = io_bind
     (save (\<lambda>d. d\<lparr>db_recruiters := update_where (\<lambda>rc. rc_id rc = rc_id x) (\<lambda>_. x) (db_recruiters d)\<rparr>))
     (\<lambda>_. io_return x)"

definition preflighted :: "preflight_digests \<Rightarrow> settings \<Rightarrow> notion_property_map \<Rightarrow> string \<Rightarrow> instant \<Rightarrow> recruiter_config \<Rightarrow> recruiter_config" where
  "preflighted h st m page now rc = rc\<lparr>rc_notion_preflight_token_hash := Some (token_digest h (st_notion_token st)),
     rc_notion_preflight_database_id := Some (rc_notion_database_id rc),
     rc_notion_preflight_schema_hash := Some (notion_schema_hash h m),
     rc_notion_preflight_synthetic_page_id := Some page, rc_notion_preflight_completed_at := Some now\<rparr>"

definition preflight_recruiter_notion ::
  "('n, 'w, 'c, 'd, 'k, 'h) outside \<Rightarrow> string \<Rightarrow> string \<Rightarrow> ('n, 'w, 'c, 'd, 'k, 'h, recruiter_config) agent_io" where
  "preflight_recruiter_notion os email page =
     (let sv = os_services os; st = sv_settings sv in
      io_bind (inactive_recruiter os email) (\<lambda>rc.
      io_bind (io_lift (map_sum Schema_failed id (resolve_notion_property_map st (Some rc)))) (\<lambda>m.
      io_bind (in_world (in_notion (preflight_database (sv_notion sv) m (rc_notion_database_id rc) page) Notion_failed)) (\<lambda>_.
      io_bind (clock os) (\<lambda>t.
        save_recruiter (preflighted (os_digests os) st m page t rc))))))"

text \<open>The bindings that a preflight and an activation ask for.\<close>

definition fully_bound :: "settings \<Rightarrow> recruiter_config \<Rightarrow> (agent_error, unit) result" where
  "fully_bound st rc = res_bind (provisioned st (rc_email rc)) (\<lambda>_.
     check_that (truthy (rc_mattermost_user_id rc)) (Value_failed ''Mattermost recruiter mapping is missing'')
    (check_that (truthy (rc_mattermost_dm_channel rc)) (Value_failed ''Mattermost DM channel binding is missing'') (Inr ())))"

definition probe_token :: "('n, 'w, 'c, 'd, 'k, 'h) outside \<Rightarrow> recruiter_config \<Rightarrow> ('n, 'w, 'c, 'd, 'k, 'h, string) agent_io" where
  "probe_token os rc = in_disk (get_access_token (os_yandex os) (sv_settings (os_services os)) (rc_email rc))"

definition probe_chat :: "('n, 'w, 'c, 'd, 'k, 'h) outside \<Rightarrow> recruiter_config \<Rightarrow> ('n, 'w, 'c, 'd, 'k, 'h, unit) agent_io" where
  "probe_chat os rc =
     (let sv = os_services os; user = opt_or (rc_mattermost_user_id rc) ''''; channel = opt_or (rc_mattermost_dm_channel rc) '''' in
      if st_mattermost_delivery_enabled (sv_settings sv)
      then io_bind (in_world (in_chat (probe_user (sv_chat sv) user))) (\<lambda>_.
           in_world (in_chat (validate_direct_channel (sv_chat sv) (sv_show sv) user channel)))
      else io_return ())"

definition probe_station :: "('n, 'w, 'c, 'd, 'k, 'h) outside \<Rightarrow> recruiter_config \<Rightarrow> ('n, 'w, 'c, 'd, 'k, 'h, unit) agent_io" where
  "probe_station os rc =
     (let sv = os_services os in
      if st_storage_provider (sv_settings sv) = Synology
      then io_bind (in_world (in_nas (preflight (sv_nas sv) (rc_synology_base_folder rc)))) (\<lambda>x.
           need_value (pf_api_available x \<and> pf_root_exists x \<and> pf_root_writable x \<and> pf_share_links_available x)
             ''Synology root preflight failed'' (io_return ()))
      else io_return ())"

definition own_calendars :: "recruiter_config \<Rightarrow> ('n, 'w, 'c, 'd, 'k, 'h, recruiter_calendar list) agent_io" where
  "own_calendars rc = (\<lambda>s. (Inr (filter (\<lambda>r. cl_recruiter_id r = rc_id rc) (ag_calendars s)), s))"

definition set_default ::
  "recruiter_config \<Rightarrow> recruiter_calendar \<Rightarrow> ('n, 'w, 'c, 'd, 'k, 'h, unit) agent_io" where
  "set_default rc target = (\<lambda>s. (Inr (), s\<lparr>ag_calendars := update_where (\<lambda>r. cl_recruiter_id r = rc_id rc)
     (\<lambda>r. r\<lparr>cl_is_default := cl_id r = cl_id target\<rparr>) (ag_calendars s)\<rparr>))"

definition preflight_recruiter ::
  "('n, 'w, 'c, 'd, 'k, 'h) outside \<Rightarrow> (string \<Rightarrow> string) \<Rightarrow> string \<Rightarrow> string \<Rightarrow> string \<Rightarrow>
   ('n, 'w, 'c, 'd, 'k, 'h, recruiter_config) agent_io" where
  "preflight_recruiter os fresh email page calendar =
     (let sv = os_services os; st = sv_settings sv in
      io_bind (inactive_recruiter os email) (\<lambda>rc.
      io_bind (io_lift (fully_bound st rc)) (\<lambda>_.
      io_bind (probe_token os rc) (\<lambda>_.
      io_bind (clock os) (\<lambda>t.
      io_bind (see db_recruiters) (\<lambda>rcs.
      io_bind (in_calendars (discover_calendars (os_caldav os) st (os_origin os) t fresh rcs (rc_email rc))) (\<lambda>_.
      io_bind (own_calendars rc) (\<lambda>rows.
      io_bind (io_lift (case find (\<lambda>r. cl_id r = calendar \<and> cl_available r) rows of
          None \<Rightarrow> Inl (Value_failed ''Explicit default calendar is unknown or unavailable'') | Some r \<Rightarrow> Inr r)) (\<lambda>target.
      io_bind (probe_chat os rc) (\<lambda>_.
      io_bind (probe_station os rc) (\<lambda>_.
      io_bind (set_default rc target) (\<lambda>_.
      io_bind (save_recruiter (rc\<lparr>rc_caldav_calendar_url := Some (cl_canonical_url target)\<rparr>)) (\<lambda>_.
        preflight_recruiter_notion os (rc_email rc) page)))))))))))))"

section \<open>Activation\<close>

definition current_default :: "instant \<Rightarrow> recruiter_calendar list \<Rightarrow> bool" where
  "current_default now rows \<longleftrightarrow> (case filter (\<lambda>r. cl_is_default r \<and> cl_available r) rows of
      [r] \<Rightarrow> \<not> calendar_is_stale now r
    | _ \<Rightarrow> False)"

definition activate_recruiter ::
  "('n, 'w, 'c, 'd, 'k, 'h) outside \<Rightarrow> string \<Rightarrow> ('n, 'w, 'c, 'd, 'k, 'h, recruiter_config) agent_io" where
  "activate_recruiter os email =
     (let st = sv_settings (os_services os) in
      io_bind (inactive_recruiter os email) (\<lambda>rc.
      io_bind (io_lift (fully_bound st rc)) (\<lambda>_.
      need_value (require_notion_preflight (os_digests os) st rc = Inr ()) ''Notion preflight is missing or stale''
     (io_bind (own_calendars rc) (\<lambda>rows.
      io_bind (clock os) (\<lambda>t.
      need_value (current_default t rows) ''Current calendar discovery and one explicit default are required''
     (io_bind (probe_token os rc) (\<lambda>_.
      io_bind (probe_chat os rc) (\<lambda>_.
        save_recruiter (rc\<lparr>rc_active := True\<rparr>))))))))))"

section \<open>Later changes\<close>

definition any_recruiter ::
  "('n, 'w, 'c, 'd, 'k, 'h) outside \<Rightarrow> string \<Rightarrow> ('n, 'w, 'c, 'd, 'k, 'h, recruiter_config) agent_io" where
  "any_recruiter os email = recruiter_where (\<lambda>rc. rc_email rc = normal_email os email) ''Recruiter config not found''"

definition set_daily_digest ::
  "('n, 'w, 'c, 'd, 'k, 'h) outside \<Rightarrow> string \<Rightarrow> bool \<Rightarrow> ('n, 'w, 'c, 'd, 'k, 'h, recruiter_config) agent_io" where
  "set_daily_digest os email enabled =
     io_bind (any_recruiter os email) (\<lambda>rc. save_recruiter (rc\<lparr>rc_daily_digest_enabled := enabled\<rparr>))"

definition set_observer ::
  "('n, 'w, 'c, 'd, 'k, 'h) outside \<Rightarrow> string \<Rightarrow> string \<Rightarrow> string \<Rightarrow> ('n, 'w, 'c, 'd, 'k, 'h, recruiter_config) agent_io" where
  "set_observer os email user channel =
     need_value (py_strip user \<noteq> '''' \<and> py_strip channel \<noteq> '''') ''Observer Mattermost user id and DM channel are both required''
      (io_bind (any_recruiter os email) (\<lambda>rc. save_recruiter (rc\<lparr>rc_observer_mattermost_user_id := Some (py_strip user),
         rc_observer_mattermost_dm_channel := Some (py_strip channel)\<rparr>)))"

definition clear_observer ::
  "('n, 'w, 'c, 'd, 'k, 'h) outside \<Rightarrow> string \<Rightarrow> ('n, 'w, 'c, 'd, 'k, 'h, recruiter_config) agent_io" where
  "clear_observer os email = io_bind (any_recruiter os email) (\<lambda>rc.
     save_recruiter (rc\<lparr>rc_observer_mattermost_user_id := None, rc_observer_mattermost_dm_channel := None\<rparr>))"

text \<open>The dump of the overrides that are not null, in the order of the fields.\<close>

definition stored_signals :: "json \<Rightarrow> json" where
  "stored_signals overrides = JObj (filter (\<lambda>m. snd m \<noteq> JNull) (map (\<lambda>k. (k, jget k overrides)) SIGNAL_KEYS))"

definition set_matching_signals ::
  "('n, 'w, 'c, 'd, 'k, 'h) outside \<Rightarrow> string \<Rightarrow> json option \<Rightarrow> ('n, 'w, 'c, 'd, 'k, 'h, recruiter_config) agent_io" where
  "set_matching_signals os email overrides =
     io_bind (any_recruiter os email) (\<lambda>rc.
     io_bind (io_lift (case overrides of
         None \<Rightarrow> Inr None
       | Some j \<Rightarrow>
           if members j = [] then Inr None
           else (case merge_matching_signals (os_compile os) (os_default_signals os) j of
             Inl e \<Rightarrow> Inl (Schema_failed e) | Inr s \<Rightarrow> Inr (Some (stored_signals j))))) (\<lambda>stored.
       save_recruiter (rc\<lparr>rc_matching_signals := stored\<rparr>)))"

section \<open>The commands\<close>

text \<open>The arguments of a command; \<open>cl_answer\<close> is what the operator types at the prompt.\<close>

record cli_args =
  ca_config :: configuration
  ca_flags :: notion_overrides
  ca_roots :: "string option"
  ca_page :: string
  ca_calendar :: string
  ca_enabled :: bool
  ca_observer_user :: string
  ca_observer_channel :: string
  ca_signals :: "string option"
  ca_answer :: string

datatype operator_command =
    Cmd_configure | Cmd_preflight | Cmd_activate | Cmd_set_digest | Cmd_set_observer | Cmd_clear_observer
  | Cmd_set_signals

definition notion_overrides_from_args :: "cli_args \<Rightarrow> notion_overrides option" where
  "notion_overrides_from_args a = (if ca_flags a = no_overrides then None else Some (ca_flags a))"

text \<open>\<open>--clear\<close> is no text; a text that begins with \<open>@\<close> names a file.\<close>

definition matching_signals_overrides_from_args ::
  "operator_env \<Rightarrow> cli_args \<Rightarrow> (agent_error, json option) result" where
  "matching_signals_overrides_from_args oe a =
     (case ca_signals a of
        None \<Rightarrow> Inr None
      | Some raw \<Rightarrow>
          (case (if prefix ''@'' raw then oe_file oe (drop 1 raw) else Some raw) of
             None \<Rightarrow> Inl (Value_failed ''no file'')
           | Some text \<Rightarrow>
               (case oe_json oe text of
                  None \<Rightarrow> Inl (Value_failed ''Invalid JSON for matching signals'')
                | Some j \<Rightarrow>
                    if \<not> is_obj j then Inl (Value_failed ''Matching signals JSON must be an object'')
                    else Inr (if members j = [] then None else Some j))))"

definition synology_roots_from_args :: "operator_env \<Rightarrow> cli_args \<Rightarrow> (agent_error, string list option) result" where
  "synology_roots_from_args oe a =
     (case ca_roots a of
        None \<Rightarrow> Inr None
      | Some raw \<Rightarrow>
          (case res_bind (parse_text_list (oe_list oe) raw) validate_synology_interview_roots of
             Inl e \<Rightarrow> Inl (Schema_failed Roots_invalid)
           | Inr xs \<Rightarrow> Inr (if xs = [] then None else Some xs)))"

definition said_yes :: "cli_args \<Rightarrow> bool" where
  "said_yes a \<longleftrightarrow> py_strip (ca_answer a) = ''yes''"

definition confirmed_only :: "cli_args \<Rightarrow> ('n, 'w, 'c, 'd, 'k, 'h, 'a) agent_io \<Rightarrow> ('n, 'w, 'c, 'd, 'k, 'h, 'a) agent_io" where
  "confirmed_only a m = need_value (said_yes a) ''Operator confirmation is required'' m"

definition run_configure ::
  "('n, 'w, 'c, 'd, 'k, 'h) outside \<Rightarrow> operator_env \<Rightarrow> string \<Rightarrow> cli_args \<Rightarrow> ('n, 'w, 'c, 'd, 'k, 'h, recruiter_config) agent_io" where
  "run_configure os oe new_id a =
     (let overrides = notion_overrides_from_args a; c = ca_config a in
      io_bind (io_lift (synology_roots_from_args oe a)) (\<lambda>roots.
      io_bind (io_lift (parse_notion_database_id (cf_notion c))) (\<lambda>database_id.
      io_bind (io_lift (map_sum Schema_failed id (merge_notion_property_map (sv_settings (os_services os)) overrides))) (\<lambda>m.
      io_bind (inspect os database_id (Some m)) (\<lambda>x.
        configure_recruiter os oe new_id (c\<lparr>cf_overrides := overrides, cf_roots := roots\<rparr>) (said_yes a) (Some x))))))"

fun run_command ::
  "('n, 'w, 'c, 'd, 'k, 'h) outside \<Rightarrow> operator_env \<Rightarrow> (string \<Rightarrow> string) \<Rightarrow> cli_args \<Rightarrow> operator_command \<Rightarrow>
   ('n, 'w, 'c, 'd, 'k, 'h, recruiter_config) agent_io" where
  "run_command os oe fresh a Cmd_configure = run_configure os oe (fresh '''') a"
| "run_command os oe fresh a Cmd_preflight =
     preflight_recruiter os fresh (cf_email (ca_config a)) (ca_page a) (ca_calendar a)"
| "run_command os oe fresh a Cmd_activate = confirmed_only a (activate_recruiter os (cf_email (ca_config a)))"
| "run_command os oe fresh a Cmd_set_digest =
     confirmed_only a (set_daily_digest os (cf_email (ca_config a)) (ca_enabled a))"
| "run_command os oe fresh a Cmd_set_observer =
     confirmed_only a (set_observer os (cf_email (ca_config a)) (ca_observer_user a) (ca_observer_channel a))"
| "run_command os oe fresh a Cmd_clear_observer = confirmed_only a (clear_observer os (cf_email (ca_config a)))"
| "run_command os oe fresh a Cmd_set_signals =
     io_bind (io_lift (matching_signals_overrides_from_args oe a)) (\<lambda>overrides.
       confirmed_only a (set_matching_signals os (cf_email (ca_config a)) overrides))"

definition operate ::
  "('n, 'w, 'c, 'd, 'k, 'h) outside \<Rightarrow> operator_env \<Rightarrow> (string \<Rightarrow> string) \<Rightarrow> cli_args \<Rightarrow> operator_command \<Rightarrow>
   ('n, 'w, 'c, 'd, 'k, 'h, recruiter_config) agent_io" where
  "operate os oe fresh a cmd = in_session (run_command os oe fresh a cmd)"

section \<open>Who is active\<close>

text \<open>
  What an active recruiter has: the credentials, the Mattermost bindings and a preflight of the Notion
  database, token and schema of the settings.
\<close>

definition ready :: "preflight_digests \<Rightarrow> settings \<Rightarrow> recruiter_config \<Rightarrow> bool" where
  "ready h st rc \<longleftrightarrow> (rc_active rc \<longrightarrow> fully_bound st rc = Inr () \<and> require_notion_preflight h st rc = Inr ())"

definition all_ready :: "('n, 'w, 'c, 'd, 'k, 'h) outside \<Rightarrow> db \<Rightarrow> bool" where
  "all_ready os d \<longleftrightarrow> list_all (ready (os_digests os) (sv_settings (os_services os))) (db_recruiters d)"

definition tables_ready :: "('n, 'w, 'c, 'd, 'k, 'h) outside \<Rightarrow> ('n, 'w, 'c, 'd, 'k, 'h) agent \<Rightarrow> bool" where
  "tables_ready os s \<longleftrightarrow> all_ready os (w_db (ag_world s)) \<and> all_ready os (w_saved (ag_world s))"

lemma preflight_frame:
  "require_notion_preflight h st (rc\<lparr>rc_daily_digest_enabled := b\<rparr>) = require_notion_preflight h st rc"
  "require_notion_preflight h st (rc\<lparr>rc_observer_mattermost_user_id := u, rc_observer_mattermost_dm_channel := c\<rparr>) =
     require_notion_preflight h st rc"
  "require_notion_preflight h st (rc\<lparr>rc_matching_signals := j\<rparr>) = require_notion_preflight h st rc"
  "require_notion_preflight h st (rc\<lparr>rc_active := True\<rparr>) = require_notion_preflight h st rc"
  unfolding require_notion_preflight_def resolve_notion_property_map_def Let_def
  by (simp_all split: column.splits sum.splits)

lemma ready_frame:
  "ready h st (rc\<lparr>rc_daily_digest_enabled := b\<rparr>) = ready h st rc"
  "ready h st (rc\<lparr>rc_observer_mattermost_user_id := u, rc_observer_mattermost_dm_channel := c\<rparr>) = ready h st rc"
  "ready h st (rc\<lparr>rc_matching_signals := j\<rparr>) = ready h st rc"
  by (simp_all add: ready_def fully_bound_def preflight_frame)

lemma ready_inactive: "\<not> rc_active rc \<Longrightarrow> ready h st rc"
  by (simp add: ready_def)

lemma ready_activated:
  "fully_bound st rc = Inr () \<Longrightarrow> require_notion_preflight h st rc = Inr () \<Longrightarrow> ready h st (rc\<lparr>rc_active := True\<rparr>)"
  by (simp add: ready_def preflight_frame) (simp add: fully_bound_def)

named_theorems ready_rules \<open>routines that leave every active recruiter ready\<close>

lemma keeps_ready_services [ready_rules]:
  "keeps (tables_ready os) (in_disk m1)" "keeps (tables_ready os) (in_calendars m2)"
  "keeps (tables_ready os) (in_world (in_notion m3 err))" "keeps (tables_ready os) (in_world (in_chat m4))"
  "keeps (tables_ready os) (in_world (in_nas m5))" "keeps (tables_ready os) (own_calendars rc)"
  "keeps (tables_ready os) (set_default rc target)"
  by (auto simp: keeps_def tables_ready_def in_disk_def in_calendars_def in_world_def in_notion_def in_chat_def in_nas_def
      own_calendars_def set_default_def split: prod.splits sum.splits)

lemma keeps_ready_save [ready_rules]:
  "ready (os_digests os) (sv_settings (os_services os)) x \<Longrightarrow> keeps (tables_ready os) (save_recruiter x)"
  by (auto simp: keeps_def tables_ready_def all_ready_def save_recruiter_def io_bind_app list_all_iff in_update_where)

lemma keeps_ready_add [ready_rules]:
  "ready (os_digests os) (sv_settings (os_services os)) x \<Longrightarrow> keeps (tables_ready os) (save (add_recruiter x))"
  by (auto simp: keeps_def tables_ready_def all_ready_def add_recruiter_def)

text \<open>The row that a command reads is one of the table.\<close>

lemma keeps_ready_where [ready_rules]:
  assumes "\<And>rc. p rc \<Longrightarrow> ready (os_digests os) (sv_settings (os_services os)) rc \<Longrightarrow> keeps (tables_ready os) (f rc)"
  shows "keeps (tables_ready os) (io_bind (recruiter_where p why) f)"
proof (rule keepsI)
  fix s v s1
  assume s: "tables_ready os s" and run: "io_bind (recruiter_where p why) f s = (v, s1)"
  show "tables_ready os s1"
  proof (cases "find p (db_recruiters (w_db (ag_world s)))")
    case None
    then show ?thesis using s run by (auto simp: recruiter_where_def io_bind_app io_raise_def)
  next
    case (Some rc)
    then have rc: "p rc" "ready (os_digests os) (sv_settings (os_services os)) rc"
      using s find_SomeD[OF Some] by (auto simp: tables_ready_def all_ready_def list_all_iff)
    show ?thesis
      using keepsD[OF assms[OF rc] s] run Some by (auto simp: recruiter_where_def io_bind_app io_return_def)
  qed
qed

lemma keeps_ready_probes [ready_rules]:
  "keeps (tables_ready os) (probe_token os rc)" "keeps (tables_ready os) (probe_chat os rc)"
  "keeps (tables_ready os) (probe_station os rc)" "keeps (tables_ready os) (inspect os i pm)"
  unfolding probe_token_def probe_chat_def probe_station_def inspect_def need_value_def Let_def
  by (rule ready_rules keeps_rules)+

lemma keeps_ready_configure [ready_rules]: "keeps (tables_ready os) (configure_recruiter os oe new_id c b x)"
  unfolding configure_recruiter_def need_value_def Let_def
  by (rule ready_rules keeps_rules ready_inactive | simp add: configured_row_def)+

lemma keeps_ready_preflight_notion [ready_rules]: "keeps (tables_ready os) (preflight_recruiter_notion os email page)"
  unfolding preflight_recruiter_notion_def inactive_recruiter_def Let_def
  by (rule ready_rules keeps_rules ready_inactive | simp add: preflighted_def)+

lemma keeps_ready_preflight [ready_rules]: "keeps (tables_ready os) (preflight_recruiter os fresh email page calendar)"
  unfolding preflight_recruiter_def inactive_recruiter_def Let_def
  by (rule ready_rules keeps_rules ready_inactive | simp)+

lemma keeps_ready_activate [ready_rules]: "keeps (tables_ready os) (activate_recruiter os email)"
  unfolding activate_recruiter_def inactive_recruiter_def need_value_def Let_def
  apply (rule ready_rules)
  apply (rule keeps_bind_lift)
  apply (rule keeps_guard)
  apply (rule keeps_rules ready_rules ready_activated | simp)+
  done

lemma keeps_ready_changes [ready_rules]:
  "keeps (tables_ready os) (set_daily_digest os email b)" "keeps (tables_ready os) (set_observer os email u ch)"
  "keeps (tables_ready os) (clear_observer os email)" "keeps (tables_ready os) (set_matching_signals os email overrides)"
  unfolding set_daily_digest_def set_observer_def clear_observer_def set_matching_signals_def any_recruiter_def need_value_def
  by (rule ready_rules keeps_rules | simp add: ready_frame)+

lemma keeps_ready_command: "keeps (tables_ready os) (run_command os oe fresh a cmd)"
  by (cases cmd; simp add: run_configure_def confirmed_only_def need_value_def Let_def)
    (rule ready_rules keeps_rules)+

lemma keeps_ready_operate: "keeps (tables_ready os) (operate os oe fresh a cmd)"
proof (rule keepsI)
  fix s v s1
  assume s: "tables_ready os s" and "operate os oe fresh a cmd s = (v, s1)"
  then obtain s2 where run: "run_command os oe fresh a cmd s = (v, s2)"
      and s1: "s1 = s2\<lparr>ag_world := (ag_world s2)\<lparr>w_db := w_saved (ag_world s2)\<rparr>\<rparr>"
    by (auto simp: operate_def in_session_def split: prod.splits)
  show "tables_ready os s1" using keepsD[OF keeps_ready_command s run] s1 by (simp add: tables_ready_def)
qed

text \<open>The states that the operator's commands reach, each command with any arguments and any outcome.\<close>

inductive operated ::
  "('n, 'w, 'c, 'd, 'k, 'h) outside \<Rightarrow> operator_env \<Rightarrow> ('n, 'w, 'c, 'd, 'k, 'h) agent \<Rightarrow>
   ('n, 'w, 'c, 'd, 'k, 'h) agent \<Rightarrow> bool" for os oe s where
  no_command: "operated os oe s s"
| one_command: "operated os oe s t \<Longrightarrow> operate os oe fresh a cmd t = (v, t1) \<Longrightarrow> operated os oe s t1"

lemma operated_ready: "operated os oe s t \<Longrightarrow> tables_ready os s \<Longrightarrow> tables_ready os t"
  by (induction rule: operated.induct) (auto dest: keepsD[OF keeps_ready_operate])

text \<open>
  Property C8.  Whatever commands the operator runs from a table without recruiters, with whatever
  arguments and outcomes: every recruiter that is active in the committed table has a refresh token and a
  calendar password, a Mattermost user and a direct channel, and was preflighted against the Notion
  database, the token and the schema that the settings name, with writing enabled.
\<close>

theorem active_recruiters_are_ready:
  assumes "operated os oe s t" "db_recruiters (w_db (ag_world s)) = []" "db_recruiters (w_saved (ag_world s)) = []"
    and "rc \<in> set (db_recruiters (w_saved (ag_world t)))" "rc_active rc"
  shows "let st = sv_settings (os_services os) in
    rc_email rc \<in> fst ` set (st_yandex_refresh_tokens st) \<and> rc_email rc \<in> fst ` set (st_yandex_caldav_passwords st) \<and>
    truthy (rc_mattermost_user_id rc) \<and> truthy (rc_mattermost_dm_channel rc) \<and> st_notion_writes_enabled st \<and>
    rc_notion_preflight_database_id rc = Some (rc_notion_database_id rc) \<and>
    rc_notion_preflight_token_hash rc = Some (token_digest (os_digests os) (st_notion_token st)) \<and>
    (\<exists>m. resolve_notion_property_map st (Some rc) = Inr m \<and>
       rc_notion_preflight_schema_hash rc = Some (notion_schema_hash (os_digests os) m))"
proof -
  have "tables_ready os s" using assms(2,3) by (simp add: tables_ready_def all_ready_def)
  then have "ready (os_digests os) (sv_settings (os_services os)) rc"
    using operated_ready[OF assms(1)] assms(4) by (auto simp: tables_ready_def all_ready_def list_all_iff)
  then show ?thesis
    using assms(5) by (auto simp: ready_def fully_bound_def provisioned_def require_notion_preflight_def Let_def res_bind_Inr_iff
        split: if_splits sum.splits)
qed

end
