(* ===== verification/Onboarding_Demo.thy ===== *)
theory Onboarding_Demo
imports Onboarding Cleanup
begin

text \<open>
  A recruiter who is configured, preflighted and activated, evaluated; the property of \<open>Onboarding\<close> is
  applied to them.
\<close>

section \<open>The services\<close>

definition demo_property :: "string \<Rightarrow> string \<times> json" where
  "demo_property kind = (kind, JObj [(''type'', JStr kind)])"

fun demo_database :: "notion_request \<Rightarrow> nat \<Rightarrow> http_response option \<times> nat" where
  "demo_database (Get_database db) n = (Some \<lparr>resp_status = 200, resp_json = Some (JObj
     [(''data_sources'', JList [JObj [(''id'', JStr ''src'')]]),
      (''title'', JList [JObj [(''plain_text'', JStr ''t'')]])])\<rparr>, n)"
| "demo_database (Get_source i) n = (Some \<lparr>resp_status = 200, resp_json = Some (JObj
     [(''id'', JStr i), (''properties'', JObj (map demo_property [''title'', ''date'', ''files'']))])\<rparr>, n)"
| "demo_database (Query_rows i) n = (Some \<lparr>resp_status = 200, resp_json = Some (JObj
     [(''results'', JList [JObj [(''id'', JStr ''s''), (''properties'', JObj [])]])])\<rparr>, n)"
| "demo_database _ n = (None, n)"

definition demo_firm :: settings where
  "demo_firm = (default_settings '''')\<lparr>st_notion_writes_enabled := True, st_yandex_refresh_tokens := [(''hr@x'', ''r'')],
     st_yandex_caldav_passwords := [(''hr@x'', ''w'')], st_caldav_base_url := ''https://c'',
     st_notion_name_prop := ''title'', st_notion_date_prop := ''date'', st_notion_recording_prop := ''files''\<rparr>"

definition demo_collection :: dav_collection where
  "demo_collection = \<lparr>dc_href = Some ''https://c/k'', dc_propstats = [(''HTTP 200 OK'',
     Some \<lparr>dp_is_calendar = True, dp_components = [''VEVENT''], dp_display_name = Some ''k''\<rparr>)]\<rparr>"

definition demo_setup :: "(nat, nas_files, nat, nat, nat, nat) outside" where
  "demo_setup = demo_outside\<lparr>os_services := demo_mover2\<lparr>sv_settings := demo_firm,
       sv_notion := demo_api\<lparr>reply := demo_database, render := (\<lambda>j. case j of JStr t \<Rightarrow> t | _ \<Rightarrow> ''?'')\<rparr>\<rparr>,
     os_caldav := demo_caldav\<lparr>cv_answer := (\<lambda>q u e p h. (Some \<lparr>da_status = 200, da_content = ''''\<rparr>, h)),
       cv_principal := (\<lambda>_. Some (Some ''https://c/p'')), cv_home := (\<lambda>_. Some (Some ''https://c/h'')),
       cv_collections := (\<lambda>_. Some [demo_collection])\<rparr>\<rparr>"

definition demo_operator :: operator_env where
  "demo_operator = \<lparr>oe_zone = Some, oe_json = (\<lambda>_. None), oe_list = (\<lambda>_. None), oe_file = (\<lambda>_. None)\<rparr>"

definition demo_args :: cli_args where
  "demo_args = \<lparr>ca_config = \<lparr>cf_email = ''HR@x '', cf_notion = replicate 32 CHR ''a'', cf_user = ''u'', cf_dm_channel = ''dm'',
       cf_timezone = ''UTC'', cf_storage_prefix = ''p/'', cf_overrides = None, cf_roots = None\<rparr>,
     ca_flags = no_overrides\<lparr>ov_contacts_mode := Some No_contacts\<rparr>, ca_roots = None, ca_page = ''s'',
     ca_calendar = ''nhttps://c/k'', ca_enabled = True, ca_observer_user = '''', ca_observer_channel = '''',
     ca_signals = None, ca_answer = ''yes''\<rparr>"

definition demo_empty :: "(nat, nas_files, nat, nat, nat, nat) agent" where
  "demo_empty = (let d = (w_db demo_filed)\<lparr>db_recruiters := []\<rparr> in
     demo_agent\<lparr>ag_world := demo_filed\<lparr>w_db := d, w_saved := d\<rparr>\<rparr>)"

definition demo_command :: "operator_command \<Rightarrow> (nat, nas_files, nat, nat, nat, nat) agent \<Rightarrow> (nat, nas_files, nat, nat, nat, nat) agent" where
  "demo_command cmd s = snd (operate demo_setup demo_operator (\<lambda>u. CHR ''n'' # u) demo_args cmd s)"

definition demo_hired :: "(nat, nas_files, nat, nat, nat, nat) agent" where
  "demo_hired = demo_command Cmd_configure demo_empty"

definition demo_checked :: "(nat, nas_files, nat, nat, nat, nat) agent" where
  "demo_checked = demo_command Cmd_preflight demo_hired"

lemma demo_hiring: "map (\<lambda>rc. (rc_email rc, rc_active rc)) (db_recruiters (w_saved (ag_world demo_hired))) = [(''hr@x'', False)]"
  by code_simp

lemma demo_checking: "map cl_is_default (ag_calendars demo_checked) = [True]"
  by code_simp

lemma demo_activation:
  "map (\<lambda>rc. (rc_email rc, rc_active rc)) (db_recruiters (w_saved (ag_world (demo_command Cmd_activate demo_checked)))) =
     [(''hr@x'', True)]"
  by code_simp

lemma demo_operated:
  "operated demo_setup demo_operator demo_empty s \<Longrightarrow> operated demo_setup demo_operator demo_empty (demo_command cmd s)"
  unfolding demo_command_def by (rule one_command) (auto simp: prod_eq_iff)

theorem ready_witness:
  "\<exists>t rc. operated demo_setup demo_operator demo_empty t \<and> db_recruiters (w_saved (ag_world t)) = [rc] \<and>
     rc_email rc = ''hr@x'' \<and> rc_active rc \<and> rc_notion_preflight_database_id rc = Some (rc_notion_database_id rc)"
proof -
  let ?t = "demo_command Cmd_activate demo_checked"
  have run: "operated demo_setup demo_operator demo_empty ?t"
    unfolding demo_checked_def demo_hired_def by (intro demo_operated no_command)
  obtain rc where rc: "db_recruiters (w_saved (ag_world ?t)) = [rc]" "rc_email rc = ''hr@x''" "rc_active rc"
    using demo_activation by auto
  have "db_recruiters (w_db (ag_world demo_empty)) = []" "db_recruiters (w_saved (ag_world demo_empty)) = []"
    by (simp_all add: demo_empty_def Let_def)
  from active_recruiters_are_ready[OF run this, of rc] rc run show ?thesis by (auto simp: Let_def)
qed

end
