(* ===== verification/Client_Script.thy ===== *)
theory Client_Script
imports Router_Calls
begin

text \<open>
  \<open>src/openclaw/skills/recording-agent/scripts/recording_agent.py\<close>: the command line that OpenClaw runs.  It
  sends one bounded request to the service on the same machine and prints the answer for a person.  Its
  arguments are in \<open>Client_Parser\<close>, its messages in \<open>Client_Messages\<close>.
\<close>

section \<open>Environment\<close>

text \<open>
  The environment variables, and the functions outside the script: \<open>ipaddress.ip_address(h).is_loopback\<close>
  (\<open>None\<close> raises), \<open>uuid.UUID\<close> and back, decoding of JSON, \<open>str\<close> of a decoded value, and the HTTP exchange,
  which answers a status and a body or the name of the exception.
\<close>

record client_call =
  xc_method :: string
  xc_url :: string
  xc_body :: "json option"
  xc_headers :: "(string \<times> string) list"
  xc_timeout :: int

record 'h client_env =
  ce_backend_url :: "string option"
  ce_secret :: string
  ce_email :: string
  ce_user :: string
  ce_channel :: string
  ce_brackets :: "string \<Rightarrow> bool"
  ce_loopback :: "string \<Rightarrow> bool option"
  ce_uuid :: "string \<Rightarrow> string option"
  ce_json :: "string \<Rightarrow> json option"
  ce_show :: "json \<Rightarrow> string"
  ce_int :: "json \<Rightarrow> int option"
  ce_send :: "client_call \<Rightarrow> 'h \<Rightarrow> (string + int \<times> string) \<times> 'h"

datatype client_error =
    Client_error string
  | Usage_error
  | Value_raised

definition DEFAULT_BACKEND_URL :: string where "DEFAULT_BACKEND_URL = ''http://127.0.0.1:18000''"
definition MAX_RESPONSE_BYTES :: nat where "MAX_RESPONSE_BYTES = 65536"

definition is_loopback :: "'h client_env \<Rightarrow> url_parts \<Rightarrow> bool" where
  "is_loopback e u = (case ce_loopback e (url_hostname u) of
      Some b \<Rightarrow> b | None \<Rightarrow> url_hostname u = ''localhost'')"

definition loopback_base :: "'h client_env \<Rightarrow> url_parts \<Rightarrow> bool" where
  "loopback_base e u \<longleftrightarrow> is_loopback e u \<and> \<not> truthy (url_username u) \<and> \<not> truthy (url_password u) \<and>
     u_query u = '''' \<and> u_fragment u = ''''"

definition backend_url :: "'h client_env \<Rightarrow> (client_error, string) result" where
  "backend_url e =
     (let raw = strip_root (opt_or (ce_backend_url e) DEFAULT_BACKEND_URL) in
      case url_split (ce_brackets e) raw of
        None \<Rightarrow> Inl Value_raised
      | Some u \<Rightarrow>
          check_that (u_scheme u \<in> {''http'', ''https''} \<and> url_hostname u \<noteq> '''')
            (Client_error ''RECORDING_AGENT_BACKEND_URL must be an HTTP(S) URL'')
         (check_that (loopback_base e u)
            (Client_error ''RECORDING_AGENT_BACKEND_URL must be a loopback-only base URL'') (Inr raw)))"

definition backend_secret :: "'h client_env \<Rightarrow> (client_error, string) result" where
  "backend_secret e = check_that (ce_secret e \<noteq> '''') (Client_error ''RECORDING_AGENT_BACKEND_SECRET is required'') (Inr (ce_secret e))"

text \<open>An argument whose value the environment may fix: the explicit value must agree with it.\<close>

definition verified_value :: "bool \<Rightarrow> string \<Rightarrow> string \<Rightarrow> string \<Rightarrow> (client_error, string) result" where
  "verified_value trusted_only label trusted explicit =
     check_that (trusted_only \<longrightarrow> trusted \<noteq> '''') (Client_error (''Trusted '' @ label @ '' metadata is required''))
    (check_that (trusted = '''' \<or> explicit = trusted) (Client_error (''Explicit value conflicts with trusted '' @ label))
      (Inr (if trusted \<noteq> '''' then trusted else explicit)))"

section \<open>A request\<close>

text \<open>\<open>urlencode\<close>: \<open>quote_plus\<close> of the UTF-8 bytes of a text of the code points 0..255.\<close>

definition url_safe :: "char \<Rightarrow> bool" where
  "url_safe c \<longleftrightarrow> ascii_alpha c \<or> c \<in> set ''0123456789_.-~''"

definition upper_hex :: "nat \<Rightarrow> char" where
  "upper_hex n = (if n < 10 then char_of (48 + n) else char_of (55 + n))"

definition percent :: "nat \<Rightarrow> string" where
  "percent n = [CHR ''%'', upper_hex (n div 16), upper_hex (n mod 16)]"

definition quote_char :: "char \<Rightarrow> string" where
  "quote_char c = (let n = (of_char c :: nat) in
     if url_safe c then [c] else if c = CHR '' '' then ''+''
     else if n < 128 then percent n else percent (192 + n div 64) @ percent (128 + n mod 64))"

definition quote_plus :: "string \<Rightarrow> string" where
  "quote_plus s = concat (map quote_char s)"

definition urlencode :: "(string \<times> string) list \<Rightarrow> string" where
  "urlencode ps = join_with ''&'' (map (\<lambda>(k, v). quote_plus k @ ''='' @ quote_plus v) ps)"

text \<open>The members of a query that are not \<open>None\<close>.\<close>

definition present :: "(string \<times> string option) list \<Rightarrow> (string \<times> string) list" where
  "present ps = List.map_filter (\<lambda>(k, v). map_option (Pair k) v) ps"

record client_plan =
  xp_method :: string
  xp_path :: string
  xp_query :: "(string \<times> string option) list"
  xp_body :: "json option"
  xp_headers :: "(string \<times> string) list"
  xp_authenticate :: bool

definition url_of :: "url_parts \<Rightarrow> client_plan \<Rightarrow> string" where
  "url_of u p = (let q = urlencode (present (xp_query p)) in
     u_scheme u @ ''://'' @ u_netloc u @ strip_root (u_path u) @ xp_path p @ (if q = '''' then '''' else CHR ''?'' # q))"

definition client_call_of :: "'h client_env \<Rightarrow> client_plan \<Rightarrow> (client_error, client_call) result" where
  "client_call_of e p =
     res_bind (backend_url e) (\<lambda>raw.
     case url_split (ce_brackets e) raw of
       None \<Rightarrow> Inl Value_raised
     | Some u \<Rightarrow>
         res_bind (if xp_authenticate p then res_bind (backend_secret e) (\<lambda>x. Inr [(''Authorization'', ''Bearer '' @ x)])
                   else Inr []) (\<lambda>auth.
           Inr \<lparr>xc_method = xp_method p, xc_url = url_of u p, xc_body = xp_body p,
             xc_headers = [(''Accept'', ''application/json'')] @
               (if xp_body p = None then [] else [(''Content-Type'', ''application/json'')]) @ xp_headers p @ auth,
             xc_timeout = (if xp_method p \<noteq> ''GET'' then 300 else 30)\<rparr>))"

definition rejected_text :: "'h client_env \<Rightarrow> int \<Rightarrow> json \<Rightarrow> string" where
  "rejected_text e code decoded =
     ''Backend rejected request (HTTP '' @ int_text code @ ''): '' @
     (if jtruthy (jget ''detail'' decoded) then ce_show e (jget ''detail'' decoded) else ''request failed'')"

definition decoded_answer :: "'h client_env \<Rightarrow> int \<Rightarrow> string \<Rightarrow> (client_error, json) result" where
  "decoded_answer e code payload =
     check_that (length payload \<le> MAX_RESPONSE_BYTES) (Client_error ''Backend response exceeded size limit'')
     (case (if payload = '''' then Some (JObj []) else ce_json e payload) of
        None \<Rightarrow> Inl (Client_error (''Backend returned invalid JSON (HTTP '' @ int_text code @ '')''))
      | Some decoded \<Rightarrow>
          check_that (200 \<le> code \<and> code < 300) (Client_error (rejected_text e code decoded)) (Inr decoded))"

type_synonym ('h, 'a) client_io = "('h \<times> client_call list, client_error, 'a) io"

text \<open>The exchange, with the log of the calls that were sent.\<close>

definition client_request :: "'h client_env \<Rightarrow> client_plan \<Rightarrow> ('h, json) client_io" where
  "client_request e p =
     io_bind (io_lift (client_call_of e p)) (\<lambda>c (h, sent).
       case ce_send e c h of
         (Inl name, h1) \<Rightarrow> (Inl (Client_error (''Backend unavailable: '' @ name)), (h1, sent @ [c]))
       | (Inr (code, payload), h1) \<Rightarrow> (decoded_answer e code (take (MAX_RESPONSE_BYTES + 1) payload), (h1, sent @ [c])))"

section \<open>Commands\<close>

text \<open>The parsed arguments; identifiers are the text of a UUID.\<close>

datatype client_command =
    Routing_activate string string
  | Routing_resolve string string string string
  | Routing_defer string string string string "string list"
  | Scan_now string string string
  | Status_of string "string option" "string option" "string option" "string option" int
  | Review_of string string string string
  | Questions_of string string "string option" int
  | Answer string string string
  | Destinations_of string string
  | Create_destination string string string string
  | Route_away string string string string int string
  | Route_interview string string string string int string
  | Reroute_recording string string string string int string
  | Reassign_resolve string string string string
  | Reassign_propose string string string string
  | Reassign_confirm string string string string string
  | Summary_source string string
  | Summary_submit string string int string string string
  | Cleanup_preview_of string string int
  | Cleanup_confirm string string string string string string
  | Resolve_review string string string string int string int
  | Ignore_review string string string string int string

section \<open>Arguments that are JSON\<close>

definition ACTION_FIELDS :: "string list" where
  "ACTION_FIELDS = [''question_id'', ''question_set_id'', ''action'', ''capability'', ''expected_version'',
     ''idempotency_key'', ''choice'']"

definition bad_action :: "string \<Rightarrow> (client_error, 'a) result" where
  "bad_action why = Inl (Client_error why)"

text \<open>\<open>str(item[k])\<close> and the conversions of a member: \<open>None\<close> is a \<open>KeyError\<close>, \<open>TypeError\<close> or \<open>ValueError\<close>.\<close>

definition value_text :: "'h client_env \<Rightarrow> string \<Rightarrow> json \<Rightarrow> string option" where
  "value_text e k item = map_option (ce_show e) (json_get k item)"

definition member_uuid :: "'h client_env \<Rightarrow> string \<Rightarrow> json \<Rightarrow> string option" where
  "member_uuid e k item = Option.bind (value_text e k item) (ce_uuid e)"

definition member_int :: "'h client_env \<Rightarrow> string \<Rightarrow> json \<Rightarrow> int option" where
  "member_int e k item = Option.bind (json_get k item) (ce_int e)"

definition normalized_action :: "'h client_env \<Rightarrow> json \<Rightarrow> (client_error, (string \<times> json) list) result" where
  "normalized_action e item =
     (case (value_text e ''action'' item, member_uuid e ''question_id'' item, member_uuid e ''question_set_id'' item,
            value_text e ''capability'' item, member_int e ''expected_version'' item, value_text e ''idempotency_key'' item) of
        (Some action, Some q, Some qs, Some capability, Some version, Some key) \<Rightarrow>
          Inr [(''question_id'', JStr q), (''question_set_id'', JStr qs), (''action'', JStr action),
            (''capability'', JStr capability), (''expected_version'', JInt version), (''idempotency_key'', JStr key)]
      | _ \<Rightarrow> bad_action ''Question action is malformed'')"

text \<open>\<open>isinstance(choice, int) and 1 <= choice <= 10\<close>; a boolean is an integer.\<close>

definition good_choice :: "json \<Rightarrow> bool" where
  "good_choice j \<longleftrightarrow> (case jint j of None \<Rightarrow> False | Some n \<Rightarrow> 1 \<le> n \<and> n \<le> 10)"

definition question_action :: "'h client_env \<Rightarrow> json \<Rightarrow> (client_error, json) result" where
  "question_action e item =
     (case item of
        JObj ms \<Rightarrow>
          check_that (list_all (\<lambda>m. fst m \<in> set ACTION_FIELDS) ms) (Client_error ''Question action contains unsupported fields'')
          (res_bind (normalized_action e item) (\<lambda>x.
           let action = JObj x; choice = jget ''choice'' item in
           if jget ''action'' action = JStr ''resolve'' \<and> \<not> good_choice choice then bad_action ''Resolve action requires choice 1..10''
           else if jget ''action'' action \<noteq> JStr ''resolve'' \<and> (jget ''action'' action \<noteq> JStr ''ignore'' \<or> choice \<noteq> JNull)
           then bad_action ''Question action must be resolve or ignore''
           else if jget ''capability'' action = JStr '''' \<or> length (opt_or (jtext (jget ''idempotency_key'' action)) '''') < 8
           then bad_action ''Question action capability or idempotency key is invalid''
           else Inr (if jget ''action'' action = JStr ''resolve'' then JObj (x @ [(''choice'', choice)]) else action)))
      | _ \<Rightarrow> bad_action ''Question action contains unsupported fields'')"

definition question_actions :: "'h client_env \<Rightarrow> string \<Rightarrow> (client_error, json list) result" where
  "question_actions e raw =
     (case ce_json e raw of
        None \<Rightarrow> bad_action ''Question actions must be valid JSON''
      | Some decoded \<Rightarrow>
          if is_list decoded \<and> 1 \<le> length (jitems decoded) \<and> length (jitems decoded) \<le> 50
          then res_map (question_action e) (jitems decoded)
          else bad_action ''Question actions must contain 1..50 items'')"

definition toggle_paragraphs :: "'h client_env \<Rightarrow> string \<Rightarrow> (client_error, json list) result" where
  "toggle_paragraphs e raw =
     (case ce_json e raw of
        None \<Rightarrow> bad_action ''Toggle paragraphs must be valid JSON''
      | Some decoded \<Rightarrow>
          if is_list decoded \<and> 1 \<le> length (jitems decoded) \<and> length (jitems decoded) \<le> 20 \<and>
             list_all (\<lambda>x. case x of JStr t \<Rightarrow> py_strip t \<noteq> '''' | _ \<Rightarrow> False) (jitems decoded)
          then Inr (jitems decoded)
          else bad_action ''Toggle paragraphs must be 1..20 non-blank strings'')"

definition lower_sha256 :: "string \<Rightarrow> bool" where
  "lower_sha256 h \<longleftrightarrow> length h = 64 \<and> list_all (\<lambda>c. c \<in> set ''0123456789abcdef'') h"

section \<open>What a command sends\<close>

definition post_plan :: "string \<Rightarrow> (string \<times> json) list \<Rightarrow> client_plan" where
  "post_plan path body = \<lparr>xp_method = ''POST'', xp_path = path, xp_query = [], xp_body = Some (JObj body),
     xp_headers = [], xp_authenticate = True\<rparr>"

definition get_plan :: "string \<Rightarrow> (string \<times> string option) list \<Rightarrow> client_plan" where
  "get_plan path query = \<lparr>xp_method = ''GET'', xp_path = path, xp_query = query, xp_body = None, xp_headers = [],
     xp_authenticate = True\<rparr>"

definition worker_plan :: "string \<Rightarrow> string \<Rightarrow> string \<Rightarrow> (string \<times> json) list \<Rightarrow> client_plan" where
  "worker_plan job step nonce body = (post_plan (''/internal/routing-jobs/'' @ job @ step)
     ([(''worker_id'', JStr ''recordings-saver''), (''dispatch_nonce'', JStr nonce)] @ body))\<lparr>xp_authenticate := False\<rparr>"

definition hashed_plan :: "string \<Rightarrow> client_plan \<Rightarrow> (client_error, client_plan) result" where
  "hashed_plan h p = check_that (lower_sha256 h) (Client_error ''Snapshot hash must be a lowercase SHA-256 hex value'') (Inr p)"

text \<open>The caller of a command: the user and the direct channel.\<close>

definition who :: "string \<Rightarrow> string \<Rightarrow> (string \<times> json) list" where
  "who user channel = [(''recruiter_user_id'', JStr user), (''mattermost_dm_channel_id'', JStr channel)]"

definition routing_members :: "string \<Rightarrow> string \<Rightarrow> string \<Rightarrow> int \<Rightarrow> string \<Rightarrow> (string \<times> json) list" where
  "routing_members user channel destination version key = who user channel @
     [(''destination_id'', JStr destination), (''expected_version'', JInt version), (''idempotency_key'', JStr key)]"

definition review_members :: "string \<Rightarrow> string \<Rightarrow> string \<Rightarrow> int \<Rightarrow> string \<Rightarrow> (string \<times> json) list" where
  "review_members user thread token version key = [(''recruiter_user_id'', JStr user), (''mattermost_thread_id'', JStr thread),
     (''token'', JStr token), (''expected_version'', JInt version), (''idempotency_key'', JStr key)]"

definition recording_path :: "string \<Rightarrow> string \<Rightarrow> string" where
  "recording_path i step = ''/tools/recordings/'' @ i @ step"

fun plan_of :: "'h client_env \<Rightarrow> client_command \<Rightarrow> (client_error, client_plan) result" where
  "plan_of e (Routing_activate job nonce) = Inr (worker_plan job ''/activate'' nonce [])"
| "plan_of e (Routing_resolve job nonce h destination) = hashed_plan h (worker_plan job ''/resolve'' nonce
     [(''snapshot_hash'', JStr h), (''destination_id'', JStr destination)])"
| "plan_of e (Routing_defer job nonce h reason candidates) = hashed_plan h (worker_plan job ''/defer'' nonce
     [(''snapshot_hash'', JStr h), (''reason'', JStr reason), (''candidate_ids'', JList (map JStr candidates))])"
| "plan_of e (Scan_now user channel key) = Inr (post_plan ''/tools/scans/trigger''
     (who user channel @ [(''scope'', JStr ''test''), (''idempotency_key'', JStr key)]))"
| "plan_of e (Status_of user on_date candidate i status limit) = Inr (get_plan ''/tools/recordings/status''
     [(''recruiter_user_id'', Some user), (''on_date'', on_date), (''candidate'', candidate), (''recording_id'', i),
      (''status'', status), (''limit'', Some (int_text limit))])"
| "plan_of e (Review_of i user thread token) = Inr ((get_plan (''/tools/reviews/'' @ i)
     [(''recruiter_user_id'', Some user), (''mattermost_thread_id'', Some thread)])\<lparr>xp_headers := [(''X-Review-Token'', token)]\<rparr>)"
| "plan_of e (Questions_of user channel set_id limit) = Inr (get_plan ''/tools/questions''
     [(''recruiter_user_id'', Some user), (''mattermost_dm_channel_id'', Some channel), (''question_set_id'', set_id),
      (''limit'', Some (int_text limit))])"
| "plan_of e (Answer user channel actions) = res_bind (question_actions e actions) (\<lambda>xs.
     Inr (post_plan ''/tools/questions/answer'' (who user channel @ [(''actions'', JList xs)])))"
| "plan_of e (Destinations_of user channel) = Inr (get_plan ''/tools/storage/destinations''
     [(''recruiter_user_id'', Some user), (''mattermost_dm_channel_id'', Some channel)])"
| "plan_of e (Create_destination user channel parent name) = Inr (post_plan ''/tools/storage/destinations''
     (who user channel @ [(''parent_destination_id'', JStr parent), (''name'', JStr name)]))"
| "plan_of e (Route_away user channel i destination version key) =
     Inr (post_plan (recording_path i ''/route-non-interview'') (routing_members user channel destination version key))"
| "plan_of e (Route_interview user channel i destination version key) =
     Inr (post_plan (recording_path i ''/route-interview'') (routing_members user channel destination version key))"
| "plan_of e (Reroute_recording user channel i destination version key) =
     Inr (post_plan (recording_path i ''/reroute'') (routing_members user channel destination version key))"
| "plan_of e (Reassign_resolve user channel i hint) =
     Inr (post_plan (recording_path i ''/notion-reassignment/resolve'') (who user channel @ [(''hint'', JStr hint)]))"
| "plan_of e (Reassign_propose user channel i page) =
     Inr (post_plan (recording_path i ''/notion-reassignment/propose'') (who user channel @ [(''target_page_id'', JStr page)]))"
| "plan_of e (Reassign_confirm user channel proposal capability key) =
     Inr (post_plan (''/tools/notion-reassignment/'' @ proposal @ ''/confirm'')
       (who user channel @ [(''capability'', JStr capability), (''idempotency_key'', JStr key)]))"
| "plan_of e (Summary_source user i) = Inr (get_plan (recording_path i ''/summary-source'') [(''recruiter_user_id'', Some user)])"
| "plan_of e (Summary_submit user i version key paragraphs assessment) = res_bind (toggle_paragraphs e paragraphs) (\<lambda>xs.
     Inr (post_plan (recording_path i ''/summary'') [(''recruiter_user_id'', JStr user), (''expected_version'', JInt version),
       (''idempotency_key'', JStr key), (''toggle_paragraphs'', JList xs), (''assessment_text'', JStr assessment)]))"
| "plan_of e (Cleanup_preview_of user channel limit) =
     Inr (post_plan ''/tools/cleanup/previews'' (who user channel @ [(''limit'', JInt limit)]))"
| "plan_of e (Cleanup_confirm user channel preview capability h key) =
     Inr (post_plan (''/tools/cleanup/previews/'' @ preview @ ''/confirm'') (who user channel @
       [(''capability'', JStr capability), (''snapshot_hash'', JStr h), (''idempotency_key'', JStr key)]))"
| "plan_of e (Resolve_review i user thread token version key choice) =
     Inr (post_plan (''/tools/reviews/'' @ i @ ''/resolve'') (review_members user thread token version key @ [(''choice'', JInt choice)]))"
| "plan_of e (Ignore_review i user thread token version key) =
     Inr (post_plan (''/tools/reviews/'' @ i @ ''/ignore'') (review_members user thread token version key))"

definition execute :: "'h client_env \<Rightarrow> client_command \<Rightarrow> ('h, json) client_io" where
  "execute e c = io_bind (io_lift (plan_of e c)) (client_request e)"


section \<open>Where the calls go\<close>

lemma dropWhile_stops: "dropWhile p xs = c # t \<Longrightarrow> \<not> p c"
  using hd_dropWhile [of p xs] by (metis list.discI list.sel(1))

lemma url_split_parts:
  assumes "url_split b raw = Some u"
  shows "\<forall>c\<in>set (u_netloc u). \<not> netloc_end c \<and> (of_char c :: nat) \<notin> {9, 10, 13}"
    and "(CHR ''['' \<in> set (u_netloc u)) = (CHR '']'' \<in> set (u_netloc u))"
    and "CHR ''['' \<in> set (u_netloc u) \<Longrightarrow> b (u_netloc u)"
    and "u_netloc u \<noteq> '''' \<Longrightarrow> u_path u = '''' \<or> (\<exists>t. u_path u = CHR ''/'' # t)"
proof -
  obtain scheme s1 where s1: "split_scheme (url_clean raw) = (scheme, s1)" by fastforce
  obtain netloc s2 where s2: "split_netloc s1 = (netloc, s2)" by fastforce
  obtain s3 fragment where s3: "cut_at CHR ''#'' s2 = (s3, fragment)" by fastforce
  obtain path query where s4: "cut_at CHR ''?'' s3 = (path, query)" by fastforce
  have u: "u_netloc u = netloc" "u_path u = path"
    and b: "(CHR ''['' \<in> set netloc) = (CHR '']'' \<in> set netloc)" "CHR ''['' \<in> set netloc \<longrightarrow> b netloc"
    using assms s1 s2 s3 s4 by (auto simp: url_split_def split: if_splits)
  obtain a r where c: "cut_at CHR '':'' (url_clean raw) = (a, r)" by fastforce
  have "set (opt_or r '''') \<subseteq> set (url_clean raw)" using cut_at_join [OF c] by (cases r) (auto simp: opt_or_def)
  then have "set s1 \<subseteq> set (url_clean raw)" using s1 c
    by (cases r) (auto simp: split_scheme_def opt_or_def split: if_splits)
  moreover have "set netloc \<subseteq> set s1 \<and> (\<forall>c\<in>set netloc. \<not> netloc_end c)"
    using s2 by (auto simp: split_netloc_def split: if_splits dest: set_takeWhileD in_set_dropD)
  ultimately show "\<forall>c\<in>set (u_netloc u). \<not> netloc_end c \<and> (of_char c :: nat) \<notin> {9, 10, 13}"
    using u by (fastforce simp: url_clean_def)
  show "(CHR ''['' \<in> set (u_netloc u)) = (CHR '']'' \<in> set (u_netloc u))" using u b by simp
  show "CHR ''['' \<in> set (u_netloc u) \<Longrightarrow> b (u_netloc u)" using u b by simp
  have join: "s2 = s3 @ (case fragment of None \<Rightarrow> [] | Some t \<Rightarrow> CHR ''#'' # t)"
    "s3 = path @ (case query of None \<Rightarrow> [] | Some t \<Rightarrow> CHR ''?'' # t)"
    using s3 s4 by (simp_all add: cut_at_join)
  have free: "CHR ''#'' \<notin> set s3" "CHR ''?'' \<notin> set path" using cut_at_fst s3 s4 by (metis fst_conv)+
  have head: "\<forall>c t. s2 = c # t \<longrightarrow> netloc_end c" if "netloc \<noteq> ''''"
    using that s2 by (auto simp: split_netloc_def split: if_splits dest: dropWhile_stops)
  assume "u_netloc u \<noteq> ''''"
  then show "u_path u = '''' \<or> (\<exists>t. u_path u = CHR ''/'' # t)"
    using head join free u by (cases path) (auto simp: netloc_end_def)
qed

lemma url_split_again:
  assumes "s \<in> {''http'', ''https''}" and "\<forall>c\<in>set n. \<not> netloc_end c \<and> (of_char c :: nat) \<notin> {9, 10, 13}"
    and "(CHR ''['' \<in> set n) = (CHR '']'' \<in> set n)" and "CHR ''['' \<in> set n \<Longrightarrow> b n"
  shows "\<exists>v. url_split b (s @ ''://'' @ n @ CHR ''/'' # t) = Some v \<and> u_scheme v = s \<and> u_netloc v = n"
proof -
  define t1 where "t1 = filter (\<lambda>c. (of_char c :: nat) \<notin> {9, 10, 13}) t"
  have n: "filter (\<lambda>c. (of_char c :: nat) \<notin> {9, 10, 13}) n = n" using assms(2) by (simp add: filter_id_conv)
  have "lstrip_by control_or_space (s @ ''://'' @ n @ CHR ''/'' # t) = s @ ''://'' @ n @ CHR ''/'' # t"
    using assms(1) by (auto simp: lstrip_by_def control_or_space_def)
  then have clean: "url_clean (s @ ''://'' @ n @ CHR ''/'' # t) = s @ ''://'' @ n @ CHR ''/'' # t1"
    using assms(1) n by (auto simp: url_clean_def t1_def)
  have scheme: "split_scheme (s @ ''://'' @ n @ CHR ''/'' # t1) = (s, ''//'' @ n @ CHR ''/'' # t1)"
    using assms(1) by (auto simp: split_scheme_def ascii_alpha_def scheme_char_def lower_char_def)
  have netloc: "split_netloc (''//'' @ n @ CHR ''/'' # t1) = (n, CHR ''/'' # t1)"
    using assms(2) by (auto simp: split_netloc_def netloc_end_def takeWhile_append2 dropWhile_append2)
  show ?thesis using assms(3,4) scheme netloc
    by (auto simp: url_split_def clean simp del: append.simps split: prod.splits)
qed


text \<open>
  A call that reaches the same machine, whatever its path and query, under no other credentials than the
  configured secret.
\<close>

definition local_call :: "'h client_env \<Rightarrow> client_call \<Rightarrow> bool" where
  "local_call e c \<longleftrightarrow>
     (\<exists>v. url_split (ce_brackets e) (xc_url c) = Some v \<and> u_scheme v \<in> {''http'', ''https''} \<and> url_hostname v \<noteq> '''' \<and>
          is_loopback e v \<and> \<not> truthy (url_username v) \<and> \<not> truthy (url_password v)) \<and>
     (\<forall>x. (''Authorization'', x) \<in> set (xc_headers c) \<longrightarrow> ce_secret e \<noteq> '''' \<and> x = ''Bearer '' @ ce_secret e)"

lemma host_of_netloc:
  "u_netloc v = u_netloc u \<Longrightarrow> url_hostname v = url_hostname u \<and> url_username v = url_username u \<and> url_password v = url_password u"
  by (simp add: url_hostname_def host_port_def url_hostinfo_def url_username_def url_password_def url_userinfo_def)

lemma netloc_of_host: "url_hostname u \<noteq> '''' \<Longrightarrow> u_netloc u \<noteq> ''''"
  by (auto simp: url_hostname_def host_port_def url_hostinfo_def)

lemma backend_url_facts:
  assumes "backend_url e = Inr raw"
  shows "\<exists>u. url_split (ce_brackets e) raw = Some u \<and> u_scheme u \<in> {''http'', ''https''} \<and> url_hostname u \<noteq> '''' \<and> loopback_base e u"
  using assms by (auto simp: backend_url_def Let_def check_that_def split: option.splits if_splits)

lemma slash_path: "w = '''' \<or> (\<exists>t. w = CHR ''/'' # t) \<Longrightarrow> \<exists>r. strip_root w @ CHR ''/'' # s = CHR ''/'' # r"
proof -
  assume w: "w = '''' \<or> (\<exists>t. w = CHR ''/'' # t)"
  have "prefix (strip_root w) w" by (simp add: strip_root_def rstrip_by_prefix)
  then show ?thesis using w by (cases "strip_root w") (auto simp: prefix_def)
qed

lemma call_is_local:
  assumes call: "client_call_of e p = Inr c" and path: "xp_path p = CHR ''/'' # t"
    and plain: "\<forall>x. (''Authorization'', x) \<notin> set (xp_headers p)"
  shows "local_call e c"
proof -
  obtain raw where raw: "backend_url e = Inr raw" using call by (auto simp: client_call_of_def res_bind_def split: sum.splits)
  obtain u where u: "url_split (ce_brackets e) raw = Some u" "u_scheme u \<in> {''http'', ''https''}"
    "url_hostname u \<noteq> ''''" "loopback_base e u" using backend_url_facts [OF raw] by auto
  have c: "xc_url c = url_of u p" and auth: "\<forall>x. (''Authorization'', x) \<in> set (xc_headers c) \<longrightarrow>
      ce_secret e \<noteq> '''' \<and> x = ''Bearer '' @ ce_secret e"
    using call raw u(1) plain
    by (auto simp: client_call_of_def res_bind_def backend_secret_def check_that_def split: if_splits)
  note parts = url_split_parts [OF u(1)]
  obtain r where "strip_root (u_path u) @ xp_path p = CHR ''/'' # r"
    using slash_path [OF parts(4) [OF netloc_of_host [OF u(3)]]] path by auto
  then obtain q where q: "xc_url c = u_scheme u @ ''://'' @ u_netloc u @ CHR ''/'' # q"
    unfolding c url_of_def Let_def append_assoc by (metis append_Cons append_assoc)
  then obtain v where v: "url_split (ce_brackets e) (xc_url c) = Some v" "u_scheme v = u_scheme u" "u_netloc v = u_netloc u"
    using url_split_again [where b = "ce_brackets e" and n = "u_netloc u" and t = q, OF u(2) parts(1,2,3)]
    unfolding q by blast
  have "is_loopback e v = is_loopback e u" by (simp add: is_loopback_def host_of_netloc [OF v(3)] split: option.split)
  then show ?thesis using v u auth host_of_netloc [OF v(3)] unfolding local_call_def loopback_base_def by auto
qed

lemma planned_path:
  "plan_of e c = Inr p \<Longrightarrow> (\<exists>t. xp_path p = CHR ''/'' # t) \<and> (\<forall>x. (''Authorization'', x) \<notin> set (xp_headers p))"
  by (cases c) (auto simp: worker_plan_def post_plan_def get_plan_def hashed_plan_def recording_path_def check_that_def
    res_bind_def split: sum.splits if_splits)

lemma client_request_sends:
  "client_request e p (h, sent) = (x, h1, sent1) \<Longrightarrow> sent1 = sent \<or> (\<exists>c. client_call_of e p = Inr c \<and> sent1 = sent @ [c])"
  by (auto simp: client_request_def io_bind_def io_lift_def split: sum.splits prod.splits)

lemma execute_is_local:
  assumes "execute e c (h, []) = (x, h1, sent)"
  shows "length sent \<le> 1 \<and> list_all (local_call e) sent"
proof (cases "plan_of e c")
  case (Inl y)
  then show ?thesis using assms by (auto simp: execute_def io_bind_def io_lift_def)
next
  case (Inr p)
  then have "client_request e p (h, []) = (x, h1, sent)" using assms by (auto simp: execute_def io_bind_def io_lift_def)
  from client_request_sends [OF this] show ?thesis using planned_path [OF Inr] call_is_local by auto
qed

end
