(* ===== verification/Client_Parser.thy ===== *)
theory Client_Parser
imports Client_Script
begin

text \<open>
  The arguments of the command line (\<open>_parser\<close> of \<open>recording_agent.py\<close>).  The tokens are given as
  \<open>argparse\<close> recognises them: the command and the options with their texts, in order.  What \<open>argparse\<close>
  does with an option, a default, a missing or an unknown option is written out; the help is not.
\<close>

section \<open>Options\<close>

datatype arg_kind =
    Plain
  | Uuid_arg
  | Int_arg
  | Int_range int int
  | One_of "string list"
  | Trusted bool string string
  | Many_uuids

record arg_spec =
  as_option :: string
  as_kind :: arg_kind
  as_required :: bool
  as_default :: json

definition parsed :: "'a option \<Rightarrow> (client_error, 'a) result" where
  "parsed x = (case x of None \<Rightarrow> Inl Usage_error | Some a \<Rightarrow> Inr a)"

text \<open>The conversion of a text and the check of the allowed choices.\<close>

fun converted :: "'h client_env \<Rightarrow> arg_kind \<Rightarrow> string \<Rightarrow> (client_error, json) result" where
  "converted e Plain t = Inr (JStr t)"
| "converted e Uuid_arg t = res_bind (parsed (ce_uuid e t)) (\<lambda>u. Inr (JStr u))"
| "converted e Int_arg t = res_bind (parsed (ce_int e (JStr t))) (\<lambda>n. Inr (JInt n))"
| "converted e (Int_range lo hi) t = res_bind (parsed (ce_int e (JStr t))) (\<lambda>n.
     check_that (lo \<le> n \<and> n \<le> hi) Usage_error (Inr (JInt n)))"
| "converted e (One_of names) t = check_that (t \<in> set names) Usage_error (Inr (JStr t))"
| "converted e (Trusted only label trusted) t = res_bind (verified_value only label trusted t) (\<lambda>v. Inr (JStr v))"
| "converted e Many_uuids t = res_bind (parsed (ce_uuid e t)) (\<lambda>u. Inr (JStr u))"

text \<open>A value is stored under its option; \<open>action="append"\<close> collects the values.\<close>

definition stored_value :: "arg_spec \<Rightarrow> json \<Rightarrow> (string \<times> json) list \<Rightarrow> (string \<times> json) list" where
  "stored_value s v seen = (as_option s,
     if as_kind s = Many_uuids then JList (jitems (jget (as_option s) (JObj seen)) @ [v]) else v) # seen"

fun given_options :: "'h client_env \<Rightarrow> arg_spec list \<Rightarrow> (string \<times> string) list \<Rightarrow> (string \<times> json) list \<Rightarrow>
    (client_error, (string \<times> json) list) result" where
  "given_options e specs [] seen = Inr seen"
| "given_options e specs ((name, t) # rest) seen =
     (case find (\<lambda>s. as_option s = name) specs of
        None \<Rightarrow> given_options e specs rest seen
      | Some s \<Rightarrow> res_bind (converted e (as_kind s) t) (\<lambda>v. given_options e specs rest (stored_value s v seen)))"

text \<open>A default that is a text is converted as well.\<close>

definition default_value :: "'h client_env \<Rightarrow> arg_spec \<Rightarrow> (client_error, string \<times> json) result" where
  "default_value e s = (case as_default s of
      JStr t \<Rightarrow> res_bind (converted e (as_kind s) t) (\<lambda>v. Inr (as_option s, v))
    | j \<Rightarrow> Inr (as_option s, j))"

definition parse_options :: "'h client_env \<Rightarrow> arg_spec list \<Rightarrow> (string \<times> string) list \<Rightarrow> (client_error, json) result" where
  "parse_options e specs given =
     res_bind (given_options e specs given []) (\<lambda>seen.
     let missing = filter (\<lambda>s. as_option s \<notin> set (map fst seen)) specs in
     res_bind (res_map (default_value e) (filter (\<lambda>s. \<not> as_required s) missing)) (\<lambda>defaults.
       check_that (\<not> list_ex as_required missing) Usage_error
      (check_that (list_all (\<lambda>g. fst g \<in> set (map as_option specs)) given) Usage_error
        (Inr (JObj (seen @ defaults))))))"

section \<open>The commands' options\<close>

definition needed :: "string \<Rightarrow> arg_kind \<Rightarrow> arg_spec" where
  "needed name kind = \<lparr>as_option = name, as_kind = kind, as_required = True, as_default = JNull\<rparr>"

definition optional :: "string \<Rightarrow> arg_kind \<Rightarrow> json \<Rightarrow> arg_spec" where
  "optional name kind d = \<lparr>as_option = name, as_kind = kind, as_required = False, as_default = d\<rparr>"

text \<open>\<open>_add_trusted_argument\<close>: the value of the environment is the default; without one it is required.\<close>

definition trusted_argument :: "bool \<Rightarrow> string \<Rightarrow> string \<Rightarrow> string \<Rightarrow> arg_spec" where
  "trusted_argument only label raw name = (let trusted = py_strip raw in
     \<lparr>as_option = name, as_kind = Trusted only label trusted, as_required = (trusted = ''''),
      as_default = (if trusted = '''' then JNull else JStr trusted)\<rparr>)"

definition email_argument :: "'h client_env \<Rightarrow> bool \<Rightarrow> arg_spec" where
  "email_argument e only = trusted_argument only ''recruiter email'' (ce_email e) ''recruiter-email''"

definition user_argument :: "'h client_env \<Rightarrow> arg_spec" where
  "user_argument e = trusted_argument False ''recruiter identity'' (ce_user e) ''recruiter-user-id''"

definition channel_argument :: "'h client_env \<Rightarrow> arg_spec" where
  "channel_argument e = trusted_argument False ''DM channel'' (ce_channel e) ''mattermost-dm-channel-id''"

abbreviation callers :: "'h client_env \<Rightarrow> arg_spec list" where
  "callers e \<equiv> [user_argument e, channel_argument e]"

definition routed_options :: "'h client_env \<Rightarrow> arg_spec list" where
  "routed_options e = callers e @ [needed ''recording-id'' Uuid_arg, needed ''destination-id'' Uuid_arg,
     needed ''expected-version'' Int_arg, needed ''idempotency-key'' Plain]"

definition review_options :: "'h client_env \<Rightarrow> arg_spec list" where
  "review_options e = [needed ''review-id'' Uuid_arg, user_argument e, needed ''mattermost-thread-id'' Plain,
     needed ''token'' Plain, needed ''expected-version'' Int_arg, needed ''idempotency-key'' Plain]"

definition job_options :: "arg_spec list" where
  "job_options = [needed ''job-id'' Uuid_arg, needed ''dispatch-nonce'' Plain]"

definition options_of :: "'h client_env \<Rightarrow> (string \<times> arg_spec list) list" where
  "options_of e =
    [(''scan'', callers e @ [needed ''idempotency-key'' Plain]),
     (''status'', [user_argument e, optional ''mattermost-dm-channel-id'' Plain JNull, optional ''date'' Plain JNull,
       optional ''candidate'' Plain JNull, optional ''recording-id'' Uuid_arg JNull, optional ''status'' Plain JNull,
       optional ''limit'' (Int_range 1 50) (JInt 20)]),
     (''review'', [needed ''review-id'' Uuid_arg, user_argument e, needed ''mattermost-thread-id'' Plain, needed ''token'' Plain]),
     (''resolve'', review_options e @ [needed ''choice'' (Int_range 1 10)]),
     (''ignore'', review_options e),
     (''questions'', callers e @ [optional ''question-set-id'' Uuid_arg JNull, optional ''limit'' (Int_range 1 50) (JInt 50)]),
     (''answer'', callers e @ [needed ''actions-json'' Plain]),
     (''destinations'', callers e),
     (''create-destination'', callers e @ [needed ''parent-destination-id'' Uuid_arg, needed ''name'' Plain]),
     (''non-interview'', routed_options e),
     (''route-interview'', routed_options e),
     (''reroute-recording'', routed_options e),
     (''notion-reassignment-resolve'', callers e @ [needed ''recording-id'' Uuid_arg, needed ''hint'' Plain]),
     (''notion-reassignment-propose'', callers e @ [needed ''recording-id'' Uuid_arg, needed ''target-page-id'' Plain]),
     (''notion-reassignment-confirm'', callers e @ [needed ''proposal-id'' Uuid_arg, needed ''capability'' Plain,
       needed ''idempotency-key'' Plain]),
     (''cleanup-preview'', callers e @ [optional ''limit'' (Int_range 1 100) (JInt 50)]),
     (''cleanup-confirm'', callers e @ [needed ''preview-id'' Uuid_arg, needed ''capability'' Plain,
       needed ''snapshot-hash'' Plain, needed ''idempotency-key'' Plain]),
     (''summary-source'', [user_argument e, needed ''recording-id'' Uuid_arg]),
     (''summary-submit'', [user_argument e, needed ''recording-id'' Uuid_arg, needed ''expected-version'' Int_arg,
       needed ''idempotency-key'' Plain, needed ''toggle-paragraphs-json'' Plain, needed ''assessment-text'' Plain]),
     (''routing-activate'', job_options),
     (''routing-resolve'', job_options @ [needed ''snapshot-hash'' Plain, needed ''destination-id'' Uuid_arg]),
     (''routing-defer'', job_options @ [needed ''snapshot-hash'' Plain,
       needed ''reason'' (One_of [''ambiguous'', ''no_match'', ''model_error'']), optional ''candidate-id'' Many_uuids (JList [])])]"

section \<open>Parsed commands\<close>

text \<open>The members of the namespace that \<open>argparse\<close> returns.\<close>

definition text_arg :: "json \<Rightarrow> string \<Rightarrow> string" where
  "text_arg ns k = opt_or (jtext (jget k ns)) ''''"

definition int_arg :: "json \<Rightarrow> string \<Rightarrow> int" where
  "int_arg ns k = opt_or (jint (jget k ns)) 0"

abbreviation user_of :: "json \<Rightarrow> string" where "user_of ns \<equiv> text_arg ns ''recruiter-user-id''"
abbreviation channel_of :: "json \<Rightarrow> string" where "channel_of ns \<equiv> text_arg ns ''mattermost-dm-channel-id''"
abbreviation key_of :: "json \<Rightarrow> string" where "key_of ns \<equiv> text_arg ns ''idempotency-key''"

abbreviation routed :: "json \<Rightarrow> (string \<Rightarrow> string \<Rightarrow> string \<Rightarrow> string \<Rightarrow> int \<Rightarrow> string \<Rightarrow> client_command) \<Rightarrow> client_command" where
  "routed ns c \<equiv> c (user_of ns) (channel_of ns) (text_arg ns ''recording-id'') (text_arg ns ''destination-id'')
     (int_arg ns ''expected-version'') (key_of ns)"

abbreviation reviewed :: "json \<Rightarrow> (string \<Rightarrow> string \<Rightarrow> string \<Rightarrow> string \<Rightarrow> int \<Rightarrow> string \<Rightarrow> 'a) \<Rightarrow> 'a" where
  "reviewed ns c \<equiv> c (text_arg ns ''review-id'') (user_of ns) (text_arg ns ''mattermost-thread-id'') (text_arg ns ''token'')
     (int_arg ns ''expected-version'') (key_of ns)"

definition commands_of :: "json \<Rightarrow> (string \<times> client_command) list" where
  "commands_of ns =
    [(''scan'', Scan_now (user_of ns) (channel_of ns) (key_of ns)),
     (''status'', Status_of (user_of ns) (jtext (jget ''date'' ns)) (jtext (jget ''candidate'' ns))
       (jtext (jget ''recording-id'' ns)) (jtext (jget ''status'' ns)) (int_arg ns ''limit'')),
     (''review'', Review_of (text_arg ns ''review-id'') (user_of ns) (text_arg ns ''mattermost-thread-id'') (text_arg ns ''token'')),
     (''resolve'', reviewed ns Resolve_review (int_arg ns ''choice'')),
     (''ignore'', reviewed ns Ignore_review),
     (''questions'', Questions_of (user_of ns) (channel_of ns) (jtext (jget ''question-set-id'' ns)) (int_arg ns ''limit'')),
     (''answer'', Answer (user_of ns) (channel_of ns) (text_arg ns ''actions-json'')),
     (''destinations'', Destinations_of (user_of ns) (channel_of ns)),
     (''create-destination'', Create_destination (user_of ns) (channel_of ns) (text_arg ns ''parent-destination-id'')
       (text_arg ns ''name'')),
     (''non-interview'', routed ns Route_away),
     (''route-interview'', routed ns Route_interview),
     (''reroute-recording'', routed ns Reroute_recording),
     (''notion-reassignment-resolve'', Reassign_resolve (user_of ns) (channel_of ns) (text_arg ns ''recording-id'') (text_arg ns ''hint'')),
     (''notion-reassignment-propose'', Reassign_propose (user_of ns) (channel_of ns) (text_arg ns ''recording-id'')
       (text_arg ns ''target-page-id'')),
     (''notion-reassignment-confirm'', Reassign_confirm (user_of ns) (channel_of ns) (text_arg ns ''proposal-id'')
       (text_arg ns ''capability'') (key_of ns)),
     (''cleanup-preview'', Cleanup_preview_of (user_of ns) (channel_of ns) (int_arg ns ''limit'')),
     (''cleanup-confirm'', Cleanup_confirm (user_of ns) (channel_of ns) (text_arg ns ''preview-id'') (text_arg ns ''capability'')
       (text_arg ns ''snapshot-hash'') (key_of ns)),
     (''summary-source'', Summary_source (user_of ns) (text_arg ns ''recording-id'')),
     (''summary-submit'', Summary_submit (user_of ns) (text_arg ns ''recording-id'') (int_arg ns ''expected-version'') (key_of ns)
       (text_arg ns ''toggle-paragraphs-json'') (text_arg ns ''assessment-text'')),
     (''routing-activate'', Routing_activate (text_arg ns ''job-id'') (text_arg ns ''dispatch-nonce'')),
     (''routing-resolve'', Routing_resolve (text_arg ns ''job-id'') (text_arg ns ''dispatch-nonce'') (text_arg ns ''snapshot-hash'')
       (text_arg ns ''destination-id'')),
     (''routing-defer'', Routing_defer (text_arg ns ''job-id'') (text_arg ns ''dispatch-nonce'') (text_arg ns ''snapshot-hash'')
       (text_arg ns ''reason'') (List.map_filter jtext (jitems (jget ''candidate-id'' ns))))]"

definition parse_command :: "'h client_env \<Rightarrow> string \<Rightarrow> (string \<times> string) list \<Rightarrow> (client_error, client_command) result" where
  "parse_command e name given =
     res_bind (parsed (map_of (options_of e) name)) (\<lambda>specs.
     res_bind (parse_options e specs given) (\<lambda>ns. parsed (map_of (commands_of ns) name)))"


section \<open>The caller is the trusted one\<close>

lemma default_key: "default_value e s = Inr d \<Longrightarrow> fst d = as_option s"
  by (auto simp: default_value_def res_bind_def split: json.splits sum.splits)

lemma trusted_conversion:
  "trusted \<noteq> '''' \<Longrightarrow> converted e (Trusted only label trusted) t = Inr v \<Longrightarrow> v = JStr trusted"
  by (auto simp: verified_value_def check_that_def res_bind_def split: if_splits)

lemma given_trusted:
  assumes "find (\<lambda>s. as_option s = k) specs = Some s" "as_option s = k" "as_kind s = Trusted only label trusted" "trusted \<noteq> ''''"
  shows "given_options e specs given seen = Inr seen1 \<Longrightarrow> map_of seen k \<in> {None, Some (JStr trusted)} \<Longrightarrow>
    map_of seen1 k \<in> {None, Some (JStr trusted)}"
proof (induction given arbitrary: seen)
  case (Cons g given)
  obtain name t where g: "g = (name, t)" by fastforce
  show ?case
  proof (cases "find (\<lambda>s. as_option s = name) specs")
    case None
    then show ?thesis using Cons g by simp
  next
    case (Some s1)
    obtain v where v: "converted e (as_kind s1) t = Inr v" and
      rest: "given_options e specs given (stored_value s1 v seen) = Inr seen1"
      using Cons.prems Some g by (auto simp: res_bind_def split: sum.splits)
    have "as_option s1 = name" using Some by (auto simp: find_Some_iff)
    then have "map_of (stored_value s1 v seen) k \<in> {None, Some (JStr trusted)}"
      using Some v assms Cons.prems(2) trusted_conversion [OF assms(4)]
      by (cases "name = k") (auto simp: stored_value_def simp del: converted.simps)
    then show ?thesis using Cons.IH rest by blast
  qed
qed simp

lemma res_map_keyed:
  "res_map f xs = Inr ys \<Longrightarrow> (\<And>x y. x \<in> set xs \<Longrightarrow> f x = Inr y \<Longrightarrow> fst y = g x) \<Longrightarrow> map fst ys = map g xs"
  by (induction f xs arbitrary: ys rule: res_map.induct) (auto simp: res_bind_def split: sum.splits)

lemma trusted_option:
  assumes s: "s = trusted_argument only label raw k" "s \<in> set specs"
    and unique: "\<forall>s1\<in>set specs. as_option s1 = k \<longrightarrow> s1 = s"
    and trusted: "py_strip raw \<noteq> ''''" and parse: "parse_options e specs given = Inr ns"
  shows "jget k ns = JStr (py_strip raw)"
proof -
  have k: "as_option s = k" "as_kind s = Trusted only label (py_strip raw)" "\<not> as_required s" "as_default s = JStr (py_strip raw)"
    using s(1) trusted by (simp_all add: trusted_argument_def Let_def)
  have "\<exists>s1. find (\<lambda>s. as_option s = k) specs = Some s1" using s(2) k(1) by (auto simp: find_None_iff simp flip: not_None_eq)
  then have f: "find (\<lambda>s. as_option s = k) specs = Some s" using unique by (auto simp: find_Some_iff)
  define missing where "missing seen = filter (\<lambda>s. as_option s \<notin> set (map fst seen)) specs" for seen :: "(string \<times> json) list"
  obtain seen defaults where seen: "given_options e specs given [] = Inr seen" and
    defaults: "res_map (default_value e) (filter (\<lambda>s. \<not> as_required s) (missing seen)) = Inr defaults" and
    ns: "ns = JObj (seen @ defaults)"
    using parse by (auto simp: parse_options_def missing_def res_bind_def check_that_def Let_def split: sum.splits if_splits)
  have "map_of seen k \<in> {None, Some (JStr (py_strip raw))}"
    by (rule given_trusted [OF f k(1,2) trusted seen]) simp
  then consider "map_of seen k = Some (JStr (py_strip raw))" | "map_of seen k = None" by auto
  then show ?thesis
  proof cases
    case 2
    then have "k \<in> set (map as_option (filter (\<lambda>s. \<not> as_required s) (missing seen)))"
      using s(2) k by (auto simp: missing_def map_of_eq_None_iff image_iff)
    moreover have "map fst defaults = map as_option (filter (\<lambda>s. \<not> as_required s) (missing seen))"
      using defaults by (rule res_map_keyed) (rule default_key)
    ultimately have "k \<in> set (map fst defaults)" by simp
    then have "k \<in> fst ` set defaults" by simp
    then obtain d where d: "map_of defaults k = Some d" by (cases "map_of defaults k") (auto simp: map_of_eq_None_iff)
    obtain s1 where s1: "s1 \<in> set specs" "default_value e s1 = Inr (k, d)"
      using res_map_member [OF defaults map_of_SomeD [OF d]] by (auto simp: missing_def)
    then have "s1 = s" using unique default_key [OF s1(2)] by auto
    then have "d = JStr (py_strip raw)" using s1(2) k trusted trusted_conversion
      by (auto simp: default_value_def res_bind_def simp del: converted.simps split: sum.splits)
    then show ?thesis using 2 d ns by (simp add: map_add_def)
  qed (simp add: ns map_add_def split: option.splits)
qed


text \<open>The user and the channel that a request names, in its query or in its body.\<close>

definition named :: "string \<Rightarrow> client_plan \<Rightarrow> string option" where
  "named k p = (case map_of (xp_query p) k of
      Some v \<Rightarrow> v
    | None \<Rightarrow> (case xp_body p of None \<Rightarrow> None | Some b \<Rightarrow> jtext (jget k b)))"

lemmas plan_kinds = worker_plan_def post_plan_def get_plan_def hashed_plan_def who_def routing_members_def
  review_members_def check_that_def res_bind_def named_def

fun command_user :: "client_command \<Rightarrow> string option" where
  "command_user (Scan_now u _ _) = Some u"
| "command_user (Status_of u _ _ _ _ _) = Some u"
| "command_user (Review_of _ u _ _) = Some u"
| "command_user (Questions_of u _ _ _) = Some u"
| "command_user (Answer u _ _) = Some u"
| "command_user (Destinations_of u _) = Some u"
| "command_user (Create_destination u _ _ _) = Some u"
| "command_user (Route_away u _ _ _ _ _) = Some u"
| "command_user (Route_interview u _ _ _ _ _) = Some u"
| "command_user (Reroute_recording u _ _ _ _ _) = Some u"
| "command_user (Reassign_resolve u _ _ _) = Some u"
| "command_user (Reassign_propose u _ _ _) = Some u"
| "command_user (Reassign_confirm u _ _ _ _) = Some u"
| "command_user (Summary_source u _) = Some u"
| "command_user (Summary_submit u _ _ _ _ _) = Some u"
| "command_user (Cleanup_preview_of u _ _) = Some u"
| "command_user (Cleanup_confirm u _ _ _ _ _) = Some u"
| "command_user (Resolve_review _ u _ _ _ _ _) = Some u"
| "command_user (Ignore_review _ u _ _ _ _) = Some u"
| "command_user (Routing_activate _ _) = None"
| "command_user (Routing_resolve _ _ _ _) = None"
| "command_user (Routing_defer _ _ _ _ _) = None"

lemma plan_names_user: "plan_of e c = Inr p \<Longrightarrow> named ''recruiter_user_id'' p = command_user c"
  by (cases c) (auto simp: plan_kinds split: sum.splits if_splits)

definition routing_names :: "string list" where
  "routing_names = [''routing-activate'', ''routing-resolve'', ''routing-defer'']"

lemma user_spec_unique:
  "list_all (\<lambda>(n, specs). list_all (\<lambda>s. as_option s = ''recruiter-user-id'' \<longrightarrow> s = user_argument e) specs) (options_of e)"
  unfolding options_of_def routed_options_def review_options_def job_options_def
  by (simp add: channel_argument_def trusted_argument_def needed_def optional_def Let_def)

lemma user_spec_member: "list_all (\<lambda>(n, specs). user_argument e \<in> set specs \<or> n \<in> set routing_names) (options_of e)"
  by (simp add: options_of_def routed_options_def review_options_def routing_names_def)

lemma commands_user:
  "list_all (\<lambda>(n, c). command_user c = None \<or> command_user c = Some (user_of ns) \<and> n \<notin> set routing_names) (commands_of ns)"
  by (simp add: commands_of_def routing_names_def)

lemma user_options:
  assumes "map_of (options_of e) name = Some specs" and "map_of (commands_of ns) name = Some c" and "command_user c = Some u"
  shows "u = user_of ns \<and> user_argument e \<in> set specs \<and>
    (\<forall>s\<in>set specs. as_option s = ''recruiter-user-id'' \<longrightarrow> s = user_argument e)"
  using map_of_SomeD [OF assms(1)] map_of_SomeD [OF assms(2)] assms(3)
    user_spec_unique [of e] user_spec_member [of e] commands_user [of ns]
  by (force simp: list_all_iff)

lemma parsed_user:
  assumes "parse_command e name given = Inr c" and "py_strip (ce_user e) \<noteq> ''''" and "command_user c = Some u"
  shows "u = py_strip (ce_user e)"
proof -
  obtain specs ns where specs: "map_of (options_of e) name = Some specs" and ns: "parse_options e specs given = Inr ns"
    and c: "map_of (commands_of ns) name = Some c"
    using assms(1) by (auto simp: parse_command_def res_bind_def parsed_def split: sum.splits option.splits)
  note facts = user_options [OF specs c assms(3)]
  have "jget ''recruiter-user-id'' ns = JStr (py_strip (ce_user e))"
    using facts by (intro trusted_option [OF refl _ _ assms(2) ns, of False "''recruiter identity''"]) (auto simp: user_argument_def)
  then show ?thesis using facts by (simp add: text_arg_def opt_or_def)
qed

end
