(* ===== verification/Client_Messages.thy ===== *)
theory Client_Messages
imports Client_Parser "HOL-Library.List_Lexorder"
begin

text \<open>
  What the command line of \<open>Client_Script\<close> prints: the answer of the service as lines for a person.  The
  script's texts are in Russian: \<open>Ru s\<close> stands for the text whose meaning is \<open>s\<close> (two constants with the
  same text have the same meaning here), \<open>Lit\<close> for a value of the answer.  Reading a member with a wrong
  type raises what \<open>Value_raised\<close> stands for: any exception that \<open>main\<close> does not catch.
\<close>

section \<open>Lines\<close>

datatype piece = Ru string | Lit string

type_synonym line = "piece list"

abbreviation count_line :: "string \<Rightarrow> int \<Rightarrow> line" where
  "count_line s n \<equiv> [Ru s, Lit (int_text n), Lit ''.'']"

fun joined :: "string \<Rightarrow> line list \<Rightarrow> line" where
  "joined sep [] = []"
| "joined sep [l] = l"
| "joined sep (l # ls) = l @ Lit sep # joined sep ls"

definition numbered :: "(nat \<Rightarrow> 'a \<Rightarrow> 'b) \<Rightarrow> 'a list \<Rightarrow> 'b list" where
  "numbered f xs = map (\<lambda>(i, x). f (Suc i) x) (enumerate 0 xs)"

definition STATUS_LABELS :: "(string \<times> string) list" where
  "STATUS_LABELS =
    [(''found'', ''found, waits for the calendar''), (''calendar_event_found'', ''calendar event found''),
     (''candidate_matched'', ''candidate found in Notion''), (''manual_review_required'', ''needs your clarification''),
     (''transfer_started'', ''transfer started''), (''uploaded_to_synology'', ''file uploaded to the storage''),
     (''synology_link_created'', ''link to the file created''), (''notion_updated'', ''Notion updated''),
     (''awaiting_summary_email'', ''processed, the summary mail is awaited''),
     (''source_marked_processed'', ''processed''), (''source_deleted'', ''source deleted by the retention policy''),
     (''completed'', ''processed''), (''ignored'', ''recording ignored''), (''failed'', ''processing error'')]"

definition REVIEW_REASON_LABELS :: "(string \<times> string) list" where
  "REVIEW_REASON_LABELS =
    [(''low_confidence'', ''the match with the calendar event is too weak''),
     (''no_compatible_event'', ''no calendar event fits''),
     (''multiple_compatible_events'', ''several calendar events fit''),
     (''multiple_eligible_events'', ''several calendar events fit''),
     (''unmonitored_only'', ''the event is only in a calendar that is not monitored''),
     (''unmonitored_collision'', ''a similar event is in a calendar that is not monitored''),
     (''calendar_configuration_incomplete'', ''the calendars of the recruiter are not set up''),
     (''filename_invalid'', ''the file name is not one of a recording''),
     (''filename_timestamp_inconsistent'', ''the time in the file name is not the time of creation''),
     (''no_candidate_name_in_event'', ''the event does not name a candidate''),
     (''no_candidate_found'', ''no candidate of this name is in Notion''),
     (''multiple_candidates'', ''several cards of Notion fit''),
     (''candidate_choices_exceed_limit'', ''too many cards of Notion fit''),
     (''multiple_spots'', ''the card has several projects''),
     (''invalid_selected_spot_identity'', ''the project cannot be determined''),
     (''invalid_storage_identity'', ''the storage name cannot be composed''),
     (''stale_storage_identity'', ''the data of the storage name have changed''),
     (''storage_destination_required'', ''a folder of the file station must be chosen''),
     (''storage_key_collision'', ''the folder has another file of this name''),
     (''autonomous_routing_ambiguous'', ''several folders fit''),
     (''autonomous_routing_no_match'', ''no folder fits''),
     (''autonomous_routing_model_error'', ''the folder could not be chosen automatically''),
     (''summary_email_ambiguous'', ''several mails look like the summary''),
     (''summary_assessment_approval'', ''the assessment waits to be confirmed'')]"

definition ERROR_LABELS :: "(string \<times> string) list" where
  "ERROR_LABELS = [(''notion_temporarily_unavailable'', ''Notion is not available; the recording is queued'')]"

definition SETTLED_STATUSES :: "string list" where
  "SETTLED_STATUSES = [''completed'', ''ignored'', ''source_deleted'']"

definition ERROR_STEP_LABELS :: "(string \<times> string) list" where
  "ERROR_STEP_LABELS =
    [(''calendar_matching'', ''search of the calendar event''), (''candidate_matching'', ''search of the Notion card''),
     (''destination'', ''choice of the folder''), (''ensure_folder'', ''creation of the folder''),
     (''download'', ''download from the disk''), (''upload'', ''upload to the file station''),
     (''share_link'', ''creation of the link''), (''notion_preflight'', ''check of the access to Notion''),
     (''notion_update'', ''writing the link to the card''), (''mark_processed'', ''mark of the source''),
     (''restart_recovery'', ''recovery after a restart''), (''review_resolution'', ''application of an answer'')]"

text \<open>\<open>LABELS.get(value, value)\<close>.\<close>

definition label_of :: "(string \<times> string) list \<Rightarrow> string \<Rightarrow> piece" where
  "label_of table value = (case map_of table value of Some meaning \<Rightarrow> Ru meaning | None \<Rightarrow> Lit value)"

section \<open>Reading the answer\<close>

text \<open>\<open>str(x or d)\<close>, and \<open>x or d\<close> in a formatted text whose default is one of the script's.\<close>

definition str_or :: "'h client_env \<Rightarrow> json \<Rightarrow> string \<Rightarrow> string" where
  "str_or e j d = (if jtruthy j then ce_show e j else d)"

definition shown_or :: "'h client_env \<Rightarrow> json \<Rightarrow> string \<Rightarrow> piece" where
  "shown_or e j d = (if jtruthy j then Lit (ce_show e j) else Ru d)"

text \<open>\<open>str(x or d)[:n]\<close>; the script's own default texts are shorter than the bound.\<close>

definition cut_or :: "'h client_env \<Rightarrow> nat \<Rightarrow> json \<Rightarrow> string \<Rightarrow> piece" where
  "cut_or e n j d = (if jtruthy j then Lit (take n (ce_show e j)) else Ru d)"

text \<open>
  The dictionaries of \<open>result.get(k, [])\<close>: iterating over a text or a dictionary gives texts, over a
  number or \<open>null\<close> raises.
\<close>

fun members_of :: "json option \<Rightarrow> (client_error, json list) result" where
  "members_of None = Inr []"
| "members_of (Some (JList xs)) = Inr xs"
| "members_of (Some (JStr s)) = Inr (map (\<lambda>c. JStr [c]) s)"
| "members_of (Some (JObj ms)) = Inr (map (\<lambda>m. JStr (fst m)) ms)"
| "members_of (Some _) = Inl Value_raised"

definition dicts_of :: "string \<Rightarrow> json \<Rightarrow> (client_error, json list) result" where
  "dicts_of k r = res_bind (members_of (json_get k r)) (\<lambda>xs. Inr (filter is_obj xs))"

text \<open>\<open>int(result.get(k, d))\<close>.\<close>

definition int_member :: "'h client_env \<Rightarrow> string \<Rightarrow> int \<Rightarrow> json \<Rightarrow> (client_error, int) result" where
  "int_member e k d r = (case json_get k r of None \<Rightarrow> Inr d | Some j \<Rightarrow>
     (case ce_int e j of None \<Rightarrow> Inl Value_raised | Some n \<Rightarrow> Inr n))"

text \<open>\<open>x in S\<close> for a set or dictionary \<open>S\<close> of texts: a list or a dictionary is not hashable.\<close>

definition text_in :: "json \<Rightarrow> string list \<Rightarrow> (client_error, bool) result" where
  "text_in j names = check_that (hashable j) Value_raised (Inr (\<exists>s\<in>set names. j = JStr s))"

definition status_label :: "'h client_env \<Rightarrow> json \<Rightarrow> piece" where
  "status_label e j = label_of STATUS_LABELS (str_or e j ''unknown'')"

definition reason_label :: "'h client_env \<Rightarrow> json \<Rightarrow> piece" where
  "reason_label e j = label_of REVIEW_REASON_LABELS (str_or e j ''manual_review_required'')"

section \<open>A recording\<close>

definition error_text :: "'h client_env \<Rightarrow> json \<Rightarrow> piece" where
  "error_text e j = (case j of JStr s \<Rightarrow> label_of ERROR_LABELS s | _ \<Rightarrow> Lit (ce_show e j))"

text \<open>\<open>ERROR_STEP_LABELS.get(str(x or ""))\<close>.\<close>

definition error_step_label :: "'h client_env \<Rightarrow> json \<Rightarrow> string option" where
  "error_step_label e item = map_of ERROR_STEP_LABELS (str_or e (jget ''error_step'' item) '''')"

text \<open>\<open>error and status not in SETTLED and (not review or error in ERROR_LABELS)\<close>, evaluated from the left.\<close>

definition error_is_shown :: "bool \<Rightarrow> json \<Rightarrow> (client_error, bool) result" where
  "error_is_shown review item = (let err = jget ''error'' item in
     if \<not> jtruthy err then Inr False
     else res_bind (text_in (jget ''status'' item) SETTLED_STATUSES) (\<lambda>settled.
       if settled then Inr False else if \<not> review then Inr True else text_in err (map fst ERROR_LABELS)))"

definition error_part :: "'h client_env \<Rightarrow> json \<Rightarrow> line" where
  "error_part e item = Ru ''error'' #
     (case error_step_label e item of Some step \<Rightarrow> [Ru '' (step: '', Ru step, Lit '')''] | None \<Rightarrow> []) @
     [Lit '': '', error_text e (jget ''error'' item)]"

definition optional_part :: "'h client_env \<Rightarrow> string \<Rightarrow> string \<Rightarrow> json \<Rightarrow> line list" where
  "optional_part e k s item = (if jtruthy (jget k item) then [[Ru s, Lit (ce_show e (jget k item))]] else [])"

text \<open>\<open>ERROR_LABELS.get(item["error"], \<dots>)\<close> with an error that is not hashable raises.\<close>

definition item_line :: "'h client_env \<Rightarrow> bool \<Rightarrow> json \<Rightarrow> (client_error, line) result" where
  "item_line e review item =
     res_bind (error_is_shown review item) (\<lambda>with_error.
     check_that (with_error \<longrightarrow> hashable (jget ''error'' item)) Value_raised
      (Inr (Lit ''- '' # joined ''; ''
        ([[shown_or e (jget ''filename'' item) ''recording without a name'']] @
         optional_part e ''candidate_name'' ''candidate: '' item @
         (case json_get ''is_new'' item of None \<Rightarrow> []
          | Some j \<Rightarrow> [[Ru (if jtruthy j then ''new recording'' else ''processed again'')]]) @
         optional_part e ''spot'' ''project: '' item @
         [if review then [Ru ''needs clarification: '', reason_label e (jget ''review_reason'' item)]
          else [Ru ''status: '', status_label e (jget ''status'' item)]] @
         optional_part e ''generated_filename'' ''name in the storage: '' item @
         (if with_error then [error_part e item] else []) @
         optional_part e ''notion_url'' ''Notion card: '' item @
         optional_part e ''safe_link'' ''recording: '' item))))"

section \<open>Scans and statuses\<close>

definition in_review :: "json \<Rightarrow> bool" where
  "in_review item \<longleftrightarrow> jtruthy (jget ''requires_review'' item)"

definition has_status :: "string \<Rightarrow> json \<Rightarrow> bool" where
  "has_status s item \<longleftrightarrow> jget ''status'' item = JStr s"

definition clear_item :: "json \<Rightarrow> (client_error, bool) result" where
  "clear_item item = (if in_review item then Inr False
     else res_bind (text_in (jget ''status'' item) [''failed'', ''found'']) (\<lambda>b. Inr (\<not> b)))"

definition clear_items :: "json list \<Rightarrow> (client_error, json list) result" where
  "clear_items items = res_bind (res_map (\<lambda>i. res_bind (clear_item i) (\<lambda>b. Inr (b, i))) items)
     (\<lambda>xs. Inr (map snd (filter fst xs)))"

definition aborted_message :: "json \<Rightarrow> (client_error, line list) result" where
  "aborted_message r =
     res_bind (dicts_of ''errors'' r) (\<lambda>errors.
       Inr [Ru ''the scan stopped before the recordings'' #
         (if list_ex (\<lambda>x. jget ''stage'' x = JStr ''calendar_discovery'') errors
          then [Ru '' the calendars could not be refreshed; check the access and scan again''] else [])])"

text \<open>A line with a count and the lines of its recordings.\<close>

definition group_lines :: "'h client_env \<Rightarrow> bool \<Rightarrow> string \<Rightarrow> int \<Rightarrow> json list \<Rightarrow> (client_error, line list) result" where
  "group_lines e review s n items = res_bind (res_map (item_line e review) items) (\<lambda>ls. Inr (count_line s n # ls))"

definition scan_groups :: "'h client_env \<Rightarrow> json \<Rightarrow> json list \<Rightarrow> json list \<Rightarrow> (client_error, line list) result" where
  "scan_groups e r items clear =
     (let review = filter in_review items; failed = filter (has_status ''failed'') items;
          waiting = filter (has_status ''found'') items in
      res_bind (int_member e ''manual_review'' (int (length review)) r) (\<lambda>n1.
      res_bind (group_lines e True ''need your clarification: '' n1 review) (\<lambda>l1.
      res_bind (int_member e ''pending'' (int (length waiting)) r) (\<lambda>n2.
      res_bind (group_lines e False ''wait to be processed again: '' n2 waiting) (\<lambda>l2.
      res_bind (int_member e ''without_review'' (int (length clear)) r) (\<lambda>n3.
      res_bind (group_lines e False ''processed without questions: '' n3 clear) (\<lambda>l3.
      res_bind (int_member e ''failed_recordings'' (int (length failed)) r) (\<lambda>n4.
      res_bind (group_lines e False ''with an error: '' n4 failed) (\<lambda>l4.
        Inr (l1 @ l2 @ l3 @ l4))))))))))"

definition scan_head :: "'h client_env \<Rightarrow> json \<Rightarrow> json list \<Rightarrow> (client_error, line list) result" where
  "scan_head e r items =
     res_bind (int_member e ''inserted'' 0 r) (\<lambda>inserted.
     res_bind (int_member e ''discovered'' 0 r) (\<lambda>discovered.
     res_bind (int_member e ''skipped_legacy'' 0 r) (\<lambda>skipped.
     res_bind (int_member e ''processed'' (int (length items)) r) (\<lambda>processed.
       Inr ([[Ru ''the scan is finished''], count_line ''new recordings added: '' inserted,
             count_line ''files to check: '' discovered] @
            (if skipped \<noteq> 0 then [count_line ''old recordings skipped: '' skipped] else []) @
            [count_line ''processed in this run: '' processed])))))"

definition scan_tail :: "'h client_env \<Rightarrow> json \<Rightarrow> json list \<Rightarrow> (client_error, line list) result" where
  "scan_tail e r items =
     res_bind (int_member e ''processed'' (int (length items)) r) (\<lambda>processed.
     res_bind (int_member e ''failed_recordings'' (int (length (filter (has_status ''failed'') items))) r) (\<lambda>failed.
     res_bind (int_member e ''failed'' 0 r) (\<lambda>all_failed.
       Inr ((if jtruthy (jget ''items_truncated'' r)
             then [[Ru ''shown: '', Lit (int_text (int (length items))), Ru '' of '', Lit (int_text processed),
                    Ru ''; ask for the status by date, candidate or status'']] else []) @
            (if max 0 (all_failed - failed) \<noteq> 0
             then [count_line ''other errors of this run: '' (max 0 (all_failed - failed))] else [])))))"

definition scan_message :: "'h client_env \<Rightarrow> json \<Rightarrow> (client_error, line list) result" where
  "scan_message e r =
     res_bind (dicts_of ''items'' r) (\<lambda>items.
     res_bind (clear_items items) (\<lambda>clear.
       if jtruthy (jget ''aborted'' r) then aborted_message r
       else res_bind (scan_head e r items) (\<lambda>h.
            res_bind (scan_groups e r items clear) (\<lambda>g.
            res_bind (scan_tail e r items) (\<lambda>t. Inr (h @ g @ t))))))"

text \<open>\<open>counts[x] = counts.get(x, 0) + 1\<close> over a list: the values in the order they first occur.\<close>

fun add_one :: "'a \<Rightarrow> ('a \<times> nat) list \<Rightarrow> ('a \<times> nat) list" where
  "add_one x [] = [(x, 1)]"
| "add_one x ((y, n) # cs) = (if x = y then (y, Suc n) # cs else (y, n) # add_one x cs)"

definition tally :: "'a list \<Rightarrow> ('a \<times> nat) list" where
  "tally xs = fold add_one xs []"

definition status_head :: "json \<Rightarrow> nat \<Rightarrow> line" where
  "status_head r n = (case jint (jget ''total'' r) of
      Some m \<Rightarrow> if int n < m
        then [Ru ''recordings found: '', Lit (int_text m), Ru ''; the last '', Lit (int_text (int n)), Ru '' are shown'']
        else count_line ''recordings found: '' (int n)
    | None \<Rightarrow> count_line ''recordings found: '' (int n))"

definition status_message :: "'h client_env \<Rightarrow> json \<Rightarrow> (client_error, line list) result" where
  "status_message e r =
     res_bind (dicts_of ''items'' r) (\<lambda>items.
       if items = [] then Inr [[Ru ''no recordings fit the filters'']]
       else res_bind (res_map (\<lambda>i. item_line e (has_status ''manual_review_required'' i) i) items) (\<lambda>ls.
         Inr ([status_head r (length items),
               Ru ''by status: '' # joined ''; '' (map (\<lambda>(l, n). [l, Ru '' - '', Lit (nat_text n)])
                 (tally (map (\<lambda>i. status_label e (jget ''status'' i)) items))) @ [Lit ''.'']] @ ls)))"


section \<open>Reviews and questions\<close>

text \<open>\<open>str(start)[:16].replace('T', ' ')\<close>.\<close>

definition label_of_choice :: "'h client_env \<Rightarrow> json \<Rightarrow> line" where
  "label_of_choice e c =
     (let named = (if jtruthy (jget ''name'' c) then jget ''name'' c
                   else if jtruthy (jget ''summary'' c) then jget ''summary'' c else jget ''event_summary'' c);
          start = jget ''event_start_utc'' c in
      if \<not> jtruthy named then [Ru ''choice without a name'']
      else Lit (take 160 (ce_show e named)) #
        (if jtruthy start then [Lit ('' ('' @ replace_char CHR ''T'' '' '' (take 16 (ce_show e start)) @ '' UTC)'')] else []))"

definition details_of_choice :: "'h client_env \<Rightarrow> (string \<Rightarrow> string) \<Rightarrow> (string \<Rightarrow> string) \<Rightarrow> json \<Rightarrow> line" where
  "details_of_choice e cut_project cut_url c = joined '' - '' ([label_of_choice e c] @
     (if jtruthy (jget ''project_or_spot'' c)
      then [[Ru ''Spots: '', Lit (cut_project (ce_show e (jget ''project_or_spot'' c)))]] else []) @
     (if jtruthy (jget ''url'' c) then [[Lit (cut_url (ce_show e (jget ''url'' c)))]] else []))"

text \<open>\<open>f"{result.get(k, d)}"\<close>: the default only where the member is missing.\<close>

definition shown_member :: "'h client_env \<Rightarrow> string \<Rightarrow> piece \<Rightarrow> json \<Rightarrow> piece" where
  "shown_member e k d r = (case json_get k r of None \<Rightarrow> d | Some j \<Rightarrow> Lit (ce_show e j))"

definition review_lines :: "'h client_env \<Rightarrow> json \<Rightarrow> (client_error, line list) result" where
  "review_lines e r =
     res_bind (dicts_of ''choices'' r) (\<lambda>choices.
       Inr ([[Ru ''a review is needed for the recording '', shown_member e ''filename'' (Ru ''without a name'') r,
              Lit '': '', reason_label e (jget ''reason'' r), Lit ''.''],
             [Lit ''recording ID: '', shown_member e ''recording_id'' (Lit '''') r, Lit ''.'']] @
            (if choices = [] then [[Ru ''no automatic choices; check the data by hand'']]
             else [[Ru ''choices:'']] @
               numbered (\<lambda>i c. Lit (nat_text i @ ''. '') # details_of_choice e id id c) choices @
               [[Ru ''answer with the number of a choice or ask to ignore the recording'']])))"

definition replay_note :: "json \<Rightarrow> line" where
  "replay_note r = (if jtruthy (jget ''replayed'' r) then [Ru '' the repeated request changed nothing''] else [])"

definition mutation_message :: "'h client_env \<Rightarrow> bool \<Rightarrow> json \<Rightarrow> (client_error, line list) result" where
  "mutation_message e chosen r =
     Inr [[Ru (if chosen then ''choice accepted'' else ''recording ignored''), Lit ''. recording ID: '',
           shown_member e ''recording_id'' (Lit '''') r, Lit ''; status: '', status_label e (jget ''status'' r), Lit ''.''] @
          replay_note r]"

text \<open>\<open>_review_reason(x)[:240]\<close>; the script's own labels are shorter.\<close>

definition cut_reason :: "'h client_env \<Rightarrow> json \<Rightarrow> piece" where
  "cut_reason e j = (case reason_label e j of Lit s \<Rightarrow> Lit (take 240 s) | Ru s \<Rightarrow> Ru s)"

definition question_lines :: "'h client_env \<Rightarrow> nat \<Rightarrow> json \<Rightarrow> (client_error, line list) result" where
  "question_lines e i item =
     res_bind (dicts_of ''choices'' item) (\<lambda>choices.
       Inr ([Lit (nat_text i @ ''. '' @ take 240 (str_or e (jget ''filename'' item) ''recording'')), Lit '' - '',
             cut_reason e (jget ''reason'' item)] #
            numbered (\<lambda>k c. Lit (''   '' @ nat_text k @ '') '') # details_of_choice e (take 160) (take 500) c) (take 10 choices)))"

definition questions_message :: "'h client_env \<Rightarrow> json \<Rightarrow> (client_error, line list) result" where
  "questions_message e r =
     res_bind (dicts_of ''items'' r) (\<lambda>items.
       if items = [] then Inr [[Ru ''no open questions'']]
       else res_bind (res_map (\<lambda>(i, x). question_lines e (Suc i) x) (enumerate 0 items)) (\<lambda>ls.
         Inr (count_line ''open questions: '' (int (length items)) # concat ls)))"

definition answer_message :: "'h client_env \<Rightarrow> json \<Rightarrow> (client_error, line list) result" where
  "answer_message e r =
     res_bind (dicts_of ''accepted'' r) (\<lambda>accepted.
     res_bind (dicts_of ''rejected'' r) (\<lambda>rejected.
     res_bind (members_of (json_get ''pending'' r)) (\<lambda>waiting.
       Inr ([[Ru ''answers accepted: '', Lit (nat_text (length accepted)), Ru ''; rejected: '', Lit (nat_text (length rejected)),
              Ru ''; still open: '', Lit (nat_text (length (filter jtruthy waiting))), Lit ''.'']] @
            map (\<lambda>i. [Ru ''- the answer is rejected: '', Lit (take 300 (str_or e (jget ''reason'' i) ''rejected''))]) rejected @
            (if accepted \<noteq> [] then [[Ru ''the accepted answers are being processed'']] else [])))))"

section \<open>Folders, clean-up, summaries\<close>

definition destinations_message :: "'h client_env \<Rightarrow> json \<Rightarrow> (client_error, line list) result" where
  "destinations_message e r =
     res_bind (dicts_of ''items'' r) (\<lambda>items.
       Inr (if items = [] then [[Ru ''no folder of the file station is available'']]
            else count_line ''folders of the file station: '' (int (length items)) #
              numbered (\<lambda>i x. [Lit (nat_text i @ ''. '' @ take 240 (if jtruthy (jget ''path_label'' x) then ce_show e (jget ''path_label'' x)
                else str_or e (jget ''display_name'' x) ''folder''))]) items))"

definition cleanup_preview_message :: "'h client_env \<Rightarrow> json \<Rightarrow> (client_error, line list) result" where
  "cleanup_preview_message e r =
     res_bind (dicts_of ''items'' r) (\<lambda>items.
       Inr (count_line ''ready to be cleaned up, stored in Synology: '' (int (length items)) #
            numbered (\<lambda>i x. [Lit (nat_text i @ ''. ''), cut_or e 240 (jget ''filename'' x) ''recording'']) items @
            [[Ru ''nothing is moved yet; your confirmation is needed'']]))"

definition cleanup_confirm_message :: "'h client_env \<Rightarrow> json \<Rightarrow> (client_error, line list) result" where
  "cleanup_confirm_message e r =
     res_bind (dicts_of ''items'' r) (\<lambda>items.
       let states = sort_key fst (tally (map (\<lambda>x. str_or e (jget ''state'' x) ''unknown'') items)) in
       Inr [Ru ''the clean-up is finished. '' #
            (if states = [] then [Ru ''no recording was suitable'']
             else [Lit (join_with '', '' (map (\<lambda>(s, n). s @ '': '' @ nat_text n) states))])])"

definition summary_source_message :: "'h client_env \<Rightarrow> json \<Rightarrow> (client_error, line list) result" where
  "summary_source_message e r =
     Inr [[Ru ''the mail with the summary is found: '', cut_or e 300 (jget ''subject'' r) ''(no subject)'', Ru '' from '',
           Lit (take 320 (str_or e (jget ''sender'' r) '''')), Lit '' ('',
           Lit (take 32 (str_or e (jget ''received_at'' r) '''')), Lit '').''],
          [Ru ''text of the mail:''], [Lit (str_or e (jget ''body'' r) '''')]]"

definition summary_submit_message :: "json \<Rightarrow> (client_error, line list) result" where
  "summary_submit_message r =
     Inr [[Ru ''the summary is on the card; the assessment waits: answer 1 to send it, 2 to reject it''] @ replay_note r]"


datatype subject = Work_meeting | Interview_recording

text \<open>The name of what is stored, and the same in lower case.\<close>

fun subject_text :: "subject \<Rightarrow> piece" where
  "subject_text Work_meeting = Ru ''Recording of a work meeting''"
| "subject_text Interview_recording = Ru ''Recording of an interview''"

fun lower_subject :: "subject \<Rightarrow> piece" where
  "lower_subject Work_meeting = Ru ''recording of a work meeting''"
| "lower_subject Interview_recording = Ru ''recording of an interview''"

definition link_lines :: "'h client_env \<Rightarrow> json \<Rightarrow> line list" where
  "link_lines e r = (if jtruthy (jget ''safe_link'' r) then [[Ru ''Recording: '', Lit (ce_show e (jget ''safe_link'' r))]] else [])"

definition stored_message :: "'h client_env \<Rightarrow> subject \<Rightarrow> json \<Rightarrow> (client_error, line list) result" where
  "stored_message e s r =
     (let candidate = str_or e (jget ''candidate_name'' r) '''';
          whose = (if candidate = '''' then [] else [Lit ('' ('' @ candidate @ '')'')]) in
      Inr (if jget ''status'' r \<noteq> JStr ''completed'' then
        (if jget ''error'' r = JStr ''notion_temporarily_unavailable''
         then (subject_text s # whose @ [Ru '': the file is stored and linked; the card is written at the next scan'']) # link_lines e r
         else [subject_text s # whose @ [Lit '': '', status_label e (jget ''status'' r), Lit ''.''] @
           (case error_step_label e r of
              Some step \<Rightarrow> if jget ''status'' r = JStr ''failed'' then [Ru '' failed at the step: '', Ru step, Lit ''.''] else []
            | None \<Rightarrow> [])])
       else ([Ru ''stored: '', lower_subject s] @ whose @ [Ru '' is stored'']) #
         (if jtruthy (jget ''notion_url'' r) then [[Ru ''Notion card: '', Lit (ce_show e (jget ''notion_url'' r))]] else []) @
         link_lines e r))"

definition reassignment_targets_message :: "'h client_env \<Rightarrow> json \<Rightarrow> (client_error, line list) result" where
  "reassignment_targets_message e r =
     res_bind (dicts_of ''items'' r) (\<lambda>items.
       Inr (if items = [] then [[Ru ''no card of this link or name is in the base of candidates'']]
            else count_line ''cards found: '' (int (length items)) #
              numbered (\<lambda>i x. [Lit (nat_text i @ ''. '' @ take 200 (str_or e (jget ''title'' x) '''')), Lit '' - '',
                  Lit (str_or e (jget ''url'' x) '''')] @
                (if jtruthy (jget ''recording_present'' x) then [Ru '' (the card has a recording already)''] else []))
                (take 10 items)))"

definition proposal_message :: "'h client_env \<Rightarrow> json \<Rightarrow> (client_error, line list) result" where
  "proposal_message e r =
     (let target = (if is_obj (jget ''target'' r) then jget ''target'' r else JObj []) in
      Inr [[Ru ''the recording will be bound to the card '', Lit (take 200 (str_or e (jget ''title'' target) '''')),
            Lit '': '', Lit (str_or e (jget ''url'' target) '''')],
           [Ru ''nothing is changed yet; your confirmation is needed'']])"

fun message_of :: "'h client_env \<Rightarrow> client_command \<Rightarrow> json \<Rightarrow> (client_error, line list) result" where
  "message_of e (Scan_now _ _ _) r = scan_message e r"
| "message_of e (Status_of _ _ _ _ _ _) r = status_message e r"
| "message_of e (Review_of _ _ _ _) r = review_lines e r"
| "message_of e (Questions_of _ _ _ _) r = questions_message e r"
| "message_of e (Answer _ _ _) r = answer_message e r"
| "message_of e (Destinations_of _ _) r = destinations_message e r"
| "message_of e (Create_destination _ _ _ _) r =
     Inr [[Ru ''folder created: '', cut_or e 200 (jget ''display_name'' r) ''folder'', Lit ''.'']]"
| "message_of e (Route_away _ _ _ _ _ _) r = stored_message e Work_meeting r"
| "message_of e (Route_interview _ _ _ _ _ _) r = stored_message e Interview_recording r"
| "message_of e (Reroute_recording _ _ _ _ _ _) r =
     Inr [[Ru ''the recording is moved; its link: '', shown_or e (jget ''safe_link'' r) ''not available yet'', Lit ''.'']]"
| "message_of e (Reassign_resolve _ _ _ _) r = reassignment_targets_message e r"
| "message_of e (Reassign_propose _ _ _ _) r = proposal_message e r"
| "message_of e (Reassign_confirm _ _ _ _ _) r =
     Inr [[Ru ''the link is moved to the new card and removed from the old one; recording: '',
           shown_or e (jget ''safe_link'' r) ''the link is unchanged'', Lit ''.'']]"
| "message_of e (Summary_source _ _) r = summary_source_message e r"
| "message_of e (Summary_submit _ _ _ _ _ _) r = summary_submit_message r"
| "message_of e (Cleanup_preview_of _ _ _) r = cleanup_preview_message e r"
| "message_of e (Cleanup_confirm _ _ _ _ _ _) r = cleanup_confirm_message e r"
| "message_of e (Routing_activate _ _) r = Inr [[Ru ''the routing job is received'']]"
| "message_of e (Routing_resolve _ _ _ _) r = Inr [[Ru ''the folder is chosen, the transfer is started'']]"
| "message_of e (Routing_defer _ _ _ _ _) r = Inr [[Ru ''the decision is deferred: the recruiter is asked'']]"
| "message_of e (Resolve_review _ _ _ _ _ _ _) r = mutation_message e True r"
| "message_of e (Ignore_review _ _ _ _ _ _) r = mutation_message e False r"

definition message_for :: "'h client_env \<Rightarrow> client_command \<Rightarrow> json \<Rightarrow> (client_error, line list) result" where
  "message_for e c r = (if is_obj r then message_of e c r
     else Inr [[Ru ''the service answered with an unknown format'']])"

section \<open>The program\<close>

text \<open>\<open>error.split(":", 1)[1].strip()\<close> where there is a colon.\<close>

definition after_colon :: "string \<Rightarrow> string" where
  "after_colon s = py_strip (opt_or (snd (cut_at CHR '':'' s)) '''')"

definition error_message :: "string \<Rightarrow> line" where
  "error_message x =
     (if sublist ''HTTP 401'' x \<or> sublist ''HTTP 403'' x then [Ru ''the service refused the authorization; ask the operator'']
      else if sublist ''HTTP 404'' x then [Ru ''the recording or review is not available or does not exist any more'']
      else if sublist ''HTTP 409'' x
      then [Ru ''the service refused the operation: '',
            if take 300 (after_colon x) = '''' then Ru ''the data have changed'' else Lit (take 300 (after_colon x)),
            Ru ''; refresh the status and repeat'']
      else if sublist ''HTTP 410'' x then [Ru ''the review has expired; ask for the status'']
      else if prefix ''Backend unavailable'' x then [Ru ''the service is not available now; repeat later'']
      else [Ru ''the request failed: '', Lit x])"

text \<open>
  What \<open>main\<close> prints and returns: \<open>Answered\<close> with status 0, \<open>Refused\<close> with 1, the usage of \<open>argparse\<close>
  with 2, a traceback otherwise.
\<close>

datatype printed = Answered "line list" json | Refused line string | Usage_shown | Traceback

definition printed_of :: "(client_error, line list \<times> json) result \<Rightarrow> printed" where
  "printed_of x = (case x of
      Inr (message, r) \<Rightarrow> Answered message r
    | Inl (Client_error t) \<Rightarrow> Refused (error_message t) t
    | Inl Usage_error \<Rightarrow> Usage_shown
    | Inl Value_raised \<Rightarrow> Traceback)"

definition client_main :: "'h client_env \<Rightarrow> string \<Rightarrow> (string \<times> string) list \<Rightarrow> 'h \<times> client_call list \<Rightarrow> printed \<times> 'h \<times> client_call list" where
  "client_main e name given w =
     (case io_bind (io_lift (parse_command e name given)) (\<lambda>c. io_bind (execute e c)
        (\<lambda>r. io_lift (res_bind (message_for e c r) (\<lambda>m. Inr (m, r))))) w of
        (x, w1) \<Rightarrow> (printed_of x, w1))"


section \<open>What a run of the program does\<close>

lemma execute_call:
  "execute e c (h, []) = (x, h1, sent) \<Longrightarrow> sent \<noteq> [] \<Longrightarrow>
   \<exists>p. plan_of e c = Inr p \<and> client_call_of e p = Inr (hd sent)"
  by (auto simp: execute_def io_bind_def io_lift_def split: sum.splits dest!: client_request_sends)

lemma client_main_cases:
  assumes "client_main e name given (h, []) = (out, h1, sent)"
  shows "sent = [] \<or> (\<exists>c x h2. parse_command e name given = Inr c \<and> execute e c (h, []) = (x, h2, sent))"
  using assms by (auto simp: client_main_def io_bind_def io_lift_def split: sum.splits prod.splits)

text \<open>
  Property C18.  A run of the command line sends at most one call.  It goes to a host that
  \<open>is_loopback\<close> accepts, as \<open>urlsplit\<close> reads the final URL whatever the arguments are, with no
  credentials in the URL and no \<open>Authorization\<close> but the configured secret.  Where the environment names
  the recruiter, a call that acts for a recruiter acts for that one.
\<close>

theorem client_call_is_local_and_trusted:
  assumes "client_main e name given (h, []) = (out, h1, sent)"
  shows "length sent \<le> 1 \<and> list_all (local_call e) sent \<and>
    (\<forall>c\<in>set sent. \<exists>p. client_call_of e p = Inr c \<and>
       (\<forall>u. named ''recruiter_user_id'' p = Some u \<and> py_strip (ce_user e) \<noteq> '''' \<longrightarrow> u = py_strip (ce_user e)))"
proof (cases "sent = []")
  case False
  then obtain c x h2 where c: "parse_command e name given = Inr c" and run: "execute e c (h, []) = (x, h2, sent)"
    using client_main_cases [OF assms] by blast
  obtain p where p: "plan_of e c = Inr p" "client_call_of e p = Inr (hd sent)" using execute_call [OF run False] by blast
  have "\<forall>u. named ''recruiter_user_id'' p = Some u \<and> py_strip (ce_user e) \<noteq> '''' \<longrightarrow> u = py_strip (ce_user e)"
    using parsed_user [OF c] plan_names_user [OF p(1)] by auto
  moreover have "set sent = {hd sent}" using execute_is_local [OF run] False by (cases sent) auto
  ultimately show ?thesis using execute_is_local [OF run] p(2) by auto
qed simp

text \<open>Every recording of the answer to a scan has a line of the message.\<close>

lemma group_line:
  "group_lines e review s n items = Inr ls \<Longrightarrow> i \<in> set items \<Longrightarrow> \<exists>l\<in>set ls. item_line e review i = Inr l"
  by (auto simp: group_lines_def res_bind_Inr_iff res_map_Inr_iff list_all2_conv_all_nth in_set_conv_nth)

lemma clear_item_kept:
  assumes "clear_items items = Inr clear" "i \<in> set items"
  shows "in_review i \<or> has_status ''failed'' i \<or> has_status ''found'' i \<or> i \<in> set clear"
proof -
  obtain xs where xs: "res_map (\<lambda>i. res_bind (clear_item i) (\<lambda>b. Inr (b, i))) items = Inr xs" "clear = map snd (filter fst xs)"
    using assms(1) by (auto simp: clear_items_def res_bind_Inr_iff)
  then obtain b where "(b, i) \<in> set xs" "clear_item i = Inr b"
    using assms(2) by (auto simp: res_map_Inr_iff res_bind_Inr_iff list_all2_conv_all_nth in_set_conv_nth) metis
  then show ?thesis using xs(2)
    by (force simp: clear_item_def text_in_def check_that_def has_status_def res_bind_def split: if_splits)
qed

lemma scan_message_shows_every_recording:
  assumes "scan_message e r = Inr ls" and "\<not> jtruthy (jget ''aborted'' r)" and "dicts_of ''items'' r = Inr items"
    and "i \<in> set items"
  shows "\<exists>l\<in>set ls. \<exists>review. item_line e review i = Inr l"
proof -
  obtain clear front g rest where clear: "clear_items items = Inr clear" and g: "scan_groups e r items clear = Inr g"
    "ls = front @ g @ rest"
    using assms(1,2,3) by (auto simp: scan_message_def res_bind_Inr_iff)
  obtain n1 l1 n2 l2 n3 l3 n4 l4 where
    l: "group_lines e True ''need your clarification: '' n1 (filter in_review items) = Inr l1"
       "group_lines e False ''wait to be processed again: '' n2 (filter (has_status ''found'') items) = Inr l2"
       "group_lines e False ''processed without questions: '' n3 clear = Inr l3"
       "group_lines e False ''with an error: '' n4 (filter (has_status ''failed'') items) = Inr l4"
    and "g = l1 @ l2 @ l3 @ l4"
    using g(1) by (auto simp: scan_groups_def res_bind_Inr_iff Let_def)
  then show ?thesis using clear_item_kept [OF clear assms(4)] assms(4) g(2) group_line [OF l(1)] group_line [OF l(2)]
      group_line [OF l(3)] group_line [OF l(4)] by fastforce
qed

lemma tally_total: "sum_list (map snd (tally xs)) = length xs"
proof -
  have "sum_list (map snd (add_one x cs)) = Suc (sum_list (map snd cs))" for x and cs :: "('a \<times> nat) list"
    by (induction x cs rule: add_one.induct) auto
  then have "sum_list (map snd (fold add_one xs cs)) = length xs + sum_list (map snd cs)" for cs
    by (induction xs arbitrary: cs) simp_all
  then show ?thesis by (simp add: tally_def)
qed

end
