(* ===== verification/Client_Demo.thy ===== *)
theory Client_Demo
imports Client_Messages
begin

text \<open>A run of the command line against a service that answers with one folder, and with a refusal.\<close>

definition demo_client :: "int \<times> string \<Rightarrow> nat client_env" where
  "demo_client said = \<lparr>ce_backend_url = None, ce_secret = ''s3cret'', ce_email = '''', ce_user = '' mila '', ce_channel = ''dm'',
     ce_brackets = (\<lambda>_. True), ce_loopback = (\<lambda>h. Some (h = ''127.0.0.1'')), ce_uuid = Some,
     ce_json = (\<lambda>s. if s = ''folders'' then Some (JObj [(''items'', JList [JObj [(''display_name'', JStr ''Interviews'')]])])
                    else Some (JObj [(''detail'', JStr s)])),
     ce_show = (\<lambda>j. opt_or (jtext j) ''?''), ce_int = jint, ce_send = (\<lambda>_ n. (Inr said, Suc n))\<rparr>"

definition demo_call :: client_call where
  "demo_call = \<lparr>xc_method = ''GET'',
     xc_url = ''http://127.0.0.1:18000/tools/storage/destinations?recruiter_user_id=mila&mattermost_dm_channel_id=dm'',
     xc_body = None, xc_headers = [(''Accept'', ''application/json''), (''Authorization'', ''Bearer s3cret'')], xc_timeout = 30\<rparr>"

abbreviation demo_plan :: client_plan where
  "demo_plan \<equiv> get_plan ''/tools/storage/destinations''
     [(''recruiter_user_id'', Some ''mila''), (''mattermost_dm_channel_id'', Some ''dm'')]"

lemma demo_parsed:
  "parse_command (demo_client (200, ''folders'')) ''destinations'' [(''recruiter-user-id'', ''mila'')] = Inr (Destinations_of ''mila'' ''dm'')"
  "parse_command (demo_client (409, ''version changed'')) ''destinations'' [] = Inr (Destinations_of ''mila'' ''dm'')"
  by code_simp+

lemma demo_called:
  "client_call_of (demo_client (200, ''folders'')) demo_plan = Inr demo_call"
  "client_call_of (demo_client (409, ''version changed'')) demo_plan = Inr demo_call"
  by code_simp+

lemma demo_message:
  "message_for (demo_client (200, ''folders'')) (Destinations_of ''mila'' ''dm'')
     (JObj [(''items'', JList [JObj [(''display_name'', JStr ''Interviews'')]])]) =
   Inr [[Ru ''folders of the file station: '', Lit ''1'', Lit ''.''], [Lit ''1. Interviews'']]"
  "error_message ''Backend rejected request (HTTP 409): version changed'' =
   [Ru ''the service refused the operation: '', Lit ''version changed'', Ru ''; refresh the status and repeat'']"
  "rejected_text (demo_client (409, ''version changed'')) 409 (JObj [(''detail'', JStr ''version changed'')]) =
   ''Backend rejected request (HTTP 409): version changed''"
  by code_simp+

lemmas demo_steps = client_main_def execute_def client_request_def io_bind_def io_lift_def decoded_answer_def check_that_def
  printed_of_def res_bind_def MAX_RESPONSE_BYTES_def demo_parsed demo_called demo_message

lemma demo_answers:
  "ce_send (demo_client r) c n = (Inr r, Suc n)"
  "ce_json (demo_client r) ''folders'' = Some (JObj [(''items'', JList [JObj [(''display_name'', JStr ''Interviews'')]])])"
  "ce_json (demo_client r) ''version changed'' = Some (JObj [(''detail'', JStr ''version changed'')])"
  by (simp_all add: demo_client_def)

lemma folders_run:
  "client_main (demo_client (200, ''folders'')) ''destinations'' [(''recruiter-user-id'', ''mila'')] (0, []) =
     (Answered [[Ru ''folders of the file station: '', Lit ''1'', Lit ''.''], [Lit ''1. Interviews'']]
        (JObj [(''items'', JList [JObj [(''display_name'', JStr ''Interviews'')]])]), 1, [demo_call])"
  by (simp add: demo_steps demo_answers)

lemma refused_run:
  "client_main (demo_client (409, ''version changed'')) ''destinations'' [] (0, []) =
     (Refused [Ru ''the service refused the operation: '', Lit ''version changed'', Ru ''; refresh the status and repeat'']
        ''Backend rejected request (HTTP 409): version changed'', 1, [demo_call])"
  by (simp add: demo_steps demo_answers)

lemma other_user_run:
  "client_main (demo_client (200, ''folders'')) ''destinations'' [(''recruiter-user-id'', ''other'')] (0, []) =
     (Refused [Ru ''the request failed: '', Lit ''Explicit value conflicts with trusted recruiter identity'']
        ''Explicit value conflicts with trusted recruiter identity'', 0, [])"
  by code_simp

text \<open>Witness for the property of \<open>Client_Messages\<close>: the run that lists the folders sends the call.\<close>

theorem local_call_witness:
  "\<exists>out h1 sent. client_main (demo_client (200, ''folders'')) ''destinations'' [(''recruiter-user-id'', ''mila'')] (0, []) = (out, h1, sent) \<and>
     sent = [demo_call] \<and> list_all (local_call (demo_client (200, ''folders''))) sent \<and>
     (\<exists>p. client_call_of (demo_client (200, ''folders'')) p = Inr demo_call \<and>
        (\<forall>u. named ''recruiter_user_id'' p = Some u \<longrightarrow> u = ''mila''))"
proof -
  have trusted: "py_strip (ce_user (demo_client (200, ''folders''))) = ''mila''" by code_simp
  show ?thesis using client_call_is_local_and_trusted [OF folders_run] by (simp add: folders_run trusted)
qed

end
