(* ===== verification/Operator_Tools.thy ===== *)
theory Operator_Tools
imports Agent
begin

text \<open>
  The small tools an operator runs by hand under \<open>tools/setup\<close>: \<open>rematch_calendar_events.py\<close> puts recordings
  back whose file name cannot be read, \<open>reset_recording_state.py\<close> empties the workflow tables of a test
  installation, \<open>preflight_notion.py\<close> inspects one database of a canary.
\<close>

section \<open>Recordings matched under a file name that cannot be read\<close>

record remediation_finding =
  rf_recording_id :: string
  rf_disk_filename :: string
  rf_stored_summary :: "string option"
  rf_reason :: string

text \<open>Only a \<open>ValueError\<close> is caught: an unknown time zone is another exception.\<close>

definition unreadable :: "text_env \<Rightarrow> string \<Rightarrow> recording \<Rightarrow> (agent_error, bool) result" where
  "unreadable te zone r = (case parse_recording_filename te (r_disk_filename r) zone of
      Inr _ \<Rightarrow> Inr False
    | Inl Unknown_zone \<Rightarrow> Inl (Value_failed ''unknown time zone'')
    | Inl _ \<Rightarrow> Inr True)"

definition finding_of :: "recording \<Rightarrow> remediation_finding" where
  "finding_of r = \<lparr>rf_recording_id = r_id r, rf_disk_filename = r_disk_filename r,
     rf_stored_summary = r_calendar_event_summary r, rf_reason = ''filename_invalid''\<rparr>"

definition event_found :: "recording \<Rightarrow> bool" where
  "event_found r \<longleftrightarrow> r_status r = CALENDAR_EVENT_FOUND"

definition find_false_calendar_matches :: "text_env \<Rightarrow> string \<Rightarrow> db \<Rightarrow> (agent_error, remediation_finding list) result" where
  "find_false_calendar_matches te zone d =
     res_bind (res_map (\<lambda>r. res_bind (unreadable te zone r) (\<lambda>b. Inr (b, r))) (filter event_found (db_recordings d)))
       (\<lambda>rows. Inr (map (finding_of \<circ> snd) (filter fst rows)))"

definition requeued :: "recording \<Rightarrow> recording" where
  "requeued r = r\<lparr>r_status := FOUND, r_calendar_event_uid := None, r_calendar_event_recurrence_id := None,
     r_calendar_event_summary := None, r_calendar_dtstart := None, r_calendar_dtend := None,
     r_calendar_organizer := None, r_calendar_telemost_url := None, r_calendar_raw_ics := None,
     r_matched_calendar_id := None, r_matched_calendar_url := None, r_matched_calendar_display_name := None,
     r_manual_review_reason := None, r_manual_review_candidates := None\<rparr>"

record audit_entry =
  au_recording_id :: string
  au_operator :: string
  au_action :: string

definition listed_in :: "remediation_finding list \<Rightarrow> recording \<Rightarrow> bool" where
  "listed_in fs r \<longleftrightarrow> r_id r \<in> set (map rf_recording_id fs) \<and> event_found r"

definition apply_requeue ::
  "remediation_finding list \<Rightarrow> string \<Rightarrow> ('n, 'w, 'c, 'd, 'k, 'h, audit_entry list) agent_io" where
  "apply_requeue fs operator =
     io_guard (py_strip operator \<noteq> '''') (Value_failed ''Operator identity is required'')
      (if fs = [] then io_return []
       else io_bind (see (\<lambda>d. filter (listed_in fs) (db_recordings d))) (\<lambda>rows.
            io_bind (save (\<lambda>d. d\<lparr>db_recordings := update_where (listed_in fs) requeued (db_recordings d)\<rparr>)) (\<lambda>_.
              io_return (map (\<lambda>r. \<lparr>au_recording_id = r_id r, au_operator = operator, au_action = ''requeued_to_found''\<rparr>) rows))))"

text \<open>\<open>_run\<close>: the findings, or with \<open>--apply\<close> the audit of what was put back.\<close>

definition rematch ::
  "('n, 'w, 'c, 'd, 'k, 'h) outside \<Rightarrow> bool \<Rightarrow> string option \<Rightarrow>
   ('n, 'w, 'c, 'd, 'k, 'h, remediation_finding list \<times> audit_entry list) agent_io" where
  "rematch os apply operator = in_session
     (io_bind (see (find_false_calendar_matches (os_env os) (st_recording_filename_timezone (sv_settings (os_services os))))) (\<lambda>found.
      io_bind (io_lift found) (\<lambda>fs.
        if \<not> apply then io_return (fs, [])
        else (case operator of
            None \<Rightarrow> io_raise (Value_failed ''--operator is required with --apply'')
          | Some x \<Rightarrow> io_bind (apply_requeue fs x) (\<lambda>audit. io_return (fs, audit))))))"

section \<open>Emptying a test installation\<close>

text \<open>The attempts are traces and have no table in the model; they are deleted with the recordings.\<close>

record state_counts =
  sk_recordings :: nat
  sk_manual_reviews :: nat
  sk_intent_replays :: nat
  sk_question_digests :: nat
  sk_notification_outbox :: nat
  sk_storage_destinations :: nat
  sk_cleanup_previews :: nat
  sk_cleanup_file_results :: nat

definition CONFIRMATION :: string where "CONFIRMATION = ''RESET-TEST-RECORDING-STATE''"

definition require_safe_reset_settings :: "settings \<Rightarrow> (agent_error, unit) result" where
  "require_safe_reset_settings st =
     check_that (st_app_environment st = Testing \<and> st_test_mode_enabled st)
       (Value_failed ''Recording-state reset is allowed only in explicit test mode'')
    (check_that (\<not> st_scheduler_enabled st) (Value_failed ''Disable the scheduler before resetting recording state'') (Inr ()))"

definition inspect_recording_state :: "db \<Rightarrow> state_counts" where
  "inspect_recording_state d = \<lparr>sk_recordings = length (db_recordings d), sk_manual_reviews = length (db_reviews d),
     sk_intent_replays = length (db_intents d), sk_question_digests = length (db_digests d),
     sk_notification_outbox = length (db_outbox d), sk_storage_destinations = length (db_destinations d),
     sk_cleanup_previews = length (db_previews d), sk_cleanup_file_results = length (db_file_results d)\<rparr>"

text \<open>
  The deletions in their order.  What the database does with the rows that refer to a recording (jobs,
  artifacts, reroutes, proposals: deleted with it, or the statement is refused) is the argument
  \<open>cascade\<close>.
\<close>

definition emptied :: "(db \<Rightarrow> db option) \<Rightarrow> db \<Rightarrow> db option" where
  "emptied cascade d =
     map_option (\<lambda>d1. d1\<lparr>db_destinations := [], db_intents := []\<rparr>)
       (cascade (d\<lparr>db_file_results := [], db_previews := [], db_outbox := [], db_reviews := [], db_digests := [],
          db_recordings := []\<rparr>))"

definition reset_recording_state ::
  "('n, 'w, 'c, 'd, 'k, 'h) outside \<Rightarrow> (db \<Rightarrow> db option) \<Rightarrow> string \<Rightarrow> ('n, 'w, 'c, 'd, 'k, 'h, state_counts) agent_io" where
  "reset_recording_state os cascade confirmation =
     io_bind (io_lift (require_safe_reset_settings (sv_settings (os_services os)))) (\<lambda>_.
     io_guard (confirmation = CONFIRMATION) (Value_failed ''Confirmation must be exact'')
      (io_bind (see inspect_recording_state) (\<lambda>counts.
       io_bind (see (emptied cascade)) (\<lambda>x.
         case x of None \<Rightarrow> io_raise (App_failed Integrity_violation)
         | Some d \<Rightarrow> io_bind (save (\<lambda>_. d)) (\<lambda>_. io_return counts)))))"

definition run_reset ::
  "('n, 'w, 'c, 'd, 'k, 'h) outside \<Rightarrow> (db \<Rightarrow> db option) \<Rightarrow> bool \<Rightarrow> string option \<Rightarrow> ('n, 'w, 'c, 'd, 'k, 'h, state_counts) agent_io" where
  "run_reset os cascade apply confirmation =
     io_bind (io_lift (require_safe_reset_settings (sv_settings (os_services os)))) (\<lambda>_.
       in_session (if apply then reset_recording_state os cascade (opt_or confirmation '''') else see inspect_recording_state))"

section \<open>Inspecting a canary's database\<close>

definition require_canary_boundary :: "settings \<Rightarrow> string \<Rightarrow> (agent_error, unit) result" where
  "require_canary_boundary st database_id =
     check_that (st_test_mode_enabled st) (Value_failed ''Notion schema preflight requires TEST_MODE_ENABLED=true'')
    (check_that (database_id \<in> set (st_test_notion_database_allowlist st))
       (Value_failed ''Notion database is not in TEST_NOTION_DATABASE_ALLOWLIST'')
    (check_that (\<not> (st_scheduler_enabled st \<or> st_autonomous_routing_enabled st \<or> st_notion_writes_enabled st \<or>
         st_mattermost_delivery_enabled st \<or> st_yandex_source_mutation_enabled st))
       (Value_failed ''Notion schema preflight requires all side-effect flags to be disabled'') (Inr ())))"

text \<open>The defaults of \<open>inspect_database\<close> stand for what the call leaves out.\<close>

definition canary_map :: "settings \<Rightarrow> notion_property_map" where
  "canary_map st = \<lparr>pm_name_prop = st_notion_name_prop st, pm_date_prop = st_notion_date_prop st,
     pm_recording_prop = st_notion_recording_prop st, pm_project_prop = st_notion_project_prop st,
     pm_project_prop_type = st_notion_project_prop_type st, pm_contacts_mode = Formula_contacts,
     pm_contacts_prop = st_notion_contacts_prop st, pm_contacts_relation_prop = '''', pm_contacts_target_prop = ''''\<rparr>"

definition inspect_canary_notion_schema ::
  "('n, 'w, 'c, 'd, 'k, 'h) outside \<Rightarrow> string \<Rightarrow> ('n, 'w, 'c, 'd, 'k, 'h, string \<times> notion_schema) agent_io" where
  "inspect_canary_notion_schema os database_id =
     (let sv = os_services os; st = sv_settings sv in
      io_bind (io_lift (require_canary_boundary st database_id)) (\<lambda>_.
        in_world (in_notion (inspect_database (sv_notion sv) (canary_map st) database_id) Notion_failed)))"

section \<open>What the tools change\<close>

lemma finding_is_unreadable:
  assumes "find_false_calendar_matches te zone d = Inr fs" and "f \<in> set fs"
  shows "\<exists>r\<in>set (db_recordings d). event_found r \<and> f = finding_of r \<and> unreadable te zone r = Inr True"
  using assms by (fastforce simp: find_false_calendar_matches_def res_bind_Inr_iff dest: res_map_member)

text \<open>A recording whose file name can be read, or that is not matched to an event, is left as it is.\<close>

lemma rematch_rows:
  assumes "rematch os apply operator s = (v, s1)" and "w_db (ag_world s) = w_saved (ag_world s)"
  shows "\<exists>fs. db_recordings (w_saved (ag_world s1)) = update_where (listed_in fs) requeued (db_recordings (w_db (ag_world s))) \<and>
    (\<forall>f\<in>set fs. \<exists>r\<in>set (db_recordings (w_db (ag_world s))). event_found r \<and> f = finding_of r \<and>
       unreadable (os_env os) (st_recording_filename_timezone (sv_settings (os_services os))) r = Inr True)"
proof -
  let ?te = "os_env os" and ?zone = "st_recording_filename_timezone (sv_settings (os_services os))"
  have none: "update_where (listed_in []) requeued xs = xs" for xs by (induction xs) (auto simp: update_where_def listed_in_def)
  show ?thesis
  proof (cases "find_false_calendar_matches ?te ?zone (w_db (ag_world s))")
    case (Inl e)
    then show ?thesis using assms
      by (intro exI[of _ "[]"]) (auto simp: rematch_def in_session_def io_bind_app none)
  next
    case (Inr fs)
    show ?thesis
    proof (cases "\<exists>x. apply \<and> operator = Some x \<and> py_strip x \<noteq> ''''")
      case True
      then show ?thesis using assms Inr finding_is_unreadable[OF Inr] none
        by (intro exI[of _ fs])
          (auto simp: rematch_def in_session_def io_bind_app apply_requeue_def io_guard_app io_return_def split: if_splits)
    next
      case False
      then show ?thesis using assms Inr
        by (intro exI[of _ "[]"])
          (auto simp: rematch_def in_session_def io_bind_app apply_requeue_def io_guard_app io_return_def io_raise_def none
            split: if_splits option.splits)
    qed
  qed
qed

lemma canary_refused:
  "require_canary_boundary (sv_settings (os_services os)) db = Inl e \<Longrightarrow> inspect_canary_notion_schema os db s = (Inl e, s)"
  by (simp add: inspect_canary_notion_schema_def io_bind_app Let_def)

lemma reset_needs_test_mode:
  assumes "run_reset os cascade apply confirmation s = (Inr counts, s1)"
  shows "st_app_environment (sv_settings (os_services os)) = Testing \<and> st_test_mode_enabled (sv_settings (os_services os)) \<and>
    (\<not> apply \<longrightarrow> w_saved (ag_world s1) = w_saved (ag_world s))"
  using assms
  by (auto simp: run_reset_def io_bind_Inr_iff require_safe_reset_settings_def check_that_def in_session_def see_def
    split: if_splits)

end
