(* ===== verification/Sid_Inventory.thy ===== *)
theory Sid_Inventory
imports Synology_Path
begin

text \<open>
  \<open>tools/setup/synology_sid_inventory.py\<close>: an operator's helper that logs in to the file station with a
  one-time code or a device token, lists the folders of \<open>/home\<close> or mirrors the folder trees of the two
  source roots there, and logs out.  A listing follows the pages the server announces and a tree the
  folders it lists, which may go on for ever: both recurse on a bound whose end is an error of its own,
  never caught.
\<close>

section \<open>Requests\<close>

datatype sid_request =
    Sid_login "(string \<times> string) list"
  | Sid_logout string
  | Sid_list string nat
  | Sid_info string
  | Sid_create string string
  | Sid_rename string string

datatype sid_error =
    Sid_failed string
  | Sid_connection
  | Sid_value
  | Sid_type
  | Sid_endless

text \<open>
  Outside the tool: the exchange (\<open>None\<close> is a connection that failed), \<open>json.dumps\<close>, the text of an
  exception and a random UUID's digits.
\<close>

record 'h sid_env =
  se_answer :: "sid_request \<Rightarrow> 'h \<Rightarrow> http_response option \<times> 'h"
  se_dump :: "json \<Rightarrow> string"
  se_text :: "sid_error \<Rightarrow> string"
  se_hex :: string

type_synonym ('h, 'a) sid_io = "('h \<times> sid_request list, sid_error, 'a) io"

definition exchange :: "'h sid_env \<Rightarrow> sid_request \<Rightarrow> ('h, http_response) sid_io" where
  "exchange e q = (\<lambda>(h, sent). case se_answer e q h of
      (None, h1) \<Rightarrow> (Inl Sid_connection, (h1, sent @ [q]))
    | (Some r, h1) \<Rightarrow> (Inr r, (h1, sent @ [q])))"

text \<open>\<open>canonical\<close> of this file, written out again there.\<close>

definition sid_canonical :: "string \<Rightarrow> (sid_error, string) result" where
  "sid_canonical path =
     (let parts = filter (\<lambda>part. part \<noteq> '''') (split_on CHR ''/'' path) in
      if \<not> prefix ''/'' path \<or> CHR 0x5C \<in> set path \<or> CHR 0x00 \<in> set path then Inl Sid_value
      else if list_ex (\<lambda>part. part \<in> {''.'', ''..''}) parts then Inl Sid_value
      else Inr (''/'' @ join_with ''/'' parts))"

definition decoded_json :: "http_response \<Rightarrow> (sid_error, json) result" where
  "decoded_json r = (case resp_json r of None \<Rightarrow> Inl Sid_value | Some j \<Rightarrow> Inr j)"

definition sid_code :: "json \<Rightarrow> json" where
  "sid_code payload = jget ''code'' (jget ''error'' payload)"

definition sid_validate :: "'h sid_env \<Rightarrow> int list \<Rightarrow> http_response \<Rightarrow> (sid_error, json) result" where
  "sid_validate e allowed r =
     res_bind (decoded_json r) (\<lambda>payload.
     check_that (hashable (sid_code payload)) Sid_type
      (if \<exists>n\<in>set allowed. jint (sid_code payload) = Some n then Inr payload
       else check_that (\<not> (is_error_status (resp_status r) \<or> \<not> is_obj payload \<or> jget ''success'' payload = JBool False))
         (Sid_failed (take 500 (se_dump e payload))) (Inr payload)))"

definition sid_data :: "json \<Rightarrow> json" where
  "sid_data payload = (if is_obj (jget ''data'' payload) then jget ''data'' payload else JObj [])"

definition validated :: "'h sid_env \<Rightarrow> sid_request \<Rightarrow> ('h, json) sid_io" where
  "validated e q = io_bind (exchange e q) (\<lambda>r. io_lift (sid_validate e [] r))"

section \<open>The environment file and the session\<close>

definition quoted :: "string \<Rightarrow> bool" where
  "quoted v \<longleftrightarrow> 2 \<le> length v \<and> hd v = last v \<and> hd v \<in> {CHR 0x27, CHR 0x22}"

text \<open>The lines of the file; a later line of a name replaces an earlier one.\<close>

fun parse_env :: "string list \<Rightarrow> (string \<rightharpoonup> string) \<Rightarrow> (string \<rightharpoonup> string)" where
  "parse_env [] vs = vs"
| "parse_env (l # ls) vs =
     (let stripped = py_strip l;
          key = takeWhile (\<lambda>c. c \<noteq> CHR ''='') stripped;
          raw = py_strip (drop (Suc (length key)) stripped)
      in if stripped = '''' \<or> prefix ''#'' stripped \<or> CHR ''='' \<notin> set stripped then parse_env ls vs
         else parse_env ls (vs(py_strip key \<mapsto> (if quoted raw then butlast (tl raw) else raw))))"

definition DEVICE_NAME :: string where "DEVICE_NAME = ''recording-agent-codex''"

text \<open>The members that tell how the device is known; without a code or a token the tool stops.\<close>

definition second_factor :: "(string \<rightharpoonup> string) \<Rightarrow> string option \<Rightarrow> (sid_error, (string \<times> string) list) result" where
  "second_factor env otp =
     (if truthy otp then Inr [(''otp_code'', the otp), (''enable_device_token'', ''yes''), (''device_name'', DEVICE_NAME)]
      else if truthy (env ''SYNOLOGY_DEVICE_ID'') then Inr [(''device_id'', the (env ''SYNOLOGY_DEVICE_ID''))]
      else Inl (Sid_failed ''Provide --otp once or set SYNOLOGY_DEVICE_ID in .env''))"

definition login :: "'h sid_env \<Rightarrow> (string \<rightharpoonup> string) \<Rightarrow> string option \<Rightarrow> ('h, string \<times> bool) sid_io" where
  "login e env otp =
     io_bind (io_lift (second_factor env otp)) (\<lambda>factor.
     io_bind (validated e (Sid_login ([(''account'', opt_or (env ''SYNOLOGY_USER'') ''''),
         (''passwd'', opt_or (env ''SYNOLOGY_PASS'') '''')] @ factor))) (\<lambda>payload.
       case jtext (jget ''sid'' (sid_data payload)) of
         None \<Rightarrow> io_raise (Sid_failed ''Synology auth succeeded without SID'')
       | Some sid \<Rightarrow> io_guard (sid \<noteq> '''') (Sid_failed ''Synology auth succeeded without SID'')
           (io_return (sid, jtext (jget ''did'' (sid_data payload)) \<noteq> None))))"

section \<open>Listing\<close>

definition SID_PAGE_SIZE :: nat where "SID_PAGE_SIZE = 100"

definition listed_paths :: "json list \<Rightarrow> (sid_error, string list) result" where
  "listed_paths files = res_map sid_canonical (List.map_filter (\<lambda>x. jtext (jget ''path'' x)) (filter is_obj files))"

fun sid_pages :: "'h sid_env \<Rightarrow> string \<Rightarrow> nat \<Rightarrow> nat \<Rightarrow> ('h, string list) sid_io" where
  "sid_pages e folder 0 offset = io_raise Sid_endless"
| "sid_pages e folder (Suc n) offset =
     io_bind (validated e (Sid_list folder offset)) (\<lambda>payload.
     let files = jitems (jget ''files'' (sid_data payload)); offset1 = offset + length files in
     io_bind (io_lift (listed_paths files)) (\<lambda>paths.
       if length files < SID_PAGE_SIZE \<or>
          (case jint (jget ''total'' (sid_data payload)) of None \<Rightarrow> False | Some t \<Rightarrow> t \<le> int offset1)
       then io_return paths
       else io_bind (sid_pages e folder n offset1) (\<lambda>rest. io_return (paths @ rest))))"

abbreviation sid_list_dirs :: "'h sid_env \<Rightarrow> nat \<Rightarrow> string \<Rightarrow> ('h, string list) sid_io" where
  "sid_list_dirs e bound folder \<equiv> sid_pages e folder bound 0"

text \<open>\<open>except Exception\<close>; the end of the bound is none.\<close>

definition softly :: "('h, 'a) sid_io \<Rightarrow> (sid_error \<Rightarrow> ('h, 'a) sid_io) \<Rightarrow> ('h, 'a) sid_io" where
  "softly m f = io_catch m (\<lambda>x. if x = Sid_endless then io_raise x else f x)"

definition list_dirs_soft :: "'h sid_env \<Rightarrow> nat \<Rightarrow> string \<Rightarrow> ('h, string list \<times> (string \<times> string) list) sid_io" where
  "list_dirs_soft e bound folder =
     softly (io_bind (sid_list_dirs e bound folder) (\<lambda>ps. io_return (ps, [])))
       (\<lambda>x. io_return ([], [(folder, se_text e x)]))"

text \<open>The folders that are new, in their order.\<close>

fun new_paths :: "string list \<Rightarrow> string list \<Rightarrow> string list" where
  "new_paths seen [] = []"
| "new_paths seen (p # ps) = (if p \<in> set seen then new_paths seen ps else p # new_paths (p # seen) ps)"

text \<open>The queue of folders with their depth, the folders seen, the output and the folders skipped.\<close>

fun tree_loop ::
  "'h sid_env \<Rightarrow> nat \<Rightarrow> int \<Rightarrow> nat \<Rightarrow> (string \<times> int) list \<Rightarrow> string list \<Rightarrow> string list \<times> (string \<times> string) list \<Rightarrow>
   ('h, string list \<times> (string \<times> string) list) sid_io" where
  "tree_loop e bound max_depth n [] seen found = io_return found"
| "tree_loop e bound max_depth 0 (q # queue) seen found = io_raise Sid_endless"
| "tree_loop e bound max_depth (Suc n) ((parent, depth) # queue) seen (output, skipped) =
     (if max_depth \<le> depth then tree_loop e bound max_depth n queue seen (output, skipped)
      else io_bind (list_dirs_soft e bound parent) (\<lambda>(paths, bad).
        let fresh = new_paths seen paths in
        tree_loop e bound max_depth n (queue @ map (\<lambda>p. (p, depth + 1)) fresh) (fresh @ seen)
          (output @ fresh, skipped @ bad)))"

definition collect_tree ::
  "'h sid_env \<Rightarrow> nat \<Rightarrow> int \<Rightarrow> string \<Rightarrow> ('h, string list \<times> (string \<times> string) list) sid_io" where
  "collect_tree e bound max_depth root = tree_loop e bound max_depth bound [(root, 0)] [root] ([], [])"

section \<open>Creating folders\<close>

text \<open>\<open>canonical_path.rpartition("/")[0] or "/"\<close>.\<close>

definition upper_folder :: "string \<Rightarrow> string" where
  "upper_folder p = (let up = join_with ''/'' (butlast (split_on CHR ''/'' p)) in if up = '''' then ''/'' else up)"

text \<open>The answer to \<open>getinfo\<close>: some item that is not a file has this path.\<close>

fun info_has :: "string \<Rightarrow> json list \<Rightarrow> (sid_error, bool) result" where
  "info_has path [] = Inr False"
| "info_has path (x # xs) =
     (case jtext (jget ''path'' x) of
        Some p \<Rightarrow> if jget ''isdir'' x = JBool False then info_has path xs
          else res_bind (sid_canonical p) (\<lambda>c. if c = path then Inr True else info_has path xs)
      | None \<Rightarrow> info_has path xs)"

definition exists_dir :: "'h sid_env \<Rightarrow> nat \<Rightarrow> string \<Rightarrow> ('h, bool) sid_io" where
  "exists_dir e bound path =
     io_bind (io_lift (sid_canonical path)) (\<lambda>c.
       softly (io_bind (sid_list_dirs e bound (upper_folder c)) (\<lambda>ps. io_return (c \<in> set ps)))
        (\<lambda>_. io_bind (exchange e (Sid_info path)) (\<lambda>r.
           case resp_json r of
             None \<Rightarrow> io_return False
           | Some payload \<Rightarrow>
               if jget ''success'' payload \<noteq> JBool True then io_return False
               else io_lift (info_has c (jitems (jget ''files'' (sid_data payload)))))))"

definition unsafe_name :: "string \<Rightarrow> bool" where
  "unsafe_name name \<longleftrightarrow> name \<in> {'''', ''.'', ''..''} \<or> CHR ''/'' \<in> set name \<or> CHR 0x5C \<in> set name"

text \<open>\<open>name[:1].isdigit()\<close>: the superscripts of the range are digits too.\<close>

definition starts_with_digit :: "string \<Rightarrow> bool" where
  "starts_with_digit name \<longleftrightarrow> name \<noteq> '''' \<and> (hd name \<in> set ''0123456789'' \<or> (of_char (hd name) :: nat) \<in> {178, 179, 185})"

definition child_path :: "string \<Rightarrow> string \<Rightarrow> string" where
  "child_path parent name = rstrip_by (\<lambda>c. c = CHR ''/'') parent @ ''/'' @ name"

text \<open>
  A name that begins with a digit is refused by this file station: the folder is made under another name
  and renamed.  A payload that is no dictionary has no \<open>get\<close>.
\<close>

definition create_dir :: "'h sid_env \<Rightarrow> string \<Rightarrow> string \<Rightarrow> ('h, unit) sid_io" where
  "create_dir e parent name =
     io_guard (\<not> unsafe_name name) Sid_value
      (io_bind (exchange e (Sid_create parent name)) (\<lambda>r.
       io_bind (io_lift (decoded_json r)) (\<lambda>payload.
       io_guard (is_obj payload) Sid_type
        (if jget ''success'' payload = JBool True \<or> \<not> starts_with_digit name
         then io_bind (io_lift (sid_validate e [409, 1101] r)) (\<lambda>_. io_return ())
         else io_guard (hashable (sid_code payload)) Sid_type
          (if jint (sid_code payload) \<in> {Some 409, Some 1101} then io_return ()
           else (let temp = ''tmp-recording-agent-'' @ take 12 (se_hex e) in
             io_bind (validated e (Sid_create parent temp)) (\<lambda>_.
             io_bind (validated e (Sid_rename (CHR 0x22 # child_path parent temp @ [CHR 0x22]) (CHR 0x22 # name @ [CHR 0x22]))) (\<lambda>_.
               io_return ()))))))))"

text \<open>The folders created and the errors, added to those so far; the first error ends a path.\<close>

type_synonym made = "string list \<times> (string \<times> string) list"

fun ensure_parts :: "'h sid_env \<Rightarrow> nat \<Rightarrow> string \<Rightarrow> string list \<Rightarrow> made \<Rightarrow> ('h, made) sid_io" where
  "ensure_parts e bound parent [] m = io_return m"
| "ensure_parts e bound parent (part # parts) (created, errors) =
     (let target = child_path parent part in
      io_bind (exists_dir e bound target) (\<lambda>there.
        if there then ensure_parts e bound target parts (created, errors)
        else io_bind (softly (io_bind (create_dir e parent part) (\<lambda>_. io_return None)) (\<lambda>x. io_return (Some x))) (\<lambda>failed.
          case failed of
            None \<Rightarrow> ensure_parts e bound target parts (created @ [target], errors)
          | Some x \<Rightarrow> io_return (created, errors @ [(target, se_text e x)]))))"

definition path_parts :: "string \<Rightarrow> string list" where
  "path_parts p = filter (\<lambda>part. part \<noteq> '''') (split_on CHR ''/'' p)"

definition ensure_path :: "'h sid_env \<Rightarrow> nat \<Rightarrow> string \<Rightarrow> made \<Rightarrow> ('h, made) sid_io" where
  "ensure_path e bound path m =
     io_bind (io_lift (sid_canonical path)) (\<lambda>c. ensure_parts e bound ''/'' (path_parts c) m)"

section \<open>The commands\<close>

definition SOURCE_ROOTS :: "string list" where "SOURCE_ROOTS = [''/Recruiting-E'', ''/Recruiting-NE'']"
definition TARGET_PARENT :: string where "TARGET_PARENT = ''/home''"
definition TARGET_ROOT_NAMES :: "(string \<times> string) list" where
  "TARGET_ROOT_NAMES = [(''Recruiting-E'', ''Recruiting-E''), (''Recruiting-NE'', ''Recruiting-NE'')]"

fun collect_roots :: "'h sid_env \<Rightarrow> nat \<Rightarrow> int \<Rightarrow> string list \<Rightarrow> ('h, string list \<times> (string \<times> string) list) sid_io" where
  "collect_roots e bound max_depth [] = io_return ([], [])"
| "collect_roots e bound max_depth (root # roots) =
     io_bind (collect_tree e bound max_depth root) (\<lambda>(paths, bad).
     io_bind (collect_roots e bound max_depth roots) (\<lambda>(more, bad1). io_return (root # paths @ more, bad @ bad1)))"

definition target_of :: "string \<Rightarrow> (sid_error, string option) result" where
  "target_of source = res_bind (sid_canonical source) (\<lambda>c.
     Inr (case path_parts c of
       [] \<Rightarrow> None
     | part # parts \<Rightarrow> map_option (\<lambda>name. TARGET_PARENT @ ''/'' @ join_with ''/'' (name # parts)) (map_of TARGET_ROOT_NAMES part)))"

fun ensure_all :: "'h sid_env \<Rightarrow> nat \<Rightarrow> string list \<Rightarrow> made \<Rightarrow> ('h, made) sid_io" where
  "ensure_all e bound [] m = io_return m"
| "ensure_all e bound (p # ps) m = io_bind (ensure_path e bound p m) (ensure_all e bound ps)"

text \<open>What the mirroring prints.\<close>

record mirror_report =
  mi_sources :: "string list"
  mi_skipped :: "(string \<times> string) list"
  mi_desired :: "string list"
  mi_created :: "string list"
  mi_errors :: "(string \<times> string) list"

definition mirror_home :: "'h sid_env \<Rightarrow> nat \<Rightarrow> int \<Rightarrow> ('h, mirror_report) sid_io" where
  "mirror_home e bound max_depth =
     io_bind (collect_roots e bound max_depth SOURCE_ROOTS) (\<lambda>(sources, skipped).
     io_bind (io_lift (res_map target_of sources)) (\<lambda>targets.
     let desired = List.map_filter id targets in
     io_bind (ensure_all e bound desired ([], [])) (\<lambda>(created, errors).
       io_return \<lparr>mi_sources = sources, mi_skipped = skipped, mi_desired = desired, mi_created = created,
         mi_errors = errors\<rparr>)))"

datatype sid_output = Home_folders "string list" | Mirrored mirror_report

definition sid_work :: "'h sid_env \<Rightarrow> nat \<Rightarrow> int option \<Rightarrow> ('h, sid_output) sid_io" where
  "sid_work e bound depth = (case depth of
      None \<Rightarrow> io_bind (sid_list_dirs e bound TARGET_PARENT) (\<lambda>ps. io_return (Home_folders ps))
    | Some d \<Rightarrow> io_bind (mirror_home e bound d) (\<lambda>m. io_return (Mirrored m)))"

text \<open>\<open>try \<dots> finally logout\<close>: an exception of the logout replaces the outcome.\<close>

definition with_session :: "'h sid_env \<Rightarrow> string \<Rightarrow> ('h, 'a) sid_io \<Rightarrow> ('h, 'a) sid_io" where
  "with_session e sid work = (\<lambda>s. case work s of (v, s1) \<Rightarrow>
     (case exchange e (Sid_logout sid) s1 of (Inl x, s2) \<Rightarrow> (Inl x, s2) | (Inr _, s2) \<Rightarrow> (v, s2)))"

definition sid_main :: "'h sid_env \<Rightarrow> nat \<Rightarrow> string list \<Rightarrow> string option \<Rightarrow> int option \<Rightarrow> ('h, bool \<times> sid_output) sid_io" where
  "sid_main e bound file otp depth =
     (let env = parse_env file Map.empty in
      io_guard (list_all (\<lambda>k. truthy (env k)) [''SYNOLOGY_BASE_URL'', ''SYNOLOGY_USER'', ''SYNOLOGY_PASS''])
        (Sid_failed ''Missing setting'')
       (io_bind (login e env otp) (\<lambda>(sid, device).
          with_session e sid (io_bind (sid_work e bound depth) (\<lambda>x. io_return (device, x))))))"


section \<open>Facts\<close>

text \<open>The copy of \<open>canonical\<close> agrees with the service's.\<close>

lemma sid_canonical_same:
  "sid_canonical p = (case canonical p of Inl _ \<Rightarrow> Inl Sid_value | Inr c \<Rightarrow> Inr c)"
proof -
  have "list_ex (\<lambda>part. part \<in> {''.'', ''..''}) (filter (\<lambda>part. part \<noteq> '''') xs) =
      list_ex (\<lambda>part. part = ''.'' \<or> part = ''..'') xs" for xs
    by (induction xs) auto
  then show ?thesis by (simp add: sid_canonical_def canonical_def from_components_def components_def Let_def)
qed

lemma listed_canonical: "listed_paths files = Inr ps \<Longrightarrow> p \<in> set ps \<Longrightarrow> \<exists>q. canonical q = Inr p"
  by (auto simp: listed_paths_def sid_canonical_same dest!: res_map_member split: sum.splits)

lemma sid_pages_canonical:
  "sid_pages e folder n offset s = (Inr ps, s1) \<Longrightarrow> p \<in> set ps \<Longrightarrow> \<exists>q. canonical q = Inr p"
proof (induction e folder n offset arbitrary: s ps rule: sid_pages.induct)
  case (2 e folder n offset)
  then show ?case by (auto simp: io_bind_Inr_iff Let_def dest: listed_canonical split: if_splits)
qed simp

text \<open>
  A session that was opened is closed: whatever the work does, the last request is the logout of its
  identifier.
\<close>

lemma session_is_closed: "with_session e sid work s = (v, (h1, sent)) \<Longrightarrow> sent \<noteq> [] \<and> last sent = Sid_logout sid"
  by (auto simp: with_session_def exchange_def split: prod.splits option.splits sum.splits)

lemma sid_main_closes:
  assumes "sid_main e bound file otp depth s = (v, (h1, sent))"
    and "login e (parse_env file Map.empty) otp s = (Inr (sid, device), s1)"
    and "\<forall>k\<in>{''SYNOLOGY_BASE_URL'', ''SYNOLOGY_USER'', ''SYNOLOGY_PASS''}. truthy (parse_env file Map.empty k)"
  shows "last sent = Sid_logout sid"
  using assms session_is_closed by (fastforce simp: sid_main_def io_bind_app Let_def)

end
