(* ===== verification/Spec2Isabelle.thy ===== *)
theory Spec2Isabelle
imports Filename Lease Config Synology_Safety Matching Notion_Client Candidate Intents Destinations
  Routing_Jobs Reassignment Reroute Disk Storage Cleanup File_Transfer Pipeline_Demo Scan Non_Interview
  Calls_Demo Onboarding_Demo Client_Demo
  Operator_Tools Sid_Inventory
begin

text \<open>
  A verification development for the Recording-Agent, a Python service that looks after the recordings of
  job interviews.  It lists the recordings on the recruiters' Yandex disks, matches each to a meeting of
  the recruiter's calendar, finds the candidate's Notion card, copies the file to a Synology file station
  (or an S3 store, MinIO, in tests), puts the share link on the card, waits for the mail that summarises
  the call, marks the source file as processed and, much later, moves it to the trash.  What it cannot
  decide it asks the recruiter in Mattermost; the answers, and some commands, come back through the
  OpenClaw agent as HTTP calls.  File names below are relative to \<open>src/app\<close> where nothing else is said.

  \<^bold>\<open>How the program is modelled.\<close>  A row of a table is a record with the source's columns, an enumeration
  is a datatype, a request body or a decoded JSON value is a record or a value of the type \<open>json\<close>.  A
  function of the source that has no effect is a HOL function; one that raises returns a sum whose left
  side is its exception; one that talks to a service or to the database is a state transformer
  (\<open>Prelude\<close>: \<open>io\<close>, with \<open>io_bind\<close>, \<open>io_guard\<close>, \<open>io_lift\<close>, \<open>io_catch\<close>) over a world that holds the
  database and the servers.  A database session is a pair of the rows as the session sees them (\<open>w_db\<close>)
  and as they were last committed (\<open>w_saved\<close>): a commit copies the first to the second, a roll-back the
  second to the first, and an exception that leaves a session rolls it back.  A server is an arbitrary
  function from its state and a request to its next state and answer, so that every theorem holds for
  every server, unless it names what it relies on as a hypothesis.  Instants are integers in
  microseconds, the columns of the database being aware of their time zone (the \<open>ValueError\<close>s of the
  code for naive times have no counterpart); confidences and their threshold are integers, in
  hundredths; text is a HOL string, read as the code points 0..255, and messages with other characters
  are values of a small datatype (\<open>Tables\<close>).

  \<^bold>\<open>What is a parameter.\<close>  Unicode normal forms and case folding, SHA-256 and HMAC digests, UUIDs and
  random tokens, the clock, time zones, regular expressions given by a recruiter, the parsers of XML,
  iCalendar, e-mail and HTML, and the clients of third-party packages (httpx, aiobotocore, imaplib) are
  arguments of the definitions that use them, mostly as fields of the record \<open>outside\<close> of \<open>Agent\<close>.  What
  these libraries do inside one request stays in that argument: the redirects and proxies that the
  command line's \<open>urlopen\<close> follows are part of \<open>ce_send\<close>, and Pydantic's conversion of one value to the type
  of a field is \<open>as_coerce\<close>.  Laws that a theorem needs of a parameter are named (\<open>normal_form\<close> for NFKC,
  \<open>keeps_typed\<close> for Pydantic, \<open>truthful\<close> and \<open>honest\<close> for the file station) and hold of a concrete one.

  \<^bold>\<open>Theories.\<close>
  \<^item> \<open>Prelude\<close>: text, JSON, errors, state transformers with their rules, keyed lists of rows.
    \<open>Tables\<close>: the rows shared by the services, messages, the database and the services' world.
    \<open>Urls\<close>: \<open>urlsplit\<close>.  \<open>Agent\<close>: the whole agent, with the disks, mailboxes, calendars and storages.
  \<^item> \<open>Recording\<close> (\<open>db/models/recording.py\<close>, \<open>services/status.py\<close>): the status machine.  Reachability is an
    inductive relation, a measure bounds the automatic moves, and what follows for every operation that
    follows the table of transitions is a locale, interpreted on both the row's and the service's.
  \<^item> \<open>Filename\<close>, \<open>Synology_Path\<close>, \<open>Synology_Client\<close>, \<open>Synology_Safety\<close> (\<open>services/filename.py\<close>,
    \<open>tools/synology.py\<close>): names, path confinement (a locale, interpreted on the canonical
    paths), the file station's client, and what its uploads and moves guarantee.
  \<^item> \<open>Lease\<close> (\<open>scheduler/cron.py\<close>, processing leases): the contract of a conditional update is a locale,
    interpreted here on the recordings' lease, in \<open>Intents\<close> on the claims of intents, in \<open>Reviews\<close> on the
    claims of messages and in \<open>Routing_Jobs\<close> on the dispatch lease.
  \<^item> \<open>Config\<close>, \<open>Signals\<close> (\<open>config.py\<close>, \<open>services/canary.py\<close>, \<open>services/recruiter_schema.py\<close>,
    \<open>db/models/recruiter_config.py\<close>): settings, test mode, the recruiters' own property names and signals.
  \<^item> \<open>Matching\<close>, \<open>Candidate\<close> (\<open>services/matching.py\<close>, \<open>services/candidate.py\<close>): choosing an event and a card.
  \<^item> \<open>Notion_Pages\<close>, \<open>Notion_Client\<close> (\<open>tools/notion.py\<close>), \<open>Mattermost\<close> (\<open>tools/mattermost.py\<close>), \<open>Tokens\<close>,
    \<open>Disk\<close> (\<open>services/yandex_token_manager.py\<close>, \<open>tools/disk.py\<close>), \<open>Storage\<close> (\<open>services/storage.py\<close>), \<open>Mail\<close>
    (\<open>tools/mail_imap.py\<close>, \<open>services/summary_email.py\<close>), \<open>Calendars\<close> (\<open>tools/calendar.py\<close>): the clients.
  \<^item> \<open>Intents\<close>, \<open>Destinations\<close>, \<open>Reviews\<close>, \<open>Question_Queue\<close>, \<open>Routing_Jobs\<close>, \<open>Reassignment\<close>, \<open>Reroute\<close>,
    \<open>Cleanup\<close>, \<open>Non_Interview\<close>, \<open>File_Transfer\<close>: the file of \<open>services/\<close> of the same name (\<open>Reassignment\<close> is
    \<open>notion_reassignment.py\<close>, \<open>File_Transfer\<close> is \<open>transfer.py\<close>).
  \<^item> \<open>Pipeline\<close>, \<open>Pipeline_Run\<close>, \<open>Pipeline_Demo\<close>, \<open>Scan\<close> (\<open>scheduler/cron.py\<close>): a worker's run on one recording,
    what it guarantees, one run of it evaluated, and the scan, digest, clean-up and outbox jobs.
  \<^item> \<open>Tool_Calls\<close>, \<open>Router_Calls\<close> (\<open>routers/tools.py\<close>, \<open>routers/events.py\<close>, \<open>routers/routing_jobs.py\<close>,
    \<open>routers/calendars.py\<close>): the handlers of the HTTP calls, from a decoded body to the answer; \<open>Calls_Demo\<close>
    evaluates some.
  \<^item> \<open>Client_Script\<close>, \<open>Client_Parser\<close>, \<open>Client_Messages\<close>: the command line that OpenClaw runs
    (\<open>src/openclaw/skills/recording-agent/scripts/recording_agent.py\<close>), its requests, its options and what it
    prints; \<open>Client_Demo\<close> evaluates runs of it.
  \<^item> \<open>Onboarding\<close>, \<open>Onboarding_Demo\<close> (\<open>src/tools/setup/configure_recruiter.py\<close>): the operator's commands that
    create, check and activate a recruiter, and such a sequence evaluated.  \<open>Operator_Tools\<close>, \<open>Sid_Inventory\<close>:
    the other tools of \<open>src/tools/setup\<close>, run by hand.

  \<^bold>\<open>What the lemmas show.\<close>  The abstract specification of a recording's life is the relation of stages in
  \<open>Pipeline_Run\<close>: \<open>worker_follows_the_stages\<close> shows that every committed row of a worker's run, first or
  resumed, is reached by it, and \<open>no_completion_without_card\<close> that none gets past its card unless, in that
  run, Notion accepted the recording's link on the recording's page (\<open>cards_since\<close> reads the acceptance
  off the answers of the server to the requests in the client's log).  Around it stand the safety of the single parts: a recording is stored only under an allowed
  root and never over another owner's file, an answer is accepted once and only from the recruiter it
  was asked of, a message is posted at most once, a card is cleared only after the other holds the link,
  a lease has one holder, only confirmed sources are trashed, an active recruiter has all that the preflights
  ask for, and the command line calls nothing but the machine it runs on, for the recruiter it was given.
  \<open>multipart_is_the_reference_cut\<close> is the
  equivalence of the streaming upload with a cut of the whole body; the properties named \<open>bounded\<close> state
  what the loops over pages and retries may send.  The loops over retries, polls and pages recurse on
  the bound the source gives them.  The two that the source leaves open, the pages of a disk's listing and
  of a Notion query, recurse on a bound that is a field of the settings of the model (\<open>sc_pages\<close>) or an
  argument; \<open>listing_is_complete\<close> shows which bound gives the whole listing.  The listings of \<open>Sid_Inventory\<close> have a
  bound whose end is an error of its own.  Every other recursion is
  structural or has a termination proof.

  \<^bold>\<open>Not modelled.\<close>  Interleaving inside one call: a handler runs to its end before the next begins, except
  that the leases, claims and intents, which exist to order concurrent workers, are stated as single
  statements whose runs may follow each other in any order; of the outbox, a worker's selection and its
  take are separate steps (\<open>outbox_step\<close>), a delivery is one.  Row locks, lost races on unique keys,
  logging, traces and metrics are left out, as are the wiring of the application (\<open>main.py\<close>, engine,
  health check, tracing router) and the Alembic migrations.  The rows that the database deletes with a
  recording in a reset are an argument.  A Russian text of the command
  line is stood for by its meaning, and the words of a command are given to it as \<open>argparse\<close> splits them.
  The decoding of HTTP bodies by FastAPI and pydantic is the type of the request record.  A replayed
  scan answers the stored object without reading it through \<open>ScanResponse\<close> again; the replays of the
  routing and summary calls go through their response models (\<open>model_validate\<close>).
\<close>

end
